(* ===== verification/Prelude.thy ===== *)
theory Prelude
  imports Main "HOL-Library.Word" "HOL-Library.Char_ord" "HOL-Library.List_Lexorder"
begin

text \<open>
  Shared vocabulary of the development: bytes and strings, machine integers, results with
  error codes, the ASCII tests of the Rust standard library, decimal and hexadecimal
  printing, UTF-8 decoding, and the scans for strictly ascending or duplicate-free lists
  that almost every validator of the repository performs.
\<close>

named_theorems res_simps \<open>rewriting of fallible computations\<close>
named_theorems valid_simps \<open>unfolding of the validators' leaf predicates\<close>

section \<open>Bytes, strings, machine integers\<close>

text \<open>
  A Rust \<^verbatim>\<open>Vec<u8>\<close>, \<^verbatim>\<open>&[u8]\<close> or \<^verbatim>\<open>String\<close> is the list of its bytes; HOL's
  \<^typ>\<open>char\<close> is exactly one byte, so literals stay readable. Comparison of strings in Rust is
  bytewise lexicographic, which is the order of \<open>List_Lexorder\<close> over \<open>Char_ord\<close>.
\<close>

type_synonym bytes = "char list"
type_synonym u64 = "64 word"
type_synonym u32 = "32 word"
type_synonym usize = "64 word"

abbreviation ord :: "char \<Rightarrow> nat" where
  "ord c \<equiv> of_char c"

definition u64_max :: nat where
  "u64_max = 18446744073709551615"

definition checked_add :: "'a::len word \<Rightarrow> 'a word \<Rightarrow> 'a word option" where
  "checked_add x y = (if unat x + unat y < 2 ^ LENGTH('a) then Some (x + y) else None)"

definition checked_sub :: "'a::len word \<Rightarrow> 'a word \<Rightarrow> 'a word option" where
  "checked_sub x y = (if y \<le> x then Some (x - y) else None)"

definition checked_mul :: "'a::len word \<Rightarrow> 'a word \<Rightarrow> 'a word option" where
  "checked_mul x y = (if unat x * unat y < 2 ^ LENGTH('a) then Some (x * y) else None)"

definition saturating_sub :: "'a::len word \<Rightarrow> 'a word \<Rightarrow> 'a word" where
  "saturating_sub x y = (if y \<le> x then x - y else 0)"

definition saturating_add :: "'a::len word \<Rightarrow> 'a word \<Rightarrow> 'a word" where
  "saturating_add x y = (if unat x + unat y < 2 ^ LENGTH('a) then x + y else - 1)"

definition saturating_mul :: "'a::len word \<Rightarrow> 'a word \<Rightarrow> 'a word" where
  "saturating_mul x y = (if unat x * unat y < 2 ^ LENGTH('a) then x * y else - 1)"

lemma unat_plus_no_wrap:
  fixes x y :: "'a::len word"
  assumes "unat x + unat y < 2 ^ LENGTH('a)"
  shows "unat (x + y) = unat x + unat y"
  using assms by (simp add: unat_word_ariths)

lemma unat_mult_no_wrap:
  fixes x y :: "'a::len word"
  assumes "unat x * unat y < 2 ^ LENGTH('a)"
  shows "unat (x * y) = unat x * unat y"
  using assms by (simp add: unat_word_ariths)

lemma checked_add_Some:
  "checked_add x y = Some z \<longleftrightarrow>
    unat x + unat y < 2 ^ LENGTH('a) \<and> z = (x :: 'a::len word) + y"
  by (auto simp: checked_add_def)

lemma checked_add_unat: "checked_add x y = Some z \<Longrightarrow> unat z = unat x + unat y"
  by (auto simp: checked_add_Some unat_plus_no_wrap)

lemma checked_mul_Some:
  "checked_mul x y = Some z \<longleftrightarrow>
    unat x * unat y < 2 ^ LENGTH('a) \<and> z = (x :: 'a::len word) * y"
  by (auto simp: checked_mul_def)

lemma unat_u64_of_nat: "n < 2 ^ 64 \<Longrightarrow> unat (word_of_nat n :: u64) = n"
  by (simp add: unat_of_nat take_bit_nat_eq_self)

lemma unat_u64_less: "unat (x :: u64) < 2 ^ 64"
  using unsigned_less [of x] by simp

lemma unat_u32_less: "unat (x :: u32) < 2 ^ 32"
  using unsigned_less [of x] by simp

lemma unat_ucast_up: "unat (ucast (i :: u32) :: u64) = unat i"
  using unat_u32_less [of i] by (simp add: unsigned_ucast_eq take_bit_nat_eq_self)

lemma checked_mul_unat: "checked_mul x y = Some z \<Longrightarrow> unat z = unat x * unat y"
  by (auto simp: checked_mul_def unat_mult_no_wrap split: if_splits)

lemma unat_saturating_sub: "unat (saturating_sub x y) = unat x - unat y"
  by (auto simp: saturating_sub_def unat_sub word_le_nat_alt)

lemma unat_all_ones: "unat (- 1 :: 'a::len word) = 2 ^ LENGTH('a) - 1"
  by (simp add: unsigned_minus_1_eq_mask mask_eq_exp_minus_1)

lemma unat_saturating_add:
  "unat (saturating_add x y) = min (2 ^ LENGTH('a) - 1) (unat x + unat (y :: 'a::len word))"
  by (auto simp: saturating_add_def unat_plus_no_wrap unat_all_ones)

lemma unat_saturating_mul:
  "unat (saturating_mul x y) = min (2 ^ LENGTH('a) - 1) (unat x * unat (y :: 'a::len word))"
  by (auto simp: saturating_mul_def unat_mult_no_wrap unat_all_ones)

section \<open>Results\<close>

text \<open>
  \<^verbatim>\<open>ValidationError\<close> (tools/tsp/src/manifest.rs) carries a stable \<open>code\<close>, a human-readable
  message and a remediation. No code of the repository branches on the last two; the model
  keeps the code. \<open>Panic\<close> stands for a Rust panic (an index out of range, an \<open>expect\<close>).
\<close>

datatype validation_error = VErr string | Panic

type_synonym 'a res = "validation_error + 'a"

definition bindR :: "'e + 'a \<Rightarrow> ('a \<Rightarrow> 'e + 'b) \<Rightarrow> 'e + 'b" where
  "bindR m f = (case m of Inl e \<Rightarrow> Inl e | Inr x \<Rightarrow> f x)"

definition reject :: "bool \<Rightarrow> string \<Rightarrow> unit res" where
  "reject bad code = (if bad then Inl (VErr code) else Inr ())"

definition ok_or :: "string \<Rightarrow> 'a option \<Rightarrow> 'a res" where
  "ok_or code m = (case m of None \<Rightarrow> Inl (VErr code) | Some x \<Rightarrow> Inr x)"

definition index :: "'a list \<Rightarrow> nat \<Rightarrow> 'a res" where
  "index xs i = (if i < length xs then Inr (xs ! i) else Inl Panic)"

lemma bindR_simps [simp]:
  "bindR (Inl e) f = Inl e" "bindR (Inr x) f = f x"
  by (simp_all add: bindR_def)

lemma bindR_Inr_iff [res_simps]:
  "bindR m f = Inr y \<longleftrightarrow> (\<exists>x. m = Inr x \<and> f x = Inr y)"
  by (cases m) simp_all

lemma bindR_Inl_iff:
  "bindR m f = Inl e \<longleftrightarrow> m = Inl e \<or> (\<exists>x. m = Inr x \<and> f x = Inl e)"
  by (cases m) simp_all

lemma reject_Inr_iff [res_simps]: "reject bad code = Inr u \<longleftrightarrow> \<not> bad"
  by (simp add: reject_def)

lemma reject_Inl_iff: "reject bad code = Inl e \<longleftrightarrow> bad \<and> e = VErr code"
  by (auto simp: reject_def)

lemma reject_False [simp]: "reject False code = Inr ()"
  by (simp add: reject_def)

lemma reject_True [simp]: "reject True code = Inl (VErr code)"
  by (simp add: reject_def)

lemma ok_or_Inr_iff [res_simps]: "ok_or code m = Inr x \<longleftrightarrow> m = Some x"
  by (simp add: ok_or_def split: option.splits)

lemma ok_or_Inl_iff: "ok_or code m = Inl e \<longleftrightarrow> m = None \<and> e = VErr code"
  by (auto simp: ok_or_def split: option.splits)

lemma ok_or_simps [simp]: "ok_or code None = Inl (VErr code)" "ok_or code (Some x) = Inr x"
  by (simp_all add: ok_or_def)

lemma index_Inr_iff [res_simps]: "index xs i = Inr x \<longleftrightarrow> i < length xs \<and> x = xs ! i"
  by (auto simp: index_def)

lemma index_Inl_iff: "index xs i = Inl e \<longleftrightarrow> length xs \<le> i \<and> e = Panic"
  by (auto simp: index_def)

text \<open>A computation that stops in a Rust panic instead of returning a \<^verbatim>\<open>Result\<close>.\<close>

definition panics :: "'a res \<Rightarrow> bool" where
  "panics m \<longleftrightarrow> m = Inl Panic"

lemma panics_simps [simp]:
  "\<not> panics (Inr x)" "\<not> panics (Inl (VErr code))" "\<not> panics (reject bad code)"
  "\<not> panics (ok_or code m)"
  by (auto simp: panics_def reject_Inl_iff ok_or_Inl_iff)

lemma panics_bindR: "panics (bindR m f) \<longleftrightarrow> panics m \<or> (\<exists>x. m = Inr x \<and> panics (f x))"
  by (cases m) (simp_all add: panics_def)

lemma panics_index: "panics (index xs i) \<longleftrightarrow> length xs \<le> i"
  by (simp add: panics_def index_Inl_iff)

section \<open>ASCII classes\<close>

definition is_digit :: "char \<Rightarrow> bool" where
  "is_digit c \<longleftrightarrow> 48 \<le> ord c \<and> ord c \<le> 57"

definition is_lower :: "char \<Rightarrow> bool" where
  "is_lower c \<longleftrightarrow> 97 \<le> ord c \<and> ord c \<le> 122"

definition is_upper :: "char \<Rightarrow> bool" where
  "is_upper c \<longleftrightarrow> 65 \<le> ord c \<and> ord c \<le> 90"

definition is_alnum :: "char \<Rightarrow> bool" where
  "is_alnum c \<longleftrightarrow> is_digit c \<or> is_lower c \<or> is_upper c"

definition is_hexdigit :: "char \<Rightarrow> bool" where
  "is_hexdigit c \<longleftrightarrow> is_digit c \<or> (97 \<le> ord c \<and> ord c \<le> 102) \<or> (65 \<le> ord c \<and> ord c \<le> 70)"

definition is_lower_hex :: "char \<Rightarrow> bool" where
  "is_lower_hex c \<longleftrightarrow> is_digit c \<or> (97 \<le> ord c \<and> ord c \<le> 102)"

lemmas ascii_defs = is_digit_def is_lower_def is_upper_def is_alnum_def is_hexdigit_def
  is_lower_hex_def

definition to_lower :: "char \<Rightarrow> char" where
  "to_lower c = (if is_upper c then char_of (ord c + 32) else c)"

definition eq_ignore_case :: "string \<Rightarrow> string \<Rightarrow> bool" where
  "eq_ignore_case s t \<longleftrightarrow> map to_lower s = map to_lower t"

definition starts_with :: "string \<Rightarrow> string \<Rightarrow> bool" where
  "starts_with s p \<longleftrightarrow> take (length p) s = p"

lemma starts_with_append [simp]: "starts_with (p @ s) p"
  by (simp add: starts_with_def)

text \<open>\<^verbatim>\<open>str::split(sep)\<close>: the pieces between separators, never an empty list.\<close>

fun split_on :: "char \<Rightarrow> string \<Rightarrow> string list" where
  "split_on sep [] = [[]]"
| "split_on sep (c # cs) =
     (if c = sep then [] # split_on sep cs
      else case split_on sep cs of
             [] \<Rightarrow> [[c]]
           | p # ps \<Rightarrow> (c # p) # ps)"

lemma split_on_not_Nil [simp]: "split_on sep s \<noteq> []"
  by (induction s) (auto split: list.splits)

text \<open>Splitting loses nothing: joining the pieces with the separator gives the string back.\<close>

fun join_with :: "char \<Rightarrow> string list \<Rightarrow> string" where
  "join_with sep [] = []"
| "join_with sep [p] = p"
| "join_with sep (p # q # ps) = p @ sep # join_with sep (q # ps)"

lemma join_with_Cons: "ps \<noteq> [] \<Longrightarrow> join_with sep (p # ps) = p @ sep # join_with sep ps"
  by (cases ps) simp_all

lemma join_split_on: "join_with sep (split_on sep s) = s"
proof (induction s)
  case Nil
  then show ?case by simp
next
  case (Cons c cs)
  obtain p ps where sp: "split_on sep cs = p # ps"
    by (cases "split_on sep cs") auto
  show ?case
    using Cons sp by (cases ps) (auto simp: join_with_Cons)
qed

lemma split_on_pieces: "p \<in> set (split_on sep s) \<Longrightarrow> sep \<notin> set p"
proof (induction s arbitrary: p)
  case Nil
  then show ?case by simp
next
  case (Cons c cs)
  then show ?case
    by (cases "split_on sep cs") (auto split: if_splits)
qed

lemma set_join_with: "set (join_with sep ps) \<subseteq> insert sep (\<Union> (set ` set ps))"
  by (induction sep ps rule: join_with.induct) auto

lemma split_on_chars: "c \<in> set s \<Longrightarrow> c = sep \<or> (\<exists>p\<in>set (split_on sep s). c \<in> set p)"
  using set_join_with [of sep "split_on sep s"] by (auto simp: join_split_on)

section \<open>Strictly ascending lists\<close>

text \<open>\<^verbatim>\<open>xs.windows(2).all(|p| p[0] < p[1])\<close>: neighbouring elements ascend strictly.\<close>

fun ascending :: "'a::linorder list \<Rightarrow> bool" where
  "ascending [] = True"
| "ascending [x] = True"
| "ascending (x # y # zs) = (x < y \<and> ascending (y # zs))"

lemma ascending_iff: "ascending xs \<longleftrightarrow> sorted_wrt (<) xs"
proof (induction xs rule: ascending.induct)
  case (3 x y zs)
  then show ?case by (auto intro: less_trans)
qed simp_all

lemma ascending_Cons: "ascending (x # xs) \<longleftrightarrow> (xs \<noteq> [] \<longrightarrow> x < hd xs) \<and> ascending xs"
  by (cases xs) simp_all

lemma ascending_distinct: "ascending xs \<Longrightarrow> distinct xs"
  by (simp add: ascending_iff strict_sorted_iff)

text \<open>\<^verbatim>\<open>xs.binary_search(x).is_ok()\<close>, halving the range that can still hold the value.\<close>

function bsearch :: "'a::linorder list \<Rightarrow> 'a \<Rightarrow> nat \<Rightarrow> nat \<Rightarrow> bool" where
  "bsearch xs x lo hi =
     (if hi \<le> lo then False
      else let mid = (lo + hi) div 2
           in if xs ! mid = x then True
              else if xs ! mid < x then bsearch xs x (Suc mid) hi
              else bsearch xs x lo mid)"
  by pat_completeness auto
termination by (relation "measure (\<lambda>(xs, x, lo, hi). hi - lo)") auto

declare bsearch.simps [simp del]

definition binary_search :: "'a::linorder list \<Rightarrow> 'a \<Rightarrow> bool" where
  "binary_search xs x = bsearch xs x 0 (length xs)"

lemma bsearch_iff:
  assumes "sorted_wrt (<) xs" and "hi \<le> length xs"
  shows "bsearch xs x lo hi \<longleftrightarrow> (\<exists>i. lo \<le> i \<and> i < hi \<and> xs ! i = x)"
  using assms
proof (induction xs x lo hi rule: bsearch.induct)
  case (1 xs x lo hi)
  let ?mid = "(lo + hi) div 2"
  have less: "i < j \<Longrightarrow> j < hi \<Longrightarrow> xs ! i < xs ! j" for i j
    using 1 sorted_wrt_nth_less [of "(<)" xs i j] by auto
  show ?case
  proof (cases "hi \<le> lo")
    case False
    then have mid: "lo \<le> ?mid" "?mid < hi" by auto
    consider "xs ! ?mid = x" | "xs ! ?mid < x" | "x < xs ! ?mid" by fastforce
    then show ?thesis
    proof cases
      case 1
      with mid False show ?thesis by (subst bsearch.simps) auto
    next
      case 2
      then have "xs ! i = x \<Longrightarrow> lo \<le> i \<Longrightarrow> i < hi \<Longrightarrow> Suc ?mid \<le> i" for i
        using less [of i ?mid] mid by (metis Suc_leI linorder_neqE_nat order_less_asym order_less_irrefl)
      then have "(\<exists>i. lo \<le> i \<and> i < hi \<and> xs ! i = x) \<longleftrightarrow> (\<exists>i. Suc ?mid \<le> i \<and> i < hi \<and> xs ! i = x)"
        using mid(1) by (intro iff_exI) auto
      moreover have "bsearch xs x lo hi = bsearch xs x (Suc ?mid) hi"
        using 2 False bsearch.simps [of xs x lo hi] by (auto simp: Let_def)
      moreover have "bsearch xs x (Suc ?mid) hi \<longleftrightarrow> (\<exists>i. Suc ?mid \<le> i \<and> i < hi \<and> xs ! i = x)"
        by (rule "1.IH"(1)) (use 2 False "1.prems" in auto)
      ultimately show ?thesis by simp
    next
      case 3
      then have "xs ! i = x \<Longrightarrow> lo \<le> i \<Longrightarrow> i < hi \<Longrightarrow> i < ?mid" for i
        using less [of ?mid i] mid by (metis linorder_neqE_nat order_less_asym order_less_irrefl)
      then have "(\<exists>i. lo \<le> i \<and> i < hi \<and> xs ! i = x) \<longleftrightarrow> (\<exists>i. lo \<le> i \<and> i < ?mid \<and> xs ! i = x)"
        using mid(2) by (intro iff_exI) auto
      moreover have "bsearch xs x lo hi = bsearch xs x lo ?mid"
        using 3 False bsearch.simps [of xs x lo hi] by (auto simp: Let_def)
      moreover have "bsearch xs x lo ?mid \<longleftrightarrow> (\<exists>i. lo \<le> i \<and> i < ?mid \<and> xs ! i = x)"
        by (rule "1.IH"(2)) (use 3 False mid "1.prems" in auto)
      ultimately show ?thesis by simp
    qed
  qed (subst bsearch.simps, auto)
qed

lemma binary_search_iff: "ascending xs \<Longrightarrow> binary_search xs x \<longleftrightarrow> x \<in> set xs"
  by (auto simp: binary_search_def bsearch_iff ascending_iff in_set_conv_nth)

end
