(* ===== verification/Text.thy ===== *)
theory Text
  imports Prelude
begin

text \<open>
  Text as the Rust standard library sees it: UTF-8 validity and the split of a string into
  its encoded scalar values (\<^verbatim>\<open>str::from_utf8\<close>, \<^verbatim>\<open>str::chars\<close>), \<^verbatim>\<open>str::trim\<close>,
  \<^verbatim>\<open>char::is_control\<close>, decimal printing (\<^verbatim>\<open>{}\<close>, \<^verbatim>\<open>{:02}\<close>), \<^verbatim>\<open>str::parse::<usize>\<close>
  and lower-case hexadecimal printing. The lemmas give the round trips and the bounds that
  the stage evaluators and the framing layer need.
\<close>

section \<open>UTF-8\<close>

definition cont :: "char \<Rightarrow> bool" where
  "cont c \<longleftrightarrow> 128 \<le> ord c \<and> ord c \<le> 191"

definition lead2 :: "char \<Rightarrow> bool" where
  "lead2 a \<longleftrightarrow> 194 \<le> ord a \<and> ord a \<le> 223"

definition lead3 :: "char \<Rightarrow> char \<Rightarrow> bool" where
  "lead3 a b \<longleftrightarrow>
     (ord a = 224 \<and> 160 \<le> ord b \<and> ord b \<le> 191)
   \<or> (225 \<le> ord a \<and> ord a \<le> 236 \<and> cont b)
   \<or> (ord a = 237 \<and> 128 \<le> ord b \<and> ord b \<le> 159)
   \<or> (238 \<le> ord a \<and> ord a \<le> 239 \<and> cont b)"

definition lead4 :: "char \<Rightarrow> char \<Rightarrow> bool" where
  "lead4 a b \<longleftrightarrow>
     (ord a = 240 \<and> 144 \<le> ord b \<and> ord b \<le> 191)
   \<or> (241 \<le> ord a \<and> ord a \<le> 243 \<and> cont b)
   \<or> (ord a = 244 \<and> 128 \<le> ord b \<and> ord b \<le> 143)"

text \<open>The well-formed byte sequences of the Unicode standard, one group per scalar value.\<close>

fun utf8_chars :: "bytes \<Rightarrow> bytes list option" where
  "utf8_chars [] = Some []"
| "utf8_chars (a # s) =
     (if ord a < 128 then map_option (Cons [a]) (utf8_chars s)
      else case s of
        [] \<Rightarrow> None
      | b # s1 \<Rightarrow>
          if lead2 a \<and> cont b then map_option (Cons [a, b]) (utf8_chars s1)
          else case s1 of
            [] \<Rightarrow> None
          | c # s2 \<Rightarrow>
              if lead3 a b \<and> cont c then map_option (Cons [a, b, c]) (utf8_chars s2)
              else case s2 of
                [] \<Rightarrow> None
              | d # s3 \<Rightarrow>
                  if lead4 a b \<and> cont c \<and> cont d
                  then map_option (Cons [a, b, c, d]) (utf8_chars s3)
                  else None)"

declare utf8_chars.simps(2) [simp del]

lemma utf8_chars_ascii_Cons [simp]:
  "ord a < 128 \<Longrightarrow> utf8_chars (a # s) = map_option (Cons [a]) (utf8_chars s)"
  by (simp add: utf8_chars.simps(2))

definition is_utf8 :: "bytes \<Rightarrow> bool" where
  "is_utf8 s \<longleftrightarrow> utf8_chars s \<noteq> None"

fun scalar_value :: "bytes \<Rightarrow> nat" where
  "scalar_value [a] = ord a"
| "scalar_value [a, b] = (ord a mod 32) * 64 + ord b mod 64"
| "scalar_value [a, b, c] = (ord a mod 16) * 4096 + (ord b mod 64) * 64 + ord c mod 64"
| "scalar_value [a, b, c, d] =
     (ord a mod 8) * 262144 + (ord b mod 64) * 4096 + (ord c mod 64) * 64 + ord d mod 64"
| "scalar_value _ = 0"

definition is_control :: "nat \<Rightarrow> bool" where
  "is_control v \<longleftrightarrow> v \<le> 31 \<or> (127 \<le> v \<and> v \<le> 159)"

definition is_whitespace :: "nat \<Rightarrow> bool" where
  "is_whitespace v \<longleftrightarrow> (9 \<le> v \<and> v \<le> 13) \<or> v = 32 \<or> v = 133 \<or> v = 160 \<or> v = 5760
     \<or> (8192 \<le> v \<and> v \<le> 8202) \<or> v = 8232 \<or> v = 8233 \<or> v = 8239 \<or> v = 8287 \<or> v = 12288"

definition str_trim :: "bytes \<Rightarrow> bytes" where
  "str_trim s = (case utf8_chars s of
     None \<Rightarrow> s
   | Some gs \<Rightarrow>
       (let ws = (\<lambda>g. is_whitespace (scalar_value g))
        in concat (rev (dropWhile ws (rev (dropWhile ws gs))))))"

text \<open>The text of a string value has no control character (\<^verbatim>\<open>chars().any(char::is_control)\<close>).\<close>

definition no_control :: "bytes \<Rightarrow> bool" where
  "no_control s = (case utf8_chars s of
     None \<Rightarrow> False
   | Some gs \<Rightarrow> list_all (\<lambda>g. \<not> is_control (scalar_value g)) gs)"

lemma utf8_chars_concat: "utf8_chars s = Some gs \<Longrightarrow> concat gs = s"
proof (induction s arbitrary: gs rule: utf8_chars.induct)
  case (2 a s)
  from "2.prems" show ?case
    by (subst (asm) utf8_chars.simps(2)) (auto split: if_splits list.splits dest: "2.IH")
qed simp

definition ascii :: "bytes \<Rightarrow> bool" where
  "ascii s \<longleftrightarrow> list_all (\<lambda>c. ord c < 128) s"

definition printable :: "bytes \<Rightarrow> bool" where
  "printable s \<longleftrightarrow> list_all (\<lambda>c. 32 \<le> ord c \<and> ord c \<le> 126) s"

lemma printable_simps [simp]:
  "printable []"
  "printable (c # s) \<longleftrightarrow> 32 \<le> ord c \<and> ord c \<le> 126 \<and> printable s"
  "printable (s @ t) \<longleftrightarrow> printable s \<and> printable t"
  by (auto simp: printable_def)

lemma utf8_chars_ascii: "ascii s \<Longrightarrow> utf8_chars s = Some (map (\<lambda>c. [c]) s)"
  by (induction s) (auto simp: ascii_def)

lemma printable_ascii: "printable s \<Longrightarrow> ascii s"
  by (auto simp: printable_def ascii_def list_all_iff)

lemma printable_no_control: "printable s \<Longrightarrow> no_control s"
  by (auto simp: no_control_def utf8_chars_ascii [OF printable_ascii] printable_def
      is_control_def list_all_iff)

lemma printable_no_nul: "printable s \<Longrightarrow> CHR 0x00 \<notin> set s"
  by (auto simp: printable_def list_all_iff)

lemma is_utf8_ascii: "ascii s \<Longrightarrow> is_utf8 s"
  by (simp add: is_utf8_def utf8_chars_ascii)

lemma concat_map_single [simp]: "concat (map (\<lambda>c. [c]) s) = s"
  by (induction s) auto

lemma dropWhile_hd: "xs \<noteq> [] \<Longrightarrow> \<not> P (hd xs) \<Longrightarrow> dropWhile P xs = xs"
  by (cases xs) auto

lemma str_trim_ascii_id:
  assumes "ascii s" and "s \<noteq> []"
    and "\<not> is_whitespace (ord (hd s))" and "\<not> is_whitespace (ord (last s))"
  shows "str_trim s = s"
proof -
  let ?ws = "\<lambda>g. is_whitespace (scalar_value g)"
  let ?gs = "map (\<lambda>c. [c]) s"
  have "dropWhile ?ws ?gs = ?gs"
    using assms by (intro dropWhile_hd) (auto simp: hd_map)
  moreover have "dropWhile ?ws (rev ?gs) = rev ?gs"
    using assms by (intro dropWhile_hd) (auto simp: hd_rev last_map)
  ultimately show ?thesis
    using assms by (simp add: str_trim_def utf8_chars_ascii)
qed

lemma str_trim_leading_space:
  assumes "ascii s" and "s \<noteq> []"
    and "\<not> is_whitespace (ord (hd s))" and "\<not> is_whitespace (ord (last s))"
  shows "str_trim (CHR '' '' # s) = s"
proof -
  have ws: "is_whitespace (ord CHR '' '')"
    by (simp add: is_whitespace_def)
  have "str_trim (CHR '' '' # s) = str_trim s"
    using assms(1) ws by (simp add: str_trim_def utf8_chars_ascii)
  then show ?thesis using str_trim_ascii_id [OF assms] by simp
qed

section \<open>Decimal\<close>

definition digit_char :: "nat \<Rightarrow> char" where
  "digit_char d = char_of (48 + d)"

fun dec :: "nat \<Rightarrow> string" where
  "dec n = (if n < 10 then [digit_char n] else dec (n div 10) @ [digit_char (n mod 10)])"

declare dec.simps [simp del]

definition pad0 :: "nat \<Rightarrow> string \<Rightarrow> string" where
  "pad0 w s = replicate (w - length s) CHR ''0'' @ s"

definition dec2 :: "nat \<Rightarrow> string" where
  "dec2 n = pad0 2 (dec n)"

fun parse_digits :: "nat \<Rightarrow> string \<Rightarrow> nat option" where
  "parse_digits acc [] = Some acc"
| "parse_digits acc (c # cs) =
     (if is_digit c then parse_digits (acc * 10 + (ord c - 48)) cs else None)"

text \<open>
  \<^verbatim>\<open>s.parse::<usize>()\<close> on a 64-bit target: an optional plus sign, at least one digit, no
  overflow. The overflow checks Rust makes per digit are the check of the final value, since
  the accumulator never decreases.
\<close>

definition fits_usize :: "nat option \<Rightarrow> nat option" where
  "fits_usize m = (case m of None \<Rightarrow> None | Some n \<Rightarrow> if n \<le> u64_max then Some n else None)"

definition parse_usize :: "string \<Rightarrow> nat option" where
  "parse_usize s =
     (case s of
        [] \<Rightarrow> None
      | c # cs \<Rightarrow>
          if (c = CHR ''+'' \<or> c = CHR ''-'') \<and> cs = [] then None
          else fits_usize (parse_digits 0 (if c = CHR ''+'' then cs else s)))"

lemma ord_digit_char: "d < 10 \<Longrightarrow> ord (digit_char d) = 48 + d"
  by (simp add: digit_char_def)

lemma is_digit_digit_char: "d < 10 \<Longrightarrow> is_digit (digit_char d)"
  by (simp add: is_digit_def ord_digit_char)

lemma dec_not_Nil [simp]: "dec n \<noteq> []"
  by (subst dec.simps) simp

lemma dec_digits: "c \<in> set (dec n) \<Longrightarrow> is_digit c"
proof (induction n arbitrary: c rule: dec.induct)
  case (1 n)
  then show ?case
    by (subst (asm) dec.simps) (auto simp: is_digit_digit_char split: if_splits)
qed

lemma printable_dec [simp]: "printable (dec n)"
  using dec_digits [of _ n] by (fastforce simp: printable_def list_all_iff is_digit_def)

lemma length_dec_le: "n < 10 ^ k \<Longrightarrow> 0 < k \<Longrightarrow> length (dec n) \<le> k"
proof (induction n arbitrary: k rule: dec.induct)
  case (1 n)
  show ?case
  proof (cases "n < 10")
    case True
    with 1 show ?thesis by (subst dec.simps) simp
  next
    case False
    with 1 obtain j where k: "k = Suc j" "0 < j"
      by (cases k; cases "k = 1") auto
    then have "length (dec (n div 10)) \<le> j"
      using 1 False by (simp add: less_mult_imp_div_less mult.commute)
    with False k show ?thesis by (subst dec.simps) simp
  qed
qed

lemma length_dec_u64: "length (dec (unat (x :: u64))) \<le> 20"
proof (rule length_dec_le)
  have "unat x < 2 ^ 64" using unsigned_less [of x] by simp
  then show "unat x < 10 ^ 20" by simp
qed simp

lemma length_dec_u32: "length (dec (unat (x :: u32))) \<le> 10"
proof (rule length_dec_le)
  have "unat x < 2 ^ 32" using unsigned_less [of x] by simp
  then show "unat x < 10 ^ 10" by simp
qed simp

lemma printable_dec2 [simp]: "printable (dec2 n)"
  by (simp add: dec2_def pad0_def printable_def list_all_iff)
     (use printable_dec [of n] in \<open>auto simp: printable_def list_all_iff\<close>)

lemma length_dec2: "n < 100 \<Longrightarrow> length (dec2 n) = 2"
  using length_dec_le [of n 2] dec_not_Nil [of n]
  by (cases "dec n") (auto simp: dec2_def pad0_def)

lemma parse_digits_append:
  "parse_digits acc (s @ t) =
     (case parse_digits acc s of None \<Rightarrow> None | Some a \<Rightarrow> parse_digits a t)"
  by (induction s arbitrary: acc) auto

lemma parse_digits_dec: "parse_digits 0 (dec n) = Some n"
proof (induction n rule: dec.induct)
  case (1 n)
  show ?case
  proof (cases "n < 10")
    case True
    then show ?thesis
      by (subst dec.simps) (simp add: is_digit_digit_char ord_digit_char)
  next
    case False
    with 1 show ?thesis
      by (subst dec.simps)
         (simp add: parse_digits_append is_digit_digit_char ord_digit_char)
  qed
qed

lemma parse_usize_dec: "n \<le> u64_max \<Longrightarrow> parse_usize (dec n) = Some n"
proof -
  assume n: "n \<le> u64_max"
  obtain c cs where s: "dec n = c # cs" by (cases "dec n") auto
  have "is_digit c" using dec_digits [of c n] s by simp
  then have "c \<noteq> CHR ''+''" "c \<noteq> CHR ''-''" by (auto simp: is_digit_def)
  with n s parse_digits_dec [of n] show ?thesis
    by (simp add: parse_usize_def fits_usize_def)
qed

lemma dec_inj: "dec m = dec n \<Longrightarrow> m = n"
  by (metis option.inject parse_digits_dec)

lemma fits_usize_bound: "fits_usize m = Some n \<Longrightarrow> n \<le> u64_max"
  by (simp add: fits_usize_def split: option.splits if_splits)

lemma parse_usize_bound: "parse_usize s = Some n \<Longrightarrow> n \<le> u64_max"
  by (cases s) (auto simp: parse_usize_def simp del: parse_digits.simps dest: fits_usize_bound split: if_splits)

lemma digit_not_whitespace: "is_digit c \<Longrightarrow> \<not> is_whitespace (ord c)"
  by (auto simp: is_digit_def is_whitespace_def)

lemma str_trim_space_dec: "str_trim (CHR '' '' # dec n) = dec n"
proof (rule str_trim_leading_space)
  show "\<not> is_whitespace (ord (hd (dec n)))"
    by (rule digit_not_whitespace, rule dec_digits [of _ n]) simp
  show "\<not> is_whitespace (ord (last (dec n)))"
    by (rule digit_not_whitespace, rule dec_digits [of _ n]) simp
qed (simp_all add: printable_ascii)

section \<open>Hexadecimal\<close>

definition hex_digit :: "nat \<Rightarrow> char" where
  "hex_digit d = (if d < 10 then char_of (48 + d) else char_of (87 + d))"

fun hex :: "bytes \<Rightarrow> string" where
  "hex [] = []"
| "hex (b # bs) = hex_digit (ord b div 16) # hex_digit (ord b mod 16) # hex bs"

lemma length_hex [simp]: "length (hex bs) = 2 * length bs"
  by (induction bs) simp_all

lemma ord_div_16: "ord c div 16 < 16"
  by (rule less_mult_imp_div_less) simp

lemma is_lower_hex_hex_digit: "d < 16 \<Longrightarrow> is_lower_hex (hex_digit d)"
  by (simp add: hex_digit_def is_lower_hex_def is_digit_def)

lemma hex_lower: "list_all is_lower_hex (hex bs)"
proof (induction bs)
  case (Cons b bs)
  then show ?case by (simp add: is_lower_hex_hex_digit ord_div_16)
qed simp

lemma hex_digit_inj: "a < 16 \<Longrightarrow> b < 16 \<Longrightarrow> hex_digit a = hex_digit b \<Longrightarrow> a = b"
  by (auto simp: hex_digit_def split: if_splits
      dest!: arg_cong [where f = "of_char :: char \<Rightarrow> nat"])

lemma hex_inj: "hex a = hex b \<Longrightarrow> a = b"
proof (induction a arbitrary: b)
  case Nil
  then show ?case by (cases b) auto
next
  case (Cons x a)
  then obtain y b' where b: "b = y # b'" by (cases b) auto
  have "ord x div 16 = ord y div 16" "ord x mod 16 = ord y mod 16"
    using Cons.prems b
    by (auto intro: hex_digit_inj simp: ord_div_16)
  then have "ord x = ord y" by (metis div_mult_mod_eq)
  then have "x = y" by simp
  with Cons b show ?case by simp
qed

end
