(* ===== verification/Encoding.thy ===== *)
theory Encoding
  imports Text
begin

text \<open>
  Canonical byte encodings: big-endian integers (\<^verbatim>\<open>to_be_bytes\<close>) and length-prefixed
  fields, as \<^verbatim>\<open>append_u64\<close> and \<^verbatim>\<open>append_field\<close> of tools/tsp/src/certification_trust.rs
  write them. Every signed message and every identity hash of the repository is a sequence of
  these; the locale \<open>prefix_code\<close> states what makes such sequences unambiguous, and the two
  encoders are its first instances.
\<close>

fun be :: "nat \<Rightarrow> nat \<Rightarrow> bytes" where
  "be 0 n = []"
| "be (Suc k) n = be k (n div 256) @ [char_of (n mod 256)]"

definition u64_be :: "u64 \<Rightarrow> bytes" where
  "u64_be x = be 8 (unat x)"

definition u32_be :: "u32 \<Rightarrow> bytes" where
  "u32_be x = be 4 (unat x)"

definition append_u64 :: "bytes \<Rightarrow> u64 \<Rightarrow> bytes" where
  "append_u64 output value = output @ u64_be value"

definition append_field :: "bytes \<Rightarrow> bytes \<Rightarrow> bytes" where
  "append_field output value = append_u64 output (word_of_nat (length value)) @ value"

text \<open>The bytes \<open>append_field\<close> adds.\<close>

definition field :: "bytes \<Rightarrow> bytes" where
  "field value = u64_be (word_of_nat (length value)) @ value"

lemma append_field_eq: "append_field output value = output @ field value"
  by (simp add: append_field_def append_u64_def field_def)

lemma length_be [simp]: "length (be k n) = k"
  by (induction k arbitrary: n) simp_all

lemma length_u64_be [simp]: "length (u64_be x) = 8"
  by (simp add: u64_be_def)

lemma be_inj: "m < 256 ^ k \<Longrightarrow> n < 256 ^ k \<Longrightarrow> be k m = be k n \<Longrightarrow> m = n"
proof (induction k arbitrary: m n)
  case 0
  then show ?case by simp
next
  case (Suc k)
  from Suc.prems(3) have eq: "be k (m div 256) = be k (n div 256)"
    and c: "(char_of (m mod 256) :: char) = char_of (n mod 256)" by simp_all
  from c have "ord (char_of (m mod 256)) = ord (char_of (n mod 256))" by (rule arg_cong)
  then have md: "m mod 256 = n mod 256" by simp
  have "m div 256 < 256 ^ k" "n div 256 < 256 ^ k"
    using Suc.prems(1,2) by (simp_all add: less_mult_imp_div_less mult.commute)
  with eq have "m div 256 = n div 256" by (rule Suc.IH [rotated 2])
  with md show ?case by (metis div_mult_mod_eq)
qed

lemma u64_be_inj: "u64_be x = u64_be y \<Longrightarrow> x = y"
proof -
  assume "u64_be x = u64_be y"
  moreover have "unat x < 256 ^ 8" "unat y < 256 ^ 8"
    using unsigned_less [of x] unsigned_less [of y] by simp_all
  ultimately have "unat x = unat y"
    unfolding u64_be_def by (metis be_inj)
  then show "x = y" by (simp add: word_unat_eq_iff)
qed

section \<open>Unambiguous encodings\<close>

text \<open>
  An encoder is a prefix code on a domain when an encoded value can be read off the front of
  any continuation in at most one way. Messages that concatenate such pieces are injective.
\<close>

locale prefix_code =
  fixes enc :: "'a \<Rightarrow> bytes"
    and good :: "'a \<Rightarrow> bool"
  assumes unique: "good x \<Longrightarrow> good y \<Longrightarrow> enc x @ r = enc y @ s \<Longrightarrow> x = y \<and> r = s"
begin

lemma head_eq: "good x \<Longrightarrow> good y \<Longrightarrow> enc x @ r = enc y @ s \<Longrightarrow> x = y"
  using unique by blast

lemma rest_eq: "good x \<Longrightarrow> good y \<Longrightarrow> enc x @ r = enc y @ s \<Longrightarrow> r = s"
  using unique by blast

lemma append_eq_iff: "good x \<Longrightarrow> good y \<Longrightarrow> enc x @ r = enc y @ s \<longleftrightarrow> x = y \<and> r = s"
  using unique by blast

lemma inj: "good x \<Longrightarrow> good y \<Longrightarrow> enc x = enc y \<Longrightarrow> x = y"
  using unique [of x y "[]" "[]"] by simp

lemma eq_iff: "good x \<Longrightarrow> good y \<Longrightarrow> enc x = enc y \<longleftrightarrow> x = y"
  using inj by blast

lemma sequence_unique:
  assumes "length xs = length ys" and "list_all good xs" and "list_all good ys"
    and "concat (map enc xs) @ r = concat (map enc ys) @ s"
  shows "xs = ys \<and> r = s"
  using assms
proof (induction xs ys arbitrary: r s rule: list_induct2)
  case (Cons x xs y ys)
  then have eq: "enc x @ (concat (map enc xs) @ r) = enc y @ (concat (map enc ys) @ s)"
    and g: "good x" "good y" by simp_all
  from unique [OF g eq] have "x = y"
    and "concat (map enc xs) @ r = concat (map enc ys) @ s" by simp_all
  moreover from Cons.prems have "list_all good xs" "list_all good ys" by simp_all
  ultimately show ?case using Cons.IH [of r s] by simp
qed simp

end

lemma same_length_append_eq:
  "length a = length b \<Longrightarrow> a @ r = b @ s \<Longrightarrow> a = b \<and> r = s"
  by simp

interpretation u64_code: prefix_code u64_be "\<lambda>_. True"
  by unfold_locales (simp, metis u64_be_inj)

lemma length_of_nat_u64:
  "length v < 2 ^ 64 \<Longrightarrow> length w < 2 ^ 64 \<Longrightarrow>
    (word_of_nat (length v) :: u64) = word_of_nat (length w) \<Longrightarrow> length v = length w"
proof -
  assume l: "length v < 2 ^ 64" "length w < 2 ^ 64"
    and eq: "(word_of_nat (length v) :: u64) = word_of_nat (length w)"
  have "unat (word_of_nat (length v) :: u64) = unat (word_of_nat (length w) :: u64)"
    using eq by simp
  with l show "length v = length w" by (simp add: unat_of_nat take_bit_nat_eq_self)
qed

definition field_ok :: "bytes \<Rightarrow> bool" where
  "field_ok v \<longleftrightarrow> length v < 2 ^ 64"

interpretation field_code: prefix_code field field_ok
proof unfold_locales
  fix x y r s
  assume ok: "field_ok x" "field_ok y" and eq: "field x @ r = field y @ s"
  then have "u64_be (word_of_nat (length x)) @ (x @ r) = u64_be (word_of_nat (length y)) @ (y @ s)"
    by (simp add: field_def)
  then have w: "(word_of_nat (length x) :: u64) = word_of_nat (length y)" and t: "x @ r = y @ s"
    by (simp_all only: u64_code.append_eq_iff [OF TrueI TrueI])
  from w ok have "length x = length y"
    by (intro length_of_nat_u64) (simp_all add: field_ok_def)
  then show "x = y \<and> r = s" using t by simp
qed

end
