(* ===== verification/Json.thy ===== *)
theory Json
  imports Text
begin

text \<open>
  JSON values, and the repository's two guards against ambiguous documents: the visitor
  \<^verbatim>\<open>UniqueJson\<close> behind \<^verbatim>\<open>validate_unambiguous_json\<close> (tools/tsp/src/superec.rs) and the
  visitor \<^verbatim>\<open>Strict\<close> of the SDK (sdk/rust/tokensaver-plugin/src/context_json.rs), which also
  rebuilds the value. The parser that drives both (serde_json) is a parameter: it turns bytes
  into the tree of visitor events, where an object is the list of its members in document
  order and may repeat a key.
\<close>

datatype json_number =
    PosInt "64 word"  \<comment> \<open>a \<^verbatim>\<open>u64\<close>\<close>
  | NegInt "64 word"  \<comment> \<open>a negative \<^verbatim>\<open>i64\<close>, two's complement\<close>
  | Float "64 word"   \<comment> \<open>an \<^verbatim>\<open>f64\<close>, its bits\<close>

datatype json =
    JNull
  | JBool bool
  | JNum json_number
  | JStr string
  | JArr "json list"
  | JObj "(string \<times> json) list"

text \<open>\<^verbatim>\<open>Value::get\<close>, \<^verbatim>\<open>as_str\<close>, \<^verbatim>\<open>as_i64\<close>, and \<^verbatim>\<open>value[key]\<close> (\<open>Null\<close> where there is no member).\<close>

fun json_get :: "json \<Rightarrow> string \<Rightarrow> json option" where
  "json_get (JObj kvs) k = map_of kvs k"
| "json_get _ k = None"

definition json_index :: "json \<Rightarrow> string \<Rightarrow> json" where
  "json_index v k = (case json_get v k of None \<Rightarrow> JNull | Some x \<Rightarrow> x)"

fun json_as_str :: "json \<Rightarrow> string option" where
  "json_as_str (JStr s) = Some s"
| "json_as_str _ = None"

fun json_as_i64 :: "json \<Rightarrow> int option" where
  "json_as_i64 (JNum (PosInt n)) = (if uint n < 2 ^ 63 then Some (uint n) else None)"
| "json_as_i64 (JNum (NegInt n)) = Some (sint n)"
| "json_as_i64 _ = None"

definition json_int :: "int \<Rightarrow> json" where
  "json_int i = JNum (if 0 \<le> i then PosInt (word_of_int i) else NegInt (word_of_int i))"

section \<open>No duplicate members at any depth\<close>

fun unique_json :: "json \<Rightarrow> bool"
  and unique_items :: "json list \<Rightarrow> bool"
  and unique_members :: "string list \<Rightarrow> (string \<times> json) list \<Rightarrow> bool"
where
  "unique_json JNull = True"
| "unique_json (JBool b) = True"
| "unique_json (JNum n) = True"
| "unique_json (JStr s) = True"
| "unique_json (JArr xs) = unique_items xs"
| "unique_json (JObj kvs) = unique_members [] kvs"
| "unique_items [] = True"
| "unique_items (x # xs) = (unique_json x \<and> unique_items xs)"
| "unique_members names [] = True"
| "unique_members names ((k, v) # kvs) =
     (if k \<in> set names then False else unique_json v \<and> unique_members (k # names) kvs)"

definition validate_unambiguous_json :: "(bytes \<Rightarrow> json option) \<Rightarrow> bytes \<Rightarrow> bool" where
  "validate_unambiguous_json parse data =
     (case parse data of None \<Rightarrow> False | Some tree \<Rightarrow> unique_json tree)"

text \<open>The specification: every object inside the document has distinct member names.\<close>

inductive inside :: "json \<Rightarrow> json \<Rightarrow> bool" where
  inside_refl: "inside v v"
| inside_item: "x \<in> set xs \<Longrightarrow> inside y x \<Longrightarrow> inside y (JArr xs)"
| inside_member: "(k, x) \<in> set kvs \<Longrightarrow> inside y x \<Longrightarrow> inside y (JObj kvs)"

inductive_cases inside_JArrE: "inside y (JArr xs)"
inductive_cases inside_JObjE: "inside y (JObj kvs)"

inductive_simps inside_leaf [simp]:
  "inside y JNull" "inside y (JBool b)" "inside y (JNum n)" "inside y (JStr s)"

definition distinct_members :: "json \<Rightarrow> bool" where
  "distinct_members v \<longleftrightarrow> (\<forall>kvs. inside (JObj kvs) v \<longrightarrow> distinct (map fst kvs))"

lemma unique_items_iff: "unique_items xs \<longleftrightarrow> list_all unique_json xs"
  by (induction xs) simp_all

lemma unique_members_iff:
  "unique_members names kvs \<longleftrightarrow>
     distinct (map fst kvs) \<and> (\<forall>kv\<in>set kvs. fst kv \<notin> set names)
     \<and> list_all (\<lambda>kv. unique_json (snd kv)) kvs"
  by (induction kvs arbitrary: names) (force split: prod.splits if_splits)+

lemma inside_JArr_iff: "inside y (JArr xs) \<longleftrightarrow> y = JArr xs \<or> (\<exists>x\<in>set xs. inside y x)"
  by (auto elim: inside_JArrE intro: inside.intros)

lemma inside_JObj_iff: "inside y (JObj kvs) \<longleftrightarrow> y = JObj kvs \<or> (\<exists>kv\<in>set kvs. inside y (snd kv))"
  by (force elim: inside_JObjE intro: inside.intros)

lemma distinct_members_simps:
  "distinct_members JNull" "distinct_members (JBool b)" "distinct_members (JNum n)"
  "distinct_members (JStr s)"
  "distinct_members (JArr xs) \<longleftrightarrow> (\<forall>x\<in>set xs. distinct_members x)"
  "distinct_members (JObj kvs) \<longleftrightarrow>
     distinct (map fst kvs) \<and> (\<forall>kv\<in>set kvs. distinct_members (snd kv))"
  by (auto simp: distinct_members_def inside_JArr_iff inside_JObj_iff)

lemma unique_json_iff: "unique_json v \<longleftrightarrow> distinct_members v"
  by (induction v)
     (auto simp: distinct_members_simps unique_items_iff unique_members_iff list_all_iff)

section \<open>The strict value\<close>

text \<open>
  A \<^verbatim>\<open>BTreeMap\<close>, as \<^verbatim>\<open>serde_json::Map\<close> is one: its members are kept in the order of their keys.
\<close>

fun map_insert :: "'k::linorder \<Rightarrow> 'v \<Rightarrow> ('k \<times> 'v) list \<Rightarrow> ('k \<times> 'v) list" where
  "map_insert k v [] = [(k, v)]"
| "map_insert k v ((k', v') # kvs) =
     (if k < k' then (k, v) # (k', v') # kvs
      else if k = k' then (k, v) # kvs
      else (k', v') # map_insert k v kvs)"

text \<open>\<^verbatim>\<open>Number::from_f64\<close> refuses infinities and NaNs: all exponent bits set.\<close>

definition f64_finite :: "64 word \<Rightarrow> bool" where
  "f64_finite bits \<longleftrightarrow> drop_bit 52 (take_bit 63 bits) \<noteq> 2047"

fun strict_value :: "json \<Rightarrow> json option"
  and strict_items :: "json list \<Rightarrow> json list option"
  and strict_members :: "(string \<times> json) list \<Rightarrow> (string \<times> json) list
        \<Rightarrow> (string \<times> json) list option"
where
  "strict_value JNull = Some JNull"
| "strict_value (JBool b) = Some (JBool b)"
| "strict_value (JNum n) =
     (case n of Float bits \<Rightarrow> if f64_finite bits then Some (JNum n) else None | _ \<Rightarrow> Some (JNum n))"
| "strict_value (JStr s) = Some (JStr s)"
| "strict_value (JArr xs) = map_option JArr (strict_items xs)"
| "strict_value (JObj kvs) = map_option JObj (strict_members [] kvs)"
| "strict_items [] = Some []"
| "strict_items (x # xs) =
     (case strict_value x of
        None \<Rightarrow> None
      | Some v \<Rightarrow> map_option (Cons v) (strict_items xs))"
| "strict_members acc [] = Some acc"
| "strict_members acc ((k, v) # kvs) =
     (if k \<in> set (map fst acc) then None
      else case strict_value v of
             None \<Rightarrow> None
           | Some v' \<Rightarrow> strict_members (map_insert k v' acc) kvs)"

definition context_json_from_slice :: "(bytes \<Rightarrow> json option) \<Rightarrow> bytes \<Rightarrow> json option" where
  "context_json_from_slice parse data =
     (case parse data of None \<Rightarrow> None | Some tree \<Rightarrow> strict_value tree)"

lemma map_insert_keys: "set (map fst (map_insert k v kvs)) = insert k (set (map fst kvs))"
  by (induction k v kvs rule: map_insert.induct) auto

lemma map_of_map_insert: "map_of (map_insert k v kvs) = (map_of kvs)(k \<mapsto> v)"
  by (induction k v kvs rule: map_insert.induct) (auto simp: fun_eq_iff)

lemma strict_members_keys:
  "strict_members acc kvs = Some out \<Longrightarrow>
     distinct (map fst kvs) \<and> (\<forall>kv\<in>set kvs. fst kv \<notin> set (map fst acc))"
proof (induction kvs arbitrary: acc)
  case (Cons kv kvs)
  obtain k v where kv: "kv = (k, v)" by (cases kv)
  with Cons.prems obtain v' where "k \<notin> set (map fst acc)"
    and "strict_members (map_insert k v' acc) kvs = Some out"
    by (auto split: if_splits option.splits)
  with Cons.IH [of "map_insert k v' acc"] kv show ?case
    by (auto simp: map_insert_keys [unfolded set_map])
qed simp

lemma strict_members_values:
  "strict_members acc kvs = Some out \<Longrightarrow> (k, v) \<in> set kvs \<Longrightarrow> strict_value v \<noteq> None"
  by (induction kvs arbitrary: acc) (auto split: if_splits option.splits)

lemma strict_members_lookup:
  "strict_members acc kvs = Some out \<Longrightarrow>
     map_of out k = (case map_of kvs k of None \<Rightarrow> map_of acc k | Some v \<Rightarrow> strict_value v)"
proof (induction kvs arbitrary: acc)
  case (Cons kv kvs)
  obtain k' v where kv: "kv = (k', v)" by (cases kv)
  with Cons.prems obtain v' where v': "strict_value v = Some v'"
    and sm: "strict_members (map_insert k' v' acc) kvs = Some out"
    by (auto split: if_splits option.splits)
  have "k' \<notin> set (map fst kvs)"
    using strict_members_keys [OF sm] by (auto simp: map_insert_keys [unfolded set_map])
  then have "map_of kvs k' = None" by (simp add: map_of_eq_None_iff)
  with Cons.IH [OF sm] kv v' show ?case
    by (simp add: map_of_map_insert split: option.splits)
qed simp

lemma strict_items_values:
  "strict_items xs = Some ys \<Longrightarrow> x \<in> set xs \<Longrightarrow> strict_value x \<noteq> None"
  by (induction xs arbitrary: ys) (auto split: option.splits)

lemma strict_value_unique: "strict_value v = Some v' \<Longrightarrow> distinct_members v"
proof (induction v arbitrary: v')
  case (JArr xs)
  then show ?case
    by (auto simp: distinct_members_simps dest: strict_items_values)
next
  case (JObj kvs)
  then obtain out where sm: "strict_members [] kvs = Some out" by auto
  have "distinct_members (snd kv)" if kv: "kv \<in> set kvs" for kv
  proof -
    from kv sm obtain w where "strict_value (snd kv) = Some w"
      using strict_members_values [of "[]" kvs out "fst kv" "snd kv"] by auto
    with JObj.IH kv show ?thesis by (metis prod.collapse snds.intros)
  qed
  with strict_members_keys [OF sm] show ?case by (simp add: distinct_members_simps)
qed (simp_all add: distinct_members_simps)

text \<open>Lookups in the strict value are the strict values of lookups in the document.\<close>

lemma strict_value_get:
  "strict_value v = Some v' \<Longrightarrow> json_get v' k = Option.bind (json_get v k) strict_value"
  by (cases v)
     (auto simp: strict_members_lookup split: option.splits json_number.splits if_splits)

end
