(* ===== verification/Deps.thy ===== *)
theory Deps
  imports Encoding Json
begin

text \<open>
  The third-party primitives the certification code calls (crates sha2, base64,
  ed25519-dalek and the parser of serde_json) are parameters of the model, collected in the
  record \<open>deps\<close>; what the code relies on is stated by the predicates \<open>sha256_length\<close> and \<open>base64_roundtrip\<close>, which
  the theorems that need them take as hypotheses. The digest, token and text predicates that
  every certification module repeats are defined here once, from
  tools/tsp/src/certification.rs.
\<close>

record deps =
  sha256 :: "bytes \<Rightarrow> bytes"
  b64_encode :: "bytes \<Rightarrow> string"
  b64_decode :: "string \<Rightarrow> bytes option"
  ed_key_ok :: "bytes \<Rightarrow> bool" \<comment> \<open>\<^verbatim>\<open>VerifyingKey::from_bytes\<close> succeeds\<close>
  ed_verify :: "bytes \<Rightarrow> bytes \<Rightarrow> bytes \<Rightarrow> bool" \<comment> \<open>\<^verbatim>\<open>verify_strict\<close>: key, message, signature\<close>
  json_tree :: "bytes \<Rightarrow> json option" \<comment> \<open>one JSON document and nothing after it\<close>

abbreviation unambiguous :: "deps \<Rightarrow> bytes \<Rightarrow> bool" where
  "unambiguous c data \<equiv> validate_unambiguous_json (json_tree c) data"

definition sha256_length :: "deps \<Rightarrow> bool" where
  "sha256_length c \<longleftrightarrow> (\<forall>x. length (sha256 c x) = 32)"

definition base64_roundtrip :: "deps \<Rightarrow> bool" where
  "base64_roundtrip c \<longleftrightarrow> (\<forall>x. b64_decode c (b64_encode c x) = Some x)"

definition sha256_digest :: "deps \<Rightarrow> bytes \<Rightarrow> string" where
  "sha256_digest c data = ''sha256:'' @ hex (sha256 c data)"

definition valid_digest :: "string \<Rightarrow> bool" where
  "valid_digest value \<longleftrightarrow>
     length value = 71 \<and> starts_with value ''sha256:'' \<and> list_all is_lower_hex (drop 7 value)"

definition token_char :: "char \<Rightarrow> bool" where
  "token_char c \<longleftrightarrow> is_alnum c \<or> c \<in> {CHR ''.'', CHR ''-'', CHR ''_'', CHR '':'', CHR ''/''}"

definition valid_token :: "string \<Rightarrow> nat \<Rightarrow> nat \<Rightarrow> bool" where
  "valid_token value minimum maximum \<longleftrightarrow>
     minimum \<le> length value \<and> length value \<le> maximum \<and> list_all token_char value"

definition valid_text :: "string \<Rightarrow> nat \<Rightarrow> nat \<Rightarrow> bool" where
  "valid_text value minimum maximum \<longleftrightarrow>
     minimum \<le> length value \<and> length value \<le> maximum
     \<and> CHR 0x00 \<notin> set value \<and> no_control value"

text \<open>\<^verbatim>\<open>decode_exact::<N>\<close>: canonical base64 of exactly \<open>n\<close> bytes.\<close>

definition decode_exact :: "deps \<Rightarrow> nat \<Rightarrow> string \<Rightarrow> bytes option" where
  "decode_exact c n value =
     (case b64_decode c value of
        None \<Rightarrow> None
      | Some decoded \<Rightarrow>
          if length decoded \<noteq> n \<or> b64_encode c decoded \<noteq> value then None else Some decoded)"

lemma valid_digest_sha256 [simp]: "sha256_length c \<Longrightarrow> valid_digest (sha256_digest c x)"
  by (simp add: valid_digest_def sha256_digest_def sha256_length_def hex_lower starts_with_def)

lemma sha256_digest_inj:
  "sha256_digest c x = sha256_digest c y \<Longrightarrow> sha256 c x = sha256 c y"
  by (auto simp: sha256_digest_def dest: hex_inj)

lemma valid_text_printable:
  "printable s \<Longrightarrow> minimum \<le> length s \<Longrightarrow> length s \<le> maximum \<Longrightarrow> valid_text s minimum maximum"
  by (simp add: valid_text_def printable_no_control printable_no_nul)

lemma token_char_printable: "token_char c \<Longrightarrow> 32 \<le> ord c \<and> ord c \<le> 126"
  by (auto simp: token_char_def ascii_defs)

lemma valid_token_printable: "valid_token s m n \<Longrightarrow> printable s"
  by (auto simp: valid_token_def printable_def list_all_iff dest: token_char_printable)

lemma valid_token_length: "valid_token s m n \<Longrightarrow> length s \<le> n"
  by (simp add: valid_token_def)

lemma decode_exact_Some:
  "decode_exact c n value = Some decoded \<longleftrightarrow>
     b64_decode c value = Some decoded \<and> length decoded = n \<and> b64_encode c decoded = value"
  by (auto simp: decode_exact_def split: option.splits if_splits)

text \<open>Canonical encodings are in bijection with the bytes they stand for.\<close>

lemma decode_exact_canonical:
  "decode_exact c n v = Some d \<Longrightarrow> decode_exact c n w = Some d \<Longrightarrow> v = w"
  by (auto simp: decode_exact_Some)

lemma decode_exact_encode:
  "base64_roundtrip c \<Longrightarrow> length d = n \<Longrightarrow> decode_exact c n (b64_encode c d) = Some d"
  by (simp add: decode_exact_Some base64_roundtrip_def)

text \<open>Concrete primitives for the witnesses; they satisfy the laws above.\<close>

definition demo_deps :: deps where
  "demo_deps = \<lparr>sha256 = (\<lambda>x. take 32 (x @ replicate 32 CHR ''0'')),
     b64_encode = (\<lambda>x. x), b64_decode = Some,
     ed_key_ok = (\<lambda>_. True), ed_verify = (\<lambda>k m s. take 3 s = take 3 k),
     json_tree = (\<lambda>_. Some JNull)\<rparr>"

lemma demo_deps_laws: "sha256_length demo_deps" "base64_roundtrip demo_deps"
  by (auto simp: sha256_length_def base64_roundtrip_def demo_deps_def min_def)

end
