(* ===== verification/Manifest.thy ===== *)
theory Manifest
  imports Identity
begin

text \<open>
  tools/tsp/src/manifest.rs: the plugin manifest, its validation, and the resolution of a
  manifest on disk to the executable that will be launched. The JSON deserializer is a
  parameter; the file system and the path operations of the operating system are the record
  \<open>host\<close>. A \<^verbatim>\<open>BTreeMap\<close> is the list of its entries in key order; an \<^verbatim>\<open>i64\<close> is an
  \<^typ>\<open>int\<close> with the one narrowing cast of the code written out.
\<close>

section \<open>Data\<close>

record plugin_runtime =
  rt_kind :: string
  rt_entry :: "(string \<times> string) list"
  rt_args :: "string list"

record plugin_capabilities =
  cap_kinds :: "string list"
  cap_max_input_bytes :: int

record plugin_integrity =
  in_algorithm :: string
  in_digests :: "(string \<times> string) list"

record manifest =
  mf_api_version :: int
  mf_id :: string
  mf_name :: string
  mf_version :: string
  mf_creator_name :: string
  mf_permissions :: "string list"
  mf_runtime :: plugin_runtime
  mf_capabilities :: plugin_capabilities
  mf_time_budget_ms :: int
  mf_integrity :: "plugin_integrity option"

record resolved_plugin =
  rp_manifest_path :: string
  rp_manifest :: manifest
  rp_executable :: string
  rp_args :: "string list"
  rp_platform :: string
  rp_budget_ms :: u32
  rp_artifact_digest :: string
  rp_release_id :: string

definition manifest_max_bytes :: nat where "manifest_max_bytes = 65536"
definition default_budget_ms :: u32 where "default_budget_ms = 250"
definition min_budget_ms :: int where "min_budget_ms = 50"
definition max_budget_ms :: int where "max_budget_ms = 1000"
definition max_input_bytes :: int where "max_input_bytes = 16777216"

section \<open>Syntax of ids, versions and digests\<close>

definition manifest_digest_ok :: "string \<Rightarrow> bool" where
  "manifest_digest_ok digest \<longleftrightarrow>
     starts_with digest ''sha256:''
     \<and> (let h = drop 7 digest in
          length h = 64 \<and> list_all (\<lambda>c. is_hexdigit c \<and> \<not> is_upper c) h)"

definition valid_label :: "string \<Rightarrow> bool" where
  "valid_label label \<longleftrightarrow>
     label \<noteq> [] \<and> length label \<le> 63
     \<and> list_all (\<lambda>c. is_lower c \<or> is_digit c \<or> c = CHR ''-'') label
     \<and> is_alnum (hd label) \<and> is_alnum (last label)"

definition valid_plugin_id :: "string \<Rightarrow> bool" where
  "valid_plugin_id i \<longleftrightarrow>
     (let labels = split_on CHR ''.'' i in 3 \<le> length labels \<and> list_all valid_label labels)"

definition version_mark :: "char \<Rightarrow> bool" where
  "version_mark c \<longleftrightarrow> c = CHR ''-'' \<or> c = CHR ''+''"

definition valid_version :: "string \<Rightarrow> bool" where
  "valid_version version \<longleftrightarrow>
     (let core = takeWhile (\<lambda>c. \<not> version_mark c) version;
          rest = dropWhile (\<lambda>c. \<not> version_mark c) version;
          numbers = split_on CHR ''.'' core
      in length numbers = 3
       \<and> list_all (\<lambda>part. part \<noteq> [] \<and> list_all is_digit part) numbers
       \<and> (case rest of
            [] \<Rightarrow> True
          | _ # suffix \<Rightarrow> suffix \<noteq> []
              \<and> list_all (\<lambda>c. is_alnum c \<or> c = CHR ''.'' \<or> c = CHR ''-'') suffix))"

section \<open>Validation\<close>

definition known_kinds :: "string list" where
  "known_kinds = [''test'', ''build'', ''lint'', ''status'', ''log'']"

fun validate_kinds :: "string list \<Rightarrow> string list \<Rightarrow> unit res" where
  "validate_kinds seen [] = Inr ()"
| "validate_kinds seen (kind # kinds) =
     bindR (reject (kind \<notin> set known_kinds) ''manifest.capabilities.kinds'') (\<lambda>_.
     bindR (reject (kind \<in> set seen) ''manifest.capabilities.kinds'') (\<lambda>_.
       validate_kinds (kind # seen) kinds))"

definition validate_integrity :: "plugin_integrity \<Rightarrow> unit res" where
  "validate_integrity integrity =
     bindR (reject (in_algorithm integrity \<noteq> ''sha256'') ''integrity.algorithm'') (\<lambda>_.
       reject (in_digests integrity = []
           \<or> list_ex (\<lambda>(platform, digest). platform = [] \<or> \<not> manifest_digest_ok digest)
               (in_digests integrity))
         ''integrity.digests'')"

definition validate_manifest :: "manifest \<Rightarrow> unit res" where
  "validate_manifest m =
     bindR (reject (mf_api_version m \<noteq> 1) ''manifest.apiVersion'') (\<lambda>_.
     bindR (reject (length (mf_id m) > 128 \<or> \<not> valid_plugin_id (mf_id m)) ''manifest.id'') (\<lambda>_.
     bindR (reject (mf_name m = [] \<or> length (mf_name m) > 64) ''manifest.name'') (\<lambda>_.
     bindR (reject (\<not> valid_version (mf_version m)) ''manifest.version'') (\<lambda>_.
     bindR (reject (mf_creator_name m = []) ''manifest.creator.name'') (\<lambda>_.
     bindR (reject (mf_permissions m \<noteq> []) ''manifest.permissions'') (\<lambda>_.
     bindR (reject (rt_kind (mf_runtime m) \<noteq> ''executable'') ''manifest.runtime.kind'') (\<lambda>_.
     bindR (reject (rt_entry (mf_runtime m) = []) ''manifest.runtime.entry'') (\<lambda>_.
     bindR (reject (length (rt_args (mf_runtime m)) > 32
         \<or> list_ex (\<lambda>a. length a > 4096 \<or> CHR 0x00 \<in> set a) (rt_args (mf_runtime m)))
       ''manifest.runtime.args'') (\<lambda>_.
     bindR (validate_kinds [] (cap_kinds (mf_capabilities m))) (\<lambda>_.
     bindR (reject (\<not> (0 \<le> cap_max_input_bytes (mf_capabilities m)
         \<and> cap_max_input_bytes (mf_capabilities m) \<le> max_input_bytes))
       ''manifest.capabilities.maxInputBytes'') (\<lambda>_.
     bindR (reject (mf_time_budget_ms m \<noteq> 0
         \<and> \<not> (min_budget_ms \<le> mf_time_budget_ms m \<and> mf_time_budget_ms m \<le> max_budget_ms))
       ''manifest.limits.timeBudgetMs'') (\<lambda>_.
       case mf_integrity m of None \<Rightarrow> Inr () | Some i \<Rightarrow> validate_integrity i))))))))))))"

definition effective_time_budget_ms :: "manifest \<Rightarrow> u32" where
  "effective_time_budget_ms m =
     (if mf_time_budget_ms m = 0 then default_budget_ms else word_of_int (mf_time_budget_ms m))"

section \<open>Resolution on a host\<close>

text \<open>What \<open>std::fs\<close>, \<open>std::path\<close> and \<open>std::env::consts\<close> answer on the machine.\<close>

record host =
  host_os :: string
  host_arch :: string
  fs_is_dir :: "string \<Rightarrow> bool"
  fs_metadata :: "string \<Rightarrow> (bool \<times> nat) option" \<comment> \<open>is a regular file, its length\<close>
  fs_read :: "string \<Rightarrow> bytes option"
  fs_canonicalize :: "string \<Rightarrow> string option"
  path_join :: "string \<Rightarrow> string \<Rightarrow> string"
  path_parent :: "string \<Rightarrow> string option"
  path_is_absolute :: "string \<Rightarrow> bool"

definition platform_key :: "host \<Rightarrow> string" where
  "platform_key h =
     (if host_os h = ''macos'' then ''darwin'' else host_os h) @ ''-''
     @ (if host_arch h = ''x86_64'' then ''x64''
        else if host_arch h = ''aarch64'' then ''arm64''
        else host_arch h)"

definition is_file :: "host \<Rightarrow> string \<Rightarrow> bool" where
  "is_file h p = (case fs_metadata h p of None \<Rightarrow> False | Some (file, _) \<Rightarrow> file)"

definition check_integrity :: "plugin_integrity option \<Rightarrow> string \<Rightarrow> string \<Rightarrow> unit res" where
  "check_integrity integrity platform artifact =
     (case integrity of
        None \<Rightarrow> Inr ()
      | Some i \<Rightarrow>
          bindR (reject (in_algorithm i \<noteq> ''sha256'') ''integrity.algorithm'') (\<lambda>_.
          bindR (ok_or ''integrity.platform'' (map_of (in_digests i) platform)) (\<lambda>expected.
            reject (expected \<noteq> artifact) ''integrity.digest'')))"

definition runtime_entry :: "manifest \<Rightarrow> string \<Rightarrow> string option" where
  "runtime_entry m platform =
     (case map_of (rt_entry (mf_runtime m)) platform of
        None \<Rightarrow> None
      | Some e \<Rightarrow> if e = [] then None else Some e)"

definition load_and_resolve ::
  "deps \<Rightarrow> host \<Rightarrow> (bytes \<Rightarrow> manifest option) \<Rightarrow> string \<Rightarrow> resolved_plugin res" where
  "load_and_resolve d h parse path =
    (let manifest_path = (if fs_is_dir h path then path_join h path ''plugin.json'' else path);
         platform = platform_key h
     in bindR (ok_or ''manifest.read'' (fs_metadata h manifest_path)) (\<lambda>(file, len).
        bindR (reject (\<not> file \<or> len > manifest_max_bytes) ''manifest.size'') (\<lambda>_.
        bindR (ok_or ''manifest.read'' (fs_read h manifest_path)) (\<lambda>data.
        bindR (ok_or ''manifest.json'' (parse data)) (\<lambda>m.
        bindR (validate_manifest m) (\<lambda>_.
        bindR (ok_or ''runtime.platform'' (runtime_entry m platform)) (\<lambda>entry.
        let executable =
              (if path_is_absolute h entry then entry
               else path_join h
                 (case path_parent h manifest_path of None \<Rightarrow> ''.'' | Some p \<Rightarrow> p) entry)
        in bindR (reject (\<not> is_file h executable) ''runtime.executable'') (\<lambda>_.
           bindR (ok_or ''runtime.executable'' (fs_canonicalize h executable)) (\<lambda>canonical.
           bindR (executable_digest d (fs_read h canonical)) (\<lambda>artifact.
           bindR (check_integrity (mf_integrity m) platform artifact) (\<lambda>_.
             Inr \<lparr>rp_manifest_path = manifest_path, rp_manifest = m, rp_executable = canonical,
                  rp_args = rt_args (mf_runtime m), rp_platform = platform,
                  rp_budget_ms = effective_time_budget_ms m, rp_artifact_digest = artifact,
                  rp_release_id = release_id d (mf_id m) (mf_version m) platform artifact\<rparr>)))))))))))"

section \<open>What validation establishes\<close>

lemma manifest_digest_ok_iff: "manifest_digest_ok digest \<longleftrightarrow> valid_digest digest"
proof -
  have "is_hexdigit c \<and> \<not> is_upper c \<longleftrightarrow> is_lower_hex c" for c
    by (auto simp: ascii_defs)
  then show ?thesis
    by (auto simp: manifest_digest_ok_def valid_digest_def starts_with_def Let_def)
qed

lemma valid_plugin_id_chars:
  assumes "valid_plugin_id i" and "c \<in> set i"
  shows "is_lower c \<or> is_digit c \<or> c = CHR ''-'' \<or> c = CHR ''.''"
proof -
  from split_on_chars [OF assms(2), of "CHR ''.''"] show ?thesis
    using assms(1) by (auto simp: valid_plugin_id_def valid_label_def Let_def list_all_iff)
qed

lemma valid_plugin_id_not_Nil: "valid_plugin_id i \<Longrightarrow> i \<noteq> []"
  by (auto simp: valid_plugin_id_def)

lemma valid_plugin_id_hd:
  assumes "valid_plugin_id i"
  shows "is_alnum (hd i)"
proof -
  obtain c cs where i: "i = c # cs" using valid_plugin_id_not_Nil [OF assms] by (cases i) auto
  obtain l ls where "split_on CHR ''.'' i = l # ls" by (cases "split_on CHR ''.'' i") auto
  with assms i show ?thesis
    by (auto simp: valid_plugin_id_def valid_label_def split: if_splits list.splits)
qed

lemma validate_kinds_Inr:
  "validate_kinds seen kinds = Inr () \<longleftrightarrow>
     set kinds \<subseteq> set known_kinds \<and> distinct kinds \<and> set kinds \<inter> set seen = {}"
  by (induction kinds arbitrary: seen) (auto simp: res_simps)

lemma validate_integrity_Inr:
  "validate_integrity i = Inr () \<longleftrightarrow>
     in_algorithm i = ''sha256'' \<and> in_digests i \<noteq> []
     \<and> (\<forall>(platform, digest)\<in>set (in_digests i). platform \<noteq> [] \<and> valid_digest digest)"
  by (auto simp: validate_integrity_def res_simps list_ex_iff manifest_digest_ok_iff)

text \<open>The declarative reading of an accepted manifest.\<close>

definition manifest_contract :: "manifest \<Rightarrow> bool" where
  "manifest_contract m \<longleftrightarrow>
     mf_api_version m = 1
     \<and> length (mf_id m) \<le> 128 \<and> valid_plugin_id (mf_id m)
     \<and> mf_name m \<noteq> [] \<and> length (mf_name m) \<le> 64
     \<and> valid_version (mf_version m)
     \<and> mf_creator_name m \<noteq> []
     \<and> mf_permissions m = []
     \<and> rt_kind (mf_runtime m) = ''executable'' \<and> rt_entry (mf_runtime m) \<noteq> []
     \<and> length (rt_args (mf_runtime m)) \<le> 32
     \<and> (\<forall>a\<in>set (rt_args (mf_runtime m)). length a \<le> 4096 \<and> CHR 0x00 \<notin> set a)
     \<and> set (cap_kinds (mf_capabilities m)) \<subseteq> set known_kinds
     \<and> distinct (cap_kinds (mf_capabilities m))
     \<and> cap_max_input_bytes (mf_capabilities m) \<in> {0..max_input_bytes}
     \<and> (mf_time_budget_ms m = 0 \<or> mf_time_budget_ms m \<in> {min_budget_ms..max_budget_ms})
     \<and> (\<forall>i. mf_integrity m = Some i \<longrightarrow>
          in_algorithm i = ''sha256'' \<and> in_digests i \<noteq> []
          \<and> (\<forall>(platform, digest)\<in>set (in_digests i). platform \<noteq> [] \<and> valid_digest digest))"

lemma validate_manifest_contract: "validate_manifest m = Inr () \<longleftrightarrow> manifest_contract m"
  by (auto simp: validate_manifest_def manifest_contract_def res_simps validate_kinds_Inr
      validate_integrity_Inr list_ex_iff not_less split: option.splits)

lemma effective_budget_range:
  assumes "manifest_contract m"
  shows "50 \<le> effective_time_budget_ms m \<and> effective_time_budget_ms m \<le> 1000"
proof (cases "mf_time_budget_ms m = 0")
  case True
  then show ?thesis by (simp add: effective_time_budget_ms_def default_budget_ms_def)
next
  case False
  with assms have b: "50 \<le> mf_time_budget_ms m" "mf_time_budget_ms m \<le> 1000"
    by (auto simp: manifest_contract_def min_budget_ms_def max_budget_ms_def)
  then have "uint (word_of_int (mf_time_budget_ms m) :: u32) = mf_time_budget_ms m"
    by (simp add: uint_word_of_int)
  with False b show ?thesis
    by (simp add: effective_time_budget_ms_def word_le_def)
qed

text \<open>What a resolved plugin guarantees about the file that will be launched.\<close>

definition resolved_ok :: "deps \<Rightarrow> host \<Rightarrow> resolved_plugin \<Rightarrow> bool" where
  "resolved_ok d h rp \<longleftrightarrow>
     manifest_contract (rp_manifest rp)
     \<and> 50 \<le> rp_budget_ms rp \<and> rp_budget_ms rp \<le> 1000
     \<and> rp_args rp = rt_args (mf_runtime (rp_manifest rp))
     \<and> (\<exists>contents. fs_read h (rp_executable rp) = Some contents
          \<and> rp_artifact_digest rp = sha256_digest d contents)
     \<and> (\<forall>i. mf_integrity (rp_manifest rp) = Some i \<longrightarrow>
          map_of (in_digests i) (rp_platform rp) = Some (rp_artifact_digest rp))
     \<and> rp_release_id rp = release_id d (mf_id (rp_manifest rp)) (mf_version (rp_manifest rp))
          (rp_platform rp) (rp_artifact_digest rp)"

lemma check_integrity_Inr:
  "check_integrity integrity platform artifact = Inr () \<longleftrightarrow>
     (\<forall>i. integrity = Some i \<longrightarrow>
        in_algorithm i = ''sha256'' \<and> map_of (in_digests i) platform = Some artifact)"
  by (auto simp: check_integrity_def res_simps split: option.splits)

lemma load_and_resolve_ok:
  assumes "load_and_resolve d h parse path = Inr rp"
  shows "resolved_ok d h rp"
  using assms
  by (auto simp: load_and_resolve_def Let_def res_simps validate_manifest_contract
      check_integrity_Inr executable_digest_def resolved_ok_def effective_budget_range
      split: prod.splits)

section \<open>Properties\<close>

definition demo_manifest :: manifest where
  "demo_manifest = \<lparr>mf_api_version = 1, mf_id = ''com.example.a-1'', mf_name = ''Demo'',
     mf_version = ''1.0.0-rc.1'', mf_creator_name = ''Example'', mf_permissions = [],
     mf_runtime = \<lparr>rt_kind = ''executable'', rt_entry = [(''linux-x64'', ''bin/demo'')],
       rt_args = [''--stdio'']\<rparr>,
     mf_capabilities = \<lparr>cap_kinds = [''test'', ''log''], cap_max_input_bytes = 1024\<rparr>,
     mf_time_budget_ms = 300, mf_integrity = None\<rparr>"

definition demo_host :: host where
  "demo_host = \<lparr>host_os = ''linux'', host_arch = ''x86_64'', fs_is_dir = (\<lambda>p. p = ''/p''),
     fs_metadata = (\<lambda>p. if p \<in> {''/p/plugin.json'', ''/p/bin/demo''} then Some (True, 10) else None),
     fs_read = (\<lambda>p. if p \<in> {''/p/plugin.json'', ''/p/bin/demo''} then Some p else None),
     fs_canonicalize = Some, path_join = (\<lambda>a b. a @ ''/'' @ b),
     path_parent = (\<lambda>p. Some (take 2 p)), path_is_absolute = (\<lambda>p. take 1 p = ''/'')\<rparr>"

lemma demo_manifest_valid: "validate_manifest demo_manifest = Inr ()"
  by code_simp

text \<open>A manifest is accepted exactly when it satisfies the declarative contract: API 1, a
  reverse-DNS id, a semantic version, no permissions, an executable runtime with bounded
  arguments, known distinct kinds, bounded limits and well-formed digests.\<close>
lemma manifest_validation_exact: "validate_manifest m = Inr () \<longleftrightarrow> manifest_contract m"
  by (rule validate_manifest_contract)

text \<open>The id of an accepted manifest can be used as a file name and in a command line: it is
  lower-case printable ASCII of at most 128 bytes, without path separators, and starts with a
  letter or digit.\<close>

lemma manifest_id_path_safe:
  "validate_manifest m = Inr () \<Longrightarrow>
     0 < length (mf_id m) \<and> length (mf_id m) \<le> 128 \<and> is_alnum (hd (mf_id m))
     \<and> printable (mf_id m) \<and> set (mf_id m) \<inter> {CHR ''/'', CHR 0x5C, CHR '' '', CHR '':''} = {}"
proof -
  assume "validate_manifest m = Inr ()"
  then have v: "valid_plugin_id (mf_id m)" "length (mf_id m) \<le> 128"
    by (simp_all add: validate_manifest_contract manifest_contract_def)
  have c: "32 \<le> ord c \<and> ord c \<le> 126 \<and> c \<notin> {CHR ''/'', CHR 0x5C, CHR '' '', CHR '':''}"
    if "c \<in> set (mf_id m)" for c
    using valid_plugin_id_chars [OF v(1) that] by (auto simp: is_lower_def is_digit_def)
  have "printable (mf_id m)" using c by (auto simp: printable_def list_all_iff)
  with c v valid_plugin_id_not_Nil [OF v(1)] valid_plugin_id_hd [OF v(1)] show ?thesis by blast
qed

theorem manifest_id_path_safe_witness:
  "0 < length ''com.example.a-1'' \<and> printable ''com.example.a-1''"
  using manifest_id_path_safe [OF demo_manifest_valid] by (simp add: demo_manifest_def)

text \<open>C35: a resolved plugin is launched with a valid manifest and a time budget of 50 to 1000
  milliseconds (the narrowing cast loses nothing); its digest is the hash of the file that will
  run, equals the manifest's digest for the platform when one is declared, and with the id, the
  version and the platform determines the release id.\<close>
theorem resolution_sound:
  "load_and_resolve d h parse path = Inr rp \<Longrightarrow> resolved_ok d h rp"
  by (rule load_and_resolve_ok)

theorem resolution_sound_witness:
  "\<exists>rp. load_and_resolve demo_deps demo_host (\<lambda>_. Some demo_manifest) ''/p'' = Inr rp
     \<and> rp_executable rp = ''/p/bin/demo'' \<and> rp_budget_ms rp = 300 \<and> resolved_ok demo_deps demo_host rp"
proof -
  have i: "platform_key demo_host = ''linux-x64''" by code_simp
  have run: "load_and_resolve demo_deps demo_host (\<lambda>_. Some demo_manifest) ''/p'' = Inr
    \<lparr>rp_manifest_path = ''/p/plugin.json'', rp_manifest = demo_manifest,
     rp_executable = ''/p/bin/demo'', rp_args = [''--stdio''], rp_platform = ''linux-x64'',
     rp_budget_ms = 300, rp_artifact_digest = sha256_digest demo_deps ''/p/bin/demo'',
     rp_release_id = release_id demo_deps ''com.example.a-1'' ''1.0.0-rc.1'' ''linux-x64''
       (sha256_digest demo_deps ''/p/bin/demo'')\<rparr>"
    unfolding load_and_resolve_def i
    using demo_manifest_valid
    by (simp add: Let_def demo_host_def runtime_entry_def is_file_def manifest_max_bytes_def
        executable_digest_def check_integrity_def effective_time_budget_ms_def demo_manifest_def)
  show ?thesis using run resolution_sound [OF run] by simp
qed

end
