(* ===== verification/Certification.thy ===== *)
theory Certification
  imports Identity
begin

text \<open>
  tools/tsp/src/certification.rs: certification levels and their requirements, the subject, the
  authority and the report of a certification, and the validation of a report against the
  immutable package identity it must have been issued for.
\<close>

section \<open>Levels and requirements\<close>

datatype certification_level = Conformant | Certified | EnterpriseCertified

datatype requirement =
    ManifestValidation
  | TsppLifecycle
  | SafetyContract
  | PublicCorpusBenchmark
  | ProtocolFuzzing
  | ReproducibleBuild
  | SignedArtifact
  | Sbom
  | LicenseProvenance
  | AdminPolicyMetadata

fun level_as_u8 :: "certification_level \<Rightarrow> nat" where
  "level_as_u8 Conformant = 1"
| "level_as_u8 Certified = 2"
| "level_as_u8 EnterpriseCertified = 3"

definition level_try_from :: "nat \<Rightarrow> certification_level option" where
  "level_try_from v =
     (if v = 1 then Some Conformant
      else if v = 2 then Some Certified
      else if v = 3 then Some EnterpriseCertified
      else None)"

definition level_1_requirements :: "requirement list" where
  "level_1_requirements = [ManifestValidation, TsppLifecycle, SafetyContract]"

definition level_2_requirements :: "requirement list" where
  "level_2_requirements =
     [ManifestValidation, TsppLifecycle, SafetyContract, PublicCorpusBenchmark, ProtocolFuzzing,
      ReproducibleBuild, SignedArtifact]"

definition level_3_requirements :: "requirement list" where
  "level_3_requirements =
     [ManifestValidation, TsppLifecycle, SafetyContract, PublicCorpusBenchmark, ProtocolFuzzing,
      ReproducibleBuild, SignedArtifact, Sbom, LicenseProvenance, AdminPolicyMetadata]"

fun requirements :: "certification_level \<Rightarrow> requirement list" where
  "requirements Conformant = level_1_requirements"
| "requirements Certified = level_2_requirements"
| "requirements EnterpriseCertified = level_3_requirements"

text \<open>The derived \<^verbatim>\<open>Ord\<close> of both enums is the order of their constructors.\<close>

fun requirement_rank :: "requirement \<Rightarrow> nat" where
  "requirement_rank ManifestValidation = 0"
| "requirement_rank TsppLifecycle = 1"
| "requirement_rank SafetyContract = 2"
| "requirement_rank PublicCorpusBenchmark = 3"
| "requirement_rank ProtocolFuzzing = 4"
| "requirement_rank ReproducibleBuild = 5"
| "requirement_rank SignedArtifact = 6"
| "requirement_rank Sbom = 7"
| "requirement_rank LicenseProvenance = 8"
| "requirement_rank AdminPolicyMetadata = 9"

lemma requirement_rank_inj: "requirement_rank a = requirement_rank b \<Longrightarrow> a = b"
  by (cases a; cases b; simp)

lemma level_as_u8_inj: "level_as_u8 a = level_as_u8 b \<Longrightarrow> a = b"
  by (cases a; cases b; simp)

instantiation requirement :: linorder
begin

definition less_eq_requirement :: "requirement \<Rightarrow> requirement \<Rightarrow> bool" where
  "less_eq_requirement a b \<longleftrightarrow> requirement_rank a \<le> requirement_rank b"

definition less_requirement :: "requirement \<Rightarrow> requirement \<Rightarrow> bool" where
  "less_requirement a b \<longleftrightarrow> requirement_rank a < requirement_rank b"

instance
  by standard (auto simp: less_eq_requirement_def less_requirement_def dest: requirement_rank_inj)

end

instantiation certification_level :: linorder
begin

definition less_eq_certification_level :: "certification_level \<Rightarrow> certification_level \<Rightarrow> bool" where
  "less_eq_certification_level a b \<longleftrightarrow> level_as_u8 a \<le> level_as_u8 b"

definition less_certification_level :: "certification_level \<Rightarrow> certification_level \<Rightarrow> bool" where
  "less_certification_level a b \<longleftrightarrow> level_as_u8 a < level_as_u8 b"

instance
  by standard
     (auto simp: less_eq_certification_level_def less_certification_level_def dest: level_as_u8_inj)

end

lemma requirements_ascending: "ascending (requirements l)"
  by (cases l)
     (simp_all add: level_1_requirements_def level_2_requirements_def level_3_requirements_def
       less_requirement_def)

lemma requirements_distinct [simp]: "distinct (requirements l)"
  by (rule ascending_distinct [OF requirements_ascending])

text \<open>A higher level keeps every requirement of a lower one, as a prefix.\<close>

lemma requirements_mono: "a \<le> b \<Longrightarrow> \<exists>more. requirements b = requirements a @ more"
  by (cases a; cases b)
     (auto simp: less_eq_certification_level_def level_1_requirements_def
       level_2_requirements_def level_3_requirements_def)

lemma level_try_from_as_u8: "level_try_from (level_as_u8 l) = Some l"
  by (cases l) (simp_all add: level_try_from_def)

section \<open>Reports\<close>

record subject =
  sj_plugin_id :: string
  sj_version :: string
  sj_platform :: string
  sj_api_version :: u32
  sj_artifact_digest :: string
  sj_package_digest :: string
  sj_release_id :: string

record authority =
  au_issuer_id :: string
  au_policy_id :: string
  au_policy_version :: u32
  au_revocation_id :: string

record cert_check =
  ck_requirement :: requirement
  ck_ok :: bool
  ck_rule :: string
  ck_evidence_digest :: string
  ck_detail :: string
  ck_remediation :: string

record report =
  rep_schema_version :: u32
  rep_ok :: bool
  rep_level :: certification_level
  rep_subject :: subject
  rep_authority :: authority
  rep_checks :: "cert_check list"

definition certification_policy_id :: string where
  "certification_policy_id = ''com.tokensaver.plugin-certification''"

definition certification_policy_version :: u32 where
  "certification_policy_version = 1"

definition validate_subject :: "deps \<Rightarrow> subject \<Rightarrow> unit res" where
  "validate_subject d s =
     reject (\<not> valid_text (sj_plugin_id s) 1 128
       \<or> \<not> valid_text (sj_version s) 1 128
       \<or> \<not> valid_text (sj_platform s) 1 64
       \<or> sj_api_version s \<noteq> 1
       \<or> \<not> valid_digest (sj_artifact_digest s)
       \<or> \<not> valid_digest (sj_package_digest s)
       \<or> \<not> valid_release_id (sj_release_id s)
       \<or> sj_release_id s
           \<noteq> release_id d (sj_plugin_id s) (sj_version s) (sj_platform s) (sj_artifact_digest s))
       ''certification.subjectContract''"

definition validate_authority :: "authority \<Rightarrow> unit res" where
  "validate_authority a =
     reject (\<not> valid_token (au_issuer_id a) 1 128
       \<or> au_policy_id a \<noteq> certification_policy_id
       \<or> au_policy_version a \<noteq> certification_policy_version
       \<or> \<not> valid_token (au_revocation_id a) 1 128)
       ''certification.authority''"

text \<open>
  The loop over the checks: \<open>actual\<close> and \<open>ordered\<close> collect the requirements, \<open>failed\<close> is the
  first check that is not ok.
\<close>

fun scan_checks ::
  "requirement set \<Rightarrow> requirement list \<Rightarrow> cert_check option \<Rightarrow> cert_check list
     \<Rightarrow> (requirement set \<times> requirement list \<times> cert_check option) res"
where
  "scan_checks actual ordered failed [] = Inr (actual, ordered, failed)"
| "scan_checks actual ordered failed (c # cs) =
     bindR (reject (ck_requirement c \<in> actual) ''certification.duplicateRequirement'') (\<lambda>_.
     bindR (reject (\<not> valid_token (ck_rule c) 1 128
         \<or> \<not> valid_digest (ck_evidence_digest c)
         \<or> \<not> valid_text (ck_detail c) 1 1024
         \<or> \<not> valid_text (ck_remediation c) 1 1024)
       ''certification.checkContract'') (\<lambda>_.
       scan_checks (insert (ck_requirement c) actual) (ordered @ [ck_requirement c])
         (if \<not> ck_ok c \<and> failed = None then Some c else failed) cs))"

definition validate_certification_report_contract ::
  "deps \<Rightarrow> report \<Rightarrow> subject \<Rightarrow> bool \<Rightarrow> unit res" where
  "validate_certification_report_contract d r expected require_success =
     bindR (reject (rep_schema_version r \<noteq> 1) ''certification.schemaVersion'') (\<lambda>_.
     bindR (reject (rep_subject r \<noteq> expected) ''certification.subject'') (\<lambda>_.
     bindR (validate_subject d (rep_subject r)) (\<lambda>_.
     bindR (validate_authority (rep_authority r)) (\<lambda>_.
     bindR (scan_checks {} [] None (rep_checks r)) (\<lambda>(actual, ordered, failed).
     bindR (reject (actual \<noteq> set (requirements (rep_level r))
         \<or> ordered \<noteq> requirements (rep_level r)) ''certification.requirements'') (\<lambda>_.
     bindR (reject (require_success \<and> failed \<noteq> None) ''certification.failedRule'') (\<lambda>_.
       reject (rep_ok r \<noteq> (failed = None)) ''certification.result'')))))))"

definition validate_certification_report :: "deps \<Rightarrow> report \<Rightarrow> subject \<Rightarrow> unit res" where
  "validate_certification_report d r expected =
     validate_certification_report_contract d r expected True"

definition validate_certification_report_structure :: "deps \<Rightarrow> report \<Rightarrow> subject \<Rightarrow> unit res" where
  "validate_certification_report_structure d r expected =
     validate_certification_report_contract d r expected False"

section \<open>What an accepted report establishes\<close>

definition check_contract :: "cert_check \<Rightarrow> bool" where
  "check_contract c \<longleftrightarrow>
     valid_token (ck_rule c) 1 128 \<and> valid_digest (ck_evidence_digest c)
     \<and> valid_text (ck_detail c) 1 1024 \<and> valid_text (ck_remediation c) 1 1024"

definition subject_contract :: "deps \<Rightarrow> subject \<Rightarrow> bool" where
  "subject_contract d s \<longleftrightarrow> validate_subject d s = Inr ()"

definition report_contract :: "deps \<Rightarrow> report \<Rightarrow> subject \<Rightarrow> bool" where
  "report_contract d r expected \<longleftrightarrow>
     rep_schema_version r = 1 \<and> rep_subject r = expected
     \<and> subject_contract d expected \<and> validate_authority (rep_authority r) = Inr ()
     \<and> map ck_requirement (rep_checks r) = requirements (rep_level r)
     \<and> list_all check_contract (rep_checks r)
     \<and> rep_ok r = list_all ck_ok (rep_checks r)"

lemma scan_checks_Inr:
  "scan_checks actual ordered failed cs = Inr (a, os, f) \<longleftrightarrow>
     distinct (map ck_requirement cs) \<and> ck_requirement ` set cs \<inter> actual = {}
     \<and> list_all check_contract cs
     \<and> a = actual \<union> ck_requirement ` set cs \<and> os = ordered @ map ck_requirement cs
     \<and> f = (if failed = None then find (\<lambda>c. \<not> ck_ok c) cs else failed)"
  by (induction cs arbitrary: actual ordered failed)
     (auto simp: res_simps check_contract_def)

lemma find_failed_None: "find (\<lambda>c. \<not> ck_ok c) cs = None \<longleftrightarrow> list_all ck_ok cs"
  by (auto simp: find_None_iff list_all_iff)

lemma scan_checks_requirements:
  "scan_checks {} [] None cs = Inr (set (requirements l), requirements l, f) \<longleftrightarrow>
     map ck_requirement cs = requirements l \<and> list_all check_contract cs
     \<and> f = find (\<lambda>c. \<not> ck_ok c) cs"
  by (auto simp: scan_checks_Inr simp flip: set_map)

lemma validate_report_contract_iff:
  "validate_certification_report_contract d r expected require_success = Inr () \<longleftrightarrow>
     report_contract d r expected \<and> (require_success \<longrightarrow> rep_ok r)"
proof -
  have "validate_certification_report_contract d r expected require_success = Inr () \<longleftrightarrow>
    rep_schema_version r = 1 \<and> rep_subject r = expected
    \<and> validate_subject d (rep_subject r) = Inr () \<and> validate_authority (rep_authority r) = Inr ()
    \<and> (\<exists>f. scan_checks {} [] None (rep_checks r)
          = Inr (set (requirements (rep_level r)), requirements (rep_level r), f)
        \<and> \<not> (require_success \<and> f \<noteq> None) \<and> rep_ok r = (f = None))"
    by (simp add: validate_certification_report_contract_def res_simps)
  then show ?thesis
    by (auto simp: scan_checks_requirements report_contract_def subject_contract_def
        find_failed_None)
qed

end
