(* ===== verification/Trust.thy ===== *)
theory Trust
  imports Certification
begin

text \<open>
  tools/tsp/src/certification_trust.rs: signed certification envelopes, trust stores and
  revocation lists, and the decision \<open>verify_certification_evidence\<close>. The clock and the last
  accepted revocation sequence come in through the decision context; the deserializers of the
  four documents are the record \<open>trust_codec\<close>.
\<close>

definition signature_algorithm :: string where
  "signature_algorithm = ''ed25519''"

definition max_certification_lifetime_seconds :: u64 where
  "max_certification_lifetime_seconds = 366 * 24 * 60 * 60"

definition max_revocation_window_seconds :: u64 where
  "max_revocation_window_seconds = 7 * 24 * 60 * 60"

definition max_report_bytes :: nat where "max_report_bytes = 1048576"
definition max_envelope_bytes :: nat where "max_envelope_bytes = 16384"
definition max_revocation_bytes :: nat where "max_revocation_bytes = 1048576"
definition max_trust_store_bytes :: nat where "max_trust_store_bytes = 262144"
definition max_trusted_keys :: nat where "max_trusted_keys = 128"
definition max_revocations :: nat where "max_revocations = 100000"

definition envelope_domain :: bytes where
  "envelope_domain = ''TokenSaver certification envelope v1''"

definition revocation_domain :: bytes where
  "revocation_domain = ''TokenSaver certification revocations v1''"

section \<open>Documents\<close>

datatype key_purpose = PurposeCertification | PurposeRevocation

record envelope =
  ev_schema_version :: u32
  ev_report_digest :: string
  ev_issuer_id :: string
  ev_key_id :: string
  ev_issued_at :: u64
  ev_expires_at :: u64
  ev_algorithm :: string
  ev_signature :: string

record trusted_issuer_key =
  tk_issuer_id :: string
  tk_key_id :: string
  tk_purpose :: key_purpose
  tk_public_key :: string
  tk_not_before :: u64
  tk_not_after :: u64

record trust_store =
  ts_schema_version :: u32
  ts_keys :: "trusted_issuer_key list"

record revocation =
  rv_id :: string
  rv_revoked_at :: u64
  rv_reason :: string

record revocation_list =
  rl_schema_version :: u32
  rl_issuer_id :: string
  rl_key_id :: string
  rl_sequence :: u64
  rl_issued_at :: u64
  rl_next_update :: u64
  rl_algorithm :: string
  rl_revoked :: "revocation list"
  rl_signature :: string

record decision_context =
  dc_now :: u64
  dc_minimum_sequence :: u64

record verified_certification =
  vc_report :: report
  vc_issuer_id :: string
  vc_certification_key_id :: string
  vc_revocation_key_id :: string
  vc_revocation_sequence :: u64

record trust_codec =
  parse_envelope :: "bytes \<Rightarrow> envelope option"
  parse_store :: "bytes \<Rightarrow> trust_store option"
  parse_revocations :: "bytes \<Rightarrow> revocation_list option"
  parse_report :: "bytes \<Rightarrow> report option"

definition parse_document ::
  "deps \<Rightarrow> (bytes \<Rightarrow> 'a option) \<Rightarrow> bytes \<Rightarrow> nat \<Rightarrow> string \<Rightarrow> 'a res" where
  "parse_document d parse data maximum code =
     bindR (reject (data = [] \<or> length data > maximum) code) (\<lambda>_.
     bindR (reject (\<not> unambiguous d data) code) (\<lambda>_.
       ok_or code (parse data)))"

section \<open>Signed messages\<close>

definition envelope_signing_message :: "envelope \<Rightarrow> bytes" where
  "envelope_signing_message e =
    (let output = append_field [] envelope_domain;
         output = append_u64 output (ucast (ev_schema_version e));
         output = append_field output (ev_report_digest e);
         output = append_field output (ev_issuer_id e);
         output = append_field output (ev_key_id e);
         output = append_u64 output (ev_issued_at e);
         output = append_u64 output (ev_expires_at e)
     in append_field output (ev_algorithm e))"

definition append_revocation :: "revocation \<Rightarrow> bytes \<Rightarrow> bytes" where
  "append_revocation entry output =
     append_field (append_u64 (append_field output (rv_id entry)) (rv_revoked_at entry))
       (rv_reason entry)"

definition revocation_signing_message :: "revocation_list \<Rightarrow> bytes" where
  "revocation_signing_message l =
    (let output = append_field [] revocation_domain;
         output = append_u64 output (ucast (rl_schema_version l));
         output = append_field output (rl_issuer_id l);
         output = append_field output (rl_key_id l);
         output = append_u64 output (rl_sequence l);
         output = append_u64 output (rl_issued_at l);
         output = append_u64 output (rl_next_update l);
         output = append_field output (rl_algorithm l);
         output = append_u64 output (word_of_nat (length (rl_revoked l)))
     in fold append_revocation (rl_revoked l) output)"

section \<open>Contracts\<close>

definition validate_envelope :: "envelope \<Rightarrow> u64 \<Rightarrow> unit res" where
  "validate_envelope e now =
     bindR (reject (ev_schema_version e \<noteq> 1
         \<or> ev_algorithm e \<noteq> signature_algorithm
         \<or> \<not> valid_digest (ev_report_digest e)
         \<or> \<not> valid_token (ev_issuer_id e) 1 128
         \<or> \<not> valid_token (ev_key_id e) 1 128) ''certification.envelopeContract'') (\<lambda>_.
       reject (ev_issued_at e > now
         \<or> now > ev_expires_at e
         \<or> ev_expires_at e \<le> ev_issued_at e
         \<or> saturating_sub (ev_expires_at e) (ev_issued_at e) > max_certification_lifetime_seconds)
         ''certification.envelopeTime'')"

definition key_identity :: "trusted_issuer_key \<Rightarrow> string \<times> string \<times> key_purpose" where
  "key_identity k = (tk_issuer_id k, tk_key_id k, tk_purpose k)"

fun validate_keys ::
  "deps \<Rightarrow> (string \<times> string \<times> key_purpose) set \<Rightarrow> trusted_issuer_key list \<Rightarrow> unit res"
where
  "validate_keys d identities [] = Inr ()"
| "validate_keys d identities (k # ks) =
     bindR (reject (\<not> valid_token (tk_issuer_id k) 1 128
         \<or> \<not> valid_token (tk_key_id k) 1 128
         \<or> tk_not_after k \<le> tk_not_before k
         \<or> decode_exact d 32 (tk_public_key k) = None
         \<or> key_identity k \<in> identities)
       ''certification.trustKey'') (\<lambda>_.
       validate_keys d (insert (key_identity k) identities) ks)"

definition validate_trust_store :: "deps \<Rightarrow> trust_store \<Rightarrow> unit res" where
  "validate_trust_store d store =
     bindR (reject (ts_schema_version store \<noteq> 1 \<or> ts_keys store = []
         \<or> length (ts_keys store) > max_trusted_keys) ''certification.trustStoreContract'') (\<lambda>_.
       validate_keys d {} (ts_keys store))"

definition validate_key_window :: "trusted_issuer_key \<Rightarrow> u64 \<Rightarrow> u64 \<Rightarrow> unit res" where
  "validate_key_window k starts ends =
     reject (starts < tk_not_before k \<or> ends > tk_not_after k) ''certification.keyValidity''"

definition trusted_key ::
  "trust_store \<Rightarrow> string \<Rightarrow> string \<Rightarrow> key_purpose \<Rightarrow> trusted_issuer_key res" where
  "trusted_key store issuer key_id purpose =
     ok_or ''certification.untrustedKey''
       (find (\<lambda>k. tk_issuer_id k = issuer \<and> tk_key_id k = key_id \<and> tk_purpose k = purpose)
          (ts_keys store))"

fun validate_revocation_entries ::
  "u64 \<Rightarrow> string option \<Rightarrow> revocation list \<Rightarrow> unit res"
where
  "validate_revocation_entries issued previous [] = Inr ()"
| "validate_revocation_entries issued previous (entry # entries) =
     bindR (reject (\<not> valid_token (rv_id entry) 1 128
         \<or> \<not> valid_text (rv_reason entry) 1 512
         \<or> rv_revoked_at entry > issued
         \<or> (case previous of None \<Rightarrow> False | Some value \<Rightarrow> value \<ge> rv_id entry))
       ''certification.revocationEntries'') (\<lambda>_.
       validate_revocation_entries issued (Some (rv_id entry)) entries)"

definition validate_revocation_list_contract ::
  "revocation_list \<Rightarrow> string \<Rightarrow> decision_context \<Rightarrow> unit res" where
  "validate_revocation_list_contract l expected_issuer ctx =
     bindR (reject (rl_schema_version l \<noteq> 1
         \<or> rl_algorithm l \<noteq> signature_algorithm
         \<or> rl_issuer_id l \<noteq> expected_issuer
         \<or> \<not> valid_token (rl_issuer_id l) 1 128
         \<or> \<not> valid_token (rl_key_id l) 1 128
         \<or> length (rl_revoked l) > max_revocations) ''certification.revocationContract'') (\<lambda>_.
     bindR (reject (rl_issued_at l > dc_now ctx
         \<or> dc_now ctx > rl_next_update l
         \<or> rl_next_update l \<le> rl_issued_at l
         \<or> saturating_sub (rl_next_update l) (rl_issued_at l) > max_revocation_window_seconds)
       ''certification.revocationFreshness'') (\<lambda>_.
     bindR (reject (rl_sequence l < dc_minimum_sequence ctx) ''certification.revocationRollback'') (\<lambda>_.
       validate_revocation_entries (rl_issued_at l) None (rl_revoked l))))"

definition verify_signature ::
  "deps \<Rightarrow> trusted_issuer_key \<Rightarrow> bytes \<Rightarrow> string \<Rightarrow> string \<Rightarrow> unit res" where
  "verify_signature d k message encoded_signature code =
     bindR (ok_or ''certification.trustKey'' (decode_exact d 32 (tk_public_key k))) (\<lambda>public_key.
     bindR (ok_or code (decode_exact d 64 encoded_signature)) (\<lambda>signature.
     bindR (reject (\<not> ed_key_ok d public_key) ''certification.trustKey'') (\<lambda>_.
       reject (\<not> ed_verify d public_key message signature) code)))"

definition validate_revocations ::
  "deps \<Rightarrow> revocation_list \<Rightarrow> trust_store \<Rightarrow> string \<Rightarrow> decision_context \<Rightarrow> unit res" where
  "validate_revocations d l store expected_issuer ctx =
     bindR (validate_revocation_list_contract l expected_issuer ctx) (\<lambda>_.
     bindR (trusted_key store (rl_issuer_id l) (rl_key_id l) PurposeRevocation) (\<lambda>k.
     bindR (validate_key_window k (rl_issued_at l) (rl_next_update l)) (\<lambda>_.
       verify_signature d k (revocation_signing_message l) (rl_signature l)
         ''certification.revocationSignature'')))"

section \<open>The decision\<close>

definition verify_certification_evidence ::
  "deps \<Rightarrow> trust_codec \<Rightarrow> bytes \<Rightarrow> bytes \<Rightarrow> bytes \<Rightarrow> bytes \<Rightarrow> subject \<Rightarrow> decision_context
     \<Rightarrow> verified_certification res" where
  "verify_certification_evidence d c report_bytes envelope_bytes store_bytes revocation_bytes
      expected_subject ctx =
     bindR (parse_document d (parse_envelope c) envelope_bytes max_envelope_bytes
       ''certification.envelope'') (\<lambda>e.
     bindR (parse_document d (parse_store c) store_bytes max_trust_store_bytes
       ''certification.trustStore'') (\<lambda>store.
     bindR (parse_document d (parse_revocations c) revocation_bytes max_revocation_bytes
       ''certification.revocations'') (\<lambda>l.
     bindR (reject (report_bytes = [] \<or> length report_bytes > max_report_bytes)
       ''certification.reportSize'') (\<lambda>_.
     bindR (reject (\<not> unambiguous d report_bytes) ''certification.reportJson'') (\<lambda>_.
     bindR (validate_trust_store d store) (\<lambda>_.
     bindR (validate_envelope e (dc_now ctx)) (\<lambda>_.
     bindR (reject (ev_report_digest e \<noteq> sha256_digest d report_bytes)
       ''certification.reportDigest'') (\<lambda>_.
     bindR (trusted_key store (ev_issuer_id e) (ev_key_id e) PurposeCertification) (\<lambda>k.
     bindR (validate_key_window k (ev_issued_at e) (ev_expires_at e)) (\<lambda>_.
     bindR (verify_signature d k (envelope_signing_message e) (ev_signature e)
       ''certification.envelopeSignature'') (\<lambda>_.
     bindR (ok_or ''certification.reportJson'' (parse_report c report_bytes)) (\<lambda>r.
     bindR (validate_certification_report d r expected_subject) (\<lambda>_.
     bindR (reject (au_issuer_id (rep_authority r) \<noteq> ev_issuer_id e) ''certification.issuer'') (\<lambda>_.
     bindR (validate_revocations d l store (ev_issuer_id e) ctx) (\<lambda>_.
     bindR (reject (list_ex (\<lambda>entry. rv_id entry = au_revocation_id (rep_authority r)) (rl_revoked l))
       ''certification.revoked'') (\<lambda>_.
       Inr \<lparr>vc_report = r, vc_issuer_id = ev_issuer_id e, vc_certification_key_id = ev_key_id e,
            vc_revocation_key_id = rl_key_id l, vc_revocation_sequence = rl_sequence l\<rparr>))))))))))))))))"

section \<open>Signed messages are unambiguous\<close>

definition revocation_bytes :: "revocation \<Rightarrow> bytes" where
  "revocation_bytes entry = field (rv_id entry) @ u64_be (rv_revoked_at entry) @ field (rv_reason entry)"

definition revocation_ok :: "revocation \<Rightarrow> bool" where
  "revocation_ok entry \<longleftrightarrow> field_ok (rv_id entry) \<and> field_ok (rv_reason entry)"

lemma envelope_signing_message_eq:
  "envelope_signing_message e =
     field envelope_domain @ u64_be (ucast (ev_schema_version e)) @ field (ev_report_digest e)
     @ field (ev_issuer_id e) @ field (ev_key_id e) @ u64_be (ev_issued_at e)
     @ u64_be (ev_expires_at e) @ field (ev_algorithm e) @ []"
  by (simp add: envelope_signing_message_def append_field_eq append_u64_def)

lemma fold_append_revocation:
  "fold append_revocation entries out = out @ concat (map revocation_bytes entries)"
  by (induction entries arbitrary: out)
     (simp_all add: append_revocation_def append_field_eq append_u64_def revocation_bytes_def)

lemma revocation_signing_message_eq:
  "revocation_signing_message l =
     field revocation_domain @ u64_be (ucast (rl_schema_version l)) @ field (rl_issuer_id l)
     @ field (rl_key_id l) @ u64_be (rl_sequence l) @ u64_be (rl_issued_at l)
     @ u64_be (rl_next_update l) @ field (rl_algorithm l)
     @ u64_be (word_of_nat (length (rl_revoked l))) @ concat (map revocation_bytes (rl_revoked l))"
  by (simp add: revocation_signing_message_def append_field_eq append_u64_def
      fold_append_revocation)

interpretation revocation_code: prefix_code revocation_bytes revocation_ok
proof unfold_locales
  fix x y r s
  assume "revocation_ok x" "revocation_ok y" "revocation_bytes x @ r = revocation_bytes y @ s"
  then have "rv_id x = rv_id y \<and> rv_revoked_at x = rv_revoked_at y \<and> rv_reason x = rv_reason y \<and> r = s"
    by (auto simp: revocation_bytes_def revocation_ok_def field_code.append_eq_iff
        u64_code.append_eq_iff u64_code.eq_iff)
  then show "x = y \<and> r = s" by simp
qed

text \<open>All the strings of a document are shorter than \<open>2 ^ 64\<close> bytes, as they are in memory.\<close>

definition envelope_fields_ok :: "envelope \<Rightarrow> bool" where
  "envelope_fields_ok e \<longleftrightarrow> list_all field_ok
     [ev_report_digest e, ev_issuer_id e, ev_key_id e, ev_algorithm e]"

definition revocation_fields_ok :: "revocation_list \<Rightarrow> bool" where
  "revocation_fields_ok l \<longleftrightarrow>
     list_all field_ok [rl_issuer_id l, rl_key_id l, rl_algorithm l]
     \<and> length (rl_revoked l) < 2 ^ 64 \<and> list_all revocation_ok (rl_revoked l)"

lemma uint_ucast_up: "uint (ucast (a :: u32) :: u64) = uint a"
proof -
  have "uint a < 2 ^ 32" using unsigned_less [of a] by simp
  then show ?thesis by (simp add: unsigned_ucast_eq take_bit_int_eq_self)
qed

lemma ucast_u32_u64_inj: "(ucast (a :: u32) :: u64) = ucast b \<Longrightarrow> a = b"
proof -
  assume "(ucast a :: u64) = ucast b"
  then have "uint (ucast a :: u64) = uint (ucast b :: u64)" by simp
  then have "uint a = uint b" by (simp add: uint_ucast_up)
  then show "a = b" by (simp add: word_uint_eq_iff)
qed

lemma field_ok_domains [simp]: "field_ok envelope_domain" "field_ok revocation_domain"
  by (simp_all add: field_ok_def envelope_domain_def revocation_domain_def)

lemma domains_differ: "envelope_domain \<noteq> revocation_domain"
  by (simp add: envelope_domain_def revocation_domain_def)

lemma envelope_message_unique:
  assumes "envelope_fields_ok a" and "envelope_fields_ok b"
    and "envelope_signing_message a = envelope_signing_message b"
  shows "a\<lparr>ev_signature := s\<rparr> = b\<lparr>ev_signature := s\<rparr>"
proof -
  have "ev_report_digest a = ev_report_digest b" "ev_issuer_id a = ev_issuer_id b"
    "ev_key_id a = ev_key_id b" "ev_issued_at a = ev_issued_at b"
    "ev_expires_at a = ev_expires_at b" "ev_algorithm a = ev_algorithm b"
    "(ucast (ev_schema_version a) :: u64) = ucast (ev_schema_version b)"
    using assms
    unfolding envelope_signing_message_eq envelope_fields_ok_def
    by (simp_all add: field_code.append_eq_iff u64_code.append_eq_iff field_code.eq_iff
        u64_code.eq_iff)
  then show ?thesis by (simp add: ucast_u32_u64_inj)
qed

lemma revocation_message_unique:
  assumes "revocation_fields_ok a" and "revocation_fields_ok b"
    and "revocation_signing_message a = revocation_signing_message b"
  shows "a\<lparr>rl_signature := s\<rparr> = b\<lparr>rl_signature := s\<rparr>"
proof -
  have f: "rl_issuer_id a = rl_issuer_id b" "rl_key_id a = rl_key_id b"
    "rl_sequence a = rl_sequence b" "rl_issued_at a = rl_issued_at b"
    "rl_next_update a = rl_next_update b" "rl_algorithm a = rl_algorithm b"
    "(ucast (rl_schema_version a) :: u64) = ucast (rl_schema_version b)"
    and n: "(word_of_nat (length (rl_revoked a)) :: u64) = word_of_nat (length (rl_revoked b))"
    and c: "concat (map revocation_bytes (rl_revoked a)) = concat (map revocation_bytes (rl_revoked b))"
    using assms
    unfolding revocation_signing_message_eq revocation_fields_ok_def
    by (simp_all add: field_code.append_eq_iff u64_code.append_eq_iff field_code.eq_iff
        u64_code.eq_iff)
  have "length (rl_revoked a) = length (rl_revoked b)"
    using assms n by (intro length_of_nat_u64) (simp_all add: revocation_fields_ok_def)
  moreover have "list_all revocation_ok (rl_revoked a)" "list_all revocation_ok (rl_revoked b)"
    using assms by (simp_all add: revocation_fields_ok_def)
  ultimately have "rl_revoked a = rl_revoked b"
    using c revocation_code.sequence_unique [of "rl_revoked a" "rl_revoked b" "[]" "[]"] by simp
  with f show ?thesis by (simp add: ucast_u32_u64_inj)
qed

lemma messages_separated: "envelope_signing_message e \<noteq> revocation_signing_message l"
  unfolding envelope_signing_message_eq revocation_signing_message_eq
  by (simp add: field_code.append_eq_iff domains_differ)

section \<open>Contracts, declaratively\<close>

lemma validate_keys_Inr:
  "validate_keys d ids ks = Inr () \<longleftrightarrow>
     distinct (map key_identity ks)
     \<and> (\<forall>k\<in>set ks. key_identity k \<notin> ids
          \<and> valid_token (tk_issuer_id k) 1 128 \<and> valid_token (tk_key_id k) 1 128
          \<and> tk_not_before k < tk_not_after k \<and> decode_exact d 32 (tk_public_key k) \<noteq> None)"
  by (induction ks arbitrary: ids) (auto simp: res_simps not_le image_iff)

lemma validate_revocation_entries_Inr:
  "validate_revocation_entries issued previous entries = Inr () \<longleftrightarrow>
     ascending (map rv_id entries)
     \<and> (\<forall>p. previous = Some p \<longrightarrow> entries \<noteq> [] \<longrightarrow> p < rv_id (hd entries))
     \<and> (\<forall>e\<in>set entries. valid_token (rv_id e) 1 128 \<and> valid_text (rv_reason e) 1 512
          \<and> rv_revoked_at e \<le> issued)"
  by (induction entries arbitrary: previous)
     (auto simp: res_simps ascending_Cons hd_map not_le not_less split: option.splits
        simp del: ascending.simps(3))

lemma validate_envelope_Inr:
  "validate_envelope e now = Inr () \<longleftrightarrow>
     ev_schema_version e = 1 \<and> ev_algorithm e = signature_algorithm
     \<and> valid_digest (ev_report_digest e) \<and> valid_token (ev_issuer_id e) 1 128
     \<and> valid_token (ev_key_id e) 1 128
     \<and> ev_issued_at e \<le> now \<and> now \<le> ev_expires_at e \<and> ev_issued_at e < ev_expires_at e
     \<and> saturating_sub (ev_expires_at e) (ev_issued_at e) \<le> max_certification_lifetime_seconds"
  by (auto simp: validate_envelope_def res_simps not_le not_less)

lemma trusted_key_Inr:
  "trusted_key store issuer key_id purpose = Inr k \<Longrightarrow>
     k \<in> set (ts_keys store) \<and> tk_issuer_id k = issuer \<and> tk_key_id k = key_id \<and> tk_purpose k = purpose"
  by (auto simp: trusted_key_def res_simps find_Some_iff)

text \<open>A document signed under a key of the store: the signature verifies under that key.\<close>

definition signed_by ::
  "deps \<Rightarrow> trust_store \<Rightarrow> string \<Rightarrow> string \<Rightarrow> key_purpose \<Rightarrow> u64 \<Rightarrow> u64 \<Rightarrow> bytes \<Rightarrow> string \<Rightarrow> bool"
where
  "signed_by d store issuer key_id purpose starts ends message encoded \<longleftrightarrow>
     (\<exists>k public_key signature. k \<in> set (ts_keys store)
        \<and> tk_issuer_id k = issuer \<and> tk_key_id k = key_id \<and> tk_purpose k = purpose
        \<and> tk_not_before k \<le> starts \<and> ends \<le> tk_not_after k
        \<and> decode_exact d 32 (tk_public_key k) = Some public_key
        \<and> decode_exact d 64 encoded = Some signature
        \<and> ed_key_ok d public_key \<and> ed_verify d public_key message signature)"

lemma signed_byI:
  assumes "trusted_key store issuer key_id purpose = Inr k"
    and "validate_key_window k starts ends = Inr ()"
    and "verify_signature d k message encoded code = Inr ()"
  shows "signed_by d store issuer key_id purpose starts ends message encoded"
  using trusted_key_Inr [OF assms(1)] assms(2,3)
  by (auto simp: signed_by_def validate_key_window_def verify_signature_def res_simps not_less
      intro!: bexI [of _ k])

lemma validate_revocations_signed:
  assumes "validate_revocations d l store issuer ctx = Inr ()"
  shows "rl_issuer_id l = issuer
    \<and> signed_by d store issuer (rl_key_id l) PurposeRevocation (rl_issued_at l) (rl_next_update l)
         (revocation_signing_message l) (rl_signature l)"
proof -
  from assms obtain k where c: "validate_revocation_list_contract l issuer ctx = Inr ()"
    and k: "trusted_key store (rl_issuer_id l) (rl_key_id l) PurposeRevocation = Inr k"
      "validate_key_window k (rl_issued_at l) (rl_next_update l) = Inr ()"
      "verify_signature d k (revocation_signing_message l) (rl_signature l)
         ''certification.revocationSignature'' = Inr ()"
    by (auto simp: validate_revocations_def bindR_Inr_iff)
  have "rl_issuer_id l = issuer"
    using c by (auto simp: validate_revocation_list_contract_def res_simps)
  with signed_byI [OF k] show ?thesis by simp
qed

lemma validate_revocations_fresh:
  assumes "validate_revocations d l store issuer ctx = Inr ()"
  shows "rl_issued_at l \<le> dc_now ctx \<and> dc_now ctx \<le> rl_next_update l
    \<and> unat (rl_next_update l) \<le> unat (rl_issued_at l) + 604800
    \<and> dc_minimum_sequence ctx \<le> rl_sequence l
    \<and> ascending (map rv_id (rl_revoked l))"
proof -
  from assms have c: "validate_revocation_list_contract l issuer ctx = Inr ()"
    by (auto simp: validate_revocations_def bindR_Inr_iff)
  then have "rl_issued_at l < rl_next_update l"
    "saturating_sub (rl_next_update l) (rl_issued_at l) \<le> max_revocation_window_seconds"
    by (auto simp: validate_revocation_list_contract_def res_simps not_le not_less)
  then have "unat (rl_next_update l) - unat (rl_issued_at l) \<le> 604800"
    by (simp add: word_le_nat_alt unat_saturating_sub max_revocation_window_seconds_def)
  with c show ?thesis
    by (auto simp: validate_revocation_list_contract_def res_simps not_le not_less
        validate_revocation_entries_Inr)
qed

lemma validate_envelope_lifetime:
  "validate_envelope e now = Inr () \<Longrightarrow> unat (ev_expires_at e) \<le> unat (ev_issued_at e) + 31622400"
proof -
  assume "validate_envelope e now = Inr ()"
  then have "unat (ev_expires_at e) - unat (ev_issued_at e) \<le> 31622400"
    by (simp add: validate_envelope_Inr word_le_nat_alt unat_saturating_sub
        max_certification_lifetime_seconds_def)
  then show ?thesis by simp
qed

text \<open>Everything the decision went through, from its result.\<close>

definition evidence_accepted ::
  "deps \<Rightarrow> trust_codec \<Rightarrow> bytes \<Rightarrow> subject \<Rightarrow> decision_context \<Rightarrow> verified_certification
     \<Rightarrow> envelope \<Rightarrow> trust_store \<Rightarrow> revocation_list \<Rightarrow> bool"
where
  "evidence_accepted d c rb expected ctx v e store l \<longleftrightarrow>
     unambiguous d rb \<and> parse_report c rb = Some (vc_report v)
     \<and> report_contract d (vc_report v) expected \<and> rep_ok (vc_report v)
     \<and> validate_trust_store d store = Inr () \<and> validate_envelope e (dc_now ctx) = Inr ()
     \<and> ev_report_digest e = sha256_digest d rb
     \<and> au_issuer_id (rep_authority (vc_report v)) = ev_issuer_id e
     \<and> signed_by d store (ev_issuer_id e) (ev_key_id e) PurposeCertification (ev_issued_at e)
         (ev_expires_at e) (envelope_signing_message e) (ev_signature e)
     \<and> validate_revocations d l store (ev_issuer_id e) ctx = Inr ()
     \<and> au_revocation_id (rep_authority (vc_report v)) \<notin> rv_id ` set (rl_revoked l)
     \<and> vc_issuer_id v = ev_issuer_id e \<and> vc_certification_key_id v = ev_key_id e
     \<and> vc_revocation_key_id v = rl_key_id l \<and> vc_revocation_sequence v = rl_sequence l"

lemma verify_evidence_accepted:
  assumes "verify_certification_evidence d c rb eb sb lb expected ctx = Inr v"
  shows "\<exists>e store l. parse_envelope c eb = Some e \<and> parse_store c sb = Some store
    \<and> parse_revocations c lb = Some l \<and> evidence_accepted d c rb expected ctx v e store l"
  using assms
  unfolding verify_certification_evidence_def evidence_accepted_def
  by (auto simp: res_simps parse_document_def validate_certification_report_def
      validate_report_contract_iff list_ex_iff image_iff) ((rule signed_byI; assumption), blast)

end
