(* ===== verification/Issuer.thy ===== *)
theory Issuer
  imports Trust
begin

text \<open>
  tools/tsp/src/certification_issuer.rs: issuing signed envelopes and revocation lists. The
  signing provider (an HSM or key service) and the serializers are parameters. The round trip
  shows that what an issuer signs, a verifier that trusts its keys accepts.
\<close>

datatype signing_purpose = SignCertification | SignRevocation

record signing_request =
  sr_purpose :: signing_purpose
  sr_issuer_id :: string
  sr_key_id :: string
  sr_message :: bytes

type_synonym signer = "signing_request \<Rightarrow> bytes option"

record issuer_identity =
  ii_issuer_id :: string
  ii_certification_key_id :: string
  ii_revocation_key_id :: string

record envelope_validity =
  vl_issued_at :: u64
  vl_expires_at :: u64

record revocation_publication =
  pb_sequence :: u64
  pb_issued_at :: u64
  pb_next_update :: u64
  pb_revoked :: "revocation list"

record issuer_codec =
  print_envelope :: "envelope \<Rightarrow> bytes option"
  print_revocations :: "revocation_list \<Rightarrow> bytes option"

definition issuer_parse_report :: "deps \<Rightarrow> trust_codec \<Rightarrow> bytes \<Rightarrow> report res" where
  "issuer_parse_report d c data =
     bindR (reject (data = [] \<or> length data > max_report_bytes)
       ''certification.issuerReportSize'') (\<lambda>_.
     bindR (reject (\<not> unambiguous d data) ''certification.issuerReportJson'') (\<lambda>_.
       ok_or ''certification.issuerReportJson'' (parse_report c data)))"

definition sign_message :: "deps \<Rightarrow> signer \<Rightarrow> signing_request \<Rightarrow> string res" where
  "sign_message d sign request =
     bindR (ok_or ''certification.issuerSigning'' (sign request)) (\<lambda>signature.
       Inr (b64_encode d signature))"

definition validate_purpose_separation :: "issuer_identity \<Rightarrow> unit res" where
  "validate_purpose_separation i =
     reject (ii_certification_key_id i = ii_revocation_key_id i) ''certification.issuerKeyPurpose''"

definition unsigned_envelope ::
  "deps \<Rightarrow> bytes \<Rightarrow> issuer_identity \<Rightarrow> envelope_validity \<Rightarrow> envelope" where
  "unsigned_envelope d report_bytes i vl =
     \<lparr>ev_schema_version = 1, ev_report_digest = sha256_digest d report_bytes,
      ev_issuer_id = ii_issuer_id i, ev_key_id = ii_certification_key_id i,
      ev_issued_at = vl_issued_at vl, ev_expires_at = vl_expires_at vl,
      ev_algorithm = signature_algorithm, ev_signature = []\<rparr>"

definition issue_certification_envelope ::
  "deps \<Rightarrow> trust_codec \<Rightarrow> issuer_codec \<Rightarrow> signer \<Rightarrow> bytes \<Rightarrow> issuer_identity \<Rightarrow> envelope_validity
     \<Rightarrow> (envelope \<times> bytes) res" where
  "issue_certification_envelope d c w sign report_bytes i vl =
     bindR (validate_purpose_separation i) (\<lambda>_.
     bindR (issuer_parse_report d c report_bytes) (\<lambda>r.
     bindR (validate_certification_report d r (rep_subject r)) (\<lambda>_.
     bindR (reject (au_issuer_id (rep_authority r) \<noteq> ii_issuer_id i)
       ''certification.issuerIdentity'') (\<lambda>_.
     let e = unsigned_envelope d report_bytes i vl in
     bindR (validate_envelope e (vl_issued_at vl)) (\<lambda>_.
     bindR (sign_message d sign \<lparr>sr_purpose = SignCertification, sr_issuer_id = ii_issuer_id i,
         sr_key_id = ii_certification_key_id i, sr_message = envelope_signing_message e\<rparr>) (\<lambda>sig.
     let e' = e\<lparr>ev_signature := sig\<rparr> in
     bindR (ok_or ''certification.issuerSerialization'' (print_envelope w e')) (\<lambda>data.
       Inr (e', data))))))))"

definition unsigned_revocations :: "issuer_identity \<Rightarrow> revocation_publication \<Rightarrow> revocation_list" where
  "unsigned_revocations i pb =
     \<lparr>rl_schema_version = 1, rl_issuer_id = ii_issuer_id i, rl_key_id = ii_revocation_key_id i,
      rl_sequence = pb_sequence pb, rl_issued_at = pb_issued_at pb,
      rl_next_update = pb_next_update pb, rl_algorithm = signature_algorithm,
      rl_revoked = pb_revoked pb, rl_signature = []\<rparr>"

definition issue_certification_revocations ::
  "deps \<Rightarrow> issuer_codec \<Rightarrow> signer \<Rightarrow> issuer_identity \<Rightarrow> revocation_publication
     \<Rightarrow> (revocation_list \<times> bytes) res" where
  "issue_certification_revocations d w sign i pb =
     bindR (validate_purpose_separation i) (\<lambda>_.
     let l = unsigned_revocations i pb in
     bindR (validate_revocation_list_contract l (ii_issuer_id i)
       \<lparr>dc_now = rl_issued_at l, dc_minimum_sequence = rl_sequence l\<rparr>) (\<lambda>_.
     bindR (sign_message d sign \<lparr>sr_purpose = SignRevocation, sr_issuer_id = ii_issuer_id i,
         sr_key_id = ii_revocation_key_id i, sr_message = revocation_signing_message l\<rparr>) (\<lambda>sig.
     let l' = l\<lparr>rl_signature := sig\<rparr> in
     bindR (ok_or ''certification.issuerSerialization'' (print_revocations w l')) (\<lambda>data.
       Inr (l', data)))))"

section \<open>Issue, then verify\<close>

text \<open>
  The trust store pins the issuer's two keys, and the signing provider signs with them: what the
  provider of an issuer promises to its verifiers. The windows of the keys cover the documents.
\<close>

definition pinned :: "deps \<Rightarrow> signer \<Rightarrow> trust_store \<Rightarrow> string \<Rightarrow> string \<Rightarrow> key_purpose
    \<Rightarrow> signing_purpose \<Rightarrow> u64 \<Rightarrow> u64 \<Rightarrow> bool" where
  "pinned d sign store issuer key_id purpose sp starts ends \<longleftrightarrow>
     (\<exists>k public_key. trusted_key store issuer key_id purpose = Inr k
        \<and> tk_not_before k \<le> starts \<and> ends \<le> tk_not_after k
        \<and> decode_exact d 32 (tk_public_key k) = Some public_key \<and> ed_key_ok d public_key
        \<and> (\<forall>m sig. sign \<lparr>sr_purpose = sp, sr_issuer_id = issuer, sr_key_id = key_id, sr_message = m\<rparr>
              = Some sig \<longrightarrow> length sig = 64 \<and> ed_verify d public_key m sig))"

text \<open>The documents survive the trip through their serializers and fit the verifier's limits.\<close>

definition transported :: "deps \<Rightarrow> (bytes \<Rightarrow> 'a option) \<Rightarrow> nat \<Rightarrow> bytes \<Rightarrow> 'a \<Rightarrow> bool" where
  "transported d parse maximum data doc \<longleftrightarrow>
     data \<noteq> [] \<and> length data \<le> maximum \<and> unambiguous d data \<and> parse data = Some doc"

lemma parse_document_transported:
  "transported d parse maximum data doc \<Longrightarrow> parse_document d parse data maximum code = Inr doc"
  by (auto simp: transported_def parse_document_def res_simps)

lemma envelope_message_signature:
  "envelope_signing_message (e\<lparr>ev_signature := s\<rparr>) = envelope_signing_message e"
  by (simp add: envelope_signing_message_eq)

lemma revocation_message_signature:
  "revocation_signing_message (l\<lparr>rl_signature := s\<rparr>) = revocation_signing_message l"
  by (simp add: revocation_signing_message_eq)

lemma pinned_signature:
  assumes "pinned d sign store issuer key_id purpose sp starts ends" and "base64_roundtrip d"
    and "sign_message d sign \<lparr>sr_purpose = sp, sr_issuer_id = issuer, sr_key_id = key_id,
      sr_message = m\<rparr> = Inr sig"
  shows "\<exists>k. trusted_key store issuer key_id purpose = Inr k
    \<and> validate_key_window k starts ends = Inr () \<and> verify_signature d k m sig code = Inr ()"
  using assms
  by (auto simp: pinned_def sign_message_def validate_key_window_def verify_signature_def res_simps
      not_less decode_exact_encode)

lemma validate_envelope_later:
  "validate_envelope e (ev_issued_at e) = Inr () \<Longrightarrow> ev_issued_at e \<le> now \<Longrightarrow> now \<le> ev_expires_at e \<Longrightarrow>
     validate_envelope (e\<lparr>ev_signature := s\<rparr>) now = Inr ()"
  by (simp add: validate_envelope_Inr)

lemma validate_revocations_later:
  "validate_revocation_list_contract l issuer
      \<lparr>dc_now = rl_issued_at l, dc_minimum_sequence = rl_sequence l\<rparr> = Inr () \<Longrightarrow>
    rl_issued_at l \<le> dc_now ctx \<Longrightarrow> dc_now ctx \<le> rl_next_update l \<Longrightarrow>
    dc_minimum_sequence ctx \<le> rl_sequence l \<Longrightarrow>
    validate_revocation_list_contract (l\<lparr>rl_signature := s\<rparr>) issuer ctx = Inr ()"
  by (auto simp: validate_revocation_list_contract_def res_simps not_less)

lemma issued_revocations_accepted:
  assumes issued: "issue_certification_revocations d w sign i pb = Inr (l, lb)"
    and "base64_roundtrip d"
    and "pinned d sign store (ii_issuer_id i) (ii_revocation_key_id i) PurposeRevocation
      SignRevocation (pb_issued_at pb) (pb_next_update pb)"
    and "pb_issued_at pb \<le> dc_now ctx" and "dc_now ctx \<le> pb_next_update pb"
    and "dc_minimum_sequence ctx \<le> pb_sequence pb"
  shows "validate_revocations d l store (ii_issuer_id i) ctx = Inr ()
    \<and> rl_revoked l = pb_revoked pb \<and> rl_sequence l = pb_sequence pb
    \<and> rl_key_id l = ii_revocation_key_id i"
proof -
  let ?u = "unsigned_revocations i pb"
  note u = unsigned_revocations_def [of i pb]
  from issued obtain sig where
    c: "validate_revocation_list_contract ?u (ii_issuer_id i)
      \<lparr>dc_now = rl_issued_at ?u, dc_minimum_sequence = rl_sequence ?u\<rparr> = Inr ()"
    and s: "sign_message d sign \<lparr>sr_purpose = SignRevocation, sr_issuer_id = ii_issuer_id i,
      sr_key_id = ii_revocation_key_id i, sr_message = revocation_signing_message ?u\<rparr> = Inr sig"
    and l: "l = ?u\<lparr>rl_signature := sig\<rparr>"
    by (auto simp: issue_certification_revocations_def Let_def res_simps)
  have "validate_revocation_list_contract l (ii_issuer_id i) ctx = Inr ()"
    using validate_revocations_later [OF c, of ctx sig] assms(4-6) l by (simp add: u)
  moreover from pinned_signature [OF assms(3,2) s] obtain k where
    "trusted_key store (ii_issuer_id i) (ii_revocation_key_id i) PurposeRevocation = Inr k"
    "validate_key_window k (pb_issued_at pb) (pb_next_update pb) = Inr ()"
    "verify_signature d k (revocation_signing_message ?u) sig ''certification.revocationSignature''
       = Inr ()"
    by blast
  ultimately show ?thesis
    by (simp add: validate_revocations_def l revocation_message_signature) (simp add: u)
qed

lemma issued_envelope_accepted:
  assumes issued: "issue_certification_envelope d c w sign rb i vl = Inr (e, eb)"
    and "base64_roundtrip d"
    and "pinned d sign store (ii_issuer_id i) (ii_certification_key_id i) PurposeCertification
      SignCertification (vl_issued_at vl) (vl_expires_at vl)"
    and "vl_issued_at vl \<le> now" and "now \<le> vl_expires_at vl"
  shows "\<exists>r k. parse_report c rb = Some r
    \<and> rb \<noteq> [] \<and> length rb \<le> max_report_bytes \<and> unambiguous d rb
    \<and> validate_certification_report d r (rep_subject r) = Inr ()
    \<and> au_issuer_id (rep_authority r) = ii_issuer_id i
    \<and> validate_envelope e now = Inr () \<and> ev_report_digest e = sha256_digest d rb
    \<and> ev_issuer_id e = ii_issuer_id i \<and> ev_key_id e = ii_certification_key_id i
    \<and> trusted_key store (ev_issuer_id e) (ev_key_id e) PurposeCertification = Inr k
    \<and> validate_key_window k (ev_issued_at e) (ev_expires_at e) = Inr ()
    \<and> verify_signature d k (envelope_signing_message e) (ev_signature e)
        ''certification.envelopeSignature'' = Inr ()"
proof -
  let ?u = "unsigned_envelope d rb i vl"
  note u = unsigned_envelope_def [of d rb i vl]
  from issued obtain r sig where
    p: "issuer_parse_report d c rb = Inr r"
      "validate_certification_report d r (rep_subject r) = Inr ()"
      "au_issuer_id (rep_authority r) = ii_issuer_id i"
    and c: "validate_envelope ?u (vl_issued_at vl) = Inr ()"
    and s: "sign_message d sign \<lparr>sr_purpose = SignCertification, sr_issuer_id = ii_issuer_id i,
      sr_key_id = ii_certification_key_id i, sr_message = envelope_signing_message ?u\<rparr> = Inr sig"
    and e: "e = ?u\<lparr>ev_signature := sig\<rparr>"
    by (auto simp: issue_certification_envelope_def Let_def res_simps)
  have "validate_envelope e now = Inr ()"
    using validate_envelope_later [of ?u now sig] c assms(4,5) e by (simp add: u)
  moreover from pinned_signature [OF assms(3,2) s] obtain k where
    "trusted_key store (ii_issuer_id i) (ii_certification_key_id i) PurposeCertification = Inr k"
    "validate_key_window k (vl_issued_at vl) (vl_expires_at vl) = Inr ()"
    "verify_signature d k (envelope_signing_message ?u) sig ''certification.envelopeSignature''
       = Inr ()"
    by blast
  moreover have "parse_report c rb = Some r" "rb \<noteq> []" "length rb \<le> max_report_bytes"
    "unambiguous d rb"
    using p(1) by (auto simp: issuer_parse_report_def res_simps not_less)
  ultimately show ?thesis
    using p(2,3)
    by (intro exI [of _ r] exI [of _ k])
       (simp add: e envelope_message_signature, simp add: u)
qed

text \<open>The circumstances under which a verifier looks at what an issuer published.\<close>

record exchange =
  xc_identity :: issuer_identity
  xc_validity :: envelope_validity
  xc_publication :: revocation_publication
  xc_report :: report
  xc_store :: trust_store

definition exchange_ok ::
  "deps \<Rightarrow> trust_codec \<Rightarrow> signer \<Rightarrow> exchange \<Rightarrow> bytes \<Rightarrow> decision_context \<Rightarrow> bool" where
  "exchange_ok d c sign x rb ctx \<longleftrightarrow>
     parse_report c rb = Some (xc_report x)
     \<and> validate_trust_store d (xc_store x) = Inr ()
     \<and> pinned d sign (xc_store x) (ii_issuer_id (xc_identity x))
         (ii_certification_key_id (xc_identity x)) PurposeCertification SignCertification
         (vl_issued_at (xc_validity x)) (vl_expires_at (xc_validity x))
     \<and> pinned d sign (xc_store x) (ii_issuer_id (xc_identity x))
         (ii_revocation_key_id (xc_identity x)) PurposeRevocation SignRevocation
         (pb_issued_at (xc_publication x)) (pb_next_update (xc_publication x))
     \<and> vl_issued_at (xc_validity x) \<le> dc_now ctx \<and> dc_now ctx \<le> vl_expires_at (xc_validity x)
     \<and> pb_issued_at (xc_publication x) \<le> dc_now ctx
     \<and> dc_now ctx \<le> pb_next_update (xc_publication x)
     \<and> dc_minimum_sequence ctx \<le> pb_sequence (xc_publication x)
     \<and> au_revocation_id (rep_authority (xc_report x))
         \<notin> rv_id ` set (pb_revoked (xc_publication x))"

lemma issue_verify:
  assumes laws: "base64_roundtrip d" and x: "exchange_ok d c sign x rb ctx"
    and e: "issue_certification_envelope d c w sign rb (xc_identity x) (xc_validity x) = Inr (e, eb)"
    and l: "issue_certification_revocations d w sign (xc_identity x) (xc_publication x) = Inr (l, lb)"
    and et: "transported d (parse_envelope c) max_envelope_bytes eb e"
    and lt: "transported d (parse_revocations c) max_revocation_bytes lb l"
    and st: "transported d (parse_store c) max_trust_store_bytes sb (xc_store x)"
  shows "verify_certification_evidence d c rb eb sb lb (rep_subject (xc_report x)) ctx
    = Inr \<lparr>vc_report = xc_report x, vc_issuer_id = ii_issuer_id (xc_identity x),
           vc_certification_key_id = ii_certification_key_id (xc_identity x),
           vc_revocation_key_id = ii_revocation_key_id (xc_identity x),
           vc_revocation_sequence = pb_sequence (xc_publication x)\<rparr>"
proof -
  note xs = x [unfolded exchange_ok_def]
  from issued_envelope_accepted [OF e laws, of "xc_store x" "dc_now ctx"] xs obtain k where
    ev: "rb \<noteq> []" "length rb \<le> max_report_bytes" "unambiguous d rb"
    "validate_certification_report d (xc_report x) (rep_subject (xc_report x)) = Inr ()"
    "au_issuer_id (rep_authority (xc_report x)) = ii_issuer_id (xc_identity x)"
    "validate_envelope e (dc_now ctx) = Inr ()" "ev_report_digest e = sha256_digest d rb"
    "ev_issuer_id e = ii_issuer_id (xc_identity x)"
    "ev_key_id e = ii_certification_key_id (xc_identity x)"
    "trusted_key (xc_store x) (ev_issuer_id e) (ev_key_id e) PurposeCertification = Inr k"
    "validate_key_window k (ev_issued_at e) (ev_expires_at e) = Inr ()"
    "verify_signature d k (envelope_signing_message e) (ev_signature e)
        ''certification.envelopeSignature'' = Inr ()"
    by auto
  from issued_revocations_accepted [OF l laws, of "xc_store x" ctx] xs have
    rv: "validate_revocations d l (xc_store x) (ii_issuer_id (xc_identity x)) ctx = Inr ()"
    "rl_revoked l = pb_revoked (xc_publication x)" "rl_sequence l = pb_sequence (xc_publication x)"
    "rl_key_id l = ii_revocation_key_id (xc_identity x)"
    by auto
  have "\<not> list_ex (\<lambda>entry. rv_id entry = au_revocation_id (rep_authority (xc_report x)))
      (pb_revoked (xc_publication x))"
    using xs by (simp add: list_ex_iff image_iff) (metis)
  then show ?thesis
    using xs ev rv
    by (simp add: verify_certification_evidence_def parse_document_transported [OF et]
        parse_document_transported [OF lt] parse_document_transported [OF st] not_less)
qed

end
