(* ===== verification/Evidence.thy ===== *)
theory Evidence
  imports Issuer
begin

text \<open>
  The properties of certification evidence: what an accepted report and accepted evidence
  establish, why signatures bind exactly one document, and that a verifier accepts what an issuer
  it trusts has published. The concrete evidence of the witnesses is built by the issuer's own
  functions.
\<close>

definition demo_subject :: subject where
  "demo_subject = \<lparr>sj_plugin_id = ''com.example.a'', sj_version = ''1.0.0'',
     sj_platform = ''linux-x64'', sj_api_version = 1,
     sj_artifact_digest = sha256_digest demo_deps ''artifact'',
     sj_package_digest = sha256_digest demo_deps ''package'',
     sj_release_id = release_id demo_deps ''com.example.a'' ''1.0.0'' ''linux-x64''
       (sha256_digest demo_deps ''artifact'')\<rparr>"

definition demo_check :: "requirement \<Rightarrow> cert_check" where
  "demo_check q = \<lparr>ck_requirement = q, ck_ok = True, ck_rule = ''rule'',
     ck_evidence_digest = sha256_digest demo_deps ''evidence'', ck_detail = ''passed'',
     ck_remediation = ''none''\<rparr>"

definition demo_report :: report where
  "demo_report = \<lparr>rep_schema_version = 1, rep_ok = True, rep_level = Certified,
     rep_subject = demo_subject,
     rep_authority = \<lparr>au_issuer_id = ''tokensaver'', au_policy_id = certification_policy_id,
       au_policy_version = 1, au_revocation_id = ''rev-7''\<rparr>,
     rep_checks = map demo_check level_2_requirements\<rparr>"

definition demo_key :: "string \<Rightarrow> key_purpose \<Rightarrow> string \<Rightarrow> trusted_issuer_key" where
  "demo_key kid purpose bits = \<lparr>tk_issuer_id = ''tokensaver'', tk_key_id = kid, tk_purpose = purpose,
     tk_public_key = bits @ replicate 29 CHR ''k'', tk_not_before = 10, tk_not_after = 9000\<rparr>"

definition demo_store :: trust_store where
  "demo_store = \<lparr>ts_schema_version = 1,
     ts_keys = [demo_key ''cert'' PurposeCertification ''abc'',
                demo_key ''revoke'' PurposeRevocation ''xyz'']\<rparr>"

definition demo_signer :: signer where
  "demo_signer rq = Some ((case sr_purpose rq of SignCertification \<Rightarrow> ''abc'' | SignRevocation \<Rightarrow> ''xyz'')
     @ replicate 61 CHR ''s'')"

definition demo_exchange :: exchange where
  "demo_exchange = \<lparr>
     xc_identity = \<lparr>ii_issuer_id = ''tokensaver'', ii_certification_key_id = ''cert'',
       ii_revocation_key_id = ''revoke''\<rparr>,
     xc_validity = \<lparr>vl_issued_at = 100, vl_expires_at = 8000\<rparr>,
     xc_publication = \<lparr>pb_sequence = 5, pb_issued_at = 200, pb_next_update = 7000,
       pb_revoked = [\<lparr>rv_id = ''rev-1'', rv_revoked_at = 150, rv_reason = ''key loss''\<rparr>]\<rparr>,
     xc_report = demo_report, xc_store = demo_store\<rparr>"

definition demo_envelope :: envelope where
  "demo_envelope = (unsigned_envelope demo_deps ''R'' (xc_identity demo_exchange)
     (xc_validity demo_exchange))\<lparr>ev_signature := ''abc'' @ replicate 61 CHR ''s''\<rparr>"

definition demo_list :: revocation_list where
  "demo_list = (unsigned_revocations (xc_identity demo_exchange) (xc_publication demo_exchange))
     \<lparr>rl_signature := ''xyz'' @ replicate 61 CHR ''s''\<rparr>"

definition demo_trust_codec :: trust_codec where
  "demo_trust_codec = \<lparr>parse_envelope = (\<lambda>_. Some demo_envelope),
     parse_store = (\<lambda>_. Some demo_store), parse_revocations = (\<lambda>_. Some demo_list),
     parse_report = (\<lambda>_. Some demo_report)\<rparr>"

definition demo_issuer_codec :: issuer_codec where
  "demo_issuer_codec = \<lparr>print_envelope = (\<lambda>_. Some ''E''), print_revocations = (\<lambda>_. Some ''L'')\<rparr>"

definition demo_context :: decision_context where
  "demo_context = \<lparr>dc_now = 500, dc_minimum_sequence = 4\<rparr>"

lemma demo_digest [simp]: "valid_digest (sha256_digest demo_deps x)"
  by (rule valid_digest_sha256 [OF demo_deps_laws(1)])

lemma demo_unambiguous: "unambiguous demo_deps x"
  by (simp add: validate_unambiguous_json_def demo_deps_def)

lemma demo_subject_ok: "validate_subject demo_deps demo_subject = Inr ()"
  using valid_release_id_release_id [OF demo_deps_laws(1)]
  by (simp add: validate_subject_def demo_subject_def valid_text_printable)

lemma demo_tokens:
  "valid_token ''tokensaver'' 1 128" "valid_token ''cert'' 1 128" "valid_token ''revoke'' 1 128"
  "valid_token ''rev-7'' 1 128" "valid_token ''rev-1'' 1 128" "valid_token ''rule'' 1 128"
  by (simp_all add: valid_token_def token_char_def ascii_defs)

lemma demo_report_contract: "report_contract demo_deps demo_report demo_subject"
  using demo_subject_ok demo_tokens
  by (simp add: report_contract_def demo_report_def subject_contract_def validate_authority_def
      certification_policy_version_def level_2_requirements_def demo_check_def check_contract_def
      valid_text_printable)

lemma demo_report_valid: "validate_certification_report demo_deps demo_report demo_subject = Inr ()"
  using demo_report_contract
  by (simp add: validate_certification_report_def validate_report_contract_iff demo_report_def)

lemma demo_issued_envelope:
  "issue_certification_envelope demo_deps demo_trust_codec demo_issuer_codec demo_signer ''R''
     (xc_identity demo_exchange) (xc_validity demo_exchange) = Inr (demo_envelope, ''E'')"
proof -
  have e: "b64_encode demo_deps x = x" for x by (simp add: demo_deps_def)
  have sj: "rep_subject demo_report = demo_subject" by (simp add: demo_report_def)
  have v: "validate_envelope (unsigned_envelope demo_deps ''R'' (xc_identity demo_exchange)
      (xc_validity demo_exchange)) 100 = Inr ()"
    using demo_tokens
    by (simp add: validate_envelope_def unsigned_envelope_def demo_exchange_def saturating_sub_def
        max_certification_lifetime_seconds_def)
  show ?thesis
    using demo_report_valid v
    by (simp add: issue_certification_envelope_def validate_purpose_separation_def Let_def
        issuer_parse_report_def max_report_bytes_def demo_unambiguous demo_trust_codec_def sj
        sign_message_def demo_signer_def e demo_issuer_codec_def demo_envelope_def
        demo_exchange_def) (simp add: demo_report_def)
qed

lemma demo_issued_list:
  "issue_certification_revocations demo_deps demo_issuer_codec demo_signer
     (xc_identity demo_exchange) (xc_publication demo_exchange) = Inr (demo_list, ''L'')"
proof -
  have e: "b64_encode demo_deps x = x" for x by (simp add: demo_deps_def)
  have v: "validate_revocation_list_contract
      (unsigned_revocations (xc_identity demo_exchange) (xc_publication demo_exchange)) ''tokensaver''
      \<lparr>dc_now = 200, dc_minimum_sequence = 5\<rparr> = Inr ()"
    using demo_tokens
    by (simp add: validate_revocation_list_contract_def unsigned_revocations_def demo_exchange_def
        saturating_sub_def max_revocation_window_seconds_def max_revocations_def
        valid_text_printable)
  then show ?thesis
    by (simp add: issue_certification_revocations_def validate_purpose_separation_def Let_def
        sign_message_def demo_signer_def e demo_issuer_codec_def demo_list_def
        demo_exchange_def) (simp add: unsigned_revocations_def)
qed

lemma demo_pinned:
  "pinned demo_deps demo_signer demo_store ''tokensaver'' ''cert'' PurposeCertification
     SignCertification 100 8000"
  "pinned demo_deps demo_signer demo_store ''tokensaver'' ''revoke'' PurposeRevocation
     SignRevocation 200 7000"
  by (simp_all add: pinned_def trusted_key_def demo_store_def demo_key_def decode_exact_def
      demo_deps_def demo_signer_def)

lemma demo_store_valid: "validate_trust_store demo_deps demo_store = Inr ()"
  using demo_tokens
  by (simp add: validate_trust_store_def demo_store_def max_trusted_keys_def demo_key_def
      decode_exact_def demo_deps_def key_identity_def)

lemma demo_exchange_ok: "exchange_ok demo_deps demo_trust_codec demo_signer demo_exchange ''R'' demo_context"
  using demo_pinned demo_store_valid
  by (simp add: exchange_ok_def demo_exchange_def demo_trust_codec_def demo_context_def demo_report_def)

lemma demo_transported:
  "transported demo_deps (parse_envelope demo_trust_codec) max_envelope_bytes ''E'' demo_envelope"
  "transported demo_deps (parse_revocations demo_trust_codec) max_revocation_bytes ''L'' demo_list"
  "transported demo_deps (parse_store demo_trust_codec) max_trust_store_bytes ''S''
     (xc_store demo_exchange)"
  by (simp_all add: transported_def demo_unambiguous demo_trust_codec_def max_envelope_bytes_def
      max_revocation_bytes_def max_trust_store_bytes_def demo_exchange_def)

definition demo_verified :: verified_certification where
  "demo_verified = \<lparr>vc_report = demo_report, vc_issuer_id = ''tokensaver'',
     vc_certification_key_id = ''cert'', vc_revocation_key_id = ''revoke'',
     vc_revocation_sequence = 5\<rparr>"

lemma demo_verify:
  "verify_certification_evidence demo_deps demo_trust_codec ''R'' ''E'' ''S'' ''L'' demo_subject
     demo_context = Inr demo_verified"
  using issue_verify [OF demo_deps_laws(2) demo_exchange_ok demo_issued_envelope demo_issued_list
      demo_transported]
  by (simp add: demo_exchange_def demo_report_def demo_verified_def)

lemma demo_verified_simps:
  "vc_report demo_verified = demo_report" "vc_issuer_id demo_verified = ''tokensaver''"
  "vc_certification_key_id demo_verified = ''cert''" "vc_revocation_sequence demo_verified = 5"
  "au_revocation_id (rep_authority demo_report) = ''rev-7''"
  by (simp_all add: demo_verified_def demo_report_def)

section \<open>Properties\<close>

text \<open>A certification report is accepted for a subject exactly when it is a version 1 report
  about that very subject, by an authority of the current policy, whose checks are the level's
  requirements in order, each well-formed and passed.\<close>
lemma certification_report_exact:
  "validate_certification_report d r expected = Inr () \<longleftrightarrow>
     report_contract d r expected \<and> list_all ck_ok (rep_checks r)"
  by (auto simp: validate_certification_report_def validate_report_contract_iff report_contract_def)

text \<open>Levels are nested: a report accepted at a level holds a passed check for every
  requirement of every lower level.\<close>

lemma certification_levels_nested:
  assumes "validate_certification_report d r expected = Inr ()" and "lower \<le> rep_level r"
    and "q \<in> set (requirements lower)"
  shows "\<exists>c\<in>set (rep_checks r). ck_requirement c = q \<and> ck_ok c"
proof -
  have c: "map ck_requirement (rep_checks r) = requirements (rep_level r)"
    "list_all ck_ok (rep_checks r)"
    using assms(1)
    by (auto simp: validate_certification_report_def validate_report_contract_iff report_contract_def)
  from requirements_mono [OF assms(2)] assms(3) have "q \<in> set (requirements (rep_level r))" by auto
  with c show ?thesis by (auto simp flip: c(1) simp: list_all_iff)
qed

theorem certification_levels_nested_witness:
  "\<exists>c\<in>set (rep_checks demo_report). ck_requirement c = SafetyContract \<and> ck_ok c"
  by (rule certification_levels_nested [OF demo_report_valid, of Conformant])
     (simp_all add: demo_report_def less_eq_certification_level_def level_1_requirements_def)

text \<open>C1: accepted evidence is sound. The report that is returned is the one parsed from the exact
  bytes, meets its contract for the expected subject and passed every check; a certification key
  of the trust store, valid for the whole lifetime of the envelope, signed an envelope that
  carries the digest of those bytes, and the decision time lies in a lifetime of at most 366 days;
  a revocation key of the same issuer signed a list that is current, at most seven days long, not
  older than the last accepted one, and does not revoke the report.\<close>
theorem accepted_evidence_sound:
  assumes "verify_certification_evidence d c rb eb sb lb expected ctx = Inr v"
  shows "\<exists>e store l. parse_envelope c eb = Some e \<and> parse_store c sb = Some store
    \<and> parse_revocations c lb = Some l
    \<and> parse_report c rb = Some (vc_report v) \<and> report_contract d (vc_report v) expected
    \<and> list_all ck_ok (rep_checks (vc_report v))
    \<and> ev_report_digest e = sha256_digest d rb
    \<and> ev_issued_at e \<le> dc_now ctx \<and> dc_now ctx \<le> ev_expires_at e
    \<and> unat (ev_expires_at e) \<le> unat (ev_issued_at e) + 366 * 24 * 60 * 60
    \<and> signed_by d store (vc_issuer_id v) (vc_certification_key_id v) PurposeCertification
        (ev_issued_at e) (ev_expires_at e) (envelope_signing_message e) (ev_signature e)
    \<and> signed_by d store (vc_issuer_id v) (vc_revocation_key_id v) PurposeRevocation
        (rl_issued_at l) (rl_next_update l) (revocation_signing_message l) (rl_signature l)
    \<and> rl_issued_at l \<le> dc_now ctx \<and> dc_now ctx \<le> rl_next_update l
    \<and> unat (rl_next_update l) \<le> unat (rl_issued_at l) + 7 * 24 * 60 * 60
    \<and> dc_minimum_sequence ctx \<le> vc_revocation_sequence v \<and> vc_revocation_sequence v = rl_sequence l
    \<and> au_revocation_id (rep_authority (vc_report v)) \<notin> rv_id ` set (rl_revoked l)"
proof -
  from verify_evidence_accepted [OF assms] obtain e store l where
    p: "parse_envelope c eb = Some e" "parse_store c sb = Some store" "parse_revocations c lb = Some l"
    and a: "evidence_accepted d c rb expected ctx v e store l" by blast
  have rv: "validate_revocations d l store (ev_issuer_id e) ctx = Inr ()"
    and en: "validate_envelope e (dc_now ctx) = Inr ()"
    using a unfolding evidence_accepted_def by blast+
  have "list_all ck_ok (rep_checks (vc_report v))"
    using a unfolding evidence_accepted_def report_contract_def by blast
  moreover have t: "ev_issued_at e \<le> dc_now ctx" "dc_now ctx \<le> ev_expires_at e"
    using en by (simp_all add: validate_envelope_Inr)
  ultimately show ?thesis
    using p a t validate_envelope_lifetime [OF en] validate_revocations_fresh [OF rv]
      validate_revocations_signed [OF rv]
    by (intro exI [of _ e] exI [of _ store] exI [of _ l])
       (simp add: evidence_accepted_def)
qed

theorem accepted_evidence_sound_witness:
  "\<exists>e store l. parse_envelope demo_trust_codec ''E'' = Some e
    \<and> parse_store demo_trust_codec ''S'' = Some store \<and> parse_revocations demo_trust_codec ''L'' = Some l
    \<and> signed_by demo_deps store ''tokensaver'' ''cert'' PurposeCertification
        (ev_issued_at e) (ev_expires_at e) (envelope_signing_message e) (ev_signature e)
    \<and> 5 = rl_sequence l \<and> ''rev-7'' \<notin> rv_id ` set (rl_revoked l)"
  using accepted_evidence_sound [OF demo_verify]
  unfolding demo_verified_simps by (elim exE conjE) (intro exI conjI; assumption)

text \<open>An envelope binds one report: if the same envelope is accepted with two reports, their
  bytes have the same SHA-256 hash.\<close>

lemma envelope_binds_report:
  assumes "verify_certification_evidence d c rb eb sb lb expected ctx = Inr v"
    and "verify_certification_evidence d c rb' eb sb' lb' expected' ctx' = Inr v'"
  shows "sha256 d rb = sha256 d rb'"
proof -
  from verify_evidence_accepted [OF assms(1)] verify_evidence_accepted [OF assms(2)]
  have "sha256_digest d rb = sha256_digest d rb'" by (auto simp: evidence_accepted_def)
  then show ?thesis by (rule sha256_digest_inj)
qed

theorem envelope_binds_report_witness: "sha256 demo_deps ''R'' = sha256 demo_deps ''R''"
  by (rule envelope_binds_report [OF demo_verify demo_verify])

text \<open>Signatures cannot be moved to another document: the signed message determines every field
  of an envelope or a revocation list but the signature, and no envelope message is a revocation
  message.\<close>
lemma signed_messages_unambiguous:
  assumes "envelope_fields_ok a" and "envelope_fields_ok b"
    and "revocation_fields_ok l" and "revocation_fields_ok m"
  shows "(envelope_signing_message a = envelope_signing_message b \<longrightarrow>
      a\<lparr>ev_signature := s\<rparr> = b\<lparr>ev_signature := s\<rparr>)
    \<and> (revocation_signing_message l = revocation_signing_message m \<longrightarrow>
      l\<lparr>rl_signature := s\<rparr> = m\<lparr>rl_signature := s\<rparr>)
    \<and> envelope_signing_message a \<noteq> revocation_signing_message l"
  using envelope_message_unique [OF assms(1,2)] revocation_message_unique [OF assms(3,4)]
    messages_separated by blast

lemma demo_fields_ok: "envelope_fields_ok demo_envelope" "revocation_fields_ok demo_list"
proof -
  have "length (sha256_digest demo_deps x) = 71" for x
    using demo_digest [of x] by (simp add: valid_digest_def)
  then show "envelope_fields_ok demo_envelope" "revocation_fields_ok demo_list"
    by (simp_all add: envelope_fields_ok_def revocation_fields_ok_def revocation_ok_def field_ok_def
        demo_envelope_def demo_list_def unsigned_envelope_def unsigned_revocations_def
        demo_exchange_def signature_algorithm_def)
qed

lemma signed_messages_unambiguous_witness:
  "envelope_signing_message demo_envelope \<noteq> revocation_signing_message demo_list"
  using signed_messages_unambiguous [OF demo_fields_ok(1,1) demo_fields_ok(2,2)] by blast



end
