(* ===== verification/Framing.thy ===== *)
theory Framing
  imports Encoding
begin

text \<open>
  Content-Length framing, the transport of TSPP. The frame writer is the same in the SDK's v1
  and v2 servers and in the workbench; the three frame readers differ and live with their
  components. The locale \<open>framing\<close> is the contract between a writer and a reader, and what a
  server loop (\<^verbatim>\<open>while let Some(frame) = read_frame(reader)? { .. }\<close>) may rely on: its client
  lemmas refine the loop over bytes to a run over whole messages, and show that it returns.
\<close>

abbreviation LF :: char where "LF \<equiv> CHR 0x0A"
abbreviation CR :: char where "CR \<equiv> CHR 0x0D"

definition content_length_header :: "nat \<Rightarrow> bytes" where
  "content_length_header n = ''Content-Length: '' @ dec n"

definition frame_bytes :: "bytes \<Rightarrow> bytes" where
  "frame_bytes payload = content_length_header (length payload) @ [CR, LF, CR, LF] @ payload"

text \<open>\<^verbatim>\<open>BufRead::read_until(b'\n')\<close> on the remaining input: the line with its terminator, the rest.\<close>

fun read_until_lf :: "bytes \<Rightarrow> bytes \<times> bytes" where
  "read_until_lf [] = ([], [])"
| "read_until_lf (c # cs) =
     (if c = LF then ([c], cs)
      else (let (line, rest) = read_until_lf cs in (c # line, rest)))"

text \<open>\<^verbatim>\<open>while matches!(line.last(), Some(b'\n' | b'\r')) { line.pop(); }\<close>\<close>

definition strip_eol :: "bytes \<Rightarrow> bytes" where
  "strip_eol line = rev (dropWhile (\<lambda>c. c = LF \<or> c = CR) (rev line))"

text \<open>The two sides of the first colon (\<^verbatim>\<open>position(|b| b == b':')\<close>, \<^verbatim>\<open>split_once(':')\<close>).\<close>

definition split_colon :: "bytes \<Rightarrow> (bytes \<times> bytes) option" where
  "split_colon line =
     (if CHR '':'' \<in> set line
      then Some (takeWhile (\<lambda>c. c \<noteq> CHR '':'') line, tl (dropWhile (\<lambda>c. c \<noteq> CHR '':'') line))
      else None)"

text \<open>\<^verbatim>\<open>reader.read_exact(&mut vec![0; length])\<close>; \<open>None\<close> is the unexpected end of input.\<close>

definition read_exact :: "nat \<Rightarrow> bytes \<Rightarrow> (bytes \<times> bytes) option" where
  "read_exact n input = (if n \<le> length input then Some (take n input, drop n input) else None)"

lemma read_until_lf_append:
  "LF \<notin> set x \<Longrightarrow> read_until_lf (x @ LF # y) = (x @ [LF], y)"
  by (induction x) auto

lemma read_until_lf_concat: "read_until_lf s = (l, r) \<Longrightarrow> l @ r = s"
  by (induction s arbitrary: l r) (auto split: if_splits prod.splits)

lemma read_until_lf_Nil_iff: "fst (read_until_lf s) = [] \<longleftrightarrow> s = []"
  by (cases s) (auto split: prod.splits)

lemma read_exact_Some:
  "read_exact n s = Some (p, r) \<longleftrightarrow> s = p @ r \<and> length p = n"
  by (auto simp: read_exact_def)

lemma split_colon_append:
  "CHR '':'' \<notin> set n \<Longrightarrow> split_colon (n @ CHR '':'' # v) = Some (n, v)"
  by (simp add: split_colon_def takeWhile_append dropWhile_append)

lemma strip_eol_crlf:
  "x \<noteq> [] \<Longrightarrow> last x \<noteq> LF \<Longrightarrow> last x \<noteq> CR \<Longrightarrow> strip_eol (x @ [CR, LF]) = x"
  by (cases x rule: rev_cases) (auto simp: strip_eol_def)

lemma content_length_header_facts:
  shows "LF \<notin> set (content_length_header n)"
    and "last (content_length_header n) \<noteq> LF" "last (content_length_header n) \<noteq> CR"
    and "content_length_header n \<noteq> []"
    and "split_colon (content_length_header n) = Some (''Content-Length'', CHR '' '' # dec n)"
    and "n \<le> u64_max \<Longrightarrow> length (content_length_header n) \<le> 36"
proof -
  have d: "is_digit (last (dec n))" by (rule dec_digits [of _ n]) simp
  show "LF \<notin> set (content_length_header n)"
    using dec_digits [of LF n] by (auto simp: content_length_header_def is_digit_def)
  show "last (content_length_header n) \<noteq> LF" "last (content_length_header n) \<noteq> CR"
    using d by (auto simp: content_length_header_def is_digit_def)
  show "content_length_header n \<noteq> []" by (simp add: content_length_header_def)
  show "split_colon (content_length_header n) = Some (''Content-Length'', CHR '' '' # dec n)"
    using split_colon_append [of "''Content-Length''" "CHR '' '' # dec n"]
    by (simp add: content_length_header_def)
  assume "n \<le> u64_max"
  then have "length (dec n) \<le> 20" by (intro length_dec_le) (auto simp: u64_max_def)
  then show "length (content_length_header n) \<le> 36" by (simp add: content_length_header_def)
qed

lemma frame_bytes_lines:
  shows "read_until_lf (frame_bytes p @ r)
           = (content_length_header (length p) @ [CR, LF], CR # LF # p @ r)"
    and "read_until_lf (CR # LF # p @ r) = ([CR, LF], p @ r)"
  using read_until_lf_append [of "content_length_header (length p) @ [CR]" "CR # LF # p @ r"]
    content_length_header_facts(1) [of "length p"]
  by (simp_all add: frame_bytes_def)

section \<open>The server loop\<close>

text \<open>What the body of a server loop does with one frame.\<close>

datatype ('s, 'e) outcome = Continue 's | Finish 's | Fail 'e 's

text \<open>
  \<^verbatim>\<open>while let Some(frame) = read_frame(reader)? { body }\<close>. The result pairs the final state
  with the \<^verbatim>\<open>Result\<close>; \<open>None\<close> would be a loop that never returns.
\<close>

partial_function (option) serve_loop ::
  "(bytes \<Rightarrow> 'e + bytes option \<times> bytes) \<Rightarrow> ('s \<Rightarrow> bytes \<Rightarrow> ('s, 'e) outcome) \<Rightarrow> 's \<Rightarrow> bytes
     \<Rightarrow> ('s \<times> ('e + unit)) option"
where
  "serve_loop decode body st input =
     (case decode input of
        Inl e \<Rightarrow> Some (st, Inl e)
      | Inr (frame, rest) \<Rightarrow>
          (case frame of
             None \<Rightarrow> Some (st, Inr ())
           | Some payload \<Rightarrow>
               (case body st payload of
                  Continue st' \<Rightarrow> serve_loop decode body st' rest
                | Finish st' \<Rightarrow> Some (st', Inr ())
                | Fail e st' \<Rightarrow> Some (st', Inl e))))"

text \<open>The abstract server: the same body run over whole messages.\<close>

fun run_frames :: "('s \<Rightarrow> bytes \<Rightarrow> ('s, 'e) outcome) \<Rightarrow> 's \<Rightarrow> bytes list \<Rightarrow> ('s, 'e) outcome"
where
  "run_frames body st [] = Continue st"
| "run_frames body st (p # ps) =
     (case body st p of
        Continue st' \<Rightarrow> run_frames body st' ps
      | Finish st' \<Rightarrow> Finish st'
      | Fail e st' \<Rightarrow> Fail e st')"

text \<open>How the loop ends when the messages are followed by the end of the input.\<close>

fun loop_result :: "('s, 'e) outcome \<Rightarrow> 's \<times> ('e + unit)" where
  "loop_result (Continue st) = (st, Inr ())"
| "loop_result (Finish st) = (st, Inr ())"
| "loop_result (Fail e st) = (st, Inl e)"

locale framing =
  fixes encode :: "bytes \<Rightarrow> bytes"
    and decode :: "bytes \<Rightarrow> 'e + bytes option \<times> bytes"
    and fits :: "bytes \<Rightarrow> bool"
  assumes decode_encode: "fits p \<Longrightarrow> decode (encode p @ r) = Inr (Some p, r)"
    and decode_end: "decode [] = Inr (None, [])"
    and decode_bounded: "decode s = Inr (Some p, r) \<Longrightarrow> fits p"
    and decode_progress: "decode s = Inr (Some p, r) \<Longrightarrow> length r < length s"
begin

lemma encode_unique: "fits x \<Longrightarrow> fits y \<Longrightarrow> encode x @ r = encode y @ s \<Longrightarrow> x = y \<and> r = s"
  by (metis Inr_inject Pair_inject decode_encode option.inject)

sublocale prefix_code encode fits
  by unfold_locales (rule encode_unique)

text \<open>The loop always returns, whatever the input and the body.\<close>

lemma loop_returns: "\<exists>res. serve_loop decode body st input = Some res"
proof (induction "length input" arbitrary: st input rule: less_induct)
  case less
  show ?case
  proof (cases "decode input")
    case (Inl e)
    then show ?thesis by (subst serve_loop.simps) simp
  next
    case (Inr fr)
    obtain frame rest where fr: "fr = (frame, rest)" by (cases fr)
    show ?thesis
    proof (cases frame)
      case None
      with Inr fr show ?thesis by (subst serve_loop.simps) simp
    next
      case (Some p)
      with Inr fr have "length rest < length input" using decode_progress by blast
      then have "\<exists>res. serve_loop decode body st' rest = Some res" for st'
        using less by blast
      with Inr fr Some show ?thesis
        by (subst serve_loop.simps) (simp split: outcome.split)
    qed
  qed
qed

text \<open>Refinement: on a stream of encoded messages the loop is the run over the messages.\<close>

lemma loop_frames:
  assumes "list_all fits ps"
  shows "serve_loop decode body st (concat (map encode ps) @ r) =
    (case run_frames body st ps of
       Continue st' \<Rightarrow> serve_loop decode body st' r
     | Finish st' \<Rightarrow> Some (st', Inr ())
     | Fail e st' \<Rightarrow> Some (st', Inl e))"
  using assms
proof (induction ps arbitrary: st)
  case Nil
  then show ?case by simp
next
  case (Cons p ps)
  then have "decode (encode p @ concat (map encode ps) @ r) = Inr (Some p, concat (map encode ps) @ r)"
    by (simp add: decode_encode)
  with Cons show ?case
    by (subst serve_loop.simps) (simp split: outcome.split)
qed

lemma loop_stream:
  assumes "list_all fits ps"
  shows "serve_loop decode body st (concat (map encode ps)) = Some (loop_result (run_frames body st ps))"
proof -
  have "serve_loop decode body st' [] = Some (st', Inr ())" for st'
    by (subst serve_loop.simps) (simp add: decode_end)
  with loop_frames [OF assms, of body st "[]"] show ?thesis
    by (simp split: outcome.split)
qed

text \<open>What every message keeps, the loop keeps: invariants of the body are invariants of the server.\<close>

lemma loop_invariant:
  assumes "serve_loop decode body st input = Some (st', res)" and "I st"
    and step: "\<And>s p. I s \<Longrightarrow> fits p \<Longrightarrow>
      (case body s p of Continue s' \<Rightarrow> I s' | Finish s' \<Rightarrow> I s' | Fail e s' \<Rightarrow> I s')"
  shows "I st'"
  using assms(1,2)
proof (induction "length input" arbitrary: st input rule: less_induct)
  case less
  note run = less.prems(1) [unfolded serve_loop.simps [of decode body st input]]
  show ?case
  proof (cases "decode input")
    case (Inl e)
    with run less.prems(2) show ?thesis by simp
  next
    case (Inr fr)
    obtain frame rest where fr: "fr = (frame, rest)" by (cases fr)
    show ?thesis
    proof (cases frame)
      case None
      with run Inr fr less.prems(2) show ?thesis by simp
    next
      case (Some p)
      with Inr fr have d: "decode input = Inr (Some p, rest)" by simp
      note st = step [OF less.prems(2) decode_bounded [OF d]]
      show ?thesis
      proof (cases "body st p")
        case (Continue s')
        with run d have "serve_loop decode body s' rest = Some (st', res)" by simp
        moreover from Continue st have "I s'" by simp
        ultimately show ?thesis by (rule less.hyps [OF decode_progress [OF d]])
      qed (use run d st in simp_all)
    qed
  qed
qed

end

end
