(* ===== verification/Sdk_Protocol.thy ===== *)
theory Sdk_Protocol
  imports Framing Deps
begin

text \<open>
  The Rust SDK's v1 server: sdk/rust/tokensaver-plugin/src/model.rs and protocol.rs. A plugin
  author supplies an optimizer; the SDK frames, validates, dispatches and answers. The
  optimizer may keep state behind \<^verbatim>\<open>&self\<close> and may panic: it is a function on an arbitrary
  state that returns no action when it panics. The derived (de)serializers are parameters.
\<close>

section \<open>The model module\<close>

definition max_content_bytes :: nat where
  "max_content_bytes = 16777216"

record request =
  req_kind :: string
  req_program :: string
  req_exit_code :: "32 word"
  req_text :: string
  req_budget_ms :: u32

datatype action = Pass | Optimize string

datatype action_error = Empty | NulByte | TooLarge nat nat

definition optimized :: "string \<Rightarrow> action_error + action" where
  "optimized content =
     (if content = [] then Inl Empty
      else if CHR 0x00 \<in> set content then Inl NulByte
      else if length content > max_content_bytes
      then Inl (TooLarge (length content) max_content_bytes)
      else Inr (Optimize content))"

section \<open>Reading a frame\<close>

definition max_frame_bytes :: nat where
  "max_frame_bytes = 25165824"

definition max_header_bytes :: nat where
  "max_header_bytes = 8192"

definition max_headers :: nat where
  "max_headers = 32"

datatype protocol_error =
    Io
  | MalformedHeader
  | MissingContentLength
  | InvalidContentLength
  | TooManyHeaders
  | HeaderTooLarge
  | InvalidJson

text \<open>One non-empty header line, after its line terminator was stripped.\<close>

definition parse_header :: "nat option \<Rightarrow> bytes \<Rightarrow> protocol_error + nat option" where
  "parse_header content_length line =
     (case split_colon line of
        None \<Rightarrow> Inl MalformedHeader
      | Some (name, rest) \<Rightarrow>
          if \<not> is_utf8 name then Inl MalformedHeader
          else if eq_ignore_case (str_trim name) ''Content-Length'' then
            if \<not> is_utf8 rest then Inl InvalidContentLength
            else (case parse_usize (str_trim rest) of
                    None \<Rightarrow> Inl InvalidContentLength
                  | Some len \<Rightarrow>
                      if len = 0 \<or> len > max_frame_bytes then Inl InvalidContentLength
                      else Inr (Some len))
          else Inr content_length)"

text \<open>
  The header loop. The first argument counts the iterations of \<^verbatim>\<open>0..=MAX_HEADERS\<close> that are
  left, the second is \<open>header_count\<close>.
\<close>

fun read_headers ::
  "nat \<Rightarrow> nat \<Rightarrow> nat option \<Rightarrow> nat \<Rightarrow> bytes \<Rightarrow> protocol_error + bytes option \<times> bytes"
where
  "read_headers 0 header_count content_length header_bytes input = Inl TooManyHeaders"
| "read_headers (Suc left) header_count content_length header_bytes input =
     (case read_until_lf input of (line, rest) \<Rightarrow>
        if length line = 0 then
          (if header_count = 0 then Inr (None, rest) else Inl MissingContentLength)
        else
          let header_bytes' = min u64_max (header_bytes + length line);
              line' = strip_eol line
          in if header_bytes' > max_header_bytes then Inl HeaderTooLarge
             else if line' = [] then
               (case content_length of
                  Some len \<Rightarrow>
                    (case read_exact len rest of
                       None \<Rightarrow> Inl Io
                     | Some (frame, rest') \<Rightarrow> Inr (Some frame, rest'))
                | None \<Rightarrow> read_headers left (Suc header_count) None header_bytes' rest)
             else bindR (parse_header content_length line') (\<lambda>content_length'.
                    read_headers left (Suc header_count) content_length' header_bytes' rest))"

definition read_frame :: "bytes \<Rightarrow> protocol_error + bytes option \<times> bytes" where
  "read_frame input = read_headers (Suc max_headers) 0 None 0 input"

declare read_headers.simps(2) [simp del]

definition frame_fits :: "bytes \<Rightarrow> bool" where
  "frame_fits p \<longleftrightarrow> 0 < length p \<and> length p \<le> max_frame_bytes"

text \<open>An accepted \<^verbatim>\<open>Content-Length\<close> is within the frame bound.\<close>

definition length_ok :: "nat option \<Rightarrow> bool" where
  "length_ok cl \<longleftrightarrow> (\<forall>len. cl = Some len \<longrightarrow> 0 < len \<and> len \<le> max_frame_bytes)"

lemma length_ok_None [simp]: "length_ok None"
  by (simp add: length_ok_def)

lemma parse_header_length_ok:
  "parse_header cl line = Inr cl' \<Longrightarrow> length_ok cl \<Longrightarrow> length_ok cl'"
  by (auto simp: parse_header_def length_ok_def split: option.splits if_splits prod.splits)

lemma read_headers_step:
  assumes "read_headers (Suc left) hc cl hb s = Inr (Some p, r)"
    and "read_until_lf s = (line, rest)"
  shows "(\<exists>len. cl = Some len \<and> read_exact len rest = Some (p, r))
    \<or> (\<exists>cl' hb'. (cl' = cl \<or> parse_header cl (strip_eol line) = Inr cl')
         \<and> read_headers left (Suc hc) cl' hb' rest = Inr (Some p, r))"
  using assms
  by (subst (asm) read_headers.simps(2))
     (auto simp: Let_def bindR_Inr_iff split: if_splits option.splits prod.splits)

text \<open>A frame is a suffix of what was read behind some header bytes, and within the bound.\<close>

lemma read_headers_frame:
  "read_headers left hc cl hb s = Inr (Some p, r) \<Longrightarrow> length_ok cl \<Longrightarrow>
     frame_fits p \<and> (\<exists>headers. s = headers @ p @ r)"
proof (induction left arbitrary: hc cl hb s)
  case (Suc left)
  obtain line rest where ln: "read_until_lf s = (line, rest)" by (cases "read_until_lf s")
  have s: "s = line @ rest" using read_until_lf_concat [OF ln] by simp
  from read_headers_step [OF Suc.prems(1) ln] parse_header_length_ok [OF _ Suc.prems(2)] Suc.prems(2)
  consider
      (frame) len where "cl = Some len" "read_exact len rest = Some (p, r)"
    | (again) cl' hb' where "length_ok cl'" "read_headers left (Suc hc) cl' hb' rest = Inr (Some p, r)"
    by blast
  then show ?case
  proof cases
    case frame
    with Suc.prems(2) s show ?thesis
      by (auto simp: frame_fits_def length_ok_def read_exact_Some)
  next
    case again
    from Suc.IH [OF again(2,1)] s show ?thesis by (metis append.assoc)
  qed
qed simp

lemma read_frame_frame:
  "read_frame s = Inr (Some p, r) \<Longrightarrow> frame_fits p \<and> (\<exists>headers. s = headers @ p @ r)"
  by (auto simp: read_frame_def length_ok_def dest!: read_headers_frame)

lemma parse_header_content_length:
  assumes "0 < n" and "n \<le> max_frame_bytes"
  shows "parse_header cl (content_length_header n) = Inr (Some n)"
proof -
  have n: "n \<le> u64_max" using assms(2) by (simp add: max_frame_bytes_def u64_max_def)
  have name: "str_trim ''Content-Length'' = ''Content-Length''"
    by (rule str_trim_ascii_id) (simp_all add: ascii_def is_whitespace_def)
  have u: "is_utf8 ''Content-Length''" "is_utf8 (CHR '' '' # dec n)"
    by (rule is_utf8_ascii, simp add: ascii_def)+
       (use printable_ascii [OF printable_dec] in \<open>simp add: ascii_def\<close>)
  show ?thesis
    using assms n u
    by (simp add: parse_header_def content_length_header_facts(5) name str_trim_space_dec
        parse_usize_dec eq_ignore_case_def)
qed

lemma read_frame_frame_bytes:
  assumes "frame_fits p"
  shows "read_frame (frame_bytes p @ r) = Inr (Some p, r)"
proof -
  let ?h = "content_length_header (length p)"
  have n: "0 < length p" "length p \<le> max_frame_bytes" "length p \<le> u64_max"
    using assms by (simp_all add: frame_fits_def max_frame_bytes_def u64_max_def)
  have hl: "length ?h \<le> 36" by (rule content_length_header_facts(6) [OF n(3)])
  have st: "strip_eol (?h @ [CR, LF]) = ?h"
    by (rule strip_eol_crlf) (simp_all add: content_length_header_facts)
  have mh: "Suc max_headers = Suc (Suc 31)" by (simp add: max_headers_def)
  have m: "max_header_bytes = 8192" "u64_max \<ge> 8192"
    by (simp_all add: max_header_bytes_def u64_max_def)
  have eol: "strip_eol [CR, LF] = []" by (simp add: strip_eol_def)
  have re: "read_exact (length p) (p @ r) = Some (p, r)" by (simp add: read_exact_Some)
  have second: "read_headers (Suc 31) (Suc 0) (Some (length p)) hb (CR # LF # p @ r)
      = Inr (Some p, r)" if "hb \<le> 40" for hb
    using that m re eol
    by (subst read_headers.simps(2)) (simp add: frame_bytes_lines(2) Let_def)
  show ?thesis
    unfolding read_frame_def mh
    using hl m st parse_header_content_length [OF n(1,2), of None] second [of "length ?h + 2"]
    by (subst read_headers.simps(2))
       (simp add: frame_bytes_lines(1) Let_def content_length_header_facts(4) min_def)
qed

interpretation sdk_framing: framing frame_bytes read_frame frame_fits
proof unfold_locales
  show "read_frame [] = Inr (None, [])"
    by (simp add: read_frame_def read_headers.simps(2))
next
  fix s p r
  assume "read_frame s = Inr (Some p, r)"
  then show "frame_fits p" and "length r < length s"
    by (auto simp: frame_fits_def dest!: read_frame_frame)
qed (rule read_frame_frame_bytes)

end
