(* ===== verification/Sdk_Serve.thy ===== *)
theory Sdk_Serve
  imports Sdk_Protocol
begin

text \<open>
  The request loop of sdk/rust/tokensaver-plugin/src/protocol.rs. \<open>respond\<close> is the body of
  \<^verbatim>\<open>serve\<close> for one decoded request: every branch of it ends in one \<^verbatim>\<open>write_result\<close> or
  \<^verbatim>\<open>write_error\<close>, or in the \<^verbatim>\<open>break\<close> of shutdown. The output stream is the list of bytes
  written so far (an in-memory writer, which does not fail).
\<close>

record rpc_request =
  rq_jsonrpc :: string
  rq_id :: "json option"
  rq_method :: string
  rq_params :: json

record rpc_error =
  re_code :: int
  re_message :: string

record rpc_response =
  rs_id :: "json option"
  rs_result :: "json option"
  rs_error :: "rpc_error option"

record initialize_params =
  ip_api_version :: u32
  ip_host :: string
  ip_budget_ms :: u32

record optimize_params =
  op_kind :: string
  op_program :: string
  op_exit_code :: "32 word"
  op_encoding :: string
  op_content :: string
  op_budget_ms :: u32

text \<open>The serde (de)serializers of these types: parameters.\<close>

record sdk_codec =
  parse_request :: "bytes \<Rightarrow> rpc_request option"
  parse_initialize :: "json \<Rightarrow> initialize_params option"
  parse_optimize :: "json \<Rightarrow> optimize_params option"
  response_bytes :: "rpc_response \<Rightarrow> bytes option"

text \<open>An implementation of the trait \<^verbatim>\<open>Optimizer\<close>; \<open>None\<close> is a panic.\<close>

record 'o plugin =
  plugin_id :: string
  plugin_version :: string
  optimize :: "'o \<Rightarrow> request \<Rightarrow> action option \<times> 'o"

record 'o server =
  sv_initialized :: bool
  sv_optimizer :: 'o
  sv_output :: bytes

definition api_version :: u32 where
  "api_version = 1"

definition decode_request :: "deps \<Rightarrow> optimize_params \<Rightarrow> string + request" where
  "decode_request d params =
     (if op_encoding params \<noteq> ''base64'' then Inl ''encoding must be base64''
      else case b64_decode d (op_content params) of
        None \<Rightarrow> Inl ''content is not valid base64''
      | Some content \<Rightarrow>
          if length content > max_content_bytes then Inl ''decoded content exceeds 16 MiB''
          else if CHR 0x00 \<in> set content then Inl ''decoded content contains NUL bytes''
          else if \<not> is_utf8 content then Inl ''decoded content is not UTF-8''
          else Inr \<lparr>req_kind = op_kind params, req_program = op_program params,
                    req_exit_code = op_exit_code params, req_text = content,
                    req_budget_ms = op_budget_ms params\<rparr>)"

definition result_response :: "rpc_request \<Rightarrow> json \<Rightarrow> rpc_response" where
  "result_response rq v = \<lparr>rs_id = rq_id rq, rs_result = Some v, rs_error = None\<rparr>"

definition error_response :: "rpc_request \<Rightarrow> int \<Rightarrow> string \<Rightarrow> rpc_response" where
  "error_response rq code message =
     \<lparr>rs_id = rq_id rq, rs_result = None,
      rs_error = Some \<lparr>re_code = code, re_message = message\<rparr>\<rparr>"

definition handshake :: "('o, 'z) plugin_scheme \<Rightarrow> json" where
  "handshake pl = JObj [(''apiVersion'', json_int (uint api_version)),
     (''pluginId'', JStr (plugin_id pl)), (''version'', JStr (plugin_version pl))]"

definition pass_result :: json where
  "pass_result = JObj [(''action'', JStr ''pass'')]"

definition optimize_result :: "deps \<Rightarrow> string \<Rightarrow> json" where
  "optimize_result d content =
     JObj [(''action'', JStr ''optimize''), (''content'', JStr (b64_encode d content))]"

definition unsafe_content :: "string \<Rightarrow> bool" where
  "unsafe_content content \<longleftrightarrow>
     content = [] \<or> CHR 0x00 \<in> set content \<or> length content > max_content_bytes"

definition respond_initialize ::
  "sdk_codec \<Rightarrow> 'o plugin \<Rightarrow> 'o server \<Rightarrow> rpc_request \<Rightarrow> 'o server \<times> rpc_response" where
  "respond_initialize c pl st rq =
     (case parse_initialize c (rq_params rq) of
        None \<Rightarrow> (st, error_response rq (-32602) ''invalid initialize params'')
      | Some params \<Rightarrow>
          if ip_api_version params \<noteq> api_version
          then (st, error_response rq (-32602) ''unsupported apiVersion'')
          else (st\<lparr>sv_initialized := True\<rparr>, result_response rq (handshake pl)))"

definition respond_action :: "deps \<Rightarrow> rpc_request \<Rightarrow> action option \<Rightarrow> rpc_response" where
  "respond_action d rq act =
     (case act of
        Some Pass \<Rightarrow> result_response rq pass_result
      | Some (Optimize content) \<Rightarrow>
          if unsafe_content content then error_response rq (-32603) ''unsafe optimized content''
          else result_response rq (optimize_result d content)
      | None \<Rightarrow> error_response rq (-32603) ''optimizer panicked'')"

definition respond_optimize ::
  "deps \<Rightarrow> sdk_codec \<Rightarrow> 'o plugin \<Rightarrow> 'o server \<Rightarrow> rpc_request \<Rightarrow> 'o server \<times> rpc_response"
where
  "respond_optimize d c pl st rq =
     (if \<not> sv_initialized st then (st, error_response rq (-32002) ''plugin is not initialized'')
      else case parse_optimize c (rq_params rq) of
        None \<Rightarrow> (st, error_response rq (-32602) ''invalid optimize params'')
      | Some params \<Rightarrow>
          (case decode_request d params of
             Inl message \<Rightarrow> (st, error_response rq (-32602) message)
           | Inr request \<Rightarrow>
               (case optimize pl (sv_optimizer st) request of (act, opt') \<Rightarrow>
                  (st\<lparr>sv_optimizer := opt'\<rparr>, respond_action d rq act))))"

definition respond ::
  "deps \<Rightarrow> sdk_codec \<Rightarrow> 'o plugin \<Rightarrow> 'o server \<Rightarrow> rpc_request \<Rightarrow> 'o server \<times> rpc_response option"
where
  "respond d c pl st rq =
     (if rq_jsonrpc rq \<noteq> ''2.0'' then
        (st, Some (error_response rq (-32600) ''jsonrpc must be 2.0''))
      else if rq_method rq = ''initialize'' then
        apsnd Some (respond_initialize c pl st rq)
      else if rq_method rq = ''optimize'' then
        apsnd Some (respond_optimize d c pl st rq)
      else if rq_method rq = ''shutdown'' then (st, None)
      else (st, Some (error_response rq (-32601) ''method not found'')))"

definition write_response ::
  "sdk_codec \<Rightarrow> 'o server \<Rightarrow> rpc_response \<Rightarrow> ('o server, protocol_error) outcome" where
  "write_response c st r =
     (case response_bytes c r of
        None \<Rightarrow> Fail InvalidJson st
      | Some payload \<Rightarrow> Continue (st\<lparr>sv_output := sv_output st @ frame_bytes payload\<rparr>))"

definition serve_body ::
  "deps \<Rightarrow> sdk_codec \<Rightarrow> 'o plugin \<Rightarrow> 'o server \<Rightarrow> bytes \<Rightarrow> ('o server, protocol_error) outcome"
where
  "serve_body d c pl st frame =
     (case parse_request c frame of
        None \<Rightarrow> Fail InvalidJson st
      | Some rq \<Rightarrow>
          (case respond d c pl st rq of
             (st', None) \<Rightarrow> Finish st'
           | (st', Some r) \<Rightarrow> write_response c st' r))"

definition start_server :: "'o \<Rightarrow> 'o server" where
  "start_server opt = \<lparr>sv_initialized = False, sv_optimizer = opt, sv_output = []\<rparr>"

definition serve ::
  "deps \<Rightarrow> sdk_codec \<Rightarrow> 'o plugin \<Rightarrow> 'o \<Rightarrow> bytes \<Rightarrow> ('o server \<times> (protocol_error + unit)) option"
where
  "serve d c pl opt input = serve_loop read_frame (serve_body d c pl) (start_server opt) input"

lemmas respond_defs = respond_def respond_initialize_def respond_optimize_def respond_action_def

section \<open>One request\<close>

lemma respond_id: "respond d c pl st rq = (st', Some r) \<Longrightarrow> rs_id r = rq_id rq"
  by (auto simp: respond_defs error_response_def result_response_def
      split: if_splits option.splits sum.splits prod.splits action.splits)

lemma respond_output: "sv_output (fst (respond d c pl st rq)) = sv_output st"
  by (auto simp: respond_defs split: option.splits sum.splits prod.splits)

lemma respond_gated:
  "\<not> sv_initialized (fst (respond d c pl st rq)) \<Longrightarrow>
     sv_optimizer (fst (respond d c pl st rq)) = sv_optimizer st \<and> \<not> sv_initialized st"
  by (auto simp: respond_defs split: option.splits sum.splits prod.splits if_splits)

text \<open>What a response may carry.\<close>

definition response_safe :: "deps \<Rightarrow> 'o plugin \<Rightarrow> rpc_response \<Rightarrow> bool" where
  "response_safe d pl r \<longleftrightarrow>
     (case rs_result r of
        None \<Rightarrow> rs_error r \<noteq> None
      | Some v \<Rightarrow> rs_error r = None \<and>
          (v = handshake pl \<or> v = pass_result
           \<or> (\<exists>content. v = optimize_result d content \<and> \<not> unsafe_content content)))"

lemma respond_safe: "respond d c pl st rq = (st', Some r) \<Longrightarrow> response_safe d pl r"
  by (auto simp: respond_defs error_response_def result_response_def response_safe_def
      split: if_splits option.splits sum.splits prod.splits action.splits)

lemma respond_Some_iff:
  "snd (respond d c pl st rq) = None \<longleftrightarrow> rq_jsonrpc rq = ''2.0'' \<and> rq_method rq = ''shutdown''"
  by (auto simp: respond_def)

section \<open>The server's output\<close>

text \<open>The output is a sequence of frames of safe responses.\<close>

definition output_ok :: "deps \<Rightarrow> sdk_codec \<Rightarrow> 'o plugin \<Rightarrow> 'o server \<Rightarrow> bool" where
  "output_ok d c pl st \<longleftrightarrow>
     (\<exists>rs. list_all (response_safe d pl) rs \<and> list_all (\<lambda>r. response_bytes c r \<noteq> None) rs
        \<and> sv_output st = concat (map (\<lambda>r. frame_bytes (the (response_bytes c r))) rs))"

lemma output_ok_append:
  assumes "output_ok d c pl st" and "sv_output st' = sv_output st @ frame_bytes payload"
    and "response_bytes c r = Some payload" and "response_safe d pl r"
  shows "output_ok d c pl st'"
proof -
  from assms(1) obtain rs where rs: "list_all (response_safe d pl) rs"
    "list_all (\<lambda>r. response_bytes c r \<noteq> None) rs"
    "sv_output st = concat (map (\<lambda>r. frame_bytes (the (response_bytes c r))) rs)"
    by (auto simp: output_ok_def)
  with assms show ?thesis
    by (auto simp: output_ok_def intro!: exI [of _ "rs @ [r]"])
qed

definition server_inv :: "deps \<Rightarrow> sdk_codec \<Rightarrow> 'o plugin \<Rightarrow> 'o \<Rightarrow> 'o server \<Rightarrow> bool" where
  "server_inv d c pl opt st \<longleftrightarrow>
     output_ok d c pl st \<and> (\<not> sv_initialized st \<longrightarrow> sv_optimizer st = opt)"

lemma output_ok_same: "sv_output st' = sv_output st \<Longrightarrow> output_ok d c pl st' = output_ok d c pl st"
  by (simp add: output_ok_def)

lemma respond_inv: "server_inv d c pl opt st \<Longrightarrow> server_inv d c pl opt (fst (respond d c pl st rq))"
  using respond_gated [of d c pl st rq]
    output_ok_same [OF respond_output [of d c pl st rq], of d c pl]
  unfolding server_inv_def by metis

lemma serve_body_inv:
  assumes inv: "server_inv d c pl opt st"
  shows "case serve_body d c pl st frame of
           Continue st' \<Rightarrow> server_inv d c pl opt st'
         | Finish st' \<Rightarrow> server_inv d c pl opt st'
         | Fail e st' \<Rightarrow> server_inv d c pl opt st'"
proof (cases "parse_request c frame")
  case None
  with inv show ?thesis by (simp add: serve_body_def)
next
  case (Some rq)
  obtain st' r where rsp: "respond d c pl st rq = (st', r)" by (cases "respond d c pl st rq")
  have inv': "server_inv d c pl opt st'" using respond_inv [OF inv, of rq] rsp by simp
  show ?thesis
  proof (cases r)
    case None
    with Some rsp inv' show ?thesis by (simp add: serve_body_def)
  next
    case (Some resp)
    show ?thesis
    proof (cases "response_bytes c resp")
      case None
      with Some \<open>parse_request c frame = Some rq\<close> rsp inv' show ?thesis
        by (simp add: serve_body_def write_response_def)
    next
      case (Some payload)
      let ?st = "st'\<lparr>sv_output := sv_output st' @ frame_bytes payload\<rparr>"
      have "output_ok d c pl ?st"
        using inv' Some respond_safe [of d c pl st rq st' resp] rsp \<open>r = Some resp\<close>
        by (intro output_ok_append [of d c pl st' ?st payload resp]) (simp_all add: server_inv_def)
      with inv' have "server_inv d c pl opt ?st" by (simp add: server_inv_def)
      with Some \<open>r = Some resp\<close> \<open>parse_request c frame = Some rq\<close> rsp show ?thesis
        by (simp add: serve_body_def write_response_def)
    qed
  qed
qed

lemma serve_inv: "serve d c pl opt input = Some (st, res) \<Longrightarrow> server_inv d c pl opt st"
proof -
  assume "serve d c pl opt input = Some (st, res)"
  moreover have "server_inv d c pl opt (start_server opt)"
    by (auto simp: start_server_def server_inv_def output_ok_def intro: exI [of _ "[]"])
  ultimately show ?thesis
    unfolding serve_def
    by (rule sdk_framing.loop_invariant [where I = "server_inv d c pl opt"]) (rule serve_body_inv)
qed

text \<open>A run over requests that are neither unreadable nor a shutdown answers each of them.\<close>

definition answerable :: "sdk_codec \<Rightarrow> bytes \<Rightarrow> bool" where
  "answerable c frame \<longleftrightarrow>
     (case parse_request c frame of
        None \<Rightarrow> False
      | Some rq \<Rightarrow> \<not> (rq_jsonrpc rq = ''2.0'' \<and> rq_method rq = ''shutdown''))"

lemma run_answers:
  assumes "list_all (answerable c) frames" and "\<And>r. response_bytes c r \<noteq> None"
  shows "\<exists>st' rs. run_frames (serve_body d c pl) st frames = Continue st'
    \<and> map rs_id rs = map (\<lambda>f. rq_id (the (parse_request c f))) frames
    \<and> sv_output st' = sv_output st @ concat (map (\<lambda>r. frame_bytes (the (response_bytes c r))) rs)"
  using assms(1)
proof (induction frames arbitrary: st)
  case Nil
  then show ?case by (auto intro: exI [of _ "[]"])
next
  case (Cons f frames)
  then obtain rq where rq: "parse_request c f = Some rq"
    "\<not> (rq_jsonrpc rq = ''2.0'' \<and> rq_method rq = ''shutdown'')"
    by (auto simp: answerable_def split: option.splits)
  obtain st1 resp where rsp: "respond d c pl st rq = (st1, Some resp)"
    using rq(2) respond_Some_iff [of d c pl st rq] by (cases "respond d c pl st rq") auto
  obtain payload where p: "response_bytes c resp = Some payload" using assms(2) by auto
  let ?st2 = "st1\<lparr>sv_output := sv_output st1 @ frame_bytes payload\<rparr>"
  have body: "serve_body d c pl st f = Continue ?st2"
    using rq(1) rsp p by (simp add: serve_body_def write_response_def)
  from Cons obtain st' rs where "run_frames (serve_body d c pl) ?st2 frames = Continue st'"
    "map rs_id rs = map (\<lambda>f. rq_id (the (parse_request c f))) frames"
    "sv_output st' = sv_output ?st2 @ concat (map (\<lambda>r. frame_bytes (the (response_bytes c r))) rs)"
    by fastforce
  moreover have "sv_output st1 = sv_output st" using respond_output [of d c pl st rq] rsp by simp
  ultimately show ?case
    using body p respond_id [OF rsp] rq(1)
    by (intro exI [of _ st'] exI [of _ "resp # rs"]) simp
qed

section \<open>Properties\<close>

text \<open>A concrete plugin and codec for the witnesses: it drops the last byte of its input.\<close>

definition demo_request :: "string \<Rightarrow> rpc_request" where
  "demo_request method = \<lparr>rq_jsonrpc = ''2.0'', rq_id = Some (json_int 7), rq_method = method,
     rq_params = JNull\<rparr>"

definition demo_codec :: sdk_codec where
  "demo_codec = \<lparr>
     parse_request = (\<lambda>b. if b = ''I'' then Some (demo_request ''initialize'')
       else if b = ''O'' then Some (demo_request ''optimize'') else None),
     parse_initialize = (\<lambda>_. Some \<lparr>ip_api_version = 1, ip_host = ''h'', ip_budget_ms = 250\<rparr>),
     parse_optimize = (\<lambda>_. Some \<lparr>op_kind = ''test'', op_program = ''go'', op_exit_code = 1,
       op_encoding = ''base64'', op_content = ''abcd'', op_budget_ms = 250\<rparr>),
     response_bytes = (\<lambda>r. Some ''R'')\<rparr>"

definition demo_plugin :: "nat plugin" where
  "demo_plugin = \<lparr>plugin_id = ''com.example.demo'', plugin_version = ''1.0.0'',
     optimize = (\<lambda>n rq. (if req_program rq = ''boom'' then None
        else Some (Optimize (butlast (req_text rq))), Suc n))\<rparr>"

lemmas demo_defs = demo_deps_def demo_request_def demo_codec_def demo_plugin_def

text \<open>A frame written by the SDK, followed by anything, is read back exactly: the reader
  returns the same payload and leaves the rest of the input untouched.\<close>
lemma sdk_frame_roundtrip:
  "0 < length p \<Longrightarrow> length p \<le> max_frame_bytes \<Longrightarrow>
     read_frame (frame_bytes p @ r) = Inr (Some p, r)"
  by (rule sdk_framing.decode_encode) (simp add: frame_fits_def)

lemma sdk_frame_roundtrip_witness:
  "read_frame (frame_bytes ''{}'' @ ''rest'') = Inr (Some ''{}'', ''rest'')"
  by (rule sdk_frame_roundtrip) (simp_all add: max_frame_bytes_def)

text \<open>C37: whatever the input, a frame the reader returns is not empty, is at most 24 MiB, and is
  a contiguous part of the input directly before the unread rest.\<close>
theorem sdk_frame_bounded:
  "read_frame s = Inr (Some p, r) \<Longrightarrow>
     0 < length p \<and> length p \<le> 24 * 2 ^ 20 \<and> (\<exists>headers. s = headers @ p @ r)"
  using read_frame_frame [of s p r] by (simp add: frame_fits_def max_frame_bytes_def)

theorem sdk_frame_bounded_witness:
  "(0::nat) < length ''{}'' \<and> length ''{}'' \<le> (24::nat) * 2 ^ 20
     \<and> (\<exists>headers. frame_bytes ''{}'' @ ''x'' = headers @ ''{}'' @ ''x'')"
  by (rule sdk_frame_bounded, rule read_frame_frame_bytes)
     (simp add: frame_fits_def max_frame_bytes_def)

text \<open>C40: the server loop always returns, for every input, plugin and codec.\<close>
theorem sdk_serve_returns: "\<exists>st result. serve d c pl opt input = Some (st, result)"
  using sdk_framing.loop_returns [of "serve_body d c pl" "start_server opt" input]
  by (auto simp: serve_def)

text \<open>C19: on a stream of framed messages the byte-level server behaves as the abstract server
  that handles the messages one after the other.\<close>
theorem sdk_serve_refines_messages:
  "list_all frame_fits ps \<Longrightarrow>
     serve d c pl opt (concat (map frame_bytes ps))
       = Some (loop_result (run_frames (serve_body d c pl) (start_server opt) ps))"
  by (simp add: serve_def sdk_framing.loop_stream)

theorem sdk_serve_refines_messages_witness:
  "serve demo_deps demo_codec demo_plugin 0 (concat (map frame_bytes [''I'', ''O'']))
     = Some (\<lparr>sv_initialized = True, sv_optimizer = 1,
         sv_output = frame_bytes ''R'' @ frame_bytes ''R''\<rparr>, Inr ())"
  by (subst sdk_serve_refines_messages)
     (simp_all add: frame_fits_def max_frame_bytes_def start_server_def serve_body_def demo_defs
        respond_defs decode_request_def write_response_def api_version_def max_content_bytes_def
        is_utf8_def unsafe_content_def)

text \<open>C23: the optimizer is never invoked before a successful initialize: a server that never
  became initialized still has the optimizer state it started with.\<close>
theorem sdk_optimizer_gated:
  "serve d c pl opt input = Some (st, result) \<Longrightarrow> \<not> sv_initialized st \<Longrightarrow> sv_optimizer st = opt"
  using serve_inv [of d c pl opt input st result] by (simp add: server_inv_def)

theorem sdk_optimizer_gated_witness:
  "\<exists>st result. serve demo_deps demo_codec demo_plugin 0 (frame_bytes ''O'') = Some (st, result)
     \<and> \<not> sv_initialized st \<and> sv_optimizer st = 0"
proof -
  have run: "serve demo_deps demo_codec demo_plugin 0 (frame_bytes ''O'')
    = Some (\<lparr>sv_initialized = False, sv_optimizer = 0, sv_output = frame_bytes ''R''\<rparr>, Inr ())"
    using sdk_framing.loop_stream [of "[''O'']" "serve_body demo_deps demo_codec demo_plugin"
        "start_server 0"]
    by (simp add: serve_def frame_fits_def max_frame_bytes_def start_server_def serve_body_def
        demo_codec_def demo_request_def respond_defs write_response_def)
  show ?thesis using run sdk_optimizer_gated [OF run] by simp
qed

text \<open>C3: everything the server writes is a sequence of frames of safe responses: a result is the
  handshake, a pass, or an optimization whose content is non-empty, has no NUL byte and at most
  16 MiB, whatever the optimizer returned.\<close>
theorem sdk_output_safe:
  "serve d c pl opt input = Some (st, result) \<Longrightarrow>
     \<exists>rs. list_all (response_safe d pl) rs
        \<and> sv_output st = concat (map (\<lambda>r. frame_bytes (the (response_bytes c r))) rs)"
  using serve_inv [of d c pl opt input st result] by (auto simp: server_inv_def output_ok_def)

theorem sdk_output_safe_witness:
  "\<exists>st result rs. serve demo_deps demo_codec demo_plugin 0 (frame_bytes ''O'') = Some (st, result)
     \<and> list_all (response_safe demo_deps demo_plugin) rs
     \<and> sv_output st = concat (map (\<lambda>r. frame_bytes (the (response_bytes demo_codec r))) rs)"
proof -
  obtain st result where run: "serve demo_deps demo_codec demo_plugin 0 (frame_bytes ''O'')
      = Some (st, result)"
    using sdk_framing.loop_returns [of "serve_body demo_deps demo_codec demo_plugin"
        "start_server 0" "frame_bytes ''O''"] by (auto simp: serve_def)
  show ?thesis using run sdk_output_safe [OF run] by blast
qed

text \<open>Every readable request other than shutdown is answered exactly once, in order, under
  its own id; the responses are the only bytes written.\<close>
lemma sdk_answers_in_order:
  assumes "list_all frame_fits frames" and "list_all (answerable c) frames"
    and "\<And>r. response_bytes c r \<noteq> None"
  shows "\<exists>st rs. serve d c pl opt (concat (map frame_bytes frames)) = Some (st, Inr ())
    \<and> map rs_id rs = map (\<lambda>f. rq_id (the (parse_request c f))) frames
    \<and> sv_output st = concat (map (\<lambda>r. frame_bytes (the (response_bytes c r))) rs)"
proof -
  from run_answers [OF assms(2,3), where st = "start_server opt" and d = d and pl = pl]
  obtain st rs where "run_frames (serve_body d c pl) (start_server opt) frames = Continue st"
    and "map rs_id rs = map (\<lambda>f. rq_id (the (parse_request c f))) frames"
    and "sv_output st = concat (map (\<lambda>r. frame_bytes (the (response_bytes c r))) rs)"
    by (auto simp: start_server_def)
  then show ?thesis
    using sdk_framing.loop_stream [OF assms(1), of "serve_body d c pl" "start_server opt"]
    by (intro exI [of _ st] exI [of _ rs]) (simp add: serve_def)
qed

lemma sdk_answers_in_order_witness:
  "\<exists>st rs. serve demo_deps demo_codec demo_plugin 0 (concat (map frame_bytes [''I'', ''O'']))
        = Some (st, Inr ())
    \<and> map rs_id rs = [Some (json_int 7), Some (json_int 7)]
    \<and> sv_output st = concat (map (\<lambda>r. frame_bytes (the (response_bytes demo_codec r))) rs)"
  using sdk_answers_in_order [of "[''I'', ''O'']" demo_codec demo_deps demo_plugin 0]
  by (simp add: frame_fits_def max_frame_bytes_def answerable_def demo_codec_def demo_request_def)

text \<open>The constructor \<^verbatim>\<open>Action::optimized\<close> and the protocol boundary agree: content passes the
  boundary check, and is sent as an optimization, exactly when the constructor accepts it.\<close>

lemma sdk_constructor_matches_boundary:
  "optimized content = Inr (Optimize content) \<longleftrightarrow>
     respond_action d rq (Some (Optimize content)) = result_response rq (optimize_result d content)"
  by (auto simp: optimized_def respond_action_def unsafe_content_def error_response_def
      result_response_def)

text \<open>A panic of the optimizer is isolated: the request is answered with the internal error
  and the server stays initialized, its output and dispatch untouched.\<close>

lemma sdk_panic_isolated:
  assumes "sv_initialized st" and "rq_jsonrpc rq = ''2.0''" and "rq_method rq = ''optimize''"
    and "parse_optimize c (rq_params rq) = Some params" and "decode_request d params = Inr request"
    and "optimize pl (sv_optimizer st) request = (None, opt')"
  shows "respond d c pl st rq =
    (st\<lparr>sv_optimizer := opt'\<rparr>, Some (error_response rq (-32603) ''optimizer panicked''))"
  using assms by (simp add: respond_defs)

theorem sdk_panic_isolated_witness:
  "respond demo_deps demo_codec (demo_plugin\<lparr>optimize := \<lambda>n rq. (None, n + 5)\<rparr>)
      \<lparr>sv_initialized = True, sv_optimizer = 2, sv_output = []\<rparr> (demo_request ''optimize'')
    = (\<lparr>sv_initialized = True, sv_optimizer = 7, sv_output = []\<rparr>,
       Some (error_response (demo_request ''optimize'') (-32603) ''optimizer panicked''))"
  using sdk_panic_isolated [where params = "the (parse_optimize demo_codec JNull)"
      and request = "\<lparr>req_kind = ''test'', req_program = ''go'', req_exit_code = 1,
        req_text = ''abcd'', req_budget_ms = 250\<rparr>"
      and d = demo_deps and c = demo_codec and rq = "demo_request ''optimize''"
      and pl = "demo_plugin\<lparr>optimize := \<lambda>n rq. (None, n + 5)\<rparr>" and opt' = 7
      and st = "\<lparr>sv_initialized = True, sv_optimizer = 2, sv_output = []\<rparr>"]
  by (simp add: demo_defs decode_request_def max_content_bytes_def is_utf8_def)

end
