(* ===== verification/Sdk_Context.thy ===== *)
theory Sdk_Context
  imports Framing Deps
begin

text \<open>
  The SDK's v2 context-service server: sdk/rust/tokensaver-plugin/src/context.rs. It shares
  the frame writer with v1 but has its own reader (bounded lines, no duplicate length), its
  own lifecycle, and a bound on every response. The service may keep state and may panic;
  the JSON parser and printer are parameters.
\<close>

datatype io_error = InvalidFrame | ShortRead | JsonError

definition ctx_max_frame_bytes :: nat where
  "ctx_max_frame_bytes = 1048576"

definition ctx_api_version :: u32 where
  "ctx_api_version = 2"

definition ctx_profile :: string where
  "ctx_profile = ''context-service.v1''"

section \<open>Frames\<close>

text \<open>\<^verbatim>\<open>reader.take(8193).read_until(b'\n', &mut line)\<close>\<close>

definition ctx_read_line :: "bytes \<Rightarrow> bytes \<times> bytes" where
  "ctx_read_line input =
     (let line = fst (read_until_lf (take 8193 input)) in (line, drop (length line) input))"

definition ctx_parse_header :: "nat option \<Rightarrow> bytes \<Rightarrow> io_error + nat option" where
  "ctx_parse_header len line =
     (if \<not> is_utf8 line then Inl InvalidFrame
      else case split_colon (str_trim line) of
        None \<Rightarrow> Inl InvalidFrame
      | Some (name, val) \<Rightarrow>
          if eq_ignore_case name ''Content-Length'' then
            if len \<noteq> None then Inl InvalidFrame
            else (case parse_usize (str_trim val) of
                    None \<Rightarrow> Inl InvalidFrame
                  | Some n \<Rightarrow>
                      if n = 0 \<or> n > ctx_max_frame_bytes then Inl InvalidFrame
                      else Inr (Some n))
          else Inr len)"

fun ctx_headers :: "nat \<Rightarrow> nat \<Rightarrow> nat option \<Rightarrow> nat \<Rightarrow> bytes \<Rightarrow> io_error + bytes option \<times> bytes"
where
  "ctx_headers 0 i len tot input = Inl InvalidFrame"
| "ctx_headers (Suc left) i len tot input =
     (case ctx_read_line input of (line, rest) \<Rightarrow>
        if length line = 0 then (if i = 0 then Inr (None, rest) else Inl InvalidFrame)
        else
          let tot' = tot + length line
          in if tot' > 8192 \<or> last line \<noteq> LF then Inl InvalidFrame
             else if line = [CR, LF] \<or> line = [LF] then
               (case len of
                  None \<Rightarrow> Inl InvalidFrame
                | Some n \<Rightarrow>
                    (case read_exact n rest of
                       None \<Rightarrow> Inl ShortRead
                     | Some (body, rest') \<Rightarrow> Inr (Some body, rest')))
             else bindR (ctx_parse_header len line) (\<lambda>len'.
                    ctx_headers left (Suc i) len' tot' rest))"

definition ctx_read_frame :: "bytes \<Rightarrow> io_error + bytes option \<times> bytes" where
  "ctx_read_frame input = ctx_headers 32 0 None 0 input"

declare ctx_headers.simps(2) [simp del]

definition ctx_fits :: "bytes \<Rightarrow> bool" where
  "ctx_fits p \<longleftrightarrow> 0 < length p \<and> length p \<le> ctx_max_frame_bytes"

definition ctx_length_ok :: "nat option \<Rightarrow> bool" where
  "ctx_length_ok len \<longleftrightarrow> (\<forall>n. len = Some n \<longrightarrow> 0 < n \<and> n \<le> ctx_max_frame_bytes)"

lemma ctx_length_ok_None [simp]: "ctx_length_ok None"
  by (simp add: ctx_length_ok_def)

lemma ctx_parse_header_length_ok:
  "ctx_parse_header len line = Inr len' \<Longrightarrow> ctx_length_ok len \<Longrightarrow> ctx_length_ok len'"
  by (auto simp: ctx_parse_header_def ctx_length_ok_def split: option.splits if_splits prod.splits)

lemma ctx_read_line_concat: "ctx_read_line s = (l, r) \<Longrightarrow> l @ r = s"
proof -
  assume h: "ctx_read_line s = (l, r)"
  obtain l' r' where lr: "read_until_lf (take 8193 s) = (l', r')"
    by (cases "read_until_lf (take 8193 s)")
  have "s = l' @ (r' @ drop 8193 s)"
    using read_until_lf_concat [OF lr] by (metis append.assoc append_take_drop_id)
  moreover have "l = l'" and "r = drop (length l') s"
    using h lr by (auto simp: ctx_read_line_def Let_def)
  ultimately show "l @ r = s" by (metis append_eq_conv_conj)
qed

lemma ctx_read_line_append:
  assumes "LF \<notin> set x" and "length x \<le> 8192"
  shows "ctx_read_line (x @ LF # y) = (x @ [LF], y)"
proof -
  have "take 8193 (x @ LF # y) = x @ LF # take (8192 - length x) y"
    using assms(2) by (simp add: take_Cons' Suc_diff_le)
  then show ?thesis
    using read_until_lf_append [OF assms(1)] by (simp add: ctx_read_line_def Let_def)
qed

lemma ctx_headers_step:
  assumes "ctx_headers (Suc left) i len tot s = Inr (Some p, r)"
    and "ctx_read_line s = (line, rest)"
  shows "(\<exists>n. len = Some n \<and> read_exact n rest = Some (p, r))
    \<or> (\<exists>len' tot'. ctx_parse_header len line = Inr len'
         \<and> ctx_headers left (Suc i) len' tot' rest = Inr (Some p, r))"
  using assms
  by (subst (asm) ctx_headers.simps(2))
     (auto simp: Let_def bindR_Inr_iff split: if_splits option.splits prod.splits)

lemma ctx_headers_frame:
  "ctx_headers left i len tot s = Inr (Some p, r) \<Longrightarrow> ctx_length_ok len \<Longrightarrow>
     ctx_fits p \<and> (\<exists>headers. s = headers @ p @ r)"
proof (induction left arbitrary: i len tot s)
  case (Suc left)
  obtain line rest where ln: "ctx_read_line s = (line, rest)" by (cases "ctx_read_line s")
  have s: "s = line @ rest" using ctx_read_line_concat [OF ln] by simp
  from ctx_headers_step [OF Suc.prems(1) ln] ctx_parse_header_length_ok [OF _ Suc.prems(2)]
  consider
      (frame) n where "len = Some n" "read_exact n rest = Some (p, r)"
    | (again) len' tot' where "ctx_length_ok len'"
        "ctx_headers left (Suc i) len' tot' rest = Inr (Some p, r)"
    by blast
  then show ?case
  proof cases
    case frame
    with Suc.prems(2) s show ?thesis
      by (auto simp: ctx_fits_def ctx_length_ok_def read_exact_Some)
  next
    case again
    from Suc.IH [OF again(2,1)] s show ?thesis by (metis append.assoc)
  qed
qed simp

lemma ctx_read_frame_frame:
  "ctx_read_frame s = Inr (Some p, r) \<Longrightarrow> ctx_fits p \<and> (\<exists>headers. s = headers @ p @ r)"
  by (auto simp: ctx_read_frame_def dest!: ctx_headers_frame)

lemma str_trim_crlf:
  assumes "ascii x" and "x \<noteq> []"
    and "\<not> is_whitespace (ord (hd x))" and "\<not> is_whitespace (ord (last x))"
  shows "str_trim (x @ [CR, LF]) = x"
proof -
  let ?ws = "\<lambda>g. is_whitespace (scalar_value g)"
  let ?gs = "map (\<lambda>c. [c]) x"
  have a: "ascii (x @ [CR, LF])" using assms(1) by (simp add: ascii_def)
  have w: "is_whitespace (ord CR)" "is_whitespace (ord LF)" by (simp_all add: is_whitespace_def)
  have "dropWhile ?ws (?gs @ [[CR], [LF]]) = ?gs @ [[CR], [LF]]"
    using assms by (intro dropWhile_hd) (auto simp: hd_append hd_map)
  moreover have "dropWhile ?ws (rev ?gs) = rev ?gs"
    using assms by (intro dropWhile_hd) (auto simp: hd_rev last_map)
  ultimately show ?thesis
    using w by (simp add: str_trim_def utf8_chars_ascii [OF a])
qed

lemma content_length_header_ascii: "ascii (content_length_header n)"
  using printable_ascii [OF printable_dec [of n]]
  by (simp add: content_length_header_def ascii_def)

lemma ctx_parse_header_content_length:
  assumes "0 < n" and "n \<le> ctx_max_frame_bytes"
  shows "ctx_parse_header None (content_length_header n @ [CR, LF]) = Inr (Some n)"
proof -
  have n: "n \<le> u64_max" using assms(2) by (simp add: ctx_max_frame_bytes_def u64_max_def)
  have "\<not> is_whitespace (ord (last (content_length_header n)))"
    using digit_not_whitespace [OF dec_digits [of "last (dec n)" n]]
    by (simp add: content_length_header_def)
  moreover have "\<not> is_whitespace (ord (hd (content_length_header n)))"
    by (simp add: content_length_header_def is_whitespace_def)
  ultimately have t: "str_trim (content_length_header n @ [CR, LF]) = content_length_header n"
    by (intro str_trim_crlf) (simp_all add: content_length_header_ascii content_length_header_facts)
  have u: "is_utf8 (content_length_header n @ [CR, LF])"
    using content_length_header_ascii [of n] by (intro is_utf8_ascii) (simp add: ascii_def)
  show ?thesis
    using assms n u
    by (simp add: ctx_parse_header_def content_length_header_facts(5) t str_trim_space_dec
        parse_usize_dec eq_ignore_case_def)
qed

lemma ctx_frame_lines:
  assumes "n \<le> u64_max"
  shows "ctx_read_line (content_length_header n @ CR # LF # y)
           = (content_length_header n @ [CR, LF], y)"
    and "ctx_read_line (CR # LF # y) = ([CR, LF], y)"
  using ctx_read_line_append [of "content_length_header n @ [CR]" y] ctx_read_line_append [of "[CR]" y]
    content_length_header_facts(1) [of n] content_length_header_facts(6) [OF assms]
  by simp_all

lemma ctx_read_frame_frame_bytes:
  assumes "ctx_fits p"
  shows "ctx_read_frame (frame_bytes p @ r) = Inr (Some p, r)"
proof -
  let ?h = "content_length_header (length p)"
  have n: "0 < length p" "length p \<le> ctx_max_frame_bytes" "length p \<le> u64_max"
    using assms by (simp_all add: ctx_fits_def ctx_max_frame_bytes_def u64_max_def)
  have hl: "length ?h \<le> 36" by (rule content_length_header_facts(6) [OF n(3)])
  have nb: "?h @ [CR, LF] \<noteq> [CR, LF]" "?h @ [CR, LF] \<noteq> [LF]"
    by (simp_all add: content_length_header_facts(4))
  have re: "read_exact (length p) (p @ r) = Some (p, r)" by (simp add: read_exact_Some)
  have second: "ctx_headers (Suc 30) (Suc 0) (Some (length p)) t (CR # LF # p @ r)
      = Inr (Some p, r)" if "t \<le> 40" for t
    using that re by (subst ctx_headers.simps(2)) (simp add: ctx_frame_lines(2) [OF n(3)] Let_def)
  have k: "(32::nat) = Suc (Suc 30)" by simp
  show ?thesis
    unfolding ctx_read_frame_def k
    using hl nb ctx_parse_header_content_length [OF n(1,2)] second [of "length ?h + 2"]
    by (subst ctx_headers.simps(2))
       (simp add: frame_bytes_def ctx_frame_lines(1) [OF n(3)] Let_def)
qed

interpretation ctx_framing: framing frame_bytes ctx_read_frame ctx_fits
proof unfold_locales
  have k: "(32::nat) = Suc 31" by simp
  show "ctx_read_frame [] = Inr (None, [])"
    by (simp only: ctx_read_frame_def k ctx_headers.simps(2)) (simp add: ctx_read_line_def)
next
  fix s p r
  assume "ctx_read_frame s = Inr (Some p, r)"
  then show "ctx_fits p" and "length r < length s"
    by (auto simp: ctx_fits_def dest!: ctx_read_frame_frame)
qed (rule ctx_read_frame_frame_bytes)

end
