(* ===== verification/Sdk_Context_Serve.thy ===== *)
theory Sdk_Context_Serve
  imports Sdk_Context
begin

text \<open>
  The lifecycle of the SDK's v2 context-service server, the function \<^verbatim>\<open>serve\<close> of
  sdk/rust/tokensaver-plugin/src/context.rs. A service is an implementation of the trait
  \<^verbatim>\<open>ContextService\<close>; it may keep state and may panic (\<open>None\<close>). The tree of the parser and the
  printer of serde_json are parameters. Objects built by \<^verbatim>\<open>json!\<close> list their members in key
  order, the order of \<^verbatim>\<open>serde_json::Map\<close>.
\<close>

datatype context_error = InvalidParams | MethodNotFound | Unavailable

record 's context_service =
  cx_plugin_id :: string
  cx_version :: string
  cx_call :: "'s \<Rightarrow> string \<Rightarrow> json \<Rightarrow> (context_error + json) option \<times> 's"

record json_codec =
  jc_tree :: "bytes \<Rightarrow> json option"
  jc_print :: "json \<Rightarrow> bytes option"

record 's context_server =
  cs_initialized :: bool
  cs_service :: 's
  cs_output :: bytes

section \<open>Reading a request\<close>

fun json_is_integer :: "json \<Rightarrow> bool" where
  "json_is_integer (JNum (PosInt n)) = True"
| "json_is_integer (JNum (NegInt n)) = True"
| "json_is_integer _ = False"

definition ctx_id_ok :: "json \<Rightarrow> bool" where
  "ctx_id_ok i \<longleftrightarrow> i = JNull \<or> json_as_str i \<noteq> None \<or> json_is_integer i"

definition ctx_id :: "json \<Rightarrow> json" where
  "ctx_id rq = (case json_get rq ''id'' of None \<Rightarrow> JNull | Some i \<Rightarrow> i)"

definition ctx_method :: "json \<Rightarrow> string" where
  "ctx_method rq = (case json_as_str (json_index rq ''method'') of None \<Rightarrow> [] | Some m \<Rightarrow> m)"

definition ctx_negotiates :: "json \<Rightarrow> bool" where
  "ctx_negotiates rq \<longleftrightarrow>
     json_index (json_index rq ''params'') ''apiVersion'' = JNum (PosInt (ucast ctx_api_version))
     \<and> json_index (json_index rq ''params'') ''profile'' = JStr ctx_profile"

section \<open>Answering a request\<close>

definition ctx_handshake :: "('s, 'z) context_service_scheme \<Rightarrow> json" where
  "ctx_handshake sv = JObj [(''apiVersion'', json_int (uint ctx_api_version)),
     (''pluginId'', JStr (cx_plugin_id sv)), (''profile'', JStr ctx_profile),
     (''version'', JStr (cx_version sv))]"

fun ctx_call_result ::
  "(context_error + json) option \<Rightarrow> int \<times> string + json" where
  "ctx_call_result (Some (Inr v)) = Inr v"
| "ctx_call_result (Some (Inl InvalidParams)) = Inl (-32602, ''invalid params'')"
| "ctx_call_result (Some (Inl MethodNotFound)) = Inl (-32601, ''unknown method'')"
| "ctx_call_result (Some (Inl Unavailable)) = Inl (-32603, ''context service unavailable'')"
| "ctx_call_result None = Inl (-32603, ''context service unavailable'')"

definition ctx_respond ::
  "'s context_service \<Rightarrow> 's context_server \<Rightarrow> json \<Rightarrow> 's context_server \<times> (int \<times> string + json)"
where
  "ctx_respond sv st rq =
     (if ctx_method rq = ''initialize'' then
        (if \<not> ctx_negotiates rq \<or> cs_initialized st
         then (st, Inl (-32602, ''unsupported context-service initialization''))
         else (st\<lparr>cs_initialized := True\<rparr>, Inr (ctx_handshake sv)))
      else if \<not> cs_initialized st then (st, Inl (-32002, ''initialize first''))
      else if \<not> starts_with (ctx_method rq) ''context.'' then (st, Inl (-32601, ''unknown method''))
      else
        (case cx_call sv (cs_service st) (ctx_method rq) (json_index rq ''params'') of
           (out, svc') \<Rightarrow> (st\<lparr>cs_service := svc'\<rparr>, ctx_call_result out)))"

fun ctx_response :: "json \<Rightarrow> int \<times> string + json \<Rightarrow> json" where
  "ctx_response i (Inr result) =
     JObj [(''id'', i), (''jsonrpc'', JStr ''2.0''), (''result'', result)]"
| "ctx_response i (Inl (code, message)) =
     JObj [(''error'', JObj [(''code'', json_int code), (''message'', JStr message)]), (''id'', i),
           (''jsonrpc'', JStr ''2.0'')]"

definition ctx_write_frame :: "json_codec \<Rightarrow> bytes \<Rightarrow> json \<Rightarrow> io_error + bytes" where
  "ctx_write_frame c out v =
     (case jc_print c v of
        None \<Rightarrow> Inl JsonError
      | Some b \<Rightarrow>
          if length b > ctx_max_frame_bytes then Inl InvalidFrame else Inr (out @ frame_bytes b))"

text \<open>The response as it is written: an oversized one is replaced by an error.\<close>

definition ctx_bounded_response :: "json_codec \<Rightarrow> json \<Rightarrow> json \<Rightarrow> io_error + json" where
  "ctx_bounded_response c i response =
     (case jc_print c response of
        None \<Rightarrow> Inl JsonError
      | Some b \<Rightarrow>
          Inr (if length b > ctx_max_frame_bytes
               then ctx_response i (Inl (-32603, ''response exceeds limit'')) else response))"

definition ctx_body ::
  "json_codec \<Rightarrow> 's context_service \<Rightarrow> 's context_server \<Rightarrow> bytes
     \<Rightarrow> ('s context_server, io_error) outcome"
where
  "ctx_body c sv st frame =
     (case context_json_from_slice (jc_tree c) frame of
        None \<Rightarrow> Fail JsonError st
      | Some rq \<Rightarrow>
          if json_index rq ''jsonrpc'' \<noteq> JStr ''2.0'' \<or> \<not> ctx_id_ok (ctx_id rq)
          then Fail InvalidFrame st
          else if ctx_method rq = ''shutdown'' then Finish st
          else if ctx_id rq = JNull then Continue st
          else
            (case ctx_respond sv st rq of
               (st', answer) \<Rightarrow>
                 (case bindR (ctx_bounded_response c (ctx_id rq) (ctx_response (ctx_id rq) answer))
                         (ctx_write_frame c (cs_output st')) of
                    Inl e \<Rightarrow> Fail e st'
                  | Inr out \<Rightarrow> Continue (st'\<lparr>cs_output := out\<rparr>))))"

definition ctx_start :: "'s \<Rightarrow> 's context_server" where
  "ctx_start svc = \<lparr>cs_initialized = False, cs_service = svc, cs_output = []\<rparr>"

definition ctx_serve ::
  "json_codec \<Rightarrow> 's context_service \<Rightarrow> 's \<Rightarrow> bytes
     \<Rightarrow> ('s context_server \<times> (io_error + unit)) option"
where
  "ctx_serve c sv svc input = serve_loop ctx_read_frame (ctx_body c sv) (ctx_start svc) input"

section \<open>Invariants\<close>

text \<open>
  The service is touched only by calls of \<^verbatim>\<open>context.*\<close> methods after initialization, and every
  byte written belongs to a frame within the limit.
\<close>

definition frames_within :: "nat \<Rightarrow> bytes \<Rightarrow> bool" where
  "frames_within limit out \<longleftrightarrow>
     (\<exists>bs. list_all (\<lambda>b. length b \<le> limit) bs \<and> out = concat (map frame_bytes bs))"

definition calls_keep :: "'s context_service \<Rightarrow> ('s \<Rightarrow> bool) \<Rightarrow> bool" where
  "calls_keep sv J \<longleftrightarrow>
     (\<forall>s m v. J s \<longrightarrow> starts_with m ''context.'' \<longrightarrow> J (snd (cx_call sv s m v)))"

definition ctx_inv :: "('s \<Rightarrow> bool) \<Rightarrow> 's \<Rightarrow> 's context_server \<Rightarrow> bool" where
  "ctx_inv J svc st \<longleftrightarrow>
     J (cs_service st) \<and> (\<not> cs_initialized st \<longrightarrow> cs_service st = svc)
     \<and> frames_within ctx_max_frame_bytes (cs_output st)"

lemma frames_within_Nil: "frames_within n []"
  by (auto simp: frames_within_def intro: exI [of _ "[]"])

lemma frames_within_append:
  "frames_within n out \<Longrightarrow> length b \<le> n \<Longrightarrow> frames_within n (out @ frame_bytes b)"
  unfolding frames_within_def
  by (elim exE conjE, rule_tac x = "bs @ [b]" in exI) simp

lemma ctx_write_frame_within:
  "ctx_write_frame c out v = Inr out' \<Longrightarrow> frames_within ctx_max_frame_bytes out \<Longrightarrow>
     frames_within ctx_max_frame_bytes out'"
  by (auto simp: ctx_write_frame_def frames_within_append split: option.splits if_splits)

lemma ctx_respond_output: "ctx_respond sv st rq = (st', a) \<Longrightarrow> cs_output st' = cs_output st"
  by (auto simp: ctx_respond_def split: if_splits prod.splits)

lemma ctx_respond_inv:
  "calls_keep sv J \<Longrightarrow> ctx_inv J svc st \<Longrightarrow> ctx_respond sv st rq = (st', a) \<Longrightarrow> ctx_inv J svc st'"
  by (auto simp: ctx_respond_def ctx_inv_def calls_keep_def split: if_splits prod.splits)
     (metis snd_conv)+

lemma ctx_body_inv:
  assumes "calls_keep sv J" and inv: "ctx_inv J svc st"
  shows "case ctx_body c sv st frame of
           Continue st' \<Rightarrow> ctx_inv J svc st' | Finish st' \<Rightarrow> ctx_inv J svc st'
         | Fail e st' \<Rightarrow> ctx_inv J svc st'"
proof (cases "context_json_from_slice (jc_tree c) frame")
  case None
  with inv show ?thesis by (simp add: ctx_body_def)
next
  case (Some rq)
  obtain st' a where r: "ctx_respond sv st rq = (st', a)" by (cases "ctx_respond sv st rq")
  have inv': "ctx_inv J svc st'" by (rule ctx_respond_inv [OF assms r])
  have w: "ctx_inv J svc (st'\<lparr>cs_output := out\<rparr>)"
    if "ctx_write_frame c (cs_output st') v = Inr out" for v out
    using inv' ctx_write_frame_within [OF that] by (simp add: ctx_inv_def)
  show ?thesis
    using inv inv' Some r w
    by (auto simp: ctx_body_def bindR_Inr_iff split: sum.split)
qed

lemma ctx_serve_inv:
  assumes "calls_keep sv J" and "J svc" and "ctx_serve c sv svc input = Some (st, res)"
  shows "ctx_inv J svc st"
proof -
  have "ctx_inv J svc (ctx_start svc)"
    using assms(2) by (simp add: ctx_inv_def ctx_start_def frames_within_Nil)
  with assms(3) show ?thesis
    unfolding ctx_serve_def
    by (rule ctx_framing.loop_invariant [where I = "ctx_inv J svc"])
       (rule ctx_body_inv [OF assms(1)])
qed

text \<open>A handshake is only given to the first initialize.\<close>

lemma ctx_respond_initialized:
  "cs_initialized (fst (ctx_respond sv st rq)) \<longleftrightarrow>
     cs_initialized st \<or> ctx_method rq = ''initialize'' \<and> ctx_negotiates rq"
  by (auto simp: ctx_respond_def split: prod.splits)

section \<open>Properties\<close>

definition demo_rpc :: "string \<Rightarrow> json" where
  "demo_rpc m = JObj [(''id'', JNum (PosInt 1)), (''jsonrpc'', JStr ''2.0''), (''method'', JStr m),
     (''params'', JObj [(''apiVersion'', JNum (PosInt 2)), (''profile'', JStr ctx_profile)])]"

definition demo_json :: json_codec where
  "demo_json = \<lparr>jc_tree = (\<lambda>b. Some (demo_rpc (if b = ''I'' then ''initialize'' else ''context.get''))),
     jc_print = (\<lambda>v. Some ''{}'')\<rparr>"

definition demo_service :: "nat context_service" where
  "demo_service = \<lparr>cx_plugin_id = ''com.example.context'', cx_version = ''1.0.0'',
     cx_call = (\<lambda>n m v. (Some (Inr v), Suc n))\<rparr>"

text \<open>On a stream of framed messages the v2 server behaves as the abstract server that
  handles the messages one after the other, and it always returns.\<close>
lemma ctx_serve_refines_messages:
  "list_all ctx_fits ps \<Longrightarrow>
     ctx_serve c sv svc (concat (map frame_bytes ps))
       = Some (loop_result (run_frames (ctx_body c sv) (ctx_start svc) ps))"
  by (simp add: ctx_serve_def ctx_framing.loop_stream)

lemma demo_strict:
  "strict_value (demo_rpc ''initialize'') = Some (demo_rpc ''initialize'')"
  "strict_value (demo_rpc ''context.get'') = Some (demo_rpc ''context.get'')"
  by (simp_all add: demo_rpc_def)

lemma ctx_serve_refines_messages_witness:
  "ctx_serve demo_json demo_service 0 (concat (map frame_bytes [''I'', ''C'']))
     = Some (\<lparr>cs_initialized = True, cs_service = 1,
         cs_output = frame_bytes ''{}'' @ frame_bytes ''{}''\<rparr>, Inr ())"
  using ctx_serve_refines_messages [of "[''I'', ''C'']" demo_json demo_service 0]
  by (simp add: ctx_fits_def ctx_max_frame_bytes_def ctx_start_def ctx_body_def demo_json_def
      context_json_from_slice_def demo_strict ctx_respond_def ctx_negotiates_def ctx_id_def
      ctx_id_ok_def ctx_method_def json_index_def ctx_write_frame_def ctx_bounded_response_def
      demo_service_def starts_with_def ctx_api_version_def demo_rpc_def)

text \<open>C38: whatever the client sends, the context service is reached only by calls of
  \<^verbatim>\<open>context.*\<close> methods after a successful initialize (so its state satisfies every invariant those
  calls keep, and is untouched without an initialize), and every byte written belongs to a frame
  of at most 1 MiB, whatever the service answered.\<close>
theorem ctx_service_confined:
  assumes "ctx_serve c sv svc input = Some (st, result)"
    and "\<And>s m v. J s \<Longrightarrow> starts_with m ''context.'' \<Longrightarrow> J (snd (cx_call sv s m v))" and "J svc"
  shows "J (cs_service st) \<and> (\<not> cs_initialized st \<longrightarrow> cs_service st = svc)
    \<and> (\<exists>bs. list_all (\<lambda>b. length b \<le> 2 ^ 20) bs \<and> cs_output st = concat (map frame_bytes bs))"
  using ctx_serve_inv [of sv J svc c input st result] assms
  by (simp add: ctx_inv_def calls_keep_def frames_within_def ctx_max_frame_bytes_def)

theorem ctx_service_confined_witness:
  "\<exists>st. ctx_serve demo_json demo_service 0 (frame_bytes ''C'') = Some (st, Inr ())
     \<and> cs_service st = 0
     \<and> (\<exists>bs. list_all (\<lambda>b. length b \<le> 2 ^ 20) bs \<and> cs_output st = concat (map frame_bytes bs))"
proof -
  have run: "ctx_serve demo_json demo_service 0 (frame_bytes ''C'')
      = Some (\<lparr>cs_initialized = False, cs_service = 0, cs_output = frame_bytes ''{}''\<rparr>, Inr ())"
    using ctx_framing.loop_stream [of "[''C'']" "ctx_body demo_json demo_service" "ctx_start 0"]
    by (simp add: ctx_serve_def ctx_fits_def ctx_max_frame_bytes_def ctx_start_def ctx_body_def
        demo_json_def context_json_from_slice_def demo_strict ctx_respond_def ctx_id_def
        ctx_id_ok_def ctx_method_def json_index_def ctx_write_frame_def
        ctx_bounded_response_def demo_rpc_def)
  show ?thesis
    using run ctx_service_confined [OF run, of "\<lambda>_. True"] by simp
qed

end
