(* ===== verification/Stage.thy ===== *)
theory Stage
  imports Certification
begin

text \<open>
  The stage evidence of tools/tsp/src/certification_pipeline.rs: one document per requirement,
  its validation (identity, timing, canonical references, subject bindings) and the assembly of a
  level's documents into a certification report. The slice indexing of the code is kept as
  \<open>index\<close>, which panics out of range; the lemmas show that the layout check before it rules
  the panic out.
\<close>

section \<open>Data\<close>

record producer =
  pr_id :: string
  pr_version :: string
  pr_environment_digest :: string

record reference =
  ref_name :: string
  ref_digest :: string

record stage =
  st_schema_version :: u32
  st_requirement :: requirement
  st_subject :: subject
  st_rule :: string
  st_producer :: producer
  st_started_at :: u64
  st_completed_at :: u64
  st_ok :: bool
  st_inputs :: "reference list"
  st_outputs :: "reference list"
  st_detail :: string
  st_remediation :: string

definition max_stage_evidence_bytes :: nat where "max_stage_evidence_bytes = 2097152"
definition max_pipeline_evidence_bytes :: usize where "max_pipeline_evidence_bytes = 16777216"
definition max_stage_references :: nat where "max_stage_references = 32"
definition max_stage_duration_seconds :: u64 where "max_stage_duration_seconds = 604800"

fun certification_rule :: "requirement \<Rightarrow> string" where
  "certification_rule ManifestValidation = ''certification.level1.manifest-validation.v1''"
| "certification_rule TsppLifecycle = ''certification.level1.tspp-lifecycle.v1''"
| "certification_rule SafetyContract = ''certification.level1.safety-contract.v1''"
| "certification_rule PublicCorpusBenchmark = ''certification.level2.public-corpus-benchmark.v1''"
| "certification_rule ProtocolFuzzing = ''certification.level2.protocol-fuzzing.v1''"
| "certification_rule ReproducibleBuild = ''certification.level2.reproducible-build.v1''"
| "certification_rule SignedArtifact = ''certification.level2.signed-artifact.v1''"
| "certification_rule Sbom = ''certification.level3.sbom.v1''"
| "certification_rule LicenseProvenance = ''certification.level3.license-provenance.v1''"
| "certification_rule AdminPolicyMetadata = ''certification.level3.admin-policy-metadata.v1''"

section \<open>Validation of one stage\<close>

definition reference_error :: string where
  "reference_error = ''certification.stageReferences''"

fun scan_references :: "string set \<Rightarrow> reference list \<Rightarrow> unit res" where
  "scan_references names [] = Inr ()"
| "scan_references names (r # rs) =
     bindR (reject (\<not> valid_token (ref_name r) 1 128 \<or> \<not> valid_digest (ref_digest r)
         \<or> ref_name r \<in> names) reference_error) (\<lambda>_.
       scan_references (insert (ref_name r) names) rs)"

definition validate_references :: "reference list \<Rightarrow> unit res" where
  "validate_references rs =
     bindR (reject (rs = [] \<or> length rs > max_stage_references) reference_error) (\<lambda>_.
       scan_references {} rs)"

fun stage_layout :: "requirement \<Rightarrow> string list \<times> string list" where
  "stage_layout ManifestValidation = ([''plugin-manifest''], [''manifest-validation-report''])"
| "stage_layout TsppLifecycle = ([''plugin-executable''], [''tspp-lifecycle-report''])"
| "stage_layout SafetyContract = ([''plugin-executable''], [''safety-contract-report''])"
| "stage_layout PublicCorpusBenchmark =
     ([''plugin-package'', ''public-corpus'', ''benchmark-policy''], [''benchmark-report''])"
| "stage_layout ProtocolFuzzing =
     ([''plugin-executable'', ''protocol-corpus'', ''fuzz-policy''], [''fuzz-report''])"
| "stage_layout ReproducibleBuild =
     ([''plugin-package'', ''source-tree'', ''build-policy''],
      [''build-report'', ''rebuilt-package-a'', ''rebuilt-package-b''])"
| "stage_layout SignedArtifact =
     ([''plugin-executable'', ''signature-policy'', ''artifact-trust-store''],
      [''artifact-signature''])"
| "stage_layout Sbom = ([''plugin-package'', ''sbom-policy''], [''sbom'', ''sbom-report''])"
| "stage_layout LicenseProvenance =
     ([''sbom'', ''license-policy''], [''license-provenance-report''])"
| "stage_layout AdminPolicyMetadata = ([''plugin-manifest''], [''admin-policy-metadata''])"

definition reference_names_match :: "reference list \<Rightarrow> string list \<Rightarrow> bool" where
  "reference_names_match rs expected \<longleftrightarrow>
     length rs = length expected \<and> list_all (\<lambda>(r, e). ref_name r = e) (zip rs expected)"

definition validate_stage_layout :: "stage \<Rightarrow> unit res" where
  "validate_stage_layout s =
     (case stage_layout (st_requirement s) of (inputs, outputs) \<Rightarrow>
        reject (\<not> reference_names_match (st_inputs s) inputs
          \<or> \<not> reference_names_match (st_outputs s) outputs) ''certification.stageLayout'')"

definition digest_at :: "reference list \<Rightarrow> nat \<Rightarrow> string res" where
  "digest_at rs i = bindR (index rs i) (\<lambda>r. Inr (ref_digest r))"

fun subject_binding :: "requirement \<Rightarrow> subject \<Rightarrow> string option" where
  "subject_binding ManifestValidation sj = None"
| "subject_binding LicenseProvenance sj = None"
| "subject_binding AdminPolicyMetadata sj = None"
| "subject_binding TsppLifecycle sj = Some (sj_artifact_digest sj)"
| "subject_binding SafetyContract sj = Some (sj_artifact_digest sj)"
| "subject_binding ProtocolFuzzing sj = Some (sj_artifact_digest sj)"
| "subject_binding SignedArtifact sj = Some (sj_artifact_digest sj)"
| "subject_binding PublicCorpusBenchmark sj = Some (sj_package_digest sj)"
| "subject_binding ReproducibleBuild sj = Some (sj_package_digest sj)"
| "subject_binding Sbom sj = Some (sj_package_digest sj)"

definition binding_is_valid :: "stage \<Rightarrow> subject \<Rightarrow> bool res" where
  "binding_is_valid s sj =
     (case subject_binding (st_requirement s) sj of
        None \<Rightarrow> Inr True
      | Some expected \<Rightarrow> bindR (digest_at (st_inputs s) 0) (\<lambda>g. Inr (g = expected)))"

definition reproducible_is_valid :: "stage \<Rightarrow> subject \<Rightarrow> bool res" where
  "reproducible_is_valid s sj =
     (if st_requirement s \<noteq> ReproducibleBuild \<or> \<not> st_ok s then Inr True
      else bindR (digest_at (st_outputs s) 1) (\<lambda>a.
             if a \<noteq> sj_package_digest sj then Inr False
             else bindR (digest_at (st_outputs s) 2) (\<lambda>b. Inr (b = sj_package_digest sj))))"

definition validate_subject_bindings :: "stage \<Rightarrow> subject \<Rightarrow> unit res" where
  "validate_subject_bindings s sj =
     bindR (binding_is_valid s sj) (\<lambda>binding.
     bindR (reproducible_is_valid s sj) (\<lambda>reproducible.
       reject (\<not> binding \<or> \<not> reproducible) ''certification.stageSubjectBinding''))"

definition validate_stage :: "deps \<Rightarrow> stage \<Rightarrow> subject \<Rightarrow> unit res" where
  "validate_stage d s expected =
     bindR (validate_subject d expected) (\<lambda>_.
     bindR (reject (st_schema_version s \<noteq> 1
         \<or> st_subject s \<noteq> expected
         \<or> st_rule s \<noteq> certification_rule (st_requirement s)
         \<or> \<not> valid_token (pr_id (st_producer s)) 1 128
         \<or> \<not> valid_token (pr_version (st_producer s)) 1 128
         \<or> \<not> valid_digest (pr_environment_digest (st_producer s))
         \<or> st_started_at s = 0
         \<or> st_completed_at s < st_started_at s
         \<or> saturating_sub (st_completed_at s) (st_started_at s) > max_stage_duration_seconds
         \<or> \<not> valid_text (st_detail s) 1 1024
         \<or> \<not> valid_text (st_remediation s) 1 1024) ''certification.stageContract'') (\<lambda>_.
     bindR (validate_references (st_inputs s)) (\<lambda>_.
     bindR (validate_references (st_outputs s)) (\<lambda>_.
     bindR (validate_stage_layout s) (\<lambda>_.
       validate_subject_bindings s expected)))))"

section \<open>Assembly\<close>

definition parse_stage_document :: "deps \<Rightarrow> (bytes \<Rightarrow> stage option) \<Rightarrow> bytes \<Rightarrow> stage res" where
  "parse_stage_document d parse data =
     bindR (reject (data = [] \<or> length data > max_stage_evidence_bytes)
       ''certification.stageSize'') (\<lambda>_.
     bindR (reject (\<not> unambiguous d data) ''certification.stageJson'') (\<lambda>_.
       ok_or ''certification.stageJson'' (parse data)))"

text \<open>\<^verbatim>\<open>try_fold(0usize, |total, document| total.checked_add(document.len()))\<close>\<close>

fun total_length :: "usize \<Rightarrow> bytes list \<Rightarrow> usize option" where
  "total_length acc [] = Some acc"
| "total_length acc (x # xs) =
     (case checked_add acc (word_of_nat (length x)) of
        None \<Rightarrow> None
      | Some acc' \<Rightarrow> total_length acc' xs)"

definition stage_check :: "deps \<Rightarrow> bytes \<Rightarrow> stage \<Rightarrow> cert_check" where
  "stage_check d document s =
     \<lparr>ck_requirement = st_requirement s, ck_ok = st_ok s, ck_rule = st_rule s,
      ck_evidence_digest = sha256_digest d document, ck_detail = st_detail s,
      ck_remediation = st_remediation s\<rparr>"

fun assemble_stages ::
  "deps \<Rightarrow> (bytes \<Rightarrow> stage option) \<Rightarrow> subject \<Rightarrow> (bytes \<times> requirement) list
     \<Rightarrow> (stage list \<times> cert_check list) res"
where
  "assemble_stages d parse sj [] = Inr ([], [])"
| "assemble_stages d parse sj ((document, expected) # rest) =
     bindR (parse_stage_document d parse document) (\<lambda>s.
     bindR (reject (st_requirement s \<noteq> expected) ''certification.pipelineOrder'') (\<lambda>_.
     bindR (validate_stage d s sj) (\<lambda>_.
     bindR (assemble_stages d parse sj rest) (\<lambda>(stages, checks).
       Inr (s # stages, stage_check d document s # checks)))))"

definition find_stage :: "requirement \<Rightarrow> stage list \<Rightarrow> stage option" where
  "find_stage q stages = find (\<lambda>s. st_requirement s = q) stages"

definition first_digest_of :: "(stage \<Rightarrow> reference list) \<Rightarrow> stage option \<Rightarrow> string option res" where
  "first_digest_of refs m =
     (case m of
        None \<Rightarrow> Inr None
      | Some s \<Rightarrow> bindR (digest_at (refs s) 0) (\<lambda>g. Inr (Some g)))"

definition check_binding :: "string option \<Rightarrow> stage option \<Rightarrow> unit res" where
  "check_binding digest m =
     (case m of
        None \<Rightarrow> Inr ()
      | Some s \<Rightarrow> bindR (digest_at (st_inputs s) 0) (\<lambda>g.
          reject (digest \<noteq> Some g) ''certification.pipelineBinding''))"

definition validate_cross_stage_bindings :: "stage list \<Rightarrow> unit res" where
  "validate_cross_stage_bindings stages =
     bindR (first_digest_of st_inputs (find_stage ManifestValidation stages)) (\<lambda>manifest_digest.
     bindR (check_binding manifest_digest (find_stage AdminPolicyMetadata stages)) (\<lambda>_.
     bindR (first_digest_of st_outputs (find_stage Sbom stages)) (\<lambda>sbom_digest.
       check_binding sbom_digest (find_stage LicenseProvenance stages))))"

definition assemble_certification_report ::
  "deps \<Rightarrow> (bytes \<Rightarrow> stage option) \<Rightarrow> certification_level \<Rightarrow> subject \<Rightarrow> authority \<Rightarrow> bytes list
     \<Rightarrow> report res" where
  "assemble_certification_report d parse level sj auth documents =
     bindR (reject (length documents \<noteq> length (requirements level))
       ''certification.pipelineRequirements'') (\<lambda>_.
     bindR (ok_or ''certification.pipelineSize'' (total_length 0 documents)) (\<lambda>total_bytes.
     bindR (reject (total_bytes > max_pipeline_evidence_bytes) ''certification.pipelineSize'') (\<lambda>_.
     bindR (assemble_stages d parse sj (zip documents (requirements level))) (\<lambda>(stages, checks).
     bindR (validate_cross_stage_bindings stages) (\<lambda>_.
     let r = \<lparr>rep_schema_version = 1, rep_ok = list_all ck_ok checks, rep_level = level,
              rep_subject = sj, rep_authority = auth, rep_checks = checks\<rparr>
     in bindR (validate_certification_report_structure d r sj) (\<lambda>_. Inr r))))))"

section \<open>What a validated stage establishes\<close>

lemma scan_references_Inr:
  "scan_references names rs = Inr () \<longleftrightarrow>
     distinct (map ref_name rs) \<and> ref_name ` set rs \<inter> names = {}
     \<and> list_all (\<lambda>r. valid_token (ref_name r) 1 128 \<and> valid_digest (ref_digest r)) rs"
  by (induction rs arbitrary: names) (auto simp: res_simps)

lemma reference_names_match_iff: "reference_names_match rs expected \<longleftrightarrow> map ref_name rs = expected"
proof (induction rs arbitrary: expected)
  case Nil
  then show ?case by (auto simp: reference_names_match_def)
next
  case (Cons r rs)
  then show ?case by (cases expected) (auto simp: reference_names_match_def)
qed

lemma validate_stage_layout_Inr:
  "validate_stage_layout s = Inr () \<longleftrightarrow>
     (map ref_name (st_inputs s), map ref_name (st_outputs s)) = stage_layout (st_requirement s)"
  by (cases "stage_layout (st_requirement s)")
     (auto simp: validate_stage_layout_def res_simps reference_names_match_iff)

lemma digest_at_Inr: "digest_at rs i = Inr g \<longleftrightarrow> i < length rs \<and> g = ref_digest (rs ! i)"
  by (auto simp: digest_at_def res_simps)

lemma panics_digest_at: "panics (digest_at rs i) \<longleftrightarrow> length rs \<le> i"
  by (simp add: digest_at_def panics_bindR panics_index)

text \<open>Every layout has an input and an output, and the reproducible build three outputs.\<close>

lemma stage_layout_lengths:
  "validate_stage_layout s = Inr () \<Longrightarrow>
     0 < length (st_inputs s) \<and> 0 < length (st_outputs s)
     \<and> (st_requirement s = ReproducibleBuild \<longrightarrow> length (st_outputs s) = 3)"
  by (cases "st_requirement s") (auto simp: validate_stage_layout_Inr)

text \<open>The declarative reading of \<^verbatim>\<open>validate_stage\<close>.\<close>

definition subject_bound :: "stage \<Rightarrow> subject \<Rightarrow> bool" where
  "subject_bound s sj \<longleftrightarrow>
     (\<forall>expected. subject_binding (st_requirement s) sj = Some expected \<longrightarrow>
        ref_digest (hd (st_inputs s)) = expected)
     \<and> (st_requirement s = ReproducibleBuild \<longrightarrow> st_ok s \<longrightarrow>
        ref_digest (st_outputs s ! 1) = sj_package_digest sj
        \<and> ref_digest (st_outputs s ! 2) = sj_package_digest sj)"

definition stage_contract :: "deps \<Rightarrow> stage \<Rightarrow> subject \<Rightarrow> bool" where
  "stage_contract d s sj \<longleftrightarrow>
     subject_contract d sj \<and> st_schema_version s = 1 \<and> st_subject s = sj
     \<and> st_rule s = certification_rule (st_requirement s)
     \<and> valid_token (pr_id (st_producer s)) 1 128 \<and> valid_token (pr_version (st_producer s)) 1 128
     \<and> valid_digest (pr_environment_digest (st_producer s))
     \<and> 0 < st_started_at s \<and> st_started_at s \<le> st_completed_at s
     \<and> saturating_sub (st_completed_at s) (st_started_at s) \<le> max_stage_duration_seconds
     \<and> valid_text (st_detail s) 1 1024 \<and> valid_text (st_remediation s) 1 1024
     \<and> validate_references (st_inputs s) = Inr () \<and> validate_references (st_outputs s) = Inr ()
     \<and> (map ref_name (st_inputs s), map ref_name (st_outputs s)) = stage_layout (st_requirement s)
     \<and> subject_bound s sj"

lemma validate_subject_bindings_Inr:
  assumes "validate_stage_layout s = Inr ()"
  shows "validate_subject_bindings s sj = Inr () \<longleftrightarrow> subject_bound s sj"
proof -
  note len = stage_layout_lengths [OF assms]
  have "hd (st_inputs s) = st_inputs s ! 0" using len by (simp add: hd_conv_nth)
  then show ?thesis
    using len
    by (cases "subject_binding (st_requirement s) sj")
       (auto simp: validate_subject_bindings_def binding_is_valid_def reproducible_is_valid_def
         res_simps digest_at_Inr subject_bound_def)
qed

lemma validate_stage_Inr: "validate_stage d s sj = Inr () \<longleftrightarrow> stage_contract d s sj"
  by (auto simp: validate_stage_def stage_contract_def res_simps validate_stage_layout_Inr
      validate_subject_bindings_Inr subject_contract_def not_le not_less word_gt_0)

lemma scan_references_no_panic: "\<not> panics (scan_references names rs)"
  by (induction rs arbitrary: names) (auto simp: panics_bindR)

lemma validate_stage_no_panic: "\<not> panics (validate_stage d s sj)"
proof -
  have "\<not> panics (validate_subject_bindings s sj)" if l: "validate_stage_layout s = Inr ()"
    using stage_layout_lengths [OF l]
    by (cases "subject_binding (st_requirement s) sj")
       (auto simp: validate_subject_bindings_def binding_is_valid_def reproducible_is_valid_def
         panics_bindR panics_digest_at)
  moreover have "\<not> panics (validate_subject d sj)" "\<not> panics (validate_stage_layout s)"
    "\<not> panics (validate_references rs)" for rs
    by (simp_all add: validate_subject_def validate_stage_layout_def validate_references_def
        panics_bindR scan_references_no_panic split: prod.splits)
  ultimately show ?thesis by (auto simp: validate_stage_def panics_bindR)
qed

section \<open>What an assembled report establishes\<close>

definition stage_of :: "deps \<Rightarrow> (bytes \<Rightarrow> stage option) \<Rightarrow> subject \<Rightarrow> bytes \<Rightarrow> requirement \<Rightarrow> stage \<Rightarrow> bool" where
  "stage_of d parse sj document q s \<longleftrightarrow>
     parse_stage_document d parse document = Inr s \<and> st_requirement s = q \<and> stage_contract d s sj"

lemma assemble_stages_Inr:
  "assemble_stages d parse sj (zip documents qs) = Inr (stages, checks) \<Longrightarrow>
     length documents = length qs \<Longrightarrow>
     length stages = length documents \<and> map st_requirement stages = qs
     \<and> list_all2 (\<lambda>document s. stage_of d parse sj document (st_requirement s) s) documents stages
     \<and> checks = map2 (stage_check d) documents stages"
proof (induction documents qs arbitrary: stages checks rule: list_induct2')
  case (4 x xs y ys)
  then show ?case
    by (auto simp: res_simps stage_of_def validate_stage_Inr)
qed auto

lemma assemble_stages_complete:
  assumes "list_all2 (\<lambda>document s. stage_of d parse sj document (st_requirement s) s) documents stages"
  shows "assemble_stages d parse sj (zip documents (map st_requirement stages))
    = Inr (stages, map2 (stage_check d) documents stages)"
  using assms
proof (induction rule: list_all2_induct)
  case (Cons x xs y ys)
  then show ?case
    by (simp add: stage_of_def validate_stage_Inr [symmetric])
qed simp

lemma map2_requirements:
  "length documents = length stages \<Longrightarrow>
     map ck_requirement (map2 (stage_check d) documents stages) = map st_requirement stages"
  "length documents = length stages \<Longrightarrow>
     list_all ck_ok (map2 (stage_check d) documents stages) = list_all st_ok stages"
  by (induction documents stages rule: list_induct2) (simp_all add: stage_check_def)

lemma certification_rule_token: "valid_token (certification_rule q) 1 128"
  by (cases q) (simp_all add: valid_token_def token_char_def ascii_defs)

lemma stage_checks_contract:
  assumes "sha256_length d"
    and "list_all2 (\<lambda>document s. stage_of d parse sj document (st_requirement s) s) documents stages"
  shows "list_all check_contract (map2 (stage_check d) documents stages)"
  using assms(2)
proof (induction rule: list_all2_induct)
  case (Cons x xs y ys)
  then show ?case
    using assms(1) certification_rule_token [of "st_requirement y"]
    by (simp add: stage_of_def stage_contract_def check_contract_def stage_check_def)
qed simp

text \<open>The two bindings between stages.\<close>

definition cross_bound :: "stage list \<Rightarrow> bool" where
  "cross_bound stages \<longleftrightarrow>
     (\<forall>a\<in>set stages. st_requirement a = AdminPolicyMetadata \<longrightarrow>
        (\<exists>m\<in>set stages. st_requirement m = ManifestValidation
           \<and> ref_digest (hd (st_inputs m)) = ref_digest (hd (st_inputs a))))
     \<and> (\<forall>l\<in>set stages. st_requirement l = LicenseProvenance \<longrightarrow>
        (\<exists>b\<in>set stages. st_requirement b = Sbom
           \<and> ref_digest (hd (st_outputs b)) = ref_digest (hd (st_inputs l))))"

lemma find_stage_Some:
  "distinct (map st_requirement stages) \<Longrightarrow>
     find_stage q stages = Some s \<longleftrightarrow> s \<in> set stages \<and> st_requirement s = q"
  unfolding find_stage_def
  by (induction stages) (auto simp: image_iff)

lemma find_stage_None: "find_stage q stages = None \<longleftrightarrow> q \<notin> st_requirement ` set stages"
  by (auto simp: find_stage_def find_None_iff)

lemma digest_at_0: "0 < length rs \<Longrightarrow> digest_at rs 0 = Inr (ref_digest (hd rs))"
  by (simp add: digest_at_Inr hd_conv_nth)

text \<open>The binding of one stage to the first reference of another, as the code looks them up.\<close>

definition bound_to :: "(stage \<Rightarrow> reference list) \<Rightarrow> requirement \<Rightarrow> requirement \<Rightarrow> stage list \<Rightarrow> bool" where
  "bound_to refs q q' stages \<longleftrightarrow>
     (\<forall>a\<in>set stages. st_requirement a = q' \<longrightarrow>
        (\<exists>m\<in>set stages. st_requirement m = q \<and> ref_digest (hd (refs m)) = ref_digest (hd (st_inputs a))))"

lemma check_binding_Inr:
  assumes dist: "distinct (map st_requirement stages)"
    and pos: "\<And>s. s \<in> set stages \<Longrightarrow> 0 < length (st_inputs s) \<and> 0 < length (refs s)"
  shows "bindR (first_digest_of refs (find_stage q stages))
      (\<lambda>g. check_binding g (find_stage q' stages)) = Inr () \<longleftrightarrow> bound_to refs q q' stages"
    and "\<exists>g. first_digest_of refs (find_stage q stages) = Inr g"
proof -
  note fs = find_stage_Some [OF dist]
  have at0: "digest_at (st_inputs a) 0 = Inr (ref_digest (hd (st_inputs a)))"
    "digest_at (refs a) 0 = Inr (ref_digest (hd (refs a)))" if "find_stage r stages = Some a" for r a
    using pos [of a] that by (simp_all add: fs digest_at_0)
  have m: "first_digest_of refs (find_stage q stages)
      = Inr (map_option (\<lambda>s. ref_digest (hd (refs s))) (find_stage q stages))"
    by (cases "find_stage q stages") (simp_all add: first_digest_of_def at0)
  then show "\<exists>g. first_digest_of refs (find_stage q stages) = Inr g" by blast
  have c: "check_binding g (find_stage q' stages) = Inr () \<longleftrightarrow>
      (\<forall>a. find_stage q' stages = Some a \<longrightarrow> g = Some (ref_digest (hd (st_inputs a))))" for g
    by (cases "find_stage q' stages") (auto simp: check_binding_def at0 res_simps)
  show "bindR (first_digest_of refs (find_stage q stages))
      (\<lambda>g. check_binding g (find_stage q' stages)) = Inr () \<longleftrightarrow> bound_to refs q q' stages"
    unfolding m bindR_simps c bound_to_def map_option_eq_Some fs by blast
qed

lemma cross_bound_eq:
  "cross_bound stages \<longleftrightarrow> bound_to st_inputs ManifestValidation AdminPolicyMetadata stages
     \<and> bound_to st_outputs Sbom LicenseProvenance stages"
  by (simp add: cross_bound_def bound_to_def)

lemma stage_contract_lengths:
  "stage_contract d s sj \<Longrightarrow> 0 < length (st_inputs s) \<and> 0 < length (st_outputs s)"
  using stage_layout_lengths [of s] by (simp add: stage_contract_def validate_stage_layout_Inr)

lemma validate_cross_stage_bindings_Inr:
  assumes "distinct (map st_requirement stages)" and "list_all (\<lambda>s. stage_contract d s sj) stages"
  shows "validate_cross_stage_bindings stages = Inr () \<longleftrightarrow> cross_bound stages"
proof -
  have pos: "0 < length (st_inputs s) \<and> 0 < length (st_outputs s)" if "s \<in> set stages" for s
    using assms(2) that stage_contract_lengths by (auto simp: list_all_iff)
  have "validate_cross_stage_bindings stages =
    bindR (bindR (first_digest_of st_inputs (find_stage ManifestValidation stages))
             (\<lambda>g. check_binding g (find_stage AdminPolicyMetadata stages)))
      (\<lambda>_. bindR (first_digest_of st_outputs (find_stage Sbom stages))
             (\<lambda>g. check_binding g (find_stage LicenseProvenance stages)))"
    by (simp add: validate_cross_stage_bindings_def bindR_def split: sum.splits)
  then show ?thesis
    using check_binding_Inr(1) [OF assms(1), of st_inputs ManifestValidation AdminPolicyMetadata]
      check_binding_Inr(1) [OF assms(1), of st_outputs Sbom LicenseProvenance] pos
    by (simp add: cross_bound_eq bindR_Inr_iff)
qed

lemma total_length_Some:
  assumes "list_all field_ok documents"
  shows "total_length acc documents = Some t \<longleftrightarrow>
    unat acc + (\<Sum>x\<leftarrow>documents. length x) < 2 ^ 64
    \<and> unat t = unat acc + (\<Sum>x\<leftarrow>documents. length x)"
  using assms
proof (induction documents arbitrary: acc)
  case Nil
  have "unat acc < 2 ^ 64" using unsigned_less [of acc] by simp
  then show ?case by (auto simp: word_unat_eq_iff)
next
  case (Cons x xs)
  have x: "unat (word_of_nat (length x) :: u64) = length x"
    using Cons.prems by (simp add: field_ok_def unat_of_nat take_bit_nat_eq_self)
  show ?case
  proof (cases "checked_add acc (word_of_nat (length x))")
    case None
    with x show ?thesis by (auto simp: checked_add_def split: if_splits)
  next
    case (Some acc')
    with Cons show ?thesis using checked_add_unat [OF Some] x by (simp add: add.assoc)
  qed
qed

definition assembled_report :: "deps \<Rightarrow> certification_level \<Rightarrow> subject \<Rightarrow> authority \<Rightarrow> bytes list
    \<Rightarrow> stage list \<Rightarrow> report" where
  "assembled_report d level sj auth documents stages =
     \<lparr>rep_schema_version = 1, rep_ok = list_all st_ok stages, rep_level = level, rep_subject = sj,
      rep_authority = auth, rep_checks = map2 (stage_check d) documents stages\<rparr>"

definition pipeline_contract ::
  "deps \<Rightarrow> (bytes \<Rightarrow> stage option) \<Rightarrow> certification_level \<Rightarrow> subject \<Rightarrow> bytes list \<Rightarrow> stage list \<Rightarrow> bool"
where
  "pipeline_contract d parse level sj documents stages \<longleftrightarrow>
     (\<Sum>x\<leftarrow>documents. length x) \<le> 16 * 2 ^ 20
     \<and> map st_requirement stages = requirements level
     \<and> list_all2 (\<lambda>document s. stage_of d parse sj document (st_requirement s) s) documents stages
     \<and> cross_bound stages"

lemma stages_contract:
  "list_all2 (\<lambda>document s. stage_of d parse sj document (st_requirement s) s) documents stages \<Longrightarrow>
     list_all (\<lambda>s. stage_contract d s sj) stages"
  by (induction rule: list_all2_induct) (simp_all add: stage_of_def)

lemma assembled_report_contract:
  assumes "sha256_length d" and p: "pipeline_contract d parse level sj documents stages"
  shows "report_contract d (assembled_report d level sj auth documents stages) sj \<longleftrightarrow>
    validate_authority auth = Inr ()"
proof -
  have a: "list_all2 (\<lambda>document s. stage_of d parse sj document (st_requirement s) s) documents stages"
    and m: "map st_requirement stages = requirements level"
    using p by (simp_all add: pipeline_contract_def)
  then have len: "length documents = length stages" by (simp add: list_all2_lengthD)
  have "stages \<noteq> []" using m by (cases level) (auto simp: level_1_requirements_def
        level_2_requirements_def level_3_requirements_def)
  then have "subject_contract d sj"
    using stages_contract [OF a] by (cases stages) (auto simp: stage_contract_def)
  then show ?thesis
    using stage_checks_contract [OF assms(1) a] map2_requirements [OF len] m
    by (simp add: report_contract_def assembled_report_def)
qed

lemma total_length_bound:
  assumes "list_all field_ok documents"
  shows "(\<exists>t. total_length 0 documents = Some t \<and> \<not> t > max_pipeline_evidence_bytes) \<longleftrightarrow>
    (\<Sum>x\<leftarrow>documents. length x) \<le> 16 * 2 ^ 20"
proof
  assume "\<exists>t. total_length 0 documents = Some t \<and> \<not> t > max_pipeline_evidence_bytes"
  then show "(\<Sum>x\<leftarrow>documents. length x) \<le> 16 * 2 ^ 20"
    using total_length_Some [OF assms, of 0]
    by (auto simp: not_less word_le_nat_alt max_pipeline_evidence_bytes_def)
next
  assume h: "(\<Sum>x\<leftarrow>documents. length x) \<le> 16 * 2 ^ 20"
  then have "unat (word_of_nat (\<Sum>x\<leftarrow>documents. length x) :: u64) = (\<Sum>x\<leftarrow>documents. length x)"
    by (simp add: unat_of_nat take_bit_nat_eq_self)
  then show "\<exists>t. total_length 0 documents = Some t \<and> \<not> t > max_pipeline_evidence_bytes"
    using h total_length_Some [OF assms, of 0]
    by (intro exI [of _ "word_of_nat (\<Sum>x\<leftarrow>documents. length x)"])
       (auto simp: not_less word_le_nat_alt max_pipeline_evidence_bytes_def)
qed

lemma assemble_Inr:
  assumes len: "list_all field_ok documents" and sha: "sha256_length d"
  shows "assemble_certification_report d parse level sj auth documents = Inr r \<longleftrightarrow>
    (\<exists>stages. pipeline_contract d parse level sj documents stages \<and> validate_authority auth = Inr ()
       \<and> r = assembled_report d level sj auth documents stages)" (is "?lhs \<longleftrightarrow> ?rhs")
proof
  assume ?lhs
  then obtain stages checks where n: "length documents = length (requirements level)"
    and t: "\<exists>t. total_length 0 documents = Some t \<and> \<not> t > max_pipeline_evidence_bytes"
    and st: "assemble_stages d parse sj (zip documents (requirements level)) = Inr (stages, checks)"
    and x: "validate_cross_stage_bindings stages = Inr ()"
    and v: "validate_certification_report_structure d r sj = Inr ()"
    and r: "r = \<lparr>rep_schema_version = 1, rep_ok = list_all ck_ok checks, rep_level = level,
              rep_subject = sj, rep_authority = auth, rep_checks = checks\<rparr>"
    by (auto simp: assemble_certification_report_def res_simps Let_def)
  note s = assemble_stages_Inr [OF st n]
  then have c: "list_all (\<lambda>s. stage_contract d s sj) stages" by (intro stages_contract) auto
  have "cross_bound stages"
    using validate_cross_stage_bindings_Inr [OF _ c] s x by simp
  then have p: "pipeline_contract d parse level sj documents stages"
    using s total_length_bound [OF len] t by (auto simp: pipeline_contract_def)
  moreover have "r = assembled_report d level sj auth documents stages"
    using r s map2_requirements(2) [of documents stages d] by (simp add: assembled_report_def)
  moreover have "validate_authority auth = Inr ()"
    using v r by (simp add: validate_certification_report_structure_def validate_report_contract_iff
        report_contract_def)
  ultimately show ?rhs by blast
next
  assume ?rhs
  then obtain stages where p: "pipeline_contract d parse level sj documents stages"
    and a: "validate_authority auth = Inr ()"
    and r: "r = assembled_report d level sj auth documents stages" by blast
  have m: "map st_requirement stages = requirements level"
    and al: "list_all2 (\<lambda>document s. stage_of d parse sj document (st_requirement s) s) documents stages"
    using p by (simp_all add: pipeline_contract_def)
  have l: "length documents = length stages" using al by (simp add: list_all2_lengthD)
  have n: "length documents = length (requirements level)" using l m by (metis length_map)
  have "validate_cross_stage_bindings stages = Inr ()"
    using validate_cross_stage_bindings_Inr [OF _ stages_contract [OF al]] p m
    by (simp add: pipeline_contract_def)
  moreover obtain t where "total_length 0 documents = Some t" "\<not> t > max_pipeline_evidence_bytes"
    using total_length_bound [OF len] p by (auto simp: pipeline_contract_def)
  moreover have "validate_certification_report_structure d r sj = Inr ()"
    using assembled_report_contract [OF sha p] a r
    by (simp add: validate_certification_report_structure_def validate_report_contract_iff)
  ultimately show ?lhs
    using assemble_stages_complete [OF al] m n map2_requirements(2) [OF l, of d] r
    by (simp add: assemble_certification_report_def Let_def assembled_report_def)
qed

text \<open>No input makes the assembly panic.\<close>

lemma assemble_stages_no_panic: "\<not> panics (assemble_stages d parse sj ps)"
  by (induction ps) (auto simp: panics_bindR parse_stage_document_def validate_stage_no_panic)

lemma scan_checks_no_panic: "\<not> panics (scan_checks a os f cs)"
  by (induction cs arbitrary: a os f) (auto simp: panics_bindR)

lemma validate_report_no_panic: "\<not> panics (validate_certification_report_contract d r sj b)"
  by (auto simp: validate_certification_report_contract_def panics_bindR scan_checks_no_panic
      validate_subject_def validate_authority_def split: prod.splits)

lemma validate_cross_stage_bindings_no_panic:
  assumes "list_all (\<lambda>s. stage_contract d s sj) stages"
  shows "\<not> panics (validate_cross_stage_bindings stages)"
proof -
  have pos: "0 < length (st_inputs s) \<and> 0 < length (st_outputs s)"
    if "find_stage q stages = Some s" for q s
  proof (rule stage_contract_lengths)
    have "s \<in> set stages" using that by (auto simp: find_stage_def find_Some_iff)
    with assms show "stage_contract d s sj" by (simp add: list_all_iff)
  qed
  have "\<not> panics (check_binding g (find_stage q stages))" for g q
    using pos [of q] by (cases "find_stage q stages")
      (auto simp: check_binding_def panics_bindR panics_digest_at)
  moreover have "\<not> panics (first_digest_of st_inputs (find_stage q stages))"
    "\<not> panics (first_digest_of st_outputs (find_stage q stages))" for q
    using pos [of q] by (cases "find_stage q stages";
      auto simp: first_digest_of_def panics_bindR panics_digest_at)+
  ultimately show ?thesis by (auto simp: validate_cross_stage_bindings_def panics_bindR)
qed

lemma assemble_no_panic: "\<not> panics (assemble_certification_report d parse level sj auth documents)"
proof -
  have "list_all (\<lambda>s. stage_contract d s sj) stages"
    if "assemble_stages d parse sj (zip documents (requirements level)) = Inr (stages, checks)"
      "length documents = length (requirements level)" for stages checks
    using assemble_stages_Inr [OF that] by (intro stages_contract) auto
  then show ?thesis
    using validate_cross_stage_bindings_no_panic
    by (auto simp: assemble_certification_report_def panics_bindR Let_def
        assemble_stages_no_panic validate_certification_report_structure_def
        validate_report_no_panic res_simps split: prod.splits)
qed

text \<open>What the caller of an evaluator must bring: a well-formed producer and a sane time window.\<close>

definition run_context_ok :: "producer \<Rightarrow> u64 \<Rightarrow> u64 \<Rightarrow> bool" where
  "run_context_ok prd started completed \<longleftrightarrow>
     valid_token (pr_id prd) 1 128 \<and> valid_token (pr_version prd) 1 128
     \<and> valid_digest (pr_environment_digest prd) \<and> 0 < started \<and> started \<le> completed
     \<and> saturating_sub completed started \<le> max_stage_duration_seconds"

lemma valid_text_le: "valid_text s m n \<Longrightarrow> n \<le> k \<Longrightarrow> valid_text s m k"
  by (simp add: valid_text_def)

lemma validate_references_map:
  assumes "map ref_name rs = names" and "names \<noteq> []" and "length names \<le> 32" and "distinct names"
    and "list_all (\<lambda>x. valid_token x 1 128) names" and "list_all (\<lambda>r. valid_digest (ref_digest r)) rs"
  shows "validate_references rs = Inr ()"
  using assms
  by (auto simp: validate_references_def res_simps max_stage_references_def scan_references_Inr
      list_all_iff not_less)

text \<open>What the evaluators read: a bounded, unambiguous document.\<close>

definition parses :: "deps \<Rightarrow> (bytes \<Rightarrow> 'a option) \<Rightarrow> nat \<Rightarrow> bytes \<Rightarrow> 'a \<Rightarrow> bool" where
  "parses d parse maximum data x \<longleftrightarrow>
     data \<noteq> [] \<and> length data \<le> maximum \<and> unambiguous d data \<and> parse data = Some x"

text \<open>An evaluator that succeeds exactly on sound evidence, with a stage of a known verdict.\<close>

lemma exact_stage:
  assumes "\<And>s. run = Inr s \<longleftrightarrow> (\<exists>p b. E p b \<and> s = F p b \<and> stage_contract d s sj)"
    and "\<And>p b. E p b \<Longrightarrow> stage_contract d (F p b) sj"
    and "\<And>p b. E p b \<Longrightarrow> st_ok (F p b) = V p b"
  shows "(\<exists>s. run = Inr s \<and> st_ok s = v) \<longleftrightarrow> (\<exists>p b. E p b \<and> v = V p b)"
  using assms by metis

section \<open>The contract of a stage evaluator\<close>

text \<open>
  The evaluators of the requirements (benchmark, fuzzing, admin policy) promise a stage for their
  requirement that satisfies the contract for the subject they were given, and never to panic.
  The assembly may rely on it: a document that holds such a stage is never what makes it fail.
\<close>

locale stage_producer =
  fixes d :: deps
    and q :: requirement
    and evaluate :: "'i \<Rightarrow> subject \<Rightarrow> stage res"
  assumes requirement: "evaluate i sj = Inr s \<Longrightarrow> st_requirement s = q"
    and contract: "evaluate i sj = Inr s \<Longrightarrow> stage_contract d s sj"
    and no_panic: "\<not> panics (evaluate i sj)"
begin

lemma produced: "evaluate i sj = Inr s \<Longrightarrow> parse_stage_document d parse document = Inr s \<Longrightarrow>
    stage_of d parse sj document q s"
  by (simp add: stage_of_def requirement contract)

lemma assembles:
  assumes "evaluate i sj = Inr s" and "parse_stage_document d parse document = Inr s"
  shows "assemble_stages d parse sj ((document, q) # rest) =
    bindR (assemble_stages d parse sj rest)
      (\<lambda>(stages, checks). Inr (s # stages, stage_check d document s # checks))"
  using requirement [OF assms(1)] contract [OF assms(1)] assms(2)
  by (simp add: validate_stage_Inr [symmetric])

lemma bound: "evaluate i sj = Inr s \<Longrightarrow> st_subject s = sj \<and> subject_bound s sj"
  using contract by (simp add: stage_contract_def)

end

end
