(* ===== verification/Float64.thy ===== *)
theory Float64
  imports Complex_Main Prelude
begin

text \<open>
  The double-precision arithmetic the benchmark accounting uses: a finite \<^verbatim>\<open>f64\<close> is the rational
  its bits denote, and each operation is the exact operation rounded to 53 significant bits, ties
  to even. Overflow cannot occur for the quotients of byte counts this is used for, and a
  difference of two doubles below the normal range is exact, so neither needs a case.
\<close>

definition pow2 :: "int \<Rightarrow> rat" where
  "pow2 k = power_int 2 k"

text \<open>The value of the bits, \<open>None\<close> for infinities and NaNs.\<close>

definition f64_value :: "64 word \<Rightarrow> rat option" where
  "f64_value bits =
    (let exponent = uint (drop_bit 52 (take_bit 63 bits));
         mantissa = uint (take_bit 52 bits);
         sign = (if bit bits 63 then - 1 else 1 :: rat)
     in if exponent = 2047 then None
        else if exponent = 0 then Some (sign * of_int mantissa * pow2 (- 1074))
        else Some (sign * of_int (4503599627370496 + mantissa) * pow2 (exponent - 1075)))"

fun bitlen :: "nat \<Rightarrow> nat" where
  "bitlen n = (if n = 0 then 0 else Suc (bitlen (n div 2)))"

declare bitlen.simps [simp del]

text \<open>The exponent of a positive rational: the largest \<open>e\<close> with \<open>2 ^ e \<le> x\<close>.\<close>

definition exponent_of :: "rat \<Rightarrow> int" where
  "exponent_of x =
    (case quotient_of x of (n, d) \<Rightarrow>
       (let e = int (bitlen (nat n)) - int (bitlen (nat d))
        in if pow2 e \<le> x then e else e - 1))"

definition round_half_even :: "rat \<Rightarrow> int" where
  "round_half_even q =
    (let f = \<lfloor>q\<rfloor>; r = q - of_int f
     in if r < 1 / 2 \<or> (r = 1 / 2 \<and> even f) then f else f + 1)"

definition f64_round :: "rat \<Rightarrow> rat" where
  "f64_round x =
    (if x = 0 then 0
     else let ulp = pow2 (exponent_of \<bar>x\<bar> - 52) in of_int (round_half_even (x / ulp)) * ulp)"

definition f64_of_nat :: "nat \<Rightarrow> rat" where
  "f64_of_nat n = f64_round (of_nat n)"

lemma round_half_even_int: "round_half_even (of_int z) = z"
  by (simp add: round_half_even_def)

lemma round_half_even_error: "\<bar>of_int (round_half_even q) - q\<bar> \<le> 1 / 2"
proof -
  have "of_int \<lfloor>q\<rfloor> \<le> q" "q < of_int \<lfloor>q\<rfloor> + 1" by linarith+
  then show ?thesis by (simp add: round_half_even_def Let_def abs_if) linarith
qed

lemma pow2_pos: "0 < pow2 k"
  by (simp add: pow2_def)

text \<open>Rounding moves a value by at most half a unit in its last place.\<close>

lemma f64_round_error: "\<bar>f64_round x - x\<bar> \<le> pow2 (exponent_of \<bar>x\<bar> - 52) / 2"
proof (cases "x = 0")
  case True
  then show ?thesis using pow2_pos [of "exponent_of \<bar>x\<bar> - 52"] by (simp add: f64_round_def)
next
  case False
  let ?u = "pow2 (exponent_of \<bar>x\<bar> - 52)"
  have u: "0 < ?u" by (rule pow2_pos)
  have "f64_round x - x = (of_int (round_half_even (x / ?u)) - x / ?u) * ?u"
    using False u by (simp add: f64_round_def Let_def field_simps)
  then have "\<bar>f64_round x - x\<bar> = \<bar>of_int (round_half_even (x / ?u)) - x / ?u\<bar> * ?u"
    using u by (simp add: abs_mult)
  also have "\<dots> \<le> 1 / 2 * ?u"
    using round_half_even_error [of "x / ?u"] u by (intro mult_right_mono) auto
  finally show ?thesis by simp
qed

section \<open>Exponents and exact values\<close>

lemma pow2_add: "pow2 (a + b) = pow2 a * pow2 b"
  by (simp add: pow2_def power_int_add)

lemma pow2_less_iff: "pow2 a < pow2 b \<longleftrightarrow> a < b"
proof -
  have "a < b \<Longrightarrow> pow2 a < pow2 b" for a b
    unfolding pow2_def by (rule power_int_strict_increasing) simp_all
  then show ?thesis by (metis linorder_neqE order_less_asym order_less_irrefl)
qed

lemma pow2_nat: "0 \<le> k \<Longrightarrow> pow2 k = of_int (2 ^ nat k)"
  by (simp add: pow2_def power_int_def)

lemma bitlen_bounds: "0 < n \<Longrightarrow> 2 ^ (bitlen n - 1) \<le> n \<and> n < 2 ^ bitlen n \<and> 0 < bitlen n"
proof (induction n rule: bitlen.induct)
  case (1 n)
  show ?case
  proof (cases "n = 1")
    case True
    moreover have "bitlen 1 = 1"
      by (subst bitlen.simps) (simp add: bitlen.simps [of 0])
    ultimately show ?thesis by simp
  next
    case False
    with 1 have h: "2 ^ (bitlen (n div 2) - 1) \<le> n div 2" "n div 2 < 2 ^ bitlen (n div 2)"
      "0 < bitlen (n div 2)" by auto
    then obtain k where k: "bitlen (n div 2) = Suc k" by (cases "bitlen (n div 2)") auto
    have "2 * 2 ^ k \<le> n" "n < 2 * 2 ^ Suc k" using h(1,2) k by auto
    with 1 k show ?thesis by (simp add: bitlen.simps [of n])
  qed
qed

lemma bitlen_pow2:
  "0 < n \<Longrightarrow> pow2 (int (bitlen n) - 1) \<le> of_nat n \<and> of_nat n < pow2 (int (bitlen n))"
proof -
  assume n: "0 < n"
  have "nat (int (bitlen n) - 1) = bitlen n - 1" by simp
  then have "pow2 (int (bitlen n) - 1) = of_nat (2 ^ (bitlen n - 1))"
    "pow2 (int (bitlen n)) = of_nat (2 ^ bitlen n)"
    using bitlen_bounds [OF n] by (simp_all add: pow2_nat)
  then show ?thesis using bitlen_bounds [OF n] by (metis of_nat_le_iff of_nat_less_iff)
qed

lemma exponent_of_bounds:
  assumes "0 < x"
  shows "pow2 (exponent_of x) \<le> x \<and> x < pow2 (exponent_of x + 1)"
proof -
  obtain n d where q: "quotient_of x = (n, d)" by (cases "quotient_of x")
  have d: "0 < d" and x: "x = of_int n / of_int d"
    using q quotient_of_denom_pos quotient_of_div by blast+
  have n: "0 < n" using assms x d by (simp add: zero_less_divide_iff)
  define a b where "a = int (bitlen (nat n))" and "b = int (bitlen (nat d))"
  have na: "pow2 (a - 1) \<le> of_int n" "of_int n < pow2 a"
    using bitlen_pow2 [of "nat n"] n by (simp_all add: a_def)
  have db: "pow2 (b - 1) \<le> of_int d" "of_int d < pow2 b"
    using bitlen_pow2 [of "nat d"] d by (simp_all add: b_def)
  have d0: "(0::rat) < of_int d" using d by simp
  have up: "x < pow2 (a - b + 1)"
  proof -
    have "pow2 a \<le> pow2 (a - b + 1) * of_int d"
      using mult_left_mono [OF db(1), of "pow2 (a - b + 1)"] pow2_pos [of "a - b + 1"]
      by (simp flip: pow2_add)
    then show ?thesis using na(2) d0 by (simp add: x pos_divide_less_eq)
  qed
  have low: "pow2 (a - b - 1) \<le> x"
  proof -
    have "pow2 (a - b - 1) * of_int d \<le> pow2 (a - 1)"
      using mult_left_mono [of "of_int d" "pow2 b" "pow2 (a - b - 1)"] db(2) pow2_pos [of "a - b - 1"]
      by (simp flip: pow2_add)
    then show ?thesis using na(1) d0 by (simp add: x pos_le_divide_eq)
  qed
  show ?thesis
    using up low by (auto simp: exponent_of_def q a_def b_def Let_def)
qed

text \<open>Values with at most 53 significant bits are not changed by rounding.\<close>

lemma f64_round_exact:
  assumes "\<bar>m\<bar> < 2 ^ 53"
  shows "f64_round (of_int m * pow2 k) = of_int m * pow2 k"
proof (cases "m = 0")
  case True
  then show ?thesis by (simp add: f64_round_def)
next
  case False
  let ?x = "of_int m * pow2 k :: rat"
  let ?e = "exponent_of \<bar>?x\<bar>"
  have x0: "?x \<noteq> 0" using False pow2_pos [of k] by simp
  have "pow2 ?e \<le> \<bar>?x\<bar>" using exponent_of_bounds [of "\<bar>?x\<bar>"] x0 by simp
  also have "\<bar>?x\<bar> = of_int \<bar>m\<bar> * pow2 k" using pow2_pos [of k] by (simp add: abs_mult)
  also have "\<dots> < of_int (2 ^ 53) * pow2 k"
    using assms pow2_pos [of k] by (intro mult_strict_right_mono) (simp_all only: of_int_less_iff)
  also have "\<dots> = pow2 (53 + k)" by (simp add: pow2_add pow2_nat)
  finally have "?e < 53 + k" by (simp add: pow2_less_iff)
  then have s: "0 \<le> k - (?e - 52)" by simp
  have "?x / pow2 (?e - 52) = of_int m * pow2 (k - (?e - 52))"
    using pow2_add [of "k - (?e - 52)" "?e - 52"] pow2_pos [of "?e - 52"]
    by (simp add: divide_eq_eq)
  also have "\<dots> = of_int (m * 2 ^ nat (k - (?e - 52)))" using s by (simp add: pow2_nat)
  finally have "round_half_even (?x / pow2 (?e - 52)) = m * 2 ^ nat (k - (?e - 52))"
    by (simp only: round_half_even_int)
  then have "of_int (round_half_even (?x / pow2 (?e - 52))) * pow2 (?e - 52) = ?x"
    using s pow2_add [of "k - (?e - 52)" "?e - 52"] by (simp add: pow2_nat)
  then show ?thesis using x0 by (simp add: f64_round_def Let_def)
qed

lemma f64_round_int: "\<bar>m\<bar> < 2 ^ 53 \<Longrightarrow> f64_round (of_int m) = of_int m"
  using f64_round_exact [of m 0] by (simp add: pow2_def)

section \<open>Rounding stays in range, and has bits\<close>

lemma round_half_even_le: "q \<le> of_int z \<Longrightarrow> round_half_even q \<le> z"
proof -
  assume q: "q \<le> of_int z"
  then have f: "\<lfloor>q\<rfloor> \<le> z" by linarith
  show ?thesis
  proof (cases "\<lfloor>q\<rfloor> = z")
    case True
    with q have "q = of_int z" by linarith
    then show ?thesis by (simp add: round_half_even_int)
  next
    case False
    with f show ?thesis by (simp add: round_half_even_def Let_def)
  qed
qed

lemma round_half_even_ge: "of_int z \<le> q \<Longrightarrow> z \<le> round_half_even q"
proof -
  assume "of_int z \<le> q"
  then have "z \<le> \<lfloor>q\<rfloor>" by linarith
  then show ?thesis by (simp add: round_half_even_def Let_def)
qed

lemma f64_round_nonneg: "0 \<le> x \<Longrightarrow> 0 \<le> f64_round x"
proof -
  assume x: "0 \<le> x"
  let ?u = "pow2 (exponent_of \<bar>x\<bar> - 52)"
  have "of_int 0 \<le> x / ?u" using x pow2_pos [of "exponent_of \<bar>x\<bar> - 52"] by simp
  from round_half_even_ge [OF this] pow2_pos [of "exponent_of \<bar>x\<bar> - 52"]
  show ?thesis by (simp add: f64_round_def Let_def)
qed

text \<open>An integer below \<open>2 ^ 53\<close> is a bound that rounding respects.\<close>

lemma f64_round_le_int:
  assumes "0 < x" and "x \<le> of_int z" and "z < 2 ^ 53"
  shows "f64_round x \<le> of_int z"
proof -
  let ?e = "exponent_of x"
  let ?u = "pow2 (?e - 52)"
  have "pow2 ?e \<le> x" using exponent_of_bounds [OF assms(1)] by simp
  also have "x < of_int (2 ^ 53)" using assms(2,3) by (meson le_less_trans of_int_less_iff)
  also have "\<dots> = pow2 53" by (simp add: pow2_nat)
  finally have e: "?e < 53" by (simp add: pow2_less_iff)
  then have k: "0 \<le> 52 - ?e" by simp
  have inv: "of_int z / ?u = of_int (z * 2 ^ nat (52 - ?e))"
    using pow2_add [of "52 - ?e" "?e - 52"] pow2_nat [OF k] pow2_pos [of "?e - 52"]
    by (simp add: divide_eq_eq pow2_def)
  have "x / ?u \<le> of_int (z * 2 ^ nat (52 - ?e))"
    unfolding inv [symmetric] using assms(2) pow2_pos [of "?e - 52"] by (simp add: divide_right_mono)
  from round_half_even_le [OF this]
  have "of_int (round_half_even (x / ?u)) * ?u \<le> of_int (z * 2 ^ nat (52 - ?e)) * ?u"
    using pow2_pos [of "?e - 52"] by (simp only: mult_le_cancel_right_pos of_int_le_iff)
  also have "\<dots> = of_int z" unfolding inv [symmetric] using pow2_pos [of "?e - 52"] by simp
  finally show ?thesis using assms(1) by (simp add: f64_round_def Let_def)
qed

text \<open>The bits of a non-negative double.\<close>

definition f64_bits :: "rat \<Rightarrow> 64 word" where
  "f64_bits v =
     (if v = 0 then 0
      else word_of_int ((exponent_of v + 1023) * 2 ^ 52
        + (\<lfloor>v / pow2 (exponent_of v - 52)\<rfloor> - 2 ^ 52)))"

lemma exponent_of_unique:
  assumes "pow2 e \<le> y" and "y < pow2 (e + 1)"
  shows "exponent_of y = e"
proof -
  have "0 < y" using assms(1) pow2_pos [of e] by linarith
  from exponent_of_bounds [OF this] assms have "pow2 (exponent_of y) < pow2 (e + 1)"
    "pow2 e < pow2 (exponent_of y + 1)" by linarith+
  then show ?thesis by (simp add: pow2_less_iff)
qed

lemma f64_round_form:
  assumes "0 < x"
  shows "\<exists>m e. f64_round x = of_int m * pow2 (e - 52) \<and> 2 ^ 52 \<le> m \<and> m < 2 ^ 53
    \<and> exponent_of x \<le> e \<and> e \<le> exponent_of x + 1"
proof -
  let ?e = "exponent_of x"
  let ?u = "pow2 (?e - 52)"
  let ?m = "round_half_even (x / ?u)"
  have u: "0 < ?u" by (rule pow2_pos)
  have y: "f64_round x = of_int ?m * ?u" using assms by (simp add: f64_round_def Let_def)
  have lo: "of_int (2 ^ 52) * ?u = pow2 ?e" and hi: "of_int (2 ^ 53) * ?u = pow2 (?e + 1)"
    using pow2_add [of 52 "?e - 52"] pow2_add [of 53 "?e - 52"] by (simp_all add: pow2_nat add.commute)
  have l: "of_int (2 ^ 52) \<le> x / ?u" and h: "x / ?u \<le> of_int (2 ^ 53)"
    using exponent_of_bounds [OF assms] u lo hi
    by (simp_all add: pos_le_divide_eq pos_divide_le_eq)
  note m = round_half_even_ge [OF l] round_half_even_le [OF h]
  show ?thesis
  proof (cases "?m = 2 ^ 53")
    case True
    then have "f64_round x = of_int (2 ^ 52) * pow2 ((?e + 1) - 52)"
      using y hi pow2_add [of 52 "(?e + 1) - 52"] by (simp add: pow2_nat add.commute)
    then show ?thesis by (intro exI [of _ "2 ^ 52"] exI [of _ "?e + 1"]) simp
  next
    case False
    with m y show ?thesis by (intro exI [of _ ?m] exI [of _ ?e]) simp
  qed
qed

lemma f64_value_bits:
  assumes m: "2 ^ 52 \<le> m" "m < 2 ^ 53" and e: "- 1022 \<le> e" "e \<le> 1023"
  shows "f64_value (f64_bits (of_int m * pow2 (e - 52))) = Some (of_int m * pow2 (e - 52))"
proof -
  let ?y = "of_int m * pow2 (e - 52) :: rat"
  let ?N = "(e + 1023) * 2 ^ 52 + (m - 2 ^ 52)"
  have p: "0 < pow2 (e - 52)" by (rule pow2_pos)
  have lo: "of_int (2 ^ 52) * pow2 (e - 52) = pow2 e" and hi: "of_int (2 ^ 53) * pow2 (e - 52) = pow2 (e + 1)"
    using pow2_add [of 52 "e - 52"] pow2_add [of 53 "e - 52"] by (simp_all add: pow2_nat add.commute)
  have "of_int (2 ^ 52) * pow2 (e - 52) \<le> ?y" "?y < of_int (2 ^ 53) * pow2 (e - 52)"
    using m p by (simp_all only: mult_le_cancel_right_pos mult_less_cancel_right_pos of_int_le_iff of_int_less_iff)
  then have ex: "exponent_of ?y = e" unfolding lo hi by (rule exponent_of_unique)
  have "?y \<noteq> 0" using m p by simp
  then have b: "f64_bits ?y = word_of_int ?N" using p by (simp add: f64_bits_def ex)
  define E M where "E = e + 1023" and "M = m - 2 ^ 52"
  have EM: "1 \<le> E" "E \<le> 2046" "0 \<le> M" "M < 2 ^ 52" using m e by (simp_all add: E_def M_def)
  have N: "?N = E * 2 ^ 52 + M" by (simp add: E_def M_def)
  have "E * 2 ^ 52 \<le> 2046 * 2 ^ 52" using EM by (intro mult_right_mono) simp_all
  then have Nb: "0 \<le> E * 2 ^ 52 + M" "E * 2 ^ 52 + M < 2 ^ 63" using EM by simp_all
  define w :: "64 word" where "w = word_of_int (E * 2 ^ 52 + M)"
  have uw: "uint w = E * 2 ^ 52 + M"
    unfolding w_def using Nb by (simp only: unsigned_of_int) (simp add: take_bit_int_eq_self)
  have t63: "take_bit 63 w = w"
  proof -
    have "uint (take_bit 63 w) = take_bit 63 (uint w)" by (simp add: unsigned_take_bit_eq)
    also have "\<dots> = uint w" using Nb uw by (simp add: take_bit_int_eq_self)
    finally show ?thesis by (simp add: word_uint_eq_iff)
  qed
  have "uint (drop_bit 52 (take_bit 63 w)) = (E * 2 ^ 52 + M) div 2 ^ 52"
    by (simp only: t63 drop_bit_eq_div uint_div_distrib) (simp add: uw)
  also have "\<dots> = E" using EM by simp
  finally have d: "uint (drop_bit 52 (take_bit 63 w)) = E" .
  have "uint (take_bit 52 w) = (E * 2 ^ 52 + M) mod 2 ^ 52"
    by (simp only: unsigned_take_bit_eq uw) (simp add: take_bit_eq_mod)
  also have "\<dots> = M" using EM by simp
  finally have t: "uint (take_bit 52 w) = M" .
  have "\<not> bit w 63"
    using bit_take_bit_iff [of 63 w 63] by (simp only: t63) simp
  then have "f64_value w = Some (of_int (2 ^ 52 + M) * pow2 (E - 1075))"
    using d t EM by (simp add: f64_value_def)
  then show ?thesis unfolding b N w_def [symmetric] by (simp add: E_def M_def)
qed

end
