(* ===== verification/Benchmark.thy ===== *)
theory Benchmark
  imports Stage Float64
begin

text \<open>
  The public-corpus benchmark stage of tools/tsp/src/certification_pipeline.rs, with the report
  records of tools/tsp/src/bench.rs: the accounting of a benchmark report is recomputed from its
  cases and the totals are compared with a policy. A \<^verbatim>\<open>u128\<close> is a \<^typ>\<open>nat\<close> (no operation on
  one can reach its bound, which is checked where the code checks it); an \<^verbatim>\<open>f64\<close> field is its bits.
\<close>

section \<open>Reports and policies\<close>

datatype optimize_action = ActionPass | ActionOptimize

record latency =
  lt_minimum :: nat
  lt_p50 :: nat
  lt_p95 :: nat
  lt_p99 :: nat
  lt_maximum :: nat
  lt_mean :: nat

record bench_case =
  bc_name :: string
  bc_path :: string
  bc_iterations :: u32
  bc_input_bytes :: usize
  bc_output_bytes :: usize
  bc_saved_bytes :: usize
  bc_savings_percent :: "64 word"
  bc_action :: optimize_action
  bc_activation_attempt_ids :: "string list"
  bc_latency :: latency

record bench_totals =
  bt_samples :: usize
  bt_input_bytes :: usize
  bt_output_bytes :: usize
  bt_saved_bytes :: usize
  bt_savings_percent :: "64 word"
  bt_pass_samples :: usize
  bt_optimize_samples :: usize
  bt_latency :: latency

record bench_report =
  br_schema_version :: u32
  br_ok :: bool
  br_plugin_id :: string
  br_version :: string
  br_platform :: string
  br_release_id :: string
  br_artifact_digest :: string
  br_fixture_directory :: string
  br_iterations :: u32
  br_cases :: "bench_case list"
  br_totals :: bench_totals
  br_duration_ms :: nat

record bench_policy =
  bp_schema_version :: u32
  bp_policy_id :: string
  bp_corpus_id :: string
  bp_corpus_digest :: string
  bp_minimum_cases :: u64
  bp_minimum_iterations :: u32
  bp_minimum_input_bytes :: u64
  bp_minimum_savings_basis_points :: u32
  bp_maximum_p95_latency_us :: u64

definition max_iterations :: u32 where "max_iterations = 100"
definition max_benchmark_cases :: nat where "max_benchmark_cases = 100000"
definition max_benchmark_report_bytes :: nat where "max_benchmark_report_bytes = 8388608"
definition max_benchmark_policy_bytes :: nat where "max_benchmark_policy_bytes = 65536"

definition parse_benchmark_report ::
  "deps \<Rightarrow> (bytes \<Rightarrow> bench_report option) \<Rightarrow> bytes \<Rightarrow> bench_report res" where
  "parse_benchmark_report d parse data =
     bindR (reject (data = [] \<or> length data > max_benchmark_report_bytes)
       ''certification.benchmarkReportSize'') (\<lambda>_.
     bindR (reject (\<not> unambiguous d data) ''certification.benchmarkReportJson'') (\<lambda>_.
       ok_or ''certification.benchmarkReportJson'' (parse data)))"

definition parse_benchmark_policy ::
  "deps \<Rightarrow> (bytes \<Rightarrow> bench_policy option) \<Rightarrow> bytes \<Rightarrow> bench_policy res" where
  "parse_benchmark_policy d parse data =
     bindR (reject (data = [] \<or> length data > max_benchmark_policy_bytes)
       ''certification.benchmarkPolicySize'') (\<lambda>_.
     bindR (reject (\<not> unambiguous d data) ''certification.benchmarkPolicyJson'') (\<lambda>_.
       ok_or ''certification.benchmarkPolicyJson'' (parse data)))"

definition validate_benchmark_policy :: "bench_policy \<Rightarrow> unit res" where
  "validate_benchmark_policy p =
     reject (bp_schema_version p \<noteq> 1
       \<or> \<not> valid_token (bp_policy_id p) 1 128
       \<or> \<not> valid_token (bp_corpus_id p) 1 128
       \<or> \<not> valid_digest (bp_corpus_digest p)
       \<or> \<not> (1 \<le> bp_minimum_cases p \<and> bp_minimum_cases p \<le> word_of_nat max_benchmark_cases)
       \<or> \<not> (1 \<le> bp_minimum_iterations p \<and> bp_minimum_iterations p \<le> max_iterations)
       \<or> bp_minimum_input_bytes p = 0
       \<or> bp_minimum_savings_basis_points p > 10000
       \<or> \<not> (1 \<le> bp_maximum_p95_latency_us p \<and> bp_maximum_p95_latency_us p \<le> 60000000))
       ''certification.benchmarkPolicy''"

section \<open>Accounting\<close>

definition valid_latency :: "latency \<Rightarrow> bool" where
  "valid_latency l \<longleftrightarrow>
     lt_minimum l \<le> lt_p50 l \<and> lt_p50 l \<le> lt_p95 l \<and> lt_p95 l \<le> lt_p99 l
     \<and> lt_p99 l \<le> lt_maximum l \<and> lt_minimum l \<le> lt_mean l \<and> lt_mean l \<le> lt_maximum l"

definition percentage_matches :: "64 word \<Rightarrow> usize \<Rightarrow> usize \<Rightarrow> bool" where
  "percentage_matches bits saved input =
     (case f64_value bits of
        None \<Rightarrow> False
      | Some value \<Rightarrow>
          if \<not> (0 \<le> value \<and> value \<le> 100) \<or> input = 0 then False
          else
            let expected = f64_round (f64_round (f64_of_nat (unat saved) * 100)
                  / f64_of_nat (unat input));
                tolerance = f64_round (f64_round (pow2 (- 52) * max \<bar>expected\<bar> 1) * 8)
            in \<bar>f64_round (value - expected)\<bar> \<le> tolerance)"

definition accounting_overflow :: string where
  "accounting_overflow = ''certification.benchmarkAccounting''"

definition savings_basis_points :: "usize \<Rightarrow> usize \<Rightarrow> u32 res" where
  "savings_basis_points saved input =
     bindR (reject (input = 0 \<or> saved > input) ''certification.benchmarkTotals'') (\<lambda>_.
     bindR (reject (unat saved * 10000 \<ge> 2 ^ 128) accounting_overflow) (\<lambda>_.
     let basis_points = unat saved * 10000 div unat input
     in bindR (reject (basis_points \<ge> 2 ^ 32) accounting_overflow) (\<lambda>_.
          Inr (word_of_nat basis_points))))"

record bench_acc =
  ac_names :: "string set"
  ac_input :: usize
  ac_output :: usize
  ac_pass :: usize
  ac_optimize :: usize

definition case_fields_bad :: "u32 \<Rightarrow> string set \<Rightarrow> bench_case \<Rightarrow> bool" where
  "case_fields_bad iterations names c \<longleftrightarrow>
     \<not> valid_text (bc_name c) 1 256
     \<or> \<not> valid_text (bc_path c) 1 4096
     \<or> bc_name c \<in> names
     \<or> bc_iterations c \<noteq> iterations
     \<or> bc_input_bytes c = 0
     \<or> bc_output_bytes c > bc_input_bytes c
     \<or> bc_saved_bytes c \<noteq> bc_input_bytes c - bc_output_bytes c
     \<or> \<not> percentage_matches (bc_savings_percent c) (bc_saved_bytes c) (bc_input_bytes c)
     \<or> length (bc_activation_attempt_ids c) \<noteq> unat iterations
     \<or> length (remdups (bc_activation_attempt_ids c)) \<noteq> length (bc_activation_attempt_ids c)
     \<or> list_ex (\<lambda>i. \<not> valid_activation_attempt_id i) (bc_activation_attempt_ids c)
     \<or> \<not> valid_latency (bc_latency c)"

definition case_action_bad :: "bench_case \<Rightarrow> bool" where
  "case_action_bad c \<longleftrightarrow>
     (case bc_action c of
        ActionPass \<Rightarrow> bc_output_bytes c \<noteq> bc_input_bytes c
      | ActionOptimize \<Rightarrow>
          bc_output_bytes c = 0 \<or> unat (bc_output_bytes c) * 100 > unat (bc_input_bytes c) * 80)"

definition count_action :: "u32 \<Rightarrow> bench_case \<Rightarrow> bench_acc \<Rightarrow> bench_acc" where
  "count_action iterations c acc =
     (case bc_action c of
        ActionPass \<Rightarrow> acc\<lparr>ac_pass := saturating_add (ac_pass acc) (ucast iterations)\<rparr>
      | ActionOptimize \<Rightarrow> acc\<lparr>ac_optimize := saturating_add (ac_optimize acc) (ucast iterations)\<rparr>)"

definition add_repeated :: "usize \<Rightarrow> usize \<Rightarrow> u32 \<Rightarrow> usize res" where
  "add_repeated acc n iterations =
     bindR (ok_or accounting_overflow (checked_mul n (ucast iterations))) (\<lambda>x.
       ok_or accounting_overflow (checked_add acc x))"

fun scan_cases :: "u32 \<Rightarrow> bench_acc \<Rightarrow> bench_case list \<Rightarrow> bench_acc res" where
  "scan_cases iterations acc [] = Inr acc"
| "scan_cases iterations acc (c # cs) =
     bindR (reject (case_fields_bad iterations (ac_names acc) c) ''certification.benchmarkCase'') (\<lambda>_.
     bindR (reject (case_action_bad c) ''certification.benchmarkCase'') (\<lambda>_.
     let acc1 = count_action iterations c (acc\<lparr>ac_names := insert (bc_name c) (ac_names acc)\<rparr>)
     in bindR (add_repeated (ac_input acc1) (bc_input_bytes c) iterations) (\<lambda>input.
        bindR (add_repeated (ac_output acc1) (bc_output_bytes c) iterations) (\<lambda>output.
          scan_cases iterations (acc1\<lparr>ac_input := input, ac_output := output\<rparr>) cs))))"

definition bench_start :: bench_acc where
  "bench_start = \<lparr>ac_names = {}, ac_input = 0, ac_output = 0, ac_pass = 0, ac_optimize = 0\<rparr>"

definition validate_benchmark_report :: "bench_report \<Rightarrow> subject \<Rightarrow> unit res" where
  "validate_benchmark_report r sj =
     bindR (reject (br_schema_version r \<noteq> 1
         \<or> \<not> br_ok r
         \<or> br_plugin_id r \<noteq> sj_plugin_id sj
         \<or> br_version r \<noteq> sj_version sj
         \<or> br_platform r \<noteq> sj_platform sj
         \<or> br_release_id r \<noteq> sj_release_id sj
         \<or> br_artifact_digest r \<noteq> sj_artifact_digest sj
         \<or> \<not> (1 \<le> br_iterations r \<and> br_iterations r \<le> max_iterations)
         \<or> br_cases r = []
         \<or> length (br_cases r) > max_benchmark_cases
         \<or> \<not> valid_text (br_fixture_directory r) 1 4096
         \<or> br_duration_ms r > unat max_stage_duration_seconds * 1000)
       ''certification.benchmarkReport'') (\<lambda>_.
     bindR (scan_cases (br_iterations r) bench_start (br_cases r)) (\<lambda>acc.
     bindR (ok_or accounting_overflow
       (checked_mul (word_of_nat (length (br_cases r))) (ucast (br_iterations r)))) (\<lambda>expected_samples.
     let expected_saved = saturating_sub (ac_input acc) (ac_output acc); t = br_totals r
     in reject (bt_samples t \<noteq> expected_samples
          \<or> bt_input_bytes t \<noteq> ac_input acc
          \<or> bt_output_bytes t \<noteq> ac_output acc
          \<or> bt_saved_bytes t \<noteq> expected_saved
          \<or> bt_pass_samples t \<noteq> ac_pass acc
          \<or> bt_optimize_samples t \<noteq> ac_optimize acc
          \<or> saturating_add (ac_pass acc) (ac_optimize acc) \<noteq> expected_samples
          \<or> \<not> percentage_matches (bt_savings_percent t) expected_saved (ac_input acc)
          \<or> \<not> valid_latency (bt_latency t)) ''certification.benchmarkTotals'')))"

section \<open>The stage\<close>

definition meets_policy :: "bench_report \<Rightarrow> bench_policy \<Rightarrow> u32 \<Rightarrow> bool" where
  "meets_policy r p basis_points \<longleftrightarrow>
     word_of_nat (length (br_cases r)) \<ge> bp_minimum_cases p
     \<and> br_iterations r \<ge> bp_minimum_iterations p
     \<and> bt_input_bytes (br_totals r) \<ge> bp_minimum_input_bytes p
     \<and> basis_points \<ge> bp_minimum_savings_basis_points p
     \<and> word_of_nat (lt_p95 (bt_latency (br_totals r))) \<le> bp_maximum_p95_latency_us p"

definition bench_detail :: "bench_report \<Rightarrow> bench_policy \<Rightarrow> u32 \<Rightarrow> string" where
  "bench_detail r p basis_points =
     ''public corpus '' @ bp_corpus_id p @ '': '' @ dec (length (br_cases r)) @ '' cases, ''
     @ dec (unat (br_iterations r)) @ '' iterations, ''
     @ dec (unat (bt_input_bytes (br_totals r))) @ '' input bytes, ''
     @ dec (unat basis_points div 100) @ ''.'' @ dec2 (unat basis_points mod 100)
     @ ''% weighted savings, '' @ dec (lt_p95 (bt_latency (br_totals r))) @ '' us p95 latency''"

definition benchmark_stage ::
  "deps \<Rightarrow> bytes \<Rightarrow> bytes \<Rightarrow> bench_report \<Rightarrow> bench_policy \<Rightarrow> u32 \<Rightarrow> subject \<Rightarrow> producer \<Rightarrow> u64 \<Rightarrow> u64
     \<Rightarrow> stage" where
  "benchmark_stage d report_bytes policy_bytes r p basis_points sj prd started completed =
     \<lparr>st_schema_version = 1, st_requirement = PublicCorpusBenchmark, st_subject = sj,
      st_rule = certification_rule PublicCorpusBenchmark, st_producer = prd,
      st_started_at = started, st_completed_at = completed, st_ok = meets_policy r p basis_points,
      st_inputs = [\<lparr>ref_name = ''plugin-package'', ref_digest = sj_package_digest sj\<rparr>,
        \<lparr>ref_name = ''public-corpus'', ref_digest = bp_corpus_digest p\<rparr>,
        \<lparr>ref_name = ''benchmark-policy'', ref_digest = sha256_digest d policy_bytes\<rparr>],
      st_outputs = [\<lparr>ref_name = ''benchmark-report'', ref_digest = sha256_digest d report_bytes\<rparr>],
      st_detail = bench_detail r p basis_points,
      st_remediation =
        (if meets_policy r p basis_points
         then ''rerun the exact public corpus and policy for every release''
         else ''meet every case, iteration, input-size, weighted-savings, and p95-latency threshold in the named policy'')\<rparr>"

definition evaluate_public_corpus_benchmark ::
  "deps \<Rightarrow> (bytes \<Rightarrow> bench_report option) \<Rightarrow> (bytes \<Rightarrow> bench_policy option) \<Rightarrow> bytes \<Rightarrow> bytes
     \<Rightarrow> subject \<Rightarrow> producer \<Rightarrow> u64 \<Rightarrow> u64 \<Rightarrow> stage res" where
  "evaluate_public_corpus_benchmark d parse_r parse_p report_bytes policy_bytes sj prd started completed =
     bindR (parse_benchmark_report d parse_r report_bytes) (\<lambda>r.
     bindR (validate_benchmark_report r sj) (\<lambda>_.
     bindR (parse_benchmark_policy d parse_p policy_bytes) (\<lambda>p.
     bindR (validate_benchmark_policy p) (\<lambda>_.
     bindR (savings_basis_points (bt_saved_bytes (br_totals r)) (bt_input_bytes (br_totals r)))
       (\<lambda>basis_points.
     bindR (reject (lt_p95 (bt_latency (br_totals r)) > u64_max) ''certification.benchmarkReport'') (\<lambda>_.
     let s = benchmark_stage d report_bytes policy_bytes r p basis_points sj prd started completed
     in bindR (validate_stage d s sj) (\<lambda>_. Inr s)))))))"

section \<open>The accounting is exact\<close>

definition total_input :: "bench_report \<Rightarrow> nat" where
  "total_input r = (\<Sum>c\<leftarrow>br_cases r. unat (bc_input_bytes c) * unat (br_iterations r))"

definition total_output :: "bench_report \<Rightarrow> nat" where
  "total_output r = (\<Sum>c\<leftarrow>br_cases r. unat (bc_output_bytes c) * unat (br_iterations r))"

lemma add_repeated_Inr:
  "add_repeated acc n iterations = Inr x \<Longrightarrow> unat x = unat acc + unat n * unat iterations"
  by (auto simp: add_repeated_def res_simps unat_ucast_up
      dest!: checked_add_unat checked_mul_unat)

definition case_ok :: "u32 \<Rightarrow> bench_case \<Rightarrow> bool" where
  "case_ok iterations c \<longleftrightarrow> \<not> case_fields_bad iterations {} c \<and> \<not> case_action_bad c"

lemma count_action_fields:
  "ac_names (count_action i c acc) = ac_names acc" "ac_input (count_action i c acc) = ac_input acc"
  "ac_output (count_action i c acc) = ac_output acc"
  by (simp_all add: count_action_def split: optimize_action.split)

lemma scan_cases_Inr:
  "scan_cases iterations acc cs = Inr acc' \<Longrightarrow>
     unat (ac_input acc') = unat (ac_input acc)
       + (\<Sum>c\<leftarrow>cs. unat (bc_input_bytes c) * unat iterations)
     \<and> unat (ac_output acc') = unat (ac_output acc)
       + (\<Sum>c\<leftarrow>cs. unat (bc_output_bytes c) * unat iterations)
     \<and> list_all (case_ok iterations) cs
     \<and> distinct (map bc_name cs) \<and> bc_name ` set cs \<inter> ac_names acc = {}"
proof (induction cs arbitrary: acc)
  case (Cons c cs)
  from Cons.prems obtain input out where bad: "\<not> case_fields_bad iterations (ac_names acc) c"
    "\<not> case_action_bad c"
    and i: "unat input = unat (ac_input acc) + unat (bc_input_bytes c) * unat iterations"
    and o: "unat out = unat (ac_output acc) + unat (bc_output_bytes c) * unat iterations"
    and rest: "scan_cases iterations
        (count_action iterations c (acc\<lparr>ac_names := insert (bc_name c) (ac_names acc)\<rparr>)
          \<lparr>ac_input := input, ac_output := out\<rparr>) cs = Inr acc'"
    by (auto simp: res_simps Let_def count_action_fields dest!: add_repeated_Inr)
  have "case_ok iterations c" "bc_name c \<notin> ac_names acc"
    using bad by (auto simp: case_ok_def case_fields_bad_def distinct_remdups_id)
  with Cons.IH [OF rest] i o show ?case
    by (auto simp: count_action_fields)
qed simp

lemma case_ok_le: "case_ok i c \<Longrightarrow> unat (bc_output_bytes c) \<le> unat (bc_input_bytes c)"
  by (auto simp: case_ok_def case_fields_bad_def word_le_nat_alt not_less)

lemma sum_output_le:
  "list_all (case_ok i) cs \<Longrightarrow>
     (\<Sum>c\<leftarrow>cs. unat (bc_output_bytes c) * n) \<le> (\<Sum>c\<leftarrow>cs. unat (bc_input_bytes c) * n)"
proof (induction cs)
  case (Cons c cs)
  then have "unat (bc_output_bytes c) * n \<le> unat (bc_input_bytes c) * n"
    by (intro mult_right_mono) (auto dest: case_ok_le)
  moreover have "(\<Sum>c\<leftarrow>cs. unat (bc_output_bytes c) * n) \<le> (\<Sum>c\<leftarrow>cs. unat (bc_input_bytes c) * n)"
    using Cons by simp
  ultimately show ?case by (simp only: list.map sum_list.Cons add_mono)
qed simp

lemma validate_benchmark_report_Inr:
  assumes "validate_benchmark_report r sj = Inr ()"
  shows "unat (bt_input_bytes (br_totals r)) = total_input r
    \<and> unat (bt_output_bytes (br_totals r)) = total_output r
    \<and> unat (bt_saved_bytes (br_totals r)) = total_input r - total_output r
    \<and> total_output r \<le> total_input r \<and> length (br_cases r) \<le> 100000
    \<and> list_all (case_ok (br_iterations r)) (br_cases r) \<and> distinct (map bc_name (br_cases r))"
proof -
  from assms obtain acc where sc: "scan_cases (br_iterations r) bench_start (br_cases r) = Inr acc"
    and t: "bt_input_bytes (br_totals r) = ac_input acc" "bt_output_bytes (br_totals r) = ac_output acc"
      "bt_saved_bytes (br_totals r) = saturating_sub (ac_input acc) (ac_output acc)"
    and n: "length (br_cases r) \<le> 100000"
    by (auto simp: validate_benchmark_report_def res_simps Let_def max_benchmark_cases_def)
  note s = scan_cases_Inr [OF sc]
  from s have le: "total_output r \<le> total_input r"
    unfolding total_output_def total_input_def by (intro sum_output_le) auto
  show ?thesis
    using s t n le by (simp add: bench_start_def total_input_def total_output_def unat_saturating_sub)
qed

lemma savings_basis_points_Inr:
  "savings_basis_points saved input = Inr b \<Longrightarrow>
     0 < unat input \<and> unat saved \<le> unat input \<and> unat b = unat saved * 10000 div unat input"
proof -
  assume "savings_basis_points saved input = Inr b"
  then have "input \<noteq> 0" "saved \<le> input" and b: "unat saved * 10000 div unat input < 2 ^ 32"
    "b = word_of_nat (unat saved * 10000 div unat input)"
    by (auto simp: savings_basis_points_def Let_def res_simps not_le not_less)
  moreover have "unat b = unat saved * 10000 div unat input"
    using b by (simp add: unat_of_nat take_bit_nat_eq_self)
  ultimately show ?thesis by (simp add: word_le_nat_alt unat_gt_0)
qed

text \<open>The rate is defined for every well-formed total: its errors are unreachable.\<close>

lemma savings_basis_points_total:
  assumes "0 < unat input" and "unat saved \<le> unat input"
  shows "\<exists>b. savings_basis_points saved input = Inr b"
proof -
  have "unat saved * 10000 div unat input \<le> unat input * 10000 div unat input"
    using assms(2) by (intro div_le_mono mult_right_mono) auto
  then have "unat saved * 10000 div unat input \<le> 10000" using assms(1) by simp
  moreover have "unat saved < 2 ^ 64" using unsigned_less [of saved] by simp
  ultimately show ?thesis
    using assms
    by (auto simp: savings_basis_points_def Let_def res_simps word_less_nat_alt not_less)
qed

text \<open>The policy over exact naturals.\<close>

definition meets_thresholds :: "bench_report \<Rightarrow> bench_policy \<Rightarrow> bool" where
  "meets_thresholds r p \<longleftrightarrow>
     unat (bp_minimum_cases p) \<le> length (br_cases r)
     \<and> unat (bp_minimum_iterations p) \<le> unat (br_iterations r)
     \<and> unat (bp_minimum_input_bytes p) \<le> total_input r
     \<and> unat (bp_minimum_savings_basis_points p) * total_input r
         \<le> (total_input r - total_output r) * 10000
     \<and> lt_p95 (bt_latency (br_totals r)) \<le> unat (bp_maximum_p95_latency_us p)"

lemma meets_policy_iff:
  assumes v: "validate_benchmark_report r sj = Inr ()"
    and b: "savings_basis_points (bt_saved_bytes (br_totals r)) (bt_input_bytes (br_totals r)) = Inr b"
    and p95: "lt_p95 (bt_latency (br_totals r)) \<le> u64_max"
  shows "meets_policy r p b \<longleftrightarrow> meets_thresholds r p"
proof -
  note t = validate_benchmark_report_Inr [OF v]
  note bp = savings_basis_points_Inr [OF b]
  have l: "unat (word_of_nat (length (br_cases r)) :: u64) = length (br_cases r)"
    using t by (simp add: unat_of_nat take_bit_nat_eq_self)
  have q: "unat (word_of_nat (lt_p95 (bt_latency (br_totals r))) :: u64)
      = lt_p95 (bt_latency (br_totals r))"
    using p95 by (simp add: u64_max_def unat_of_nat take_bit_nat_eq_self)
  have "m \<le> unat b \<longleftrightarrow> m * total_input r \<le> (total_input r - total_output r) * 10000" for m
    using bp t by (simp add: less_eq_div_iff_mult_less_eq)
  then show ?thesis
    using l q t by (simp add: meets_policy_def meets_thresholds_def word_le_nat_alt)
qed

section \<open>The benchmark evaluator as a stage producer\<close>

text \<open>The generated text always fits the stage's bound, so it is never what rejects a run.\<close>

lemma bench_detail_text:
  assumes "validate_benchmark_report r sj = Inr ()" and "validate_benchmark_policy p = Inr ()"
    and "lt_p95 (bt_latency (br_totals r)) \<le> u64_max"
  shows "valid_text (bench_detail r p b) 1 1024"
proof (rule valid_text_printable)
  have tok: "valid_token (bp_corpus_id p) 1 128"
    using assms(2) by (auto simp: validate_benchmark_policy_def res_simps)
  show "printable (bench_detail r p b)"
    using valid_token_printable [OF tok] by (simp add: bench_detail_def)
  have "length (dec (length (br_cases r))) \<le> 6"
    using validate_benchmark_report_Inr [OF assms(1)] by (intro length_dec_le) auto
  moreover have "length (dec (lt_p95 (bt_latency (br_totals r)))) \<le> 20"
    using assms(3) by (intro length_dec_le) (auto simp: u64_max_def)
  moreover have "length (dec (unat b div 100)) \<le> 10"
  proof (rule length_dec_le)
    have "unat b < 2 ^ 32" using unsigned_less [of b] by simp
    then show "unat b div 100 < 10 ^ 10" by (simp add: div_less_iff_less_mult)
  qed simp
  moreover have "length (dec2 (unat b mod 100)) = 2" by (rule length_dec2) simp
  ultimately show "length (bench_detail r p b) \<le> 1024"
    using valid_token_length [OF tok] length_dec_u64 [of "bt_input_bytes (br_totals r)"]
      length_dec_u32 [of "br_iterations r"]
    by (simp add: bench_detail_def)
qed (simp add: bench_detail_def)

lemma benchmark_names:
  "list_all (\<lambda>x. valid_token x 1 128)
     [''plugin-package'', ''public-corpus'', ''benchmark-policy'', ''benchmark-report'']"
  by (simp add: valid_token_def token_char_def ascii_defs)

lemma benchmark_stage_contract:
  assumes sha: "sha256_length d" and sj: "subject_contract d sj"
    and r: "validate_benchmark_report r sj = Inr ()" and p: "validate_benchmark_policy p = Inr ()"
    and p95: "lt_p95 (bt_latency (br_totals r)) \<le> u64_max"
    and run: "run_context_ok prd started completed"
  shows "stage_contract d (benchmark_stage d rb pb r p b sj prd started completed) sj"
proof -
  let ?s = "benchmark_stage d rb pb r p b sj prd started completed"
  have dg: "valid_digest (sj_package_digest sj)" "valid_digest (bp_corpus_digest p)"
    using sj p by (auto simp: subject_contract_def validate_subject_def validate_benchmark_policy_def
        res_simps)
  have "validate_references (st_inputs ?s) = Inr ()" "validate_references (st_outputs ?s) = Inr ()"
    using dg sha benchmark_names
    by (auto simp: benchmark_stage_def intro!: validate_references_map)
  moreover have "valid_text (st_remediation ?s) 1 1024"
    by (auto simp: benchmark_stage_def intro!: valid_text_printable)
  ultimately show ?thesis
    using bench_detail_text [OF r p p95, of b] run sj
    by (auto simp: stage_contract_def benchmark_stage_def run_context_ok_def subject_bound_def)
qed

lemma benchmark_complete:
  assumes "sha256_length d" and "subject_contract d sj" and "run_context_ok prd started completed"
    and "parse_benchmark_report d parse_r rb = Inr r" and r: "validate_benchmark_report r sj = Inr ()"
    and "parse_benchmark_policy d parse_p pb = Inr p" and "validate_benchmark_policy p = Inr ()"
    and "lt_p95 (bt_latency (br_totals r)) \<le> u64_max" and "0 < total_input r"
  shows "\<exists>s. evaluate_public_corpus_benchmark d parse_r parse_p rb pb sj prd started completed = Inr s
    \<and> st_ok s = meets_thresholds r p"
proof -
  note t = validate_benchmark_report_Inr [OF r]
  obtain b where b: "savings_basis_points (bt_saved_bytes (br_totals r))
      (bt_input_bytes (br_totals r)) = Inr b"
    using savings_basis_points_total [of "bt_input_bytes (br_totals r)" "bt_saved_bytes (br_totals r)"]
      t assms(9) by auto
  let ?s = "benchmark_stage d rb pb r p b sj prd started completed"
  have "validate_stage d ?s sj = Inr ()"
    unfolding validate_stage_Inr by (rule benchmark_stage_contract) (use assms in auto)
  moreover have "st_ok ?s = meets_thresholds r p"
    using meets_policy_iff [OF r b assms(8)] by (simp add: benchmark_stage_def)
  ultimately show ?thesis
    using assms b by (simp add: evaluate_public_corpus_benchmark_def Let_def not_less)
qed

lemma scan_cases_no_panic: "\<not> panics (scan_cases iterations acc cs)"
  by (induction cs arbitrary: acc) (auto simp: panics_bindR Let_def add_repeated_def)

lemma benchmark_no_panic:
  "\<not> panics (evaluate_public_corpus_benchmark d parse_r parse_p rb pb sj prd started completed)"
  by (auto simp: evaluate_public_corpus_benchmark_def panics_bindR Let_def validate_stage_no_panic
      parse_benchmark_report_def parse_benchmark_policy_def validate_benchmark_report_def
      validate_benchmark_policy_def savings_basis_points_def scan_cases_no_panic)

definition benchmark_producer ::
  "deps \<Rightarrow> (bytes \<Rightarrow> bench_report option) \<Rightarrow> (bytes \<Rightarrow> bench_policy option)
     \<Rightarrow> bytes \<times> bytes \<times> producer \<times> u64 \<times> u64 \<Rightarrow> subject \<Rightarrow> stage res" where
  "benchmark_producer d parse_r parse_p =
     (\<lambda>(rb, pb, prd, started, completed) sj.
        evaluate_public_corpus_benchmark d parse_r parse_p rb pb sj prd started completed)"

interpretation benchmark: stage_producer d PublicCorpusBenchmark "benchmark_producer d parse_r parse_p"
  for d parse_r parse_p
proof unfold_locales
  fix i :: "bytes \<times> bytes \<times> producer \<times> u64 \<times> u64" and sj s
  assume "benchmark_producer d parse_r parse_p i sj = Inr s"
  then show "st_requirement s = PublicCorpusBenchmark" and "stage_contract d s sj"
    by (auto simp: benchmark_producer_def evaluate_public_corpus_benchmark_def Let_def bindR_Inr_iff
        validate_stage_Inr benchmark_stage_def split: prod.splits)
next
  fix i :: "bytes \<times> bytes \<times> producer \<times> u64 \<times> u64" and sj
  show "\<not> panics (benchmark_producer d parse_r parse_p i sj)"
    by (simp add: benchmark_producer_def benchmark_no_panic split: prod.splits)
qed

end
