(* ===== verification/Pipeline.thy ===== *)
theory Pipeline
  imports Benchmark Evidence
begin

text \<open>
  The properties of the certification pipeline: assembly of stage documents into a report, and
  the public-corpus benchmark stage.
\<close>

definition demo_case :: bench_case where
  "demo_case = \<lparr>bc_name = ''go-test'', bc_path = ''cases/go.json'', bc_iterations = 1,
     bc_input_bytes = 100, bc_output_bytes = 50, bc_saved_bytes = 50,
     bc_savings_percent = 0x4049000000000000, bc_action = ActionOptimize,
     bc_activation_attempt_ids = [''tsa1_'' @ hex (replicate 16 CHR ''a'')],
     bc_latency = \<lparr>lt_minimum = 1, lt_p50 = 2, lt_p95 = 3, lt_p99 = 3, lt_maximum = 4, lt_mean = 2\<rparr>\<rparr>"

lemma demo_percentage: "percentage_matches 0x4049000000000000 50 100"
proof -
  have "uint (drop_bit 52 (take_bit 63 (0x4049000000000000 :: 64 word))) = 1028"
    "uint (take_bit 52 (0x4049000000000000 :: 64 word)) = 2533274790395904"
    by code_simp+
  moreover have "\<not> bit (0x4049000000000000 :: 64 word) 63" by simp
  moreover have "7036874417766400 * pow2 (- 47) = 50"
    by (simp add: pow2_def power_int_def power_one_over)
  ultimately have v: "f64_value 0x4049000000000000 = Some 50"
    by (simp add: f64_value_def del: bit_numeral_iff)
  have n: "f64_round 50 = 50" "f64_round 100 = 100" "f64_round 5000 = 5000" "f64_round 0 = 0"
    using f64_round_int [of 50] f64_round_int [of 100] f64_round_int [of 5000] f64_round_int [of 0]
    by simp_all
  have e: "f64_round (pow2 (- 52) * 50) = 50 * pow2 (- 52)"
    using f64_round_exact [of 50 "- 52"] by (simp add: mult.commute)
  have t: "f64_round (400 * pow2 (- 52)) = 400 * pow2 (- 52)"
    using f64_round_exact [of 400 "- 52"] by simp
  show ?thesis
    using pow2_pos [of "- 52"]
    by (simp add: percentage_matches_def v f64_of_nat_def n e t)
qed

definition demo_bench :: bench_report where
  "demo_bench = \<lparr>br_schema_version = 1, br_ok = True, br_plugin_id = sj_plugin_id demo_subject,
     br_version = sj_version demo_subject, br_platform = sj_platform demo_subject,
     br_release_id = sj_release_id demo_subject,
     br_artifact_digest = sj_artifact_digest demo_subject, br_fixture_directory = ''fixtures'',
     br_iterations = 1, br_cases = [demo_case],
     br_totals = \<lparr>bt_samples = 1, bt_input_bytes = 100, bt_output_bytes = 50, bt_saved_bytes = 50,
       bt_savings_percent = 0x4049000000000000, bt_pass_samples = 0, bt_optimize_samples = 1,
       bt_latency = bc_latency demo_case\<rparr>,
     br_duration_ms = 12\<rparr>"

definition demo_policy :: bench_policy where
  "demo_policy = \<lparr>bp_schema_version = 1, bp_policy_id = ''policy'', bp_corpus_id = ''corpus'',
     bp_corpus_digest = sha256_digest demo_deps ''corpus'', bp_minimum_cases = 1,
     bp_minimum_iterations = 1, bp_minimum_input_bytes = 64, bp_minimum_savings_basis_points = 2500,
     bp_maximum_p95_latency_us = 1000\<rparr>"

definition demo_producer :: producer where
  "demo_producer = \<lparr>pr_id = ''runner'', pr_version = ''1.0.0'',
     pr_environment_digest = sha256_digest demo_deps ''env''\<rparr>"

lemma demo_more_tokens:
  "valid_token ''runner'' 1 128" "valid_token ''1.0.0'' 1 128" "valid_token ''policy'' 1 128"
  "valid_token ''corpus'' 1 128" "valid_token ''plugin-package'' 1 128"
  "valid_token ''public-corpus'' 1 128" "valid_token ''benchmark-policy'' 1 128"
  "valid_token ''benchmark-report'' 1 128"
  by (simp_all add: valid_token_def token_char_def ascii_defs)

lemma demo_bench_valid: "validate_benchmark_report demo_bench demo_subject = Inr ()"
proof -
  have l: "valid_latency (bc_latency demo_case)" by (simp add: demo_case_def valid_latency_def)
  have i: "valid_activation_attempt_id (''tsa1_'' @ hex (replicate 16 CHR ''a''))"
    using valid_prefixed_hex_append [of "replicate 16 CHR ''a''" 32 activation_prefix]
    by (simp add: valid_activation_attempt_id_def activation_prefix_def)
  have c: "\<not> case_fields_bad 1 {} demo_case" "\<not> case_action_bad demo_case"
    using l i demo_percentage
    by (simp_all add: case_fields_bad_def case_action_bad_def demo_case_def valid_text_printable)
  have s: "scan_cases 1 bench_start [demo_case] = Inr
     \<lparr>ac_names = {''go-test''}, ac_input = 100, ac_output = 50, ac_pass = 0, ac_optimize = 1\<rparr>"
    using c by (simp add: bench_start_def count_action_def add_repeated_def checked_mul_def
        checked_add_def saturating_add_def Let_def)
       (simp add: demo_case_def saturating_add_def)
  show ?thesis
    using s l demo_percentage
    by (simp add: max_stage_duration_seconds_def validate_benchmark_report_def demo_bench_def max_iterations_def
        max_benchmark_cases_def valid_text_printable checked_mul_def saturating_sub_def
        saturating_add_def)
qed

lemma demo_policy_valid: "validate_benchmark_policy demo_policy = Inr ()"
  using demo_more_tokens
  by (simp add: validate_benchmark_policy_def demo_policy_def max_benchmark_cases_def max_iterations_def)

lemma demo_basis_points: "savings_basis_points 50 100 = Inr 5000"
  by (simp add: savings_basis_points_def)

lemma demo_run_context: "run_context_ok demo_producer 10 20"
  using demo_more_tokens
  by (simp add: run_context_ok_def demo_producer_def saturating_sub_def max_stage_duration_seconds_def)

lemma demo_subject_contract: "subject_contract demo_deps demo_subject"
  using demo_subject_ok by (simp add: subject_contract_def)

lemma demo_parse_bench:
  "parse_benchmark_report demo_deps (\<lambda>_. Some demo_bench) ''B'' = Inr demo_bench"
  "parse_benchmark_policy demo_deps (\<lambda>_. Some demo_policy) ''P'' = Inr demo_policy"
  by (simp_all add: parse_benchmark_report_def parse_benchmark_policy_def demo_unambiguous
      max_benchmark_report_bytes_def max_benchmark_policy_bytes_def)

lemma demo_bench_totals: "total_input demo_bench = 100" "total_output demo_bench = 50"
  "lt_p95 (bt_latency (br_totals demo_bench)) = 3"
  by (simp_all add: total_input_def total_output_def demo_bench_def demo_case_def)

text \<open>A level 1 pipeline whose safety stage failed.\<close>

definition demo_stage :: "requirement \<Rightarrow> stage" where
  "demo_stage q = \<lparr>st_schema_version = 1, st_requirement = q, st_subject = demo_subject,
     st_rule = certification_rule q, st_producer = demo_producer, st_started_at = 10,
     st_completed_at = 20, st_ok = (q \<noteq> SafetyContract),
     st_inputs = map (\<lambda>n. \<lparr>ref_name = n, ref_digest = sj_artifact_digest demo_subject\<rparr>)
       (fst (stage_layout q)),
     st_outputs = map (\<lambda>n. \<lparr>ref_name = n, ref_digest = sj_artifact_digest demo_subject\<rparr>)
       (snd (stage_layout q)),
     st_detail = ''done'', st_remediation = ''none''\<rparr>"

definition demo_parse_stage :: "bytes \<Rightarrow> stage option" where
  "demo_parse_stage b = Some (demo_stage
     (if b = ''a'' then ManifestValidation else if b = ''b'' then TsppLifecycle else SafetyContract))"

definition demo_stages :: "stage list" where
  "demo_stages = map demo_stage level_1_requirements"

definition demo_assembled :: report where
  "demo_assembled = assembled_report demo_deps Conformant demo_subject (rep_authority demo_report)
     [''a'', ''b'', ''c''] demo_stages"

lemma demo_stage_contract:
  assumes "q \<in> set level_1_requirements"
  shows "stage_contract demo_deps (demo_stage q) demo_subject"
proof -
  have dg: "valid_digest (sj_artifact_digest demo_subject)" by (simp add: demo_subject_def)
  have tok: "list_all (\<lambda>x. valid_token x 1 128) (fst (stage_layout q))"
    "list_all (\<lambda>x. valid_token x 1 128) (snd (stage_layout q))"
    using assms by (auto simp: level_1_requirements_def valid_token_def token_char_def ascii_defs)
  have "validate_references (st_inputs (demo_stage q)) = Inr ()"
    "validate_references (st_outputs (demo_stage q)) = Inr ()"
    using assms dg
    by (auto simp: level_1_requirements_def demo_stage_def intro!: validate_references_map
        intro: tok [THEN list_all_iff [THEN iffD1], rule_format])
       (use tok assms in \<open>auto simp: level_1_requirements_def\<close>)
  then show ?thesis
    using assms demo_subject_contract demo_run_context
    by (auto simp: level_1_requirements_def stage_contract_def demo_stage_def run_context_ok_def
        subject_bound_def valid_text_printable)
qed

lemma demo_assemble:
  "assemble_certification_report demo_deps demo_parse_stage Conformant demo_subject
     (rep_authority demo_report) [''a'', ''b'', ''c''] = Inr demo_assembled"
proof -
  have so: "stage_of demo_deps demo_parse_stage demo_subject doc q (demo_stage q)"
    if "(doc, q) \<in> {(''a'', ManifestValidation), (''b'', TsppLifecycle), (''c'', SafetyContract)}" for doc q
    using that demo_stage_contract [of q]
    by (auto simp: stage_of_def parse_stage_document_def demo_unambiguous max_stage_evidence_bytes_def
        demo_parse_stage_def level_1_requirements_def demo_stage_def)
  have q: "st_requirement (demo_stage q) = q" for q by (simp add: demo_stage_def)
  have "pipeline_contract demo_deps demo_parse_stage Conformant demo_subject
      [''a'', ''b'', ''c''] demo_stages"
    by (simp add: pipeline_contract_def demo_stages_def level_1_requirements_def q so cross_bound_def)
  moreover have "validate_authority (rep_authority demo_report) = Inr ()"
    using demo_report_contract by (simp add: report_contract_def)
  ultimately show ?thesis
    using assemble_Inr [of "[''a'', ''b'', ''c'']" demo_deps demo_parse_stage Conformant demo_subject
        "rep_authority demo_report" demo_assembled]
    by (auto simp: field_ok_def demo_deps_laws demo_assembled_def)
qed

section \<open>Properties\<close>

text \<open>The benchmark stage is sound and its arithmetic exact: a stage that is produced satisfies
  the stage contract for the subject, and it is marked ok exactly when the totals recomputed from
  the cases over unbounded naturals (input, output, savings in basis points) meet every threshold
  of the policy; no sum or product of the accounting wraps around.\<close>
lemma benchmark_stage_sound:
  assumes "evaluate_public_corpus_benchmark d parse_r parse_p rb pb sj prd started completed = Inr s"
  shows "\<exists>r p. parse_r rb = Some r \<and> parse_p pb = Some p \<and> stage_contract d s sj
    \<and> st_requirement s = PublicCorpusBenchmark
    \<and> (st_ok s \<longleftrightarrow> meets_thresholds r p)
    \<and> unat (bt_input_bytes (br_totals r)) = total_input r
    \<and> unat (bt_saved_bytes (br_totals r)) = total_input r - total_output r"
proof -
  from assms obtain r p b where
    r: "parse_benchmark_report d parse_r rb = Inr r" "validate_benchmark_report r sj = Inr ()"
    and p: "parse_benchmark_policy d parse_p pb = Inr p"
    and b: "savings_basis_points (bt_saved_bytes (br_totals r)) (bt_input_bytes (br_totals r)) = Inr b"
    and p95: "lt_p95 (bt_latency (br_totals r)) \<le> u64_max"
    and s: "s = benchmark_stage d rb pb r p b sj prd started completed" "stage_contract d s sj"
    by (auto simp: evaluate_public_corpus_benchmark_def Let_def bindR_Inr_iff reject_Inr_iff
        not_less validate_stage_Inr)
  have "parse_r rb = Some r" "parse_p pb = Some p"
    using r(1) p by (auto simp: parse_benchmark_report_def parse_benchmark_policy_def res_simps)
  with s meets_policy_iff [OF r(2) b p95] validate_benchmark_report_Inr [OF r(2)] show ?thesis
    by (auto simp: benchmark_stage_def)
qed

text \<open>And it is complete: well-formed documents about a valid subject, run by a well-formed
  producer, always yield a stage; nothing the evaluator generates itself (the detail text, the
  references, the savings rate) is ever what rejects them.\<close>
lemma benchmark_stage_complete:
  assumes "sha256_length d" and "subject_contract d sj" and "run_context_ok prd started completed"
    and "parse_benchmark_report d parse_r rb = Inr r" and "validate_benchmark_report r sj = Inr ()"
    and "parse_benchmark_policy d parse_p pb = Inr p" and "validate_benchmark_policy p = Inr ()"
    and "lt_p95 (bt_latency (br_totals r)) \<le> u64_max" and "0 < total_input r"
  shows "\<exists>s. evaluate_public_corpus_benchmark d parse_r parse_p rb pb sj prd started completed = Inr s
    \<and> st_ok s = meets_thresholds r p"
  using assms by (rule benchmark_complete)

lemma benchmark_stage_complete_witness:
  "\<exists>s. evaluate_public_corpus_benchmark demo_deps (\<lambda>_. Some demo_bench) (\<lambda>_. Some demo_policy)
      ''B'' ''P'' demo_subject demo_producer 10 20 = Inr s \<and> st_ok s"
  using benchmark_stage_complete [OF demo_deps_laws(1) demo_subject_contract demo_run_context
      demo_parse_bench(1) demo_bench_valid demo_parse_bench(2) demo_policy_valid]
  by (simp add: demo_bench_totals u64_max_def meets_thresholds_def)
     (simp add: demo_bench_def demo_policy_def)

lemma benchmark_stage_sound_witness:
  "\<exists>s r p. stage_contract demo_deps s demo_subject \<and> (st_ok s \<longleftrightarrow> meets_thresholds r p)
     \<and> Some r = Some demo_bench \<and> Some p = Some demo_policy"
proof -
  from benchmark_complete [OF demo_deps_laws(1) demo_subject_contract demo_run_context
      demo_parse_bench(1) demo_bench_valid demo_parse_bench(2) demo_policy_valid]
  obtain s where run: "evaluate_public_corpus_benchmark demo_deps (\<lambda>_. Some demo_bench)
      (\<lambda>_. Some demo_policy) ''B'' ''P'' demo_subject demo_producer 10 20 = Inr s"
    by (auto simp: demo_bench_totals u64_max_def)
  show ?thesis using benchmark_stage_sound [OF run] by auto
qed

text \<open>No input makes the pipeline panic: neither the assembly, whose slice indexing is guarded
  by the layout check of every stage, nor the benchmark evaluation.\<close>
lemma pipeline_never_panics:
  "assemble_certification_report d parse level sj auth documents \<noteq> Inl Panic
   \<and> evaluate_public_corpus_benchmark d parse_r parse_p rb pb sj prd started completed \<noteq> Inl Panic"
  using assemble_no_panic [of d parse level sj auth documents]
    benchmark_no_panic [of d parse_r parse_p rb pb sj prd started completed]
  by (simp add: panics_def)

text \<open>C4: assembly is exact: it returns a report precisely when the documents are within 16 MiB and
  hold one valid stage for each requirement of the level, in order, with the admin metadata made
  from the validated manifest and the licence review from the generated SBOM, and the authority is
  valid; and the report is then determined: each check carries the digest and the verdict of its
  document, and the report is ok when every stage is.\<close>
theorem assembly_exact:
  assumes "list_all field_ok documents" and "sha256_length d"
  shows "assemble_certification_report d parse level sj auth documents = Inr r \<longleftrightarrow>
    (\<exists>stages. pipeline_contract d parse level sj documents stages \<and> validate_authority auth = Inr ()
       \<and> r = assembled_report d level sj auth documents stages)"
  using assms by (rule assemble_Inr)

theorem assembly_exact_witness:
  "\<exists>stages. pipeline_contract demo_deps demo_parse_stage Conformant demo_subject
      [''a'', ''b'', ''c''] stages
     \<and> demo_assembled = assembled_report demo_deps Conformant demo_subject (rep_authority demo_report)
         [''a'', ''b'', ''c''] stages"
  using assembly_exact [of "[''a'', ''b'', ''c'']" demo_deps demo_parse_stage Conformant demo_subject
      "rep_authority demo_report" demo_assembled] demo_assemble
  by (simp add: field_ok_def demo_deps_laws) blast

text \<open>An assembled report is accepted by the report validation for its subject exactly when
  every stage passed, so a failed stage cannot be certified.\<close>
lemma assembled_report_certifiable:
  assumes "assemble_certification_report d parse level sj auth documents = Inr r"
  shows "validate_certification_report d r sj = Inr () \<longleftrightarrow> list_all ck_ok (rep_checks r)"
proof -
  have "validate_certification_report_structure d r sj = Inr ()"
    using assms by (auto simp: assemble_certification_report_def res_simps Let_def)
  then show ?thesis
    by (auto simp: validate_certification_report_def validate_certification_report_structure_def
        validate_report_contract_iff report_contract_def)
qed

lemma assembled_report_certifiable_witness:
  "validate_certification_report demo_deps demo_assembled demo_subject = Inr () \<longleftrightarrow>
     list_all ck_ok (rep_checks demo_assembled)"
  by (rule assembled_report_certifiable [OF demo_assemble])

end
