(* ===== verification/Fuzz.thy ===== *)
theory Fuzz
  imports Stage
begin

text \<open>
  tools/tsp/src/certification_fuzz.rs: protocol-fuzz policies, corpora and reports, the execution
  plan of a corpus, and the evaluation of a report into a protocol-fuzzing stage.
\<close>

section \<open>Documents\<close>

datatype case_class = ValidCase | MalformedCase

record fuzz_case =
  fc_id :: string
  fc_class :: case_class
  fc_input_base64 :: string

record fuzz_limits =
  fl_execution_ms :: u64
  fl_memory_bytes :: u64
  fl_stdout_bytes :: u64
  fl_stderr_bytes :: u64
  fl_required_sanitizers :: "string list"

record fuzz_corpus =
  fz_schema_version :: u32
  fz_corpus_id :: string
  fz_protocol :: string
  fz_repetitions :: u32
  fz_limits :: fuzz_limits
  fz_cases :: "fuzz_case list"

record fuzz_engine =
  fe_id :: string
  fe_version :: string
  fe_active_sanitizers :: "string list"

record fuzz_policy =
  fp_schema_version :: u32
  fp_policy_id :: string
  fp_protocol :: string
  fp_corpus_id :: string
  fp_corpus_digest :: string
  fp_minimum_executions :: u64
  fp_minimum_valid_inputs :: u64
  fp_minimum_malformed_inputs :: u64
  fp_minimum_coverage_basis_points :: u32
  fp_maximum_duration_ms :: u64

record fuzz_report =
  fr_schema_version :: u32
  fr_subject :: subject
  fr_protocol :: string
  fr_engine :: fuzz_engine
  fr_corpus_digest :: string
  fr_started_at :: u64
  fr_completed_at :: u64
  fr_total_executions :: u64
  fr_valid_inputs :: u64
  fr_valid_accepted :: u64
  fr_malformed_inputs :: u64
  fr_malformed_rejected :: u64
  fr_coverage_basis_points :: u32
  fr_crashes :: u64
  fr_hangs :: u64
  fr_sanitizer_failures :: u64
  fr_memory_violations :: u64
  fr_stdout_violations :: u64
  fr_stderr_violations :: u64
  fr_deadline_violations :: u64
  fr_unreaped :: u64
  fr_duration_ms :: u64

definition fuzz_protocol :: string where "fuzz_protocol = ''TSPP/1''"
definition max_fuzz_report_bytes :: nat where "max_fuzz_report_bytes = 2097152"
definition max_fuzz_policy_bytes :: nat where "max_fuzz_policy_bytes = 65536"
definition max_fuzz_corpus_bytes :: nat where "max_fuzz_corpus_bytes = 33554432"
definition max_fuzz_executions :: u64 where "max_fuzz_executions = 1000000000"
definition max_fuzz_duration_ms :: u64 where "max_fuzz_duration_ms = 7 * 24 * 60 * 60 * 1000"
definition max_fuzz_cases :: nat where "max_fuzz_cases = 100000"
definition max_fuzz_repetitions :: u32 where "max_fuzz_repetitions = 1000000"
definition max_fuzz_input_bytes :: nat where "max_fuzz_input_bytes = 16777216"
definition max_fuzz_execution_ms :: u64 where "max_fuzz_execution_ms = 60000"
definition max_fuzz_memory_bytes :: u64 where "max_fuzz_memory_bytes = 17179869184"
definition max_fuzz_stream_bytes :: u64 where "max_fuzz_stream_bytes = 67108864"

definition fuzz_parse_json ::
  "deps \<Rightarrow> (bytes \<Rightarrow> 'a option) \<Rightarrow> bytes \<Rightarrow> nat \<Rightarrow> string \<Rightarrow> string \<Rightarrow> 'a res" where
  "fuzz_parse_json d parse data maximum size_code json_code =
     bindR (reject (data = [] \<or> length data > maximum) size_code) (\<lambda>_.
     bindR (reject (\<not> unambiguous d data) json_code) (\<lambda>_.
       ok_or json_code (parse data)))"

section \<open>Policies and corpora\<close>

definition in_range :: "u64 \<Rightarrow> u64 \<Rightarrow> bool" where
  "in_range maximum x \<longleftrightarrow> 1 \<le> x \<and> x \<le> maximum"

definition validate_fuzz_policy :: "fuzz_policy \<Rightarrow> unit res" where
  "validate_fuzz_policy p =
     reject (fp_schema_version p \<noteq> 1
       \<or> fp_protocol p \<noteq> fuzz_protocol
       \<or> \<not> valid_token (fp_policy_id p) 1 128
       \<or> \<not> valid_token (fp_corpus_id p) 1 128
       \<or> \<not> valid_digest (fp_corpus_digest p)
       \<or> \<not> in_range max_fuzz_executions (fp_minimum_executions p)
       \<or> \<not> in_range max_fuzz_executions (fp_minimum_valid_inputs p)
       \<or> \<not> in_range max_fuzz_executions (fp_minimum_malformed_inputs p)
       \<or> fp_minimum_coverage_basis_points p > 10000
       \<or> \<not> in_range max_fuzz_duration_ms (fp_maximum_duration_ms p)) ''certification.fuzzPolicy''"

definition valid_sanitizer :: "string \<Rightarrow> bool" where
  "valid_sanitizer value \<longleftrightarrow>
     value \<in> set [''address'', ''leak'', ''memory'', ''thread'', ''undefined'']"

definition decode_fuzz_case :: "deps \<Rightarrow> fuzz_case \<Rightarrow> bytes res" where
  "decode_fuzz_case d c =
     bindR (ok_or ''certification.fuzzCorpusCase'' (b64_decode d (fc_input_base64 c))) (\<lambda>input.
     bindR (reject (length input > max_fuzz_input_bytes
         \<or> b64_encode d input \<noteq> fc_input_base64 c) ''certification.fuzzCorpusCase'') (\<lambda>_.
       Inr input))"

fun check_sanitizers :: "string set \<Rightarrow> string option \<Rightarrow> string list \<Rightarrow> unit res" where
  "check_sanitizers seen previous [] = Inr ()"
| "check_sanitizers seen previous (s # ss) =
     bindR (reject (\<not> valid_sanitizer s
         \<or> (case previous of None \<Rightarrow> False | Some value \<Rightarrow> value \<ge> s)
         \<or> s \<in> seen) ''certification.fuzzCorpusSanitizers'') (\<lambda>_.
       check_sanitizers (insert s seen) (Some s) ss)"

fun check_cases ::
  "deps \<Rightarrow> string option \<Rightarrow> u64 \<Rightarrow> u64 \<Rightarrow> fuzz_case list \<Rightarrow> (u64 \<times> u64) res"
where
  "check_cases d previous valid malformed [] = Inr (valid, malformed)"
| "check_cases d previous valid malformed (c # cs) =
     bindR (reject (\<not> valid_token (fc_id c) 1 128
         \<or> (case previous of None \<Rightarrow> False | Some value \<Rightarrow> value \<ge> fc_id c))
       ''certification.fuzzCorpusCase'') (\<lambda>_.
     bindR (decode_fuzz_case d c) (\<lambda>_.
       (case fc_class c of
          ValidCase \<Rightarrow> check_cases d (Some (fc_id c)) (valid + 1) malformed cs
        | MalformedCase \<Rightarrow> check_cases d (Some (fc_id c)) valid (malformed + 1) cs)))"

definition fuzz_overflow :: string where
  "fuzz_overflow = ''certification.fuzzAccounting''"

definition valid_count :: "fuzz_case list \<Rightarrow> nat" where
  "valid_count cs = length (filter (\<lambda>c. fc_class c = ValidCase) cs)"

text \<open>The planned total, valid and malformed executions.\<close>

definition planned_execution_counts :: "fuzz_corpus \<Rightarrow> (u64 \<times> u64 \<times> u64) res" where
  "planned_execution_counts corpus =
    (let repetitions = ucast (fz_repetitions corpus) :: u64;
         valid = word_of_nat (valid_count (fz_cases corpus)) :: u64;
         malformed = word_of_nat (length (fz_cases corpus)) - valid
     in bindR (ok_or fuzz_overflow (checked_mul valid repetitions)) (\<lambda>planned_valid.
        bindR (ok_or fuzz_overflow (checked_mul malformed repetitions)) (\<lambda>planned_malformed.
        bindR (ok_or fuzz_overflow (checked_add planned_valid planned_malformed)) (\<lambda>planned_total.
        bindR (reject (planned_total > max_fuzz_executions)
          ''certification.fuzzCorpusExecutions'') (\<lambda>_.
          Inr (planned_total, planned_valid, planned_malformed))))))"

definition validate_fuzz_corpus :: "deps \<Rightarrow> fuzz_corpus \<Rightarrow> unit res" where
  "validate_fuzz_corpus d corpus =
     bindR (reject (fz_schema_version corpus \<noteq> 1
         \<or> fz_protocol corpus \<noteq> fuzz_protocol
         \<or> \<not> valid_token (fz_corpus_id corpus) 1 128
         \<or> \<not> (1 \<le> fz_repetitions corpus \<and> fz_repetitions corpus \<le> max_fuzz_repetitions)
         \<or> fz_cases corpus = []
         \<or> length (fz_cases corpus) > max_fuzz_cases
         \<or> \<not> in_range max_fuzz_execution_ms (fl_execution_ms (fz_limits corpus))
         \<or> \<not> in_range max_fuzz_memory_bytes (fl_memory_bytes (fz_limits corpus))
         \<or> \<not> in_range max_fuzz_stream_bytes (fl_stdout_bytes (fz_limits corpus))
         \<or> \<not> in_range max_fuzz_stream_bytes (fl_stderr_bytes (fz_limits corpus))
         \<or> fl_required_sanitizers (fz_limits corpus) = []) ''certification.fuzzCorpus'') (\<lambda>_.
     bindR (check_sanitizers {} None (fl_required_sanitizers (fz_limits corpus))) (\<lambda>_.
     bindR (check_cases d None 0 0 (fz_cases corpus)) (\<lambda>(valid_cases, malformed_cases).
     bindR (reject (valid_cases = 0 \<or> malformed_cases = 0) ''certification.fuzzCorpusClass'') (\<lambda>_.
     bindR (planned_execution_counts corpus) (\<lambda>_. Inr ())))))"

definition validate_policy_corpus :: "fuzz_policy \<Rightarrow> fuzz_corpus \<Rightarrow> unit res" where
  "validate_policy_corpus p corpus =
     bindR (planned_execution_counts corpus) (\<lambda>(planned_total, planned_valid, planned_malformed).
       reject (fp_corpus_id p \<noteq> fz_corpus_id corpus
         \<or> fp_minimum_executions p > planned_total
         \<or> fp_minimum_valid_inputs p > planned_valid
         \<or> fp_minimum_malformed_inputs p > planned_malformed) ''certification.fuzzPolicyCorpus'')"

definition validate_fuzz_plan :: "deps \<Rightarrow> fuzz_policy \<Rightarrow> fuzz_corpus \<Rightarrow> bytes \<Rightarrow> unit res" where
  "validate_fuzz_plan d p corpus corpus_bytes =
     bindR (validate_fuzz_policy p) (\<lambda>_.
     bindR (validate_fuzz_corpus d corpus) (\<lambda>_.
     bindR (reject (fp_corpus_digest p \<noteq> sha256_digest d corpus_bytes)
       ''certification.fuzzCorpus'') (\<lambda>_.
       validate_policy_corpus p corpus)))"

definition sanitizers_bad :: "string list \<Rightarrow> bool" where
  "sanitizers_bad ss \<longleftrightarrow> ss = [] \<or> list_ex (\<lambda>s. \<not> valid_sanitizer s) ss \<or> \<not> ascending ss"

definition validate_fuzz_engine :: "fuzz_engine \<Rightarrow> fuzz_corpus \<Rightarrow> unit res" where
  "validate_fuzz_engine e corpus =
     reject (\<not> valid_token (fe_id e) 1 128
       \<or> \<not> valid_token (fe_version e) 1 128
       \<or> sanitizers_bad (fe_active_sanitizers e)
       \<or> \<not> list_all (\<lambda>s. binary_search (fe_active_sanitizers e) s)
             (fl_required_sanitizers (fz_limits corpus))) ''certification.fuzzEngine''"

section \<open>Reports\<close>

definition safety_counts :: "fuzz_report \<Rightarrow> u64 list" where
  "safety_counts r = [fr_crashes r, fr_hangs r, fr_sanitizer_failures r, fr_memory_violations r,
     fr_stdout_violations r, fr_stderr_violations r, fr_deadline_violations r, fr_unreaped r]"

fun checked_sum :: "u64 \<Rightarrow> u64 list \<Rightarrow> u64 option" where
  "checked_sum acc [] = Some acc"
| "checked_sum acc (x # xs) =
     (case checked_add acc x of None \<Rightarrow> None | Some acc' \<Rightarrow> checked_sum acc' xs)"

definition safety_failure_count :: "fuzz_report \<Rightarrow> u64 res" where
  "safety_failure_count r = ok_or fuzz_overflow (checked_sum 0 (safety_counts r))"

definition validate_fuzz_report :: "fuzz_report \<Rightarrow> subject \<Rightarrow> u64 \<Rightarrow> u64 \<Rightarrow> unit res" where
  "validate_fuzz_report r sj started completed =
     bindR (reject (fr_schema_version r \<noteq> 1
         \<or> fr_subject r \<noteq> sj
         \<or> sj_api_version (fr_subject r) \<noteq> 1
         \<or> fr_protocol r \<noteq> fuzz_protocol
         \<or> \<not> valid_token (fe_id (fr_engine r)) 1 128
         \<or> \<not> valid_token (fe_version (fr_engine r)) 1 128
         \<or> \<not> valid_digest (fr_corpus_digest r)) ''certification.fuzzReport'') (\<lambda>_.
     bindR (reject (sanitizers_bad (fe_active_sanitizers (fr_engine r)))
       ''certification.fuzzReportSanitizers'') (\<lambda>_.
     bindR (reject (fr_started_at r = 0
         \<or> fr_started_at r \<noteq> started
         \<or> fr_completed_at r \<noteq> completed
         \<or> fr_completed_at r < fr_started_at r
         \<or> fr_duration_ms r > max_fuzz_duration_ms
         \<or> fr_duration_ms r
             > saturating_add (saturating_mul
                 (saturating_sub (fr_completed_at r) (fr_started_at r)) 1000) 999)
       ''certification.fuzzTiming'') (\<lambda>_.
     bindR (ok_or fuzz_overflow (checked_add (fr_valid_inputs r) (fr_malformed_inputs r)))
       (\<lambda>classified_inputs.
     bindR (reject (fr_total_executions r > max_fuzz_executions
         \<or> fr_total_executions r \<noteq> classified_inputs
         \<or> fr_valid_accepted r > fr_valid_inputs r
         \<or> fr_malformed_rejected r > fr_malformed_inputs r
         \<or> fr_coverage_basis_points r > 10000) ''certification.fuzzAccounting'') (\<lambda>_.
       reject (list_ex (\<lambda>count. count > fr_total_executions r) (safety_counts r))
         ''certification.fuzzAccounting'')))))"

definition validate_report_corpus :: "fuzz_report \<Rightarrow> fuzz_corpus \<Rightarrow> unit res" where
  "validate_report_corpus r corpus =
     bindR (validate_fuzz_engine (fr_engine r) corpus) (\<lambda>_.
     bindR (planned_execution_counts corpus) (\<lambda>(planned_total, planned_valid, planned_malformed).
       reject (fr_total_executions r > planned_total
         \<or> fr_valid_inputs r > planned_valid
         \<or> fr_malformed_inputs r > planned_malformed) ''certification.fuzzReportCorpus''))"

section \<open>The stage\<close>

record fuzz_codec =
  parse_fuzz_report :: "bytes \<Rightarrow> fuzz_report option"
  parse_fuzz_policy :: "bytes \<Rightarrow> fuzz_policy option"
  parse_fuzz_corpus :: "bytes \<Rightarrow> fuzz_corpus option"

record fuzz_evidence =
  fv_report_bytes :: bytes
  fv_policy_bytes :: bytes
  fv_executable_bytes :: bytes
  fv_corpus_bytes :: bytes

definition parse_certification_fuzz_policy :: "deps \<Rightarrow> fuzz_codec \<Rightarrow> bytes \<Rightarrow> fuzz_policy res" where
  "parse_certification_fuzz_policy d c data =
     bindR (fuzz_parse_json d (parse_fuzz_policy c) data max_fuzz_policy_bytes
       ''certification.fuzzPolicySize'' ''certification.fuzzPolicyJson'') (\<lambda>p.
     bindR (validate_fuzz_policy p) (\<lambda>_. Inr p))"

definition parse_certification_fuzz_corpus :: "deps \<Rightarrow> fuzz_codec \<Rightarrow> bytes \<Rightarrow> fuzz_corpus res" where
  "parse_certification_fuzz_corpus d c data =
     bindR (fuzz_parse_json d (parse_fuzz_corpus c) data max_fuzz_corpus_bytes
       ''certification.fuzzCorpusSize'' ''certification.fuzzCorpusJson'') (\<lambda>corpus.
     bindR (validate_fuzz_corpus d corpus) (\<lambda>_. Inr corpus))"

definition fuzz_meets_policy :: "fuzz_report \<Rightarrow> fuzz_policy \<Rightarrow> u64 \<Rightarrow> bool" where
  "fuzz_meets_policy r p safety_failures \<longleftrightarrow>
     fr_total_executions r \<ge> fp_minimum_executions p
     \<and> fr_valid_inputs r \<ge> fp_minimum_valid_inputs p
     \<and> fr_malformed_inputs r \<ge> fp_minimum_malformed_inputs p
     \<and> fr_coverage_basis_points r \<ge> fp_minimum_coverage_basis_points p
     \<and> fr_duration_ms r \<le> fp_maximum_duration_ms p
     \<and> fr_valid_accepted r = fr_valid_inputs r
     \<and> fr_malformed_rejected r = fr_malformed_inputs r
     \<and> safety_failures = 0"

definition fuzz_detail :: "fuzz_report \<Rightarrow> fuzz_policy \<Rightarrow> u64 \<Rightarrow> string" where
  "fuzz_detail r p safety_failures =
     ''protocol fuzz '' @ fp_corpus_id p @ '': '' @ dec (unat (fr_total_executions r))
     @ '' executions, '' @ dec (unat (fr_valid_accepted r)) @ ''/''
     @ dec (unat (fr_valid_inputs r)) @ '' valid accepted, ''
     @ dec (unat (fr_malformed_rejected r)) @ ''/'' @ dec (unat (fr_malformed_inputs r))
     @ '' malformed rejected, '' @ dec (unat (fr_coverage_basis_points r) div 100) @ ''.''
     @ dec2 (unat (fr_coverage_basis_points r) mod 100) @ ''% coverage, ''
     @ dec (unat (fr_duration_ms r)) @ '' ms, '' @ dec (unat safety_failures)
     @ '' safety failures''"

definition fuzz_stage ::
  "deps \<Rightarrow> fuzz_evidence \<Rightarrow> fuzz_report \<Rightarrow> fuzz_policy \<Rightarrow> u64 \<Rightarrow> subject \<Rightarrow> producer \<Rightarrow> u64 \<Rightarrow> u64
     \<Rightarrow> stage" where
  "fuzz_stage d ev r p failures sj prd started completed =
     \<lparr>st_schema_version = 1, st_requirement = ProtocolFuzzing, st_subject = sj,
      st_rule = certification_rule ProtocolFuzzing, st_producer = prd,
      st_started_at = started, st_completed_at = completed, st_ok = fuzz_meets_policy r p failures,
      st_inputs = [\<lparr>ref_name = ''plugin-executable'', ref_digest = sj_artifact_digest sj\<rparr>,
        \<lparr>ref_name = ''protocol-corpus'', ref_digest = sha256_digest d (fv_corpus_bytes ev)\<rparr>,
        \<lparr>ref_name = ''fuzz-policy'', ref_digest = sha256_digest d (fv_policy_bytes ev)\<rparr>],
      st_outputs = [\<lparr>ref_name = ''fuzz-report'', ref_digest = sha256_digest d (fv_report_bytes ev)\<rparr>],
      st_detail = fuzz_detail r p failures,
      st_remediation =
        (if fuzz_meets_policy r p failures
         then ''rerun the exact protocol corpus and policy for every executable release''
         else ''meet every execution, input-class, coverage, and duration threshold with complete acceptance and rejection and zero process or protocol safety failures'')\<rparr>"

definition evaluate_protocol_fuzzing ::
  "deps \<Rightarrow> fuzz_codec \<Rightarrow> fuzz_evidence \<Rightarrow> subject \<Rightarrow> producer \<Rightarrow> u64 \<Rightarrow> u64 \<Rightarrow> stage res" where
  "evaluate_protocol_fuzzing d c ev sj prd started completed =
     bindR (fuzz_parse_json d (parse_fuzz_report c) (fv_report_bytes ev) max_fuzz_report_bytes
       ''certification.fuzzReportSize'' ''certification.fuzzReportJson'') (\<lambda>r.
     bindR (parse_certification_fuzz_policy d c (fv_policy_bytes ev)) (\<lambda>p.
     bindR (parse_certification_fuzz_corpus d c (fv_corpus_bytes ev)) (\<lambda>corpus.
     bindR (validate_fuzz_plan d p corpus (fv_corpus_bytes ev)) (\<lambda>_.
     bindR (reject (fv_executable_bytes ev = []
         \<or> sha256_digest d (fv_executable_bytes ev) \<noteq> sj_artifact_digest sj)
       ''certification.fuzzArtifact'') (\<lambda>_.
     bindR (reject (fr_corpus_digest r \<noteq> sha256_digest d (fv_corpus_bytes ev))
       ''certification.fuzzCorpus'') (\<lambda>_.
     bindR (validate_fuzz_report r sj started completed) (\<lambda>_.
     bindR (validate_report_corpus r corpus) (\<lambda>_.
     bindR (safety_failure_count r) (\<lambda>failures.
     let s = fuzz_stage d ev r p failures sj prd started completed
     in bindR (validate_stage d s sj) (\<lambda>_. Inr s))))))))))"

section \<open>Execution plans over exact naturals\<close>

definition plan_valid :: "fuzz_corpus \<Rightarrow> nat" where
  "plan_valid corpus = valid_count (fz_cases corpus) * unat (fz_repetitions corpus)"

definition plan_malformed :: "fuzz_corpus \<Rightarrow> nat" where
  "plan_malformed corpus =
     (length (fz_cases corpus) - valid_count (fz_cases corpus)) * unat (fz_repetitions corpus)"

definition corpus_small :: "fuzz_corpus \<Rightarrow> bool" where
  "corpus_small corpus \<longleftrightarrow>
     length (fz_cases corpus) \<le> max_fuzz_cases \<and> fz_repetitions corpus \<le> max_fuzz_repetitions"

lemma valid_count_le: "valid_count cs \<le> length cs"
  by (simp add: valid_count_def)

lemma plan_bounds:
  assumes "corpus_small corpus"
  shows "plan_valid corpus + plan_malformed corpus
      = length (fz_cases corpus) * unat (fz_repetitions corpus)"
    and "length (fz_cases corpus) * unat (fz_repetitions corpus) \<le> 100000 * 1000000"
proof -
  show "plan_valid corpus + plan_malformed corpus
      = length (fz_cases corpus) * unat (fz_repetitions corpus)"
    using valid_count_le [of "fz_cases corpus"]
    by (simp add: plan_valid_def plan_malformed_def flip: add_mult_distrib)
  have "length (fz_cases corpus) \<le> 100000" "unat (fz_repetitions corpus) \<le> 1000000"
    using assms by (simp_all add: corpus_small_def max_fuzz_cases_def max_fuzz_repetitions_def
        word_le_nat_alt)
  then show "length (fz_cases corpus) * unat (fz_repetitions corpus) \<le> 100000 * 1000000"
    by (rule mult_le_mono)
qed

text \<open>No step of the plan overflows; it is refused only when it is over a billion executions.\<close>

lemma planned_execution_counts_exact:
  assumes small: "corpus_small corpus"
  shows "planned_execution_counts corpus =
    (if plan_valid corpus + plan_malformed corpus > 1000000000
     then Inl (VErr ''certification.fuzzCorpusExecutions'')
     else Inr (word_of_nat (plan_valid corpus + plan_malformed corpus),
               word_of_nat (plan_valid corpus), word_of_nat (plan_malformed corpus)))"
proof -
  let ?r = "ucast (fz_repetitions corpus) :: u64"
  let ?v = "word_of_nat (valid_count (fz_cases corpus)) :: u64"
  let ?n = "word_of_nat (length (fz_cases corpus)) :: u64"
  note b = plan_bounds [OF small]
  have n: "length (fz_cases corpus) \<le> 100000"
    using small by (simp add: corpus_small_def max_fuzz_cases_def)
  have v: "unat ?v = valid_count (fz_cases corpus)"
    using n valid_count_le [of "fz_cases corpus"] by (intro unat_u64_of_nat) simp
  have un: "unat ?n = length (fz_cases corpus)" using n by (intro unat_u64_of_nat) simp
  have le: "?v \<le> ?n" using v un valid_count_le [of "fz_cases corpus"] by (simp add: word_le_nat_alt)
  have m: "unat (?n - ?v) = length (fz_cases corpus) - valid_count (fz_cases corpus)"
    using le v un by (simp add: unat_sub)
  have pv: "unat ?v * unat ?r = plan_valid corpus" "unat (?n - ?v) * unat ?r = plan_malformed corpus"
    by (simp_all add: v m unat_ucast_up plan_valid_def plan_malformed_def)
  have l: "plan_valid corpus + plan_malformed corpus < 2 ^ 64" using b by simp
  then have w: "?v * ?r = word_of_nat (plan_valid corpus)"
    "(?n - ?v) * ?r = word_of_nat (plan_malformed corpus)"
    using pv by (simp_all add: word_unat_eq_iff unat_mult_no_wrap unat_u64_of_nat)
  have mul: "checked_mul ?v ?r = Some (word_of_nat (plan_valid corpus))"
    "checked_mul (?n - ?v) ?r = Some (word_of_nat (plan_malformed corpus))"
    using l pv w by (simp_all add: checked_mul_Some)
  have add: "checked_add (word_of_nat (plan_valid corpus)) (word_of_nat (plan_malformed corpus))
      = Some (word_of_nat (plan_valid corpus + plan_malformed corpus) :: u64)"
    using l by (simp add: checked_add_Some unat_u64_of_nat)
  have gt: "(word_of_nat (plan_valid corpus + plan_malformed corpus) :: u64) > max_fuzz_executions
      \<longleftrightarrow> plan_valid corpus + plan_malformed corpus > 1000000000"
    using unat_u64_of_nat [OF l]
    by (simp only: word_less_nat_alt) (simp add: max_fuzz_executions_def)
  show ?thesis
    by (simp only: planned_execution_counts_def Let_def mul ok_or_simps bindR_simps add gt reject_def)
       simp
qed

lemma validate_fuzz_corpus_small: "validate_fuzz_corpus d corpus = Inr () \<Longrightarrow> corpus_small corpus"
  by (auto simp: validate_fuzz_corpus_def corpus_small_def res_simps)

lemma planned_execution_counts_Inr:
  assumes "corpus_small corpus" and "planned_execution_counts corpus = Inr (t, v, m)"
  shows "unat t = plan_valid corpus + plan_malformed corpus \<and> unat v = plan_valid corpus
    \<and> unat m = plan_malformed corpus \<and> unat t \<le> 1000000000"
  using assms
  by (auto simp: planned_execution_counts_exact unat_u64_of_nat simp del: of_nat_add
      split: if_splits)

section \<open>Accounting of a report\<close>

lemma checked_sum_Some:
  "checked_sum acc xs = Some s \<longleftrightarrow>
     unat acc + (\<Sum>x\<leftarrow>xs. unat x) < 2 ^ 64 \<and> unat s = unat acc + (\<Sum>x\<leftarrow>xs. unat x)"
proof (induction xs arbitrary: acc)
  case Nil
  then show ?case using unat_u64_less [of acc] by (auto simp: word_unat_eq_iff)
next
  case (Cons x xs)
  show ?case
  proof (cases "checked_add acc x")
    case None
    then show ?thesis by (auto simp: checked_add_def split: if_splits)
  next
    case (Some acc')
    with Cons show ?thesis using checked_add_unat [OF Some] by (simp add: add.assoc)
  qed
qed

text \<open>
  In a validated report every safety counter is at most the number of executions, so their sum
  cannot overflow and the error branch of \<open>safety_failure_count\<close> is unreachable.
\<close>

lemma sum_list_le_mult: "(\<And>x. x \<in> set xs \<Longrightarrow> f x \<le> (n :: nat)) \<Longrightarrow> (\<Sum>x\<leftarrow>xs. f x) \<le> length xs * n"
  by (induction xs) (auto intro: add_mono)

definition safety_total :: "fuzz_report \<Rightarrow> nat" where
  "safety_total r = (\<Sum>x\<leftarrow>safety_counts r. unat x)"

lemma validate_fuzz_report_Inr:
  assumes "validate_fuzz_report r sj started completed = Inr ()"
  shows "fr_subject r = sj \<and> fr_started_at r = started \<and> fr_completed_at r = completed
    \<and> unat (fr_total_executions r) = unat (fr_valid_inputs r) + unat (fr_malformed_inputs r)
    \<and> unat (fr_total_executions r) \<le> 1000000000
    \<and> fr_valid_accepted r \<le> fr_valid_inputs r \<and> fr_malformed_rejected r \<le> fr_malformed_inputs r
    \<and> fr_coverage_basis_points r \<le> 10000
    \<and> (\<forall>x\<in>set (safety_counts r). x \<le> fr_total_executions r)"
  using assms
  by (auto simp: validate_fuzz_report_def res_simps list_ex_iff not_less word_le_nat_alt
      max_fuzz_executions_def dest: checked_add_unat)

lemma safety_failure_count_total:
  assumes "validate_fuzz_report r sj started completed = Inr ()"
  shows "\<exists>n. safety_failure_count r = Inr n \<and> unat n = safety_total r"
proof -
  note v = validate_fuzz_report_Inr [OF assms]
  have "safety_total r \<le> length (safety_counts r) * 1000000000"
    unfolding safety_total_def using v
    by (intro sum_list_le_mult) (auto simp: word_le_nat_alt intro: order_trans)
  then have small: "safety_total r < 2 ^ 64" by (simp add: safety_counts_def)
  then have "checked_sum 0 (safety_counts r) = Some (word_of_nat (safety_total r))"
    using unat_u64_of_nat [OF small] by (subst checked_sum_Some) (simp add: safety_total_def)
  then show ?thesis
    using unat_u64_of_nat [OF small] by (auto simp: safety_failure_count_def)
qed

text \<open>The verdict over exact naturals: thresholds, classification, and no safety event of any kind.\<close>

definition fuzz_thresholds :: "fuzz_report \<Rightarrow> fuzz_policy \<Rightarrow> bool" where
  "fuzz_thresholds r p \<longleftrightarrow>
     unat (fp_minimum_executions p) \<le> unat (fr_total_executions r)
     \<and> unat (fp_minimum_valid_inputs p) \<le> unat (fr_valid_inputs r)
     \<and> unat (fp_minimum_malformed_inputs p) \<le> unat (fr_malformed_inputs r)
     \<and> unat (fp_minimum_coverage_basis_points p) \<le> unat (fr_coverage_basis_points r)
     \<and> unat (fr_duration_ms r) \<le> unat (fp_maximum_duration_ms p)
     \<and> fr_valid_accepted r = fr_valid_inputs r \<and> fr_malformed_rejected r = fr_malformed_inputs r
     \<and> (\<forall>x\<in>set (safety_counts r). x = 0)"

lemma fuzz_meets_policy_iff:
  assumes "safety_failure_count r = Inr n"
  shows "fuzz_meets_policy r p n \<longleftrightarrow> fuzz_thresholds r p"
proof -
  have "unat n = (\<Sum>x\<leftarrow>safety_counts r. unat x)"
    using assms by (simp add: safety_failure_count_def res_simps checked_sum_Some)
  then have "n = 0 \<longleftrightarrow> (\<forall>x\<in>set (safety_counts r). x = 0)"
    by (auto simp: safety_counts_def simp flip: unat_eq_zero)
  then show ?thesis
    by (simp add: fuzz_meets_policy_def fuzz_thresholds_def word_le_nat_alt)
qed

section \<open>The fuzzing evaluator as a stage producer\<close>

lemma fuzz_detail_text:
  assumes "validate_fuzz_policy p = Inr ()"
  shows "valid_text (fuzz_detail r p n) 1 1024"
proof (rule valid_text_printable)
  have tok: "valid_token (fp_corpus_id p) 1 128"
    using assms by (auto simp: validate_fuzz_policy_def res_simps)
  show "printable (fuzz_detail r p n)"
    using valid_token_printable [OF tok] by (simp add: fuzz_detail_def)
  have "length (dec (unat (fr_coverage_basis_points r) div 100)) \<le> 10"
  proof (rule length_dec_le)
    show "unat (fr_coverage_basis_points r) div 100 < 10 ^ 10"
      using unat_u32_less [of "fr_coverage_basis_points r"] by (simp add: div_less_iff_less_mult)
  qed simp
  moreover have "length (dec2 (unat (fr_coverage_basis_points r) mod 100)) = 2"
    by (rule length_dec2) simp
  ultimately show "length (fuzz_detail r p n) \<le> 1024"
    using valid_token_length [OF tok] length_dec_u64 [of "fr_total_executions r"]
      length_dec_u64 [of "fr_valid_accepted r"] length_dec_u64 [of "fr_valid_inputs r"]
      length_dec_u64 [of "fr_malformed_rejected r"] length_dec_u64 [of "fr_malformed_inputs r"]
      length_dec_u64 [of "fr_duration_ms r"] length_dec_u64 [of n]
    by (simp add: fuzz_detail_def)
qed (simp add: fuzz_detail_def)

lemma fuzz_names:
  "list_all (\<lambda>x. valid_token x 1 128)
     [''plugin-executable'', ''protocol-corpus'', ''fuzz-policy'', ''fuzz-report'']"
  by (simp add: valid_token_def token_char_def ascii_defs)

lemma fuzz_stage_contract:
  assumes sha: "sha256_length d" and sj: "subject_contract d sj"
    and p: "validate_fuzz_policy p = Inr ()" and run: "run_context_ok prd started completed"
  shows "stage_contract d (fuzz_stage d ev r p n sj prd started completed) sj"
proof -
  let ?s = "fuzz_stage d ev r p n sj prd started completed"
  have dg: "valid_digest (sj_artifact_digest sj)"
    using sj by (auto simp: subject_contract_def validate_subject_def res_simps)
  have "validate_references (st_inputs ?s) = Inr ()" "validate_references (st_outputs ?s) = Inr ()"
    using dg sha fuzz_names by (auto simp: fuzz_stage_def intro!: validate_references_map)
  moreover have "valid_text (st_remediation ?s) 1 1024"
    by (auto simp: fuzz_stage_def intro!: valid_text_printable)
  ultimately show ?thesis
    using fuzz_detail_text [OF p, of r n] run sj
    by (auto simp: stage_contract_def fuzz_stage_def run_context_ok_def subject_bound_def)
qed

text \<open>Well-formed evidence, and the stage it always yields.\<close>

definition fuzz_evidence_ok ::
  "deps \<Rightarrow> fuzz_codec \<Rightarrow> fuzz_evidence \<Rightarrow> subject \<Rightarrow> u64 \<Rightarrow> u64 \<Rightarrow> fuzz_report \<Rightarrow> fuzz_policy
     \<Rightarrow> fuzz_corpus \<Rightarrow> bool" where
  "fuzz_evidence_ok d c ev sj started completed r p corpus \<longleftrightarrow>
     fuzz_parse_json d (parse_fuzz_report c) (fv_report_bytes ev) max_fuzz_report_bytes
       ''certification.fuzzReportSize'' ''certification.fuzzReportJson'' = Inr r
     \<and> parse_certification_fuzz_policy d c (fv_policy_bytes ev) = Inr p
     \<and> parse_certification_fuzz_corpus d c (fv_corpus_bytes ev) = Inr corpus
     \<and> validate_fuzz_plan d p corpus (fv_corpus_bytes ev) = Inr ()
     \<and> fv_executable_bytes ev \<noteq> []
     \<and> sha256_digest d (fv_executable_bytes ev) = sj_artifact_digest sj
     \<and> fr_corpus_digest r = sha256_digest d (fv_corpus_bytes ev)
     \<and> validate_fuzz_report r sj started completed = Inr ()
     \<and> validate_report_corpus r corpus = Inr ()"

lemma fuzz_sound:
  assumes "evaluate_protocol_fuzzing d c ev sj prd started completed = Inr s"
  shows "\<exists>r p corpus. fuzz_evidence_ok d c ev sj started completed r p corpus
    \<and> stage_contract d s sj \<and> st_requirement s = ProtocolFuzzing
    \<and> (st_ok s \<longleftrightarrow> fuzz_thresholds r p)"
proof -
  from assms obtain r p corpus n where
    e: "fuzz_evidence_ok d c ev sj started completed r p corpus"
    and n: "safety_failure_count r = Inr n"
    and s: "s = fuzz_stage d ev r p n sj prd started completed" "stage_contract d s sj"
    by (auto simp: evaluate_protocol_fuzzing_def fuzz_evidence_ok_def Let_def bindR_Inr_iff
        reject_Inr_iff validate_stage_Inr)
  with fuzz_meets_policy_iff [OF n] show ?thesis
    by (intro exI [of _ r] exI [of _ p] exI [of _ corpus]) (simp add: fuzz_stage_def)
qed

lemma fuzz_complete:
  assumes "sha256_length d" and "subject_contract d sj" and "run_context_ok prd started completed"
    and e: "fuzz_evidence_ok d c ev sj started completed r p corpus"
  shows "\<exists>s. evaluate_protocol_fuzzing d c ev sj prd started completed = Inr s
    \<and> st_ok s = fuzz_thresholds r p"
proof -
  have v: "validate_fuzz_report r sj started completed = Inr ()"
    and p: "validate_fuzz_policy p = Inr ()"
    using e by (auto simp: fuzz_evidence_ok_def validate_fuzz_plan_def res_simps)
  from safety_failure_count_total [OF v] obtain n where n: "safety_failure_count r = Inr n" by blast
  let ?s = "fuzz_stage d ev r p n sj prd started completed"
  have "validate_stage d ?s sj = Inr ()"
    unfolding validate_stage_Inr using assms p by (intro fuzz_stage_contract)
  moreover have "st_ok ?s = fuzz_thresholds r p"
    using fuzz_meets_policy_iff [OF n] by (simp add: fuzz_stage_def)
  ultimately show ?thesis
    using e n by (simp add: evaluate_protocol_fuzzing_def fuzz_evidence_ok_def Let_def)
qed

lemma check_sanitizers_no_panic: "\<not> panics (check_sanitizers seen prev ss)"
  by (induction ss arbitrary: seen prev) (auto simp: panics_bindR)

lemma check_cases_no_panic: "\<not> panics (check_cases d prev v m cs)"
  by (induction cs arbitrary: prev v m)
     (auto simp: panics_bindR decode_fuzz_case_def split: case_class.splits)

lemma planned_no_panic: "\<not> panics (planned_execution_counts corpus)"
  by (auto simp: planned_execution_counts_def Let_def panics_bindR)

lemma validate_fuzz_corpus_no_panic: "\<not> panics (validate_fuzz_corpus d corpus)"
  by (auto simp: validate_fuzz_corpus_def panics_bindR check_sanitizers_no_panic
      check_cases_no_panic planned_no_panic split: prod.splits)

lemma fuzz_no_panic: "\<not> panics (evaluate_protocol_fuzzing d c ev sj prd started completed)"
proof -
  have "\<not> panics (fuzz_parse_json d parse data m sc jc)" for parse :: "bytes \<Rightarrow> 'a option" and data m sc jc
    by (simp add: fuzz_parse_json_def panics_bindR)
  moreover have "\<not> panics (fuzz_parse_json d parse data m sc jc)"
    for parse :: "bytes \<Rightarrow> fuzz_report option" and data m sc jc
    by (simp add: fuzz_parse_json_def panics_bindR)
  moreover have "\<not> panics (parse_certification_fuzz_policy d c data)" for data
    by (simp add: parse_certification_fuzz_policy_def fuzz_parse_json_def panics_bindR
        validate_fuzz_policy_def)
  moreover have "\<not> panics (parse_certification_fuzz_corpus d c data)" for data
    by (simp add: parse_certification_fuzz_corpus_def fuzz_parse_json_def panics_bindR
        validate_fuzz_corpus_no_panic)
  moreover have "\<not> panics (validate_fuzz_plan d p corpus data)" for p corpus data
    by (simp add: validate_fuzz_plan_def panics_bindR validate_fuzz_policy_def
        validate_fuzz_corpus_no_panic validate_policy_corpus_def planned_no_panic split: prod.splits)
  moreover have "\<not> panics (validate_report_corpus r corpus)" for r corpus
    by (simp add: validate_report_corpus_def panics_bindR validate_fuzz_engine_def planned_no_panic
        split: prod.splits)
  moreover have "\<not> panics (validate_fuzz_report r sj started completed)" for r
    by (simp add: validate_fuzz_report_def panics_bindR)
  ultimately show ?thesis
    by (auto simp: evaluate_protocol_fuzzing_def panics_bindR Let_def validate_stage_no_panic
        safety_failure_count_def)
qed

definition fuzz_producer ::
  "deps \<Rightarrow> fuzz_codec \<Rightarrow> fuzz_evidence \<times> producer \<times> u64 \<times> u64 \<Rightarrow> subject \<Rightarrow> stage res" where
  "fuzz_producer d c = (\<lambda>(ev, prd, started, completed) sj.
     evaluate_protocol_fuzzing d c ev sj prd started completed)"

interpretation fuzzing: stage_producer d ProtocolFuzzing "fuzz_producer d c" for d c
proof unfold_locales
  fix i :: "fuzz_evidence \<times> producer \<times> u64 \<times> u64" and sj s
  assume "fuzz_producer d c i sj = Inr s"
  then show "st_requirement s = ProtocolFuzzing" and "stage_contract d s sj"
    by (auto simp: fuzz_producer_def dest!: fuzz_sound split: prod.splits)
next
  fix i :: "fuzz_evidence \<times> producer \<times> u64 \<times> u64" and sj
  show "\<not> panics (fuzz_producer d c i sj)"
    by (simp add: fuzz_producer_def fuzz_no_panic split: prod.splits)
qed

end
