(* ===== verification/Effects.thy ===== *)
theory Effects
  imports Prelude
begin

text \<open>
  Operations on the outside world: a call into an executor, a clock or a driver takes the state
  of the world and returns its answer with the new state, and a computation that can fail threads
  that state through its steps. A failed step ends the computation (\<^verbatim>\<open>?\<close> in the source) but keeps
  the world it reached.
\<close>

type_synonym ('e, 'w, 'a) eff = "'w \<Rightarrow> ('e + 'a) \<times> 'w"
type_synonym ('w, 'a) io = "(validation_error, 'w, 'a) eff"

definition returnW :: "'a \<Rightarrow> ('e, 'w, 'a) eff" where
  "returnW x w = (Inr x, w)"

definition liftW :: "'e + 'a \<Rightarrow> ('e, 'w, 'a) eff" where
  "liftW r w = (r, w)"

definition bindW :: "('e, 'w, 'a) eff \<Rightarrow> ('a \<Rightarrow> ('e, 'w, 'b) eff) \<Rightarrow> ('e, 'w, 'b) eff" where
  "bindW m f w = (case m w of (Inl e, w') \<Rightarrow> (Inl e, w') | (Inr x, w') \<Rightarrow> f x w')"

text \<open>An infallible call, and a fallible one whose error is mapped to an error of the caller.\<close>

definition readW :: "('w \<Rightarrow> 'a \<times> 'w) \<Rightarrow> ('e, 'w, 'a) eff" where
  "readW op w = (case op w of (x, w') \<Rightarrow> (Inr x, w'))"

definition callE :: "'e \<Rightarrow> ('w \<Rightarrow> 'a option \<times> 'w) \<Rightarrow> ('e, 'w, 'a) eff" where
  "callE e op w = (case op w of (None, w') \<Rightarrow> (Inl e, w') | (Some x, w') \<Rightarrow> (Inr x, w'))"

abbreviation callW :: "string \<Rightarrow> ('w \<Rightarrow> 'a option \<times> 'w) \<Rightarrow> ('w, 'a) io" where
  "callW code \<equiv> callE (VErr code)"

text \<open>A guard with an error of its own.\<close>

definition ensure :: "bool \<Rightarrow> 'e \<Rightarrow> ('e, 'w, unit) eff" where
  "ensure holds e = liftW (if holds then Inr () else Inl e)"

named_theorems io_simps \<open>successful runs of computations on the world\<close>

lemma returnW_Inr [io_simps]: "returnW x w = (Inr y, w') \<longleftrightarrow> y = x \<and> w' = w"
  by (auto simp: returnW_def)

lemma liftW_Inr [io_simps]: "liftW r w = (Inr y, w') \<longleftrightarrow> r = Inr y \<and> w' = w"
  by (auto simp: liftW_def)

lemma bindW_Inr [io_simps]:
  "bindW m f w = (Inr y, w') \<longleftrightarrow> (\<exists>x v. m w = (Inr x, v) \<and> f x v = (Inr y, w'))"
  by (auto simp: bindW_def split: prod.splits sum.splits)

lemma bindW_Inl:
  "bindW m f w = (Inl e, w') \<longleftrightarrow>
     m w = (Inl e, w') \<or> (\<exists>x v. m w = (Inr x, v) \<and> f x v = (Inl e, w'))"
  by (auto simp: bindW_def split: prod.splits sum.splits)

lemma readW_Inr [io_simps]: "readW op w = (Inr y, w') \<longleftrightarrow> op w = (y, w')"
  by (auto simp: readW_def split: prod.splits)

lemma callE_Inr [io_simps]: "callE e op w = (Inr y, w') \<longleftrightarrow> op w = (Some y, w')"
  by (auto simp: callE_def split: prod.splits option.splits)

lemma ensure_Inr [io_simps]: "ensure b e w = (Inr y, w') \<longleftrightarrow> b \<and> w' = w"
  by (auto simp: ensure_def liftW_def)

lemma returnW_Inl [simp]: "returnW x w \<noteq> (Inl e, w')"
  by (simp add: returnW_def)

lemma readW_Inl [simp]: "readW op w \<noteq> (Inl e, w')"
  by (simp add: readW_def split: prod.splits)

lemma liftW_Inl: "liftW r w = (Inl e, w') \<longleftrightarrow> r = Inl e \<and> w' = w"
  by (auto simp: liftW_def)

lemma callE_Inl: "callE e op w = (Inl e', w') \<longleftrightarrow> op w = (None, w') \<and> e' = e"
  by (auto simp: callE_def split: prod.splits option.splits)

lemma bindW_eq:
  "m w = (Inr x, v) \<Longrightarrow> bindW m f w = f x v"
  "m w = (Inl e, v) \<Longrightarrow> bindW m f w = (Inl e, v)"
  by (simp_all add: bindW_def)

text \<open>
  The calls a computation makes, observed from outside: \<open>logged\<close> turns an operation with a
  request into one that also appends the request and the answer to a log kept beside the world.
\<close>

definition logged ::
  "('q \<Rightarrow> 'w \<Rightarrow> 'a option \<times> 'w) \<Rightarrow> 'q \<Rightarrow> 'w \<times> ('q \<times> 'a) list \<Rightarrow> 'a option \<times> ('w \<times> ('q \<times> 'a) list)"
where
  "logged op q = (\<lambda>(w, log). case op q w of
     (None, w') \<Rightarrow> (None, (w', log))
   | (Some x, w') \<Rightarrow> (Some x, (w', log @ [(q, x)])))"

definition beside :: "('w \<Rightarrow> 'a \<times> 'w) \<Rightarrow> 'w \<times> 'l \<Rightarrow> 'a \<times> ('w \<times> 'l)" where
  "beside op = (\<lambda>(w, log). case op w of (x, w') \<Rightarrow> (x, (w', log)))"

lemma beside_eq [simp]: "beside op (w, l) = (fst (op w), (snd (op w), l))"
  by (simp add: beside_def split: prod.splits)

lemma logged_Some:
  "logged op q (w, l) = (Some x, (w', l')) \<longleftrightarrow> op q w = (Some x, w') \<and> l' = l @ [(q, x)]"
  by (auto simp: logged_def split: prod.splits option.splits)

lemma logged_None:
  "logged op q (w, l) = (None, (w', l')) \<longleftrightarrow> op q w = (None, w') \<and> l' = l"
  by (auto simp: logged_def split: prod.splits option.splits)

text \<open>
  A computation over the logging world does what the computation it was made from does.
\<close>

definition shadows :: "('e, 'w \<times> 'l, 'a) eff \<Rightarrow> ('e, 'w, 'a) eff \<Rightarrow> bool" where
  "shadows m' m \<longleftrightarrow> (\<forall>w l. \<exists>l'. m' (w, l) = (fst (m w), (snd (m w), l')))"

named_theorems shadow_rules \<open>the logged computation shadows the original one\<close>

lemma shadows_returnW [shadow_rules]: "shadows (returnW x) (returnW x)"
  by (simp add: shadows_def returnW_def)

lemma shadows_liftW [shadow_rules]: "shadows (liftW r) (liftW r)"
  by (simp add: shadows_def liftW_def)

lemma shadows_readW [shadow_rules]: "shadows (readW (beside op)) (readW op)"
  by (simp add: shadows_def readW_def split: prod.splits)

lemma shadows_callE [shadow_rules]: "shadows (callE e (beside op)) (callE e op)"
  by (auto simp: shadows_def callE_def beside_def split: prod.splits option.splits)

lemma shadows_callE_logged [shadow_rules]: "shadows (callE e (logged op q)) (callE e (op q))"
  by (auto simp: shadows_def callE_def logged_def split: prod.splits option.splits)

lemma shadows_bindW [shadow_rules]:
  assumes "shadows m' m" and "\<And>x. shadows (f' x) (f x)"
  shows "shadows (bindW m' f') (bindW m f)"
  unfolding shadows_def
proof (intro allI)
  fix w l
  from assms(1) obtain l1 where m: "m' (w, l) = (fst (m w), (snd (m w), l1))"
    unfolding shadows_def by blast
  show "\<exists>l'. bindW m' f' (w, l) = (fst (bindW m f w), (snd (bindW m f w), l'))"
  proof (cases "fst (m w)")
    case (Inl e)
    then have "m w = (Inl e, snd (m w))" by (metis prod.collapse)
    with m Inl show ?thesis by (simp add: bindW_eq(2))
  next
    case (Inr x)
    then have "m w = (Inr x, snd (m w))" by (metis prod.collapse)
    moreover from assms(2) obtain l2
      where "f' x (snd (m w), l1) = (fst (f x (snd (m w))), (snd (f x (snd (m w))), l2))"
      unfolding shadows_def by blast
    ultimately show ?thesis using m Inr by (simp add: bindW_eq(1))
  qed
qed

lemma shadows_run:
  "shadows m' m \<Longrightarrow> m w = (r, v) \<Longrightarrow> \<exists>l'. m' (w, l) = (r, (v, l'))"
  unfolding shadows_def by (metis fst_conv snd_conv)

text \<open>
  A whole run as a list of events: \<open>noting f op\<close> appends the events \<open>f x\<close> an answer \<open>x\<close> of \<open>op\<close>
  stands for to a list kept beside the world. \<open>answered\<close> is for operations that can fail: a failure
  leaves no event.
\<close>

definition noting :: "('a \<Rightarrow> 'v list) \<Rightarrow> ('w \<Rightarrow> 'a \<times> 'w) \<Rightarrow> 'w \<times> 'v list \<Rightarrow> 'a \<times> ('w \<times> 'v list)" where
  "noting f op = (\<lambda>(w, l). case op w of (x, w') \<Rightarrow> (x, (w', l @ f x)))"

definition answered :: "('a \<Rightarrow> 'v) \<Rightarrow> 'a option \<Rightarrow> 'v list" where
  "answered f r = (case r of None \<Rightarrow> [] | Some x \<Rightarrow> [f x])"

lemma answered_simps [simp]: "answered f None = []" "answered f (Some x) = [f x]"
  by (simp_all add: answered_def)

lemma noting_eq: "noting f op (w, l) = (x, (w', l')) \<longleftrightarrow> op w = (x, w') \<and> l' = l @ f x"
  by (auto simp: noting_def split: prod.splits)

lemma noting_app: "noting f op (w, l) = (fst (op w), (snd (op w), l @ f (fst (op w))))"
  by (simp add: noting_def split: prod.splits)

lemma shadows_readW_noting [shadow_rules]: "shadows (readW (noting f op)) (readW op)"
  by (simp add: shadows_def readW_def noting_app split: prod.splits)

lemma shadows_callE_noting [shadow_rules]: "shadows (callE e (noting f op)) (callE e op)"
  by (auto simp: shadows_def callE_def noting_def split: prod.splits option.splits)

text \<open>One log is a view of another, step by step.\<close>

definition viewed :: "('k \<Rightarrow> 'l) \<Rightarrow> ('e, 'w \<times> 'l, 'a) eff \<Rightarrow> ('e, 'w \<times> 'k, 'a) eff \<Rightarrow> bool" where
  "viewed h m' m \<longleftrightarrow>
     (\<forall>w k r w' k'. m (w, k) = (r, (w', k')) \<longrightarrow> m' (w, h k) = (r, (w', h k')))"

named_theorems view_rules \<open>one log is a view of another\<close>

lemma viewed_returnW [view_rules]: "viewed h (returnW x) (returnW x)"
  by (simp add: viewed_def returnW_def)

lemma viewed_liftW [view_rules]: "viewed h (liftW r) (liftW r)"
  by (simp add: viewed_def liftW_def)

lemma viewed_bindW [view_rules]:
  assumes "viewed h m' m" and "\<And>x. viewed h (f' x) (f x)"
  shows "viewed h (bindW m' f') (bindW m f)"
  unfolding viewed_def
proof (intro allI impI)
  fix w k r w' k'
  assume run: "bindW m f (w, k) = (r, (w', k'))"
  obtain r1 w1 k1 where m: "m (w, k) = (r1, (w1, k1))" by (metis surj_pair)
  then have m': "m' (w, h k) = (r1, (w1, h k1))" using assms(1) by (simp add: viewed_def)
  show "bindW m' f' (w, h k) = (r, (w', h k'))"
    using run m m' assms(2) by (cases r1) (auto simp: bindW_eq viewed_def)
qed

lemma viewed_run: "viewed h m' m \<Longrightarrow> m (w, k) = (r, (w', k')) \<Longrightarrow> m' (w, h k) = (r, (w', h k'))"
  by (simp add: viewed_def)

text \<open>A computation keeps an invariant of the world, whether it succeeds or fails.\<close>

definition keeps :: "('w \<Rightarrow> bool) \<Rightarrow> ('e, 'w, 'a) eff \<Rightarrow> bool" where
  "keeps I m \<longleftrightarrow> (\<forall>w. I w \<longrightarrow> I (snd (m w)))"

named_theorems keep_rules \<open>preservation of an invariant of the world\<close>

lemma keeps_returnW [keep_rules]: "keeps I (returnW x)"
  by (simp add: keeps_def returnW_def)

lemma keeps_liftW [keep_rules]: "keeps I (liftW r)"
  by (simp add: keeps_def liftW_def)

lemma snd_readW [simp]: "snd (readW op w) = snd (op w)"
  by (simp add: readW_def split: prod.splits)

lemma snd_callE [simp]: "snd (callE e op w) = snd (op w)"
  by (simp add: callE_def split: prod.splits option.splits)

lemma keeps_readW: "(\<And>w. I w \<Longrightarrow> I (snd (op w))) \<Longrightarrow> keeps I (readW op)"
  by (simp add: keeps_def)

lemma keeps_callE: "(\<And>w. I w \<Longrightarrow> I (snd (op w))) \<Longrightarrow> keeps I (callE e op)"
  by (simp add: keeps_def)

lemma keeps_bindW [keep_rules]:
  assumes "keeps I m" and "\<And>x. keeps I (f x)"
  shows "keeps I (bindW m f)"
  unfolding keeps_def
proof (intro allI impI)
  fix w
  assume "I w"
  then have v: "I (snd (m w))" using assms(1) by (simp add: keeps_def)
  then show "I (snd (bindW m f w))"
    using assms(2) by (auto simp: bindW_def keeps_def split: prod.splits sum.splits)
qed

lemma keeps_run: "keeps I m \<Longrightarrow> I w \<Longrightarrow> m w = (r, w') \<Longrightarrow> I w'"
  unfolding keeps_def by (metis snd_conv)

text \<open>The log holds only answers the operation really gave.\<close>

definition log_of :: "('q \<Rightarrow> 'a \<Rightarrow> bool) \<Rightarrow> 'w \<times> ('q \<times> 'a) list \<Rightarrow> bool" where
  "log_of P = (\<lambda>(w, l). \<forall>(q, x)\<in>set l. P q x)"

lemma log_of_beside: "log_of P wl \<Longrightarrow> log_of P (snd (beside op wl))"
  by (cases wl) (simp add: log_of_def)

lemma log_of_logged:
  assumes "\<And>q w x w'. op q w = (Some x, w') \<Longrightarrow> P q x" and "log_of P wl"
  shows "log_of P (snd (logged op q wl))"
  using assms by (auto simp: log_of_def logged_def split: prod.splits option.splits)

end
