(* ===== verification/Worker.thy ===== *)
theory Worker
  imports Fuzz Effects
begin

text \<open>
  tools/tsp-certification-worker/src/lib.rs: the orchestration of a protocol-fuzz campaign. The
  executor and the clock are operations on a world; the worker runs every case of the corpus once
  per repetition within the policy's time budget, counts what the executor observed, and has its
  own report evaluated like anybody else's.
\<close>

section \<open>Executor and clock\<close>

datatype disposition = Accepted | Rejected | NoDecision

record safety =
  sf_crash :: bool
  sf_hang :: bool
  sf_sanitizer_failure :: bool
  sf_memory_violation :: bool
  sf_stdout_violation :: bool
  sf_stderr_violation :: bool
  sf_deadline_violation :: bool
  sf_unreaped :: bool

record outcome =
  oc_disposition :: disposition
  oc_safety :: safety

record execution =
  xq_ordinal :: u64
  xq_repetition :: u32
  xq_case_id :: string
  xq_class :: case_class
  xq_input :: bytes
  xq_subject :: subject
  xq_limits :: fuzz_limits
  xq_deadline_ms :: u64
  xq_remaining_ms :: u64

record 'w executor =
  ex_engine :: "'w \<Rightarrow> fuzz_engine option \<times> 'w"
  ex_execute :: "execution \<Rightarrow> 'w \<Rightarrow> outcome option \<times> 'w"
  ex_coverage :: "'w \<Rightarrow> u32 option \<times> 'w"

record ('w, 'm) worker_clock =
  ck_now :: "'w \<Rightarrow> u64 option \<times> 'w"
  ck_mark :: "'w \<Rightarrow> 'm \<times> 'w"
  ck_elapsed :: "'m \<Rightarrow> 'w \<Rightarrow> u64 \<times> 'w"

record worker_input =
  wi_subject :: subject
  wi_executable_bytes :: bytes
  wi_corpus_bytes :: bytes
  wi_policy_bytes :: bytes
  wi_producer :: producer

record worker_output =
  wo_report :: fuzz_report
  wo_report_bytes :: bytes
  wo_stage :: stage

definition max_worker_duration_ms :: u64 where
  "max_worker_duration_ms = 7 * 24 * 60 * 60 * 1000"

definition executor_error :: string where
  "executor_error = ''certification.fuzzWorkerExecutor''"

definition clock_error :: string where
  "clock_error = ''certification.fuzzWorkerClock''"

section \<open>Counters\<close>

record counters =
  kt_total :: u64
  kt_valid :: u64
  kt_valid_accepted :: u64
  kt_malformed :: u64
  kt_malformed_rejected :: u64
  kt_crashes :: u64
  kt_hangs :: u64
  kt_sanitizer_failures :: u64
  kt_memory_violations :: u64
  kt_stdout_violations :: u64
  kt_stderr_violations :: u64
  kt_deadline_violations :: u64
  kt_unreaped :: u64

definition zero_counters :: counters where
  "zero_counters = \<lparr>kt_total = 0, kt_valid = 0, kt_valid_accepted = 0, kt_malformed = 0,
     kt_malformed_rejected = 0, kt_crashes = 0, kt_hangs = 0, kt_sanitizer_failures = 0,
     kt_memory_violations = 0, kt_stdout_violations = 0, kt_stderr_violations = 0,
     kt_deadline_violations = 0, kt_unreaped = 0\<rparr>"

definition increment :: "u64 \<Rightarrow> u64 res" where
  "increment x = ok_or ''certification.fuzzWorkerAccounting'' (checked_add x 1)"

definition increment_if :: "u64 \<Rightarrow> bool \<Rightarrow> u64 res" where
  "increment_if x b = (if b then increment x else Inr x)"

definition record_class :: "counters \<Rightarrow> case_class \<Rightarrow> disposition \<Rightarrow> counters res" where
  "record_class k c dp =
    (case c of
       ValidCase \<Rightarrow>
         bindR (increment (kt_valid k)) (\<lambda>v.
         bindR (increment_if (kt_valid_accepted k) (dp = Accepted)) (\<lambda>a.
           Inr (k\<lparr>kt_valid := v, kt_valid_accepted := a\<rparr>)))
     | MalformedCase \<Rightarrow>
         bindR (increment (kt_malformed k)) (\<lambda>m.
         bindR (increment_if (kt_malformed_rejected k) (dp = Rejected)) (\<lambda>r.
           Inr (k\<lparr>kt_malformed := m, kt_malformed_rejected := r\<rparr>))))"

definition record_safety :: "counters \<Rightarrow> safety \<Rightarrow> counters res" where
  "record_safety k s =
     bindR (increment_if (kt_crashes k) (sf_crash s)) (\<lambda>a.
     bindR (increment_if (kt_hangs k) (sf_hang s)) (\<lambda>b.
     bindR (increment_if (kt_sanitizer_failures k) (sf_sanitizer_failure s)) (\<lambda>c.
     bindR (increment_if (kt_memory_violations k) (sf_memory_violation s)) (\<lambda>d.
     bindR (increment_if (kt_stdout_violations k) (sf_stdout_violation s)) (\<lambda>e.
     bindR (increment_if (kt_stderr_violations k) (sf_stderr_violation s)) (\<lambda>f.
     bindR (increment_if (kt_deadline_violations k) (sf_deadline_violation s)) (\<lambda>g.
     bindR (increment_if (kt_unreaped k) (sf_unreaped s)) (\<lambda>h.
       Inr (k\<lparr>kt_crashes := a, kt_hangs := b, kt_sanitizer_failures := c,
         kt_memory_violations := d, kt_stdout_violations := e, kt_stderr_violations := f,
         kt_deadline_violations := g, kt_unreaped := h\<rparr>)))))))))"

definition record_outcome :: "counters \<Rightarrow> case_class \<Rightarrow> outcome \<Rightarrow> counters res" where
  "record_outcome k c oc =
     bindR (increment (kt_total k)) (\<lambda>n.
     bindR (record_class (k\<lparr>kt_total := n\<rparr>) c (oc_disposition oc)) (\<lambda>k.
       record_safety k (oc_safety oc)))"

section \<open>The campaign\<close>

text \<open>One case: the counters after it, and whether the campaign stops.\<close>

definition execution_request ::
  "fuzz_corpus \<Rightarrow> subject \<Rightarrow> u32 \<Rightarrow> fuzz_case \<Rightarrow> counters \<Rightarrow> bytes \<Rightarrow> u64 \<Rightarrow> execution" where
  "execution_request corpus sj repetition c k input remaining =
     \<lparr>xq_ordinal = kt_total k, xq_repetition = repetition, xq_case_id = fc_id c,
      xq_class = fc_class c, xq_input = input, xq_subject = sj, xq_limits = fz_limits corpus,
      xq_deadline_ms = min (fl_execution_ms (fz_limits corpus)) remaining,
      xq_remaining_ms = remaining\<rparr>"

definition run_case ::
  "deps \<Rightarrow> 'w executor \<Rightarrow> ('w, 'm) worker_clock \<Rightarrow> fuzz_policy \<Rightarrow> fuzz_corpus \<Rightarrow> subject \<Rightarrow> 'm \<Rightarrow> u32
     \<Rightarrow> fuzz_case \<Rightarrow> counters \<Rightarrow> ('w, counters \<times> bool) io" where
  "run_case d ex ck p corpus sj started repetition c k =
     bindW (readW (ck_elapsed ck started)) (\<lambda>elapsed.
     case checked_sub (fp_maximum_duration_ms p) elapsed of
       None \<Rightarrow> returnW (k, True)
     | Some remaining \<Rightarrow>
         if remaining = 0 then returnW (k, True)
         else
           bindW (liftW (decode_fuzz_case d c)) (\<lambda>input.
           bindW (callW executor_error
             (ex_execute ex (execution_request corpus sj repetition c k input remaining))) (\<lambda>oc.
           bindW (liftW (record_outcome k (fc_class c) oc)) (\<lambda>k'.
             returnW (k', sf_unreaped (oc_safety oc))))))"

fun run_cases ::
  "deps \<Rightarrow> 'w executor \<Rightarrow> ('w, 'm) worker_clock \<Rightarrow> fuzz_policy \<Rightarrow> fuzz_corpus \<Rightarrow> subject \<Rightarrow> 'm \<Rightarrow> u32
     \<Rightarrow> fuzz_case list \<Rightarrow> counters \<Rightarrow> ('w, counters \<times> bool) io" where
  "run_cases d ex ck p corpus sj started repetition [] k = returnW (k, False)"
| "run_cases d ex ck p corpus sj started repetition (c # cs) k =
     bindW (run_case d ex ck p corpus sj started repetition c k) (\<lambda>(k', stop).
       if stop then returnW (k', True)
       else run_cases d ex ck p corpus sj started repetition cs k')"

text \<open>\<^verbatim>\<open>for repetition in 0..corpus.repetitions\<close>: \<open>n\<close> repetitions are left.\<close>

fun run_repetitions ::
  "deps \<Rightarrow> 'w executor \<Rightarrow> ('w, 'm) worker_clock \<Rightarrow> fuzz_policy \<Rightarrow> fuzz_corpus \<Rightarrow> subject \<Rightarrow> 'm \<Rightarrow> nat
     \<Rightarrow> u32 \<Rightarrow> counters \<Rightarrow> ('w, counters) io" where
  "run_repetitions d ex ck p corpus sj started 0 repetition k = returnW k"
| "run_repetitions d ex ck p corpus sj started (Suc n) repetition k =
     bindW (run_cases d ex ck p corpus sj started repetition (fz_cases corpus) k) (\<lambda>(k', stop).
       if stop then returnW k'
       else run_repetitions d ex ck p corpus sj started n (repetition + 1) k')"

definition worker_report ::
  "deps \<Rightarrow> worker_input \<Rightarrow> fuzz_engine \<Rightarrow> u64 \<Rightarrow> u64 \<Rightarrow> counters \<Rightarrow> u32 \<Rightarrow> u64 \<Rightarrow> fuzz_report" where
  "worker_report d i engine started completed k coverage duration =
     \<lparr>fr_schema_version = 1, fr_subject = wi_subject i, fr_protocol = fuzz_protocol,
      fr_engine = engine, fr_corpus_digest = sha256_digest d (wi_corpus_bytes i),
      fr_started_at = started, fr_completed_at = completed, fr_total_executions = kt_total k,
      fr_valid_inputs = kt_valid k, fr_valid_accepted = kt_valid_accepted k,
      fr_malformed_inputs = kt_malformed k, fr_malformed_rejected = kt_malformed_rejected k,
      fr_coverage_basis_points = coverage, fr_crashes = kt_crashes k, fr_hangs = kt_hangs k,
      fr_sanitizer_failures = kt_sanitizer_failures k,
      fr_memory_violations = kt_memory_violations k, fr_stdout_violations = kt_stdout_violations k,
      fr_stderr_violations = kt_stderr_violations k,
      fr_deadline_violations = kt_deadline_violations k, fr_unreaped = kt_unreaped k,
      fr_duration_ms = duration\<rparr>"

definition worker_plan ::
  "deps \<Rightarrow> fuzz_codec \<Rightarrow> worker_input \<Rightarrow> (fuzz_policy \<times> fuzz_corpus) res" where
  "worker_plan d c i =
     bindR (validate_subject d (wi_subject i)) (\<lambda>_.
     bindR (reject (wi_executable_bytes i = []
         \<or> sha256_digest d (wi_executable_bytes i) \<noteq> sj_artifact_digest (wi_subject i))
       ''certification.fuzzWorkerArtifact'') (\<lambda>_.
     bindR (parse_certification_fuzz_policy d c (wi_policy_bytes i)) (\<lambda>p.
     bindR (parse_certification_fuzz_corpus d c (wi_corpus_bytes i)) (\<lambda>corpus.
     bindR (validate_fuzz_plan d p corpus (wi_corpus_bytes i)) (\<lambda>_. Inr (p, corpus))))))"

definition worker_campaign ::
  "deps \<Rightarrow> fuzz_codec \<Rightarrow> 'w executor \<Rightarrow> ('w, 'm) worker_clock \<Rightarrow> worker_input \<Rightarrow> ('w, fuzz_report) io"
where
  "worker_campaign d c ex ck i =
     bindW (liftW (worker_plan d c i)) (\<lambda>(p, corpus).
     bindW (callW executor_error (ex_engine ex)) (\<lambda>engine.
     bindW (liftW (validate_fuzz_engine engine corpus)) (\<lambda>_.
     bindW (callW clock_error (ck_now ck)) (\<lambda>started_at.
     bindW (liftW (reject (started_at = 0) clock_error)) (\<lambda>_.
     bindW (readW (ck_mark ck)) (\<lambda>started.
     bindW (run_repetitions d ex ck p corpus (wi_subject i) started (unat (fz_repetitions corpus))
         0 zero_counters) (\<lambda>k.
     bindW (callW executor_error (ex_coverage ex)) (\<lambda>coverage.
     bindW (liftW (reject (coverage > 10000) ''certification.fuzzWorkerCoverage'')) (\<lambda>_.
     bindW (readW (ck_elapsed ck started)) (\<lambda>duration.
     bindW (liftW (reject (duration > max_worker_duration_ms) clock_error)) (\<lambda>_.
     bindW (callW clock_error (ck_now ck)) (\<lambda>completed_at.
     bindW (liftW (reject (completed_at < started_at) clock_error)) (\<lambda>_.
       returnW (worker_report d i engine started_at completed_at k coverage duration))))))))))))))"

definition run_with_clock ::
  "deps \<Rightarrow> fuzz_codec \<Rightarrow> (fuzz_report \<Rightarrow> bytes option) \<Rightarrow> 'w executor \<Rightarrow> ('w, 'm) worker_clock
     \<Rightarrow> worker_input \<Rightarrow> ('w, worker_output) io" where
  "run_with_clock d c to_vec ex ck i =
     bindW (worker_campaign d c ex ck i) (\<lambda>r.
     bindW (liftW (ok_or ''certification.fuzzWorkerSerialization'' (to_vec r))) (\<lambda>data.
     bindW (liftW (evaluate_protocol_fuzzing d c
         \<lparr>fv_report_bytes = data, fv_policy_bytes = wi_policy_bytes i,
          fv_executable_bytes = wi_executable_bytes i, fv_corpus_bytes = wi_corpus_bytes i\<rparr>
         (wi_subject i) (wi_producer i) (fr_started_at r) (fr_completed_at r))) (\<lambda>s.
       returnW \<lparr>wo_report = r, wo_report_bytes = data, wo_stage = s\<rparr>)))"

section \<open>What the executor observed\<close>

text \<open>
  The trace of a run lists the executions that were requested with their outcomes. A report is
  right when each of its counters is the number of executions of its kind in the trace.
\<close>

type_synonym trace = "(execution \<times> outcome) list"

definition observed :: "(execution \<Rightarrow> outcome \<Rightarrow> bool) \<Rightarrow> trace \<Rightarrow> nat" where
  "observed P tr = length (filter (\<lambda>(q, oc). P q oc) tr)"

definition seen_safety :: "(safety \<Rightarrow> bool) \<Rightarrow> trace \<Rightarrow> nat" where
  "seen_safety f = observed (\<lambda>q oc. f (oc_safety oc))"

definition seen_class :: "case_class \<Rightarrow> trace \<Rightarrow> nat" where
  "seen_class c = observed (\<lambda>q oc. xq_class q = c)"

definition seen_decision :: "case_class \<Rightarrow> disposition \<Rightarrow> trace \<Rightarrow> nat" where
  "seen_decision c dp = observed (\<lambda>q oc. xq_class q = c \<and> oc_disposition oc = dp)"

definition tallies :: "counters \<Rightarrow> trace \<Rightarrow> bool" where
  "tallies k tr \<longleftrightarrow>
     unat (kt_total k) = length tr
     \<and> unat (kt_valid k) = seen_class ValidCase tr
     \<and> unat (kt_valid_accepted k) = seen_decision ValidCase Accepted tr
     \<and> unat (kt_malformed k) = seen_class MalformedCase tr
     \<and> unat (kt_malformed_rejected k) = seen_decision MalformedCase Rejected tr
     \<and> unat (kt_crashes k) = seen_safety sf_crash tr
     \<and> unat (kt_hangs k) = seen_safety sf_hang tr
     \<and> unat (kt_sanitizer_failures k) = seen_safety sf_sanitizer_failure tr
     \<and> unat (kt_memory_violations k) = seen_safety sf_memory_violation tr
     \<and> unat (kt_stdout_violations k) = seen_safety sf_stdout_violation tr
     \<and> unat (kt_stderr_violations k) = seen_safety sf_stderr_violation tr
     \<and> unat (kt_deadline_violations k) = seen_safety sf_deadline_violation tr
     \<and> unat (kt_unreaped k) = seen_safety sf_unreaped tr"

lemma observed_simps [simp]:
  "observed P [] = 0"
  "observed P (tr @ [(q, oc)]) = observed P tr + (if P q oc then 1 else 0)"
  by (simp_all add: observed_def)

lemma observed_le: "observed P tr \<le> length tr"
  by (simp add: observed_def)

lemma observed_all: "observed P tr = length tr \<longleftrightarrow> (\<forall>(q, oc)\<in>set tr. P q oc)"
  by (induction tr) (auto simp: observed_def le_imp_less_Suc length_filter_le less_imp_neq
      dest: Suc_le_lessD)

lemma observed_zero: "observed P tr = 0 \<longleftrightarrow> (\<forall>(q, oc)\<in>set tr. \<not> P q oc)"
  by (auto simp: observed_def filter_empty_conv)

lemmas seen_defs = seen_safety_def seen_class_def seen_decision_def

lemma increment_Inr: "increment x = Inr y \<longleftrightarrow> unat x + 1 < 2 ^ 64 \<and> unat y = unat x + 1"
  by (auto simp: increment_def res_simps checked_add_Some unat_plus_no_wrap word_unat_eq_iff)

lemma increment_if_Inr:
  "increment_if x b = Inr y \<longleftrightarrow> (b \<longrightarrow> unat x + 1 < 2 ^ 64) \<and> unat y = unat x + (if b then 1 else 0)"
  using unat_u64_less [of x] by (auto simp: increment_if_def increment_Inr word_unat_eq_iff)

lemma increment_if_ok:
  assumes "unat x + 1 < 2 ^ 64"
  shows "increment_if x b = Inr (if b then x + 1 else x)"
    and "unat (if b then x + 1 else x) = unat x + (if b then 1 else 0)"
  using assms by (auto simp: increment_if_def increment_def checked_add_def unat_plus_no_wrap)

text \<open>Recording an outcome never overflows within a plan, and keeps every counter exact.\<close>

lemma record_outcome_tallies:
  assumes t: "tallies k tr" and small: "length tr + 1 < 2 ^ 64"
  shows "\<exists>k'. record_outcome k (xq_class q) oc = Inr k' \<and> tallies k' (tr @ [(q, oc)])"
proof -
  have b: "observed P tr + 1 < 2 ^ 64" for P
    using observed_le [of P tr] small by linarith
  have inc: "increment x = Inr (x + 1)" "unat (x + 1) = Suc (unat x)" if "unat x + 1 < 2 ^ 64" for x
    using increment_if_ok [OF that, of True] by (simp_all add: increment_if_def)
  show ?thesis
    using t b small
    by (cases "xq_class q")
       (simp_all add: tallies_def seen_defs record_outcome_def record_class_def record_safety_def
         inc increment_if_ok)
qed

text \<open>
  The executions that may be requested: the one with ordinal \<open>i\<close> runs case \<open>i mod n\<close> of the corpus
  in repetition \<open>i div n\<close>, with the decoded input, within the deadline of the corpus and the rest of
  the campaign's budget.
\<close>

definition execution_ok ::
  "deps \<Rightarrow> fuzz_policy \<Rightarrow> fuzz_corpus \<Rightarrow> subject \<Rightarrow> nat \<Rightarrow> execution \<Rightarrow> bool" where
  "execution_ok d p corpus sj i q \<longleftrightarrow>
    (let n = length (fz_cases corpus); c = fz_cases corpus ! (i mod n)
     in unat (xq_ordinal q) = i \<and> unat (xq_repetition q) = i div n
        \<and> i < n * unat (fz_repetitions corpus)
        \<and> xq_case_id q = fc_id c \<and> xq_class q = fc_class c
        \<and> decode_fuzz_case d c = Inr (xq_input q)
        \<and> xq_subject q = sj \<and> xq_limits q = fz_limits corpus
        \<and> 0 < xq_remaining_ms q \<and> xq_remaining_ms q \<le> fp_maximum_duration_ms p
        \<and> xq_deadline_ms q = min (fl_execution_ms (fz_limits corpus)) (xq_remaining_ms q))"

definition requests_ok :: "deps \<Rightarrow> fuzz_policy \<Rightarrow> fuzz_corpus \<Rightarrow> subject \<Rightarrow> trace \<Rightarrow> bool" where
  "requests_ok d p corpus sj tr \<longleftrightarrow> (\<forall>i<length tr. execution_ok d p corpus sj i (fst (tr ! i)))"

text \<open>Nothing is run after a process that could not be reaped.\<close>

definition all_reaped :: "trace \<Rightarrow> bool" where
  "all_reaped tr \<longleftrightarrow> (\<forall>(q, oc)\<in>set tr. \<not> sf_unreaped (oc_safety oc))"

definition logging :: "'w executor \<Rightarrow> ('w \<times> trace) executor" where
  "logging ex = \<lparr>ex_engine = beside (ex_engine ex), ex_execute = logged (ex_execute ex),
     ex_coverage = beside (ex_coverage ex)\<rparr>"

definition logging_clock :: "('w, 'm) worker_clock \<Rightarrow> ('w \<times> trace, 'm) worker_clock" where
  "logging_clock ck = \<lparr>ck_now = beside (ck_now ck), ck_mark = beside (ck_mark ck),
     ck_elapsed = (\<lambda>m. beside (ck_elapsed ck m))\<rparr>"

lemma requests_ok_snoc:
  "requests_ok d p corpus sj (tr @ [(q, oc)]) \<longleftrightarrow>
     requests_ok d p corpus sj tr \<and> execution_ok d p corpus sj (length tr) q"
  by (auto simp: requests_ok_def nth_append less_Suc_eq)

lemma all_reaped_snoc:
  "all_reaped (tr @ [(q, oc)]) \<longleftrightarrow> all_reaped tr \<and> \<not> sf_unreaped (oc_safety oc)"
  by (auto simp: all_reaped_def)

text \<open>What holds between two cases (\<open>stop\<close> is false) and when the campaign has stopped.\<close>

definition campaign_inv ::
  "deps \<Rightarrow> fuzz_policy \<Rightarrow> fuzz_corpus \<Rightarrow> subject \<Rightarrow> counters \<Rightarrow> trace \<Rightarrow> bool" where
  "campaign_inv d p corpus sj k tr \<longleftrightarrow>
     tallies k tr \<and> requests_ok d p corpus sj tr \<and> all_reaped (butlast tr)"

lemma run_case_Inr:
  assumes "run_case d (logging ex) (logging_clock ck) p corpus sj m rep c k (w, tr)
      = (Inr (k', stop), (w', tr'))"
  shows "k' = k \<and> stop \<and> tr' = tr
    \<or> (\<exists>remaining input oc. 0 < remaining \<and> remaining \<le> fp_maximum_duration_ms p
        \<and> decode_fuzz_case d c = Inr input \<and> record_outcome k (fc_class c) oc = Inr k'
        \<and> stop = sf_unreaped (oc_safety oc)
        \<and> tr' = tr @ [(execution_request corpus sj rep c k input remaining, oc)])"
proof -
  have sub: "checked_sub x y = Some z \<longleftrightarrow> y \<le> x \<and> z = x - y" for x y z :: u64
    by (auto simp: checked_sub_def)
  have le: "y \<le> x \<Longrightarrow> x - y \<le> x" for x y :: u64
    by (simp add: word_le_nat_alt unat_sub)
  obtain elapsed v where e: "ck_elapsed ck m w = (elapsed, v)" by (metis surj_pair)
  show ?thesis
  proof (cases "checked_sub (fp_maximum_duration_ms p) elapsed")
    case None
    with assms e show ?thesis
      by (simp add: run_case_def bindW_eq readW_def logging_clock_def returnW_def)
  next
    case (Some remaining)
    then have r: "remaining \<le> fp_maximum_duration_ms p" by (auto simp: sub le)
    show ?thesis
    proof (cases "remaining = 0")
      case True
      with assms e Some show ?thesis
        by (simp add: run_case_def bindW_eq readW_def logging_clock_def returnW_def)
    next
      case False
      then have "0 < remaining" by (simp add: word_neq_0_conv)
      with assms e Some False r show ?thesis
        by (auto simp: run_case_def logging_clock_def logging_def logged_Some io_simps)
    qed
  qed
qed

lemma run_case_inv:
  assumes run: "run_case d (logging ex) (logging_clock ck) p corpus sj m rep c k (w, tr)
      = (Inr (k', stop), (w', tr'))"
    and inv: "campaign_inv d p corpus sj k tr" and reaped: "all_reaped tr"
    and pos: "length tr = unat rep * length (fz_cases corpus) + j" "j < length (fz_cases corpus)"
      "unat rep < unat (fz_repetitions corpus)" "c = fz_cases corpus ! j"
    and small: "length (fz_cases corpus) * unat (fz_repetitions corpus) < 2 ^ 64"
  shows "campaign_inv d p corpus sj k' tr' \<and> (\<not> stop \<longrightarrow> all_reaped tr' \<and> length tr' = Suc (length tr))"
proof -
  let ?n = "length (fz_cases corpus)"
  have "Suc (unat rep) * ?n \<le> unat (fz_repetitions corpus) * ?n"
    using pos(3) by (intro mult_le_mono1) simp
  then have lt: "length tr < ?n * unat (fz_repetitions corpus)"
    using pos(1,2) by (simp add: mult.commute)
  have ne: "?n \<noteq> 0" using pos(2) by linarith
  have ix: "length tr mod ?n = j" "length tr div ?n = unat rep"
    using pos(2) div_mult_self3 [OF ne, of "unat rep" j] by (simp_all add: pos(1))
  from run_case_Inr [OF run] show ?thesis
  proof (elim disjE exE conjE)
    fix remaining input oc
    let ?q = "execution_request corpus sj rep c k input remaining"
    assume r: "0 < remaining" "remaining \<le> fp_maximum_duration_ms p"
      "decode_fuzz_case d c = Inr input" "record_outcome k (fc_class c) oc = Inr k'"
      "stop = sf_unreaped (oc_safety oc)" "tr' = tr @ [(?q, oc)]"
    have t: "tallies k tr" using inv by (simp add: campaign_inv_def)
    have cl: "xq_class ?q = fc_class c" by (simp add: execution_request_def)
    have "tallies k' tr'"
      using record_outcome_tallies [OF t, of ?q oc] r(4,6) lt small cl by simp
    moreover have "execution_ok d p corpus sj (length tr) ?q"
      using r(1-3) t lt ix pos(4)
      by (simp add: execution_ok_def execution_request_def tallies_def Let_def)
    ultimately show ?thesis
      using inv reaped r by (simp add: campaign_inv_def requests_ok_snoc all_reaped_snoc)
  qed (use inv in simp)
qed

lemma run_cases_inv:
  assumes "run_cases d (logging ex) (logging_clock ck) p corpus sj m rep cs k (w, tr)
      = (Inr (k', stop), (w', tr'))"
    and "campaign_inv d p corpus sj k tr" and "all_reaped tr"
    and "length tr = unat rep * length (fz_cases corpus) + j" and "cs = drop j (fz_cases corpus)"
    and "j \<le> length (fz_cases corpus)" and "unat rep < unat (fz_repetitions corpus)"
    and "length (fz_cases corpus) * unat (fz_repetitions corpus) < 2 ^ 64"
  shows "campaign_inv d p corpus sj k' tr'
    \<and> (\<not> stop \<longrightarrow> all_reaped tr' \<and> length tr' = Suc (unat rep) * length (fz_cases corpus))"
  using assms
proof (induction cs arbitrary: k w tr j)
  case Nil
  then show ?case by (auto simp: io_simps)
next
  case (Cons c cs)
  have j: "j < length (fz_cases corpus)" using Cons.prems(5) by (cases "j < length (fz_cases corpus)") auto
  have c: "c = fz_cases corpus ! j" "cs = drop (Suc j) (fz_cases corpus)"
    using Cons.prems(5) j by (auto simp: Cons_nth_drop_Suc [symmetric])
  obtain k1 stop1 w1 tr1 where run: "run_case d (logging ex) (logging_clock ck) p corpus sj m rep c k (w, tr)
      = (Inr (k1, stop1), (w1, tr1))"
    and rest: "(if stop1 then returnW (k1, True)
       else run_cases d (logging ex) (logging_clock ck) p corpus sj m rep cs k1) (w1, tr1)
      = (Inr (k', stop), (w', tr'))"
    using Cons.prems(1) by (auto simp: io_simps)
  note one = run_case_inv [OF run Cons.prems(2,3,4) j Cons.prems(7) c(1) Cons.prems(8)]
  show ?case
  proof (cases stop1)
    case True
    with rest one show ?thesis by (simp add: io_simps)
  next
    case False
    show ?thesis
    proof (rule Cons.IH)
      show "run_cases d (logging ex) (logging_clock ck) p corpus sj m rep cs k1 (w1, tr1)
        = (Inr (k', stop), (w', tr'))" using rest False by simp
      show "length tr1 = unat rep * length (fz_cases corpus) + Suc j"
        using one False Cons.prems(4) by simp
    qed (use one False c j Cons.prems in auto)
  qed
qed

lemma run_repetitions_inv:
  assumes "run_repetitions d (logging ex) (logging_clock ck) p corpus sj m n rep k (w, tr)
      = (Inr k', (w', tr'))"
    and "campaign_inv d p corpus sj k tr" and "all_reaped tr"
    and "length tr = unat rep * length (fz_cases corpus)"
    and "unat rep + n = unat (fz_repetitions corpus)"
    and "length (fz_cases corpus) * unat (fz_repetitions corpus) < 2 ^ 64"
  shows "campaign_inv d p corpus sj k' tr'"
  using assms
proof (induction n arbitrary: rep k w tr)
  case 0
  then show ?case by (simp add: io_simps)
next
  case (Suc n)
  obtain k1 stop w1 tr1 where run: "run_cases d (logging ex) (logging_clock ck) p corpus sj m rep
        (fz_cases corpus) k (w, tr) = (Inr (k1, stop), (w1, tr1))"
    and rest: "(if stop then returnW k1
       else run_repetitions d (logging ex) (logging_clock ck) p corpus sj m n (rep + 1) k1) (w1, tr1)
      = (Inr k', (w', tr'))"
    using Suc.prems(1) by (auto simp: io_simps)
  have one: "campaign_inv d p corpus sj k1 tr1
    \<and> (\<not> stop \<longrightarrow> all_reaped tr1 \<and> length tr1 = Suc (unat rep) * length (fz_cases corpus))"
    using Suc.prems by (intro run_cases_inv [OF run, of 0]) auto
  have rep: "unat (rep + 1) = Suc (unat rep)"
    using Suc.prems(5) unat_u32_less [of "fz_repetitions corpus"] by (subst unat_plus_no_wrap) auto
  show ?case
  proof (cases stop)
    case True
    with rest one show ?thesis by (simp add: io_simps)
  next
    case False
    show ?thesis
      by (rule Suc.IH [of "rep + 1" k1 w1 tr1]) (use rest False one rep Suc.prems in auto)
  qed
qed

section \<open>The report against the plan\<close>

definition report_counters :: "fuzz_report \<Rightarrow> counters" where
  "report_counters r = \<lparr>kt_total = fr_total_executions r, kt_valid = fr_valid_inputs r,
     kt_valid_accepted = fr_valid_accepted r, kt_malformed = fr_malformed_inputs r,
     kt_malformed_rejected = fr_malformed_rejected r, kt_crashes = fr_crashes r,
     kt_hangs = fr_hangs r, kt_sanitizer_failures = fr_sanitizer_failures r,
     kt_memory_violations = fr_memory_violations r, kt_stdout_violations = fr_stdout_violations r,
     kt_stderr_violations = fr_stderr_violations r,
     kt_deadline_violations = fr_deadline_violations r, kt_unreaped = fr_unreaped r\<rparr>"

lemma report_counters_worker_report [simp]:
  "report_counters (worker_report d i e s t k cov dur) = k"
  by (simp add: report_counters_def worker_report_def)

text \<open>Reading a list cyclically meets an element kind at most once per lap and position.\<close>

lemma cyclic_laps:
  "map (\<lambda>i. xs ! (i mod length xs)) [0..<length xs * laps] = concat (replicate laps xs)"
proof (induction laps)
  case (Suc laps)
  have "map (\<lambda>i. xs ! (i mod length xs)) [length xs * laps..<length xs * laps + length xs] = xs"
    by (rule nth_equalityI) simp_all
  moreover have "[0..<length xs * Suc laps]
      = [0..<length xs * laps] @ [length xs * laps..<length xs * laps + length xs]"
    using upt_add_eq_append [of 0 "length xs * laps" "length xs"] by (simp add: add.commute)
  moreover have "concat (replicate laps xs) @ xs = xs @ concat (replicate laps xs)"
    by (induction laps) simp_all
  ultimately show ?case using Suc by simp
qed simp

lemma length_filter_concat_replicate:
  "length (filter P (concat (replicate n xs))) = n * length (filter P xs)"
  by (induction n) simp_all

lemma cyclic_filter_le:
  assumes "L \<le> length xs * laps"
  shows "length (filter P (map (\<lambda>i. xs ! (i mod length xs)) [0..<L])) \<le> laps * length (filter P xs)"
proof -
  have "[0..<length xs * laps] = [0..<L] @ [L..<length xs * laps]"
    using assms by (metis le0 le_add_diff_inverse upt_add_eq_append)
  then have "length (filter P (map (\<lambda>i. xs ! (i mod length xs)) [0..<L]))
      \<le> length (filter P (map (\<lambda>i. xs ! (i mod length xs)) [0..<length xs * laps]))"
    by simp
  then show ?thesis by (simp only: cyclic_laps length_filter_concat_replicate)
qed

lemma requests_class:
  assumes "requests_ok d p corpus sj tr"
  shows "map (xq_class \<circ> fst) tr
    = map (\<lambda>i. fc_class (fz_cases corpus ! (i mod length (fz_cases corpus)))) [0..<length tr]"
  using assms by (intro nth_equalityI) (simp_all add: requests_ok_def execution_ok_def Let_def)

lemma requests_length:
  assumes "requests_ok d p corpus sj tr"
  shows "length tr \<le> length (fz_cases corpus) * unat (fz_repetitions corpus)"
proof (cases "length tr")
  case (Suc n)
  then have "execution_ok d p corpus sj n (fst (tr ! n))" using assms by (simp add: requests_ok_def)
  then show ?thesis using Suc by (simp add: execution_ok_def Let_def)
qed simp

lemma seen_class_map: "seen_class cl tr = length (filter (\<lambda>c. c = cl) (map (xq_class \<circ> fst) tr))"
  by (induction tr) (simp_all add: seen_class_def observed_def case_prod_unfold)

lemma seen_class_le:
  assumes "requests_ok d p corpus sj tr"
  shows "seen_class cl tr
    \<le> unat (fz_repetitions corpus) * length (filter (\<lambda>c. fc_class c = cl) (fz_cases corpus))"
proof -
  let ?at = "\<lambda>i. fz_cases corpus ! (i mod length (fz_cases corpus))"
  have "seen_class cl tr = length (filter (\<lambda>c. c = cl) (map fc_class (map ?at [0..<length tr])))"
    unfolding seen_class_map requests_class [OF assms] by (simp add: comp_def)
  also have "\<dots> = length (filter (\<lambda>c. fc_class c = cl) (map ?at [0..<length tr]))"
    by (simp only: filter_map length_map comp_def)
  also have "\<dots> \<le> unat (fz_repetitions corpus) * length (filter (\<lambda>c. fc_class c = cl) (fz_cases corpus))"
    by (rule cyclic_filter_le [OF requests_length [OF assms]])
  finally show ?thesis .
qed

lemma case_class_cases: "c = MalformedCase \<longleftrightarrow> c \<noteq> ValidCase"
  by (cases c) simp_all

lemma malformed_count:
  "length (filter (\<lambda>c. fc_class c = MalformedCase) cs) = length cs - valid_count cs"
proof -
  have "length (filter (\<lambda>c. fc_class c = MalformedCase) cs) + valid_count cs = length cs"
    by (induction cs) (auto simp: valid_count_def case_class_cases)
  then show ?thesis by simp
qed

lemma seen_class_plan:
  assumes "requests_ok d p corpus sj tr"
  shows "seen_class ValidCase tr \<le> plan_valid corpus"
    and "seen_class MalformedCase tr \<le> plan_malformed corpus"
  using seen_class_le [OF assms, of ValidCase] seen_class_le [OF assms, of MalformedCase]
  by (simp_all add: plan_valid_def plan_malformed_def valid_count_def [symmetric] malformed_count
      mult.commute)

lemma seen_class_total: "seen_class ValidCase tr + seen_class MalformedCase tr = length tr"
  by (induction tr) (auto simp: seen_class_def observed_def case_class_cases)

section \<open>Runs and their traces\<close>

lemma logging_simps [simp]:
  "ex_engine (logging ex) = beside (ex_engine ex)" "ex_execute (logging ex) = logged (ex_execute ex)"
  "ex_coverage (logging ex) = beside (ex_coverage ex)"
  "ck_now (logging_clock ck) = beside (ck_now ck)" "ck_mark (logging_clock ck) = beside (ck_mark ck)"
  "ck_elapsed (logging_clock ck) m = beside (ck_elapsed ck m)"
  by (simp_all add: logging_def logging_clock_def)

lemma shadows_run_case:
  "shadows (run_case d (logging ex) (logging_clock ck) p corpus sj m rep c k)
     (run_case d ex ck p corpus sj m rep c k)"
  unfolding run_case_def
  by (auto intro!: shadow_rules split: option.splits)

lemma shadows_run_cases:
  "shadows (run_cases d (logging ex) (logging_clock ck) p corpus sj m rep cs k)
     (run_cases d ex ck p corpus sj m rep cs k)"
  by (induction cs arbitrary: k) (auto intro!: shadow_rules shadows_run_case split: prod.splits)

lemma shadows_run_repetitions:
  "shadows (run_repetitions d (logging ex) (logging_clock ck) p corpus sj m n rep k)
     (run_repetitions d ex ck p corpus sj m n rep k)"
  by (induction n arbitrary: rep k) (auto intro!: shadow_rules shadows_run_cases split: prod.splits)

lemma shadows_worker_campaign:
  "shadows (worker_campaign d c (logging ex) (logging_clock ck) i) (worker_campaign d c ex ck i)"
  unfolding worker_campaign_def
  by (auto intro!: shadow_rules shadows_run_repetitions split: prod.splits)

lemma shadows_run_with_clock:
  "shadows (run_with_clock d c to_vec (logging ex) (logging_clock ck) i)
     (run_with_clock d c to_vec ex ck i)"
  unfolding run_with_clock_def
  by (auto intro!: shadow_rules shadows_worker_campaign)

text \<open>What the plan and the campaign leave behind, as one fact.\<close>

definition campaign_result ::
  "deps \<Rightarrow> fuzz_codec \<Rightarrow> worker_input \<Rightarrow> fuzz_policy \<Rightarrow> fuzz_corpus \<Rightarrow> trace \<Rightarrow> fuzz_report \<Rightarrow> bool" where
  "campaign_result d c i p corpus tr r \<longleftrightarrow>
     worker_plan d c i = Inr (p, corpus)
     \<and> fr_schema_version r = 1 \<and> fr_subject r = wi_subject i \<and> fr_protocol r = fuzz_protocol
     \<and> fr_corpus_digest r = sha256_digest d (wi_corpus_bytes i)
     \<and> validate_fuzz_engine (fr_engine r) corpus = Inr ()
     \<and> 0 < fr_started_at r \<and> fr_started_at r \<le> fr_completed_at r
     \<and> fr_coverage_basis_points r \<le> 10000 \<and> fr_duration_ms r \<le> max_worker_duration_ms
     \<and> campaign_inv d p corpus (wi_subject i) (report_counters r) tr"

lemma worker_plan_Inr:
  assumes "worker_plan d c i = Inr (p, corpus)"
  shows "validate_subject d (wi_subject i) = Inr () \<and> wi_executable_bytes i \<noteq> []
    \<and> sha256_digest d (wi_executable_bytes i) = sj_artifact_digest (wi_subject i)
    \<and> parse_certification_fuzz_policy d c (wi_policy_bytes i) = Inr p
    \<and> parse_certification_fuzz_corpus d c (wi_corpus_bytes i) = Inr corpus
    \<and> validate_fuzz_plan d p corpus (wi_corpus_bytes i) = Inr () \<and> corpus_small corpus"
  using assms validate_fuzz_corpus_small
  by (auto simp: worker_plan_def parse_certification_fuzz_corpus_def res_simps)

lemma campaign_inv_start: "campaign_inv d p corpus sj zero_counters []"
  by (simp add: campaign_inv_def tallies_def zero_counters_def seen_defs requests_ok_def
      all_reaped_def)

lemma worker_campaign_result:
  assumes "worker_campaign d c (logging ex) (logging_clock ck) i (w, []) = (Inr r, (w', tr))"
  shows "\<exists>p corpus. campaign_result d c i p corpus tr r"
proof -
  from assms obtain p corpus engine started m k w1 tr1 coverage duration completed w2 where
    plan: "worker_plan d c i = Inr (p, corpus)"
    and e: "validate_fuzz_engine engine corpus = Inr ()" and s: "started \<noteq> 0"
    and run: "run_repetitions d (logging ex) (logging_clock ck) p corpus (wi_subject i) m
        (unat (fz_repetitions corpus)) 0 zero_counters (w2, []) = (Inr k, (w1, tr))"
    and b: "\<not> coverage > 10000" "\<not> duration > max_worker_duration_ms" "\<not> completed < started"
    and r: "r = worker_report d i engine started completed k coverage duration"
    by (auto simp: worker_campaign_def io_simps res_simps)
  have "length (fz_cases corpus) * unat (fz_repetitions corpus) < 2 ^ 64"
    using plan_bounds(2) [of corpus] worker_plan_Inr [OF plan] by simp
  then have "campaign_inv d p corpus (wi_subject i) k tr"
    using run by (intro run_repetitions_inv [OF run campaign_inv_start]) (simp_all add: all_reaped_def)
  with plan e s b have "campaign_result d c i p corpus tr r"
    unfolding r campaign_result_def report_counters_worker_report
    by (simp add: worker_report_def word_neq_0_conv not_less)
  then show ?thesis by blast
qed

text \<open>
  The report of a campaign passes the independent evaluator's accounting. What is left is the
  relation of the two clocks, which the worker does not check: the wall clock may not show less
  time (rounded up to a second) than the monotonic one.
\<close>

definition clocks_agree :: "fuzz_report \<Rightarrow> bool" where
  "clocks_agree r \<longleftrightarrow>
     unat (fr_duration_ms r) \<le> (unat (fr_completed_at r) - unat (fr_started_at r)) * 1000 + 999"

lemma tallies_bounds:
  assumes "tallies k tr"
  shows "kt_valid_accepted k \<le> kt_valid k \<and> kt_malformed_rejected k \<le> kt_malformed k
    \<and> unat (kt_total k) = unat (kt_valid k) + unat (kt_malformed k)"
proof -
  have "seen_decision cl dp tr \<le> seen_class cl tr" for cl dp
    unfolding seen_decision_def seen_class_def observed_def
    by (induction tr) (auto simp: le_SucI)
  with assms show ?thesis by (simp add: tallies_def word_le_nat_alt seen_class_total)
qed

lemma campaign_report_valid:
  assumes c: "campaign_result d c i p corpus tr r" and clocks: "clocks_agree r"
  shows "validate_fuzz_report r (wi_subject i) (fr_started_at r) (fr_completed_at r) = Inr ()"
    and "validate_report_corpus r corpus = Inr ()"
proof -
  let ?k = "report_counters r"
  have t: "tallies ?k tr" and q: "requests_ok d p corpus (wi_subject i) tr"
    and plan: "worker_plan d c i = Inr (p, corpus)"
    using c by (simp_all add: campaign_result_def campaign_inv_def)
  note w = worker_plan_Inr [OF plan]
  then have small: "corpus_small corpus" by simp
  from w obtain pt pv pm where counts: "planned_execution_counts corpus = Inr (pt, pv, pm)"
    by (auto simp: validate_fuzz_plan_def validate_policy_corpus_def res_simps)
  note pc = planned_execution_counts_Inr [OF small counts]
  note b = tallies_bounds [OF t] seen_class_plan [OF q]
  have "kt_total ?k \<le> pt \<and> kt_valid ?k \<le> pv \<and> kt_malformed ?k \<le> pm"
    using t b pc by (auto simp: tallies_def word_le_nat_alt)
  then have le: "fr_total_executions r \<le> pt" "fr_valid_inputs r \<le> pv" "fr_malformed_inputs r \<le> pm"
    by (simp_all add: report_counters_def)
  show "validate_report_corpus r corpus = Inr ()"
    using c le counts by (auto simp: validate_report_corpus_def campaign_result_def res_simps not_less)
  have s: "x \<le> fr_total_executions r" if "x \<in> set (safety_counts r)" for x
    using that t observed_le [of _ tr]
    by (auto simp: safety_counts_def tallies_def report_counters_def word_le_nat_alt seen_defs)
  have n: "checked_add (fr_valid_inputs r) (fr_malformed_inputs r) = Some (fr_total_executions r)"
    "\<not> fr_total_executions r > max_fuzz_executions"
    using b(1) pc le unat_u64_less [of "fr_total_executions r"]
    by (auto simp: report_counters_def checked_add_Some word_unat_eq_iff unat_plus_no_wrap
        word_less_nat_alt word_le_nat_alt max_fuzz_executions_def)
  have "unat (fr_duration_ms r) \<le> unat (saturating_add (saturating_mul
      (saturating_sub (fr_completed_at r) (fr_started_at r)) 1000) 999)"
    using clocks unat_u64_less [of "fr_duration_ms r"]
    by (simp add: clocks_agree_def unat_saturating_add unat_saturating_mul unat_saturating_sub)
  then have tm: "\<not> fr_duration_ms r > saturating_add (saturating_mul
      (saturating_sub (fr_completed_at r) (fr_started_at r)) 1000) 999"
    by (simp add: word_less_nat_alt)
  have e: "valid_token (fe_id (fr_engine r)) 1 128" "valid_token (fe_version (fr_engine r)) 1 128"
    "\<not> sanitizers_bad (fe_active_sanitizers (fr_engine r))"
    using c by (auto simp: campaign_result_def validate_fuzz_engine_def res_simps)
  have dg: "valid_digest (fr_corpus_digest r)" and api: "sj_api_version (wi_subject i) = 1"
    using c w by (auto simp: campaign_result_def validate_fuzz_plan_def validate_fuzz_policy_def
        validate_subject_def res_simps)
  have f: "fr_valid_accepted r \<le> fr_valid_inputs r" "fr_malformed_rejected r \<le> fr_malformed_inputs r"
    using b(1) by (simp_all add: report_counters_def)
  have h: "fr_schema_version r = 1" "fr_subject r = wi_subject i" "fr_protocol r = fuzz_protocol"
    "fr_started_at r \<noteq> 0" "\<not> fr_completed_at r < fr_started_at r"
    "\<not> fr_coverage_basis_points r > 10000" "\<not> fr_duration_ms r > max_fuzz_duration_ms"
    using c by (auto simp: campaign_result_def max_worker_duration_ms_def max_fuzz_duration_ms_def)
  show "validate_fuzz_report r (wi_subject i) (fr_started_at r) (fr_completed_at r) = Inr ()"
    unfolding validate_fuzz_report_def h n
    using e dg api f h n tm s by (auto simp: list_ex_iff not_less res_simps)
qed

lemma campaign_evidence_ok:
  assumes c: "campaign_result d c i p corpus tr r" and clocks: "clocks_agree r"
    and doc: "fuzz_parse_json d (parse_fuzz_report c) data max_fuzz_report_bytes
       ''certification.fuzzReportSize'' ''certification.fuzzReportJson'' = Inr r"
  shows "fuzz_evidence_ok d c \<lparr>fv_report_bytes = data, fv_policy_bytes = wi_policy_bytes i,
      fv_executable_bytes = wi_executable_bytes i, fv_corpus_bytes = wi_corpus_bytes i\<rparr>
    (wi_subject i) (fr_started_at r) (fr_completed_at r) r p corpus"
  using c doc campaign_report_valid [OF c clocks] worker_plan_Inr [of d c i p corpus]
  by (simp add: fuzz_evidence_ok_def campaign_result_def)

text \<open>What a trace without a single finding looks like.\<close>

definition flawless :: "execution \<Rightarrow> outcome \<Rightarrow> bool" where
  "flawless q oc \<longleftrightarrow>
     oc_disposition oc = (case xq_class q of ValidCase \<Rightarrow> Accepted | MalformedCase \<Rightarrow> Rejected)
     \<and> oc_safety oc = \<lparr>sf_crash = False, sf_hang = False, sf_sanitizer_failure = False,
         sf_memory_violation = False, sf_stdout_violation = False, sf_stderr_violation = False,
         sf_deadline_violation = False, sf_unreaped = False\<rparr>"

lemma all_decided:
  "seen_decision cl dp tr = seen_class cl tr \<longleftrightarrow>
     (\<forall>(q, oc)\<in>set tr. xq_class q = cl \<longrightarrow> oc_disposition oc = dp)"
proof -
  have "seen_decision cl dp tr \<le> seen_class cl tr" for tr
    unfolding seen_decision_def seen_class_def observed_def
    by (induction tr) (auto simp: le_SucI)
  then show ?thesis
  proof (induction tr)
    case Nil
    then show ?case by (simp add: seen_defs)
  next
    case (Cons x tr)
    have "seen_decision cl dp tr < Suc (seen_class cl tr)" using Cons.prems [of tr] by simp
    with Cons show ?case
      by (auto simp: seen_decision_def seen_class_def observed_def split: prod.splits)
  qed
qed

lemma none_seen:
  "seen_safety f tr = 0 \<longleftrightarrow> (\<forall>(q, oc)\<in>set tr. \<not> f (oc_safety oc))"
  by (simp add: seen_safety_def observed_zero)

lemma flawless_trace:
  assumes t: "tallies (report_counters r) tr" and ok: "fuzz_thresholds r p"
  shows "\<forall>(q, oc)\<in>set tr. flawless q oc"
proof -
  have "seen_decision ValidCase Accepted tr = seen_class ValidCase tr"
    "seen_decision MalformedCase Rejected tr = seen_class MalformedCase tr"
    "seen_safety sf_crash tr = 0" "seen_safety sf_hang tr = 0"
    "seen_safety sf_sanitizer_failure tr = 0" "seen_safety sf_memory_violation tr = 0"
    "seen_safety sf_stdout_violation tr = 0" "seen_safety sf_stderr_violation tr = 0"
    "seen_safety sf_deadline_violation tr = 0" "seen_safety sf_unreaped tr = 0"
    using t ok by (simp_all add: tallies_def fuzz_thresholds_def report_counters_def safety_counts_def)
  then show ?thesis
    unfolding all_decided none_seen flawless_def
    by (fastforce split: case_class.splits)
qed

section \<open>The contract of an executor\<close>

text \<open>
  What the worker counts on but cannot check: an executor that reports a safety finding makes no
  decision about the input, and its engine never changes during a campaign.
\<close>

definition finding :: "safety \<Rightarrow> bool" where
  "finding s \<longleftrightarrow> sf_crash s \<or> sf_hang s \<or> sf_sanitizer_failure s \<or> sf_memory_violation s
     \<or> sf_stdout_violation s \<or> sf_stderr_violation s \<or> sf_deadline_violation s \<or> sf_unreaped s"

definition no_decision_on_finding :: "execution \<Rightarrow> outcome \<Rightarrow> bool" where
  "no_decision_on_finding q oc \<longleftrightarrow> (finding (oc_safety oc) \<longrightarrow> oc_disposition oc = NoDecision)"

lemma keeps_log_calls:
  assumes "\<And>q w oc w'. ex_execute ex q w = (Some oc, w') \<Longrightarrow> P q oc"
  shows "keeps (log_of P) (callE e (ex_execute (logging ex) q))"
    and "keeps (log_of P) (callE e' (ex_engine (logging ex)))"
    and "keeps (log_of P) (callE e'' (ex_coverage (logging ex)))"
    and "keeps (log_of P) (callE e3 (ck_now (logging_clock ck)))"
    and "keeps (log_of P) (readW (ck_mark (logging_clock ck)))"
    and "keeps (log_of P) (readW (ck_elapsed (logging_clock ck) m))"
proof -
  have l: "log_of P (snd (logged (ex_execute ex) q wl))" if "log_of P wl" for wl
    using assms that by (rule log_of_logged)
  show "keeps (log_of P) (callE e (ex_execute (logging ex) q))"
    unfolding logging_simps by (rule keeps_callE) (rule l)
qed (simp_all add: keeps_callE keeps_readW log_of_beside)

lemma keeps_run_repetitions:
  assumes "\<And>q w oc w'. ex_execute ex q w = (Some oc, w') \<Longrightarrow> P q oc"
  shows "keeps (log_of P) (run_repetitions d (logging ex) (logging_clock ck) p corpus sj m n rep k)"
proof -
  note calls = keeps_log_calls [of ex P, OF assms]
  have one: "keeps (log_of P) (run_case d (logging ex) (logging_clock ck) p corpus sj m rep c k)"
    for rep c k
    unfolding run_case_def
    by (auto intro!: keep_rules calls simp del: logging_simps split: option.splits)
  have "keeps (log_of P) (run_cases d (logging ex) (logging_clock ck) p corpus sj m rep cs k)"
    for rep cs k
    by (induction cs arbitrary: k) (auto intro!: keep_rules one split: prod.splits)
  then show ?thesis
    by (induction n arbitrary: rep k) (auto intro!: keep_rules split: prod.splits)
qed

lemma keeps_run_with_clock:
  assumes "\<And>q w oc w'. ex_execute ex q w = (Some oc, w') \<Longrightarrow> P q oc"
  shows "keeps (log_of P) (run_with_clock d c to_vec (logging ex) (logging_clock ck) i)"
  unfolding run_with_clock_def worker_campaign_def
  by (auto intro!: keep_rules keeps_log_calls [of ex P, OF assms]
      keeps_run_repetitions [of ex P, OF assms] simp del: logging_simps split: prod.splits)

lemma run_log:
  assumes "\<And>q w oc w'. ex_execute ex q w = (Some oc, w') \<Longrightarrow> P q oc"
    and "run_with_clock d c to_vec (logging ex) (logging_clock ck) i (w, []) = (r, (w', tr))"
  shows "\<forall>(q, oc)\<in>set tr. P q oc"
  using keeps_run [OF keeps_run_with_clock [of ex P, OF assms(1)] _ assms(2)]
  by (simp add: log_of_def)

locale fail_closed_executor =
  fixes ex :: "'w executor"
  assumes fail_closed: "ex_execute ex q w = (Some oc, w') \<Longrightarrow> no_decision_on_finding q oc"
begin

lemma trace_fail_closed:
  "run_with_clock d c to_vec (logging ex) (logging_clock ck) i (w, []) = (r, (w', tr)) \<Longrightarrow>
    \<forall>(q, oc)\<in>set tr. no_decision_on_finding q oc"
  by (rule run_log [OF fail_closed])

lemma counted_findings:
  assumes "run_with_clock d c to_vec (logging ex) (logging_clock ck) i (w, []) = (r, (w', tr))"
  shows "seen_decision ValidCase Accepted tr + seen_decision MalformedCase Rejected tr
    + observed (\<lambda>q oc. finding (oc_safety oc)) tr \<le> length tr"
proof -
  have "seen_decision ValidCase Accepted tr + seen_decision MalformedCase Rejected tr
    + observed (\<lambda>q oc. finding (oc_safety oc)) tr \<le> length tr"
    if "\<forall>(q, oc)\<in>set tr. no_decision_on_finding q oc" for tr
    using that
  proof (induction tr)
    case (Cons x tr)
    then show ?case
      by (cases x)
         (fastforce simp: seen_decision_def observed_def no_decision_on_finding_def)
  qed (simp add: seen_decision_def)
  with trace_fail_closed [OF assms] show ?thesis by blast
qed

end

locale pinned_executor = fail_closed_executor ex for ex :: "'w executor" +
  fixes engine :: fuzz_engine
  assumes pinned: "ex_engine ex w = (Some e, w') \<Longrightarrow> e = engine"
begin

lemma report_engine:
  assumes "run_with_clock d c to_vec ex ck i w = (Inr out, w')"
  shows "fr_engine (wo_report out) = engine"
  using assms pinned
  by (auto simp: run_with_clock_def worker_campaign_def io_simps worker_report_def)

end

end
