(* ===== verification/Confinement.thy ===== *)
theory Confinement
  imports Worker
begin

text \<open>
  tools/tsp-certification-confinement/src/lib.rs: the adapter between the fuzz worker and a native
  confinement driver. It pins the driver's profile, gives every execution an attempt id of its
  own, checks that the observation is about that attempt under that profile, and derives the
  outcome the worker counts. The driver and the protocol oracle are operations on a world.
\<close>

section \<open>Profiles\<close>

datatype native_platform = Windows | Linux | Macos

datatype native_control =
    FreshProcess
  | FilesystemIsolation
  | NetworkIsolation
  | ProcessTreeIsolation
  | MemoryHardLimit
  | StdoutHardLimit
  | StderrHardLimit
  | DeadlineTermination
  | GuaranteedReap
  | WindowsAppContainer
  | WindowsJobObject
  | LinuxMountNamespace
  | LinuxNetworkNamespace
  | LinuxPidNamespace
  | LinuxSeccomp
  | LinuxLandlock
  | LinuxCgroupV2
  | MacosSandboxProfile
  | MacosProcessGroup
  | MacosResourceLimits

definition windows_controls :: "native_control list" where
  "windows_controls = [FreshProcess, FilesystemIsolation, NetworkIsolation, ProcessTreeIsolation,
     MemoryHardLimit, StdoutHardLimit, StderrHardLimit, DeadlineTermination, GuaranteedReap,
     WindowsAppContainer, WindowsJobObject]"

definition linux_controls :: "native_control list" where
  "linux_controls = [FreshProcess, FilesystemIsolation, NetworkIsolation, ProcessTreeIsolation,
     MemoryHardLimit, StdoutHardLimit, StderrHardLimit, DeadlineTermination, GuaranteedReap,
     LinuxMountNamespace, LinuxNetworkNamespace, LinuxPidNamespace, LinuxSeccomp, LinuxLandlock,
     LinuxCgroupV2]"

definition macos_controls :: "native_control list" where
  "macos_controls = [FreshProcess, FilesystemIsolation, NetworkIsolation, ProcessTreeIsolation,
     MemoryHardLimit, StdoutHardLimit, StderrHardLimit, DeadlineTermination, GuaranteedReap,
     MacosSandboxProfile, MacosProcessGroup, MacosResourceLimits]"

fun required_controls :: "native_platform \<Rightarrow> native_control list" where
  "required_controls Windows = windows_controls"
| "required_controls Linux = linux_controls"
| "required_controls Macos = macos_controls"

record native_profile =
  np_schema_version :: u32
  np_backend_id :: string
  np_backend_version :: string
  np_platform :: native_platform
  np_policy_digest :: string
  np_controls :: "native_control list"
  np_engine :: fuzz_engine

datatype native_termination =
  Exited u32 | Signaled u32 | Exception u32 | DeadlineKilled | MemoryLimitKilled

record native_observation =
  ob_attempt_id :: string
  ob_policy_digest :: string
  ob_applied_controls :: "native_control list"
  ob_active_sanitizers :: "string list"
  ob_termination :: native_termination
  ob_stdout :: bytes
  ob_stderr :: bytes
  ob_duration_ms :: u64
  ob_peak_memory_bytes :: u64
  ob_stdout_limit_exceeded :: bool
  ob_stdout_violation :: bool
  ob_stderr_limit_exceeded :: bool
  ob_sanitizer_failure :: bool
  ob_process_reaped :: bool

record native_assessment =
  as_disposition :: disposition
  as_stdout_violation :: bool

text \<open>\<^verbatim>\<open>NativeConfinementRequest\<close> is the attempt id and the execution.\<close>

record 'w native_driver =
  nd_profile :: "'w \<Rightarrow> native_profile option \<times> 'w"
  nd_execute :: "string \<times> execution \<Rightarrow> 'w \<Rightarrow> native_observation option \<times> 'w"
  nd_coverage :: "'w \<Rightarrow> u32 option \<times> 'w"

type_synonym 'w native_oracle =
  "execution \<Rightarrow> native_observation \<Rightarrow> 'w \<Rightarrow> native_assessment option \<times> 'w"

datatype native_error =
    UnsupportedPlatform
  | InvalidProfile
  | ProfileDrift
  | InvalidExecution
  | DriverFailure
  | InvalidObservation
  | OracleFailure

definition profile_schema_version :: u32 where
  "profile_schema_version = 1"

definition native_token :: "string \<Rightarrow> bool" where
  "native_token value \<longleftrightarrow> value \<noteq> [] \<and> length value \<le> 128
     \<and> list_all (\<lambda>c. is_alnum c \<or> c \<in> {CHR ''.'', CHR ''_'', CHR '':'', CHR ''/'', CHR ''-''}) value"

definition numeric_identifier :: "string \<Rightarrow> bool" where
  "numeric_identifier value \<longleftrightarrow> value \<noteq> [] \<and> list_all is_digit value
     \<and> (value = ''0'' \<or> \<not> starts_with value ''0'')"

definition version_identifiers :: "string \<Rightarrow> bool \<Rightarrow> bool" where
  "version_identifiers value reject_leading_zero \<longleftrightarrow> value \<noteq> []
     \<and> list_all (\<lambda>i. i \<noteq> [] \<and> list_all (\<lambda>c. is_alnum c \<or> c = CHR ''-'') i
         \<and> (\<not> reject_leading_zero \<or> \<not> list_all is_digit i \<or> numeric_identifier i))
       (split_on CHR ''.'' value)"

definition version_core :: "string \<Rightarrow> bool" where
  "version_core core \<longleftrightarrow>
     length (split_on CHR ''.'' core) = 3 \<and> list_all numeric_identifier (split_on CHR ''.'' core)"

definition version_and_pre :: "string \<Rightarrow> bool" where
  "version_and_pre value =
    (case split_on CHR ''-'' value of
       [core] \<Rightarrow> version_core core
     | [core, pre] \<Rightarrow> version_identifiers pre True \<and> version_core core
     | _ \<Rightarrow> False)"

definition native_version :: "string \<Rightarrow> bool" where
  "native_version value =
    (if value = [] \<or> length value > 64 then False
     else case split_on CHR ''+'' value of
            [v] \<Rightarrow> version_and_pre v
          | [v, build] \<Rightarrow> version_identifiers build False \<and> version_and_pre v
          | _ \<Rightarrow> False)"

definition native_digest :: "string \<Rightarrow> bool" where
  "native_digest value \<longleftrightarrow> length value = 71 \<and> starts_with value ''sha256:''
     \<and> list_all (\<lambda>c. is_hexdigit c \<and> \<not> is_upper c) (drop 7 value)"

definition native_engine_ok :: "fuzz_engine \<Rightarrow> bool" where
  "native_engine_ok e \<longleftrightarrow> native_token (fe_id e) \<and> native_version (fe_version e)
     \<and> fe_active_sanitizers e \<noteq> []
     \<and> list_all (\<lambda>s. s \<in> set [''address'', ''leak'', ''memory'', ''thread'', ''undefined''])
         (fe_active_sanitizers e)
     \<and> ascending (fe_active_sanitizers e)"

definition validate_profile :: "native_profile \<Rightarrow> native_platform \<Rightarrow> native_error + unit" where
  "validate_profile p expected =
    (if np_schema_version p \<noteq> profile_schema_version
        \<or> np_platform p \<noteq> expected
        \<or> \<not> native_token (np_backend_id p)
        \<or> \<not> native_version (np_backend_version p)
        \<or> \<not> native_digest (np_policy_digest p)
        \<or> np_controls p \<noteq> required_controls expected
        \<or> \<not> native_engine_ok (np_engine p)
     then Inl InvalidProfile else Inr ())"

section \<open>One execution\<close>

definition subject_matches_platform :: "string \<Rightarrow> native_platform \<Rightarrow> bool" where
  "subject_matches_platform value platform =
    (case platform of
       Windows \<Rightarrow> starts_with value ''windows-''
     | Linux \<Rightarrow> starts_with value ''linux-''
     | Macos \<Rightarrow> starts_with value ''darwin-'')"

definition attempt_preimage :: "execution \<Rightarrow> bytes" where
  "attempt_preimage q = concat (map field
     [sj_release_id (xq_subject q), u64_be (xq_ordinal q), u32_be (xq_repetition q), xq_case_id q])"

definition confinement_attempt_id :: "deps \<Rightarrow> execution \<Rightarrow> string" where
  "confinement_attempt_id d q = ''tsfa1_'' @ hex (sha256 d (attempt_preimage q))"

definition validate_observation ::
  "native_profile \<Rightarrow> execution \<Rightarrow> string \<Rightarrow> native_observation \<Rightarrow> native_error + unit" where
  "validate_observation p q attempt ob =
    (let stdout_limit = unat (fl_stdout_bytes (xq_limits q));
         stderr_limit = unat (fl_stderr_bytes (xq_limits q))
     in if ob_attempt_id ob \<noteq> attempt
           \<or> ob_policy_digest ob \<noteq> np_policy_digest p
           \<or> ob_applied_controls ob \<noteq> np_controls p
           \<or> ob_active_sanitizers ob \<noteq> fe_active_sanitizers (np_engine p)
           \<or> length (ob_stdout ob) > stdout_limit
           \<or> length (ob_stderr ob) > stderr_limit
           \<or> (ob_stdout_limit_exceeded ob \<and> length (ob_stdout ob) \<noteq> stdout_limit)
           \<or> (ob_stderr_limit_exceeded ob \<and> length (ob_stderr ob) \<noteq> stderr_limit)
        then Inl InvalidObservation else Inr ())"

definition observed_crash :: "native_observation \<Rightarrow> bool" where
  "observed_crash ob =
    (case ob_termination ob of Signaled s \<Rightarrow> True | Exception e \<Rightarrow> True | _ \<Rightarrow> False)"

definition observed_deadline :: "execution \<Rightarrow> native_observation \<Rightarrow> bool" where
  "observed_deadline q ob \<longleftrightarrow>
     ob_termination ob = DeadlineKilled \<or> ob_duration_ms ob > xq_deadline_ms q"

definition observed_memory :: "execution \<Rightarrow> native_observation \<Rightarrow> bool" where
  "observed_memory q ob \<longleftrightarrow>
     ob_termination ob = MemoryLimitKilled \<or> ob_peak_memory_bytes ob > fl_memory_bytes (xq_limits q)"

definition observed_safety :: "execution \<Rightarrow> native_observation \<Rightarrow> safety" where
  "observed_safety q ob =
     \<lparr>sf_crash = observed_crash ob, sf_hang = observed_deadline q ob,
      sf_sanitizer_failure = ob_sanitizer_failure ob,
      sf_memory_violation = observed_memory q ob,
      sf_stdout_violation = ob_stdout_limit_exceeded ob \<or> ob_stdout_violation ob,
      sf_stderr_violation = ob_stderr_limit_exceeded ob,
      sf_deadline_violation = observed_deadline q ob,
      sf_unreaped = \<not> ob_process_reaped ob\<rparr>"

section \<open>The executor\<close>

definition current_profile ::
  "'w native_driver \<Rightarrow> native_profile \<Rightarrow> (native_error, 'w, native_profile) eff" where
  "current_profile dr p =
     bindW (callE DriverFailure (nd_profile dr)) (\<lambda>current.
     bindW (ensure (current = p) ProfileDrift) (\<lambda>_. returnW current))"

text \<open>\<^verbatim>\<open>new\<close>: the platform this code was built for (if any), and the profile to pin.\<close>

definition native_new ::
  "native_platform option \<Rightarrow> 'w native_driver \<Rightarrow> (native_error, 'w, native_profile) eff" where
  "native_new platform dr =
    (case platform of
       None \<Rightarrow> liftW (Inl UnsupportedPlatform)
     | Some pf \<Rightarrow>
         bindW (callE DriverFailure (nd_profile dr)) (\<lambda>p.
         bindW (liftW (validate_profile p pf)) (\<lambda>_. returnW p)))"

definition native_engine :: "'w native_driver \<Rightarrow> native_profile \<Rightarrow> (native_error, 'w, fuzz_engine) eff"
where
  "native_engine dr p = bindW (current_profile dr p) (\<lambda>c. returnW (np_engine c))"

definition native_decision ::
  "'w native_oracle \<Rightarrow> execution \<Rightarrow> native_observation \<Rightarrow> (native_error, 'w, outcome) eff" where
  "native_decision orc q ob =
    (if observed_crash ob \<or> observed_deadline q ob \<or> observed_memory q ob \<or> ob_sanitizer_failure ob
        \<or> ob_stdout_limit_exceeded ob \<or> ob_stdout_violation ob \<or> ob_stderr_limit_exceeded ob
        \<or> \<not> ob_process_reaped ob
     then returnW \<lparr>oc_disposition = NoDecision, oc_safety = observed_safety q ob\<rparr>
     else
       bindW (callE OracleFailure (orc q ob)) (\<lambda>a.
         if as_stdout_violation a
         then returnW \<lparr>oc_disposition = NoDecision,
                oc_safety = (observed_safety q ob)\<lparr>sf_stdout_violation := True\<rparr>\<rparr>
         else returnW \<lparr>oc_disposition = as_disposition a, oc_safety = observed_safety q ob\<rparr>))"

definition native_execute ::
  "deps \<Rightarrow> 'w native_driver \<Rightarrow> 'w native_oracle \<Rightarrow> native_profile \<Rightarrow> execution
     \<Rightarrow> (native_error, 'w, outcome) eff" where
  "native_execute d dr orc p q =
     bindW (current_profile dr p) (\<lambda>c.
     bindW (ensure (subject_matches_platform (sj_platform (xq_subject q)) (np_platform c))
       InvalidExecution) (\<lambda>_.
     let attempt = confinement_attempt_id d q
     in bindW (callE DriverFailure (nd_execute dr (attempt, q))) (\<lambda>ob.
        bindW (liftW (validate_observation c q attempt ob)) (\<lambda>_. native_decision orc q ob))))"

definition native_coverage :: "'w native_driver \<Rightarrow> native_profile \<Rightarrow> (native_error, 'w, u32) eff" where
  "native_coverage dr p =
     bindW (current_profile dr p) (\<lambda>_. callE DriverFailure (nd_coverage dr))"

text \<open>The implementation of the worker's trait; the worker sees only that a call failed.\<close>

definition without_error :: "('e, 'w, 'a) eff \<Rightarrow> 'w \<Rightarrow> 'a option \<times> 'w" where
  "without_error m w = (case m w of (Inl e, w') \<Rightarrow> (None, w') | (Inr x, w') \<Rightarrow> (Some x, w'))"

definition native_executor ::
  "deps \<Rightarrow> 'w native_driver \<Rightarrow> 'w native_oracle \<Rightarrow> native_profile \<Rightarrow> 'w executor" where
  "native_executor d dr orc p =
     \<lparr>ex_engine = without_error (native_engine dr p),
      ex_execute = (\<lambda>q. without_error (native_execute d dr orc p q)),
      ex_coverage = without_error (native_coverage dr p)\<rparr>"

lemma without_error_Some: "without_error m w = (Some x, w') \<longleftrightarrow> m w = (Inr x, w')"
  by (auto simp: without_error_def split: prod.splits sum.splits)

section \<open>The executor meets the worker's contract\<close>

lemma native_decision_fail_closed:
  "native_decision orc q ob w = (Inr oc, w') \<Longrightarrow> no_decision_on_finding q oc"
  by (auto simp: native_decision_def io_simps no_decision_on_finding_def finding_def
      observed_safety_def split: if_splits)

lemma native_execute_Inr:
  "native_execute d dr orc p q w = (Inr oc, w') \<longleftrightarrow>
    subject_matches_platform (sj_platform (xq_subject q)) (np_platform p)
    \<and> (\<exists>v ob v'. nd_profile dr w = (Some p, v)
        \<and> nd_execute dr (confinement_attempt_id d q, q) v = (Some ob, v')
        \<and> validate_observation p q (confinement_attempt_id d q) ob = Inr ()
        \<and> native_decision orc q ob v' = (Inr oc, w'))"
  by (auto simp: native_execute_def current_profile_def io_simps Let_def)

interpretation native: pinned_executor "native_executor d dr orc p" "np_engine p" for d dr orc p
proof unfold_locales
  fix q w oc w'
  assume "ex_execute (native_executor d dr orc p) q w = (Some oc, w')"
  then show "no_decision_on_finding q oc"
    by (auto simp: native_executor_def without_error_Some native_execute_Inr
        dest: native_decision_fail_closed)
next
  fix w e w'
  assume "ex_engine (native_executor d dr orc p) w = (Some e, w')"
  then show "e = np_engine p"
    by (auto simp: native_executor_def without_error_Some native_engine_def current_profile_def
        io_simps)
qed

section \<open>Attempt ids\<close>

text \<open>
  The hash of an attempt id is taken over the release, the ordinal, the repetition and the case,
  each preceded by its length: no two executions of one campaign share a preimage.
\<close>

lemma length_u32_be [simp]: "length (u32_be x) = 4"
  by (simp add: u32_be_def)

lemma u32_be_inj: "u32_be x = u32_be y \<Longrightarrow> x = y"
proof -
  assume "u32_be x = u32_be y"
  moreover have "unat x < 256 ^ 4" "unat y < 256 ^ 4"
    using unat_u32_less [of x] unat_u32_less [of y] by simp_all
  ultimately have "unat x = unat y" unfolding u32_be_def by (metis be_inj)
  then show "x = y" by (simp add: word_unat_eq_iff)
qed

definition attempt_fields_ok :: "execution \<Rightarrow> bool" where
  "attempt_fields_ok q \<longleftrightarrow> field_ok (sj_release_id (xq_subject q)) \<and> field_ok (xq_case_id q)"

lemma attempt_preimage_iff:
  assumes "attempt_fields_ok q" and "attempt_fields_ok q'"
  shows "attempt_preimage q = attempt_preimage q' \<longleftrightarrow>
    sj_release_id (xq_subject q) = sj_release_id (xq_subject q') \<and> xq_ordinal q = xq_ordinal q'
    \<and> xq_repetition q = xq_repetition q' \<and> xq_case_id q = xq_case_id q'"
proof -
  let ?parts = "\<lambda>q. [sj_release_id (xq_subject q), u64_be (xq_ordinal q), u32_be (xq_repetition q),
      xq_case_id q]"
  have "list_all field_ok (?parts q)" "list_all field_ok (?parts q')"
    using assms by (simp_all add: attempt_fields_ok_def field_ok_def)
  then have "attempt_preimage q = attempt_preimage q' \<longleftrightarrow> ?parts q = ?parts q'"
    using field_code.sequence_unique [of "?parts q" "?parts q'" "[]" "[]"]
    by (auto simp: attempt_preimage_def)
  then show ?thesis by (auto dest: u64_be_inj u32_be_inj)
qed

lemma attempt_id_collision:
  "confinement_attempt_id d q = confinement_attempt_id d q' \<longleftrightarrow>
     sha256 d (attempt_preimage q) = sha256 d (attempt_preimage q')"
  by (auto simp: confinement_attempt_id_def dest: hex_inj)

lemma requests_ordinal:
  assumes "requests_ok d p corpus sj tr" and "i < length tr"
  shows "unat (xq_ordinal (fst (tr ! i))) = i"
  using assms by (simp add: requests_ok_def execution_ok_def Let_def)

section \<open>Engines\<close>

text \<open>A version of the confinement adapter is a token of the workbench unless it names a build.\<close>

lemma native_token_iff: "native_token v \<longleftrightarrow> valid_token v 1 128"
  by (cases v) (auto simp: native_token_def valid_token_def token_char_def list_all_iff)

lemma numeric_identifier_chars: "numeric_identifier i \<Longrightarrow> c \<in> set i \<Longrightarrow> is_digit c"
  by (simp add: numeric_identifier_def list_all_iff)

lemma version_identifiers_chars:
  assumes "version_identifiers v b" and "c \<in> set v"
  shows "is_alnum c \<or> c = CHR ''-'' \<or> c = CHR ''.''"
  using split_on_chars [OF assms(2), of "CHR ''.''"] assms(1)
  by (auto simp: version_identifiers_def list_all_iff)

lemma version_core_chars:
  assumes "version_core v" and "c \<in> set v"
  shows "is_digit c \<or> c = CHR ''.''"
  using split_on_chars [OF assms(2), of "CHR ''.''"] assms(1)
  by (auto simp: version_core_def list_all_iff numeric_identifier_def)

lemma version_and_pre_chars:
  assumes "version_and_pre v" and "c \<in> set v"
  shows "is_alnum c \<or> c = CHR ''-'' \<or> c = CHR ''.''"
  using split_on_chars [OF assms(2), of "CHR ''-''"] assms(1)
  by (auto simp: version_and_pre_def is_alnum_def split: list.splits
      dest: version_identifiers_chars version_core_chars)

lemma native_version_token:
  assumes "native_version v" and "CHR ''+'' \<notin> set v"
  shows "valid_token v 1 128"
proof -
  have len: "v \<noteq> []" "length v \<le> 64" using assms(1) by (auto simp: native_version_def split: if_splits)
  have "token_char c" if "c \<in> set v" for c
  proof -
    from split_on_chars [OF that, of "CHR ''+''"] that assms(2)
    obtain x where x: "x \<in> set (split_on CHR ''+'' v)" "c \<in> set x" by auto
    with assms(1) len show ?thesis
      by (auto simp: native_version_def token_char_def split: list.splits if_splits
          dest!: version_identifiers_chars version_and_pre_chars)
  qed
  with len show ?thesis by (cases v) (auto simp: valid_token_def list_all_iff)
qed

lemma token_no_plus: "valid_token v m n \<Longrightarrow> CHR ''+'' \<notin> set v"
  by (auto simp: valid_token_def token_char_def list_all_iff ascii_defs)

lemma native_engine_workbench:
  assumes "native_engine_ok e"
  shows "validate_fuzz_engine e corpus = Inr () \<longleftrightarrow>
    CHR ''+'' \<notin> set (fe_version e)
    \<and> set (fl_required_sanitizers (fz_limits corpus)) \<subseteq> set (fe_active_sanitizers e)"
proof -
  have s: "\<not> sanitizers_bad (fe_active_sanitizers e)" "ascending (fe_active_sanitizers e)"
    using assms by (auto simp: native_engine_ok_def sanitizers_bad_def valid_sanitizer_def
        list_ex_iff list_all_iff)
  have "valid_token (fe_version e) 1 128 \<longleftrightarrow> CHR ''+'' \<notin> set (fe_version e)"
    using assms native_version_token token_no_plus by (auto simp: native_engine_ok_def)
  then show ?thesis
    using assms s
    by (auto simp: validate_fuzz_engine_def reject_Inr_iff native_engine_ok_def native_token_iff
        binary_search_iff list_all_iff)
qed

end
