(* ===== verification/Timing.thy ===== *)
theory Timing
  imports Worker
begin

text \<open>
  The clock of a fuzz campaign: a run of the worker as the sequence of its clock readings and
  executions. Every reading is of the time since one mark, set before the first case; an execution
  follows a reading below the policy's maximum and is given what is left of it.
\<close>

datatype 'm campaign_event = Marked 'm | Elapsed 'm u64 | Performed execution outcome

definition watching :: "'w executor \<Rightarrow> ('w \<times> 'm campaign_event list) executor" where
  "watching ex = \<lparr>ex_engine = noting (\<lambda>_. []) (ex_engine ex),
     ex_execute = (\<lambda>q. noting (answered (Performed q)) (ex_execute ex q)),
     ex_coverage = noting (\<lambda>_. []) (ex_coverage ex)\<rparr>"

definition watching_clock ::
  "('w, 'm) worker_clock \<Rightarrow> ('w \<times> 'm campaign_event list, 'm) worker_clock" where
  "watching_clock ck = \<lparr>ck_now = noting (\<lambda>_. []) (ck_now ck),
     ck_mark = noting (\<lambda>m. [Marked m]) (ck_mark ck),
     ck_elapsed = (\<lambda>m. noting (\<lambda>t. [Elapsed m t]) (ck_elapsed ck m))\<rparr>"

lemma watching_simps [simp]:
  "ex_engine (watching ex) = noting (\<lambda>_. []) (ex_engine ex)"
  "ex_execute (watching ex) = (\<lambda>q. noting (answered (Performed q)) (ex_execute ex q))"
  "ex_coverage (watching ex) = noting (\<lambda>_. []) (ex_coverage ex)"
  "ck_now (watching_clock ck) = noting (\<lambda>_. []) (ck_now ck)"
  "ck_mark (watching_clock ck) = noting (\<lambda>m. [Marked m]) (ck_mark ck)"
  "ck_elapsed (watching_clock ck) = (\<lambda>m. noting (\<lambda>t. [Elapsed m t]) (ck_elapsed ck m))"
  by (simp_all add: watching_def watching_clock_def)

section \<open>The watched run is the run\<close>

lemma shadows_watched_repetitions:
  "shadows (run_repetitions d (watching ex) (watching_clock ck) p corpus sj m n rep k)
     (run_repetitions d ex ck p corpus sj m n rep k)"
proof -
  have one: "shadows (run_case d (watching ex) (watching_clock ck) p corpus sj m rep c k)
     (run_case d ex ck p corpus sj m rep c k)" for rep c k
    unfolding run_case_def watching_simps by (auto intro!: shadow_rules split: option.splits)
  have "shadows (run_cases d (watching ex) (watching_clock ck) p corpus sj m rep cs k)
     (run_cases d ex ck p corpus sj m rep cs k)" for rep cs k
    by (induction cs arbitrary: k) (auto intro!: shadow_rules one split: prod.splits)
  then show ?thesis
    by (induction n arbitrary: rep k) (auto intro!: shadow_rules split: prod.splits)
qed

lemma shadows_watched_run:
  "shadows (run_with_clock d c to_vec (watching ex) (watching_clock ck) i)
     (run_with_clock d c to_vec ex ck i)"
  unfolding run_with_clock_def worker_campaign_def watching_simps
  by (auto intro!: shadow_rules shadows_watched_repetitions split: prod.splits)

text \<open>The executions among the events are the trace the executor's own log has.\<close>

definition performed :: "'m campaign_event list \<Rightarrow> trace" where
  "performed es = concat (map (\<lambda>e. case e of Performed q oc \<Rightarrow> [(q, oc)] | _ \<Rightarrow> []) es)"

lemma performed_simps [simp]:
  "performed [] = []" "performed (xs @ ys) = performed xs @ performed ys"
  "performed (Marked m # es) = performed es" "performed (Elapsed m t # es) = performed es"
  "performed (Performed q oc # es) = (q, oc) # performed es"
  by (simp_all add: performed_def)

lemma viewed_calls [view_rules]:
  "viewed performed (callE e (beside op)) (callE e (noting (\<lambda>_. []) op))"
  "viewed performed (readW (beside rd)) (readW (noting (\<lambda>t. [Elapsed m t]) rd))"
  "viewed performed (readW (beside mk)) (readW (noting (\<lambda>m. [Marked m]) mk))"
  "viewed performed (callE e (logged ex q)) (callE e (noting (answered (Performed q)) (ex q)))"
  by (auto simp: viewed_def callE_def readW_def beside_def noting_def logged_def
      split: prod.splits option.splits)

lemma viewed_repetitions:
  "viewed performed (run_repetitions d (logging ex) (logging_clock ck) p corpus sj m n rep k)
     (run_repetitions d (watching ex) (watching_clock ck) p corpus sj m n rep k)"
proof -
  have one: "viewed performed (run_case d (logging ex) (logging_clock ck) p corpus sj m rep c k)
     (run_case d (watching ex) (watching_clock ck) p corpus sj m rep c k)" for rep c k
    unfolding run_case_def watching_simps logging_simps
    by (auto intro!: view_rules split: option.splits)
  have "viewed performed (run_cases d (logging ex) (logging_clock ck) p corpus sj m rep cs k)
     (run_cases d (watching ex) (watching_clock ck) p corpus sj m rep cs k)" for rep cs k
    by (induction cs arbitrary: k) (auto intro!: view_rules one split: prod.splits)
  then show ?thesis
    by (induction n arbitrary: rep k) (auto intro!: view_rules split: prod.splits)
qed

lemma viewed_run_with_clock:
  "viewed performed (run_with_clock d c to_vec (logging ex) (logging_clock ck) i)
     (run_with_clock d c to_vec (watching ex) (watching_clock ck) i)"
  unfolding run_with_clock_def worker_campaign_def watching_simps logging_simps
  by (auto intro!: view_rules viewed_repetitions split: prod.splits)

section \<open>The order of the events\<close>

text \<open>A step of a campaign: what the clock showed, the execution and its outcome.\<close>

type_synonym timed_step = "u64 \<times> execution \<times> outcome"

definition step_events :: "'m \<Rightarrow> timed_step list \<Rightarrow> 'm campaign_event list" where
  "step_events m steps = concat (map (\<lambda>(t, q, oc). [Elapsed m t, Performed q oc]) steps)"

lemma step_events_simps [simp]:
  "step_events m [] = []" "step_events m (xs @ ys) = step_events m xs @ step_events m ys"
  "step_events m ((t, q, oc) # xs) = Elapsed m t # Performed q oc # step_events m xs"
  by (simp_all add: step_events_def)

lemma performed_step_events [simp]: "performed (step_events m steps) = map snd steps"
  by (induction steps) auto

text \<open>Each execution has what is left of the maximum at the reading before it.\<close>

definition within_budget :: "u64 \<Rightarrow> timed_step list \<Rightarrow> bool" where
  "within_budget maximum steps \<longleftrightarrow>
     (\<forall>(t, q, oc)\<in>set steps. t < maximum \<and> xq_remaining_ms q = maximum - t)"

text \<open>
  Out of \<open>n\<close> cases \<open>steps\<close> were run: all of them, or those up to a process that was not reaped, or
  those before a reading that showed the budget used up.
\<close>

definition ran_until :: "u64 \<Rightarrow> 'm \<Rightarrow> nat \<Rightarrow> timed_step list \<Rightarrow> 'm campaign_event list \<Rightarrow> bool \<Rightarrow> bool" where
  "ran_until maximum m n steps late stop \<longleftrightarrow>
     (if \<not> stop then late = [] \<and> length steps = n
      else late = [] \<and> steps \<noteq> [] \<and> length steps \<le> n \<and> sf_unreaped (oc_safety (snd (snd (last steps))))
        \<or> (\<exists>t. late = [Elapsed m t] \<and> maximum \<le> t) \<and> length steps < n)"

lemma watched_case:
  assumes "run_case d (watching ex) (watching_clock ck) p corpus sj m rep c k (w, l)
      = (Inr (k', stop), (w', l'))"
  shows "\<exists>steps late. l' = l @ step_events m steps @ late
    \<and> within_budget (fp_maximum_duration_ms p) steps
    \<and> ran_until (fp_maximum_duration_ms p) m 1 steps late stop"
proof -
  let ?max = "fp_maximum_duration_ms p"
  obtain t v where e: "ck_elapsed ck m w = (t, v)" by (metis surj_pair)
  have late: ?thesis if "l' = l @ [Elapsed m t]" "stop" "?max \<le> t"
    using that by (intro exI [of _ "[]"] exI [of _ "[Elapsed m t]"])
      (simp add: within_budget_def ran_until_def)
  show ?thesis
  proof (cases "checked_sub ?max t")
    case None
    then have "?max \<le> t" by (simp add: checked_sub_def split: if_splits)
    with assms e None late show ?thesis
      by (simp add: run_case_def bindW_eq readW_def returnW_def noting_app)
  next
    case (Some remaining)
    then have r: "t \<le> ?max" "remaining = ?max - t" by (auto simp: checked_sub_def split: if_splits)
    show ?thesis
    proof (cases "remaining = 0")
      case True
      with r have "?max \<le> t" by simp
      with assms e Some True late show ?thesis
        by (simp add: run_case_def bindW_eq readW_def returnW_def noting_app)
    next
      case False
      with r have lt: "t < ?max" by (metis order_le_less right_minus_eq)
      from assms e Some False obtain input oc u where
        x: "ex_execute ex (execution_request corpus sj rep c k input remaining) v = (Some oc, u)"
        and l: "l' = l @ [Elapsed m t,
            Performed (execution_request corpus sj rep c k input remaining) oc]"
        and s: "stop = sf_unreaped (oc_safety oc)"
        by (auto simp: run_case_def io_simps noting_eq)
      have "xq_remaining_ms (execution_request corpus sj rep c k input remaining) = ?max - t"
        using r by (simp add: execution_request_def)
      with l s lt show ?thesis
        by (intro exI [of _ "[(t, execution_request corpus sj rep c k input remaining, oc)]"]
            exI [of _ "[]"]) (auto simp: within_budget_def ran_until_def)
    qed
  qed
qed

text \<open>Runs one after the other, the second only when the first did not stop.\<close>

lemma ran_until_then:
  assumes "ran_until M m n xs [] False" and "ran_until M m n' ys late stop"
  shows "ran_until M m (n + n') (xs @ ys) late stop"
  using assms by (auto simp: ran_until_def split: if_splits)

lemma ran_until_more:
  assumes "ran_until M m n xs late True"
  shows "ran_until M m (n + n') xs late True"
  using assms by (auto simp: ran_until_def)

lemma within_budget_append [simp]:
  "within_budget M (xs @ ys) \<longleftrightarrow> within_budget M xs \<and> within_budget M ys"
  by (simp only: within_budget_def set_append ball_Un)

lemma watched_cases:
  assumes "run_cases d (watching ex) (watching_clock ck) p corpus sj m rep cs k (w, l)
      = (Inr (k', stop), (w', l'))"
  shows "\<exists>steps late. l' = l @ step_events m steps @ late
    \<and> within_budget (fp_maximum_duration_ms p) steps
    \<and> ran_until (fp_maximum_duration_ms p) m (length cs) steps late stop"
  using assms
proof (induction cs arbitrary: k w l)
  case Nil
  then show ?case
    by (intro exI [of _ "[]"] exI [of _ "[]"]) (auto simp: io_simps within_budget_def ran_until_def)
next
  case (Cons c cs)
  obtain k1 stop1 w1 l1 where run: "run_case d (watching ex) (watching_clock ck) p corpus sj m rep c k (w, l)
      = (Inr (k1, stop1), (w1, l1))"
    and rest: "(if stop1 then returnW (k1, True)
       else run_cases d (watching ex) (watching_clock ck) p corpus sj m rep cs k1) (w1, l1)
      = (Inr (k', stop), (w', l'))"
    using Cons.prems(1) by (auto simp: io_simps)
  from watched_case [OF run] obtain xs late where x: "l1 = l @ step_events m xs @ late"
    "within_budget (fp_maximum_duration_ms p) xs"
    "ran_until (fp_maximum_duration_ms p) m 1 xs late stop1" by blast
  show ?case
  proof (cases stop1)
    case True
    then show ?thesis using rest x ran_until_more [of _ m 1 xs late "length cs"]
      by (auto simp: io_simps)
  next
    case False
    then have none: "late = []" using x(3) by (simp add: ran_until_def)
    from Cons.IH rest False obtain ys late' where "l' = l1 @ step_events m ys @ late'"
      "within_budget (fp_maximum_duration_ms p) ys"
      "ran_until (fp_maximum_duration_ms p) m (length cs) ys late' stop" by fastforce
    with x none False ran_until_then [of _ m 1 xs "length cs" ys late' stop] show ?thesis
      by (intro exI [of _ "xs @ ys"] exI [of _ late']) simp
  qed
qed

lemma watched_repetitions:
  assumes "run_repetitions d (watching ex) (watching_clock ck) p corpus sj m n rep k (w, l)
      = (Inr k', (w', l'))"
  shows "\<exists>steps late stop. l' = l @ step_events m steps @ late
    \<and> within_budget (fp_maximum_duration_ms p) steps
    \<and> ran_until (fp_maximum_duration_ms p) m (n * length (fz_cases corpus)) steps late stop"
  using assms
proof (induction n arbitrary: rep k w l)
  case 0
  then show ?case
    by (intro exI [of _ "[]"] exI [of _ False] exI [of _ "[]"])
      (auto simp: io_simps within_budget_def ran_until_def)
next
  case (Suc n)
  let ?len = "length (fz_cases corpus)"
  obtain k1 stop1 w1 l1 where run: "run_cases d (watching ex) (watching_clock ck) p corpus sj m rep
        (fz_cases corpus) k (w, l) = (Inr (k1, stop1), (w1, l1))"
    and rest: "(if stop1 then returnW k1
       else run_repetitions d (watching ex) (watching_clock ck) p corpus sj m n (rep + 1) k1) (w1, l1)
      = (Inr k', (w', l'))"
    using Suc.prems(1) by (auto simp: io_simps)
  from watched_cases [OF run] obtain xs late where x: "l1 = l @ step_events m xs @ late"
    "within_budget (fp_maximum_duration_ms p) xs"
    "ran_until (fp_maximum_duration_ms p) m ?len xs late stop1" by blast
  show ?case
  proof (cases stop1)
    case True
    then show ?thesis using rest x ran_until_more [of _ m ?len xs late "n * ?len"]
      by (auto simp: io_simps)
  next
    case False
    then have none: "late = []" using x(3) by (simp add: ran_until_def)
    from Suc.IH rest False obtain ys late' stop where "l' = l1 @ step_events m ys @ late'"
      "within_budget (fp_maximum_duration_ms p) ys"
      "ran_until (fp_maximum_duration_ms p) m (n * ?len) ys late' stop" by fastforce
    with x none False ran_until_then [of _ m ?len xs "n * ?len" ys late' stop] show ?thesis
      by (intro exI [of _ "xs @ ys"] exI [of _ late'] exI [of _ stop]) simp
  qed
qed

text \<open>The whole run: the mark, the steps, and the reading that the report gives as its duration.\<close>

lemma watched_run:
  assumes "run_with_clock d c to_vec (watching ex) (watching_clock ck) i (w, []) = (Inr out, (w', es))"
    and "worker_plan d c i = Inr (p, corpus)"
  shows "\<exists>m steps late stop.
    es = Marked m # step_events m steps @ late @ [Elapsed m (fr_duration_ms (wo_report out))]
    \<and> within_budget (fp_maximum_duration_ms p) steps
    \<and> ran_until (fp_maximum_duration_ms p) m
        (unat (fz_repetitions corpus) * length (fz_cases corpus)) steps late stop"
proof -
  from assms obtain engine started m k l1 coverage duration completed w1 w2 where
    run: "run_repetitions d (watching ex) (watching_clock ck) p corpus (wi_subject i) m
        (unat (fz_repetitions corpus)) 0 zero_counters (w1, [Marked m]) = (Inr k, (w2, l1))"
    and es: "es = l1 @ [Elapsed m duration]"
    and r: "wo_report out = worker_report d i engine started completed k coverage duration"
    by (auto simp: run_with_clock_def worker_campaign_def io_simps noting_eq)
  have "fr_duration_ms (wo_report out) = duration" by (simp add: r worker_report_def)
  with es watched_repetitions [OF run] show ?thesis by auto
qed

end
