(* ===== verification/Campaign.thy ===== *)
theory Campaign
  imports Confinement Pipeline Timing
begin

text \<open>
  The properties of protocol-fuzz campaigns: the evaluation of a report, the worker that produces
  it, and the confined executor the worker runs on, with a concrete campaign of two cases.
\<close>

section \<open>A concrete campaign\<close>

definition demo_cases :: "fuzz_case list" where
  "demo_cases = [\<lparr>fc_id = ''a'', fc_class = ValidCase, fc_input_base64 = ''AA''\<rparr>,
     \<lparr>fc_id = ''b'', fc_class = MalformedCase, fc_input_base64 = ''BB''\<rparr>]"

definition demo_limits :: fuzz_limits where
  "demo_limits = \<lparr>fl_execution_ms = 50, fl_memory_bytes = 1000, fl_stdout_bytes = 100,
     fl_stderr_bytes = 100, fl_required_sanitizers = [''address'']\<rparr>"

definition demo_corpus :: fuzz_corpus where
  "demo_corpus = \<lparr>fz_schema_version = 1, fz_corpus_id = ''corpus'', fz_protocol = fuzz_protocol,
     fz_repetitions = 2, fz_limits = demo_limits, fz_cases = demo_cases\<rparr>"

definition demo_fuzz_policy :: fuzz_policy where
  "demo_fuzz_policy = \<lparr>fp_schema_version = 1, fp_policy_id = ''policy'',
     fp_protocol = fuzz_protocol, fp_corpus_id = ''corpus'',
     fp_corpus_digest = sha256_digest demo_deps ''corpus'', fp_minimum_executions = 4,
     fp_minimum_valid_inputs = 2, fp_minimum_malformed_inputs = 2,
     fp_minimum_coverage_basis_points = 5000, fp_maximum_duration_ms = 1000\<rparr>"

definition demo_engine :: fuzz_engine where
  "demo_engine = \<lparr>fe_id = ''runner'', fe_version = ''1.0.0'',
     fe_active_sanitizers = [''address'', ''undefined'']\<rparr>"

definition demo_profile :: native_profile where
  "demo_profile = \<lparr>np_schema_version = 1, np_backend_id = ''runner'', np_backend_version = ''1.0.0'',
     np_platform = Linux, np_policy_digest = sha256_digest demo_deps ''confinement'',
     np_controls = linux_controls, np_engine = demo_engine\<rparr>"

text \<open>The world is the monotonic time in milliseconds; an execution takes three.\<close>

definition demo_driver :: "nat native_driver" where
  "demo_driver = \<lparr>nd_profile = (\<lambda>w. (Some demo_profile, w)),
     nd_execute = (\<lambda>(attempt, q) w. (Some \<lparr>ob_attempt_id = attempt,
        ob_policy_digest = np_policy_digest demo_profile, ob_applied_controls = linux_controls,
        ob_active_sanitizers = [''address'', ''undefined''], ob_termination = Exited 0,
        ob_stdout = ''ok'', ob_stderr = [], ob_duration_ms = 3, ob_peak_memory_bytes = 10,
        ob_stdout_limit_exceeded = False, ob_stdout_violation = False,
        ob_stderr_limit_exceeded = False, ob_sanitizer_failure = False,
        ob_process_reaped = True\<rparr>, w + 3)),
     nd_coverage = (\<lambda>w. (Some 9000, w))\<rparr>"

definition demo_oracle :: "nat native_oracle" where
  "demo_oracle q ob w = (Some \<lparr>as_disposition =
     (case xq_class q of ValidCase \<Rightarrow> Accepted | MalformedCase \<Rightarrow> Rejected),
     as_stdout_violation = False\<rparr>, w)"

definition demo_executor :: "nat executor" where
  "demo_executor = native_executor demo_deps demo_driver demo_oracle demo_profile"

definition demo_clock :: "(nat, nat) worker_clock" where
  "demo_clock = \<lparr>ck_now = (\<lambda>w. (Some 100, w)), ck_mark = (\<lambda>w. (w, w)),
     ck_elapsed = (\<lambda>m w. (word_of_nat (w - m), w))\<rparr>"

definition demo_worker_input :: worker_input where
  "demo_worker_input = \<lparr>wi_subject = demo_subject, wi_executable_bytes = ''artifact'',
     wi_corpus_bytes = ''corpus'', wi_policy_bytes = ''policy'', wi_producer = demo_producer\<rparr>"

definition demo_fuzz_report :: fuzz_report where
  "demo_fuzz_report = worker_report demo_deps demo_worker_input demo_engine 100 100
     (zero_counters\<lparr>kt_total := 4, kt_valid := 2, kt_valid_accepted := 2, kt_malformed := 2,
        kt_malformed_rejected := 2\<rparr>) 9000 12"

definition demo_fuzz_codec :: fuzz_codec where
  "demo_fuzz_codec = \<lparr>parse_fuzz_report = (\<lambda>_. Some demo_fuzz_report),
     parse_fuzz_policy = (\<lambda>_. Some demo_fuzz_policy), parse_fuzz_corpus = (\<lambda>_. Some demo_corpus)\<rparr>"

definition demo_to_vec :: "fuzz_report \<Rightarrow> bytes option" where
  "demo_to_vec r = (if r = demo_fuzz_report then Some ''F'' else None)"

lemma demo_fuzz_policy_valid: "validate_fuzz_policy demo_fuzz_policy = Inr ()"
  using demo_more_tokens
  by (simp add: validate_fuzz_policy_def demo_fuzz_policy_def in_range_def max_fuzz_executions_def
      max_fuzz_duration_ms_def)

lemma demo_case_tokens: "valid_token ''a'' 1 128" "valid_token ''b'' 1 128"
  by (simp_all add: valid_token_def token_char_def ascii_defs)

lemma demo_counts: "planned_execution_counts demo_corpus = Inr (4, 2, 2)"
  by (simp add: planned_execution_counts_def demo_corpus_def demo_cases_def valid_count_def Let_def
      checked_mul_def checked_add_def max_fuzz_executions_def)

lemma demo_decode: "decode_fuzz_case demo_deps c =
    (if length (fc_input_base64 c) > max_fuzz_input_bytes then Inl (VErr ''certification.fuzzCorpusCase'')
     else Inr (fc_input_base64 c))"
  by (simp add: decode_fuzz_case_def demo_deps_def)

lemma demo_corpus_valid: "validate_fuzz_corpus demo_deps demo_corpus = Inr ()"
proof -
  have "check_cases demo_deps None 0 0 demo_cases = Inr (1, 1)"
    using demo_case_tokens by (simp add: demo_cases_def demo_decode max_fuzz_input_bytes_def)
  moreover have "check_sanitizers {} None [''address''] = Inr ()"
    by (simp add: valid_sanitizer_def)
  ultimately show ?thesis
    using demo_counts demo_more_tokens
    by (simp add: validate_fuzz_corpus_def)
      (simp add: demo_corpus_def demo_limits_def in_range_def max_fuzz_repetitions_def
        max_fuzz_cases_def max_fuzz_execution_ms_def max_fuzz_memory_bytes_def
        max_fuzz_stream_bytes_def demo_cases_def)
qed

lemma demo_plan: "worker_plan demo_deps demo_fuzz_codec demo_worker_input
    = Inr (demo_fuzz_policy, demo_corpus)"
proof -
  have "parse_certification_fuzz_policy demo_deps demo_fuzz_codec ''policy'' = Inr demo_fuzz_policy"
    "parse_certification_fuzz_corpus demo_deps demo_fuzz_codec ''corpus'' = Inr demo_corpus"
    using demo_fuzz_policy_valid demo_corpus_valid
    by (simp_all add: parse_certification_fuzz_policy_def parse_certification_fuzz_corpus_def
        fuzz_parse_json_def demo_unambiguous demo_fuzz_codec_def max_fuzz_policy_bytes_def
        max_fuzz_corpus_bytes_def)
  moreover have "validate_policy_corpus demo_fuzz_policy demo_corpus = Inr ()"
    by (simp add: validate_policy_corpus_def demo_counts)
       (simp add: demo_fuzz_policy_def demo_corpus_def)
  ultimately show ?thesis
    using demo_subject_ok demo_fuzz_policy_valid demo_corpus_valid
    by (simp add: worker_plan_def demo_worker_input_def validate_fuzz_plan_def)
       (simp add: demo_subject_def demo_fuzz_policy_def)
qed

definition demo_outcome :: "case_class \<Rightarrow> outcome" where
  "demo_outcome cl = \<lparr>oc_disposition = (case cl of ValidCase \<Rightarrow> Accepted | MalformedCase \<Rightarrow> Rejected),
     oc_safety = \<lparr>sf_crash = False, sf_hang = False, sf_sanitizer_failure = False,
       sf_memory_violation = False, sf_stdout_violation = False, sf_stderr_violation = False,
       sf_deadline_violation = False, sf_unreaped = False\<rparr>\<rparr>"

lemma demo_execute:
  assumes "xq_subject q = demo_subject" and "3 \<le> xq_deadline_ms q" and "xq_limits q = demo_limits"
  shows "ex_execute demo_executor q w = (Some (demo_outcome (xq_class q)), w + 3)"
  using assms
  by (simp add: demo_executor_def native_executor_def without_error_def native_execute_def
      current_profile_def callE_def bindW_def ensure_def liftW_def returnW_def demo_driver_def
      demo_profile_def demo_engine_def subject_matches_platform_def validate_observation_def
      native_decision_def observed_crash_def observed_deadline_def observed_memory_def
      observed_safety_def demo_oracle_def Let_def demo_outcome_def)
    (simp add: demo_subject_def demo_limits_def starts_with_def)

lemma demo_case:
  assumes "w \<le> 500" and "c \<in> set demo_cases"
  shows "run_case demo_deps demo_executor demo_clock demo_fuzz_policy demo_corpus demo_subject 0 rep
      c k w
    = (case record_outcome k (fc_class c) (demo_outcome (fc_class c)) of
         Inl e \<Rightarrow> (Inl e, w + 3) | Inr k' \<Rightarrow> (Inr (k', False), w + 3))"
proof -
  have u: "unat (word_of_nat w :: u64) = w" using assms(1) by (intro unat_u64_of_nat) simp
  then have le: "(word_of_nat w :: u64) \<le> 1000" "(1000 :: u64) - word_of_nat w \<noteq> 0"
    "3 \<le> min 50 ((1000 :: u64) - word_of_nat w)"
    using assms(1) by (simp_all add: word_le_nat_alt unat_sub min_def word_unat_eq_iff)
  have d: "decode_fuzz_case demo_deps c = Inr (fc_input_base64 c)"
    using assms(2) by (auto simp: demo_decode demo_cases_def max_fuzz_input_bytes_def)
  have p: "fp_maximum_duration_ms demo_fuzz_policy = 1000" "fz_limits demo_corpus = demo_limits"
    "fl_execution_ms demo_limits = 50"
    by (simp_all add: demo_fuzz_policy_def demo_corpus_def demo_limits_def)
  let ?q = "execution_request demo_corpus demo_subject rep c k (fc_input_base64 c)
      (1000 - word_of_nat w)"
  have x: "ex_execute demo_executor ?q w = (Some (demo_outcome (fc_class c)), w + 3)"
    using demo_execute [of ?q w] le p by (simp add: execution_request_def)
  show ?thesis
    using le d x
    by (simp add: run_case_def bindW_def readW_def callE_def liftW_def returnW_def demo_clock_def
        checked_sub_def p demo_outcome_def split: sum.splits)
qed

lemma demo_engine_valid: "validate_fuzz_engine demo_engine demo_corpus = Inr ()"
proof -
  have "ascending [''address'', ''undefined'']" by code_simp
  then show ?thesis
    using demo_more_tokens
    by (simp add: validate_fuzz_engine_def demo_engine_def sanitizers_bad_def valid_sanitizer_def
        demo_corpus_def demo_limits_def binary_search_iff)
qed

lemma demo_runs:
  "run_repetitions demo_deps demo_executor demo_clock demo_fuzz_policy demo_corpus demo_subject 0 2 0
     zero_counters 0
   = (Inr (zero_counters\<lparr>kt_total := 4, kt_valid := 2, kt_valid_accepted := 2, kt_malformed := 2,
        kt_malformed_rejected := 2\<rparr>), 12)"
proof -
  have r: "record_outcome k cl (demo_outcome cl) = bindR (increment (kt_total k)) (\<lambda>n.
      record_class (k\<lparr>kt_total := n\<rparr>) cl (oc_disposition (demo_outcome cl)))" for k cl
    by (simp add: record_outcome_def record_safety_def demo_outcome_def increment_if_def bindR_def
        split: sum.splits)
  have c: "fz_cases demo_corpus = demo_cases" by (simp add: demo_corpus_def)
  have od: "oc_disposition (demo_outcome ValidCase) = Accepted"
    "oc_disposition (demo_outcome MalformedCase) = Rejected" by (simp_all add: demo_outcome_def)
  show ?thesis
    unfolding numeral_2_eq_2 c run_repetitions.simps
    by (simp add: demo_cases_def demo_case bindW_def r od record_class_def increment_def
        increment_if_def checked_add_def returnW_def zero_counters_def)
qed

lemma demo_campaign: "worker_campaign demo_deps demo_fuzz_codec demo_executor demo_clock
    demo_worker_input 0 = (Inr demo_fuzz_report, 12)"
proof -
  have e: "ex_engine demo_executor w = (Some demo_engine, w)"
    "ex_coverage demo_executor w = (Some 9000, w)" for w
    by (simp_all add: demo_executor_def native_executor_def without_error_def native_engine_def
        native_coverage_def current_profile_def callE_def bindW_def ensure_def liftW_def returnW_def
        demo_driver_def) (simp add: demo_profile_def)
  have r: "unat (fz_repetitions demo_corpus) = 2" by (simp add: demo_corpus_def)
  have s: "wi_subject demo_worker_input = demo_subject" by (simp add: demo_worker_input_def)
  show ?thesis
    using demo_plan demo_engine_valid demo_runs e
    by (simp add: worker_campaign_def bindW_def liftW_def callE_def readW_def returnW_def r s
        demo_clock_def max_worker_duration_ms_def demo_fuzz_report_def)
qed

lemma demo_clocks: "clocks_agree demo_fuzz_report"
  "fr_started_at demo_fuzz_report = 100" "fr_completed_at demo_fuzz_report = 100"
  by (simp_all add: clocks_agree_def demo_fuzz_report_def worker_report_def)

lemma demo_fuzz_doc: "fuzz_parse_json demo_deps (parse_fuzz_report demo_fuzz_codec) ''F''
    max_fuzz_report_bytes ''certification.fuzzReportSize'' ''certification.fuzzReportJson''
  = Inr demo_fuzz_report"
  by (simp add: fuzz_parse_json_def demo_unambiguous demo_fuzz_codec_def max_fuzz_report_bytes_def)

lemma demo_worker_context: "run_context_ok demo_producer 100 100"
  using demo_run_context by (simp add: run_context_ok_def saturating_sub_def)

section \<open>Properties\<close>

text \<open>A run that returned is a campaign, an evaluation, and a trace that explains both.\<close>

lemma worker_run_trace:
  assumes "run_with_clock d c to_vec ex ck i w = (Inr out, w')"
  shows "\<exists>tr p corpus. run_with_clock d c to_vec (logging ex) (logging_clock ck) i (w, [])
        = (Inr out, (w', tr))
    \<and> campaign_result d c i p corpus tr (wo_report out)
    \<and> to_vec (wo_report out) = Some (wo_report_bytes out)
    \<and> evaluate_protocol_fuzzing d c \<lparr>fv_report_bytes = wo_report_bytes out,
         fv_policy_bytes = wi_policy_bytes i, fv_executable_bytes = wi_executable_bytes i,
         fv_corpus_bytes = wi_corpus_bytes i\<rparr> (wi_subject i) (wi_producer i)
         (fr_started_at (wo_report out)) (fr_completed_at (wo_report out)) = Inr (wo_stage out)"
proof -
  from shadows_run [OF shadows_run_with_clock assms, of "[]"] obtain tr where
    run: "run_with_clock d c to_vec (logging ex) (logging_clock ck) i (w, []) = (Inr out, (w', tr))"
    by blast
  then obtain r where r: "worker_campaign d c (logging ex) (logging_clock ck) i (w, [])
      = (Inr r, (w', tr))" and o: "wo_report out = r"
    by (auto simp: run_with_clock_def io_simps)
  from worker_campaign_result [OF r] obtain p corpus where "campaign_result d c i p corpus tr r" by blast
  with run o show ?thesis
    by (intro exI [of _ tr] exI [of _ p] exI [of _ corpus])
       (auto simp: run_with_clock_def io_simps res_simps)
qed

lemma campaign_evaluates:
  assumes "sha256_length d" and "run_context_ok (wi_producer i) (fr_started_at r) (fr_completed_at r)"
    and c: "campaign_result d c i p corpus tr r" and "clocks_agree r"
    and "fuzz_parse_json d (parse_fuzz_report c) data max_fuzz_report_bytes
       ''certification.fuzzReportSize'' ''certification.fuzzReportJson'' = Inr r"
  shows "\<exists>s. evaluate_protocol_fuzzing d c \<lparr>fv_report_bytes = data,
      fv_policy_bytes = wi_policy_bytes i, fv_executable_bytes = wi_executable_bytes i,
      fv_corpus_bytes = wi_corpus_bytes i\<rparr> (wi_subject i) (wi_producer i)
      (fr_started_at r) (fr_completed_at r) = Inr s \<and> st_ok s = fuzz_thresholds r p"
proof (rule fuzz_complete)
  have "worker_plan d c i = Inr (p, corpus)" using c by (simp add: campaign_result_def)
  then show "subject_contract d (wi_subject i)"
    using worker_plan_Inr by (simp add: subject_contract_def)
qed (use assms campaign_evidence_ok in blast)+

lemma demo_worker_run:
  "\<exists>s. run_with_clock demo_deps demo_fuzz_codec demo_to_vec demo_executor demo_clock
      demo_worker_input 0 = (Inr \<lparr>wo_report = demo_fuzz_report, wo_report_bytes = ''F'',
        wo_stage = s\<rparr>, 12) \<and> st_ok s"
proof -
  from shadows_run [OF shadows_worker_campaign demo_campaign, of "[]"] obtain tr where
    "worker_campaign demo_deps demo_fuzz_codec (logging demo_executor) (logging_clock demo_clock)
      demo_worker_input (0, []) = (Inr demo_fuzz_report, (12, tr))" by blast
  from worker_campaign_result [OF this] obtain p corpus where
    c: "campaign_result demo_deps demo_fuzz_codec demo_worker_input p corpus tr demo_fuzz_report"
    by blast
  then have p: "p = demo_fuzz_policy" using demo_plan by (simp add: campaign_result_def)
  have "run_context_ok (wi_producer demo_worker_input) (fr_started_at demo_fuzz_report)
      (fr_completed_at demo_fuzz_report)"
    using demo_worker_context by (simp add: demo_clocks demo_worker_input_def)
  from campaign_evaluates [OF demo_deps_laws(1) this c demo_clocks(1) demo_fuzz_doc] obtain s where
    s: "evaluate_protocol_fuzzing demo_deps demo_fuzz_codec \<lparr>fv_report_bytes = ''F'',
      fv_policy_bytes = wi_policy_bytes demo_worker_input,
      fv_executable_bytes = wi_executable_bytes demo_worker_input,
      fv_corpus_bytes = wi_corpus_bytes demo_worker_input\<rparr> (wi_subject demo_worker_input)
      (wi_producer demo_worker_input) (fr_started_at demo_fuzz_report)
      (fr_completed_at demo_fuzz_report) = Inr s" "st_ok s = fuzz_thresholds demo_fuzz_report p"
    by blast
  have "fuzz_thresholds demo_fuzz_report demo_fuzz_policy"
    by (simp add: fuzz_thresholds_def demo_fuzz_report_def worker_report_def zero_counters_def
        safety_counts_def demo_fuzz_policy_def)
  with s p demo_campaign show ?thesis
    by (simp add: run_with_clock_def bindW_def liftW_def returnW_def demo_to_vec_def)
qed

text \<open>The protocol-fuzzing stage is sound: a stage that is produced satisfies the stage contract
  for the subject, and is marked ok exactly when the report meets every threshold of the policy,
  classified every input correctly and counts no safety event of any kind; the corpus digest of
  the report and of the policy is that of the corpus used, and the executions counted are within
  the corpus' plan over unbounded naturals.\<close>
lemma fuzz_stage_sound:
  assumes "evaluate_protocol_fuzzing d c ev sj prd started completed = Inr s"
  shows "\<exists>r p corpus. parse_fuzz_report c (fv_report_bytes ev) = Some r
    \<and> parse_fuzz_policy c (fv_policy_bytes ev) = Some p
    \<and> parse_fuzz_corpus c (fv_corpus_bytes ev) = Some corpus
    \<and> stage_contract d s sj \<and> st_requirement s = ProtocolFuzzing
    \<and> (st_ok s \<longleftrightarrow> fuzz_thresholds r p)
    \<and> fr_corpus_digest r = sha256_digest d (fv_corpus_bytes ev) \<and> fp_corpus_digest p = fr_corpus_digest r
    \<and> unat (fr_total_executions r) = unat (fr_valid_inputs r) + unat (fr_malformed_inputs r)
    \<and> unat (fr_valid_inputs r) \<le> plan_valid corpus \<and> unat (fr_malformed_inputs r) \<le> plan_malformed corpus"
proof -
  from fuzz_sound [OF assms] obtain r p corpus where
    e: "fuzz_evidence_ok d c ev sj started completed r p corpus"
    and s: "stage_contract d s sj" "st_requirement s = ProtocolFuzzing"
      "st_ok s \<longleftrightarrow> fuzz_thresholds r p" by blast
  have small: "corpus_small corpus"
    using e by (auto simp: fuzz_evidence_ok_def parse_certification_fuzz_corpus_def res_simps
        intro: validate_fuzz_corpus_small)
  from e obtain t v m where counts: "planned_execution_counts corpus = Inr (t, v, m)"
    and le: "fr_valid_inputs r \<le> v" "fr_malformed_inputs r \<le> m"
    by (auto simp: fuzz_evidence_ok_def validate_report_corpus_def res_simps not_less)
  have "unat (fr_valid_inputs r) \<le> plan_valid corpus" "unat (fr_malformed_inputs r) \<le> plan_malformed corpus"
    using planned_execution_counts_Inr [OF small counts] le by (simp_all add: word_le_nat_alt)
  with e s validate_fuzz_report_Inr [of r sj started completed] show ?thesis
    by (intro exI [of _ r] exI [of _ p] exI [of _ corpus])
       (auto simp: fuzz_evidence_ok_def fuzz_parse_json_def parse_certification_fuzz_policy_def
         parse_certification_fuzz_corpus_def validate_fuzz_plan_def res_simps)
qed

lemma fuzz_stage_sound_witness:
  "\<exists>s r p corpus. parse_fuzz_report demo_fuzz_codec ''F'' = Some r
     \<and> parse_fuzz_policy demo_fuzz_codec ''policy'' = Some p
     \<and> parse_fuzz_corpus demo_fuzz_codec ''corpus'' = Some corpus
     \<and> stage_contract demo_deps s demo_subject \<and> st_ok s
     \<and> unat (fr_total_executions r) = unat (fr_valid_inputs r) + unat (fr_malformed_inputs r)"
proof -
  from demo_worker_run obtain s where "run_with_clock demo_deps demo_fuzz_codec demo_to_vec
      demo_executor demo_clock demo_worker_input 0 = (Inr \<lparr>wo_report = demo_fuzz_report,
        wo_report_bytes = ''F'', wo_stage = s\<rparr>, 12)" and ok: "st_ok s" by blast
  then have "evaluate_protocol_fuzzing demo_deps demo_fuzz_codec \<lparr>fv_report_bytes = ''F'',
      fv_policy_bytes = ''policy'', fv_executable_bytes = ''artifact'', fv_corpus_bytes = ''corpus''\<rparr>
      demo_subject demo_producer 100 100 = Inr s"
    using worker_run_trace by (force simp: demo_clocks demo_worker_input_def)
  from fuzz_stage_sound [OF this] ok show ?thesis by auto
qed

text \<open>And it is complete: well-formed evidence for a valid subject, run by a well-formed
  producer, always yields a stage; the eight-term sum of the safety counters cannot overflow and
  nothing the evaluator writes into the stage is what rejects it.\<close>
lemma fuzz_stage_complete:
  assumes "sha256_length d" and "validate_subject d sj = Inr ()"
    and "run_context_ok prd started completed"
    and "fuzz_evidence_ok d c ev sj started completed r p corpus"
  shows "\<exists>s. evaluate_protocol_fuzzing d c ev sj prd started completed = Inr s
    \<and> st_ok s = fuzz_thresholds r p"
  using assms by (intro fuzz_complete) (simp_all add: subject_contract_def)

lemma demo_campaign_result:
  "\<exists>tr. campaign_result demo_deps demo_fuzz_codec demo_worker_input demo_fuzz_policy demo_corpus tr
     demo_fuzz_report"
proof -
  from shadows_run [OF shadows_worker_campaign demo_campaign, of "[]"] obtain tr where
    "worker_campaign demo_deps demo_fuzz_codec (logging demo_executor) (logging_clock demo_clock)
      demo_worker_input (0, []) = (Inr demo_fuzz_report, (12, tr))" by blast
  from worker_campaign_result [OF this] obtain p corpus where
    c: "campaign_result demo_deps demo_fuzz_codec demo_worker_input p corpus tr demo_fuzz_report"
    by blast
  then have "p = demo_fuzz_policy" "corpus = demo_corpus"
    using demo_plan by (simp_all add: campaign_result_def)
  with c show ?thesis by blast
qed

lemma fuzz_stage_complete_witness:
  "\<exists>s. evaluate_protocol_fuzzing demo_deps demo_fuzz_codec \<lparr>fv_report_bytes = ''F'',
      fv_policy_bytes = ''policy'', fv_executable_bytes = ''artifact'', fv_corpus_bytes = ''corpus''\<rparr>
      demo_subject demo_producer 100 100 = Inr s
    \<and> st_ok s = fuzz_thresholds demo_fuzz_report demo_fuzz_policy"
proof -
  from demo_campaign_result obtain tr where c: "campaign_result demo_deps demo_fuzz_codec
      demo_worker_input demo_fuzz_policy demo_corpus tr demo_fuzz_report" by blast
  from campaign_evidence_ok [OF c demo_clocks(1) demo_fuzz_doc]
  have "fuzz_evidence_ok demo_deps demo_fuzz_codec \<lparr>fv_report_bytes = ''F'',
      fv_policy_bytes = ''policy'', fv_executable_bytes = ''artifact'', fv_corpus_bytes = ''corpus''\<rparr>
      demo_subject 100 100 demo_fuzz_report demo_fuzz_policy demo_corpus"
    by (simp add: demo_clocks) (simp add: demo_worker_input_def)
  then show ?thesis
    by (rule fuzz_stage_complete [OF demo_deps_laws(1) demo_subject_ok demo_worker_context])
qed

lemma worker_events:
  assumes "run_with_clock d c to_vec ex ck i w = (Inr out, w')"
  shows "\<exists>es p corpus m steps late stop.
      run_with_clock d c to_vec (watching ex) (watching_clock ck) i (w, []) = (Inr out, (w', es))
    \<and> run_with_clock d c to_vec (logging ex) (logging_clock ck) i (w, [])
        = (Inr out, (w', map snd steps))
    \<and> es = Marked m # step_events m steps @ late @ [Elapsed m (fr_duration_ms (wo_report out))]
    \<and> within_budget (fp_maximum_duration_ms p) steps
    \<and> ran_until (fp_maximum_duration_ms p) m
        (unat (fz_repetitions corpus) * length (fz_cases corpus)) steps late stop
    \<and> campaign_result d c i p corpus (map snd steps) (wo_report out)"
proof -
  from shadows_run [OF shadows_watched_run assms, of "[]"] obtain es where
    es: "run_with_clock d c to_vec (watching ex) (watching_clock ck) i (w, []) = (Inr out, (w', es))"
    by blast
  then have run: "run_with_clock d c to_vec (logging ex) (logging_clock ck) i (w, [])
      = (Inr out, (w', performed es))"
    using viewed_run [OF viewed_run_with_clock es] by simp
  with worker_run_trace [OF assms] obtain p corpus where
    c: "campaign_result d c i p corpus (performed es) (wo_report out)" by auto
  then have "worker_plan d c i = Inr (p, corpus)" by (simp add: campaign_result_def)
  from watched_run [OF es this] obtain m steps late stop where
    e: "es = Marked m # step_events m steps @ late @ [Elapsed m (fr_duration_ms (wo_report out))]"
      "within_budget (fp_maximum_duration_ms p) steps"
    and u: "ran_until (fp_maximum_duration_ms p) m
        (unat (fz_repetitions corpus) * length (fz_cases corpus)) steps late stop" by blast
  have "performed late = []" using u by (auto simp: ran_until_def split: if_splits)
  then have "performed es = map snd steps" by (simp add: e(1))
  with es run c e u show ?thesis by metis
qed

text \<open>C6: what a campaign does, from the first reading of the clock to the last, and that its
  report is exactly what its executor observed. A run that returns sets one mark and then reads the
  clock before each execution; each reading counts from that mark and shows less than the policy's
  maximum, and the execution that follows is given exactly what is left of the maximum, and the
  smaller of that and the corpus's deadline as its own deadline. The i-th execution runs case i mod
  n of the corpus in repetition i div n, with the decoded input. The campaign ends when every case
  has been run in every repetition, with the first process that was not reaped, or with a reading
  that shows the maximum used up, and not before; a last reading is the duration of the report,
  every counter of which is the number of executions of its kind.\<close>
theorem worker_observations_exact:
  assumes "run_with_clock d c to_vec ex ck i w = (Inr out, w')"
  shows "\<exists>p corpus m steps late stop.
      worker_plan d c i = Inr (p, corpus)
    \<and> run_with_clock d c to_vec (watching ex) (watching_clock ck) i (w, [])
        = (Inr out, (w', Marked m # step_events m steps @ late
            @ [Elapsed m (fr_duration_ms (wo_report out))]))
    \<and> within_budget (fp_maximum_duration_ms p) steps
    \<and> ran_until (fp_maximum_duration_ms p) m
        (unat (fz_repetitions corpus) * length (fz_cases corpus)) steps late stop
    \<and> requests_ok d p corpus (wi_subject i) (map snd steps)
    \<and> tallies (report_counters (wo_report out)) (map snd steps)
    \<and> all_reaped (butlast (map snd steps))"
proof -
  from worker_events [OF assms] obtain p corpus m steps late stop where
    "run_with_clock d c to_vec (watching ex) (watching_clock ck) i (w, [])
        = (Inr out, (w', Marked m # step_events m steps @ late
            @ [Elapsed m (fr_duration_ms (wo_report out))]))"
    "within_budget (fp_maximum_duration_ms p) steps"
    "ran_until (fp_maximum_duration_ms p) m
        (unat (fz_repetitions corpus) * length (fz_cases corpus)) steps late stop"
    "campaign_result d c i p corpus (map snd steps) (wo_report out)" by blast
  then show ?thesis
    by (intro exI [of _ p] exI [of _ corpus] exI [of _ m] exI [of _ steps] exI [of _ late]
        exI [of _ stop]) (simp add: campaign_result_def campaign_inv_def)
qed

theorem worker_observations_exact_witness:
  "\<exists>p corpus m steps late es. worker_plan demo_deps demo_fuzz_codec demo_worker_input = Inr (p, corpus)
    \<and> es = Marked m # step_events m steps @ late @ [Elapsed m 12]
    \<and> within_budget (fp_maximum_duration_ms p) steps \<and> length steps = 4
    \<and> requests_ok demo_deps p corpus demo_subject (map snd steps)"
proof -
  from demo_worker_run obtain s where run: "run_with_clock demo_deps demo_fuzz_codec
      demo_to_vec demo_executor demo_clock demo_worker_input 0 = (Inr
        \<lparr>wo_report = demo_fuzz_report, wo_report_bytes = ''F'', wo_stage = s\<rparr>, 12)" by blast
  have s: "wi_subject demo_worker_input = demo_subject" by (simp add: demo_worker_input_def)
  have "fr_duration_ms demo_fuzz_report = 12" "fr_total_executions demo_fuzz_report = 4"
    by (simp_all add: demo_fuzz_report_def worker_report_def)
  with worker_observations_exact [OF run] show ?thesis
    by (auto simp: s tallies_def report_counters_def)
qed

text \<open>A campaign whose stage is marked ok was flawless: when the report is read back as it was
  written, every execution of the trace decided its input the right way and showed no safety
  finding, and there were at least as many executions as the policy asks for.\<close>
lemma worker_ok_flawless:
  assumes "run_with_clock d c to_vec ex ck i w = (Inr out, w')" and "st_ok (wo_stage out)"
    and "\<And>r data. to_vec r = Some data \<Longrightarrow> parse_fuzz_report c data = Some r"
  shows "\<exists>tr p corpus. run_with_clock d c to_vec (logging ex) (logging_clock ck) i (w, [])
        = (Inr out, (w', tr))
    \<and> worker_plan d c i = Inr (p, corpus)
    \<and> (\<forall>(q, oc)\<in>set tr. flawless q oc)
    \<and> unat (fp_minimum_executions p) \<le> length tr"
proof -
  from worker_run_trace [OF assms(1)] obtain tr p corpus where
    run: "run_with_clock d c to_vec (logging ex) (logging_clock ck) i (w, []) = (Inr out, (w', tr))"
    and c: "campaign_result d c i p corpus tr (wo_report out)"
    and vec: "to_vec (wo_report out) = Some (wo_report_bytes out)"
    and ev: "evaluate_protocol_fuzzing d c \<lparr>fv_report_bytes = wo_report_bytes out,
         fv_policy_bytes = wi_policy_bytes i, fv_executable_bytes = wi_executable_bytes i,
         fv_corpus_bytes = wi_corpus_bytes i\<rparr> (wi_subject i) (wi_producer i)
         (fr_started_at (wo_report out)) (fr_completed_at (wo_report out)) = Inr (wo_stage out)"
    by blast
  have plan: "worker_plan d c i = Inr (p, corpus)" and t: "tallies (report_counters (wo_report out)) tr"
    using c by (simp_all add: campaign_result_def campaign_inv_def)
  from fuzz_sound [OF ev] assms(2) obtain r p' corpus' where
    "fuzz_evidence_ok d c \<lparr>fv_report_bytes = wo_report_bytes out,
       fv_policy_bytes = wi_policy_bytes i, fv_executable_bytes = wi_executable_bytes i,
       fv_corpus_bytes = wi_corpus_bytes i\<rparr> (wi_subject i) (fr_started_at (wo_report out))
       (fr_completed_at (wo_report out)) r p' corpus'" and th: "fuzz_thresholds r p'" by blast
  then have "r = wo_report out" "p' = p"
    using assms(3) [OF vec] worker_plan_Inr [OF plan]
    by (simp_all add: fuzz_evidence_ok_def fuzz_parse_json_def res_simps)
  with th flawless_trace [OF t, of p] t run plan show ?thesis
    by (intro exI [of _ tr] exI [of _ p] exI [of _ corpus])
       (simp add: fuzz_thresholds_def tallies_def report_counters_def)
qed

lemma worker_ok_flawless_witness:
  "\<exists>tr p corpus. worker_plan demo_deps demo_fuzz_codec demo_worker_input = Inr (p, corpus)
    \<and> (\<forall>(q, oc)\<in>set tr. flawless q oc) \<and> unat (fp_minimum_executions p) \<le> length tr"
proof -
  from demo_worker_run obtain s where run: "run_with_clock demo_deps demo_fuzz_codec
      demo_to_vec demo_executor demo_clock demo_worker_input 0 = (Inr
        \<lparr>wo_report = demo_fuzz_report, wo_report_bytes = ''F'', wo_stage = s\<rparr>, 12)"
    and ok: "st_ok s" by blast
  have "parse_fuzz_report demo_fuzz_codec data = Some r" if "demo_to_vec r = Some data" for r data
    using that by (simp add: demo_to_vec_def demo_fuzz_codec_def split: if_splits)
  from worker_ok_flawless [OF run _ this] ok show ?thesis by auto
qed

text \<open>C27: the worker never rejects its own campaign: once the campaign has produced a report, that
  report passes every accounting check of the independent evaluator, so the run returns it with its
  stage. What the caller must provide is a well-formed producer and time window, a serializer whose
  output is read back, and a wall clock that agrees with the monotonic one to a second.\<close>
theorem worker_completes:
  assumes "sha256_length d" and "worker_campaign d c ex ck i w = (Inr r, w')"
    and "run_context_ok (wi_producer i) (fr_started_at r) (fr_completed_at r)" and "clocks_agree r"
    and "to_vec r = Some data"
    and "fuzz_parse_json d (parse_fuzz_report c) data max_fuzz_report_bytes
       ''certification.fuzzReportSize'' ''certification.fuzzReportJson'' = Inr r"
  shows "\<exists>s. run_with_clock d c to_vec ex ck i w
      = (Inr \<lparr>wo_report = r, wo_report_bytes = data, wo_stage = s\<rparr>, w')
    \<and> stage_contract d s (wi_subject i)"
proof -
  from shadows_run [OF shadows_worker_campaign assms(2), of "[]"] obtain tr where
    "worker_campaign d c (logging ex) (logging_clock ck) i (w, []) = (Inr r, (w', tr))" by blast
  from worker_campaign_result [OF this] obtain p corpus where
    c: "campaign_result d c i p corpus tr r" by blast
  from campaign_evaluates [OF assms(1,3) c assms(4,6)] obtain s where
    s: "evaluate_protocol_fuzzing d c \<lparr>fv_report_bytes = data,
      fv_policy_bytes = wi_policy_bytes i, fv_executable_bytes = wi_executable_bytes i,
      fv_corpus_bytes = wi_corpus_bytes i\<rparr> (wi_subject i) (wi_producer i)
      (fr_started_at r) (fr_completed_at r) = Inr s" by blast
  with fuzz_sound [OF s] assms(2,5) show ?thesis
    by (auto simp: run_with_clock_def bindW_def liftW_def returnW_def)
qed

theorem worker_completes_witness:
  "\<exists>s. run_with_clock demo_deps demo_fuzz_codec demo_to_vec demo_executor demo_clock
      demo_worker_input 0 = (Inr \<lparr>wo_report = demo_fuzz_report, wo_report_bytes = ''F'',
        wo_stage = s\<rparr>, 12) \<and> stage_contract demo_deps s demo_subject"
proof -
  have "run_context_ok (wi_producer demo_worker_input) (fr_started_at demo_fuzz_report)
      (fr_completed_at demo_fuzz_report)" "wi_subject demo_worker_input = demo_subject"
    using demo_worker_context by (simp_all add: demo_clocks demo_worker_input_def)
  moreover have "demo_to_vec demo_fuzz_report = Some ''F''" by (simp add: demo_to_vec_def)
  ultimately show ?thesis
    using worker_completes [OF demo_deps_laws(1) demo_campaign _ demo_clocks(1) _ demo_fuzz_doc]
    by simp
qed

text \<open>C17: the confined executor fails closed: when it returns a decision about an input, the pinned
  profile is still in force and matches the subject's platform, the observation is about this very
  attempt under this profile's policy, controls and sanitizers, the process exited by itself within
  its deadline and memory limit and was reaped, its output was within the limits, and no safety
  finding is reported.\<close>
theorem native_decision_confined:
  assumes "native_execute d dr orc p q w = (Inr oc, w')" and "oc_disposition oc \<noteq> NoDecision"
  shows "\<exists>ob v v'. nd_profile dr w = (Some p, v)
    \<and> nd_execute dr (confinement_attempt_id d q, q) v = (Some ob, v')
    \<and> subject_matches_platform (sj_platform (xq_subject q)) (np_platform p)
    \<and> ob_attempt_id ob = confinement_attempt_id d q
    \<and> ob_policy_digest ob = np_policy_digest p \<and> ob_applied_controls ob = np_controls p
    \<and> ob_active_sanitizers ob = fe_active_sanitizers (np_engine p)
    \<and> (\<exists>code. ob_termination ob = Exited code) \<and> ob_process_reaped ob
    \<and> ob_duration_ms ob \<le> xq_deadline_ms q
    \<and> ob_peak_memory_bytes ob \<le> fl_memory_bytes (xq_limits q)
    \<and> length (ob_stdout ob) \<le> unat (fl_stdout_bytes (xq_limits q))
    \<and> length (ob_stderr ob) \<le> unat (fl_stderr_bytes (xq_limits q))
    \<and> \<not> finding (oc_safety oc)"
proof -
  from assms(1) obtain v ob v' where
    e: "subject_matches_platform (sj_platform (xq_subject q)) (np_platform p)"
      "nd_profile dr w = (Some p, v)"
      "nd_execute dr (confinement_attempt_id d q, q) v = (Some ob, v')"
    and o: "validate_observation p q (confinement_attempt_id d q) ob = Inr ()"
    and dec: "native_decision orc q ob v' = (Inr oc, w')"
    by (auto simp: native_execute_Inr)
  have t: "\<not> observed_crash ob" "\<not> observed_deadline q ob" "\<not> observed_memory q ob"
    "ob_process_reaped ob"
    using dec assms(2) by (auto simp: native_decision_def io_simps split: if_splits)
  have "\<exists>code. ob_termination ob = Exited code"
    using t by (cases "ob_termination ob")
      (simp_all add: observed_crash_def observed_deadline_def observed_memory_def)
  moreover have "\<not> finding (oc_safety oc)"
    using native_decision_fail_closed [OF dec] assms(2) by (auto simp: no_decision_on_finding_def)
  ultimately show ?thesis
    using e o t
    by (intro exI [of _ ob] exI [of _ v] exI [of _ v'])
       (auto simp: validate_observation_def Let_def observed_deadline_def observed_memory_def
         split: if_splits)
qed

text \<open>So a campaign on the confined executor never counts an execution twice: accepted valid
  inputs, rejected malformed inputs and executions with a safety finding are disjoint, hence their
  number is at most the number of executions, and the engine in the report is the pinned one.\<close>
lemma confined_campaign_accounting:
  assumes "run_with_clock d c to_vec (native_executor d dr orc p) ck i w = (Inr out, w')"
  shows "\<exists>tr. tallies (report_counters (wo_report out)) tr
    \<and> unat (fr_valid_accepted (wo_report out)) + unat (fr_malformed_rejected (wo_report out))
        + observed (\<lambda>q oc. finding (oc_safety oc)) tr \<le> unat (fr_total_executions (wo_report out))
    \<and> fr_engine (wo_report out) = np_engine p"
proof -
  from worker_run_trace [OF assms] obtain tr pl corpus where
    run: "run_with_clock d c to_vec (logging (native_executor d dr orc p)) (logging_clock ck) i (w, [])
      = (Inr out, (w', tr))"
    and c: "campaign_result d c i pl corpus tr (wo_report out)" by blast
  then have t: "tallies (report_counters (wo_report out)) tr"
    by (simp add: campaign_result_def campaign_inv_def)
  with native.counted_findings [OF run] native.report_engine [OF assms] show ?thesis
    by (intro exI [of _ tr]) (simp add: tallies_def report_counters_def)
qed

lemma demo_native_run:
  "\<exists>w'. native_execute demo_deps demo_driver demo_oracle demo_profile
      (execution_request demo_corpus demo_subject 0 (hd demo_cases) zero_counters ''AA'' 1000) 0
    = (Inr (demo_outcome ValidCase), w')"
proof -
  let ?q = "execution_request demo_corpus demo_subject 0 (hd demo_cases) zero_counters ''AA'' 1000"
  have "ex_execute demo_executor ?q 0 = (Some (demo_outcome (xq_class ?q)), 0 + 3)"
    by (rule demo_execute)
       (simp_all add: execution_request_def demo_corpus_def demo_limits_def min_def)
  moreover have "xq_class ?q = ValidCase" by (simp add: execution_request_def demo_cases_def)
  ultimately show ?thesis by (simp add: demo_executor_def native_executor_def without_error_Some)
qed

theorem native_decision_confined_witness:
  "\<exists>q ob v v'. nd_profile demo_driver 0 = (Some demo_profile, v)
    \<and> nd_execute demo_driver (confinement_attempt_id demo_deps q, q) v = (Some ob, v')
    \<and> (\<exists>code. ob_termination ob = Exited code) \<and> ob_process_reaped ob
    \<and> ob_duration_ms ob \<le> xq_deadline_ms q"
proof -
  from demo_native_run obtain w' where run: "native_execute demo_deps demo_driver demo_oracle
      demo_profile (execution_request demo_corpus demo_subject 0 (hd demo_cases) zero_counters ''AA''
        1000) 0 = (Inr (demo_outcome ValidCase), w')" by blast
  have "oc_disposition (demo_outcome ValidCase) \<noteq> NoDecision" by (simp add: demo_outcome_def)
  from native_decision_confined [OF run this] show ?thesis by blast
qed

lemma confined_campaign_accounting_witness:
  "\<exists>tr. tallies (report_counters demo_fuzz_report) tr
    \<and> unat (fr_valid_accepted demo_fuzz_report) + unat (fr_malformed_rejected demo_fuzz_report)
        + observed (\<lambda>q oc. finding (oc_safety oc)) tr \<le> unat (fr_total_executions demo_fuzz_report)
    \<and> fr_engine demo_fuzz_report = np_engine demo_profile"
proof -
  from demo_worker_run obtain s where run: "run_with_clock demo_deps demo_fuzz_codec
      demo_to_vec (native_executor demo_deps demo_driver demo_oracle demo_profile) demo_clock
      demo_worker_input 0 = (Inr
        \<lparr>wo_report = demo_fuzz_report, wo_report_bytes = ''F'', wo_stage = s\<rparr>, 12)"
    by (auto simp: demo_executor_def)
  from confined_campaign_accounting [OF run] show ?thesis by simp
qed

lemma check_cases_tokens:
  "check_cases d previous v m cs = Inr r \<Longrightarrow> c \<in> set cs \<Longrightarrow> valid_token (fc_id c) 1 128"
  by (induction cs arbitrary: previous v m) (auto simp: res_simps split: case_class.splits)

lemma campaign_fields_ok:
  assumes plan: "worker_plan d c i = Inr (p, corpus)"
    and q: "execution_ok d p corpus (wi_subject i) n q"
  shows "attempt_fields_ok q"
proof -
  note w = worker_plan_Inr [OF plan]
  have "valid_release_id (sj_release_id (wi_subject i))"
    using w by (auto simp: validate_subject_def res_simps)
  then have r: "field_ok (sj_release_id (xq_subject q))"
    using q by (simp add: execution_ok_def Let_def valid_release_id_def valid_prefixed_hex_def
        release_prefix_def field_ok_def)
  from w obtain x where cs: "check_cases d None 0 0 (fz_cases corpus) = Inr x"
    by (auto simp: validate_fuzz_plan_def validate_fuzz_corpus_def res_simps)
  have "n mod length (fz_cases corpus) < length (fz_cases corpus)"
    using q by (intro mod_less_divisor) (auto simp: execution_ok_def Let_def intro!: Nat.gr0I)
  then have "valid_token (xq_case_id q) 1 128"
    using q check_cases_tokens [OF cs] by (simp add: execution_ok_def Let_def)
  then have "field_ok (xq_case_id q)"
    by (auto simp: valid_token_def field_ok_def)
  with r show ?thesis by (simp add: attempt_fields_ok_def)
qed

text \<open>The executions of a campaign are told apart by their attempt ids: no two of them hash
  the same preimage, so two that share an id would be a collision of SHA-256.\<close>

lemma attempt_ids_unique:
  assumes "run_with_clock d c to_vec (logging ex) (logging_clock ck) i (w, []) = (Inr out, (w', tr))"
    and "m < n" and "n < length tr"
  shows "attempt_preimage (fst (tr ! m)) \<noteq> attempt_preimage (fst (tr ! n))
    \<and> (confinement_attempt_id d (fst (tr ! m)) = confinement_attempt_id d (fst (tr ! n)) \<longrightarrow>
        sha256 d (attempt_preimage (fst (tr ! m))) = sha256 d (attempt_preimage (fst (tr ! n))))"
proof -
  from assms(1) obtain r where r: "worker_campaign d c (logging ex) (logging_clock ck) i (w, [])
      = (Inr r, (w', tr))"
    by (auto simp: run_with_clock_def io_simps)
  from worker_campaign_result [OF r] obtain p corpus where
    plan: "worker_plan d c i = Inr (p, corpus)"
    and q: "requests_ok d p corpus (wi_subject i) tr"
    by (auto simp: campaign_result_def campaign_inv_def)
  have f: "attempt_fields_ok (fst (tr ! m))" "attempt_fields_ok (fst (tr ! n))"
    using q assms(2,3) campaign_fields_ok [OF plan, of m] campaign_fields_ok [OF plan, of n]
    by (auto simp: requests_ok_def)
  have "xq_ordinal (fst (tr ! m)) \<noteq> xq_ordinal (fst (tr ! n))"
    using requests_ordinal [OF q, of m] requests_ordinal [OF q, of n] assms(2,3) by auto
  then show ?thesis
    using attempt_preimage_iff [OF f] by (simp add: attempt_id_collision)
qed

theorem attempt_ids_unique_witness:
  "\<exists>tr. length tr = 4 \<and> attempt_preimage (fst (tr ! 0)) \<noteq> attempt_preimage (fst ((tr :: trace) ! 3))"
proof -
  from demo_worker_run obtain s where run: "run_with_clock demo_deps demo_fuzz_codec
      demo_to_vec demo_executor demo_clock demo_worker_input 0 = (Inr
        \<lparr>wo_report = demo_fuzz_report, wo_report_bytes = ''F'', wo_stage = s\<rparr>, 12)" by blast
  from worker_run_trace [OF run] obtain tr p corpus where
    t: "run_with_clock demo_deps demo_fuzz_codec demo_to_vec (logging demo_executor)
      (logging_clock demo_clock) demo_worker_input (0, []) = (Inr
        \<lparr>wo_report = demo_fuzz_report, wo_report_bytes = ''F'', wo_stage = s\<rparr>, (12, tr))"
    and c: "campaign_result demo_deps demo_fuzz_codec demo_worker_input p corpus tr demo_fuzz_report"
    by auto
  have "length tr = 4"
    using c by (simp add: campaign_result_def campaign_inv_def tallies_def report_counters_def
        demo_fuzz_report_def worker_report_def)
  with attempt_ids_unique [OF t, of 0 3] show ?thesis by auto
qed

text \<open>The engine contracts of the two crates differ in one point: an engine the confinement
  adapter pins is accepted by the workbench exactly when its version names no build (semantic
  versioning's + suffix) and the sanitizers the corpus requires are active.\<close>

lemma native_engine_accepted:
  assumes "validate_profile prof platform = Inr ()"
  shows "validate_fuzz_engine (np_engine prof) corpus = Inr () \<longleftrightarrow>
    CHR ''+'' \<notin> set (fe_version (np_engine prof))
    \<and> set (fl_required_sanitizers (fz_limits corpus)) \<subseteq> set (fe_active_sanitizers (np_engine prof))"
  using assms native_engine_workbench by (auto simp: validate_profile_def split: if_splits)

theorem native_engine_accepted_witness:
  "validate_profile demo_profile Linux = Inr ()
   \<and> CHR ''+'' \<notin> set (fe_version (np_engine demo_profile))"
proof -
  have d: "native_digest (sha256_digest demo_deps ''confinement'')" by code_simp
  have n: "native_version ''1.0.0''" "native_token ''runner''" "native_engine_ok demo_engine"
    by code_simp+
  have v: "validate_profile demo_profile Linux = Inr ()"
    using d n by (simp add: validate_profile_def demo_profile_def profile_schema_version_def)
  have "np_engine demo_profile = demo_engine" by (simp add: demo_profile_def)
  with native_engine_accepted [OF v, of demo_corpus] demo_engine_valid v show ?thesis by simp
qed

end
