(* ===== verification/Distribution.thy ===== *)
theory Distribution
  imports Trust Effects
begin

text \<open>
  tools/tsp/src/certification_distribution.rs: the durable, append-only state that protects a
  verifier against the rollback of revocation lists, and the decision that fetches, verifies and
  records evidence.

  The file system under the store's root is a record; every operating-system call that can fail is
  a fault point, and an operation takes the set of calls that fail. The per-issuer lock makes the
  operations of one issuer atomic, so their interleavings are sequences of operations. A process that
  dies inside \<^verbatim>\<open>append_marker\<close> leaves one of the states its faults leave.
\<close>

section \<open>Marker names\<close>

definition strip_prefix :: "string \<Rightarrow> string \<Rightarrow> string option" where
  "strip_prefix p s = (if starts_with s p then Some (drop (length p) s) else None)"

definition strip_suffix :: "string \<Rightarrow> string \<Rightarrow> string option" where
  "strip_suffix p s = map_option rev (strip_prefix (rev p) (rev s))"

definition marker_file_name :: "u64 \<Rightarrow> string" where
  "marker_file_name sq = ''sequence-'' @ pad0 20 (dec (unat sq)) @ ''.json''"

definition parse_marker_file_name :: "string \<Rightarrow> u64 option" where
  "parse_marker_file_name name =
    (case strip_prefix ''sequence-'' name of
       None \<Rightarrow> None
     | Some rest \<Rightarrow>
         (case strip_suffix ''.json'' rest of
            None \<Rightarrow> None
          | Some digits \<Rightarrow>
              if length digits \<noteq> 20 \<or> \<not> list_all is_digit digits then None
              else (case parse_usize digits of
                      None \<Rightarrow> None
                    | Some n \<Rightarrow>
                        if marker_file_name (word_of_nat n) = name then Some (word_of_nat n)
                        else None)))"

lemma strip_prefix_append [simp]: "strip_prefix p (p @ s) = Some s"
  by (simp add: strip_prefix_def)

lemma strip_suffix_append [simp]: "strip_suffix p (s @ p) = Some s"
  by (simp add: strip_suffix_def)

lemma pad0_digits: "list_all is_digit (pad0 k (dec n))"
  using dec_digits [of _ n] by (auto simp: pad0_def list_all_iff is_digit_def)

lemma parse_digits_zeros: "parse_digits 0 (replicate k CHR ''0'' @ s) = parse_digits 0 s"
  by (induction k) (simp_all add: is_digit_def)

lemma parse_padded:
  assumes "n \<le> u64_max"
  shows "parse_usize (pad0 k (dec n)) = Some n"
proof -
  have d: "parse_digits 0 (pad0 k (dec n)) = Some n"
    by (simp add: pad0_def parse_digits_zeros parse_digits_dec)
  obtain c cs where s: "pad0 k (dec n) = c # cs"
    by (cases "pad0 k (dec n)") (simp_all add: pad0_def)
  then have "is_digit c" using pad0_digits [of k n] by simp
  then have "c \<noteq> CHR ''+''" "c \<noteq> CHR ''-''" by (auto simp: is_digit_def)
  with s d assms show ?thesis by (simp add: parse_usize_def fits_usize_def)
qed

lemma length_pad0: "length s \<le> k \<Longrightarrow> length (pad0 k s) = k"
  by (simp add: pad0_def)

lemma parse_marker_file_name_roundtrip: "parse_marker_file_name (marker_file_name sq) = Some sq"
proof -
  let ?ds = "pad0 20 (dec (unat sq))"
  have "length ?ds = 20" by (rule length_pad0) (rule length_dec_u64)
  moreover have "parse_usize ?ds = Some (unat sq)"
    using unat_u64_less [of sq] by (intro parse_padded) (simp add: u64_max_def)
  moreover have "marker_file_name sq = ''sequence-'' @ ?ds @ ''.json''"
    by (simp add: marker_file_name_def)
  ultimately show ?thesis
    using pad0_digits [of 20 "unat sq"] strip_prefix_append [of "''sequence-''" "?ds @ ''.json''"]
    by (simp add: parse_marker_file_name_def)
qed

lemma parse_marker_file_name_Some:
  "parse_marker_file_name name = Some sq \<longleftrightarrow> name = marker_file_name sq"
  by (auto simp: parse_marker_file_name_roundtrip)
     (auto simp: parse_marker_file_name_def split: option.splits if_splits)

lemma marker_file_name_inj: "marker_file_name a = marker_file_name b \<longleftrightarrow> a = b"
  by (metis option.inject parse_marker_file_name_roundtrip)

section \<open>The state on disk\<close>

datatype store_path = RootDir | LocksDir | PendingDir | IssuersDir | IssuerDir string

datatype path_state = Missing | Directory | SymbolicLink | OtherFile

record dir_entry =
  de_name :: bytes
  de_regular :: bool \<comment> \<open>a file and not a symbolic link\<close>
  de_bytes :: bytes

record store_fs =
  sf_paths :: "store_path \<Rightarrow> path_state"
  sf_lock_files :: "string \<Rightarrow> path_state"
  sf_pending :: "string \<Rightarrow> bytes option"
  sf_entries :: "string \<Rightarrow> dir_entry list" \<comment> \<open>an issuer's directory, in the order it is read\<close>

record marker =
  mk_schema_version :: u32
  mk_issuer_id :: string
  mk_sequence :: u64

record marker_codec =
  print_marker :: "marker \<Rightarrow> bytes option"
  parse_marker :: "bytes \<Rightarrow> marker option"

text \<open>The calls that can fail; the lock is contended until the deadline in \<open>LockBusy\<close>.\<close>

datatype fault_point =
    StatPath store_path | CreatePath store_path | CheckPath store_path
  | LockStat | LockOpen | LockBusy | LockFail
  | ScanDir | ScanEntry nat | ScanMeta nat | ScanRead nat | CountDir | CountEntry nat
  | PendingStat | PendingCreate | MarkerWrite | MarkerCommit | DirectorySync
  | Cleanup | CleanupGone

type_synonym faults = "fault_point \<Rightarrow> bool"

definition max_state_markers :: nat where "max_state_markers = 10000"
definition max_state_marker_bytes :: nat where "max_state_marker_bytes = 1024"

definition state_root_code :: "store_path \<Rightarrow> string" where
  "state_root_code p = (case p of
     RootDir \<Rightarrow> ''certification.stateRoot'' | LocksDir \<Rightarrow> ''certification.stateLocks''
   | PendingDir \<Rightarrow> ''certification.statePending'' | IssuersDir \<Rightarrow> ''certification.stateIssuers''
   | IssuerDir n \<Rightarrow> ''certification.stateDirectory'')"

text \<open>\<^verbatim>\<open>with_lock_timeout\<close>, on nanoseconds.\<close>

definition with_lock_timeout :: "nat \<Rightarrow> nat res" where
  "with_lock_timeout nanos =
     bindR (reject (nanos = 0 \<or> nanos > 30 * 1000000000) ''certification.stateLockTimeout'')
       (\<lambda>_. Inr nanos)"

definition validate_issuer_id :: "string \<Rightarrow> unit res" where
  "validate_issuer_id issuer_id =
     reject (\<not> valid_token issuer_id 1 128) ''certification.stateIssuer''"

definition issuer_hash :: "deps \<Rightarrow> string \<Rightarrow> string" where
  "issuer_hash d issuer_id = hex (sha256 d issuer_id)"

definition issuer_directory :: "deps \<Rightarrow> string \<Rightarrow> string" where
  "issuer_directory d issuer_id = ''sha256-'' @ issuer_hash d issuer_id"

text \<open>\<^verbatim>\<open>ensure_directory\<close>: no symbolic link, created when missing, a directory afterwards.\<close>

definition ensure_directory :: "faults \<Rightarrow> store_path \<Rightarrow> (store_fs, unit) io" where
  "ensure_directory f p fs =
    (let e = Inl (VErr (state_root_code p))
     in if f (StatPath p) then (e, fs)
        else case sf_paths fs p of
          SymbolicLink \<Rightarrow> (e, fs)
        | OtherFile \<Rightarrow> (e, fs)
        | _ \<Rightarrow>
            if f (CreatePath p) then (e, fs)
            else let fs' = fs\<lparr>sf_paths := (sf_paths fs)(p := Directory)\<rparr>
                 in if f (CheckPath p) then (e, fs') else (Inr (), fs'))"

definition prepare_layout :: "faults \<Rightarrow> (store_fs, unit) io" where
  "prepare_layout f =
     bindW (ensure_directory f RootDir) (\<lambda>_.
     bindW (ensure_directory f LocksDir) (\<lambda>_.
     bindW (ensure_directory f PendingDir) (\<lambda>_.
       ensure_directory f IssuersDir)))"

definition acquire_lock :: "deps \<Rightarrow> faults \<Rightarrow> string \<Rightarrow> (store_fs, unit) io" where
  "acquire_lock d f issuer_id fs =
    (let name = issuer_directory d issuer_id @ ''.lock'';
         e = Inl (VErr ''certification.stateLock'')
     in if f LockStat \<or> sf_lock_files fs name = SymbolicLink then (e, fs)
        else if f LockOpen \<or> sf_lock_files fs name = Directory then (e, fs)
        else let fs' = fs\<lparr>sf_lock_files := (sf_lock_files fs)(name := OtherFile)\<rparr>
             in if f LockFail then (e, fs')
                else if f LockBusy then (Inl (VErr ''certification.stateLockTimeout''), fs')
                else (Inr (), fs'))"

section \<open>Reading the markers\<close>

definition entry_sequence ::
  "deps \<Rightarrow> marker_codec \<Rightarrow> string \<Rightarrow> bool \<Rightarrow> dir_entry \<Rightarrow> u64 res" where
  "entry_sequence d mc issuer_id read_fails e =
     bindR (reject (\<not> de_regular e) ''certification.stateEntry'') (\<lambda>_.
     bindR (reject (length (de_bytes e) = 0 \<or> length (de_bytes e) > max_state_marker_bytes)
       ''certification.stateEntry'') (\<lambda>_.
     bindR (reject (\<not> is_utf8 (de_name e)) ''certification.stateEntry'') (\<lambda>_.
     bindR (ok_or ''certification.stateEntry'' (parse_marker_file_name (de_name e))) (\<lambda>sq.
     bindR (reject read_fails ''certification.stateRead'') (\<lambda>_.
     bindR (reject (\<not> unambiguous d (de_bytes e)) ''certification.stateEntry'') (\<lambda>_.
     bindR (ok_or ''certification.stateEntry'' (parse_marker mc (de_bytes e))) (\<lambda>m.
     bindR (reject (mk_schema_version m \<noteq> 1 \<or> mk_issuer_id m \<noteq> issuer_id \<or> mk_sequence m \<noteq> sq)
       ''certification.stateEntry'') (\<lambda>_. Inr sq))))))))"

definition raise_highest :: "u64 option \<Rightarrow> u64 \<Rightarrow> u64" where
  "raise_highest highest sq = (case highest of None \<Rightarrow> sq | Some value \<Rightarrow> max value sq)"

text \<open>The loop of \<^verbatim>\<open>scan_highest_sequence\<close>; \<open>n\<close> entries have been read.\<close>

fun scan_entries ::
  "deps \<Rightarrow> marker_codec \<Rightarrow> faults \<Rightarrow> string \<Rightarrow> nat \<Rightarrow> u64 option \<Rightarrow> dir_entry list \<Rightarrow> u64 option res"
where
  "scan_entries d mc f issuer_id n highest [] = Inr highest"
| "scan_entries d mc f issuer_id n highest (e # es) =
     bindR (reject (f (ScanEntry n)) ''certification.stateRead'') (\<lambda>_.
     bindR (reject (Suc n > max_state_markers) ''certification.stateMarkerLimit'') (\<lambda>_.
     bindR (reject (f (ScanMeta n)) ''certification.stateRead'') (\<lambda>_.
     bindR (entry_sequence d mc issuer_id (f (ScanRead n)) e) (\<lambda>sq.
       scan_entries d mc f issuer_id (Suc n) (Some (raise_highest highest sq)) es))))"

definition scan_highest_sequence ::
  "deps \<Rightarrow> marker_codec \<Rightarrow> faults \<Rightarrow> string \<Rightarrow> dir_entry list \<Rightarrow> u64 option res" where
  "scan_highest_sequence d mc f issuer_id es =
     bindR (reject (f ScanDir) ''certification.stateRead'') (\<lambda>_.
       scan_entries d mc f issuer_id 0 None es)"

definition marker_count :: "faults \<Rightarrow> dir_entry list \<Rightarrow> nat res" where
  "marker_count f es =
     bindR (reject (f CountDir) ''certification.stateRead'') (\<lambda>_.
     bindR (reject (list_ex (\<lambda>n. f (CountEntry n)) [0..<length es]) ''certification.stateRead'') (\<lambda>_.
       Inr (length es)))"

section \<open>Appending a marker\<close>

definition pending_name :: "nat \<Rightarrow> u64 \<Rightarrow> bytes \<Rightarrow> string" where
  "pending_name pid sq nonce = dec pid @ ''-'' @ dec (unat sq) @ ''-'' @ hex nonce @ ''.tmp''"

text \<open>Writing the pending file and linking it into the directory; the link never replaces.\<close>

definition commit_marker ::
  "faults \<Rightarrow> string \<Rightarrow> string \<Rightarrow> u64 \<Rightarrow> bytes \<Rightarrow> (store_fs, unit) io" where
  "commit_marker f dir pending sq data fs =
    (if f MarkerWrite then (Inl (VErr ''certification.stateWrite''), fs)
     else
       let fs' = fs\<lparr>sf_pending := (sf_pending fs)(pending \<mapsto> data)\<rparr>
       in if f MarkerCommit \<or> list_ex (\<lambda>e. de_name e = marker_file_name sq) (sf_entries fs dir)
          then (Inl (VErr ''certification.stateCommit''), fs')
          else
            let fs'' = fs'\<lparr>sf_entries := (sf_entries fs')(dir := sf_entries fs' dir
                  @ [\<lparr>de_name = marker_file_name sq, de_regular = True, de_bytes = data\<rparr>])\<rparr>
            in if f DirectorySync then (Inl (VErr ''certification.stateCommit''), fs'')
               else (Inr (), fs''))"

definition remove_pending :: "faults \<Rightarrow> string \<Rightarrow> unit res \<Rightarrow> (store_fs, unit) io" where
  "remove_pending f pending result fs =
    (let removed = fs\<lparr>sf_pending := (sf_pending fs)(pending := None)\<rparr>
     in case result of
          Inl e \<Rightarrow> (Inl e, if f Cleanup then fs else removed)
        | Inr u \<Rightarrow>
            if f CleanupGone then (Inr (), removed)
            else if f Cleanup then (Inl (VErr ''certification.stateCleanup''), fs)
            else (Inr (), removed))"

definition append_marker ::
  "marker_codec \<Rightarrow> faults \<Rightarrow> nat \<Rightarrow> bytes option \<Rightarrow> string \<Rightarrow> string \<Rightarrow> u64 \<Rightarrow> (store_fs, unit) io"
where
  "append_marker mc f pid random dir issuer_id sq =
     bindW (liftW (ok_or ''certification.stateSerialize'' (print_marker mc
       \<lparr>mk_schema_version = 1, mk_issuer_id = issuer_id, mk_sequence = sq\<rparr>))) (\<lambda>text.
     bindW (liftW (ok_or ''certification.stateRandom'' random)) (\<lambda>nonce.
     let pending = pending_name pid sq nonce
     in bindW (\<lambda>fs. if f PendingStat \<or> f PendingCreate \<or> sf_pending fs pending \<noteq> None
                    then (Inl (VErr ''certification.statePending''), fs)
                    else (Inr (), fs\<lparr>sf_pending := (sf_pending fs)(pending \<mapsto> [])\<rparr>)) (\<lambda>_ fs.
        case commit_marker f dir pending sq (text @ [CHR 0x0A]) fs of
          (result, fs') \<Rightarrow> remove_pending f pending result fs')))"

section \<open>Operations of the store\<close>

record store_call =
  sc_faults :: faults
  sc_pid :: nat
  sc_random :: "bytes option"

definition highest_sequence ::
  "deps \<Rightarrow> marker_codec \<Rightarrow> store_call \<Rightarrow> string \<Rightarrow> (store_fs, u64 option) io" where
  "highest_sequence d mc k issuer_id =
    (let f = sc_faults k; dir = issuer_directory d issuer_id
     in bindW (liftW (validate_issuer_id issuer_id)) (\<lambda>_.
        bindW (prepare_layout f) (\<lambda>_.
        bindW (acquire_lock d f issuer_id) (\<lambda>_.
        bindW (ensure_directory f (IssuerDir dir)) (\<lambda>_ fs.
          (scan_highest_sequence d mc f issuer_id (sf_entries fs dir), fs))))))"

definition record_verified ::
  "deps \<Rightarrow> marker_codec \<Rightarrow> store_call \<Rightarrow> string \<Rightarrow> u64 \<Rightarrow> (store_fs, unit) io" where
  "record_verified d mc k issuer_id sq =
    (let f = sc_faults k; dir = issuer_directory d issuer_id
     in bindW (liftW (validate_issuer_id issuer_id)) (\<lambda>_.
        bindW (prepare_layout f) (\<lambda>_.
        bindW (acquire_lock d f issuer_id) (\<lambda>_.
        bindW (ensure_directory f (IssuerDir dir)) (\<lambda>_.
        bindW (\<lambda>fs. (scan_highest_sequence d mc f issuer_id (sf_entries fs dir), fs)) (\<lambda>highest.
        bindW (liftW (reject (case highest of None \<Rightarrow> False | Some value \<Rightarrow> sq < value)
          ''certification.revocationRollback'')) (\<lambda>_.
        if highest = Some sq then returnW ()
        else
          bindW (\<lambda>fs. (marker_count f (sf_entries fs dir), fs)) (\<lambda>count.
          bindW (liftW (reject (count \<ge> max_state_markers) ''certification.stateMarkerLimit'')) (\<lambda>_.
            append_marker mc f (sc_pid k) (sc_random k) dir issuer_id sq)))))))))"

section \<open>The decision\<close>

record evidence_documents =
  ed_report :: bytes
  ed_envelope :: bytes
  ed_revocations :: bytes

type_synonym evidence_source = "subject \<Rightarrow> evidence_documents res"

definition fetch_verify_and_record ::
  "deps \<Rightarrow> trust_codec \<Rightarrow> marker_codec \<Rightarrow> store_call \<Rightarrow> evidence_source \<Rightarrow> bytes \<Rightarrow> subject \<Rightarrow> u64
     \<Rightarrow> (store_fs, verified_certification) io" where
  "fetch_verify_and_record d c mc k source store_bytes expected now =
     bindW (liftW (source expected)) (\<lambda>ev.
     bindW (liftW (verify_certification_evidence d c (ed_report ev) (ed_envelope ev) store_bytes
         (ed_revocations ev) expected \<lparr>dc_now = now, dc_minimum_sequence = 0\<rparr>)) (\<lambda>v.
     bindW (record_verified d mc k (vc_issuer_id v) (vc_revocation_sequence v)) (\<lambda>_.
       returnW v)))"

section \<open>The markers only grow\<close>

definition extends :: "store_fs \<Rightarrow> store_fs \<Rightarrow> bool" where
  "extends fs fs' \<longleftrightarrow> (\<forall>dir. \<exists>es. sf_entries fs' dir = sf_entries fs dir @ es)"

lemma extends_same: "sf_entries fs' = sf_entries fs \<Longrightarrow> extends fs fs'"
  by (simp add: extends_def)

lemma extends_refl [simp]: "extends fs fs"
  by (simp add: extends_def)

lemma extends_trans: "extends a b \<Longrightarrow> extends b c \<Longrightarrow> extends a c"
  unfolding extends_def by (metis append.assoc)

lemma extends_mem: "extends fs fs' \<Longrightarrow> e \<in> set (sf_entries fs dir) \<Longrightarrow> e \<in> set (sf_entries fs' dir)"
  unfolding extends_def by (metis Un_iff set_append)

text \<open>The calls before the append leave every issuer's directory as it is.\<close>

lemma ensure_directory_entries:
  "ensure_directory f p fs = (r, fs') \<Longrightarrow> sf_entries fs' = sf_entries fs"
  by (auto simp: ensure_directory_def Let_def split: path_state.splits if_splits)

lemma acquire_lock_entries: "acquire_lock d f i fs = (r, fs') \<Longrightarrow> sf_entries fs' = sf_entries fs"
  by (auto simp: acquire_lock_def Let_def split: if_splits)

lemma keeps_entries:
  "keeps (\<lambda>fs. sf_entries fs = es) (ensure_directory f p)"
  "keeps (\<lambda>fs. sf_entries fs = es) (acquire_lock d f i)"
  "keeps (\<lambda>fs. sf_entries fs = es) (prepare_layout f)"
proof -
  show d: "keeps (\<lambda>fs. sf_entries fs = es) (ensure_directory f p)" for p
    unfolding keeps_def using ensure_directory_entries [of f p] by (metis prod.collapse)
  show "keeps (\<lambda>fs. sf_entries fs = es) (acquire_lock d f i)"
    unfolding keeps_def using acquire_lock_entries [of d f i] by (metis prod.collapse)
  show "keeps (\<lambda>fs. sf_entries fs = es) (prepare_layout f)"
    unfolding prepare_layout_def by (intro keep_rules d)
qed

definition new_marker :: "u64 \<Rightarrow> bytes \<Rightarrow> dir_entry" where
  "new_marker sq data = \<lparr>de_name = marker_file_name sq, de_regular = True, de_bytes = data\<rparr>"

text \<open>What an append may do to the directories, whatever fails: nothing, or one complete marker
  whose name was free; when it succeeds, the marker is there.\<close>

definition appended ::
  "marker_codec \<Rightarrow> string \<Rightarrow> string \<Rightarrow> u64 \<Rightarrow> store_fs \<Rightarrow> store_fs \<Rightarrow> bool" where
  "appended mc dir issuer_id sq fs fs' \<longleftrightarrow>
     (\<exists>text. print_marker mc \<lparr>mk_schema_version = 1, mk_issuer_id = issuer_id, mk_sequence = sq\<rparr> = Some text
        \<and> marker_file_name sq \<notin> de_name ` set (sf_entries fs dir)
        \<and> sf_entries fs' = (sf_entries fs)(dir := sf_entries fs dir @ [new_marker sq (text @ [CHR 0x0A])]))"

lemma remove_pending_result:
  "remove_pending f pending r fs = (r', fs') \<Longrightarrow>
     sf_entries fs' = sf_entries fs \<and> (r' = Inr () \<longrightarrow> r = Inr ())"
  by (auto simp: remove_pending_def Let_def split: sum.splits if_splits)

lemma commit_marker_result:
  "commit_marker f dir pending sq data fs = (r, fs') \<Longrightarrow>
     sf_entries fs' = sf_entries fs \<and> r \<noteq> Inr ()
     \<or> marker_file_name sq \<notin> de_name ` set (sf_entries fs dir)
       \<and> sf_entries fs' = (sf_entries fs)(dir := sf_entries fs dir @ [new_marker sq data])"
  by (auto simp: commit_marker_def Let_def list_ex_iff new_marker_def split: if_splits)

lemma append_marker_result:
  assumes "append_marker mc f pid random dir issuer_id sq fs = (r, fs')"
  shows "sf_entries fs' = sf_entries fs \<and> r \<noteq> Inr () \<or> appended mc dir issuer_id sq fs fs'"
proof -
  let ?m = "\<lparr>mk_schema_version = 1, mk_issuer_id = issuer_id, mk_sequence = sq\<rparr>"
  consider (fail) "sf_entries fs' = sf_entries fs" "r \<noteq> Inr ()"
    | (commit) printed nonce r' fs1 where "print_marker mc ?m = Some printed"
      "commit_marker f dir (pending_name pid sq nonce) sq (printed @ [CHR 0x0A])
         (fs\<lparr>sf_pending := (sf_pending fs)(pending_name pid sq nonce \<mapsto> [])\<rparr>) = (r', fs1)"
      "remove_pending f (pending_name pid sq nonce) r' fs1 = (r, fs')"
    using assms
    by (cases "print_marker mc ?m"; cases random;
        auto simp: append_marker_def bindW_def liftW_def Let_def split: if_splits prod.splits)
  then show ?thesis
  proof cases
    case commit
    then show ?thesis
      using commit_marker_result [OF commit(2)] remove_pending_result [OF commit(3)]
      by (auto simp: appended_def)
  qed simp
qed

section \<open>What a successful scan says\<close>

lemma list_all2_left: "list_all2 P xs ys \<Longrightarrow> x \<in> set xs \<Longrightarrow> \<exists>y\<in>set ys. P x y"
  by (induction rule: list_all2_induct) auto

lemma list_all2_right: "list_all2 P xs ys \<Longrightarrow> y \<in> set ys \<Longrightarrow> \<exists>x\<in>set xs. P x y"
  by (induction rule: list_all2_induct) auto

definition marker_of :: "deps \<Rightarrow> marker_codec \<Rightarrow> string \<Rightarrow> dir_entry \<Rightarrow> u64 \<Rightarrow> bool" where
  "marker_of d mc issuer_id e sq \<longleftrightarrow> entry_sequence d mc issuer_id False e = Inr sq"

lemma entry_sequence_Inr:
  "entry_sequence d mc issuer_id b e = Inr sq \<longleftrightarrow> \<not> b \<and> marker_of d mc issuer_id e sq"
  by (auto simp: entry_sequence_def marker_of_def res_simps)

lemma marker_of_name: "marker_of d mc i e sq \<Longrightarrow> de_name e = marker_file_name sq"
  by (auto simp: marker_of_def entry_sequence_def res_simps parse_marker_file_name_Some)

definition highest_of :: "u64 option \<Rightarrow> u64 list \<Rightarrow> u64 option" where
  "highest_of h sqs = fold (\<lambda>sq h. Some (raise_highest h sq)) sqs h"

lemma highest_of_None: "highest_of None sqs = (if sqs = [] then None else Some (Max (set sqs)))"
proof -
  have main: "highest_of (Some h) sqs = Some (Max (insert h (set sqs)))" for h sqs
  proof (induction sqs arbitrary: h)
    case (Cons sq sqs)
    then show ?case
      by (simp add: highest_of_def raise_highest_def)
         (cases "set sqs = {}"; simp add: Max_insert max.assoc max.left_commute)
  qed (simp add: highest_of_def)
  have "highest_of None (x # xs) = highest_of (Some x) xs" for x xs
    by (simp add: highest_of_def raise_highest_def)
  then show ?thesis
    using main by (cases sqs) (simp_all add: highest_of_def [of None "[]"])
qed

lemma scan_entries_Inr:
  assumes "scan_entries d mc f i n h es = Inr h'"
  shows "\<exists>sqs. list_all2 (marker_of d mc i) es sqs \<and> h' = highest_of h sqs
    \<and> n + length es \<le> max max_state_markers n"
  using assms
proof (induction es arbitrary: n h)
  case Nil
  then show ?case by (simp add: highest_of_def)
next
  case (Cons e es)
  then obtain sq where m: "marker_of d mc i e sq" and n: "Suc n \<le> max_state_markers"
    and rest: "scan_entries d mc f i (Suc n) (Some (raise_highest h sq)) es = Inr h'"
    by (auto simp: res_simps entry_sequence_Inr)
  from Cons.IH [OF rest] obtain sqs where "list_all2 (marker_of d mc i) es sqs"
    "h' = highest_of (Some (raise_highest h sq)) sqs"
    "Suc n + length es \<le> max max_state_markers (Suc n)" by blast
  with m n show ?case
    by (intro exI [of _ "sq # sqs"]) (auto simp: highest_of_def)
qed

lemma scan_Inr:
  assumes "scan_highest_sequence d mc f i es = Inr h"
  shows "\<exists>sqs. list_all2 (marker_of d mc i) es sqs \<and> length es \<le> max_state_markers
    \<and> h = (if sqs = [] then None else Some (Max (set sqs)))"
proof -
  from assms have "scan_entries d mc f i 0 None es = Inr h"
    by (auto simp: scan_highest_sequence_def res_simps)
  from scan_entries_Inr [OF this] obtain sqs where "list_all2 (marker_of d mc i) es sqs"
    "h = highest_of None sqs" "length es \<le> max_state_markers" by auto
  then show ?thesis unfolding highest_of_None by blast
qed

lemma scan_upper:
  assumes "scan_highest_sequence d mc f i es = Inr h" and "e \<in> set es"
    and "de_name e = marker_file_name sq"
  shows "\<exists>m. h = Some m \<and> sq \<le> m"
proof -
  from scan_Inr [OF assms(1)] obtain sqs where
    a: "list_all2 (marker_of d mc i) es sqs" "h = (if sqs = [] then None else Some (Max (set sqs)))"
    by blast
  from list_all2_left [OF a(1) assms(2)] obtain sq'
    where sq': "sq' \<in> set sqs" "marker_of d mc i e sq'" by blast
  then have "sq' = sq" using marker_of_name [OF sq'(2)] assms(3) by (simp add: marker_file_name_inj)
  with sq' a(2) show ?thesis by (cases sqs) auto
qed

lemma scan_attained:
  assumes "scan_highest_sequence d mc f i es = Inr (Some m)"
  shows "\<exists>e\<in>set es. marker_of d mc i e m"
proof -
  from scan_Inr [OF assms] obtain sqs where
    a: "list_all2 (marker_of d mc i) es sqs" "sqs \<noteq> []" "m = Max (set sqs)"
    by (auto split: if_splits)
  then have "m \<in> set sqs" by simp
  with a(1) show ?thesis by (rule list_all2_right)
qed

section \<open>Operations, whatever fails\<close>

text \<open>Up to the scan, an operation on an issuer changes no directory.\<close>

definition opened ::
  "deps \<Rightarrow> faults \<Rightarrow> string \<Rightarrow> (store_fs, unit) io" where
  "opened d f issuer_id =
     bindW (liftW (validate_issuer_id issuer_id)) (\<lambda>_.
     bindW (prepare_layout f) (\<lambda>_.
     bindW (acquire_lock d f issuer_id) (\<lambda>_.
       ensure_directory f (IssuerDir (issuer_directory d issuer_id)))))"

lemma opened_entries: "opened d f i fs = (r, fs') \<Longrightarrow> sf_entries fs' = sf_entries fs"
proof -
  have "keeps (\<lambda>x. sf_entries x = sf_entries fs) (opened d f i)"
    unfolding opened_def by (intro keep_rules keeps_entries)
  then show "opened d f i fs = (r, fs') \<Longrightarrow> sf_entries fs' = sf_entries fs"
    by (auto dest: keeps_run)
qed

lemma bindW_assoc: "bindW (bindW m f) g = bindW m (\<lambda>x. bindW (f x) g)"
  by (auto simp: bindW_def fun_eq_iff split: prod.splits sum.splits)

lemma record_verified_opened:
  "record_verified d mc k i sq = bindW (opened d (sc_faults k) i) (\<lambda>_.
     bindW (\<lambda>fs. (scan_highest_sequence d mc (sc_faults k) i
         (sf_entries fs (issuer_directory d i)), fs)) (\<lambda>highest.
     bindW (liftW (reject (case highest of None \<Rightarrow> False | Some value \<Rightarrow> sq < value)
       ''certification.revocationRollback'')) (\<lambda>_.
     if highest = Some sq then returnW ()
     else
       bindW (\<lambda>fs. (marker_count (sc_faults k) (sf_entries fs (issuer_directory d i)), fs)) (\<lambda>count.
       bindW (liftW (reject (count \<ge> max_state_markers) ''certification.stateMarkerLimit'')) (\<lambda>_.
         append_marker mc (sc_faults k) (sc_pid k) (sc_random k) (issuer_directory d i) i sq)))))"
  by (simp add: record_verified_def opened_def Let_def bindW_assoc)

definition record_effect ::
  "deps \<Rightarrow> marker_codec \<Rightarrow> string \<Rightarrow> u64 \<Rightarrow> store_fs \<Rightarrow> unit res \<Rightarrow> store_fs \<Rightarrow> bool" where
  "record_effect d mc i sq fs r fs' \<longleftrightarrow>
    (let dir = issuer_directory d i
     in sf_entries fs' = sf_entries fs
          \<and> (r = Inr () \<longrightarrow> (\<exists>f. scan_highest_sequence d mc f i (sf_entries fs dir) = Inr (Some sq)))
        \<or> (\<exists>f h. scan_highest_sequence d mc f i (sf_entries fs dir) = Inr h
             \<and> (\<forall>m. h = Some m \<longrightarrow> m < sq) \<and> length (sf_entries fs dir) < max_state_markers
             \<and> valid_token i 1 128 \<and> appended mc dir i sq fs fs'))"

lemma record_verified_effect:
  assumes "record_verified d mc k i sq fs = (r, fs')"
  shows "record_effect d mc i sq fs r fs'"
proof -
  let ?dir = "issuer_directory d i" and ?f = "sc_faults k"
  obtain r1 fs1 where o: "opened d ?f i fs = (r1, fs1)" by fastforce
  note e1 = opened_entries [OF o]
  show ?thesis
  proof (cases r1)
    case (Inl e)
    with assms o e1 show ?thesis
      by (auto simp: record_verified_opened bindW_eq record_effect_def Let_def)
  next
    case (Inr u)
    have v: "valid_token i 1 128"
      using o Inr by (auto simp: opened_def io_simps validate_issuer_id_def reject_Inr_iff)
    show ?thesis
    proof (cases "scan_highest_sequence d mc ?f i (sf_entries fs ?dir)")
      case (Inl e)
      with assms o Inr e1 show ?thesis
        by (auto simp: record_verified_opened bindW_def record_effect_def Let_def)
    next
      case scan: (Inr h)
      note unfolded = assms [unfolded record_verified_opened]
      consider (same) "h = Some sq" | (old) m where "h = Some m" "sq < m"
        | (new) "\<forall>m. h = Some m \<longrightarrow> m < sq"
        by (cases h) (auto, metis linorder_cases)
      then show ?thesis
      proof cases
        case same
        with unfolded o Inr e1 scan show ?thesis
          by (auto simp: bindW_def liftW_def returnW_def record_effect_def Let_def)
      next
        case old
        with unfolded o Inr e1 scan show ?thesis
          by (auto simp: bindW_def liftW_def returnW_def record_effect_def Let_def)
      next
        case new
        then have n: "h \<noteq> Some sq" "(case h of None \<Rightarrow> False | Some value \<Rightarrow> sq < value) = False"
          by (auto split: option.splits)
        consider (err) e where "fs' = fs1" "r = Inl e"
          | (go) "length (sf_entries fs ?dir) < max_state_markers"
            "append_marker mc ?f (sc_pid k) (sc_random k) ?dir i sq fs1 = (r, fs')"
          using unfolded o Inr e1 scan n
          by (auto simp: bindW_def liftW_def marker_count_def bindR_def reject_def
              split: if_splits sum.splits)
        then show ?thesis
        proof cases
          case err
          with e1 show ?thesis by (simp add: record_effect_def)
        next
          case go
          have may: "\<exists>f h. scan_highest_sequence d mc f i (sf_entries fs ?dir) = Inr h
              \<and> (\<forall>m. h = Some m \<longrightarrow> m < sq)"
            using scan new by blast
          from append_marker_result [OF go(2)] show ?thesis
          proof
            assume "sf_entries fs' = sf_entries fs1 \<and> r \<noteq> Inr ()"
            with e1 show ?thesis by (simp add: record_effect_def)
          next
            assume "appended mc ?dir i sq fs1 fs'"
            with e1 have "appended mc ?dir i sq fs fs'" by (simp add: appended_def)
            with may go(1) v show ?thesis unfolding record_effect_def Let_def by blast
          qed
        qed
      qed
    qed
  qed
qed

lemma record_effect_extends: "record_effect d mc i sq fs r fs' \<Longrightarrow> extends fs fs'"
  by (auto simp: record_effect_def Let_def appended_def extends_def)

lemma record_effect_recorded:
  assumes "record_effect d mc i sq fs (Inr ()) fs'"
  shows "\<exists>e\<in>set (sf_entries fs' (issuer_directory d i)). de_name e = marker_file_name sq"
proof -
  from assms consider (same) f where "sf_entries fs' = sf_entries fs"
      "scan_highest_sequence d mc f i (sf_entries fs (issuer_directory d i)) = Inr (Some sq)"
    | (new) "appended mc (issuer_directory d i) i sq fs fs'"
    by (auto simp: record_effect_def Let_def)
  then show ?thesis
  proof cases
    case same
    with scan_attained [OF same(2)] show ?thesis by (auto dest: marker_of_name)
  next
    case new
    then show ?thesis by (auto simp: appended_def new_marker_def)
  qed
qed

lemma record_effect_upper:
  assumes "record_effect d mc i sq fs (Inr ()) fs'"
    and "e \<in> set (sf_entries fs (issuer_directory d i))" and "de_name e = marker_file_name old"
  shows "old \<le> sq"
proof -
  from assms(1) obtain f h where h: "scan_highest_sequence d mc f i
      (sf_entries fs (issuer_directory d i)) = Inr h" "\<forall>m. h = Some m \<longrightarrow> m \<le> sq"
    by (force simp: record_effect_def Let_def)
  from scan_upper [OF h(1) assms(2,3)] h(2) show ?thesis by auto
qed

section \<open>Histories\<close>

text \<open>
  A verifier's life: decisions and queries of any processes, one after the other, each with its own
  documents, trust store, time and failures. The list holds what was accepted, in order.
\<close>

inductive store_step ::
  "deps \<Rightarrow> trust_codec \<Rightarrow> marker_codec \<Rightarrow> store_fs \<Rightarrow> verified_certification list \<Rightarrow> store_fs \<Rightarrow> bool"
  for d c mc where
  accept: "fetch_verify_and_record d c mc k source sb expected now fs = (Inr v, fs') \<Longrightarrow>
     store_step d c mc fs [v] fs'"
| refuse: "fetch_verify_and_record d c mc k source sb expected now fs = (Inl e, fs') \<Longrightarrow>
     store_step d c mc fs [] fs'"
| query: "highest_sequence d mc k i fs = (r, fs') \<Longrightarrow> store_step d c mc fs [] fs'"

inductive history ::
  "deps \<Rightarrow> trust_codec \<Rightarrow> marker_codec \<Rightarrow> store_fs \<Rightarrow> verified_certification list \<Rightarrow> store_fs \<Rightarrow> bool"
  for d c mc fs0 where
  start: "history d c mc fs0 [] fs0"
| step: "history d c mc fs0 vs fs \<Longrightarrow> store_step d c mc fs vs' fs' \<Longrightarrow>
     history d c mc fs0 (vs @ vs') fs'"

inductive_cases store_step_accepted: "store_step d c mc fs [v] fs'"

lemma fetch_cases:
  assumes "fetch_verify_and_record d c mc k source sb expected now fs = (r, fs')"
  shows "(fs' = fs \<and> (\<forall>v. r \<noteq> Inr v))
    \<or> (\<exists>v r'. record_effect d mc (vc_issuer_id v) (vc_revocation_sequence v) fs r' fs'
         \<and> (\<forall>w. r = Inr w \<longrightarrow> w = v \<and> r' = Inr ()))"
proof (cases "source expected")
  case (Inl e)
  with assms show ?thesis by (auto simp: fetch_verify_and_record_def bindW_def liftW_def)
next
  case src: (Inr ev)
  show ?thesis
  proof (cases "verify_certification_evidence d c (ed_report ev) (ed_envelope ev) sb
      (ed_revocations ev) expected \<lparr>dc_now = now, dc_minimum_sequence = 0\<rparr>")
    case (Inl e)
    with assms src show ?thesis by (auto simp: fetch_verify_and_record_def bindW_def liftW_def)
  next
    case ver: (Inr v)
    obtain r' fs1 where rec: "record_verified d mc k (vc_issuer_id v) (vc_revocation_sequence v) fs
        = (r', fs1)" by fastforce
    with assms src ver have "fs' = fs1 \<and> (\<forall>w. r = Inr w \<longrightarrow> w = v \<and> r' = Inr ())"
      by (cases r') (auto simp: fetch_verify_and_record_def bindW_def liftW_def returnW_def)
    with record_verified_effect [OF rec] show ?thesis by blast
  qed
qed

lemma highest_sequence_entries:
  assumes "highest_sequence d mc k i fs = (r, fs')"
  shows "sf_entries fs' = sf_entries fs"
proof -
  have eq: "highest_sequence d mc k i = bindW (opened d (sc_faults k) i) (\<lambda>_ fs.
      (scan_highest_sequence d mc (sc_faults k) i (sf_entries fs (issuer_directory d i)), fs))"
    by (simp add: highest_sequence_def opened_def Let_def bindW_assoc)
  obtain r1 fs1 where o: "opened d (sc_faults k) i fs = (r1, fs1)" by fastforce
  from opened_entries [OF o] o assms show ?thesis
    by (cases r1) (auto simp: eq bindW_def)
qed

lemma store_step_extends: "store_step d c mc fs vs fs' \<Longrightarrow> extends fs fs'"
  by (induction rule: store_step.induct)
     (auto dest!: fetch_cases highest_sequence_entries intro: record_effect_extends extends_same)

lemma store_step_effect:
  assumes "store_step d c mc fs vs fs'" and "v \<in> set vs"
  shows "record_effect d mc (vc_issuer_id v) (vc_revocation_sequence v) fs (Inr ()) fs' \<and> vs = [v]"
  using assms
proof (induction rule: store_step.induct)
  case (accept k source sb expected now fs v' fs')
  from fetch_cases [OF accept.hyps] accept.prems show ?case by auto
qed simp_all

text \<open>Everything accepted so far is on disk, and the accepted sequences of an issuer only rise.\<close>

definition rising :: "verified_certification list \<Rightarrow> bool" where
  "rising = sorted_wrt (\<lambda>u v. vc_issuer_id u = vc_issuer_id v \<longrightarrow>
     vc_revocation_sequence u \<le> vc_revocation_sequence v)"

definition on_disk :: "deps \<Rightarrow> verified_certification list \<Rightarrow> store_fs \<Rightarrow> bool" where
  "on_disk d vs fs \<longleftrightarrow> (\<forall>v\<in>set vs. \<exists>e\<in>set (sf_entries fs (issuer_directory d (vc_issuer_id v))).
     de_name e = marker_file_name (vc_revocation_sequence v))"

lemma rising_snoc:
  "rising (vs @ [v]) \<longleftrightarrow> rising vs \<and> (\<forall>u\<in>set vs. vc_issuer_id u = vc_issuer_id v \<longrightarrow>
     vc_revocation_sequence u \<le> vc_revocation_sequence v)"
  by (auto simp: rising_def sorted_wrt_append)

lemma history_rising:
  assumes "history d c mc fs0 vs fs"
  shows "rising vs \<and> on_disk d vs fs \<and> extends fs0 fs"
  using assms
proof (induction rule: history.induct)
  case start
  then show ?case by (simp add: rising_def on_disk_def)
next
  case (step vs fs vs' fs')
  have ext: "extends fs fs'" by (rule store_step_extends [OF step.hyps(2)])
  then have old: "on_disk d vs fs'"
    using step.IH by (fastforce simp: on_disk_def dest: extends_mem)
  show ?case
  proof (cases vs')
    case Nil
    with step.IH old ext show ?thesis by (auto intro: extends_trans)
  next
    case (Cons v ws)
    then have e: "record_effect d mc (vc_issuer_id v) (vc_revocation_sequence v) fs (Inr ()) fs'"
      and v: "vs' = [v]"
      using store_step_effect [OF step.hyps(2), of v] by simp_all
    have "vc_revocation_sequence u \<le> vc_revocation_sequence v"
      if "u \<in> set vs" "vc_issuer_id u = vc_issuer_id v" for u
    proof -
      from step.IH that obtain x where "x \<in> set (sf_entries fs (issuer_directory d (vc_issuer_id v)))"
        "de_name x = marker_file_name (vc_revocation_sequence u)"
        by (force simp: on_disk_def)
      then show ?thesis by (rule record_effect_upper [OF e])
    qed
    moreover have "on_disk d (vs @ [v]) fs'"
      using old record_effect_recorded [OF e] by (simp add: on_disk_def)
    ultimately show ?thesis
      using step.IH ext v by (auto simp: rising_snoc intro: extends_trans)
  qed
qed

section \<open>Well-formed stores\<close>

text \<open>What the store relies on of its marker serialization (serde_json on a three-field struct).\<close>

definition marker_law :: "deps \<Rightarrow> marker_codec \<Rightarrow> bool" where
  "marker_law d mc \<longleftrightarrow> (\<forall>i sq. valid_token i 1 128 \<longrightarrow>
     (\<exists>body. print_marker mc \<lparr>mk_schema_version = 1, mk_issuer_id = i, mk_sequence = sq\<rparr> = Some body
        \<and> length body < max_state_marker_bytes \<and> unambiguous d (body @ [CHR 0x0A])
        \<and> parse_marker mc (body @ [CHR 0x0A])
            = Some \<lparr>mk_schema_version = 1, mk_issuer_id = i, mk_sequence = sq\<rparr>))"

definition dir_ok :: "deps \<Rightarrow> marker_codec \<Rightarrow> string \<Rightarrow> dir_entry list \<Rightarrow> bool" where
  "dir_ok d mc dir es \<longleftrightarrow> es = []
     \<or> (\<exists>i sqs. issuer_directory d i = dir \<and> list_all2 (marker_of d mc i) es sqs \<and> distinct sqs
          \<and> length es \<le> max_state_markers)"

definition store_ok :: "deps \<Rightarrow> marker_codec \<Rightarrow> store_fs \<Rightarrow> bool" where
  "store_ok d mc fs \<longleftrightarrow> (\<forall>dir. dir_ok d mc dir (sf_entries fs dir))"

lemma marker_file_name_utf8: "is_utf8 (marker_file_name sq)"
proof -
  have "printable (marker_file_name sq)"
    using printable_dec [of "unat sq"]
    by (simp add: marker_file_name_def pad0_def) (simp add: printable_def list_all_iff)
  then show ?thesis by (intro is_utf8_ascii printable_ascii)
qed

lemma new_marker_ok:
  assumes "marker_law d mc" and "valid_token i 1 128"
    and "print_marker mc \<lparr>mk_schema_version = 1, mk_issuer_id = i, mk_sequence = sq\<rparr> = Some body"
  shows "marker_of d mc i (new_marker sq (body @ [CHR 0x0A])) sq"
proof -
  from assms have "length body < max_state_marker_bytes" "unambiguous d (body @ [CHR 0x0A])"
    "parse_marker mc (body @ [CHR 0x0A])
      = Some \<lparr>mk_schema_version = 1, mk_issuer_id = i, mk_sequence = sq\<rparr>"
    unfolding marker_law_def by (metis option.inject)+
  then show ?thesis
    using marker_file_name_utf8 [of sq]
    by (simp add: marker_of_def entry_sequence_def new_marker_def parse_marker_file_name_roundtrip)
qed

lemma markers_names: "list_all2 (marker_of d mc i) es sqs \<Longrightarrow> map de_name es = map marker_file_name sqs"
  by (induction rule: list_all2_induct) (simp_all add: marker_of_name)

lemma markers_unique:
  assumes "list_all2 (marker_of d mc i) es sqs" and "list_all2 (marker_of d mc j) es sqs'"
  shows "sqs = sqs'"
proof -
  have "map marker_file_name sqs = map marker_file_name sqs'"
    using markers_names [OF assms(1)] markers_names [OF assms(2)] by simp
  then show ?thesis by (rule map_injective) (simp add: inj_def marker_file_name_inj)
qed

lemma record_effect_ok:
  assumes ok: "store_ok d mc fs" and "marker_law d mc" and "record_effect d mc i sq fs r fs'"
  shows "store_ok d mc fs'"
proof -
  let ?dir = "issuer_directory d i"
  let ?es = "sf_entries fs ?dir"
  from assms(3) consider (same) "sf_entries fs' = sf_entries fs"
    | (new) f h where "scan_highest_sequence d mc f i ?es = Inr h" "\<forall>m. h = Some m \<longrightarrow> m < sq"
      "length ?es < max_state_markers" "valid_token i 1 128" "appended mc ?dir i sq fs fs'"
    by (auto simp: record_effect_def Let_def)
  then show ?thesis
  proof cases
    case same
    with ok show ?thesis by (simp add: store_ok_def)
  next
    case new
    from scan_Inr [OF new(1)] obtain sqs where
      sqs: "list_all2 (marker_of d mc i) ?es sqs" "h = (if sqs = [] then None else Some (Max (set sqs)))"
      by blast
    from ok have "dir_ok d mc ?dir ?es" by (simp add: store_ok_def)
    then have "distinct sqs"
      unfolding dir_ok_def using sqs(1) markers_unique [OF sqs(1)] by (metis distinct.simps(1) list_all2_Nil)
    moreover have "sq \<notin> set sqs"
    proof
      assume m: "sq \<in> set sqs"
      then have "sqs \<noteq> []" by auto
      with sqs(2) new(2) have "Max (set sqs) < sq" by simp
      moreover have "sq \<le> Max (set sqs)" using m by simp
      ultimately show False by simp
    qed
    moreover from new(5) obtain body where
      p: "print_marker mc \<lparr>mk_schema_version = 1, mk_issuer_id = i, mk_sequence = sq\<rparr> = Some body"
      and e: "sf_entries fs' = (sf_entries fs)(?dir := ?es @ [new_marker sq (body @ [CHR 0x0A])])"
      by (auto simp: appended_def)
    moreover have "list_all2 (marker_of d mc i) (?es @ [new_marker sq (body @ [CHR 0x0A])]) (sqs @ [sq])"
      using sqs(1) new_marker_ok [OF assms(2) new(4) p] by (simp add: list_all2_appendI)
    ultimately have "dir_ok d mc ?dir (sf_entries fs' ?dir)"
      using new(3) unfolding dir_ok_def
      by (intro disjI2 exI [of _ i] exI [of _ "sqs @ [sq]"]) simp
    with ok e show ?thesis by (simp add: store_ok_def)
  qed
qed

lemma store_step_ok:
  assumes "store_step d c mc fs vs fs'" and "store_ok d mc fs" and "marker_law d mc"
  shows "store_ok d mc fs'"
  using assms
proof (induction rule: store_step.induct)
  case (query k i fs r fs')
  then show ?case by (simp add: store_ok_def highest_sequence_entries)
qed (auto dest!: fetch_cases intro: record_effect_ok)

lemma history_ok:
  assumes "history d c mc fs0 vs fs" and "store_ok d mc fs0" and "marker_law d mc"
  shows "store_ok d mc fs"
  using assms by (induction rule: history.induct) (auto intro: store_step_ok)

section \<open>The abstract store\<close>

text \<open>
  An issuer's rollback state is the set of sequences recorded for it. Recording a sequence refuses
  an older one, accepts the highest one again, and adds a newer one within the limit.
\<close>

definition recorded :: "deps \<Rightarrow> store_fs \<Rightarrow> string \<Rightarrow> u64 set" where
  "recorded d fs i =
     {sq. \<exists>e\<in>set (sf_entries fs (issuer_directory d i)). de_name e = marker_file_name sq}"

definition spec_record :: "u64 set \<Rightarrow> u64 \<Rightarrow> unit res \<times> u64 set" where
  "spec_record S sq =
    (if \<exists>s\<in>S. sq < s then (Inl (VErr ''certification.revocationRollback''), S)
     else if sq \<in> S then (Inr (), S)
     else if card S \<ge> max_state_markers then (Inl (VErr ''certification.stateMarkerLimit''), S)
     else (Inr (), insert sq S))"

text \<open>A call in which nothing fails, on a layout without symbolic links or foreign files.\<close>

definition calm :: "store_call \<Rightarrow> u64 \<Rightarrow> store_fs \<Rightarrow> bool" where
  "calm k sq fs \<longleftrightarrow> (\<forall>p. \<not> sc_faults k p)
     \<and> (\<exists>nonce. sc_random k = Some nonce \<and> sf_pending fs (pending_name (sc_pid k) sq nonce) = None)
     \<and> (\<forall>p. sf_paths fs p = Missing \<or> sf_paths fs p = Directory)
     \<and> (\<forall>n. sf_lock_files fs n = Missing \<or> sf_lock_files fs n = OtherFile)"

lemma calm_ensure_directory:
  assumes "\<And>p. \<not> f p" and "\<And>p. sf_paths fs p = Missing \<or> sf_paths fs p = Directory"
  shows "ensure_directory f p fs = (Inr (), fs\<lparr>sf_paths := (sf_paths fs)(p := Directory)\<rparr>)"
  using assms(1) assms(2) [of p] by (auto simp: ensure_directory_def Let_def)

lemma calm_opened:
  assumes "\<And>p. \<not> f p" and "\<And>p. sf_paths fs p = Missing \<or> sf_paths fs p = Directory"
    and "\<And>n. sf_lock_files fs n = Missing \<or> sf_lock_files fs n = OtherFile"
    and "valid_token i 1 128"
  shows "\<exists>fs'. opened d f i fs = (Inr (), fs') \<and> sf_entries fs' = sf_entries fs
    \<and> sf_pending fs' = sf_pending fs
    \<and> (\<forall>p. sf_paths fs' p = Missing \<or> sf_paths fs' p = Directory)
    \<and> (\<forall>n. sf_lock_files fs' n = Missing \<or> sf_lock_files fs' n = OtherFile)"
proof -
  have lock: "acquire_lock d f i fs = (Inr (), fs\<lparr>sf_lock_files := (sf_lock_files fs)
      (issuer_directory d i @ ''.lock'' := OtherFile)\<rparr>)"
    if "\<And>n. sf_lock_files fs n = Missing \<or> sf_lock_files fs n = OtherFile" for fs
    using assms(1) that [of "issuer_directory d i @ ''.lock''"] by (auto simp: acquire_lock_def Let_def)
  have ens: "ensure_directory f p fs = (Inr (), fs\<lparr>sf_paths := (sf_paths fs)(p := Directory)\<rparr>)"
    if "\<And>p. sf_paths fs p = Missing \<or> sf_paths fs p = Directory" for fs p
    using assms(1) that by (rule calm_ensure_directory)
  show ?thesis
    using assms(2,3,4)
    by (simp add: opened_def prepare_layout_def bindW_def liftW_def validate_issuer_id_def ens lock)
qed

lemma calm_scan_entries:
  assumes "\<And>p. \<not> f p" and "list_all2 (marker_of d mc i) es sqs"
    and "n + length es \<le> max_state_markers"
  shows "scan_entries d mc f i n h es = Inr (highest_of h sqs)"
  using assms(2,3)
proof (induction arbitrary: n h rule: list_all2_induct)
  case (Cons e es sq sqs)
  have "entry_sequence d mc i False e = Inr sq" using Cons.hyps by (simp add: marker_of_def)
  with Cons assms(1) show ?case by (simp add: highest_of_def)
qed (simp add: highest_of_def)

lemma calm_scan:
  assumes "\<And>p. \<not> f p" and "list_all2 (marker_of d mc i) es sqs"
    and "length es \<le> max_state_markers"
  shows "scan_highest_sequence d mc f i es = Inr (if sqs = [] then None else Some (Max (set sqs)))"
  using assms calm_scan_entries [of f d mc i es sqs 0 None]
  by (simp add: scan_highest_sequence_def highest_of_None)

lemma recorded_markers:
  assumes "list_all2 (marker_of d mc i) (sf_entries fs (issuer_directory d i)) sqs"
  shows "recorded d fs i = set sqs"
proof -
  have "de_name ` set (sf_entries fs (issuer_directory d i)) = marker_file_name ` set sqs"
    using arg_cong [OF markers_names [OF assms], of set] by simp
  then show ?thesis
    by (auto simp: recorded_def marker_file_name_inj image_iff set_eq_iff) (metis marker_file_name_inj)+
qed

lemma calm_append:
  assumes "\<And>p. \<not> f p" and "sf_pending fs (pending_name pid sq nonce) = None"
    and "print_marker mc \<lparr>mk_schema_version = 1, mk_issuer_id = i, mk_sequence = sq\<rparr> = Some body"
    and "marker_file_name sq \<notin> de_name ` set (sf_entries fs dir)"
  shows "\<exists>fs'. append_marker mc f pid (Some nonce) dir i sq fs = (Inr (), fs')
    \<and> sf_entries fs' = (sf_entries fs)(dir := sf_entries fs dir @ [new_marker sq (body @ [CHR 0x0A])])"
proof -
  have "\<not> list_ex (\<lambda>e. de_name e = marker_file_name sq) (sf_entries fs dir)"
    using assms(4) by (auto simp: list_ex_iff image_iff)
  with assms(1-3) show ?thesis
    by (simp add: append_marker_def bindW_def liftW_def Let_def commit_marker_def remove_pending_def
        new_marker_def)
qed

lemma record_refines:
  assumes ok: "store_ok d mc fs" and law: "marker_law d mc" and i: "valid_token i 1 128"
    and alone: "\<And>j. issuer_directory d j = issuer_directory d i \<Longrightarrow> j = i"
    and calm: "calm k sq fs"
  shows "\<exists>fs'. record_verified d mc k i sq fs = (fst (spec_record (recorded d fs i) sq), fs')
    \<and> recorded d fs' i = snd (spec_record (recorded d fs i) sq)
    \<and> (\<forall>dir. dir \<noteq> issuer_directory d i \<longrightarrow> sf_entries fs' dir = sf_entries fs dir)"
proof -
  let ?dir = "issuer_directory d i" and ?f = "sc_faults k"
  let ?es = "sf_entries fs ?dir"
  from calm obtain nonce where c: "\<And>p. \<not> ?f p" "sc_random k = Some nonce"
    "sf_pending fs (pending_name (sc_pid k) sq nonce) = None"
    "\<And>p. sf_paths fs p = Missing \<or> sf_paths fs p = Directory"
    "\<And>n. sf_lock_files fs n = Missing \<or> sf_lock_files fs n = OtherFile"
    by (auto simp: calm_def)
  from calm_opened [of ?f fs i d, OF c(1,4,5) i] obtain fs1 where
    o: "opened d ?f i fs = (Inr (), fs1)" "sf_entries fs1 = sf_entries fs"
      "sf_pending fs1 = sf_pending fs" by blast
  from ok have "dir_ok d mc ?dir ?es" by (simp add: store_ok_def)
  then obtain sqs where sqs: "list_all2 (marker_of d mc i) ?es sqs" "distinct sqs"
    "length ?es \<le> max_state_markers"
    by (auto simp: dir_ok_def dest: alone)
  note rec = recorded_markers [OF sqs(1)]
  have card: "card (recorded d fs i) = length ?es"
    using sqs by (simp add: rec distinct_card list_all2_lengthD)
  note scan = calm_scan [of ?f, OF c(1) sqs(1,3)]
  have cnt: "marker_count ?f ?es = Inr (length ?es)"
    using c(1) by (simp add: marker_count_def list_ex_iff)
  note unf = record_verified_opened [of d mc k i sq]
  show ?thesis
  proof (cases "\<exists>s\<in>set sqs. sq < s")
    case True
    then have ne: "sqs \<noteq> []" by auto
    with True have "sq < Max (set sqs)" by (simp add: Max_gr_iff)
    with ne True scan o rec show ?thesis
      by (intro exI [of _ fs1]) (simp add: unf bindW_def liftW_def spec_record_def recorded_def)
  next
    case le: False
    show ?thesis
    proof (cases "sq \<in> set sqs")
      case True
      with le have "sqs \<noteq> []" "Max (set sqs) = sq" by (auto intro!: Max_eqI simp: not_less)
      with True le scan o rec show ?thesis
        by (intro exI [of _ fs1])
           (simp add: unf bindW_def liftW_def returnW_def spec_record_def, simp add: recorded_def)
    next
      case new: False
      then have h: "(if sqs = [] then None else Some (Max (set sqs))) \<noteq> Some sq"
        "\<not> (case if sqs = [] then None else Some (Max (set sqs)) of None \<Rightarrow> False | Some value \<Rightarrow> sq < value)"
        using le Max_in [of "set sqs"] by (auto simp: Max_gr_iff)
      show ?thesis
      proof (cases "length ?es \<ge> max_state_markers")
        case True
        with new le scan o rec card cnt h show ?thesis
          by (intro exI [of _ fs1])
             (simp add: unf bindW_def liftW_def spec_record_def, simp add: recorded_def)
      next
        case False
        have "sq \<notin> recorded d fs i" using new rec by simp
        then have "marker_file_name sq \<notin> de_name ` set (sf_entries fs1 ?dir)"
          by (auto simp: recorded_def o(2))
        moreover from law i obtain body where
          p: "print_marker mc \<lparr>mk_schema_version = 1, mk_issuer_id = i, mk_sequence = sq\<rparr> = Some body"
          unfolding marker_law_def by blast
        ultimately obtain fs' where
          a: "append_marker mc ?f (sc_pid k) (Some nonce) ?dir i sq fs1 = (Inr (), fs')"
          and e: "sf_entries fs' = (sf_entries fs1)(?dir := sf_entries fs1 ?dir
              @ [new_marker sq (body @ [CHR 0x0A])])"
          using calm_append [of ?f fs1 "sc_pid k" sq nonce mc i body ?dir] c o(3) by auto
        have "record_verified d mc k i sq fs = (Inr (), fs')"
          unfolding unf using scan o cnt h False a c(2) by (simp add: bindW_def liftW_def)
        moreover have "recorded d fs' i = insert sq (recorded d fs i)"
          using e o(2) by (auto simp: recorded_def new_marker_def marker_file_name_inj)
        ultimately show ?thesis
          using new le rec card False e o(2) by (intro exI [of _ fs']) (simp add: spec_record_def)
      qed
    qed
  qed
qed

end
