(* ===== verification/Rollback.thy ===== *)
theory Rollback
  imports Distribution Evidence
begin

text \<open>
  The properties of the revocation state: accepted sequences never fall, the store refines an
  append-only set per issuer, and no failure leaves it corrupted.
\<close>

section \<open>A concrete store\<close>

definition empty_store :: store_fs where
  "empty_store = \<lparr>sf_paths = (\<lambda>_. Missing), sf_lock_files = (\<lambda>_. Missing),
     sf_pending = (\<lambda>_. None), sf_entries = (\<lambda>_. [])\<rparr>"

definition demo_marker_codec :: marker_codec where
  "demo_marker_codec = \<lparr>
     print_marker = (\<lambda>m. Some (marker_file_name (mk_sequence m) @ mk_issuer_id m)),
     parse_marker = (\<lambda>b. map_option (\<lambda>sq. \<lparr>mk_schema_version = 1,
        mk_issuer_id = butlast (drop 34 b), mk_sequence = sq\<rparr>) (parse_marker_file_name (take 34 b)))\<rparr>"

definition demo_call :: store_call where
  "demo_call = \<lparr>sc_faults = (\<lambda>_. False), sc_pid = 7, sc_random = Some ''nonce''\<rparr>"

text \<open>Hashes under which the demonstration's issuer has a directory of its own.\<close>

definition lone_deps :: deps where
  "lone_deps = demo_deps\<lparr>sha256 := \<lambda>x. replicate 32 (if x = ''tokensaver'' then CHR ''A'' else CHR ''B'')\<rparr>"

definition demo_source :: evidence_source where
  "demo_source sj = Inr \<lparr>ed_report = ''R'', ed_envelope = ''E'', ed_revocations = ''L''\<rparr>"

lemma length_marker_file_name: "length (marker_file_name sq) = 34"
  using length_pad0 [OF length_dec_u64, of sq] by (simp add: marker_file_name_def)

lemma demo_marker_law: "marker_law d demo_marker_codec" if "\<And>x. unambiguous d x"
  unfolding marker_law_def
proof (intro allI impI)
  fix i :: string and sq :: u64
  assume "valid_token i 1 128"
  then have "length i \<le> 128" by (rule valid_token_length)
  then show "\<exists>body. print_marker demo_marker_codec
        \<lparr>mk_schema_version = 1, mk_issuer_id = i, mk_sequence = sq\<rparr> = Some body
      \<and> length body < max_state_marker_bytes \<and> unambiguous d (body @ [CHR 0x0A])
      \<and> parse_marker demo_marker_codec (body @ [CHR 0x0A])
          = Some \<lparr>mk_schema_version = 1, mk_issuer_id = i, mk_sequence = sq\<rparr>"
    using that length_marker_file_name [of sq]
    by (simp add: demo_marker_codec_def max_state_marker_bytes_def parse_marker_file_name_roundtrip
        butlast_append)
qed

lemma empty_store_ok: "store_ok d mc empty_store"
  by (simp add: store_ok_def dir_ok_def empty_store_def)

lemma demo_calm: "calm demo_call sq empty_store"
  by (simp add: calm_def demo_call_def empty_store_def)

lemma lone_directory: "issuer_directory lone_deps j = issuer_directory lone_deps ''tokensaver'' \<Longrightarrow>
    j = ''tokensaver''"
proof -
  assume "issuer_directory lone_deps j = issuer_directory lone_deps ''tokensaver''"
  then show "j = ''tokensaver''"
    by (cases "j = ''tokensaver''")
       (auto simp: issuer_directory_def issuer_hash_def lone_deps_def dest!: hex_inj)
qed

lemma lone_unambiguous: "unambiguous lone_deps x"
  by (simp add: validate_unambiguous_json_def lone_deps_def demo_deps_def)

lemma demo_verify_any:
  "verify_certification_evidence demo_deps demo_trust_codec ''R'' ''E'' ''S'' ''L''
      demo_subject \<lparr>dc_now = 500, dc_minimum_sequence = 0\<rparr> = Inr demo_verified"
proof -
  let ?ctx = "\<lparr>dc_now = 500, dc_minimum_sequence = 0\<rparr>"
  have "exchange_ok demo_deps demo_trust_codec demo_signer demo_exchange ''R'' ?ctx"
    using demo_pinned demo_store_valid
    by (simp add: exchange_ok_def demo_exchange_def demo_trust_codec_def demo_report_def)
  from issue_verify [OF demo_deps_laws(2) this demo_issued_envelope demo_issued_list demo_transported]
  show ?thesis
    by (simp add: demo_exchange_def demo_report_def demo_verified_def)
qed

lemma demo_accepts:
  "\<exists>fs. fetch_verify_and_record demo_deps demo_trust_codec demo_marker_codec demo_call demo_source
      ''S'' demo_subject 500 empty_store = (Inr demo_verified, fs)"
proof -
  have tok: "valid_token ''tokensaver'' 1 128" by (rule demo_tokens)
  have "\<exists>fs. record_verified demo_deps demo_marker_codec demo_call ''tokensaver'' 5 empty_store
      = (Inr (), fs)"
  proof -
    from calm_opened [of "sc_faults demo_call" empty_store "''tokensaver''" demo_deps] tok
    obtain fs1 where o: "opened demo_deps (sc_faults demo_call) ''tokensaver'' empty_store = (Inr (), fs1)"
      "sf_entries fs1 = (\<lambda>_. [])" "sf_pending fs1 = (\<lambda>_. None)"
      by (auto simp: demo_call_def empty_store_def)
    from calm_append [of "sc_faults demo_call" fs1 7 5 "''nonce''" demo_marker_codec "''tokensaver''"
        _ "issuer_directory demo_deps ''tokensaver''"] o
    obtain fs2 where "append_marker demo_marker_codec (sc_faults demo_call) 7 (Some ''nonce'')
        (issuer_directory demo_deps ''tokensaver'') ''tokensaver'' 5 fs1 = (Inr (), fs2)"
      by (auto simp: demo_call_def demo_marker_codec_def)
    with o show ?thesis
      by (simp add: record_verified_opened bindW_def liftW_def scan_highest_sequence_def
          marker_count_def max_state_markers_def demo_call_def)
  qed
  then obtain fs where "record_verified demo_deps demo_marker_codec demo_call ''tokensaver'' 5
      empty_store = (Inr (), fs)" by blast
  with demo_verify_any show ?thesis
    by (auto simp: fetch_verify_and_record_def bindW_def liftW_def returnW_def demo_source_def
        demo_verified_simps)
qed

section \<open>Properties\<close>

text \<open>C2: rollback protection: in any history of decisions over one store, by any processes, with
  any documents, times, operating-system failures and initial contents, the revocation sequences
  accepted for an issuer never fall, and each accepted sequence stays on disk.\<close>
theorem accepted_sequences_rise:
  assumes "history d c mc fs0 vs fs" and "m < n" and "n < length vs"
    and "vc_issuer_id (vs ! m) = vc_issuer_id (vs ! n)"
  shows "vc_revocation_sequence (vs ! m) \<le> vc_revocation_sequence (vs ! n)
    \<and> vc_revocation_sequence (vs ! n) \<in> recorded d fs (vc_issuer_id (vs ! n))"
proof
  note h = history_rising [OF assms(1)]
  then have "sorted_wrt (\<lambda>u v. vc_issuer_id u = vc_issuer_id v \<longrightarrow>
      vc_revocation_sequence u \<le> vc_revocation_sequence v) vs"
    by (simp add: rising_def)
  from sorted_wrt_nth_less [OF this assms(2,3)] assms(4)
  show "vc_revocation_sequence (vs ! m) \<le> vc_revocation_sequence (vs ! n)" by simp
  show "vc_revocation_sequence (vs ! n) \<in> recorded d fs (vc_issuer_id (vs ! n))"
    using h assms(3) by (simp add: on_disk_def recorded_def)
qed

lemma demo_history:
  "\<exists>fs. history demo_deps demo_trust_codec demo_marker_codec empty_store [demo_verified] fs"
proof -
  from demo_accepts obtain fs where "fetch_verify_and_record demo_deps demo_trust_codec
      demo_marker_codec demo_call demo_source ''S'' demo_subject 500 empty_store
      = (Inr demo_verified, fs)" by blast
  from history.step [OF history.start store_step.accept [OF this]] show ?thesis by auto
qed

text \<open>A store that already holds the demonstration's marker accepts it again, and stays so.\<close>

definition ready :: "store_fs \<Rightarrow> bool" where
  "ready fs \<longleftrightarrow> (\<forall>p. sf_paths fs p = Missing \<or> sf_paths fs p = Directory)
     \<and> (\<forall>n. sf_lock_files fs n = Missing \<or> sf_lock_files fs n = OtherFile)
     \<and> sf_entries fs (issuer_directory demo_deps ''tokensaver'')
         = [new_marker 5 (marker_file_name 5 @ ''tokensaver'' @ [CHR 0x0A])]"

lemma demo_accepts_again:
  assumes "ready fs"
  shows "\<exists>fs'. fetch_verify_and_record demo_deps demo_trust_codec demo_marker_codec demo_call
      demo_source ''S'' demo_subject 500 fs = (Inr demo_verified, fs') \<and> ready fs'"
proof -
  have f: "\<not> sc_faults demo_call p" for p by (simp add: demo_call_def)
  have tok: "valid_token ''tokensaver'' 1 128" by (rule demo_tokens)
  from calm_opened [of "sc_faults demo_call" fs "''tokensaver''" demo_deps] f tok assms
  obtain fs' where o: "opened demo_deps (sc_faults demo_call) ''tokensaver'' fs = (Inr (), fs')"
    and r: "ready fs'"
    by (auto simp: ready_def)
  have "print_marker demo_marker_codec \<lparr>mk_schema_version = 1, mk_issuer_id = ''tokensaver'',
      mk_sequence = 5\<rparr> = Some (marker_file_name 5 @ ''tokensaver'')"
    by (simp add: demo_marker_codec_def)
  from new_marker_ok [OF demo_marker_law [OF demo_unambiguous] tok this]
  have "list_all2 (marker_of demo_deps demo_marker_codec ''tokensaver'')
      [new_marker 5 (marker_file_name 5 @ ''tokensaver'' @ [CHR 0x0A])] [5]"
    by simp
  from calm_scan [of "sc_faults demo_call", OF f this]
  have "scan_highest_sequence demo_deps demo_marker_codec (sc_faults demo_call) ''tokensaver''
      [new_marker 5 (marker_file_name 5 @ ''tokensaver'' @ [CHR 0x0A])] = Inr (Some 5)"
    by (simp add: max_state_markers_def)
  with o r have "record_verified demo_deps demo_marker_codec demo_call ''tokensaver'' 5 fs = (Inr (), fs')"
    by (simp add: record_verified_opened bindW_def liftW_def returnW_def ready_def)
  with demo_verify_any r show ?thesis
    by (auto simp: fetch_verify_and_record_def bindW_def liftW_def returnW_def demo_source_def
        demo_verified_simps)
qed

theorem accepted_sequences_rise_witness:
  "\<exists>fs0 fs. history demo_deps demo_trust_codec demo_marker_codec fs0 [demo_verified, demo_verified] fs
     \<and> vc_revocation_sequence demo_verified \<in> recorded demo_deps fs ''tokensaver''"
proof -
  have "ready (empty_store\<lparr>sf_entries := \<lambda>_.
      [new_marker 5 (marker_file_name 5 @ ''tokensaver'' @ [CHR 0x0A])]\<rparr>)" (is "ready ?fs0")
    by (simp add: ready_def empty_store_def)
  from demo_accepts_again [OF this] obtain fs1 where
    one: "fetch_verify_and_record demo_deps demo_trust_codec demo_marker_codec demo_call
      demo_source ''S'' demo_subject 500 ?fs0 = (Inr demo_verified, fs1)" and "ready fs1" by blast
  from demo_accepts_again [OF this(2)] obtain fs2 where
    two: "fetch_verify_and_record demo_deps demo_trust_codec demo_marker_codec demo_call
      demo_source ''S'' demo_subject 500 fs1 = (Inr demo_verified, fs2)" by blast
  from history.step [OF history.step [OF history.start store_step.accept [OF one]]
      store_step.accept [OF two]]
  have h: "history demo_deps demo_trust_codec demo_marker_codec ?fs0 [demo_verified, demo_verified] fs2"
    by simp
  from accepted_sequences_rise [OF h, of 0 1] h show ?thesis by (auto simp: demo_verified_simps)
qed

text \<open>An accepted decision is verified and durable: the evidence passed the verification, its
  sequence is the highest one on disk for the issuer when the decision is returned, and every marker
  that was there before is still there.\<close>
lemma accepted_decision_durable:
  assumes "fetch_verify_and_record d c mc k source sb expected now fs = (Inr v, fs')"
  shows "\<exists>ev. source expected = Inr ev
    \<and> verify_certification_evidence d c (ed_report ev) (ed_envelope ev) sb (ed_revocations ev)
        expected \<lparr>dc_now = now, dc_minimum_sequence = 0\<rparr> = Inr v
    \<and> vc_revocation_sequence v \<in> recorded d fs' (vc_issuer_id v)
    \<and> (\<forall>old\<in>recorded d fs' (vc_issuer_id v). old \<le> vc_revocation_sequence v)
    \<and> (\<forall>i. recorded d fs i \<subseteq> recorded d fs' i)"
proof -
  from assms obtain ev where ev: "source expected = Inr ev"
    "verify_certification_evidence d c (ed_report ev) (ed_envelope ev) sb (ed_revocations ev)
        expected \<lparr>dc_now = now, dc_minimum_sequence = 0\<rparr> = Inr v"
    by (auto simp: fetch_verify_and_record_def io_simps)
  from fetch_cases [OF assms] have
    e: "record_effect d mc (vc_issuer_id v) (vc_revocation_sequence v) fs (Inr ()) fs'" by auto
  have new: "vc_revocation_sequence v \<in> recorded d fs' (vc_issuer_id v)"
    using record_effect_recorded [OF e] by (simp add: recorded_def)
  have old: "recorded d fs i \<subseteq> recorded d fs' i" for i
    using record_effect_extends [OF e] by (auto simp: recorded_def dest: extends_mem)
  have "x \<le> vc_revocation_sequence v" if "x \<in> recorded d fs' (vc_issuer_id v)" for x
    using that record_effect_upper [OF e] e
    by (auto simp: recorded_def record_effect_def Let_def appended_def new_marker_def
        marker_file_name_inj)
  with ev new old show ?thesis by blast
qed

lemma accepted_decision_durable_witness:
  "\<exists>fs. vc_revocation_sequence demo_verified \<in> recorded demo_deps fs ''tokensaver''
     \<and> (\<forall>old\<in>recorded demo_deps fs ''tokensaver''. old \<le> 5)"
proof -
  from demo_accepts obtain fs where a: "fetch_verify_and_record demo_deps demo_trust_codec
      demo_marker_codec demo_call demo_source ''S'' demo_subject 500 empty_store
      = (Inr demo_verified, fs)" by blast
  from accepted_decision_durable [OF a] show ?thesis by (auto simp: demo_verified_simps)
qed

text \<open>C18: the store refines an append-only set of sequences per issuer. In every state reachable
  from an empty store, whatever failed on the way, recording a sequence for an issuer, in a call
  where nothing fails, answers and changes the issuer's set as the abstract operation does (refuse
  an older sequence, accept the highest again, add a newer one up to the limit), and leaves the other
  issuers alone; in particular no failure ever leaves a store that is refused as corrupted. (No
  other issuer may share the issuer's directory, that is, its hash.)\<close>
theorem store_refines_sets:
  assumes "history d c mc empty_store vs fs" and "marker_law d mc" and "valid_token i 1 128"
    and "\<And>j. issuer_directory d j = issuer_directory d i \<Longrightarrow> j = i" and "calm k sq fs"
  shows "\<exists>fs'. record_verified d mc k i sq fs = (fst (spec_record (recorded d fs i) sq), fs')
    \<and> recorded d fs' i = snd (spec_record (recorded d fs i) sq)
    \<and> (\<forall>j. j \<noteq> i \<longrightarrow> recorded d fs' j = recorded d fs j)"
proof -
  have "store_ok d mc fs" by (rule history_ok [OF assms(1) empty_store_ok assms(2)])
  from record_refines [OF this assms(2-5)] obtain fs' where
    "record_verified d mc k i sq fs = (fst (spec_record (recorded d fs i) sq), fs')"
    "recorded d fs' i = snd (spec_record (recorded d fs i) sq)"
    "\<forall>dir. dir \<noteq> issuer_directory d i \<longrightarrow> sf_entries fs' dir = sf_entries fs dir" by blast
  moreover have "recorded d fs' j = recorded d fs j" if "j \<noteq> i" for j
  proof -
    have "issuer_directory d j \<noteq> issuer_directory d i" using assms(4) that by blast
    with calculation(3) show ?thesis by (simp add: recorded_def)
  qed
  ultimately show ?thesis by blast
qed

theorem store_refines_sets_witness:
  "\<exists>fs'. record_verified lone_deps demo_marker_codec demo_call ''tokensaver'' 5 empty_store
      = (Inr (), fs') \<and> recorded lone_deps fs' ''tokensaver'' = {5}"
proof -
  have "recorded lone_deps empty_store ''tokensaver'' = {}"
    by (simp add: recorded_def empty_store_def)
  with store_refines_sets [where c = demo_trust_codec and sq = 5, OF history.start
      demo_marker_law [OF lone_unambiguous] demo_tokens(1) lone_directory demo_calm]
  show ?thesis by (auto simp: spec_record_def max_state_markers_def)
qed

text \<open>Marker file names and sequences are in bijection: the reader accepts exactly the names the
  writer produces, and returns the sequence they were made from.\<close>

lemma marker_names_exact:
  "parse_marker_file_name name = Some sq \<longleftrightarrow> name = marker_file_name sq"
  by (rule parse_marker_file_name_Some)

end
