(* ===== verification/Admin.thy ===== *)
theory Admin
  imports Manifest Stage
begin

text \<open>
  tools/tsp/src/certification_admin.rs: the admin-policy metadata of a release, an exact
  projection of its manifest, and the stage evaluator that accepts a metadata document only when
  it is that projection. The keys of a \<^verbatim>\<open>BTreeMap\<close> are the first components of the entry list.
\<close>

section \<open>Data\<close>

record admin_metadata =
  am_schema_version :: u32
  am_subject :: subject
  am_manifest_digest :: string
  am_runtime_kind :: string
  am_runtime_platforms :: "string list"
  am_runtime_argument_count :: u32
  am_capability_kinds :: "string list"
  am_max_input_bytes :: int
  am_time_budget_ms :: int
  am_effective_budget_ms :: u32
  am_permission_count :: u32
  am_integrity_algorithm :: "string option"
  am_covered_platforms :: "string list"
  am_integrity_complete :: bool
  am_generated_at :: u64

record admin_evidence =
  ae_manifest_bytes :: bytes
  ae_metadata_bytes :: bytes

record admin_codec =
  parse_admin_manifest :: "bytes \<Rightarrow> manifest option"
  parse_admin_metadata :: "bytes \<Rightarrow> admin_metadata option"

definition max_admin_metadata_bytes :: nat where "max_admin_metadata_bytes = 262144"
definition max_admin_platforms :: nat where "max_admin_platforms = 512"

section \<open>Documents\<close>

definition admin_parse_manifest :: "deps \<Rightarrow> admin_codec \<Rightarrow> bytes \<Rightarrow> manifest res" where
  "admin_parse_manifest d c data =
     bindR (reject (data = [] \<or> length data > manifest_max_bytes)
       ''certification.adminManifestSize'') (\<lambda>_.
     bindR (reject (\<not> unambiguous d data) ''certification.adminManifestJson'') (\<lambda>_.
       ok_or ''certification.adminManifestJson'' (parse_admin_manifest c data)))"

definition admin_parse_metadata :: "deps \<Rightarrow> admin_codec \<Rightarrow> bytes \<Rightarrow> admin_metadata res" where
  "admin_parse_metadata d c data =
     bindR (reject (data = [] \<or> length data > max_admin_metadata_bytes)
       ''certification.adminMetadataSize'') (\<lambda>_.
     bindR (reject (\<not> unambiguous d data) ''certification.adminMetadataJson'') (\<lambda>_.
       ok_or ''certification.adminMetadataJson'' (parse_admin_metadata c data)))"

definition validate_manifest_subject :: "manifest \<Rightarrow> subject \<Rightarrow> unit res" where
  "validate_manifest_subject m sj =
     bindR (reject (mf_id m \<noteq> sj_plugin_id sj
         \<or> mf_version m \<noteq> sj_version sj
         \<or> mf_api_version m \<noteq> uint (sj_api_version sj)
         \<or> (case map_of (rt_entry (mf_runtime m)) (sj_platform sj) of
              None \<Rightarrow> True | Some entry \<Rightarrow> entry = []))
       ''certification.adminManifestSubject'') (\<lambda>_.
       reject (case mf_integrity m of
                 None \<Rightarrow> False
               | Some i \<Rightarrow>
                   (case map_of (in_digests i) (sj_platform sj) of
                      None \<Rightarrow> False | Some digest \<Rightarrow> digest \<noteq> sj_artifact_digest sj))
         ''certification.adminManifestArtifact'')"

section \<open>The projection\<close>

definition valid_platform_token :: "string \<Rightarrow> bool" where
  "valid_platform_token value \<longleftrightarrow>
     1 \<le> length value \<and> length value \<le> 160
     \<and> list_all (\<lambda>c. is_alnum c \<or> c \<in> {CHR ''.'', CHR ''_'', CHR ''-''}) value"

definition portable_count :: "nat \<Rightarrow> u32 res" where
  "portable_count n =
     (if n < 2 ^ 32 then Inr (word_of_nat n) else Inl (VErr ''certification.adminMetadata''))"

definition integrity_complete :: "manifest \<Rightarrow> subject \<Rightarrow> plugin_integrity \<Rightarrow> bool" where
  "integrity_complete m sj i \<longleftrightarrow>
     in_algorithm i = ''sha256''
     \<and> list_all (\<lambda>(platform, entry). entry \<noteq> [] \<and> platform \<in> fst ` set (in_digests i))
         (rt_entry (mf_runtime m))
     \<and> length (in_digests i) = length (rt_entry (mf_runtime m))
     \<and> map_of (in_digests i) (sj_platform sj) = Some (sj_artifact_digest sj)"

definition project_metadata ::
  "deps \<Rightarrow> manifest \<Rightarrow> bytes \<Rightarrow> subject \<Rightarrow> u64 \<Rightarrow> admin_metadata res" where
  "project_metadata d m manifest_bytes sj generated_at =
     bindR (reject (length (rt_entry (mf_runtime m)) > max_admin_platforms
         \<or> list_ex (\<lambda>(platform, _). \<not> valid_platform_token platform) (rt_entry (mf_runtime m))
         \<or> (case mf_integrity m of
              None \<Rightarrow> False
            | Some i \<Rightarrow> list_ex (\<lambda>(platform, _). \<not> valid_platform_token platform) (in_digests i)))
       ''certification.adminPlatforms'') (\<lambda>_.
     let (algorithm, covered, complete) =
           (case mf_integrity m of
              Some i \<Rightarrow> (Some (in_algorithm i), map fst (in_digests i), integrity_complete m sj i)
            | None \<Rightarrow> (None, [], False))
     in bindR (portable_count (length (rt_args (mf_runtime m)))) (\<lambda>argument_count.
        bindR (portable_count (length (mf_permissions m))) (\<lambda>permission_count.
          Inr \<lparr>am_schema_version = 1, am_subject = sj,
            am_manifest_digest = sha256_digest d manifest_bytes,
            am_runtime_kind = rt_kind (mf_runtime m),
            am_runtime_platforms = map fst (rt_entry (mf_runtime m)),
            am_runtime_argument_count = argument_count,
            am_capability_kinds = sort (cap_kinds (mf_capabilities m)),
            am_max_input_bytes = cap_max_input_bytes (mf_capabilities m),
            am_time_budget_ms = mf_time_budget_ms m,
            am_effective_budget_ms = effective_time_budget_ms m,
            am_permission_count = permission_count,
            am_integrity_algorithm = algorithm,
            am_covered_platforms = covered,
            am_integrity_complete = complete,
            am_generated_at = generated_at\<rparr>)))"

section \<open>The stage\<close>

definition valid_evidence_time :: "u64 \<Rightarrow> u64 \<Rightarrow> u64 \<Rightarrow> bool" where
  "valid_evidence_time value started completed \<longleftrightarrow>
     value \<noteq> 0 \<and> started \<noteq> 0 \<and> completed \<ge> started \<and> value \<ge> started \<and> value \<le> completed"

definition admin_detail :: "admin_metadata \<Rightarrow> string" where
  "admin_detail a =
     ''admin metadata: '' @ dec (length (am_runtime_platforms a)) @ '' runtime platforms, ''
     @ dec (length (am_capability_kinds a)) @ '' capability kinds, ''
     @ dec (unat (am_runtime_argument_count a)) @ '' arguments, ''
     @ dec (length (am_covered_platforms a)) @ '' integrity-covered platforms''"

definition admin_stage ::
  "deps \<Rightarrow> admin_evidence \<Rightarrow> admin_metadata \<Rightarrow> subject \<Rightarrow> producer \<Rightarrow> u64 \<Rightarrow> u64 \<Rightarrow> stage" where
  "admin_stage d ev a sj prd started completed =
     \<lparr>st_schema_version = 1, st_requirement = AdminPolicyMetadata, st_subject = sj,
      st_rule = certification_rule AdminPolicyMetadata, st_producer = prd,
      st_started_at = started, st_completed_at = completed, st_ok = am_integrity_complete a,
      st_inputs = [\<lparr>ref_name = ''plugin-manifest'',
        ref_digest = sha256_digest d (ae_manifest_bytes ev)\<rparr>],
      st_outputs = [\<lparr>ref_name = ''admin-policy-metadata'',
        ref_digest = sha256_digest d (ae_metadata_bytes ev)\<rparr>],
      st_detail = admin_detail a,
      st_remediation =
        (if am_integrity_complete a
         then ''regenerate admin metadata from the exact manifest for every release''
         else ''publish exact sha256 integrity for every non-empty runtime platform entry'')\<rparr>"

definition evaluate_admin_policy_metadata ::
  "deps \<Rightarrow> admin_codec \<Rightarrow> admin_evidence \<Rightarrow> subject \<Rightarrow> producer \<Rightarrow> u64 \<Rightarrow> u64 \<Rightarrow> stage res" where
  "evaluate_admin_policy_metadata d c ev sj prd started completed =
     bindR (admin_parse_manifest d c (ae_manifest_bytes ev)) (\<lambda>m.
     bindR (validate_manifest m) (\<lambda>_.
     bindR (validate_manifest_subject m sj) (\<lambda>_.
     bindR (project_metadata d m (ae_manifest_bytes ev) sj completed) (\<lambda>expected.
     bindR (admin_parse_metadata d c (ae_metadata_bytes ev)) (\<lambda>a.
     bindR (reject (a \<noteq> expected
         \<or> \<not> valid_evidence_time (am_generated_at a) started completed)
       ''certification.adminMetadata'') (\<lambda>_.
     let s = admin_stage d ev a sj prd started completed
     in bindR (validate_stage d s sj) (\<lambda>_. Inr s)))))))"

section \<open>What the evaluator establishes\<close>

lemma portable_count_Inr: "portable_count n = Inr x \<longleftrightarrow> n < 2 ^ 32 \<and> x = word_of_nat n"
  by (auto simp: portable_count_def)

text \<open>The projection, read declaratively: it exists exactly for manifests with few, well-formed
  platforms, and its counts lose nothing.\<close>

definition platforms_ok :: "manifest \<Rightarrow> bool" where
  "platforms_ok m \<longleftrightarrow>
     length (rt_entry (mf_runtime m)) \<le> 512
     \<and> (\<forall>p\<in>fst ` set (rt_entry (mf_runtime m)). valid_platform_token p)
     \<and> (\<forall>i. mf_integrity m = Some i \<longrightarrow> (\<forall>p\<in>fst ` set (in_digests i). valid_platform_token p))"

definition projection :: "deps \<Rightarrow> manifest \<Rightarrow> bytes \<Rightarrow> subject \<Rightarrow> u64 \<Rightarrow> admin_metadata" where
  "projection d m manifest_bytes sj generated_at =
     \<lparr>am_schema_version = 1, am_subject = sj, am_manifest_digest = sha256_digest d manifest_bytes,
      am_runtime_kind = ''executable'',
      am_runtime_platforms = map fst (rt_entry (mf_runtime m)),
      am_runtime_argument_count = word_of_nat (length (rt_args (mf_runtime m))),
      am_capability_kinds = sort (cap_kinds (mf_capabilities m)),
      am_max_input_bytes = cap_max_input_bytes (mf_capabilities m),
      am_time_budget_ms = mf_time_budget_ms m,
      am_effective_budget_ms = effective_time_budget_ms m,
      am_permission_count = 0,
      am_integrity_algorithm = map_option in_algorithm (mf_integrity m),
      am_covered_platforms = (case mf_integrity m of None \<Rightarrow> [] | Some i \<Rightarrow> map fst (in_digests i)),
      am_integrity_complete =
        (case mf_integrity m of None \<Rightarrow> False | Some i \<Rightarrow> integrity_complete m sj i),
      am_generated_at = generated_at\<rparr>"

lemma project_metadata_Inr:
  assumes "manifest_contract m"
  shows "project_metadata d m data sj t = Inr a \<longleftrightarrow> platforms_ok m \<and> a = projection d m data sj t"
proof -
  have "length (rt_args (mf_runtime m)) < 2 ^ 32" "mf_permissions m = []"
    "rt_kind (mf_runtime m) = ''executable''"
    using assms by (auto simp: manifest_contract_def)
  then show ?thesis
    by (cases "mf_integrity m")
       (auto simp: project_metadata_def res_simps portable_count_Inr platforms_ok_def
         projection_def max_admin_platforms_def list_ex_iff split: prod.splits)
qed

text \<open>Integrity is complete exactly when the covered platforms are the runtime platforms (as
  ordered maps), every entry is a file name, and the subject's digest is the declared one.\<close>

definition maps_ordered :: "manifest \<Rightarrow> bool" where
  "maps_ordered m \<longleftrightarrow> ascending (map fst (rt_entry (mf_runtime m)))
     \<and> (\<forall>i. mf_integrity m = Some i \<longrightarrow> ascending (map fst (in_digests i)))"

lemma ascending_set_eq:
  assumes "ascending xs" and "ascending ys" and "set xs = set ys"
  shows "xs = ys"
proof -
  have "sorted_wrt (<) xs" "sorted_wrt (<) ys" using assms(1,2) by (simp_all add: ascending_iff)
  then have "sorted xs" "sorted ys" "distinct xs" "distinct ys"
    by (auto simp: strict_sorted_iff)
  with assms(3) show ?thesis by (intro sorted_distinct_set_unique)
qed

lemma covered_iff:
  "list_all (\<lambda>(platform, entry). entry \<noteq> [] \<and> platform \<in> fst ` set gs) es \<longleftrightarrow>
     (\<forall>entry\<in>snd ` set es. entry \<noteq> []) \<and> set (map fst es) \<subseteq> set (map fst gs)"
  by (simp add: list_all_iff image_subset_iff split_beta) blast

lemma integrity_complete_iff:
  assumes "ascending (map fst (rt_entry (mf_runtime m)))" and "ascending (map fst (in_digests i))"
  shows "integrity_complete m sj i \<longleftrightarrow>
    in_algorithm i = ''sha256''
    \<and> map fst (in_digests i) = map fst (rt_entry (mf_runtime m))
    \<and> (\<forall>entry\<in>snd ` set (rt_entry (mf_runtime m)). entry \<noteq> [])
    \<and> map_of (in_digests i) (sj_platform sj) = Some (sj_artifact_digest sj)"
proof -
  let ?P = "map fst (rt_entry (mf_runtime m))" and ?Q = "map fst (in_digests i)"
  have dist: "distinct ?P" "distinct ?Q" using assms by (auto dest: ascending_distinct)
  have "?Q = ?P" if sub: "set ?P \<subseteq> set ?Q" and len: "length ?Q = length ?P"
  proof -
    have "card (set ?P) = card (set ?Q)" using dist len by (metis distinct_card)
    with sub have "set ?P = set ?Q" by (intro card_subset_eq) auto
    with ascending_set_eq [OF assms] show ?thesis by simp
  qed
  note eq = this
  have "length ?Q = length ?P \<and> set ?P \<subseteq> set ?Q \<longleftrightarrow> ?Q = ?P"
  proof
    assume "?Q = ?P"
    then show "length ?Q = length ?P \<and> set ?P \<subseteq> set ?Q" by simp
  qed (use eq in blast)
  then show ?thesis
    unfolding integrity_complete_def covered_iff length_map by blast
qed

lemma validate_manifest_subject_Inr:
  "validate_manifest_subject m sj = Inr () \<longleftrightarrow>
     mf_id m = sj_plugin_id sj \<and> mf_version m = sj_version sj
     \<and> mf_api_version m = uint (sj_api_version sj)
     \<and> runtime_entry m (sj_platform sj) \<noteq> None
     \<and> (\<forall>i g. mf_integrity m = Some i \<longrightarrow> map_of (in_digests i) (sj_platform sj) = Some g \<longrightarrow>
          g = sj_artifact_digest sj)"
  by (auto simp: validate_manifest_subject_def res_simps runtime_entry_def
      split: option.splits)

section \<open>The admin evaluator as a stage producer\<close>

text \<open>Well-formed evidence; the number of covered platforms is a \<^verbatim>\<open>usize\<close>.\<close>

definition admin_evidence_ok ::
  "deps \<Rightarrow> admin_codec \<Rightarrow> admin_evidence \<Rightarrow> subject \<Rightarrow> u64 \<Rightarrow> u64 \<Rightarrow> manifest \<Rightarrow> bool" where
  "admin_evidence_ok d c ev sj started completed m \<longleftrightarrow>
     admin_parse_manifest d c (ae_manifest_bytes ev) = Inr m
     \<and> manifest_contract m
     \<and> validate_manifest_subject m sj = Inr ()
     \<and> platforms_ok m
     \<and> admin_parse_metadata d c (ae_metadata_bytes ev)
         = Inr (projection d m (ae_manifest_bytes ev) sj completed)
     \<and> 0 < started \<and> started \<le> completed"

definition admin_ok :: "manifest \<Rightarrow> subject \<Rightarrow> bool" where
  "admin_ok m sj \<longleftrightarrow> (\<exists>i. mf_integrity m = Some i \<and> integrity_complete m sj i)"

lemma projection_complete [simp]:
  "am_integrity_complete (projection d m data sj t) = admin_ok m sj"
  by (simp add: projection_def admin_ok_def split: option.splits)

lemma evidence_time_projection:
  "valid_evidence_time (am_generated_at (projection d m data sj completed)) started completed \<longleftrightarrow>
     0 < started \<and> started \<le> completed"
  by (auto simp: valid_evidence_time_def projection_def word_gt_0)

lemma admin_sound:
  assumes "evaluate_admin_policy_metadata d c ev sj prd started completed = Inr s"
  shows "\<exists>m. admin_evidence_ok d c ev sj started completed m
    \<and> stage_contract d s sj \<and> st_requirement s = AdminPolicyMetadata
    \<and> (st_ok s \<longleftrightarrow> admin_ok m sj)
    \<and> map ref_digest (st_inputs s) = [sha256_digest d (ae_manifest_bytes ev)]"
proof -
  from assms obtain m a where m: "admin_parse_manifest d c (ae_manifest_bytes ev) = Inr m"
    "manifest_contract m" "validate_manifest_subject m sj = Inr ()"
    and pr: "project_metadata d m (ae_manifest_bytes ev) sj completed = Inr a"
    and a: "admin_parse_metadata d c (ae_metadata_bytes ev) = Inr a"
      "valid_evidence_time (am_generated_at a) started completed"
    and s: "s = admin_stage d ev a sj prd started completed" "stage_contract d s sj"
    by (auto simp: evaluate_admin_policy_metadata_def Let_def bindR_Inr_iff reject_Inr_iff
        validate_stage_Inr validate_manifest_contract)
  from pr m(2) have "platforms_ok m" "a = projection d m (ae_manifest_bytes ev) sj completed"
    by (simp_all add: project_metadata_Inr)
  with m a s show ?thesis
    by (intro exI [of _ m]) (simp add: admin_evidence_ok_def admin_stage_def evidence_time_projection)
qed

lemma admin_detail_text:
  assumes "manifest_contract m" and "platforms_ok m"
    and "\<And>i. mf_integrity m = Some i \<Longrightarrow> length (in_digests i) < 2 ^ 64"
  shows "valid_text (admin_detail (projection d m data sj t)) 1 1024"
proof (rule valid_text_printable)
  let ?a = "projection d m data sj t"
  show "printable (admin_detail ?a)" by (simp add: admin_detail_def)
  have "distinct (cap_kinds (mf_capabilities m))"
    "set (cap_kinds (mf_capabilities m)) \<subseteq> set known_kinds"
    using assms(1) by (auto simp: manifest_contract_def)
  then have "length (cap_kinds (mf_capabilities m)) \<le> card (set known_kinds)"
    by (metis card_mono distinct_card List.finite_set)
  then have "length (am_capability_kinds ?a) < 10 ^ 1"
    using card_length [of known_kinds] by (simp add: projection_def known_kinds_def)
  moreover have "length (am_runtime_platforms ?a) < 10 ^ 3"
    using assms(2) by (simp add: projection_def platforms_ok_def)
  moreover have "length (am_covered_platforms ?a) < 10 ^ 20"
    using assms(3) by (cases "mf_integrity m") (force simp: projection_def)+
  ultimately show "length (admin_detail ?a) \<le> 1024"
    using length_dec_u32 [of "am_runtime_argument_count ?a"]
      length_dec_le [of "length (am_capability_kinds ?a)" 1]
      length_dec_le [of "length (am_runtime_platforms ?a)" 3]
      length_dec_le [of "length (am_covered_platforms ?a)" 20]
    by (simp add: admin_detail_def)
qed (simp add: admin_detail_def)

lemma admin_names:
  "list_all (\<lambda>x. valid_token x 1 128) [''plugin-manifest'', ''admin-policy-metadata'']"
  by (simp add: valid_token_def token_char_def ascii_defs)

lemma admin_complete:
  assumes sha: "sha256_length d" and sj: "subject_contract d sj"
    and run: "run_context_ok prd started completed"
    and e: "admin_evidence_ok d c ev sj started completed m"
    and small: "\<And>i. mf_integrity m = Some i \<Longrightarrow> length (in_digests i) < 2 ^ 64"
  shows "\<exists>s. evaluate_admin_policy_metadata d c ev sj prd started completed = Inr s
    \<and> st_ok s = admin_ok m sj"
proof -
  let ?a = "projection d m (ae_manifest_bytes ev) sj completed"
  let ?s = "admin_stage d ev ?a sj prd started completed"
  have m: "manifest_contract m" "platforms_ok m" using e by (simp_all add: admin_evidence_ok_def)
  have "validate_references (st_inputs ?s) = Inr ()" "validate_references (st_outputs ?s) = Inr ()"
    using sha admin_names by (auto simp: admin_stage_def intro!: validate_references_map)
  moreover have "valid_text (st_remediation ?s) 1 1024"
    by (auto simp: admin_stage_def intro!: valid_text_printable)
  ultimately have "validate_stage d ?s sj = Inr ()"
    using admin_detail_text [OF m small] run sj
    by (auto simp: validate_stage_Inr stage_contract_def admin_stage_def run_context_ok_def
        subject_bound_def)
  moreover have "project_metadata d m (ae_manifest_bytes ev) sj completed = Inr ?a"
    using m by (simp add: project_metadata_Inr)
  moreover have "validate_manifest m = Inr ()" using m by (simp add: validate_manifest_contract)
  moreover have "st_ok ?s = admin_ok m sj" by (simp add: admin_stage_def)
  ultimately show ?thesis
    using e by (simp add: evaluate_admin_policy_metadata_def admin_evidence_ok_def Let_def
        evidence_time_projection)
qed

lemma validate_kinds_no_panic: "\<not> panics (validate_kinds seen ks)"
  by (induction ks arbitrary: seen) (auto simp: panics_bindR)

lemma validate_manifest_no_panic: "\<not> panics (validate_manifest m)"
  by (auto simp: validate_manifest_def panics_bindR validate_kinds_no_panic validate_integrity_def
      split: option.splits)

lemma project_metadata_no_panic: "\<not> panics (project_metadata d m data sj t)"
  by (auto simp: project_metadata_def panics_bindR portable_count_def split: prod.splits)

lemma admin_no_panic: "\<not> panics (evaluate_admin_policy_metadata d c ev sj prd started completed)"
  by (auto simp: evaluate_admin_policy_metadata_def panics_bindR Let_def admin_parse_manifest_def
      admin_parse_metadata_def validate_manifest_no_panic validate_manifest_subject_def
      project_metadata_no_panic validate_stage_no_panic)

definition admin_producer ::
  "deps \<Rightarrow> admin_codec \<Rightarrow> admin_evidence \<times> producer \<times> u64 \<times> u64 \<Rightarrow> subject \<Rightarrow> stage res" where
  "admin_producer d c = (\<lambda>(ev, prd, started, completed) sj.
     evaluate_admin_policy_metadata d c ev sj prd started completed)"

interpretation admin: stage_producer d AdminPolicyMetadata "admin_producer d c" for d c
proof unfold_locales
  fix i :: "admin_evidence \<times> producer \<times> u64 \<times> u64" and sj s
  assume "admin_producer d c i sj = Inr s"
  then show "st_requirement s = AdminPolicyMetadata" and "stage_contract d s sj"
    by (auto simp: admin_producer_def dest!: admin_sound split: prod.splits)
next
  fix i :: "admin_evidence \<times> producer \<times> u64 \<times> u64" and sj
  show "\<not> panics (admin_producer d c i sj)"
    by (simp add: admin_producer_def admin_no_panic split: prod.splits)
qed

section \<open>Certified releases and the machines that run them\<close>

text \<open>
  The stage binds the manifest that a host resolves: on the subject's platform, resolution of the
  same manifest bytes can only end in the certified executable.
\<close>

lemma load_and_resolve_manifest:
  assumes "load_and_resolve d h parse path = Inr rp"
  shows "\<exists>data. fs_read h (rp_manifest_path rp) = Some data \<and> parse data = Some (rp_manifest rp)"
  using assms by (auto simp: load_and_resolve_def Let_def res_simps split: prod.splits)

lemma admin_ok_resolves:
  assumes ok: "admin_ok m sj" and ms: "validate_manifest_subject m sj = Inr ()"
    and r: "load_and_resolve d h parse path = Inr rp" and m: "rp_manifest rp = m"
    and p: "rp_platform rp = sj_platform sj"
  shows "rp_artifact_digest rp = sj_artifact_digest sj
    \<and> rp_release_id rp = release_id d (sj_plugin_id sj) (sj_version sj) (sj_platform sj)
        (sj_artifact_digest sj)"
proof -
  from ok obtain i where i: "mf_integrity m = Some i"
    "map_of (in_digests i) (sj_platform sj) = Some (sj_artifact_digest sj)"
    by (auto simp: admin_ok_def integrity_complete_def)
  from load_and_resolve_ok [OF r] i m p have "rp_artifact_digest rp = sj_artifact_digest sj"
    by (auto simp: resolved_ok_def)
  with load_and_resolve_ok [OF r] m p ms show ?thesis
    by (auto simp: resolved_ok_def validate_manifest_subject_Inr)
qed

end
