(* ===== verification/Release.thy ===== *)
theory Release
  imports Admin Pipeline
begin

text \<open>
  The properties of the admin-policy stage, alone and together with the resolution of a manifest on
  the machine that runs the plugin.
\<close>

section \<open>A concrete release\<close>

definition demo_release :: manifest where
  "demo_release = demo_manifest\<lparr>mf_id := ''com.example.a'', mf_version := ''1.0.0'',
     mf_integrity := Some \<lparr>in_algorithm = ''sha256'',
       in_digests = [(''linux-x64'', sha256_digest demo_deps ''artifact'')]\<rparr>\<rparr>"

definition demo_release_host :: host where
  "demo_release_host = demo_host\<lparr>fs_read := (\<lambda>p. if p = ''/p/plugin.json'' then Some ''M''
     else if p = ''/p/bin/demo'' then Some ''artifact'' else None)\<rparr>"

definition demo_admin_evidence :: admin_evidence where
  "demo_admin_evidence = \<lparr>ae_manifest_bytes = ''M'', ae_metadata_bytes = ''A''\<rparr>"

definition demo_admin_codec :: admin_codec where
  "demo_admin_codec = \<lparr>parse_admin_manifest = (\<lambda>_. Some demo_release),
     parse_admin_metadata = (\<lambda>_. Some (projection demo_deps demo_release ''M'' demo_subject 20))\<rparr>"

lemma demo_release_valid: "validate_manifest demo_release = Inr ()"
proof -
  have "manifest_digest_ok (sha256_digest demo_deps ''artifact'')"
    using demo_deps_laws(1) by (simp add: manifest_digest_ok_iff)
  then have "validate_integrity \<lparr>in_algorithm = ''sha256'',
      in_digests = [(''linux-x64'', sha256_digest demo_deps ''artifact'')]\<rparr> = Inr ()"
    by (simp add: validate_integrity_def)
  moreover have "valid_plugin_id ''com.example.a''" "valid_version ''1.0.0''" by code_simp+
  ultimately show ?thesis
    using demo_manifest_valid
    by (simp add: validate_manifest_def demo_release_def demo_manifest_def res_simps bindR_Inr_iff)
qed

lemma demo_release_ok: "admin_ok demo_release demo_subject" "platforms_ok demo_release"
  "validate_manifest_subject demo_release demo_subject = Inr ()"
proof -
  have "valid_platform_token ''linux-x64''" by code_simp
  then show "platforms_ok demo_release"
    by (simp add: platforms_ok_def demo_release_def demo_manifest_def)
qed (simp_all add: admin_ok_def integrity_complete_def demo_release_def demo_manifest_def
      demo_subject_def validate_manifest_subject_def)

lemma demo_admin_evidence_ok:
  "admin_evidence_ok demo_deps demo_admin_codec demo_admin_evidence demo_subject 10 20 demo_release"
  using demo_release_ok demo_release_valid
  by (simp add: admin_evidence_ok_def validate_manifest_contract admin_parse_manifest_def
      admin_parse_metadata_def demo_admin_codec_def demo_admin_evidence_def demo_unambiguous
      manifest_max_bytes_def max_admin_metadata_bytes_def)

lemma demo_release_small:
  "mf_integrity demo_release = Some i \<Longrightarrow> length (in_digests i) < 2 ^ 64"
  by (auto simp: demo_release_def)

lemma demo_release_resolves:
  "\<exists>rp. load_and_resolve demo_deps demo_release_host (parse_admin_manifest demo_admin_codec) ''/p''
      = Inr rp \<and> rp_platform rp = ''linux-x64'' \<and> rp_manifest_path rp = ''/p/plugin.json''"
proof -
  have i: "platform_key demo_release_host = ''linux-x64''" by code_simp
  show ?thesis
    unfolding load_and_resolve_def i
    using demo_release_valid
    by (simp add: Let_def demo_release_host_def demo_host_def runtime_entry_def is_file_def
        manifest_max_bytes_def executable_digest_def check_integrity_def demo_admin_codec_def
        demo_release_def demo_manifest_def)
qed

section \<open>Properties\<close>

text \<open>The admin-policy evaluator, exactly: it produces a stage with verdict \<open>b\<close> if and only if
  the manifest document is a valid manifest of the subject, the metadata document is its projection,
  byte for byte in every field, and \<open>b\<close> says whether the manifest declares an exact SHA-256 digest for
  every platform it runs on, the certified one for the subject's.\<close>
lemma admin_stage_exact:
  assumes "sha256_length d" and "subject_contract d sj" and "run_context_ok prd started completed"
    and "\<And>data m i. parse_admin_manifest c data = Some m \<Longrightarrow> mf_integrity m = Some i \<Longrightarrow>
      length (in_digests i) < 2 ^ 64"
  shows "(\<exists>s. evaluate_admin_policy_metadata d c ev sj prd started completed = Inr s \<and> st_ok s = b) \<longleftrightarrow>
    (\<exists>m. admin_evidence_ok d c ev sj started completed m \<and> b = admin_ok m sj)"
proof
  assume "\<exists>s. evaluate_admin_policy_metadata d c ev sj prd started completed = Inr s \<and> st_ok s = b"
  then show "\<exists>m. admin_evidence_ok d c ev sj started completed m \<and> b = admin_ok m sj"
    by (auto dest!: admin_sound)
next
  assume "\<exists>m. admin_evidence_ok d c ev sj started completed m \<and> b = admin_ok m sj"
  then obtain m where e: "admin_evidence_ok d c ev sj started completed m"
    and b: "b = admin_ok m sj" by blast
  have "length (in_digests i) < 2 ^ 64" if "mf_integrity m = Some i" for i
    using e that assms(4)
    by (auto simp: admin_evidence_ok_def admin_parse_manifest_def res_simps)
  from admin_complete [OF assms(1-3) e this] b
  show "\<exists>s. evaluate_admin_policy_metadata d c ev sj prd started completed = Inr s \<and> st_ok s = b"
    by blast
qed

lemma admin_stage_exact_witness:
  "\<exists>s. evaluate_admin_policy_metadata demo_deps demo_admin_codec demo_admin_evidence demo_subject
      demo_producer 10 20 = Inr s \<and> st_ok s"
proof -
  have small: "length (in_digests i) < 2 ^ 64"
    if "parse_admin_manifest demo_admin_codec data = Some m" "mf_integrity m = Some i" for data m i
    using that demo_release_small by (auto simp: demo_admin_codec_def)
  from admin_stage_exact [OF demo_deps_laws(1) demo_subject_contract demo_run_context small, where b = True]
    demo_admin_evidence_ok demo_release_ok(1)
  show ?thesis by auto
qed

text \<open>C21: from certification to launch: when the admin stage of a release passes, a machine of the
  subject's platform that resolves that same manifest document launches the certified executable and
  no other: the digest of the file it will run, and the release id it reports, are the subject's, and
  so is the digest the stage's input reference binds.\<close>
theorem certified_release_resolves:
  assumes "evaluate_admin_policy_metadata d c ev sj prd started completed = Inr s" and "st_ok s"
    and "load_and_resolve d h (parse_admin_manifest c) path = Inr rp"
    and "fs_read h (rp_manifest_path rp) = Some (ae_manifest_bytes ev)"
    and "rp_platform rp = sj_platform sj"
  shows "(\<exists>contents. fs_read h (rp_executable rp) = Some contents
        \<and> sha256_digest d contents = sj_artifact_digest sj)
    \<and> rp_release_id rp = sj_release_id sj
    \<and> st_inputs s = [\<lparr>ref_name = ''plugin-manifest'',
        ref_digest = sha256_digest d (ae_manifest_bytes ev)\<rparr>]"
proof -
  from admin_sound [OF assms(1)] assms(2) obtain m where
    e: "admin_evidence_ok d c ev sj started completed m" and ok: "admin_ok m sj"
    and st: "stage_contract d s sj" "st_requirement s = AdminPolicyMetadata"
    and inp: "map ref_digest (st_inputs s) = [sha256_digest d (ae_manifest_bytes ev)]" by auto
  from e have m: "parse_admin_manifest c (ae_manifest_bytes ev) = Some m"
    "validate_manifest_subject m sj = Inr ()"
    by (auto simp: admin_evidence_ok_def admin_parse_manifest_def res_simps)
  from load_and_resolve_manifest [OF assms(3)] assms(4) m have "rp_manifest rp = m" by auto
  from admin_ok_resolves [OF ok m(2) assms(3) this assms(5)]
  have r: "rp_artifact_digest rp = sj_artifact_digest sj"
    "rp_release_id rp = release_id d (sj_plugin_id sj) (sj_version sj) (sj_platform sj)
        (sj_artifact_digest sj)" by simp_all
  moreover have "sj_release_id sj = release_id d (sj_plugin_id sj) (sj_version sj) (sj_platform sj)
        (sj_artifact_digest sj)"
    using st(1) by (auto simp: stage_contract_def subject_contract_def validate_subject_def res_simps)
  moreover have "\<exists>contents. fs_read h (rp_executable rp) = Some contents
      \<and> sha256_digest d contents = sj_artifact_digest sj"
    using load_and_resolve_ok [OF assms(3)] r(1) by (auto simp: resolved_ok_def)
  moreover have "map ref_name (st_inputs s) = [''plugin-manifest'']"
    using st by (simp add: stage_contract_def)
  with inp have "st_inputs s = [\<lparr>ref_name = ''plugin-manifest'',
        ref_digest = sha256_digest d (ae_manifest_bytes ev)\<rparr>]"
    by (cases "st_inputs s") auto
  ultimately show ?thesis by simp
qed

theorem certified_release_resolves_witness:
  "\<exists>rp. load_and_resolve demo_deps demo_release_host (parse_admin_manifest demo_admin_codec) ''/p''
      = Inr rp \<and> rp_release_id rp = sj_release_id demo_subject"
proof -
  from admin_complete [OF demo_deps_laws(1) demo_subject_contract demo_run_context
      demo_admin_evidence_ok demo_release_small] demo_release_ok(1)
  obtain s where s: "evaluate_admin_policy_metadata demo_deps demo_admin_codec demo_admin_evidence
      demo_subject demo_producer 10 20 = Inr s" "st_ok s" by auto
  from demo_release_resolves obtain rp where
    rp: "load_and_resolve demo_deps demo_release_host (parse_admin_manifest demo_admin_codec) ''/p''
      = Inr rp" "rp_platform rp = ''linux-x64''" "rp_manifest_path rp = ''/p/plugin.json''" by blast
  have "fs_read demo_release_host (rp_manifest_path rp) = Some (ae_manifest_bytes demo_admin_evidence)"
    "rp_platform rp = sj_platform demo_subject"
    using rp by (simp_all add: demo_release_host_def demo_admin_evidence_def demo_subject_def)
  from certified_release_resolves [OF s rp(1) this] rp(1) show ?thesis by blast
qed

end
