(* ===== verification/Canonical.thy ===== *)
theory Canonical
  imports Json Encoding "HOL-Library.Multiset"
begin

text \<open>
  The canonical JSON of tools/tsp/src/superec.rs (the JCS subset with interoperable integers) and
  the proof that it is unambiguous: two values with the same canonical text are the same value, so
  a digest of the text binds the whole document. A string is its UTF-8 bytes; no byte of a
  multi-byte character is escaped.
\<close>

section \<open>The writer\<close>

definition contract_error :: validation_error where
  "contract_error = VErr ''superec.contract''"

definition jcs_escape :: "char \<Rightarrow> string" where
  "jcs_escape c =
     (if c = CHR 0x08 then [CHR 0x5C, CHR ''b'']
      else if c = CHR 0x09 then [CHR 0x5C, CHR ''t'']
      else if c = CHR 0x0A then [CHR 0x5C, CHR ''n'']
      else if c = CHR 0x0C then [CHR 0x5C, CHR ''f'']
      else if c = CHR 0x0D then [CHR 0x5C, CHR ''r'']
      else if c = CHR 0x22 then [CHR 0x5C, CHR 0x22]
      else if c = CHR 0x5C then [CHR 0x5C, CHR 0x5C]
      else if ord c \<le> 31 then [CHR 0x5C, CHR ''u'', CHR ''0'', CHR ''0'', hex_digit (ord c div 16),
        hex_digit (ord c mod 16)]
      else [c])"

definition jcs_string :: "string \<Rightarrow> string" where
  "jcs_string s = CHR 0x22 # concat (map jcs_escape s) @ [CHR 0x22]"

definition int_text :: "int \<Rightarrow> string" where
  "int_text i = (if i < 0 then CHR ''-'' # dec (nat (- i)) else dec (nat i))"

definition canonical_number :: "json_number \<Rightarrow> string res" where
  "canonical_number n =
     (case json_as_i64 (JNum n) of
        Some i \<Rightarrow> bindR (reject (\<bar>i\<bar> > 9007199254740991) ''superec.contract'') (\<lambda>_. Inr (int_text i))
      | None \<Rightarrow>
          (case n of
             PosInt u \<Rightarrow> bindR (reject (uint u > 9007199254740991) ''superec.contract'')
               (\<lambda>_. Inr (int_text (uint u)))
           | _ \<Rightarrow> Inl contract_error))"

text \<open>\<^verbatim>\<open>str::encode_utf16\<close>, by which members are ordered.\<close>

definition utf16_units :: "nat \<Rightarrow> nat list" where
  "utf16_units v =
     (if v < 65536 then [v]
      else [55296 + (v - 65536) div 1024, 56320 + (v - 65536) mod 1024])"

definition utf16 :: "string \<Rightarrow> nat list" where
  "utf16 s =
     (case utf8_chars s of None \<Rightarrow> [] | Some gs \<Rightarrow> concat (map (utf16_units \<circ> scalar_value) gs))"

text \<open>Members are written one by one and joined in the order of their keys.\<close>

definition member_text :: "string \<times> string \<Rightarrow> string" where
  "member_text m = jcs_string (fst m) @ CHR '':'' # snd m"

definition join_members :: "(string \<times> string) list \<Rightarrow> string" where
  "join_members ms = join_with CHR '','' (map member_text (sort_key (utf16 \<circ> fst) ms))"

fun write_canonical :: "json \<Rightarrow> string res"
  and write_items :: "json list \<Rightarrow> string list res"
  and write_members :: "(string \<times> json) list \<Rightarrow> (string \<times> string) list res"
where
  "write_canonical JNull = Inr ''null''"
| "write_canonical (JBool b) = Inr (if b then ''true'' else ''false'')"
| "write_canonical (JNum n) = canonical_number n"
| "write_canonical (JStr s) = Inr (jcs_string s)"
| "write_canonical (JArr xs) =
     bindR (write_items xs) (\<lambda>ss. Inr (CHR ''['' # join_with CHR '','' ss @ '']''))"
| "write_canonical (JObj kvs) =
     bindR (write_members kvs) (\<lambda>ms. Inr (CHR ''{'' # join_members ms @ ''}''))"
| "write_items [] = Inr []"
| "write_items (x # xs) =
     bindR (write_canonical x) (\<lambda>s. bindR (write_items xs) (\<lambda>ss. Inr (s # ss)))"
| "write_members [] = Inr []"
| "write_members ((k, v) # kvs) =
     bindR (write_canonical v) (\<lambda>s. bindR (write_members kvs) (\<lambda>ms. Inr ((k, s) # ms)))"

definition canonical_json :: "json \<Rightarrow> string res" where
  "canonical_json v = write_canonical v"

section \<open>Strings and numbers can be read back\<close>

lemma jcs_escape_unique:
  "jcs_escape c @ r = jcs_escape c' @ s \<Longrightarrow> c = c' \<and> r = s"
proof -
  assume eq: "jcs_escape c @ r = jcs_escape c' @ s"
  have "c = c' \<and> r = s" if "ord c \<le> 31" "ord c' \<le> 31"
    "hex_digit (ord c div 16) = hex_digit (ord c' div 16)"
    "hex_digit (ord c mod 16) = hex_digit (ord c' mod 16)" "r = s"
  proof -
    have "ord c div 16 = ord c' div 16" "ord c mod 16 = ord c' mod 16"
      using hex_digit_inj [OF ord_div_16 ord_div_16 that(3)]
        hex_digit_inj [of "ord c mod 16" "ord c' mod 16"] that(4) by simp_all
    then have "ord c = ord c'" by (metis div_mult_mod_eq)
    with that(5) show ?thesis by (simp add: of_char_eq_iff)
  qed
  with eq show ?thesis
    by (simp add: jcs_escape_def split: if_splits; force)
qed

lemma jcs_escape_Cons: "\<exists>a as. jcs_escape c = a # as \<and> a \<noteq> CHR 0x22"
  by (auto simp: jcs_escape_def)

lemma jcs_body_unique:
  "concat (map jcs_escape x) @ CHR 0x22 # r = concat (map jcs_escape y) @ CHR 0x22 # s \<Longrightarrow>
     x = y \<and> r = s"
proof (induction x arbitrary: y)
  case Nil
  then show ?case using jcs_escape_Cons by (cases y) (auto, metis append_Cons list.inject)
next
  case (Cons c x)
  obtain a as where a: "jcs_escape c = a # as" "a \<noteq> CHR 0x22" using jcs_escape_Cons by blast
  with Cons.prems obtain c' y' where y: "y = c' # y'" by (cases y) auto
  with Cons.prems have "jcs_escape c @ (concat (map jcs_escape x) @ CHR 0x22 # r)
      = jcs_escape c' @ (concat (map jcs_escape y') @ CHR 0x22 # s)" by simp
  from jcs_escape_unique [OF this] have "c = c'"
    "concat (map jcs_escape x) @ CHR 0x22 # r = concat (map jcs_escape y') @ CHR 0x22 # s"
    by simp_all
  with Cons.IH y show ?case by blast
qed

interpretation jcs_code: prefix_code jcs_string "\<lambda>_. True"
proof unfold_locales
  fix x y r s
  assume "jcs_string x @ r = jcs_string y @ s"
  then show "x = y \<and> r = s" using jcs_body_unique [of x r y s] by (simp add: jcs_string_def)
qed

text \<open>What may follow a value inside a document.\<close>

definition follow :: "string \<Rightarrow> bool" where
  "follow r \<longleftrightarrow> r = [] \<or> hd r \<in> {CHR '','', CHR '']'', CHR ''}''}"

lemma dec_takeWhile: "follow r \<Longrightarrow> takeWhile is_digit (dec n @ r) = dec n"
proof -
  assume "follow r"
  then have "takeWhile is_digit r = []"
    by (cases r) (auto simp: follow_def is_digit_def)
  then show ?thesis using dec_digits [of _ n] by (simp add: takeWhile_append)
qed

lemma dec_unique: "follow r \<Longrightarrow> follow s \<Longrightarrow> dec m @ r = dec n @ s \<Longrightarrow> m = n \<and> r = s"
  by (metis dec_takeWhile dec_inj same_append_eq)

lemma dec_hd: "\<exists>a as. dec n = a # as \<and> is_digit a"
proof -
  obtain a as where "dec n = a # as" by (cases "dec n") auto
  with dec_digits [of a n] show ?thesis by simp
qed

lemma int_text_unique:
  assumes "follow r" and "follow s" and eq: "int_text i @ r = int_text j @ s"
  shows "i = j \<and> r = s"
proof -
  have sign: "i < 0 \<longleftrightarrow> j < 0"
    using eq dec_hd [of "nat i"] dec_hd [of "nat j"]
    by (auto simp: int_text_def is_digit_def split: if_splits)
  show ?thesis
  proof (cases "i < 0")
    case True
    with eq sign have "dec (nat (- i)) @ r = dec (nat (- j)) @ s" by (simp add: int_text_def)
    from dec_unique [OF assms(1,2) this] True sign show ?thesis by auto
  next
    case False
    with eq sign have "dec (nat i) @ r = dec (nat j) @ s" by (simp add: int_text_def)
    from dec_unique [OF assms(1,2) this] False sign show ?thesis by auto
  qed
qed

text \<open>A value of serde\_json: members in key order, and a negative number is negative.\<close>

definition value_ok :: "json \<Rightarrow> bool" where
  "value_ok v \<longleftrightarrow>
     (\<forall>kvs. inside (JObj kvs) v \<longrightarrow> ascending (map fst kvs))
     \<and> (\<forall>n. inside (JNum (NegInt n)) v \<longrightarrow> sint n < 0)"

lemma value_ok_simps:
  "value_ok JNull" "value_ok (JBool b)" "value_ok (JStr s)"
  "value_ok (JArr xs) \<longleftrightarrow> (\<forall>x\<in>set xs. value_ok x)"
  "value_ok (JObj kvs) \<longleftrightarrow> ascending (map fst kvs) \<and> (\<forall>kv\<in>set kvs. value_ok (snd kv))"
  by (auto simp: value_ok_def inside_JArr_iff inside_JObj_iff)

lemma canonical_number_Inr:
  assumes "canonical_number n = Inr s" and "value_ok (JNum n)"
  shows "\<exists>i. s = int_text i \<and> n = (if 0 \<le> i then PosInt (word_of_int i) else NegInt (word_of_int i))"
proof (cases n)
  case (PosInt u)
  have "0 \<le> uint u" by simp
  with assms(1) PosInt show ?thesis
    by (intro exI [of _ "uint u"]) (auto simp: canonical_number_def res_simps split: if_splits)
next
  case (NegInt u)
  then have "sint u < 0" using assms(2) by (simp add: value_ok_def)
  with assms(1) NegInt show ?thesis
    by (intro exI [of _ "sint u"]) (auto simp: canonical_number_def res_simps)
next
  case (Float u)
  with assms(1) show ?thesis by (simp add: canonical_number_def)
qed

section \<open>Sequences can be read back\<close>

lemma joined_unique:
  assumes "list_all2 enc xs ss" and "list_all2 enc ys ts"
    and u: "\<And>x y s t r r'. x \<in> set xs \<Longrightarrow> y \<in> set ys \<Longrightarrow> enc x s \<Longrightarrow> enc y t \<Longrightarrow> follow r \<Longrightarrow> follow r'
      \<Longrightarrow> s @ r = t @ r' \<Longrightarrow> x = y \<and> r = r'"
    and start: "\<And>x s. enc x s \<Longrightarrow> s \<noteq> [] \<and> hd s \<noteq> close"
    and close: "close = CHR '']'' \<or> close = CHR ''}''"
    and eq: "join_with CHR '','' ss @ close # r = join_with CHR '','' ts @ close # r'"
  shows "xs = ys \<and> r = r'"
  using assms(1,2) u eq
proof (induction xs ss arbitrary: ys ts rule: list_all2_induct)
  case Nil
  then show ?case
  proof (cases ts)
    case (Cons t ts')
    then obtain y ys' where "enc y t" using Nil by (cases ys) auto
    then have "t \<noteq> []" "hd t \<noteq> close" using start by blast+
    with Nil.prems(3) Cons show ?thesis by (cases t; cases ts') auto
  qed auto
next
  case (Cons x xs s ss)
  let ?rest = "\<lambda>us v. (if us = [] then close # v else CHR '','' # join_with CHR '','' us @ close # v)"
  have join: "join_with CHR '','' (q # us) @ close # v = q @ ?rest us v" for q us v
    by (cases us) simp_all
  have fl: "follow (?rest us v)" for us v using close by (auto simp: follow_def)
  have s: "s \<noteq> []" "hd s \<noteq> close" using start [OF Cons.hyps(1)] by auto
  obtain t ts' where ts: "ts = t # ts'"
    using Cons.prems(3) s by (cases ts) (cases s; cases ss; auto)+
  then obtain y ys' where ys: "ys = y # ys'" "enc y t" "list_all2 enc ys' ts'"
    using Cons.prems(1) by (cases ys) auto
  have e: "s @ ?rest ss r = t @ ?rest ts' r'" using Cons.prems(3) ts join by simp
  have xy: "x = y \<and> ?rest ss r = ?rest ts' r'"
    using Cons.prems(2) [of x y s t "?rest ss r" "?rest ts' r'"] Cons.hyps(1) ys fl e by auto
  then have j: "join_with CHR '','' ss @ close # r = join_with CHR '','' ts' @ close # r'"
    using close by (auto split: if_splits)
  have "xs = ys' \<and> r = r'"
    by (rule Cons.IH [OF ys(3) _ j], rule Cons.prems(2)) (simp_all add: ys)
  with xy ys show ?case by simp
qed

lemma list_all2_good:
  "list_all2 P xs ss \<Longrightarrow> \<forall>x\<in>set xs. Q x \<Longrightarrow> list_all2 (\<lambda>x s. P x s \<and> Q x) xs ss"
  by (induction rule: list_all2_induct) simp_all

lemma write_items_list_all2:
  "write_items xs = Inr ss \<longleftrightarrow> list_all2 (\<lambda>x s. write_canonical x = Inr s) xs ss"
  by (induction xs arbitrary: ss) (auto simp: res_simps list_all2_Cons1)

lemma write_members_list_all2:
  "write_members kvs = Inr ms \<longleftrightarrow>
     list_all2 (\<lambda>kv m. fst m = fst kv \<and> write_canonical (snd kv) = Inr (snd m)) kvs ms"
  by (induction kvs arbitrary: ms) (auto simp: res_simps list_all2_Cons1)

text \<open>Ordering the written members orders the members.\<close>

lemma list_all2_insort_key:
  assumes "\<And>x y. R x y \<Longrightarrow> f x = g y" and "list_all2 R xs ys" and "R a b"
  shows "list_all2 R (insort_key f a xs) (insort_key g b ys)"
  using assms(2)
proof (induction xs ys rule: list_all2_induct)
  case (Cons x xs y ys)
  with assms(1) [OF Cons.hyps(1)] assms(1) [OF assms(3)] assms(3) show ?case by simp
qed (simp add: assms(3))

lemma list_all2_sort_key:
  assumes "\<And>x y. R x y \<Longrightarrow> f x = g y" and "list_all2 R xs ys"
  shows "list_all2 R (sort_key f xs) (sort_key g ys)"
  using assms(2)
proof (induction xs ys rule: list_all2_induct)
  case (Cons x xs y ys)
  then show ?case
    unfolding sort_key_def foldr.simps comp_def
    using list_all2_insort_key [of R f g] assms(1) by blast
qed simp

definition member_enc :: "string \<times> json \<Rightarrow> string \<Rightarrow> bool" where
  "member_enc kv s \<longleftrightarrow> (\<exists>t. write_canonical (snd kv) = Inr t \<and> s = jcs_string (fst kv) @ CHR '':'' # t)"

lemma write_members_sorted:
  assumes "write_members kvs = Inr ms"
  shows "list_all2 member_enc (sort_key (utf16 \<circ> fst) kvs) (map member_text (sort_key (utf16 \<circ> fst) ms))"
proof -
  have "list_all2 (\<lambda>kv m. fst m = fst kv \<and> write_canonical (snd kv) = Inr (snd m))
      (sort_key (utf16 \<circ> fst) kvs) (sort_key (utf16 \<circ> fst) ms)"
    using assms unfolding write_members_list_all2 by (intro list_all2_sort_key) auto
  then show ?thesis
    unfolding list_all2_map2
    by (rule list_all2_mono) (auto simp: member_enc_def member_text_def)
qed

lemma sort_key_ascending_eq:
  assumes "sort_key f kvs = sort_key f kws" and "ascending (map fst kvs)" and "ascending (map fst kws)"
  shows "kvs = kws"
proof -
  have "mset kvs = mset kws" using assms(1) by (metis mset_sort)
  moreover have "sorted (map fst kvs)" "sorted (map fst kws)"
    "distinct (map fst kvs)" "distinct (map fst kws)"
    using assms(2,3) by (auto simp: ascending_iff strict_sorted_iff)
  ultimately show ?thesis
    by (intro map_sorted_distinct_set_unique [of fst])
       (auto simp: distinct_map dest: mset_eq_setD inj_on_subset)
qed

text \<open>The first character tells the kind of value.\<close>

fun lead :: "json \<Rightarrow> char \<Rightarrow> bool" where
  "lead JNull c = (c = CHR ''n'')"
| "lead (JBool b) c = (c = (if b then CHR ''t'' else CHR ''f''))"
| "lead (JNum n) c = (is_digit c \<or> c = CHR ''-'')"
| "lead (JStr s) c = (c = CHR 0x22)"
| "lead (JArr xs) c = (c = CHR ''['')"
| "lead (JObj kvs) c = (c = CHR ''{'')"

lemma write_canonical_lead:
  "write_canonical v = Inr s \<Longrightarrow> value_ok v \<Longrightarrow> \<exists>c cs. s = c # cs \<and> lead v c"
proof (cases v)
  case (JNum n)
  assume "write_canonical v = Inr s" "value_ok v"
  with JNum obtain i where "s = int_text i" using canonical_number_Inr by auto
  then show ?thesis
    using JNum dec_hd [of "nat i"] by (auto simp: int_text_def)
qed (auto simp: res_simps jcs_string_def)

lemma lead_not_close: "lead v c \<Longrightarrow> c \<notin> {CHR '']'', CHR ''}''}"
  by (cases v) (auto simp: is_digit_def)

lemma lead_same:
  "lead v c \<Longrightarrow> lead w c \<Longrightarrow>
     (case v of JNull \<Rightarrow> w = JNull | JBool b \<Rightarrow> w = JBool b | JNum n \<Rightarrow> \<exists>m. w = JNum m
      | JStr a \<Rightarrow> \<exists>b. w = JStr b | JArr xs \<Rightarrow> \<exists>ys. w = JArr ys | JObj kvs \<Rightarrow> \<exists>kws. w = JObj kws)"
  by (cases v; cases w) (auto simp: is_digit_def split: if_splits)

section \<open>The canonical text determines the value\<close>

lemma canonical_unique:
  "write_canonical v = Inr s \<Longrightarrow> write_canonical w = Inr t \<Longrightarrow> value_ok v \<Longrightarrow> value_ok w \<Longrightarrow>
     follow r \<Longrightarrow> follow r' \<Longrightarrow> s @ r = t @ r' \<Longrightarrow> v = w \<and> r = r'"
proof (induction v arbitrary: w s t r r')
  case JNull
  then obtain c where "lead JNull c" "lead w c"
    using write_canonical_lead [of JNull s] write_canonical_lead [of w t] by fastforce
  from lead_same [OF this] JNull show ?case by simp
next
  case (JBool b)
  then obtain c where "lead (JBool b) c" "lead w c"
    using write_canonical_lead [of "JBool b" s] write_canonical_lead [of w t] by fastforce
  from lead_same [OF this] JBool show ?case by simp
next
  case (JNum n)
  then obtain c where "lead (JNum n) c" "lead w c"
    using write_canonical_lead [of "JNum n" s] write_canonical_lead [of w t] by fastforce
  from lead_same [OF this] obtain m where w: "w = JNum m" by auto
  from canonical_number_Inr [of n s] JNum.prems obtain i where
    i: "s = int_text i" "n = (if 0 \<le> i then PosInt (word_of_int i) else NegInt (word_of_int i))" by auto
  from canonical_number_Inr [of m t] JNum.prems w obtain j where
    j: "t = int_text j" "m = (if 0 \<le> j then PosInt (word_of_int j) else NegInt (word_of_int j))" by auto
  from int_text_unique [of r r' i j] JNum.prems i j w show ?case by simp
next
  case (JStr a)
  then obtain c where "lead (JStr a) c" "lead w c"
    using write_canonical_lead [of "JStr a" s] write_canonical_lead [of w t] by fastforce
  from lead_same [OF this] obtain b where w: "w = JStr b" by auto
  with JStr show ?case using jcs_code.unique [of a r b r'] by simp
next
  case (JArr xs)
  then obtain c where "lead (JArr xs) c" "lead w c"
    using write_canonical_lead [of "JArr xs" s] write_canonical_lead [of w t] by fastforce
  from lead_same [OF this] obtain ys where w: "w = JArr ys" by auto
  let ?enc = "\<lambda>x s. write_canonical x = Inr s \<and> value_ok x"
  from JArr.prems w obtain ss ts where
    ss: "write_items xs = Inr ss" "s = CHR ''['' # join_with CHR '','' ss @ '']''"
    and ts: "write_items ys = Inr ts" "t = CHR ''['' # join_with CHR '','' ts @ '']''"
    by (auto simp: res_simps)
  have okx: "\<forall>x\<in>set xs. value_ok x" and oky: "\<forall>y\<in>set ys. value_ok y"
    using JArr.prems w by (simp_all add: value_ok_simps)
  have ax: "list_all2 ?enc xs ss" and ay: "list_all2 ?enc ys ts"
    using ss(1) ts(1) okx oky unfolding write_items_list_all2
    by (simp_all add: list_all2_good)
  have "xs = ys \<and> r = r'"
  proof (rule joined_unique [OF ax ay])
    fix x y s t r r'
    assume "x \<in> set xs" and "?enc x s" and "?enc y t" and "follow r" and "follow r'" and "s @ r = t @ r'"
    then show "x = y \<and> r = r'" using JArr.IH by blast
  next
    fix x s
    assume "?enc x s"
    then show "s \<noteq> [] \<and> hd s \<noteq> CHR '']''"
      using write_canonical_lead [of x s] lead_not_close [of x] by force
  next
    show "join_with CHR '','' ss @ CHR '']'' # r = join_with CHR '','' ts @ CHR '']'' # r'"
      using JArr.prems(7) ss(2) ts(2) by simp
  qed simp
  with w show ?case by simp
next
  case (JObj kvs)
  then obtain c where "lead (JObj kvs) c" "lead w c"
    using write_canonical_lead [of "JObj kvs" s] write_canonical_lead [of w t] by fastforce
  from lead_same [OF this] obtain kws where w: "w = JObj kws" by auto
  from JObj.prems w obtain ms ns where
    ms: "write_members kvs = Inr ms" "s = CHR ''{'' # join_members ms @ ''}''"
    and ns: "write_members kws = Inr ns" "t = CHR ''{'' # join_members ns @ ''}''"
    by (auto simp: res_simps)
  let ?kvs = "sort_key (utf16 \<circ> fst) kvs" and ?kws = "sort_key (utf16 \<circ> fst) kws"
  have okx: "ascending (map fst kvs)" "\<forall>kv\<in>set kvs. value_ok (snd kv)"
    and oky: "ascending (map fst kws)" "\<forall>kv\<in>set kws. value_ok (snd kv)"
    using JObj.prems w by (simp_all add: value_ok_simps)
  have "?kvs = ?kws \<and> r = r'"
  proof (rule joined_unique [OF write_members_sorted [OF ms(1)] write_members_sorted [OF ns(1)]])
    fix x y :: "string \<times> json" and s t r r'
    assume m: "x \<in> set ?kvs" "y \<in> set ?kws" and e: "member_enc x s" "member_enc y t"
      and f: "follow r" "follow r'" and eq: "s @ r = t @ r'"
    from e obtain a b where ab: "write_canonical (snd x) = Inr a" "write_canonical (snd y) = Inr b"
      "s = jcs_string (fst x) @ CHR '':'' # a" "t = jcs_string (fst y) @ CHR '':'' # b"
      by (auto simp: member_enc_def)
    from eq ab have "jcs_string (fst x) @ (CHR '':'' # a @ r) = jcs_string (fst y) @ (CHR '':'' # b @ r')"
      by simp
    then have k: "fst x = fst y" and ar: "a @ r = b @ r'"
      using jcs_code.unique [of "fst x" _ "fst y"] by blast+
    from m have "x \<in> set kvs" "y \<in> set kws" by simp_all
    with okx(2) oky(2) have "value_ok (snd x)" "value_ok (snd y)" by simp_all
    from JObj.IH [OF \<open>x \<in> set kvs\<close> _ ab(1,2) this f ar] k show "x = y \<and> r = r'"
      by (metis prod.collapse snds.intros prod_eqI)
  next
    fix x :: "string \<times> json" and s
    assume "member_enc x s"
    then show "s \<noteq> [] \<and> hd s \<noteq> CHR ''}''" by (auto simp: member_enc_def jcs_string_def)
  next
    show "join_with CHR '','' (map member_text (sort_key (utf16 \<circ> fst) ms)) @ CHR ''}'' # r
        = join_with CHR '','' (map member_text (sort_key (utf16 \<circ> fst) ns)) @ CHR ''}'' # r'"
      using JObj.prems(7) ms(2) ns(2) by (simp add: join_members_def)
  qed simp
  with sort_key_ascending_eq [OF _ okx(1) oky(1)] w show ?case by blast
qed

lemma canonical_json_inj:
  assumes "canonical_json v = Inr s" and "canonical_json w = Inr s" and "value_ok v" and "value_ok w"
  shows "v = w"
  using canonical_unique [of v s w s "[]" "[]"] assms by (simp add: canonical_json_def follow_def)

end
