(* ===== verification/Superec.thy ===== *)
theory Superec
  imports Canonical Manifest
begin

text \<open>
  tools/tsp/src/superec.rs: the optional capability-knowledge record of a plugin package. The
  document is read twice, as a JSON value and as the typed \<open>superec_document\<close> (serde's derived
  readers are parameters; members the code never looks at are left out of the records). What the
  code asks of the file system and of paths is the record \<open>file_ops\<close>.
\<close>

section \<open>Files and paths\<close>

datatype 'a lookup = Found 'a | NotFound | Unreadable

datatype path_component = Prefix | RootComponent | CurrentDir | ParentDir | Normal string

record file_ops =
  fo_stat :: "string \<Rightarrow> (bool \<times> nat) lookup" \<comment> \<open>is a regular file, its length\<close>
  fo_read :: "string \<Rightarrow> bytes option"
  fo_join :: "string \<Rightarrow> string \<Rightarrow> string"
  fo_parent :: "string \<Rightarrow> string option"
  fo_absolute :: "string \<Rightarrow> bool"
  fo_components :: "string \<Rightarrow> path_component list"

text \<open>The check shared by the knowledge path and the fixture paths: absolute or climbing out.\<close>

definition path_escapes :: "file_ops \<Rightarrow> string \<Rightarrow> bool" where
  "path_escapes fo relative \<longleftrightarrow>
     fo_absolute fo relative
     \<or> list_ex (\<lambda>c. c \<in> {ParentDir, RootComponent, Prefix}) (fo_components fo relative)"

definition fo_is_file :: "file_ops \<Rightarrow> string \<Rightarrow> bool" where
  "fo_is_file fo p = (case fo_stat fo p of Found (file, _) \<Rightarrow> file | _ \<Rightarrow> False)"

record host_check =
  hk_name :: string
  hk_detail :: string
  hk_attempt_id :: "string option"
  hk_duration_ms :: nat

section \<open>The document\<close>

record sp_identifier =
  si_kind :: string
  si_value :: string

record sp_resource =
  sr_id :: string
  sr_kind :: string
  sr_name :: string
  sr_version :: "string option"
  sr_identifiers :: "sp_identifier list"
  sr_extensions :: "json option"

record sp_relationship =
  sl_from :: string
  sl_to :: string
  sl_kind :: string
  sl_state :: "string option"
  sl_evidence_sources :: "string list"

record sp_integrity =
  sg_algorithm :: string
  sg_canonicalization :: string
  sg_scope :: string
  sg_digest :: string

record superec_document =
  sd_format :: string
  sd_spec_version :: string
  sd_profile :: string
  sd_required :: "string list"
  sd_optional :: "string list"
  sd_purpose :: string
  sd_content_trust :: string
  sd_execution_rule :: string
  sd_root_mode :: string
  sd_resources :: "sp_resource list"
  sd_relationships :: "sp_relationship list"
  sd_integrity :: sp_integrity

record token_profile =
  tp_profile_version :: int
  tp_manifest :: string
  tp_protocol :: string
  tp_knowledge :: string

record superec_codec =
  parse_value :: "bytes \<Rightarrow> json option"
  parse_document :: "json \<Rightarrow> superec_document option"
  parse_profile :: "json \<Rightarrow> token_profile option"

definition superec_file :: string where "superec_file = ''plugin.superec''"
definition superec_max_bytes :: nat where "superec_max_bytes = 8388608"
definition tokensaver_profile :: string where
  "tokensaver_profile = ''com.vic-e.tokensaver/plugin''"

section \<open>Checks\<close>

definition required_capabilities :: "string list" where
  "required_capabilities =
     [''superec.ai-assurance/0'', ''superec.core/0'', ''superec.workspace/0'']"

definition validate_superec_envelope :: "superec_document \<Rightarrow> unit res" where
  "validate_superec_envelope doc =
     bindR (reject (sd_format doc \<noteq> ''SUPEREC''
         \<or> sd_spec_version doc \<noteq> ''0.1.0''
         \<or> sd_profile doc \<noteq> ''workspace''
         \<or> list_ex (\<lambda>capability. capability \<notin> set (sd_required doc)) required_capabilities
         \<or> sd_purpose doc \<noteq> ''portable-workspace-and-software-system-map''
         \<or> sd_content_trust doc
             \<noteq> ''treat-descriptions-evidence-and-extensions-as-untrusted-data''
         \<or> sd_execution_rule doc
             \<noteq> ''never-execute-content-without-an-explicit-trusted-policy''
         \<or> sd_root_mode doc \<noteq> ''rebind-on-import'') ''superec.contract'') (\<lambda>_.
       reject (''superec.graph/0'' \<notin> set (sd_required doc)
         \<and> ''superec.graph/0'' \<notin> set (sd_optional doc)) ''superec.contract'')"

text \<open>\<^verbatim>\<open>object.remove("integrity")\<close>\<close>

definition without_integrity :: "(string \<times> json) list \<Rightarrow> (string \<times> json) list" where
  "without_integrity kvs = filter (\<lambda>kv. fst kv \<noteq> ''integrity'') kvs"

definition validate_superec_integrity :: "deps \<Rightarrow> json \<Rightarrow> sp_integrity \<Rightarrow> unit res" where
  "validate_superec_integrity d v i =
     bindR (reject (sg_algorithm i \<noteq> ''sha256''
         \<or> sg_canonicalization i \<noteq> ''JCS-RFC8785''
         \<or> sg_scope i \<noteq> ''document-without-integrity''
         \<or> \<not> manifest_digest_ok (sg_digest i)) ''superec.contract'') (\<lambda>_.
     case v of
       JObj kvs \<Rightarrow>
         bindR (canonical_json (JObj (without_integrity kvs))) (\<lambda>canonical.
           reject (sha256_digest d canonical \<noteq> sg_digest i) ''superec.integrity'')
     | _ \<Rightarrow> Inl contract_error)"

definition resource_is_plugin :: "manifest \<Rightarrow> sp_resource \<Rightarrow> bool" where
  "resource_is_plugin m r \<longleftrightarrow>
     sr_kind r = ''plugin'' \<and> sr_name r = mf_name m \<and> sr_version r = Some (mf_version m)
     \<and> list_ex (\<lambda>i. si_kind i = ''tokensaver-plugin-id'' \<and> si_value i = mf_id m) (sr_identifiers r)"

definition tspp_ids :: "superec_document \<Rightarrow> string list" where
  "tspp_ids doc = map sr_id (filter (\<lambda>r. sr_kind r = ''api'' \<and> sr_name r = ''TSPP''
     \<and> sr_version r = Some ''1'') (sd_resources doc))"

definition implements_tspp :: "superec_document \<Rightarrow> string \<Rightarrow> bool" where
  "implements_tspp doc subject_id =
     list_ex (\<lambda>l. sl_from l = subject_id \<and> sl_to l \<in> set (tspp_ids doc)
       \<and> sl_kind l = ''implements'' \<and> sl_state l = Some ''declared''
       \<and> ''plugin.json'' \<in> set (sl_evidence_sources l)) (sd_relationships doc)"

definition validate_plugin_graph ::
  "superec_codec \<Rightarrow> superec_document \<Rightarrow> manifest \<Rightarrow> token_profile res" where
  "validate_plugin_graph sc doc m =
    (let expected_id = ''tokensaver:plugin:'' @ mf_id m
     in bindR (ok_or ''superec.contract'' (find (\<lambda>r. sr_id r = expected_id) (sd_resources doc)))
          (\<lambda>subject.
        bindR (reject (\<not> resource_is_plugin m subject) ''superec.contract'') (\<lambda>_.
        bindR (ok_or ''superec.contract''
          (case sr_extensions subject of Some (JObj kvs) \<Rightarrow> Some kvs | _ \<Rightarrow> None)) (\<lambda>extensions.
        bindR (ok_or ''superec.contract'' (map_of extensions tokensaver_profile)) (\<lambda>value.
        bindR (ok_or ''superec.contract'' (parse_profile sc value)) (\<lambda>profile.
        bindR (reject (tp_profile_version profile \<noteq> 1 \<or> tp_manifest profile \<noteq> ''plugin.json''
            \<or> tp_protocol profile \<noteq> ''TSPP/1'') ''superec.contract'') (\<lambda>_.
        bindR (reject (\<not> implements_tspp doc (sr_id subject)) ''superec.contract'') (\<lambda>_.
          Inr profile))))))))"

definition validate_knowledge :: "file_ops \<Rightarrow> string \<Rightarrow> string \<Rightarrow> unit res" where
  "validate_knowledge fo root knowledge =
     bindR (reject (knowledge = [] \<or> path_escapes fo knowledge) ''superec.contract'') (\<lambda>_.
       reject (\<not> fo_is_file fo (fo_join fo (fo_join fo root knowledge) ''index.md''))
         ''superec.knowledge'')"

definition superec_document_check ::
  "deps \<Rightarrow> file_ops \<Rightarrow> superec_codec \<Rightarrow> string \<Rightarrow> manifest \<Rightarrow> bytes \<Rightarrow> unit res" where
  "superec_document_check d fo sc root m data =
     bindR (reject (\<not> unambiguous d data) ''superec.json'') (\<lambda>_.
     bindR (ok_or ''superec.json'' (parse_value sc data)) (\<lambda>v.
     bindR (ok_or ''superec.envelope'' (parse_document sc v)) (\<lambda>doc.
     bindR (validate_superec_envelope doc) (\<lambda>_.
     bindR (validate_superec_integrity d v (sd_integrity doc)) (\<lambda>_.
     bindR (validate_plugin_graph sc doc m) (\<lambda>profile.
       validate_knowledge fo root (tp_knowledge profile)))))))"

definition validate_superec ::
  "deps \<Rightarrow> file_ops \<Rightarrow> superec_codec \<Rightarrow> resolved_plugin \<Rightarrow> host_check option res" where
  "validate_superec d fo sc plugin =
    (let root = (case fo_parent fo (rp_manifest_path plugin) of None \<Rightarrow> ''.'' | Some p \<Rightarrow> p);
         path = fo_join fo root superec_file
     in case fo_stat fo path of
          NotFound \<Rightarrow> Inr None
        | Unreadable \<Rightarrow> Inl (VErr ''superec.read'')
        | Found (file, len) \<Rightarrow>
            bindR (reject (\<not> file \<or> len > superec_max_bytes) ''superec.size'') (\<lambda>_.
            bindR (ok_or ''superec.read'' (fo_read fo path)) (\<lambda>data.
            bindR (superec_document_check d fo sc root (rp_manifest plugin) data) (\<lambda>_.
              Inr (Some \<lparr>hk_name = ''superec'',
                hk_detail = ''VIC-E SUPEREC 0.1.0 integrity and TokenSaver plugin profile accepted'',
                hk_attempt_id = None, hk_duration_ms = 0\<rparr>)))))"

section \<open>Sealing\<close>

definition integrity_value :: "sp_integrity \<Rightarrow> json" where
  "integrity_value i =
     JObj [(''algorithm'', JStr (sg_algorithm i)), (''canonicalization'', JStr (sg_canonicalization i)),
       (''digest'', JStr (sg_digest i)), (''scope'', JStr (sg_scope i))]"

definition seal_document :: "deps \<Rightarrow> json \<Rightarrow> json res" where
  "seal_document d v =
     (case v of
        JObj kvs \<Rightarrow>
          bindR (canonical_json (JObj (without_integrity kvs))) (\<lambda>canonical.
            Inr (JObj (map_insert ''integrity'' (integrity_value
              \<lparr>sg_algorithm = ''sha256'', sg_canonicalization = ''JCS-RFC8785'',
               sg_scope = ''document-without-integrity'', sg_digest = sha256_digest d canonical\<rparr>)
              (without_integrity kvs))))
      | _ \<Rightarrow> Inl contract_error)"

section \<open>What the seal promises\<close>

lemma without_integrity_map_insert:
  "without_integrity (map_insert ''integrity'' v kvs) = without_integrity kvs"
  by (induction kvs) (auto simp: without_integrity_def)

lemma without_integrity_idem [simp]: "without_integrity (without_integrity kvs) = without_integrity kvs"
  by (simp add: without_integrity_def)

lemma seal_validates:
  assumes sha: "sha256_length d" and s: "seal_document d v = Inr w"
  shows "\<exists>kvs sealed canonical i. v = JObj kvs \<and> w = JObj sealed
    \<and> without_integrity sealed = without_integrity kvs
    \<and> canonical_json (JObj (without_integrity kvs)) = Inr canonical
    \<and> sg_digest i = sha256_digest d canonical
    \<and> json_get w ''integrity'' = Some (integrity_value i)
    \<and> validate_superec_integrity d w i = Inr ()"
proof -
  from s obtain kvs canonical where
    v: "v = JObj kvs" and c: "canonical_json (JObj (without_integrity kvs)) = Inr canonical"
    and w: "w = JObj (map_insert ''integrity'' (integrity_value
      \<lparr>sg_algorithm = ''sha256'', sg_canonicalization = ''JCS-RFC8785'',
       sg_scope = ''document-without-integrity'', sg_digest = sha256_digest d canonical\<rparr>)
      (without_integrity kvs))"
    by (cases v) (auto simp: seal_document_def res_simps)
  let ?i = "\<lparr>sg_algorithm = ''sha256'', sg_canonicalization = ''JCS-RFC8785'',
      sg_scope = ''document-without-integrity'', sg_digest = sha256_digest d canonical\<rparr>"
  have "manifest_digest_ok (sha256_digest d canonical)" using sha by (simp add: manifest_digest_ok_iff)
  then have "validate_superec_integrity d w ?i = Inr ()"
    using c w by (simp add: validate_superec_integrity_def without_integrity_map_insert)
  moreover have "json_get w ''integrity'' = Some (integrity_value ?i)"
    using w by (simp add: map_of_map_insert)
  ultimately show ?thesis
    using v c w by (intro exI [of _ kvs] exI [of _ "map_insert ''integrity'' (integrity_value ?i)
      (without_integrity kvs)"] exI [of _ canonical] exI [of _ ?i])
      (simp add: without_integrity_map_insert)
qed

lemma ascending_filter: "ascending (map f xs) \<Longrightarrow> ascending (map f (filter P xs))"
  by (simp add: ascending_iff sorted_wrt_map sorted_wrt_filter)

lemma value_ok_without: "value_ok (JObj kvs) \<Longrightarrow> value_ok (JObj (without_integrity kvs))"
  by (simp add: value_ok_simps without_integrity_def ascending_filter)

lemma validate_superec_integrity_Inr:
  "validate_superec_integrity d v i = Inr () \<longleftrightarrow>
     sg_algorithm i = ''sha256'' \<and> sg_canonicalization i = ''JCS-RFC8785''
     \<and> sg_scope i = ''document-without-integrity'' \<and> valid_digest (sg_digest i)
     \<and> (\<exists>kvs s. v = JObj kvs \<and> canonical_json (JObj (without_integrity kvs)) = Inr s
          \<and> sg_digest i = sha256_digest d s)"
  by (cases v) (auto simp: validate_superec_integrity_def res_simps manifest_digest_ok_iff)

text \<open>What passes under a seal: the documents whose canonical text has the sealed hash.\<close>

lemma seal_admits:
  assumes "validate_superec_integrity d (JObj kvs) i = Inr ()"
    and "canonical_json (JObj (without_integrity kvs)) = Inr canonical"
  shows "validate_superec_integrity d (JObj kws) i = Inr () \<longleftrightarrow>
    (\<exists>t. canonical_json (JObj (without_integrity kws)) = Inr t \<and> sha256 d t = sha256 d canonical)"
proof -
  have "sg_digest i = sha256_digest d t \<longleftrightarrow> sha256 d t = sha256 d canonical" for t
    using assms sha256_digest_inj [of d canonical t]
    by (auto simp: validate_superec_integrity_Inr sha256_digest_def)
  with assms show ?thesis by (simp add: validate_superec_integrity_Inr)
qed

lemma canonical_without_integrity:
  assumes "value_ok (JObj kvs)" and "value_ok (JObj kws)"
    and "canonical_json (JObj (without_integrity kvs)) = Inr canonical"
  shows "canonical_json (JObj (without_integrity kws)) = Inr canonical \<longleftrightarrow>
    without_integrity kws = without_integrity kvs"
proof
  assume "canonical_json (JObj (without_integrity kws)) = Inr canonical"
  from canonical_json_inj [OF this assms(3) value_ok_without [OF assms(2)] value_ok_without [OF assms(1)]]
  show "without_integrity kws = without_integrity kvs" by simp
qed (simp add: assms(3))

text \<open>What an accepted record establishes about the plugin it is beside.\<close>

lemma validate_plugin_graph_Inr:
  assumes "validate_plugin_graph sc doc m = Inr profile"
  shows "\<exists>r\<in>set (sd_resources doc). sr_id r = ''tokensaver:plugin:'' @ mf_id m
    \<and> resource_is_plugin m r \<and> implements_tspp doc (sr_id r)
    \<and> tp_manifest profile = ''plugin.json'' \<and> tp_protocol profile = ''TSPP/1''"
proof -
  let ?P = "\<lambda>r. sr_id r = ''tokensaver:plugin:'' @ mf_id m"
  from assms obtain r where f: "find ?P (sd_resources doc) = Some r"
    and r: "resource_is_plugin m r" "implements_tspp doc (sr_id r)"
      "tp_manifest profile = ''plugin.json''" "tp_protocol profile = ''TSPP/1''"
    unfolding validate_plugin_graph_def Let_def by (auto simp: res_simps)
  from f have "r \<in> set (sd_resources doc)" "?P r"
    unfolding find_Some_iff by (metis nth_mem)+
  with r show ?thesis by blast
qed

lemma validate_superec_no_panic: "\<not> panics (validate_superec d fo sc plugin)"
proof -
  have num: "\<not> panics (canonical_number n)" for n
    by (auto simp: canonical_number_def panics_bindR contract_error_def split: option.splits
        json_number.splits)
  have "\<not> panics (write_canonical v)" "\<not> panics (write_items xs)" "\<not> panics (write_members kvs)"
    for v xs kvs
    by (induction v and xs and kvs rule: write_canonical_write_items_write_members.induct)
       (auto simp: panics_bindR num)
  then show ?thesis
    by (auto simp: validate_superec_def superec_document_check_def panics_bindR Let_def
        validate_superec_envelope_def validate_superec_integrity_def canonical_json_def
        contract_error_def validate_plugin_graph_def validate_knowledge_def
        split: lookup.splits json.splits prod.splits option.splits)
qed

section \<open>Properties\<close>

text \<open>C36: canonical JSON is unambiguous: two values (members in key order, as serde keeps them) with
  the same canonical text are the same value, whatever the nesting, the escapes, the ordering of
  members by UTF-16 units and the numbers.\<close>
theorem canonical_json_unambiguous:
  assumes "canonical_json v = Inr s" and "canonical_json w = Inr s" and "value_ok v" and "value_ok w"
  shows "v = w"
  using assms by (rule canonical_json_inj)

definition demo_value :: json where
  "demo_value = JObj [(''a'', JArr [JBool True, JNull]), (''b'', JStr [CHR 0x22])]"

lemma demo_value_ok: "value_ok demo_value"
  by (simp add: demo_value_def value_ok_simps)

lemma demo_value_text: "canonical_json demo_value
    = Inr (''{'' @ [CHR 0x22] @ ''a'' @ [CHR 0x22] @ '':[true,null],'' @ [CHR 0x22] @ ''b''
        @ [CHR 0x22, CHR '':'', CHR 0x22, CHR 0x5C, CHR 0x22, CHR 0x22] @ ''}'')"
  by (simp add: canonical_json_def demo_value_def join_members_def member_text_def jcs_string_def
      jcs_escape_def utf16_def utf16_units_def sort_key_def)

theorem canonical_json_unambiguous_witness:
  "(THE v. value_ok v \<and> canonical_json v = canonical_json demo_value) = demo_value"
proof (rule the_equality)
  show "value_ok demo_value \<and> canonical_json demo_value = canonical_json demo_value"
    by (simp add: demo_value_ok)
next
  fix v
  assume "value_ok v \<and> canonical_json v = canonical_json demo_value"
  then show "v = demo_value"
    using canonical_json_unambiguous [OF _ demo_value_text _ demo_value_ok] demo_value_text by auto
qed

text \<open>C22: a seal verifies and binds. Sealing changes nothing but the integrity member, the
  sealed document passes the integrity check of its own seal, and a document passes with that seal
  exactly when the canonical text of its other members has the hash of the sealed document's; the
  two texts are equal exactly when the other members of the two documents are. So a document that
  differs from the sealed one passes only if its own canonical text collides with that of the sealed
  one.\<close>
theorem superec_seal_binds:
  assumes "sha256_length d" and "seal_document d v = Inr w" and "value_ok w"
  shows "\<exists>kvs sealed canonical i. v = JObj kvs \<and> w = JObj sealed
    \<and> without_integrity sealed = without_integrity kvs
    \<and> canonical_json (JObj (without_integrity kvs)) = Inr canonical
    \<and> json_get w ''integrity'' = Some (integrity_value i)
    \<and> validate_superec_integrity d w i = Inr ()
    \<and> (\<forall>kws. value_ok (JObj kws) \<longrightarrow>
        (validate_superec_integrity d (JObj kws) i = Inr () \<longleftrightarrow>
          (\<exists>t. canonical_json (JObj (without_integrity kws)) = Inr t \<and> sha256 d t = sha256 d canonical))
        \<and> (canonical_json (JObj (without_integrity kws)) = Inr canonical \<longleftrightarrow>
          without_integrity kws = without_integrity kvs))"
proof -
  from seal_validates [OF assms(1,2)] obtain kvs sealed canonical i where
    s: "v = JObj kvs" "w = JObj sealed" "without_integrity sealed = without_integrity kvs"
      "canonical_json (JObj (without_integrity kvs)) = Inr canonical"
      "json_get w ''integrity'' = Some (integrity_value i)" "validate_superec_integrity d w i = Inr ()"
    by blast
  then have "validate_superec_integrity d (JObj sealed) i = Inr ()"
    "canonical_json (JObj (without_integrity sealed)) = Inr canonical" "value_ok (JObj sealed)"
    using assms(3) by simp_all
  from seal_admits [OF this(1,2)] canonical_without_integrity [OF this(3) _ this(2)] s show ?thesis
    by (intro exI [of _ kvs] exI [of _ sealed] exI [of _ canonical] exI [of _ i]) simp
qed

theorem superec_seal_binds_witness:
  "\<exists>kvs i. seal_document demo_deps demo_value = Inr (JObj kvs)
     \<and> validate_superec_integrity demo_deps (JObj kvs) i = Inr ()"
proof -
  have wo: "without_integrity [(''a'', JArr [JBool True, JNull]), (''b'', JStr [CHR 0x22])]
      = [(''a'', JArr [JBool True, JNull]), (''b'', JStr [CHR 0x22])]"
    by (simp add: without_integrity_def)
  from demo_value_text obtain s where "canonical_json demo_value = Inr s" by blast
  then obtain g where sd: "seal_document demo_deps demo_value = Inr (JObj
      [(''a'', JArr [JBool True, JNull]), (''b'', JStr [CHR 0x22]), (''integrity'', integrity_value g)])"
    by (simp add: seal_document_def demo_value_def wo)
  have "value_ok (JObj [(''a'', JArr [JBool True, JNull]), (''b'', JStr [CHR 0x22]),
      (''integrity'', integrity_value g)])"
    by (simp add: value_ok_simps integrity_value_def)
  from superec_seal_binds [OF demo_deps_laws(1) sd this] sd show ?thesis by blast
qed

end
