(* ===== verification/Host.thy ===== *)
theory Host
  imports Sdk_Serve Effects Benchmark
begin

text \<open>
  The workbench's side of TSPP v1, tools/tsp/src/protocol.rs: its frame reader and writer, the
  requests it sends, and how it judges a plugin's responses. The plugin process is a peer: a
  function that consumes the bytes written to its standard input and makes bytes readable on its
  standard output, or closes the pipe. Reading past what the peer has made readable is the end of
  its output; a plugin that stays silent is the deadline's case, in Workbench.
\<close>

section \<open>Reading a frame\<close>

definition host_frame_max_bytes :: nat where "host_frame_max_bytes = 25165824"
definition host_read_max_bytes :: nat where "host_read_max_bytes = 67108864"
definition host_header_max_bytes :: nat where "host_header_max_bytes = 8192"
definition host_max_headers :: nat where "host_max_headers = 32"
definition host_max_frames :: nat where "host_max_frames = 32"

definition frame_read_error :: validation_error where
  "frame_read_error = VErr ''protocol.frame''"

text \<open>One non-empty header line, after its line terminator was stripped.\<close>

definition host_parse_header :: "nat option \<Rightarrow> bytes \<Rightarrow> nat option res" where
  "host_parse_header content_length line =
     (case split_colon line of
        None \<Rightarrow> Inl frame_read_error
      | Some (name, rest) \<Rightarrow>
          if \<not> is_utf8 name then Inl frame_read_error
          else if eq_ignore_case (str_trim name) ''Content-Length'' then
            if \<not> is_utf8 rest then Inl frame_read_error
            else (case parse_usize (str_trim rest) of
                    None \<Rightarrow> Inl frame_read_error
                  | Some len \<Rightarrow>
                      if len = 0 \<or> len > host_frame_max_bytes then Inl frame_read_error
                      else Inr (Some len))
          else Inr content_length)"

text \<open>
  The header loop: the iterations of \<^verbatim>\<open>0..=MAX_HEADERS\<close> that are left, \<open>header_count\<close>, and the
  variables of the loop.
\<close>

fun host_read_headers ::
  "nat \<Rightarrow> nat \<Rightarrow> nat option \<Rightarrow> nat \<Rightarrow> bytes \<Rightarrow> (bytes \<times> bytes) res"
where
  "host_read_headers 0 header_count content_length header_bytes input = Inl frame_read_error"
| "host_read_headers (Suc left) header_count content_length header_bytes input =
     (case read_until_lf input of (line, rest) \<Rightarrow>
        if length line = 0 then Inl frame_read_error
        else
          let header_bytes' = min u64_max (header_bytes + length line);
              line' = strip_eol line
          in if header_bytes' > host_header_max_bytes then Inl frame_read_error
             else if line' = [] then
               (case content_length of
                  Some len \<Rightarrow>
                    (case read_exact len rest of
                       None \<Rightarrow> Inl frame_read_error
                     | Some (frame, rest') \<Rightarrow> Inr (frame, rest'))
                | None \<Rightarrow> host_read_headers left (Suc header_count) None header_bytes' rest)
             else bindR (host_parse_header content_length line') (\<lambda>content_length'.
                    if header_count = host_max_headers then Inl frame_read_error
                    else host_read_headers left (Suc header_count) content_length' header_bytes' rest))"

definition host_read_frame :: "bytes \<Rightarrow> (bytes \<times> bytes) res" where
  "host_read_frame input = host_read_headers (Suc host_max_headers) 0 None 0 input"

declare host_read_headers.simps(2) [simp del]

text \<open>
  The workbench's reader and the SDK's are two pieces of code for one format: they agree, except
  that the workbench treats a clean end of the output as an error.
\<close>

fun as_host :: "protocol_error + bytes option \<times> bytes \<Rightarrow> (bytes \<times> bytes) res" where
  "as_host (Inl e) = Inl frame_read_error"
| "as_host (Inr (None, rest)) = Inl frame_read_error"
| "as_host (Inr (Some p, rest)) = Inr (p, rest)"

lemma host_parse_header_eq:
  "host_parse_header cl line =
     (case parse_header cl line of Inl e \<Rightarrow> Inl frame_read_error | Inr cl' \<Rightarrow> Inr cl')"
  by (auto simp: host_parse_header_def parse_header_def host_frame_max_bytes_def max_frame_bytes_def
      split: option.splits prod.splits)

lemma host_read_headers_eq:
  "left + hc = Suc host_max_headers \<Longrightarrow>
     host_read_headers left hc cl hb s = as_host (read_headers left hc cl hb s)"
proof (induction left arbitrary: hc cl hb s)
  case (Suc left)
  obtain line rest where ln: "read_until_lf s = (line, rest)" by (cases "read_until_lf s")
  have last: "hc = host_max_headers \<longleftrightarrow> left = 0" using Suc.prems by auto
  have m: "host_header_max_bytes = max_header_bytes"
    by (simp add: host_header_max_bytes_def max_header_bytes_def)
  have ih: "host_read_headers left (Suc hc) cl' hb' rest = as_host (read_headers left (Suc hc) cl' hb' rest)"
    for cl' hb'
    using Suc by simp
  show ?case
    using ln last ih
    by (subst host_read_headers.simps(2), subst read_headers.simps(2))
       (auto simp: Let_def m host_parse_header_eq bindR_def split: option.splits sum.splits)
qed simp

lemma host_read_frame_eq: "host_read_frame s = as_host (read_frame s)"
  by (simp add: host_read_frame_def read_frame_def host_read_headers_eq host_max_headers_def
      max_headers_def)

lemma as_host_Inr: "as_host r = Inr (p, rest) \<longleftrightarrow> r = Inr (Some p, rest)"
  by (cases r rule: as_host.cases) auto

lemma host_read_frame_bytes: "frame_fits p \<Longrightarrow> host_read_frame (frame_bytes p @ r) = Inr (p, r)"
  by (simp add: host_read_frame_eq sdk_framing.decode_encode)

lemma host_read_frame_suffix:
  "host_read_frame s = Inr (p, r) \<Longrightarrow> frame_fits p \<and> (\<exists>headers. s = headers @ p @ r)"
  by (simp add: host_read_frame_eq as_host_Inr read_frame_frame)

section \<open>Talking to a plugin process\<close>

type_synonym 'p peer = "bytes \<Rightarrow> 'p \<Rightarrow> bytes option \<times> 'p"

record 'p process =
  pr_peer :: 'p
  pr_unread :: bytes
  pr_left :: nat \<comment> \<open>what \<^verbatim>\<open>stdout.take(READ_MAX_BYTES)\<close> still lets through\<close>

text \<open>serde\_json's printer and parser of values.\<close>

record host_codec =
  print_json :: "json \<Rightarrow> bytes option"
  parse_json :: "bytes \<Rightarrow> json option"

definition start_process :: "'p \<Rightarrow> 'p process" where
  "start_process p = \<lparr>pr_peer = p, pr_unread = [], pr_left = host_read_max_bytes\<rparr>"

definition host_write_frame :: "host_codec \<Rightarrow> 'p peer \<Rightarrow> json \<Rightarrow> ('p process, unit) io" where
  "host_write_frame hc peer v =
     bindW (liftW (ok_or ''workbench.json'' (print_json hc v))) (\<lambda>payload w.
       case peer (frame_bytes payload) (pr_peer w) of
         (None, p') \<Rightarrow> (Inl (VErr ''protocol.write''), w\<lparr>pr_peer := p'\<rparr>)
       | (Some out, p') \<Rightarrow> (Inr (), w\<lparr>pr_peer := p', pr_unread := pr_unread w @ out\<rparr>))"

definition next_frame :: "('p process, bytes) io" where
  "next_frame w =
    (let available = take (pr_left w) (pr_unread w)
     in case host_read_frame available of
          Inl e \<Rightarrow> (Inl e, w)
        | Inr (frame, rest) \<Rightarrow>
            (let used = length available - length rest
             in (Inr frame, w\<lparr>pr_unread := drop used (pr_unread w), pr_left := pr_left w - used\<rparr>)))"

text \<open>\<^verbatim>\<open>read_response\<close>; the argument counts the frames left.\<close>

fun await_response :: "host_codec \<Rightarrow> int \<Rightarrow> nat \<Rightarrow> ('p process, json) io" where
  "await_response hc i 0 = liftW (Inl (VErr ''protocol.frameBudget''))"
| "await_response hc i (Suc left) =
     bindW next_frame (\<lambda>frame.
     bindW (liftW (ok_or ''protocol.json'' (parse_json hc frame))) (\<lambda>v.
     bindW (liftW (reject (Option.bind (json_get v ''jsonrpc'') json_as_str \<noteq> Some ''2.0'')
       ''protocol.jsonrpc'')) (\<lambda>_.
     if Option.bind (json_get v ''id'') json_as_i64 = Some i then returnW v
     else await_response hc i left)))"

definition read_response :: "host_codec \<Rightarrow> int \<Rightarrow> ('p process, json) io" where
  "read_response hc i = await_response hc i host_max_frames"

section \<open>Requests\<close>

text \<open>A \<^verbatim>\<open>serde_json::Map\<close> lists its members in key order.\<close>

definition rpc_call :: "int \<Rightarrow> string \<Rightarrow> json \<Rightarrow> json" where
  "rpc_call i method params =
     JObj [(''id'', json_int i), (''jsonrpc'', JStr ''2.0''), (''method'', JStr method),
       (''params'', params)]"

definition shutdown_call :: json where
  "shutdown_call = JObj [(''jsonrpc'', JStr ''2.0''), (''method'', JStr ''shutdown'')]"

definition initialize_args :: "u32 \<Rightarrow> json" where
  "initialize_args budget_ms =
     JObj [(''apiVersion'', json_int 1), (''budgetMs'', json_int (uint budget_ms)),
       (''host'', JStr ''tsp'')]"

definition optimize_args :: "string \<Rightarrow> string \<Rightarrow> int \<Rightarrow> string \<Rightarrow> u32 \<Rightarrow> json" where
  "optimize_args kind program exit_code content budget_ms =
     JObj [(''budgetMs'', json_int (uint budget_ms)), (''content'', JStr content),
       (''encoding'', JStr ''base64''), (''exitCode'', json_int exit_code), (''kind'', JStr kind),
       (''program'', JStr program)]"

section \<open>Judging responses\<close>

definition response_error :: "json \<Rightarrow> bool" where
  "response_error response \<longleftrightarrow>
     (case json_get response ''error'' of None \<Rightarrow> False | Some e \<Rightarrow> e \<noteq> JNull)"

definition host_initialize ::
  "host_codec \<Rightarrow> 'p peer \<Rightarrow> string \<Rightarrow> string \<Rightarrow> u32 \<Rightarrow> ('p process, unit) io" where
  "host_initialize hc peer expected_id expected_version budget_ms =
     bindW (host_write_frame hc peer (rpc_call 1 ''initialize'' (initialize_args budget_ms))) (\<lambda>_.
     bindW (read_response hc 1) (\<lambda>response.
     bindW (liftW (reject (response_error response) ''protocol.initialize'')) (\<lambda>_.
       let result = json_index response ''result''
       in liftW (reject (json_get result ''apiVersion'' \<noteq> Some (json_int 1)
             \<or> Option.bind (json_get result ''pluginId'') json_as_str \<noteq> Some expected_id
             \<or> Option.bind (json_get result ''version'') json_as_str \<noteq> Some expected_version)
           ''protocol.identity''))))"



definition parse_optimize_response ::
  "deps \<Rightarrow> json \<Rightarrow> bytes \<Rightarrow> (optimize_action \<times> bytes option) res" where
  "parse_optimize_response d response raw =
     bindR (reject (response_error response) ''protocol.optimize'') (\<lambda>_.
     let result = json_index response ''result'';
         act = Option.bind (json_get result ''action'') json_as_str
     in if act = Some ''pass'' then Inr (ActionPass, None)
        else if act = Some ''optimize'' then
          bindR (ok_or ''safety.content'' (Option.bind (json_get result ''content'') json_as_str))
            (\<lambda>encoded.
          bindR (ok_or ''safety.base64'' (b64_decode d encoded)) (\<lambda>content.
          bindR (reject (content = [] \<or> CHR 0x00 \<in> set content \<or> \<not> is_utf8 content) ''safety.text'')
            (\<lambda>_.
          bindR (reject (min u64_max (length content * 100) \<ge> min u64_max (length raw * 80))
            ''safety.reduction'') (\<lambda>_.
            Inr (ActionOptimize, Some content)))))
        else Inl (VErr ''protocol.action''))"

definition expect_error :: "host_codec \<Rightarrow> int \<Rightarrow> int \<Rightarrow> string \<Rightarrow> ('p process, unit) io" where
  "expect_error hc i expected_code rule =
     bindW (read_response hc i) (\<lambda>response.
       liftW (reject (Option.bind (Option.bind (json_get response ''error'')
           (\<lambda>e. json_get e ''code'')) json_as_i64 \<noteq> Some expected_code) rule))"

section \<open>The exchanges\<close>

datatype scenario = Lifecycle | BeforeInitialize | MalformedBase64

record exchange_contract =
  xc_plugin_id :: string
  xc_version :: string
  xc_kind :: string
  xc_max_input_bytes :: int
  xc_budget_ms :: u32

definition fixture_line :: "nat \<Rightarrow> string" where
  "fixture_line i =
     (if i = 80 then ''line '' @ dec i @ '': ERROR conformance failure '' @ replicate 72 CHR ''x''
      else ''line '' @ dec i @ '': conformance output '' @ replicate 72 CHR ''x'')"

definition conformance_fixture :: "int \<Rightarrow> bytes" where
  "conformance_fixture max_input =
    (let fixture = join_with LF (map fixture_line [0..<140])
     in if max_input > 0 then take (min (length fixture) (nat max_input)) fixture else fixture)"

definition validate_normal_optimize ::
  "deps \<Rightarrow> host_codec \<Rightarrow> 'p peer \<Rightarrow> string \<Rightarrow> int \<Rightarrow> u32 \<Rightarrow> ('p process, unit) io" where
  "validate_normal_optimize d hc peer kind max_input budget_ms =
    (let raw = conformance_fixture max_input
     in bindW (host_write_frame hc peer (rpc_call 2 ''optimize''
          (optimize_args kind ''tsp-fixture'' 1 (b64_encode d raw) budget_ms))) (\<lambda>_.
        bindW (read_response hc 2) (\<lambda>response.
        bindW (liftW (parse_optimize_response d response raw)) (\<lambda>_. returnW ()))))"

text \<open>The shutdown notification that follows; whether it can be written is ignored.\<close>

definition then_shutdown :: "host_codec \<Rightarrow> 'p peer \<Rightarrow> ('p process, 'a) io \<Rightarrow> ('p process, 'a) io" where
  "then_shutdown hc peer m w =
     (case m w of (result, w') \<Rightarrow> (result, snd (host_write_frame hc peer shutdown_call w')))"

definition exchange ::
  "deps \<Rightarrow> host_codec \<Rightarrow> 'p peer \<Rightarrow> scenario \<Rightarrow> exchange_contract \<Rightarrow> ('p process, unit) io" where
  "exchange d hc peer s k =
    (let init = host_initialize hc peer (xc_plugin_id k) (xc_version k) (xc_budget_ms k)
     in case s of
          Lifecycle \<Rightarrow>
            bindW init (\<lambda>_. then_shutdown hc peer
              (validate_normal_optimize d hc peer (xc_kind k) (xc_max_input_bytes k) (xc_budget_ms k)))
        | BeforeInitialize \<Rightarrow>
            bindW (host_write_frame hc peer (rpc_call 2 ''optimize'' (JObj []))) (\<lambda>_.
              then_shutdown hc peer (expect_error hc 2 (- 32002) ''protocol.preInitialize''))
        | MalformedBase64 \<Rightarrow>
            bindW init (\<lambda>_.
            bindW (host_write_frame hc peer (rpc_call 2 ''optimize''
              (optimize_args (xc_kind k) ''tsp-fixture'' 1 ''%%%'' (xc_budget_ms k)))) (\<lambda>_.
              then_shutdown hc peer (expect_error hc 2 (- 32602) ''protocol.malformedBase64''))))"

record fixture_request =
  xr_kind :: string
  xr_program :: string
  xr_exit_code :: "32 word"
  xr_content :: bytes

text \<open>\<^verbatim>\<open>Path::file_name\<close> of the platform is a parameter.\<close>

definition program_basename :: "(string \<Rightarrow> string option) \<Rightarrow> string \<Rightarrow> string" where
  "program_basename file_name program =
     (case file_name program of
        None \<Rightarrow> ''tsp-fixture''
      | Some n \<Rightarrow> if n = [] then ''tsp-fixture'' else n)"

definition exchange_fixture ::
  "deps \<Rightarrow> host_codec \<Rightarrow> (string \<Rightarrow> string option) \<Rightarrow> 'p peer \<Rightarrow> string \<Rightarrow> string \<Rightarrow> u32
     \<Rightarrow> fixture_request \<Rightarrow> ('p process, optimize_action \<times> bytes option) io" where
  "exchange_fixture d hc file_name peer expected_id expected_version budget_ms xr =
     then_shutdown hc peer
       (bindW (host_initialize hc peer expected_id expected_version budget_ms) (\<lambda>_.
        bindW (host_write_frame hc peer (rpc_call 2 ''optimize''
          (optimize_args (xr_kind xr) (program_basename file_name (xr_program xr))
            (sint (xr_exit_code xr)) (b64_encode d (xr_content xr)) budget_ms))) (\<lambda>_.
        bindW (read_response hc 2) (\<lambda>response.
          liftW (parse_optimize_response d response (xr_content xr))))))"

end
