(* ===== verification/Workbench.thy ===== *)
theory Workbench
  imports Superec Host Benchmark
begin

text \<open>
  Running a plugin from the workbench, tools/tsp/src/protocol.rs: the process with its cleared
  environment, the deadline and the exit of the process, the three conformance scenarios of
  \<^verbatim>\<open>validate_plugin\<close> and the fixture run. The operating system is the record \<open>platform\<close>: spawning a
  command yields the outcome of supervising it, with the peer that runs in it.
\<close>

section \<open>Processes\<close>

record command =
  cm_executable :: string
  cm_args :: "string list"
  cm_directory :: string
  cm_env :: "(string \<times> string) list"
  cm_discard_stderr :: bool

text \<open>
  What reaches the supervising thread: the worker's result some milliseconds after the wait began,
  nothing while the plugin is silent, or the end of a worker that was lost. What polling the process
  yields after the exchange: its exit, a process that outlives the grace period, or a failed wait.
\<close>

datatype answer = Answered nat | Silent | WorkerLost

datatype exit_outcome = Exited bool | StillRunning | WaitFailed

record 'p launch =
  la_spawned :: bool
  la_stdin :: bool
  la_stdout :: bool
  la_peer :: "'p peer"
  la_start :: 'p
  la_answer :: answer
  la_exit :: exit_outcome

record ('w, 'p) platform =
  os_spawn :: "command \<Rightarrow> 'w \<Rightarrow> 'p launch \<times> 'w"
  os_random :: "'w \<Rightarrow> bytes option \<times> 'w"
  os_clock_us :: "'w \<Rightarrow> nat \<times> 'w"
  os_env :: "string \<Rightarrow> string option"
  os_file_name :: "string \<Rightarrow> string option"
  os_parent :: "string \<Rightarrow> string option"

definition kept_variables :: "string list" where
  "kept_variables = [''SystemRoot'', ''WINDIR'', ''TEMP'', ''TMP'', ''TMPDIR'']"

definition plugin_command :: "('w, 'p) platform \<Rightarrow> resolved_plugin \<Rightarrow> bool \<Rightarrow> command" where
  "plugin_command os plugin discard_stderr =
     \<lparr>cm_executable = rp_executable plugin, cm_args = rp_args plugin,
      cm_directory = (case os_parent os (rp_executable plugin) of None \<Rightarrow> ''.'' | Some p \<Rightarrow> p),
      cm_env = (''TOKENSAVER_PLUGIN'', ''1'')
        # concat (map (\<lambda>key. case os_env os key of
            None \<Rightarrow> [] | Some v \<Rightarrow> if v = [] then [] else [(key, v)]) kept_variables),
      cm_discard_stderr = discard_stderr\<rparr>"

definition wait_for_exit :: "exit_outcome \<Rightarrow> bool res" where
  "wait_for_exit e =
     (case e of
        Exited success \<Rightarrow> Inr success
      | StillRunning \<Rightarrow> Inl (VErr ''protocol.shutdown'')
      | WaitFailed \<Rightarrow> Inl (VErr ''protocol.wait''))"

definition spawn_grace_ms :: nat where "spawn_grace_ms = 250"

definition exchange_deadline_ms :: "u32 \<Rightarrow> nat" where
  "exchange_deadline_ms budget_ms = unat budget_ms + spawn_grace_ms"

definition recv_timeout :: "nat \<Rightarrow> answer \<Rightarrow> unit res" where
  "recv_timeout deadline a =
     (case a of
        Answered ms \<Rightarrow> reject (ms > deadline) ''protocol.timeout''
      | Silent \<Rightarrow> Inl (VErr ''protocol.timeout'')
      | WorkerLost \<Rightarrow> Inl (VErr ''protocol.worker''))"

definition supervised :: "u32 \<Rightarrow> 'p launch \<Rightarrow> ('p process, 'a) io \<Rightarrow> 'a res" where
  "supervised budget_ms la conversation =
     bindR (reject (\<not> la_spawned la) ''protocol.spawn'') (\<lambda>_.
     bindR (reject (\<not> la_stdin la) ''protocol.stdin'') (\<lambda>_.
     bindR (reject (\<not> la_stdout la) ''protocol.stdout'') (\<lambda>_.
     bindR (recv_timeout (exchange_deadline_ms budget_ms) (la_answer la)) (\<lambda>_.
     bindR (fst (conversation (start_process (la_start la)))) (\<lambda>x.
     bindR (wait_for_exit (la_exit la)) (\<lambda>success.
     bindR (reject (\<not> success) ''protocol.exit'') (\<lambda>_. Inr x)))))))"

text \<open>\<^verbatim>\<open>started.elapsed()\<close> in milliseconds and in microseconds, of a monotonic clock\<close>

definition elapsed_us :: "('w, 'p) platform \<Rightarrow> nat \<Rightarrow> ('w, nat) io" where
  "elapsed_us os started = bindW (readW (os_clock_us os)) (\<lambda>now. returnW (now - started))"

definition elapsed_ms :: "('w, 'p) platform \<Rightarrow> nat \<Rightarrow> ('w, nat) io" where
  "elapsed_ms os started = bindW (elapsed_us os started) (\<lambda>us. returnW (us div 1000))"

definition new_attempt_id :: "('w, 'p) platform \<Rightarrow> ('w, string) io" where
  "new_attempt_id os =
     bindW (readW (os_random os)) (\<lambda>random. liftW (new_activation_attempt_id random))"

section \<open>The conformance scenarios\<close>

definition contract_of :: "resolved_plugin \<Rightarrow> exchange_contract" where
  "contract_of plugin =
    (let m = rp_manifest plugin
     in \<lparr>xc_plugin_id = mf_id m, xc_version = mf_version m,
         xc_kind = (case cap_kinds (mf_capabilities m) of [] \<Rightarrow> ''test'' | kind # _ \<Rightarrow> kind),
         xc_max_input_bytes = cap_max_input_bytes (mf_capabilities m),
         xc_budget_ms = rp_budget_ms plugin\<rparr>)"

fun scenario_check :: "scenario \<Rightarrow> string \<times> string" where
  "scenario_check Lifecycle = (''lifecycle'',
     ''initialize identity, safe optimize response, shutdown, and exit verified'')"
| "scenario_check BeforeInitialize = (''pre-initialize'',
     ''optimize before initialize rejected with JSON-RPC error -32002'')"
| "scenario_check MalformedBase64 = (''malformed-input'',
     ''invalid base64 rejected with JSON-RPC error -32602'')"

definition run_scenario ::
  "deps \<Rightarrow> host_codec \<Rightarrow> ('w, 'p) platform \<Rightarrow> resolved_plugin \<Rightarrow> scenario \<Rightarrow> ('w, host_check) io" where
  "run_scenario d hc os plugin s =
     bindW (readW (os_clock_us os)) (\<lambda>started.
     bindW (new_attempt_id os) (\<lambda>attempt.
     bindW (readW (os_spawn os (plugin_command os plugin True))) (\<lambda>la.
     bindW (liftW (supervised (xc_budget_ms (contract_of plugin)) la
         (exchange d hc (la_peer la) s (contract_of plugin)))) (\<lambda>_.
     bindW (elapsed_ms os started) (\<lambda>ms.
       returnW \<lparr>hk_name = fst (scenario_check s), hk_detail = snd (scenario_check s),
         hk_attempt_id = Some attempt, hk_duration_ms = ms\<rparr>)))))"

record validation_report =
  vr_schema_version :: u32
  vr_ok :: bool
  vr_level :: certification_level
  vr_plugin_id :: string
  vr_version :: string
  vr_platform :: string
  vr_release_id :: string
  vr_artifact_digest :: string
  vr_manifest_path :: string
  vr_executable :: string
  vr_checks :: "host_check list"
  vr_duration_ms :: nat

definition static_checks :: "resolved_plugin \<Rightarrow> host_check list" where
  "static_checks plugin =
     [\<lparr>hk_name = ''manifest'', hk_detail = ''host-equivalent v1 semantics accepted'',
       hk_attempt_id = None, hk_duration_ms = 0\<rparr>,
      \<lparr>hk_name = ''runtime'',
       hk_detail = rp_executable plugin @ '' exists for '' @ rp_platform plugin,
       hk_attempt_id = None, hk_duration_ms = 0\<rparr>]"

definition validate_plugin ::
  "deps \<Rightarrow> host_codec \<Rightarrow> file_ops \<Rightarrow> superec_codec \<Rightarrow> ('w, 'p) platform \<Rightarrow> resolved_plugin
     \<Rightarrow> ('w, validation_report) io" where
  "validate_plugin d hc fo sc os plugin =
     bindW (readW (os_clock_us os)) (\<lambda>started.
     bindW (liftW (validate_superec d fo sc plugin)) (\<lambda>record_check.
     bindW (run_scenario d hc os plugin Lifecycle) (\<lambda>lifecycle.
     bindW (run_scenario d hc os plugin BeforeInitialize) (\<lambda>before.
     bindW (run_scenario d hc os plugin MalformedBase64) (\<lambda>malformed.
     bindW (elapsed_ms os started) (\<lambda>ms.
       returnW \<lparr>vr_schema_version = 1, vr_ok = True, vr_level = Conformant,
         vr_plugin_id = mf_id (rp_manifest plugin), vr_version = mf_version (rp_manifest plugin),
         vr_platform = rp_platform plugin, vr_release_id = rp_release_id plugin,
         vr_artifact_digest = rp_artifact_digest plugin,
         vr_manifest_path = rp_manifest_path plugin, vr_executable = rp_executable plugin,
         vr_checks = static_checks plugin
           @ (case record_check of None \<Rightarrow> [] | Some check \<Rightarrow> [check])
           @ [lifecycle, before, malformed],
         vr_duration_ms = ms\<rparr>))))))"

section \<open>Fixture runs\<close>

definition input_max_bytes :: nat where "input_max_bytes = 16777216"

definition validate_fixture_request :: "resolved_plugin \<Rightarrow> fixture_request \<Rightarrow> unit res" where
  "validate_fixture_request plugin xr =
    (let limit = cap_max_input_bytes (mf_capabilities (rp_manifest plugin));
         kinds = cap_kinds (mf_capabilities (rp_manifest plugin))
     in bindR (reject (length (xr_content xr) > input_max_bytes) ''fixture.size'') (\<lambda>_.
        bindR (reject (CHR 0x00 \<in> set (xr_content xr) \<or> \<not> is_utf8 (xr_content xr))
          ''fixture.text'') (\<lambda>_.
        bindR (reject (limit > 0 \<and> int (length (xr_content xr)) > limit)
          ''fixture.pluginLimit'') (\<lambda>_.
        bindR (reject (xr_kind xr \<notin> set known_kinds) ''fixture.kind'') (\<lambda>_.
          reject (kinds \<noteq> [] \<and> xr_kind xr \<notin> set kinds) ''fixture.capability'')))))"

record run_report =
  rr_schema_version :: u32
  rr_ok :: bool
  rr_plugin_id :: string
  rr_version :: string
  rr_platform :: string
  rr_release_id :: string
  rr_artifact_digest :: string
  rr_attempt_id :: string
  rr_action :: optimize_action
  rr_input_bytes :: nat
  rr_output_bytes :: nat
  rr_saved_bytes :: nat
  rr_savings_percent :: rat
  rr_output :: bytes
  rr_duration_ms :: nat

text \<open>\<^verbatim>\<open>saved as f64 * 100.0 / input as f64\<close>\<close>

definition percentage :: "nat \<Rightarrow> nat \<Rightarrow> rat" where
  "percentage saved input =
     (if input = 0 then 0
      else f64_round (f64_round (f64_of_nat saved * 100) / f64_of_nat input))"

definition fixture_report ::
  "resolved_plugin \<Rightarrow> string \<Rightarrow> bytes \<Rightarrow> nat \<Rightarrow> optimize_action \<times> bytes option \<Rightarrow> run_report res" where
  "fixture_report plugin attempt raw elapsed result =
    (let out = (case snd result of None \<Rightarrow> raw | Some content \<Rightarrow> content);
         saved = length raw - length out
     in if is_utf8 out then Inr
          \<lparr>rr_schema_version = 1, rr_ok = True, rr_plugin_id = mf_id (rp_manifest plugin),
           rr_version = mf_version (rp_manifest plugin), rr_platform = rp_platform plugin,
           rr_release_id = rp_release_id plugin, rr_artifact_digest = rp_artifact_digest plugin,
           rr_attempt_id = attempt, rr_action = fst result, rr_input_bytes = length raw,
           rr_output_bytes = length out, rr_saved_bytes = saved,
           rr_savings_percent = percentage saved (length raw), rr_output = out,
           rr_duration_ms = elapsed\<rparr>
        else Inl Panic)"

definition run_fixture_with_activation ::
  "deps \<Rightarrow> host_codec \<Rightarrow> ('w, 'p) platform \<Rightarrow> resolved_plugin \<Rightarrow> fixture_request \<Rightarrow> string
     \<Rightarrow> ('w, run_report) io" where
  "run_fixture_with_activation d hc os plugin xr attempt =
     bindW (liftW (reject (\<not> valid_activation_attempt_id attempt) ''identity.activationAttemptId'')) (\<lambda>_.
     bindW (liftW (validate_fixture_request plugin xr)) (\<lambda>_.
     bindW (readW (os_clock_us os)) (\<lambda>started.
     bindW (readW (os_spawn os (plugin_command os plugin False))) (\<lambda>la.
     bindW (liftW (supervised (rp_budget_ms plugin) la (exchange_fixture d hc (os_file_name os) (la_peer la)
         (mf_id (rp_manifest plugin)) (mf_version (rp_manifest plugin)) (rp_budget_ms plugin) xr))) (\<lambda>result.
     bindW (elapsed_ms os started) (\<lambda>ms.
       liftW (fixture_report plugin attempt (xr_content xr) ms result)))))))"

definition run_fixture ::
  "deps \<Rightarrow> host_codec \<Rightarrow> ('w, 'p) platform \<Rightarrow> resolved_plugin \<Rightarrow> fixture_request
     \<Rightarrow> ('w, run_report) io" where
  "run_fixture d hc os plugin xr =
     bindW (liftW (validate_fixture_request plugin xr)) (\<lambda>_.
     bindW (new_attempt_id os) (\<lambda>attempt.
       run_fixture_with_activation d hc os plugin xr attempt))"

section \<open>What the workbench accepts\<close>

text \<open>The safety of a run holds for every plugin: nothing is assumed of the peer.\<close>

lemma parse_optimize_response_Inr:
  assumes "parse_optimize_response d response raw = Inr (act, out)"
  shows "(act = ActionPass \<and> out = None)
    \<or> (\<exists>content. act = ActionOptimize \<and> out = Some content \<and> content \<noteq> [] \<and> CHR 0x00 \<notin> set content
         \<and> is_utf8 content
         \<and> min u64_max (length content * 100) < min u64_max (length raw * 80))"
  using assms
  by (auto simp: parse_optimize_response_def Let_def res_simps not_le split: if_splits)

lemma then_shutdown_Inr:
  "then_shutdown hc peer m w = (Inr x, w') \<Longrightarrow> \<exists>v. m w = (Inr x, v)"
  by (auto simp: then_shutdown_def split: prod.splits)

lemma exchange_fixture_Inr:
  assumes "fst (exchange_fixture d hc fn peer i v b xr w) = Inr result"
  shows "\<exists>response. parse_optimize_response d response (xr_content xr) = Inr result"
proof -
  obtain w' where "exchange_fixture d hc fn peer i v b xr w = (Inr result, w')"
    using assms by (cases "exchange_fixture d hc fn peer i v b xr w") auto
  from then_shutdown_Inr [OF this [unfolded exchange_fixture_def]] show ?thesis
    by (auto simp: io_simps)
qed

lemma supervised_Inr:
  "supervised b la m = Inr x \<longleftrightarrow>
     la_spawned la \<and> la_stdin la \<and> la_stdout la
     \<and> (\<exists>ms. la_answer la = Answered ms \<and> ms \<le> exchange_deadline_ms b)
     \<and> fst (m (start_process (la_start la))) = Inr x \<and> la_exit la = Exited True"
  by (cases "la_answer la"; cases "la_exit la")
     (auto simp: supervised_def res_simps wait_for_exit_def recv_timeout_def)

text \<open>What a successful run reports.\<close>

definition run_safe :: "resolved_plugin \<Rightarrow> fixture_request \<Rightarrow> run_report \<Rightarrow> bool" where
  "run_safe plugin xr r \<longleftrightarrow>
     rr_plugin_id r = mf_id (rp_manifest plugin) \<and> rr_release_id r = rp_release_id plugin
     \<and> rr_artifact_digest r = rp_artifact_digest plugin
     \<and> rr_input_bytes r = length (xr_content xr) \<and> rr_output_bytes r = length (rr_output r)
     \<and> rr_saved_bytes r = rr_input_bytes r - rr_output_bytes r
     \<and> rr_output_bytes r \<le> rr_input_bytes r
     \<and> is_utf8 (rr_output r) \<and> CHR 0x00 \<notin> set (rr_output r)
     \<and> (case rr_action r of
          ActionPass \<Rightarrow> rr_output r = xr_content xr
        | ActionOptimize \<Rightarrow> rr_output r \<noteq> [] \<and> 100 * rr_output_bytes r < 80 * rr_input_bytes r)"

lemma fixture_report_safe:
  assumes v: "validate_fixture_request plugin xr = Inr ()"
    and p: "parse_optimize_response d response (xr_content xr) = Inr result"
  shows "\<exists>r. fixture_report plugin attempt (xr_content xr) elapsed result = Inr r
    \<and> run_safe plugin xr r \<and> rr_attempt_id r = attempt"
proof -
  have raw: "length (xr_content xr) \<le> 16777216" "CHR 0x00 \<notin> set (xr_content xr)"
    "is_utf8 (xr_content xr)"
    using v by (auto simp: validate_fixture_request_def Let_def res_simps input_max_bytes_def)
  obtain act out where r: "result = (act, out)" by (cases result)
  have "min u64_max (length (xr_content xr) * 80) = length (xr_content xr) * 80"
    using raw(1) by (simp add: u64_max_def)
  moreover from this have "length content * 100 < length (xr_content xr) * 80"
    if "min u64_max (length content * 100) < min u64_max (length (xr_content xr) * 80)" for content
    using that raw(1) by (auto simp: u64_max_def min_def split: if_splits)
  ultimately show ?thesis
    using parse_optimize_response_Inr [OF p [unfolded r]] raw r
    by (fastforce simp: fixture_report_def run_safe_def Let_def)
qed

lemma run_fixture_safe:
  fixes os :: "('w, 'p) platform"
  assumes "run_fixture_with_activation d hc os plugin xr attempt w = (Inr r, w')"
  shows "run_safe plugin xr r \<and> rr_attempt_id r = attempt \<and> valid_activation_attempt_id attempt
    \<and> validate_fixture_request plugin xr = Inr ()"
proof -
  from assms obtain la :: "'p launch" and v ms where v: "validate_fixture_request plugin xr = Inr ()"
    and a: "valid_activation_attempt_id attempt"
    and s: "supervised (rp_budget_ms plugin) la (exchange_fixture d hc (os_file_name os) (la_peer la)
         (mf_id (rp_manifest plugin)) (mf_version (rp_manifest plugin)) (rp_budget_ms plugin) xr) = Inr v"
    and r: "fixture_report plugin attempt (xr_content xr) ms v = Inr r"
    by (auto simp: run_fixture_with_activation_def io_simps res_simps)
  from s have "fst (exchange_fixture d hc (os_file_name os) (la_peer la)
         (mf_id (rp_manifest plugin)) (mf_version (rp_manifest plugin)) (rp_budget_ms plugin) xr
         (start_process (la_start la))) = Inr v" by (simp add: supervised_Inr)
  from exchange_fixture_Inr [OF this] obtain response where
    "parse_optimize_response d response (xr_content xr) = Inr v" by blast
  from fixture_report_safe [OF v this, of attempt ms] r a v show ?thesis by auto
qed

end
