(* ===== verification/Fixtures.thy ===== *)
theory Fixtures
  imports Workbench
begin

text \<open>
  Golden fixtures, tools/tsp/src/fixtures.rs: the descriptors of a fixture directory in the order of
  their paths, the files each names, and the run of a plugin over all of them. Directory listings and
  file names are the record \<open>dir_ops\<close>; what a file holds does not change during a run.
\<close>

section \<open>The order of paths\<close>

text \<open>\<^verbatim>\<open>Path\<close> compares by components, in the order of the variants of \<^verbatim>\<open>std::path::Component\<close>.\<close>

fun component_rank :: "path_component \<Rightarrow> nat" where
  "component_rank Prefix = 0"
| "component_rank RootComponent = 1"
| "component_rank CurrentDir = 2"
| "component_rank ParentDir = 3"
| "component_rank (Normal name) = 4"

fun component_name :: "path_component \<Rightarrow> string" where
  "component_name (Normal name) = name"
| "component_name _ = []"

instantiation path_component :: linorder
begin

definition less_eq_path_component :: "path_component \<Rightarrow> path_component \<Rightarrow> bool" where
  "less_eq_path_component a b \<longleftrightarrow>
     component_rank a < component_rank b
     \<or> (component_rank a = component_rank b \<and> component_name a \<le> component_name b)"

definition less_path_component :: "path_component \<Rightarrow> path_component \<Rightarrow> bool" where
  "less_path_component a b \<longleftrightarrow> (a \<le> b \<and> \<not> b \<le> (a :: path_component))"

instance
proof
  fix x y z :: path_component
  show "x \<le> x" by (simp add: less_eq_path_component_def)
  show "x < y \<longleftrightarrow> x \<le> y \<and> \<not> y \<le> x" by (rule less_path_component_def)
  show "x \<le> y \<Longrightarrow> y \<le> z \<Longrightarrow> x \<le> z" by (auto simp: less_eq_path_component_def)
  show "x \<le> y \<or> y \<le> x" by (auto simp: less_eq_path_component_def)
  show "x \<le> y \<Longrightarrow> y \<le> x \<Longrightarrow> x = y"
    by (cases x; cases y) (auto simp: less_eq_path_component_def)
qed

end

section \<open>Descriptors and files\<close>

record fixture_case =
  tc_schema_version :: u32
  tc_name :: string
  tc_kind :: string
  tc_program :: string
  tc_exit_code :: "32 word"
  tc_input :: string
  tc_expected_action :: optimize_action
  tc_expected_output :: "string option"

record dir_ops =
  do_list :: "string \<Rightarrow> string option list option" \<comment> \<open>the paths of the entries; \<open>None\<close> is a failed entry\<close>
  do_file_name :: "string \<Rightarrow> string option"

definition case_max_bytes :: nat where "case_max_bytes = 65536"
definition fixture_max_bytes :: nat where "fixture_max_bytes = 16777216"

definition ends_with :: "string \<Rightarrow> string \<Rightarrow> bool" where
  "ends_with s p \<longleftrightarrow> length p \<le> length s \<and> drop (length s - length p) s = p"

definition is_case_path :: "dir_ops \<Rightarrow> string \<Rightarrow> bool" where
  "is_case_path dr path \<longleftrightarrow>
     (case do_file_name dr path of None \<Rightarrow> False | Some n \<Rightarrow> ends_with n ''.case.json'')"

fun case_entries :: "dir_ops \<Rightarrow> string option list \<Rightarrow> string list res" where
  "case_entries dr [] = Inr []"
| "case_entries dr (None # entries) = Inl (VErr ''test.fixtures'')"
| "case_entries dr (Some path # entries) =
     bindR (case_entries dr entries) (\<lambda>paths.
       Inr (if is_case_path dr path then path # paths else paths))"

definition fixture_case_paths :: "file_ops \<Rightarrow> dir_ops \<Rightarrow> string \<Rightarrow> string list res" where
  "fixture_case_paths fo dr directory =
     bindR (ok_or ''test.fixtures'' (do_list dr directory)) (\<lambda>entries.
     bindR (case_entries dr entries) (\<lambda>found.
     let paths = sort_key (fo_components fo) found
     in bindR (reject (paths = []) ''test.empty'') (\<lambda>_. Inr paths)))"

definition read_bounded_file :: "file_ops \<Rightarrow> string \<Rightarrow> nat \<Rightarrow> string \<Rightarrow> bytes res" where
  "read_bounded_file fo path limit code =
     (case fo_stat fo path of
        Found (file, len) \<Rightarrow>
          bindR (reject (\<not> file \<or> len > limit) code) (\<lambda>_. ok_or code (fo_read fo path))
      | _ \<Rightarrow> Inl (VErr code))"

definition read_fixture_input :: "file_ops \<Rightarrow> string \<Rightarrow> bytes res" where
  "read_fixture_input fo path = read_bounded_file fo path fixture_max_bytes ''fixture.read''"

definition load_case :: "(bytes \<Rightarrow> fixture_case option) \<Rightarrow> file_ops \<Rightarrow> string \<Rightarrow> fixture_case res" where
  "load_case parse fo path =
     bindR (read_bounded_file fo path case_max_bytes ''test.case'') (\<lambda>data.
     bindR (ok_or ''test.caseJson'' (parse data)) (\<lambda>tc.
     bindR (reject (tc_schema_version tc \<noteq> 1
         \<or> tc_name tc = []
         \<or> length (tc_name tc) > 128
         \<or> tc_program tc = []
         \<or> tc_input tc = []) ''test.caseContract'') (\<lambda>_. Inr tc)))"

definition validate_case_expectation :: "fixture_case \<Rightarrow> bytes option \<Rightarrow> unit res" where
  "validate_case_expectation tc expected =
     bindR (reject (case expected of
         None \<Rightarrow> False
       | Some out \<Rightarrow> out = [] \<or> CHR 0x00 \<in> set out \<or> \<not> is_utf8 out) ''test.expectedText'') (\<lambda>_.
     case (tc_expected_action tc, expected) of
       (ActionPass, None) \<Rightarrow> Inr ()
     | (ActionOptimize, Some _) \<Rightarrow> Inr ()
     | (ActionPass, Some _) \<Rightarrow> Inl (VErr ''test.passOutput'')
     | (ActionOptimize, None) \<Rightarrow> Inl (VErr ''test.goldenMissing''))"

definition resolve_case_path :: "file_ops \<Rightarrow> string \<Rightarrow> string \<Rightarrow> string res" where
  "resolve_case_path fo base relative =
     bindR (reject (path_escapes fo relative) ''test.fixturePath'') (\<lambda>_.
       Inr (fo_join fo base relative))"

text \<open>
  The files of a case, relative to the directory of its descriptor. The test and the benchmark
  runner differ in the code of an unreadable golden file.
\<close>

definition case_files ::
  "file_ops \<Rightarrow> string \<Rightarrow> string \<Rightarrow> string \<Rightarrow> fixture_case \<Rightarrow> (bytes \<times> bytes option) res" where
  "case_files fo expected_code directory path tc =
    (let base = (case fo_parent fo path of None \<Rightarrow> directory | Some p \<Rightarrow> p)
     in bindR (resolve_case_path fo base (tc_input tc)) (\<lambda>input_path.
        bindR (read_fixture_input fo input_path) (\<lambda>input.
        bindR (case tc_expected_output tc of
            Some relative \<Rightarrow>
              bindR (resolve_case_path fo base relative) (\<lambda>p.
              bindR (read_bounded_file fo p fixture_max_bytes expected_code) (\<lambda>out. Inr (Some out)))
          | None \<Rightarrow> Inr None) (\<lambda>expected.
        bindR (validate_case_expectation tc expected) (\<lambda>_. Inr (input, expected))))))"

definition case_request :: "fixture_case \<Rightarrow> bytes \<Rightarrow> fixture_request" where
  "case_request tc input =
     \<lparr>xr_kind = tc_kind tc, xr_program = tc_program tc, xr_exit_code = tc_exit_code tc,
      xr_content = input\<rparr>"

section \<open>The test runner\<close>

text \<open>The report's message, by its case; the text is only printed.\<close>

datatype case_message =
    ActionDiffers optimize_action optimize_action
  | OutputDiffers
  | Matches optimize_action nat nat
  | RunFailed string

record case_report =
  cr_ok :: bool
  cr_name :: string
  cr_path :: string
  cr_expected_action :: optimize_action
  cr_actual_action :: "optimize_action option"
  cr_attempt_id :: string
  cr_message :: case_message
  cr_duration_ms :: nat

record test_report =
  tr_schema_version :: u32
  tr_ok :: bool
  tr_plugin_id :: string
  tr_version :: string
  tr_platform :: string
  tr_release_id :: string
  tr_artifact_digest :: string
  tr_fixture_directory :: string
  tr_passed :: nat
  tr_failed :: nat
  tr_cases :: "case_report list"
  tr_duration_ms :: nat

definition output_matches :: "optimize_action \<Rightarrow> bytes option \<Rightarrow> bytes \<Rightarrow> bytes \<Rightarrow> bool" where
  "output_matches expected_action expected input out =
     (case (expected_action, expected) of
        (ActionOptimize, Some golden) \<Rightarrow> out = golden
      | (ActionPass, None) \<Rightarrow> out = input
      | _ \<Rightarrow> False)"

definition judge_run ::
  "fixture_case \<Rightarrow> string \<Rightarrow> bytes \<Rightarrow> bytes option \<Rightarrow> string \<Rightarrow> run_report \<Rightarrow> nat \<Rightarrow> case_report" where
  "judge_run tc path input expected attempt run ms =
    (let action_matches = (rr_action run = tc_expected_action tc);
         same = output_matches (tc_expected_action tc) expected input (rr_output run)
     in \<lparr>cr_ok = (action_matches \<and> same), cr_name = tc_name tc, cr_path = path,
         cr_expected_action = tc_expected_action tc, cr_actual_action = Some (rr_action run),
         cr_attempt_id = attempt,
         cr_message =
           (if \<not> action_matches then ActionDiffers (tc_expected_action tc) (rr_action run)
            else if \<not> same then OutputDiffers
            else Matches (rr_action run) (rr_input_bytes run) (rr_output_bytes run)),
         cr_duration_ms = ms\<rparr>)"

definition failed_run :: "fixture_case \<Rightarrow> string \<Rightarrow> string \<Rightarrow> string \<Rightarrow> nat \<Rightarrow> case_report" where
  "failed_run tc path attempt code ms =
     \<lparr>cr_ok = False, cr_name = tc_name tc, cr_path = path,
      cr_expected_action = tc_expected_action tc, cr_actual_action = None,
      cr_attempt_id = attempt, cr_message = RunFailed code, cr_duration_ms = ms\<rparr>"

text \<open>A run that fails is a failed case; a panic unwinds through the runner.\<close>

definition attempt_run :: "('w, 'a) io \<Rightarrow> ('w, string + 'a) io" where
  "attempt_run m w =
     (case m w of
        (Inl Panic, w') \<Rightarrow> (Inl Panic, w')
      | (Inl (VErr code), w') \<Rightarrow> (Inr (Inl code), w')
      | (Inr x, w') \<Rightarrow> (Inr (Inr x), w'))"

definition test_case ::
  "deps \<Rightarrow> host_codec \<Rightarrow> (bytes \<Rightarrow> fixture_case option) \<Rightarrow> file_ops \<Rightarrow> ('w, 'p) platform
     \<Rightarrow> resolved_plugin \<Rightarrow> string \<Rightarrow> string \<Rightarrow> ('w, case_report) io" where
  "test_case d hc parse fo os plugin directory path =
     bindW (liftW (load_case parse fo path)) (\<lambda>tc.
     bindW (readW (os_clock_us os)) (\<lambda>started.
     bindW (liftW (case_files fo ''test.expected'' directory path tc)) (\<lambda>(input, expected).
     bindW (liftW (validate_fixture_request plugin (case_request tc input))) (\<lambda>_.
     bindW (new_attempt_id os) (\<lambda>attempt.
     bindW (attempt_run (run_fixture_with_activation d hc os plugin (case_request tc input) attempt))
       (\<lambda>result.
     bindW (elapsed_ms os started) (\<lambda>ms.
       returnW (case result of
           Inr run \<Rightarrow> judge_run tc path input expected attempt run ms
         | Inl code \<Rightarrow> failed_run tc path attempt code ms))))))))"

fun test_cases ::
  "deps \<Rightarrow> host_codec \<Rightarrow> (bytes \<Rightarrow> fixture_case option) \<Rightarrow> file_ops \<Rightarrow> ('w, 'p) platform
     \<Rightarrow> resolved_plugin \<Rightarrow> string \<Rightarrow> string list \<Rightarrow> ('w, case_report list) io" where
  "test_cases d hc parse fo os plugin directory [] = returnW []"
| "test_cases d hc parse fo os plugin directory (path # paths) =
     bindW (test_case d hc parse fo os plugin directory path) (\<lambda>report.
     bindW (test_cases d hc parse fo os plugin directory paths) (\<lambda>reports.
       returnW (report # reports)))"

definition test_plugin ::
  "deps \<Rightarrow> host_codec \<Rightarrow> (bytes \<Rightarrow> fixture_case option) \<Rightarrow> file_ops \<Rightarrow> dir_ops \<Rightarrow> ('w, 'p) platform
     \<Rightarrow> resolved_plugin \<Rightarrow> string \<Rightarrow> ('w, test_report) io" where
  "test_plugin d hc parse fo dr os plugin directory =
     bindW (readW (os_clock_us os)) (\<lambda>started.
     bindW (liftW (fixture_case_paths fo dr directory)) (\<lambda>paths.
     bindW (test_cases d hc parse fo os plugin directory paths) (\<lambda>cases.
     bindW (elapsed_ms os started) (\<lambda>ms.
       let passed = length (filter cr_ok cases); failed = length cases - passed
       in returnW \<lparr>tr_schema_version = 1, tr_ok = (failed = 0),
            tr_plugin_id = mf_id (rp_manifest plugin), tr_version = mf_version (rp_manifest plugin),
            tr_platform = rp_platform plugin, tr_release_id = rp_release_id plugin,
            tr_artifact_digest = rp_artifact_digest plugin, tr_fixture_directory = directory,
            tr_passed = passed, tr_failed = failed, tr_cases = cases, tr_duration_ms = ms\<rparr>))))"

end
