(* ===== verification/Session.thy ===== *)
theory Session
  imports Host
begin

text \<open>
  The two ends of the protocol composed: the workbench of Host talking to a plugin that runs the
  Rust SDK's server of Sdk_Serve. What ties the two JSON codecs together is \<open>wire_ok\<close>: each end's
  derived (de)serializers read what the other's print, and the answers of the server fit a frame.
\<close>

section \<open>A plugin process built with the SDK\<close>

text \<open>
  What the server has written once it has consumed an input and waits for more (at the end of its
  input it writes nothing, so the output on the input so far is what waiting shows).
\<close>

definition sdk_output :: "deps \<Rightarrow> sdk_codec \<Rightarrow> 'o plugin \<Rightarrow> 'o \<Rightarrow> bytes \<Rightarrow> bytes" where
  "sdk_output d c pl opt input =
     (case serve d c pl opt input of None \<Rightarrow> [] | Some (st, _) \<Rightarrow> sv_output st)"

definition sdk_peer :: "deps \<Rightarrow> sdk_codec \<Rightarrow> 'o plugin \<Rightarrow> 'o \<Rightarrow> bytes peer" where
  "sdk_peer d c pl opt data input =
     (Some (drop (length (sdk_output d c pl opt input)) (sdk_output d c pl opt (input @ data))),
      input @ data)"

section \<open>What the wire preserves\<close>

definition response_value :: "rpc_response \<Rightarrow> json" where
  "response_value r = JObj (
     (case rs_error r of
        None \<Rightarrow> []
      | Some e \<Rightarrow> [(''error'', JObj [(''code'', json_int (re_code e)), (''message'', JStr (re_message e))])])
     @ (case rs_id r of None \<Rightarrow> [] | Some i \<Rightarrow> [(''id'', i)])
     @ [(''jsonrpc'', JStr ''2.0'')]
     @ (case rs_result r of None \<Rightarrow> [] | Some v \<Rightarrow> [(''result'', v)]))"

text \<open>
  The messages the workbench sends, and what is asked of the two codecs: each reads back what the
  other wrote, for these messages (their integers fit the fields they are read into) and for the
  server's answers to them, which fit a frame.
\<close>

definition host_message :: "string \<Rightarrow> json \<Rightarrow> bool" where
  "host_message m p \<longleftrightarrow>
     (\<exists>b. m = ''initialize'' \<and> p = initialize_args b)
     \<or> m = ''optimize'' \<and> (p = JObj []
         \<or> (\<exists>k g e t b. p = optimize_args k g e t b \<and> - (2 ^ 31) \<le> e \<and> e < 2 ^ 31))"

definition answers_read :: "deps \<Rightarrow> sdk_codec \<Rightarrow> host_codec \<Rightarrow> 'o plugin \<Rightarrow> bool" where
  "answers_read d c hc pl \<longleftrightarrow>
     (\<forall>st i m p st' r. i = 1 \<or> i = 2 \<longrightarrow> host_message m p \<longrightarrow>
        respond d c pl st \<lparr>rq_jsonrpc = ''2.0'', rq_id = Some (json_int i), rq_method = m,
          rq_params = p\<rparr> = (st', Some r) \<longrightarrow>
        (\<exists>b. response_bytes c r = Some b \<and> frame_fits b \<and> parse_json hc b = Some (response_value r)))"

definition wire_ok :: "deps \<Rightarrow> sdk_codec \<Rightarrow> host_codec \<Rightarrow> 'o plugin \<Rightarrow> bool" where
  "wire_ok d c hc pl \<longleftrightarrow>
     (\<forall>i m p b. i = 1 \<or> i = 2 \<longrightarrow> host_message m p \<longrightarrow> print_json hc (rpc_call i m p) = Some b \<longrightarrow>
        parse_request c b = Some \<lparr>rq_jsonrpc = ''2.0'', rq_id = Some (json_int i), rq_method = m,
          rq_params = p\<rparr>)
     \<and> (\<forall>b. parse_initialize c (initialize_args b) =
          Some \<lparr>ip_api_version = 1, ip_host = ''tsp'', ip_budget_ms = b\<rparr>)
     \<and> (\<forall>k p e t b. - (2 ^ 31) \<le> e \<longrightarrow> e < 2 ^ 31 \<longrightarrow> parse_optimize c (optimize_args k p e t b) =
          Some \<lparr>op_kind = k, op_program = p, op_exit_code = word_of_int e, op_encoding = ''base64'',
            op_content = t, op_budget_ms = b\<rparr>)
     \<and> answers_read d c hc pl"

lemma host_messages:
  "host_message ''initialize'' (initialize_args b)" "host_message ''optimize'' (JObj [])"
  "- (2 ^ 31) \<le> e \<Longrightarrow> e < 2 ^ 31 \<Longrightarrow> host_message ''optimize'' (optimize_args k p e t b)"
  unfolding host_message_def by blast+

lemma exit_code_range: "- (2 ^ 31) \<le> sint (x :: 32 word)" "sint (x :: 32 word) < 2 ^ 31"
  using sint_ge [of x] sint_lt [of x] by simp_all

lemma wire_ok_answer:
  assumes "wire_ok d c hc pl" and "i = 1 \<or> i = 2" and "host_message m p"
    and "respond d c pl st \<lparr>rq_jsonrpc = ''2.0'', rq_id = Some (json_int i), rq_method = m,
      rq_params = p\<rparr> = (st', Some r)"
  shows "\<exists>b. response_bytes c r = Some b \<and> frame_fits b \<and> parse_json hc b = Some (response_value r)"
  using assms(1) assms(2-4) unfolding wire_ok_def answers_read_def by blast

definition sendable :: "host_codec \<Rightarrow> json \<Rightarrow> bool" where
  "sendable hc v \<longleftrightarrow> (\<exists>b. print_json hc v = Some b \<and> frame_fits b)"

lemma response_value_get [simp]:
  "json_get (response_value r) ''jsonrpc'' = Some (JStr ''2.0'')"
  "json_get (response_value r) ''id'' = rs_id r"
  "json_get (response_value r) ''result'' = rs_result r"
  "json_get (response_value r) ''error'' =
     map_option (\<lambda>e. JObj [(''code'', json_int (re_code e)), (''message'', JStr (re_message e))])
       (rs_error r)"
  by (auto simp: response_value_def split: option.splits)

lemma json_as_i64_int: "- (2 ^ 63) \<le> i \<Longrightarrow> i < 2 ^ 63 \<Longrightarrow> json_as_i64 (json_int i) = Some i"
  by (auto simp: json_int_def unsigned_of_int signed_of_int take_bit_int_eq_self
      signed_take_bit_int_eq_self)

section \<open>One call\<close>

definition frame_room :: nat where "frame_room = max_frame_bytes + 40"

lemma length_frame_bytes: "frame_fits p \<Longrightarrow> length (frame_bytes p) \<le> frame_room"
  using content_length_header_facts(6) [of "length p"]
  by (simp add: frame_bytes_def frame_fits_def frame_room_def max_frame_bytes_def u64_max_def)

text \<open>The server has handled whole frames and waits in state \<open>st\<close>; the host may read \<open>n\<close> more.\<close>

definition session :: "deps \<Rightarrow> sdk_codec \<Rightarrow> 'o plugin \<Rightarrow> 'o \<Rightarrow> 'o server \<Rightarrow> nat \<Rightarrow> bytes process \<Rightarrow> bool"
where
  "session d c pl opt st n w \<longleftrightarrow>
     (\<exists>ps. list_all frame_fits ps
        \<and> run_frames (serve_body d c pl) (start_server opt) ps = Continue st
        \<and> pr_peer w = concat (map frame_bytes ps))
     \<and> pr_unread w = [] \<and> n * frame_room \<le> pr_left w"

lemma session_start: "session d c pl opt (start_server opt) 2 (start_process [])"
  by (auto simp: session_def start_process_def frame_room_def max_frame_bytes_def
      host_read_max_bytes_def intro: exI [of _ "[]"])

lemma run_frames_append:
  "run_frames body st ps = Continue st' \<Longrightarrow> run_frames body st (ps @ qs) = run_frames body st' qs"
  by (induction ps arbitrary: st) (auto split: outcome.splits)

lemma sdk_output_frames:
  "list_all frame_fits ps \<Longrightarrow> sdk_output d c pl opt (concat (map frame_bytes ps)) =
     sv_output (fst (loop_result (run_frames (serve_body d c pl) (start_server opt) ps)))"
  by (simp add: sdk_output_def serve_def sdk_framing.loop_stream split: prod.splits)

lemma session_call:
  assumes ss: "session d c pl opt st (Suc n) w" and wire: "wire_ok d c hc pl"
    and send: "sendable hc (rpc_call i m p)"
    and i: "i = 1 \<or> i = 2" and msg: "host_message m p"
    and rsp: "respond d c pl st \<lparr>rq_jsonrpc = ''2.0'', rq_id = Some (json_int i), rq_method = m,
      rq_params = p\<rparr> = (st', Some r)"
  shows "\<exists>w1 w2 out. host_write_frame hc (sdk_peer d c pl opt) (rpc_call i m p) w = (Inr (), w1)
    \<and> read_response hc i w1 = (Inr (response_value r), w2)
    \<and> session d c pl opt (st'\<lparr>sv_output := out\<rparr>) n w2"
proof -
  let ?peer = "sdk_peer d c pl opt"
  from send obtain b where b: "print_json hc (rpc_call i m p) = Some b" "frame_fits b"
    by (auto simp: sendable_def)
  have rq: "parse_request c b = Some \<lparr>rq_jsonrpc = ''2.0'', rq_id = Some (json_int i),
      rq_method = m, rq_params = p\<rparr>"
    using wire b(1) i msg unfolding wire_ok_def by blast
  from wire_ok_answer [OF wire i msg rsp] obtain rb where rb: "response_bytes c r = Some rb"
    "frame_fits rb" and pj: "parse_json hc rb = Some (response_value r)" by blast
  from ss obtain ps where ps: "list_all frame_fits ps"
    "run_frames (serve_body d c pl) (start_server opt) ps = Continue st"
    "pr_peer w = concat (map frame_bytes ps)" and u: "pr_unread w = []"
    and left: "Suc n * frame_room \<le> pr_left w"
    by (auto simp: session_def)
  let ?st = "st'\<lparr>sv_output := sv_output st' @ frame_bytes rb\<rparr>"
  have out: "sv_output st' = sv_output st" using respond_output [of d c pl st] rsp by (metis fst_conv)
  have "serve_body d c pl st b = Continue ?st"
    using rq rsp rb by (simp add: serve_body_def write_response_def)
  then have run: "run_frames (serve_body d c pl) (start_server opt) (ps @ [b]) = Continue ?st"
    using ps(2) by (simp add: run_frames_append)
  have fits: "list_all frame_fits (ps @ [b])" using ps(1) b(2) by simp
  let ?w1 = "w\<lparr>pr_peer := concat (map frame_bytes (ps @ [b])), pr_unread := frame_bytes rb\<rparr>"
  let ?w2 = "?w1\<lparr>pr_unread := [], pr_left := pr_left w - length (frame_bytes rb)\<rparr>"
  have wr: "host_write_frame hc ?peer (rpc_call i m p) w = (Inr (), ?w1)"
    using b(1) ps(1,2,3) u sdk_output_frames [OF ps(1), of d c pl opt]
      sdk_output_frames [OF fits, of d c pl opt] run out
    by (simp add: host_write_frame_def bindW_def liftW_def sdk_peer_def)
  have len: "length (frame_bytes rb) \<le> frame_room" by (rule length_frame_bytes [OF rb(2)])
  then have tk: "take (pr_left w) (frame_bytes rb) = frame_bytes rb" using left by simp
  have fr: "next_frame ?w1 = (Inr rb, ?w2)"
    using host_read_frame_bytes [OF rb(2), of "[]"] tk by (simp add: next_frame_def)
  have id: "rs_id r = Some (json_int i)" using respond_id [OF rsp] by simp
  have mf: "host_max_frames = Suc 31" by (simp add: host_max_frames_def)
  have rd: "read_response hc i ?w1 = (Inr (response_value r), ?w2)"
    unfolding read_response_def mf await_response.simps
    using fr pj id i by (auto simp: bindW_def liftW_def returnW_def json_as_i64_int)
  have "session d c pl opt ?st n ?w2"
    using fits run len left by (auto simp: session_def intro!: exI [of _ "ps @ [b]"])
  with wr rd show ?thesis by blast
qed

section \<open>The conformance fixture\<close>

lemma length_join_with: "length (join_with sep ps) \<le> (\<Sum>p\<leftarrow>ps. length p + 1)"
  by (induction ps rule: join_with.induct) auto

lemma fixture_line_printable: "printable (fixture_line i)"
proof -
  have "printable (replicate 72 CHR ''x'')" by (simp add: printable_def list_all_iff)
  then show ?thesis by (simp add: fixture_line_def)
qed

lemma fixture_line_length: "i < 10 ^ 3 \<Longrightarrow> length (fixture_line i) \<le> 110"
  using length_dec_le [of i 3] by (auto simp: fixture_line_def)

lemma conformance_fixture_text:
  "CHR 0x00 \<notin> set (conformance_fixture m)" "is_utf8 (conformance_fixture m)"
  "length (conformance_fixture m) \<le> max_content_bytes"
proof -
  let ?f = "join_with LF (map fixture_line [0..<140])"
  have sub: "set (conformance_fixture m) \<subseteq> set ?f"
    by (auto simp: conformance_fixture_def Let_def dest: in_set_takeD)
  have "set ?f \<subseteq> insert LF (\<Union> (set ` set (map fixture_line [0..<140])))" by (rule set_join_with)
  then have c: "c = LF \<or> (32 \<le> ord c \<and> ord c \<le> 126)" if "c \<in> set (conformance_fixture m)" for c
    using sub that fixture_line_printable by (fastforce simp: printable_def list_all_iff)
  then show "CHR 0x00 \<notin> set (conformance_fixture m)" by fastforce
  from c have "ascii (conformance_fixture m)" by (fastforce simp: ascii_def list_all_iff)
  then show "is_utf8 (conformance_fixture m)" by (rule is_utf8_ascii)
  have "length ?f \<le> (\<Sum>p\<leftarrow>map fixture_line [0..<140]. length p + 1)" by (rule length_join_with)
  also have "\<dots> \<le> (\<Sum>i\<leftarrow>[0..<140]. 111)"
    unfolding map_map comp_def using fixture_line_length
    by (intro sum_list_mono) (fastforce)
  also have "\<dots> = 15540" by (simp add: sum_list_triv)
  finally show "length (conformance_fixture m) \<le> max_content_bytes"
    by (auto simp: conformance_fixture_def Let_def max_content_bytes_def)
qed

section \<open>The exchanges with an SDK plugin\<close>

text \<open>How the workbench judges what the optimizer returned for \<open>raw\<close>.\<close>

definition action_verdict :: "bytes \<Rightarrow> action option \<Rightarrow> (optimize_action \<times> bytes option) res" where
  "action_verdict raw act =
     (case act of
        None \<Rightarrow> Inl (VErr ''protocol.optimize'')
      | Some Pass \<Rightarrow> Inr (ActionPass, None)
      | Some (Optimize content) \<Rightarrow>
          if unsafe_content content then Inl (VErr ''protocol.optimize'')
          else if \<not> is_utf8 content then Inl (VErr ''safety.text'')
          else if length raw * 80 \<le> length content * 100 then Inl (VErr ''safety.reduction'')
          else Inr (ActionOptimize, Some content))"

text \<open>The boundary: a reduction of exactly a fifth is refused.\<close>

lemma exact_fifth_refused:
  assumes "\<not> unsafe_content content" and "is_utf8 content" and "5 * length content = 4 * length raw"
  shows "action_verdict raw (Some (Optimize content)) = Inl (VErr ''safety.reduction'')"
  using assms by (simp add: action_verdict_def)

lemma parse_optimize_respond_action:
  assumes "base64_roundtrip d" and "length raw \<le> max_content_bytes"
  shows "parse_optimize_response d (response_value (respond_action d rq act)) raw
    = action_verdict raw act"
proof -
  have m: "length raw * 80 \<le> u64_max" "min u64_max (length raw * 80) = length raw * 80"
    using assms(2) by (simp_all add: max_content_bytes_def u64_max_def)
  have n: "min u64_max (length content * 100) = length content * 100"
    if "\<not> unsafe_content content" for content
    using that by (simp add: unsafe_content_def max_content_bytes_def u64_max_def)
  show ?thesis
    using assms(1) m n
    by (auto simp: respond_action_def action_verdict_def error_response_def result_response_def
        parse_optimize_response_def response_error_def json_index_def pass_result_def
        optimize_result_def base64_roundtrip_def unsafe_content_def
        split: option.splits action.splits)
qed

lemma session_initialize:
  assumes ss: "session d c pl opt st (Suc n) w" and wire: "wire_ok d c hc pl"
    and send: "sendable hc (rpc_call 1 ''initialize'' (initialize_args b))"
  shows "\<exists>st' w'. host_initialize hc (sdk_peer d c pl opt) (plugin_id pl) (plugin_version pl) b w
      = (Inr (), w') \<and> session d c pl opt st' n w' \<and> sv_initialized st'
    \<and> sv_optimizer st' = sv_optimizer st"
proof -
  let ?rq = "\<lparr>rq_jsonrpc = ''2.0'', rq_id = Some (json_int 1), rq_method = ''initialize'',
      rq_params = initialize_args b\<rparr>"
  have pi: "parse_initialize c (initialize_args b) =
      Some \<lparr>ip_api_version = 1, ip_host = ''tsp'', ip_budget_ms = b\<rparr>"
    using wire by (simp add: wire_ok_def)
  then have rsp: "respond d c pl st ?rq
      = (st\<lparr>sv_initialized := True\<rparr>, Some (result_response ?rq (handshake pl)))"
    by (simp add: respond_def respond_initialize_def api_version_def)
  have i1: "(1::int) = 1 \<or> (1::int) = 2" by simp
  from session_call [OF ss wire send i1 host_messages(1) rsp] obtain w1 w2 out where
    "host_write_frame hc (sdk_peer d c pl opt) (rpc_call 1 ''initialize'' (initialize_args b)) w
      = (Inr (), w1)"
    "read_response hc 1 w1 = (Inr (response_value (result_response ?rq (handshake pl))), w2)"
    and s2: "session d c pl opt (st\<lparr>sv_initialized := True, sv_output := out\<rparr>) n w2" by auto
  then have "host_initialize hc (sdk_peer d c pl opt) (plugin_id pl) (plugin_version pl) b w = (Inr (), w2)"
    by (simp add: host_initialize_def bindW_def liftW_def Let_def response_error_def
        result_response_def json_index_def handshake_def api_version_def)
  with s2 show ?thesis by auto
qed

lemma session_rejects:
  assumes ss: "session d c pl opt st (Suc n) w" and wire: "wire_ok d c hc pl"
    and send: "sendable hc (rpc_call 2 m p)" and msg: "host_message m p"
    and code: "- (2 ^ 63) \<le> code" "code < 2 ^ 63"
    and rsp: "\<And>rq. rq = \<lparr>rq_jsonrpc = ''2.0'', rq_id = Some (json_int 2), rq_method = m,
      rq_params = p\<rparr> \<Longrightarrow> respond d c pl st rq = (st', Some (error_response rq code message))"
  shows "\<exists>w1 w2. host_write_frame hc (sdk_peer d c pl opt) (rpc_call 2 m p) w = (Inr (), w1)
    \<and> expect_error hc 2 code rule w1 = (Inr (), w2)"
proof -
  have i2: "(2::int) = 1 \<or> (2::int) = 2" by simp
  from session_call [OF ss wire send i2 msg rsp [OF refl]] obtain w1 w2 out where
    "host_write_frame hc (sdk_peer d c pl opt) (rpc_call 2 m p) w = (Inr (), w1)"
    "read_response hc 2 w1 = (Inr (response_value (error_response
      \<lparr>rq_jsonrpc = ''2.0'', rq_id = Some (json_int 2), rq_method = m, rq_params = p\<rparr> code message)), w2)"
    by blast
  then show ?thesis
    using json_as_i64_int [OF code]
    by (auto simp: expect_error_def bindW_def liftW_def error_response_def)
qed

text \<open>The request as the optimizer receives it.\<close>

definition delivered :: "string \<Rightarrow> string \<Rightarrow> int \<Rightarrow> bytes \<Rightarrow> u32 \<Rightarrow> request" where
  "delivered kind program exit_code raw b =
     \<lparr>req_kind = kind, req_program = program, req_exit_code = word_of_int exit_code,
      req_text = raw, req_budget_ms = b\<rparr>"

lemma session_optimize:
  assumes ss: "session d c pl opt st (Suc n) w" and wire: "wire_ok d c hc pl"
    and b64: "base64_roundtrip d" and init: "sv_initialized st"
    and raw: "CHR 0x00 \<notin> set raw" "is_utf8 raw" "length raw \<le> max_content_bytes"
    and e: "- (2 ^ 31) \<le> e" "e < 2 ^ 31"
    and send: "sendable hc (rpc_call 2 ''optimize'' (optimize_args kind program e (b64_encode d raw) b))"
  shows "\<exists>w1 w2 response. host_write_frame hc (sdk_peer d c pl opt)
        (rpc_call 2 ''optimize'' (optimize_args kind program e (b64_encode d raw) b)) w = (Inr (), w1)
    \<and> read_response hc 2 w1 = (Inr response, w2)
    \<and> parse_optimize_response d response raw
        = action_verdict raw (fst (optimize pl (sv_optimizer st) (delivered kind program e raw b)))"
proof -
  let ?rq = "\<lparr>rq_jsonrpc = ''2.0'', rq_id = Some (json_int 2), rq_method = ''optimize'',
      rq_params = optimize_args kind program e (b64_encode d raw) b\<rparr>"
  let ?req = "delivered kind program e raw b"
  obtain act opt' where o: "optimize pl (sv_optimizer st) ?req = (act, opt')"
    by (cases "optimize pl (sv_optimizer st) ?req")
  have po: "parse_optimize c (optimize_args kind program e (b64_encode d raw) b) =
      Some \<lparr>op_kind = kind, op_program = program, op_exit_code = word_of_int e,
        op_encoding = ''base64'', op_content = b64_encode d raw, op_budget_ms = b\<rparr>"
    using wire e unfolding wire_ok_def by blast
  have "decode_request d \<lparr>op_kind = kind, op_program = program, op_exit_code = word_of_int e,
        op_encoding = ''base64'', op_content = b64_encode d raw, op_budget_ms = b\<rparr> = Inr ?req"
    using raw b64 by (simp add: decode_request_def delivered_def base64_roundtrip_def)
  with po o init have rsp: "respond d c pl st ?rq
      = (st\<lparr>sv_optimizer := opt'\<rparr>, Some (respond_action d ?rq act))"
    by (simp add: respond_def respond_optimize_def)
  have i2: "(2::int) = 1 \<or> (2::int) = 2" by simp
  from session_call [OF ss wire send i2 host_messages(3) [OF e] rsp] parse_optimize_respond_action [OF b64 raw(3), of ?rq act] o
  show ?thesis by auto
qed

lemma fst_then_shutdown: "fst (then_shutdown hc peer m w) = fst (m w)"
  by (simp add: then_shutdown_def split: prod.splits)

text \<open>The frames of a conformance run can be sent: they fit the frame bound.\<close>

definition scenario_sendable :: "deps \<Rightarrow> host_codec \<Rightarrow> exchange_contract \<Rightarrow> bool" where
  "scenario_sendable d hc k \<longleftrightarrow>
     sendable hc (rpc_call 1 ''initialize'' (initialize_args (xc_budget_ms k)))
     \<and> sendable hc (rpc_call 2 ''optimize'' (JObj []))
     \<and> sendable hc (rpc_call 2 ''optimize'' (optimize_args (xc_kind k) ''tsp-fixture'' 1 ''%%%''
          (xc_budget_ms k)))
     \<and> sendable hc (rpc_call 2 ''optimize'' (optimize_args (xc_kind k) ''tsp-fixture'' 1
          (b64_encode d (conformance_fixture (xc_max_input_bytes k))) (xc_budget_ms k)))"

lemma exchange_before_initialize:
  assumes "wire_ok d c hc pl" and "scenario_sendable d hc k"
  shows "fst (exchange d hc (sdk_peer d c pl opt) BeforeInitialize k (start_process [])) = Inr ()"
proof -
  have send: "sendable hc (rpc_call 2 ''optimize'' (JObj []))"
    using assms(2) by (simp add: scenario_sendable_def)
  have two: "session d c pl opt (start_server opt) (Suc 1) (start_process [])"
    using session_start [of d c pl opt] by (simp add: numeral_2_eq_2)
  have rsp: "respond d c pl (start_server opt) rq
      = (start_server opt, Some (error_response rq (- 32002) ''plugin is not initialized''))"
    if "rq = \<lparr>rq_jsonrpc = ''2.0'', rq_id = Some (json_int 2), rq_method = ''optimize'',
      rq_params = JObj []\<rparr>" for rq
    using that by (simp add: respond_def respond_optimize_def start_server_def)
  have cd: "- (2 ^ 63) \<le> (- 32002 :: int)" "(- 32002 :: int) < 2 ^ 63" by simp_all
  from session_rejects [OF two assms(1) send host_messages(2) cd rsp, of "''protocol.preInitialize''"] show ?thesis
    by (auto simp: exchange_def bindW_def fst_then_shutdown)
qed

lemma exchange_initialized:
  assumes "wire_ok d c hc pl" and "scenario_sendable d hc k"
    and "xc_plugin_id k = plugin_id pl" and "xc_version k = plugin_version pl"
  shows "\<exists>st w. host_initialize hc (sdk_peer d c pl opt) (xc_plugin_id k) (xc_version k)
      (xc_budget_ms k) (start_process []) = (Inr (), w) \<and> session d c pl opt st (Suc 0) w
    \<and> sv_initialized st \<and> sv_optimizer st = opt"
proof -
  have send: "sendable hc (rpc_call 1 ''initialize'' (initialize_args (xc_budget_ms k)))"
    using assms(2) by (simp add: scenario_sendable_def)
  have two: "session d c pl opt (start_server opt) (Suc (Suc 0)) (start_process [])"
    using session_start [of d c pl opt] by (simp add: numeral_2_eq_2)
  from session_initialize [OF two assms(1) send] assms(3,4) show ?thesis
    by (auto simp: start_server_def)
qed

lemma exchange_malformed:
  assumes "wire_ok d c hc pl" and "scenario_sendable d hc k"
    and "xc_plugin_id k = plugin_id pl" and "xc_version k = plugin_version pl"
    and bad: "b64_decode d ''%%%'' = None"
  shows "fst (exchange d hc (sdk_peer d c pl opt) MalformedBase64 k (start_process [])) = Inr ()"
proof -
  from exchange_initialized [OF assms(1-4), of opt] obtain st w where
    i: "host_initialize hc (sdk_peer d c pl opt) (xc_plugin_id k) (xc_version k) (xc_budget_ms k)
      (start_process []) = (Inr (), w)" and ss: "session d c pl opt st (Suc 0) w"
    and init: "sv_initialized st" by blast
  let ?args = "optimize_args (xc_kind k) ''tsp-fixture'' 1 ''%%%'' (xc_budget_ms k)"
  have send: "sendable hc (rpc_call 2 ''optimize'' ?args)"
    using assms(2) by (simp add: scenario_sendable_def)
  have rsp: "respond d c pl st rq
      = (st, Some (error_response rq (- 32602) ''content is not valid base64''))"
    if "rq = \<lparr>rq_jsonrpc = ''2.0'', rq_id = Some (json_int 2), rq_method = ''optimize'',
      rq_params = ?args\<rparr>" for rq
    using that init assms(1) bad
    by (simp add: respond_def respond_optimize_def wire_ok_def decode_request_def)
  have one: "- (2 ^ 31) \<le> (1 :: int)" "(1 :: int) < 2 ^ 31" by simp_all
  have cd: "- (2 ^ 63) \<le> (- 32602 :: int)" "(- 32602 :: int) < 2 ^ 63" by simp_all
  from session_rejects [OF ss assms(1) send host_messages(3) [OF one] cd rsp, of "''protocol.malformedBase64''"] i show ?thesis
    by (auto simp: exchange_def bindW_def fst_then_shutdown)
qed

lemma exchange_lifecycle:
  assumes "wire_ok d c hc pl" and "scenario_sendable d hc k"
    and "xc_plugin_id k = plugin_id pl" and "xc_version k = plugin_version pl"
    and b64: "base64_roundtrip d"
  shows "fst (exchange d hc (sdk_peer d c pl opt) Lifecycle k (start_process [])) =
    bindR (action_verdict (conformance_fixture (xc_max_input_bytes k))
        (fst (optimize pl opt (delivered (xc_kind k) ''tsp-fixture'' 1
          (conformance_fixture (xc_max_input_bytes k)) (xc_budget_ms k))))) (\<lambda>_. Inr ())"
proof -
  from exchange_initialized [OF assms(1-4), of opt] obtain st w where
    i: "host_initialize hc (sdk_peer d c pl opt) (xc_plugin_id k) (xc_version k) (xc_budget_ms k)
      (start_process []) = (Inr (), w)" and ss: "session d c pl opt st (Suc 0) w"
    and init: "sv_initialized st" "sv_optimizer st = opt" by blast
  have send: "sendable hc (rpc_call 2 ''optimize'' (optimize_args (xc_kind k) ''tsp-fixture'' 1
      (b64_encode d (conformance_fixture (xc_max_input_bytes k))) (xc_budget_ms k)))"
    using assms(2) by (simp add: scenario_sendable_def)
  have one: "- (2 ^ 31) \<le> (1 :: int)" "(1 :: int) < 2 ^ 31" by simp_all
  from session_optimize [OF ss assms(1) b64 init(1) conformance_fixture_text one send] i init(2)
  show ?thesis
    by (auto simp: exchange_def bindW_def liftW_def returnW_def fst_then_shutdown
        validate_normal_optimize_def Let_def bindR_def split: sum.splits)
qed

lemma exchange_fixture_verdict:
  assumes "wire_ok d c hc pl" and b64: "base64_roundtrip d"
    and raw: "CHR 0x00 \<notin> set (xr_content xr)" "is_utf8 (xr_content xr)"
      "length (xr_content xr) \<le> max_content_bytes"
    and send1: "sendable hc (rpc_call 1 ''initialize'' (initialize_args b))"
    and send2: "sendable hc (rpc_call 2 ''optimize'' (optimize_args (xr_kind xr)
      (program_basename fn (xr_program xr)) (sint (xr_exit_code xr)) (b64_encode d (xr_content xr)) b))"
  shows "fst (exchange_fixture d hc fn (sdk_peer d c pl opt) (plugin_id pl) (plugin_version pl) b xr
      (start_process [])) =
    action_verdict (xr_content xr) (fst (optimize pl opt
      \<lparr>req_kind = xr_kind xr, req_program = program_basename fn (xr_program xr),
       req_exit_code = xr_exit_code xr, req_text = xr_content xr, req_budget_ms = b\<rparr>))"
proof -
  have two: "session d c pl opt (start_server opt) (Suc (Suc 0)) (start_process [])"
    using session_start [of d c pl opt] by (simp add: numeral_2_eq_2)
  from session_initialize [OF two assms(1) send1] obtain st w where
    i: "host_initialize hc (sdk_peer d c pl opt) (plugin_id pl) (plugin_version pl) b
      (start_process []) = (Inr (), w)" and ss: "session d c pl opt st (Suc 0) w"
    and init: "sv_initialized st" "sv_optimizer st = opt" by (auto simp: start_server_def)
  from session_optimize [OF ss assms(1) b64 init(1) raw exit_code_range send2] i init(2)
  show ?thesis
    by (auto simp: exchange_fixture_def bindW_def liftW_def fst_then_shutdown delivered_def)
qed

end
