(* ===== verification/Conformance.thy ===== *)
theory Conformance
  imports Session Workbench Pipeline
begin

text \<open>
  The properties of the workbench's protocol side: what it accepts from any plugin, and what it says
  of a plugin that runs the SDK's server, end to end.
\<close>

section \<open>SDK plugins under the workbench\<close>

text \<open>
  A machine that launches the peer, has its answers within the deadline for the budget, lets it exit
  cleanly and has random bytes.
\<close>

definition hosts :: "('w, bytes) platform \<Rightarrow> u32 \<Rightarrow> bytes peer \<Rightarrow> bool" where
  "hosts os budget_ms peer \<longleftrightarrow>
     (\<forall>w. \<exists>b w'. os_random os w = (Some b, w') \<and> length b = 16)
     \<and> (\<forall>cmd w. \<exists>la w'. os_spawn os cmd w = (la, w') \<and> la_spawned la \<and> la_stdin la \<and> la_stdout la
          \<and> (\<exists>ms. la_answer la = Answered ms \<and> ms \<le> exchange_deadline_ms budget_ms) \<and> la_exit la = Exited True \<and> la_peer la = peer \<and> la_start la = [])"

lemma hosts_attempt:
  assumes "hosts os b peer"
  shows "\<exists>i w'. new_attempt_id os w = (Inr i, w') \<and> valid_activation_attempt_id i"
proof -
  from assms obtain r w' where "os_random os w = (Some r, w')" "length r = 16"
    unfolding hosts_def by blast
  then show ?thesis
    using valid_prefixed_hex_append [of r 32 activation_prefix]
    by (simp add: new_attempt_id_def new_activation_attempt_id_def bindW_def readW_def liftW_def
        valid_activation_attempt_id_def)
qed

lemma hosts_scenario:
  assumes h: "hosts os (rp_budget_ms plugin) peer"
  shows "case fst (exchange d hc peer s (contract_of plugin) (start_process [])) of
      Inl e \<Rightarrow> fst (run_scenario d hc os plugin s w) = Inl e
    | Inr _ \<Rightarrow> \<exists>c w'. run_scenario d hc os plugin s w = (Inr c, w') \<and> hk_name c = fst (scenario_check s)"
proof -
  obtain t0 w0 where t0: "os_clock_us os w = (t0, w0)" by (cases "os_clock_us os w")
  from hosts_attempt [OF h] obtain i w1 where i: "new_attempt_id os w0 = (Inr i, w1)" by blast
  from h obtain la w2 ms where la: "os_spawn os (plugin_command os plugin True) w1 = (la, w2)"
    "la_spawned la" "la_stdin la" "la_stdout la" "la_answer la = Answered ms"
    "ms \<le> exchange_deadline_ms (rp_budget_ms plugin)"
    "la_exit la = Exited True" "la_peer la = peer" "la_start la = []"
    unfolding hosts_def by blast
  obtain t1 w3 where t1: "os_clock_us os w2 = (t1, w3)" by (cases "os_clock_us os w2")
  have b: "xc_budget_ms (contract_of plugin) = rp_budget_ms plugin"
    by (simp add: contract_of_def Let_def)
  show ?thesis
    using i la t0 t1
    by (cases "fst (exchange d hc peer s (contract_of plugin) (start_process []))")
       (simp_all add: run_scenario_def bindW_def readW_def liftW_def returnW_def supervised_def
         wait_for_exit_def recv_timeout_def reject_def elapsed_ms_def elapsed_us_def b)
qed

text \<open>What the optimizer answers to the conformance fixture.\<close>

definition conformance_action :: "'o plugin \<Rightarrow> 'o \<Rightarrow> resolved_plugin \<Rightarrow> action option" where
  "conformance_action pl opt plugin =
    (let k = contract_of plugin
     in fst (optimize pl opt (delivered (xc_kind k) ''tsp-fixture'' 1
          (conformance_fixture (xc_max_input_bytes k)) (xc_budget_ms k))))"

text \<open>The plugin's process answers as the manifest declares, and its messages can be framed.\<close>

definition faithful_build ::
  "deps \<Rightarrow> sdk_codec \<Rightarrow> host_codec \<Rightarrow> 'o plugin \<Rightarrow> resolved_plugin \<Rightarrow> bool" where
  "faithful_build d c hc pl plugin \<longleftrightarrow>
     wire_ok d c hc pl \<and> scenario_sendable d hc (contract_of plugin)
     \<and> plugin_id pl = mf_id (rp_manifest plugin) \<and> plugin_version pl = mf_version (rp_manifest plugin)"

lemma validate_plugin_sdk:
  assumes b64: "base64_roundtrip d" and bad: "b64_decode d ''%%%'' = None"
    and build: "faithful_build d c hc pl plugin" and h: "hosts os (rp_budget_ms plugin) (sdk_peer d c pl opt)"
    and su: "validate_superec d fo sc plugin = Inr record"
  shows "case action_verdict (conformance_fixture (xc_max_input_bytes (contract_of plugin)))
        (conformance_action pl opt plugin) of
      Inl e \<Rightarrow> fst (validate_plugin d hc fo sc os plugin w) = Inl e
    | Inr _ \<Rightarrow> \<exists>report w'. validate_plugin d hc fo sc os plugin w = (Inr report, w') \<and> vr_ok report
        \<and> vr_level report = Conformant \<and> vr_artifact_digest report = rp_artifact_digest plugin"
proof -
  let ?k = "contract_of plugin"
  let ?peer = "sdk_peer d c pl opt"
  have wire: "wire_ok d c hc pl" and send: "scenario_sendable d hc ?k"
    and ident: "xc_plugin_id ?k = plugin_id pl" "xc_version ?k = plugin_version pl"
    using build by (simp_all add: faithful_build_def contract_of_def Let_def)
  have life: "fst (exchange d hc ?peer Lifecycle ?k (start_process [])) =
      bindR (action_verdict (conformance_fixture (xc_max_input_bytes ?k))
        (conformance_action pl opt plugin)) (\<lambda>_. Inr ())"
    using exchange_lifecycle [OF wire send ident b64, of opt]
    by (simp add: conformance_action_def Let_def)
  have before: "\<exists>c w'. run_scenario d hc os plugin BeforeInitialize w = (Inr c, w')" for w
    using hosts_scenario [OF h, of d hc BeforeInitialize w]
      exchange_before_initialize [OF wire send, of opt] by auto
  have malformed: "\<exists>c w'. run_scenario d hc os plugin MalformedBase64 w = (Inr c, w')" for w
    using hosts_scenario [OF h, of d hc MalformedBase64 w]
      exchange_malformed [OF wire send ident bad, of opt] by auto
  obtain t0 w0 where t0: "os_clock_us os w = (t0, w0)" by (cases "os_clock_us os w")
  show ?thesis
  proof (cases "action_verdict (conformance_fixture (xc_max_input_bytes ?k))
      (conformance_action pl opt plugin)")
    case (Inl e)
    then have "fst (run_scenario d hc os plugin Lifecycle w0) = Inl e"
      using hosts_scenario [OF h, of d hc Lifecycle w0] life by simp
    then have "fst (validate_plugin d hc fo sc os plugin w) = Inl e"
      using su t0 by (cases "run_scenario d hc os plugin Lifecycle w0")
        (simp add: validate_plugin_def bindW_def liftW_def readW_def)
    with Inl show ?thesis by simp
  next
    case (Inr x)
    then obtain c1 w1 where 1: "run_scenario d hc os plugin Lifecycle w0 = (Inr c1, w1)"
      using hosts_scenario [OF h, of d hc Lifecycle w0] life by auto
    from before obtain c2 w2 where 2: "run_scenario d hc os plugin BeforeInitialize w1 = (Inr c2, w2)"
      by blast
    from malformed obtain c3 w3 where 3: "run_scenario d hc os plugin MalformedBase64 w2 = (Inr c3, w3)"
      by blast
    obtain t1 w4 where "os_clock_us os w3 = (t1, w4)" by (cases "os_clock_us os w3")
    with 1 2 3 su Inr t0 show ?thesis
      by (simp add: validate_plugin_def bindW_def liftW_def returnW_def readW_def elapsed_ms_def
          elapsed_us_def)
  qed
qed

lemma run_fixture_sdk:
  assumes b64: "base64_roundtrip d" and wire: "wire_ok d c hc pl"
    and ident: "plugin_id pl = mf_id (rp_manifest plugin)" "plugin_version pl = mf_version (rp_manifest plugin)"
    and h: "hosts os (rp_budget_ms plugin) (sdk_peer d c pl opt)"
    and v: "validate_fixture_request plugin xr = Inr ()" and a: "valid_activation_attempt_id attempt"
    and send1: "sendable hc (rpc_call 1 ''initialize'' (initialize_args (rp_budget_ms plugin)))"
    and send2: "sendable hc (rpc_call 2 ''optimize'' (optimize_args (xr_kind xr)
      (program_basename (os_file_name os) (xr_program xr)) (sint (xr_exit_code xr))
      (b64_encode d (xr_content xr)) (rp_budget_ms plugin)))"
  shows "case action_verdict (xr_content xr) (fst (optimize pl opt
        \<lparr>req_kind = xr_kind xr, req_program = program_basename (os_file_name os) (xr_program xr),
         req_exit_code = xr_exit_code xr, req_text = xr_content xr,
         req_budget_ms = rp_budget_ms plugin\<rparr>)) of
      Inl e \<Rightarrow> fst (run_fixture_with_activation d hc os plugin xr attempt w) = Inl e
    | Inr (act, out) \<Rightarrow> \<exists>r w'. run_fixture_with_activation d hc os plugin xr attempt w = (Inr r, w')
        \<and> run_safe plugin xr r \<and> rr_action r = act
        \<and> rr_output r = (case out of None \<Rightarrow> xr_content xr | Some content \<Rightarrow> content)"
proof -
  let ?fn = "os_file_name os" and ?b = "rp_budget_ms plugin"
  have raw: "CHR 0x00 \<notin> set (xr_content xr)" "is_utf8 (xr_content xr)"
    "length (xr_content xr) \<le> max_content_bytes"
    using v by (auto simp: validate_fixture_request_def Let_def res_simps input_max_bytes_def
        max_content_bytes_def)
  note ex = exchange_fixture_verdict [OF wire b64 raw send1 send2, of opt]
  obtain t0 w0 where t0: "os_clock_us os w = (t0, w0)" by (cases "os_clock_us os w")
  from h obtain la w2 ms where la: "os_spawn os (plugin_command os plugin False) w0 = (la, w2)"
    "la_spawned la" "la_stdin la" "la_stdout la" "la_answer la = Answered ms"
    "ms \<le> exchange_deadline_ms ?b"
    "la_exit la = Exited True" "la_peer la = sdk_peer d c pl opt" "la_start la = []"
    unfolding hosts_def by blast
  obtain t1 w3 where t1: "os_clock_us os w2 = (t1, w3)" by (cases "os_clock_us os w2")
  let ?ms = "(t1 - t0) div 1000"
  let ?req = "\<lparr>req_kind = xr_kind xr, req_program = program_basename ?fn (xr_program xr),
         req_exit_code = xr_exit_code xr, req_text = xr_content xr, req_budget_ms = ?b\<rparr>"
  show ?thesis
  proof (cases "action_verdict (xr_content xr) (fst (optimize pl opt ?req))")
    case (Inl e)
    with la ex v a ident t0 show ?thesis
      by (simp add: run_fixture_with_activation_def bindW_def liftW_def readW_def supervised_def
          recv_timeout_def reject_def)
  next
    case (Inr res)
    obtain act out where r: "res = (act, out)" by (cases res)
    have "\<exists>response. parse_optimize_response d response (xr_content xr) = Inr res"
      using ex Inr by (intro exchange_fixture_Inr) simp
    then obtain response where "parse_optimize_response d response (xr_content xr) = Inr res" by blast
    from fixture_report_safe [OF v this, of attempt ?ms] obtain rep where
      rep: "fixture_report plugin attempt (xr_content xr) ?ms res = Inr rep"
      "run_safe plugin xr rep" by blast
    from rep(1) r have out: "rr_action rep = act"
      "rr_output rep = (case out of None \<Rightarrow> xr_content xr | Some content \<Rightarrow> content)"
      by (auto simp: fixture_report_def Let_def split: if_splits)
    have "run_fixture_with_activation d hc os plugin xr attempt w = (Inr rep, w3)"
      using la ex v a ident Inr rep(1) t0 t1
      by (simp add: run_fixture_with_activation_def bindW_def liftW_def readW_def supervised_def
          wait_for_exit_def recv_timeout_def reject_def elapsed_ms_def elapsed_us_def returnW_def)
    with rep(2) out Inr r show ?thesis by simp
  qed
qed

section \<open>A concrete plugin and machine\<close>

text \<open>Both ends share a table of messages: a message is printed as its index.\<close>

definition table_print :: "json list \<Rightarrow> json \<Rightarrow> bytes option" where
  "table_print t v = map_option (\<lambda>n. [char_of n]) (find (\<lambda>n. t ! n = v) [0..<length t])"

definition table_parse :: "json list \<Rightarrow> bytes \<Rightarrow> json option" where
  "table_parse t b =
     (case b of [c] \<Rightarrow> if ord c < length t then Some (t ! ord c) else None | _ \<Rightarrow> None)"

lemma table_print_parse:
  "length t \<le> 256 \<Longrightarrow> table_print t v = Some b \<Longrightarrow> table_parse t b = Some v \<and> frame_fits b"
  by (auto simp: table_print_def table_parse_def find_Some_iff frame_fits_def max_frame_bytes_def)

lemma table_print_member: "v \<in> set t \<Longrightarrow> \<exists>b. table_print t v = Some b"
proof -
  assume "v \<in> set t"
  then have "find (\<lambda>n. t ! n = v) [0..<length t] \<noteq> None"
    by (auto simp: find_None_iff in_set_conv_nth)
  then show ?thesis by (auto simp: table_print_def)
qed

definition stub :: "int \<Rightarrow> rpc_request" where
  "stub i = \<lparr>rq_jsonrpc = ''2.0'', rq_id = Some (json_int i), rq_method = [], rq_params = JNull\<rparr>"

definition quiet_plugin :: "unit plugin" where
  "quiet_plugin = \<lparr>plugin_id = mf_id demo_manifest, plugin_version = mf_version demo_manifest,
     optimize = (\<lambda>u rq. (Some Pass, u))\<rparr>"

definition quiet_errors :: "(int \<times> string) list" where
  "quiet_errors = [(- 32602, ''invalid initialize params''), (- 32602, ''unsupported apiVersion''),
     (- 32002, ''plugin is not initialized''), (- 32602, ''invalid optimize params''),
     (- 32602, ''encoding must be base64''), (- 32602, ''content is not valid base64''),
     (- 32602, ''decoded content exceeds 16 MiB''), (- 32602, ''decoded content contains NUL bytes''),
     (- 32602, ''decoded content is not UTF-8''), (- 32601, ''method not found'')]"

definition quiet_answers :: "int \<Rightarrow> json list" where
  "quiet_answers i = map response_value (result_response (stub i) (handshake quiet_plugin)
     # result_response (stub i) pass_result
     # map (\<lambda>(code, message). error_response (stub i) code message) quiet_errors)"

definition wire_deps :: deps where
  "wire_deps = demo_deps\<lparr>b64_encode := Cons CHR ''='', b64_decode := (\<lambda>x. case x of
     [] \<Rightarrow> None | c # r \<Rightarrow> if c = CHR ''='' then Some r else None)\<rparr>"

definition demo_resolved :: resolved_plugin where
  "demo_resolved = \<lparr>rp_manifest_path = ''/p/plugin.json'', rp_manifest = demo_manifest,
     rp_executable = ''/p/bin/demo'', rp_args = [''--stdio''], rp_platform = ''linux-x64'',
     rp_budget_ms = 300, rp_artifact_digest = ''sha256:00'', rp_release_id = ''tsr1_00''\<rparr>"

definition demo_fixture :: fixture_request where
  "demo_fixture = \<lparr>xr_kind = ''test'', xr_program = ''go'', xr_exit_code = 1, xr_content = ''ok''\<rparr>"

definition demo_table :: "json list" where
  "demo_table = quiet_answers 1 @ quiet_answers 2 @ [rpc_call 1 ''initialize'' (initialize_args 300),
     rpc_call 2 ''optimize'' (JObj []),
     rpc_call 2 ''optimize'' (optimize_args ''test'' ''tsp-fixture'' 1 ''%%%'' 300),
     rpc_call 2 ''optimize'' (optimize_args ''test'' ''tsp-fixture'' 1
       (b64_encode wire_deps (conformance_fixture 1024)) 300),
     rpc_call 2 ''optimize'' (optimize_args ''test'' ''go'' 1 (b64_encode wire_deps ''ok'') 300)]"

definition demo_host_codec :: host_codec where
  "demo_host_codec = \<lparr>print_json = table_print demo_table, parse_json = table_parse demo_table\<rparr>"

definition int_member :: "json \<Rightarrow> string \<Rightarrow> int option" where
  "int_member v k = Option.bind (json_get v k) json_as_i64"

definition str_member :: "json \<Rightarrow> string \<Rightarrow> string" where
  "str_member v k = (case Option.bind (json_get v k) json_as_str of None \<Rightarrow> [] | Some s \<Rightarrow> s)"

definition quiet_codec :: sdk_codec where
  "quiet_codec = \<lparr>
     parse_request = (\<lambda>b. map_option (\<lambda>v. \<lparr>rq_jsonrpc = str_member v ''jsonrpc'',
       rq_id = json_get v ''id'', rq_method = str_member v ''method'',
       rq_params = json_index v ''params''\<rparr>) (table_parse demo_table b)),
     parse_initialize = (\<lambda>v. case (int_member v ''apiVersion'', int_member v ''budgetMs'') of
       (Some a, Some b) \<Rightarrow> Some \<lparr>ip_api_version = word_of_int a, ip_host = str_member v ''host'',
         ip_budget_ms = word_of_int b\<rparr> | _ \<Rightarrow> None),
     parse_optimize = (\<lambda>v. case (json_get v ''exitCode'', int_member v ''budgetMs'') of
       (Some (JNum e), Some b) \<Rightarrow> Some \<lparr>op_kind = str_member v ''kind'',
         op_program = str_member v ''program'',
         op_exit_code = (case e of PosInt n \<Rightarrow> ucast n | NegInt n \<Rightarrow> ucast n | Float n \<Rightarrow> 0),
         op_encoding = str_member v ''encoding'', op_content = str_member v ''content'',
         op_budget_ms = word_of_int b\<rparr> | _ \<Rightarrow> None),
     response_bytes = (\<lambda>r. table_print demo_table (response_value r))\<rparr>"

lemma demo_table_small: "length demo_table \<le> 256"
  by (simp add: demo_table_def quiet_answers_def quiet_errors_def)

lemma quiet_answered:
  assumes "i = 1 \<or> i = 2" and "rq_id rq = Some (json_int i)"
  shows "response_value (result_response rq (handshake quiet_plugin)) \<in> set demo_table"
    and "response_value (result_response rq pass_result) \<in> set demo_table"
    and "(code, message) \<in> set quiet_errors \<Longrightarrow>
      response_value (error_response rq code message) \<in> set demo_table"
proof -
  have s: "result_response rq v = result_response (stub i) v"
    "error_response rq code message = error_response (stub i) code message" for v code message
    using assms(2) by (simp_all add: result_response_def error_response_def stub_def)
  have t: "set (quiet_answers i) \<subseteq> set demo_table" using assms(1) by (auto simp: demo_table_def)
  show "response_value (result_response rq (handshake quiet_plugin)) \<in> set demo_table"
    "response_value (result_response rq pass_result) \<in> set demo_table"
    using t by (auto simp: s quiet_answers_def)
  show "response_value (error_response rq code message) \<in> set demo_table"
    if "(code, message) \<in> set quiet_errors"
    using t that by (force simp: s quiet_answers_def)
qed

lemma quiet_respond:
  assumes "respond wire_deps quiet_codec quiet_plugin st rq = (st', Some r)" and "rq_jsonrpc rq = ''2.0''"
  shows "r = result_response rq (handshake quiet_plugin) \<or> r = result_response rq pass_result
    \<or> (\<exists>(code, message)\<in>set quiet_errors. r = error_response rq code message)"
proof -
  have dec: "decode_request wire_deps params = Inl message \<Longrightarrow> (- 32602, message) \<in> set quiet_errors"
    for params message
    by (auto simp: decode_request_def quiet_errors_def split: if_splits option.splits)
  consider "rq_method rq = ''initialize''" | "rq_method rq = ''optimize''"
    | "rq_method rq \<noteq> ''initialize''" "rq_method rq \<noteq> ''optimize''" by blast
  then show ?thesis
  proof cases
    case 1
    with assms show ?thesis
      by (auto simp: respond_def respond_initialize_def quiet_errors_def split: option.splits if_splits)
  next
    case 2
    show ?thesis
    proof (cases "parse_optimize quiet_codec (rq_params rq)")
      case None
      with 2 assms show ?thesis
        by (auto simp: respond_def respond_optimize_def quiet_errors_def split: if_splits)
    next
      case (Some params)
      show ?thesis
      proof (cases "decode_request wire_deps params")
        case (Inl message)
        with 2 assms Some dec [OF Inl] show ?thesis
          by (auto simp: respond_def respond_optimize_def quiet_errors_def split: if_splits)
      next
        case (Inr request)
        have "optimize quiet_plugin o' request = (Some Pass, o')" for o'
          by (simp add: quiet_plugin_def)
        with 2 assms Some Inr show ?thesis
          by (auto simp: respond_def respond_optimize_def respond_action_def quiet_errors_def
              split: if_splits)
      qed
    qed
  next
    case 3
    with assms show ?thesis by (auto simp: respond_def quiet_errors_def split: if_splits)
  qed
qed

lemma quiet_answers_read: "answers_read wire_deps quiet_codec demo_host_codec quiet_plugin"
  unfolding answers_read_def
proof (intro allI impI)
  fix st :: "unit server" and i m p st' r
  let ?rq = "\<lparr>rq_jsonrpc = ''2.0'', rq_id = Some (json_int i), rq_method = m, rq_params = p\<rparr>"
  assume i: "i = 1 \<or> i = 2" and rsp: "respond wire_deps quiet_codec quiet_plugin st ?rq = (st', Some r)"
  have id: "rq_id ?rq = Some (json_int i)" and v: "rq_jsonrpc ?rq = ''2.0''" by simp_all
  have "response_value r \<in> set demo_table"
    using quiet_respond [OF rsp v] quiet_answered [OF i id] by (auto split: prod.splits)
  from table_print_member [OF this] table_print_parse [OF demo_table_small]
  show "\<exists>b. response_bytes quiet_codec r = Some b \<and> frame_fits b
      \<and> parse_json demo_host_codec b = Some (response_value r)"
    by (auto simp: quiet_codec_def demo_host_codec_def)
qed

lemma int_member_int [simp]:
  "json_get v k = Some (json_int (uint (b :: u32))) \<Longrightarrow> int_member v k = Some (uint b)"
proof -
  have "uint b < 2 ^ 63" using uint_lt2p [of b] by simp
  moreover have "- (2 ^ 63) \<le> uint b" by (rule order_trans [of _ 0]) simp_all
  ultimately have "json_as_i64 (json_int (uint b)) = Some (uint b)"
    by (intro json_as_i64_int)
  then show "json_get v k = Some (json_int (uint b)) \<Longrightarrow> int_member v k = Some (uint b)"
    by (simp add: int_member_def)
qed

lemma json_int_number: "json_int e = JNum n \<Longrightarrow>
    (case n of PosInt x \<Rightarrow> ucast x | NegInt x \<Rightarrow> ucast x | Float x \<Rightarrow> 0) = (word_of_int e :: 32 word)"
  by (auto simp: json_int_def ucast_eq unsigned_of_int word_of_int_eq_iff split: if_splits)

lemma quiet_wire: "wire_ok wire_deps quiet_codec demo_host_codec quiet_plugin"
  unfolding wire_ok_def
proof (intro conjI allI impI)
  fix i m p b
  assume "print_json demo_host_codec (rpc_call i m p) = Some b"
  then have "table_parse demo_table b = Some (rpc_call i m p)"
    using table_print_parse [OF demo_table_small] by (simp add: demo_host_codec_def)
  then show "parse_request quiet_codec b = Some \<lparr>rq_jsonrpc = ''2.0'', rq_id = Some (json_int i),
      rq_method = m, rq_params = p\<rparr>"
    by (simp add: quiet_codec_def rpc_call_def str_member_def json_index_def)
next
  fix b :: u32
  let ?v = "initialize_args b"
  have "int_member ?v ''budgetMs'' = Some (uint b)"
    by (rule int_member_int) (simp add: initialize_args_def)
  moreover have "int_member ?v ''apiVersion'' = Some 1"
    by (simp add: initialize_args_def int_member_def json_as_i64_int)
  moreover have "str_member ?v ''host'' = ''tsp''" by (simp add: initialize_args_def str_member_def)
  ultimately show "parse_initialize quiet_codec ?v =
      Some \<lparr>ip_api_version = 1, ip_host = ''tsp'', ip_budget_ms = b\<rparr>"
    by (simp add: quiet_codec_def)
next
  fix k p e t and b :: u32
  let ?v = "optimize_args k p e t b"
  have "int_member ?v ''budgetMs'' = Some (uint b)"
    by (rule int_member_int) (simp add: optimize_args_def)
  moreover obtain n where n: "json_int e = JNum n" by (simp add: json_int_def)
  moreover have "json_get ?v ''exitCode'' = Some (JNum n)" by (simp add: optimize_args_def n)
  moreover have "str_member ?v ''kind'' = k" "str_member ?v ''program'' = p"
    "str_member ?v ''encoding'' = ''base64''" "str_member ?v ''content'' = t"
    by (simp_all add: optimize_args_def str_member_def)
  ultimately show "parse_optimize quiet_codec ?v = Some \<lparr>op_kind = k, op_program = p,
      op_exit_code = word_of_int e, op_encoding = ''base64'', op_content = t, op_budget_ms = b\<rparr>"
    using json_int_number [OF n] by (simp add: quiet_codec_def)
next
  show "answers_read wire_deps quiet_codec demo_host_codec quiet_plugin" by (rule quiet_answers_read)
qed

lemma demo_sendable: "v \<in> set demo_table \<Longrightarrow> sendable demo_host_codec v"
  using table_print_member [of v demo_table] table_print_parse [OF demo_table_small, of v]
  by (auto simp: sendable_def demo_host_codec_def)

lemma demo_build: "faithful_build wire_deps quiet_codec demo_host_codec quiet_plugin demo_resolved"
proof -
  have "contract_of demo_resolved = \<lparr>xc_plugin_id = mf_id demo_manifest,
      xc_version = mf_version demo_manifest, xc_kind = ''test'', xc_max_input_bytes = 1024,
      xc_budget_ms = 300\<rparr>"
    by (simp add: contract_of_def demo_resolved_def demo_manifest_def)
  then have "scenario_sendable wire_deps demo_host_codec (contract_of demo_resolved)"
    by (auto simp: scenario_sendable_def demo_table_def intro!: demo_sendable)
  with quiet_wire show ?thesis
    by (simp add: faithful_build_def quiet_plugin_def demo_resolved_def)
qed

definition demo_machine :: "(unit, bytes) platform" where
  "demo_machine = \<lparr>
     os_spawn = (\<lambda>cmd w. (\<lparr>la_spawned = True, la_stdin = True, la_stdout = True,
       la_peer = sdk_peer wire_deps quiet_codec quiet_plugin (), la_start = [],
       la_answer = Answered 5, la_exit = Exited True\<rparr>, w)),
     os_random = (\<lambda>w. (Some (replicate 16 CHR ''a''), w)), os_clock_us = Pair 0,
     os_env = (\<lambda>_. None), os_file_name = Some, os_parent = (\<lambda>_. Some ''/p'')\<rparr>"

definition demo_files :: file_ops where
  "demo_files = \<lparr>fo_stat = (\<lambda>_. NotFound), fo_read = (\<lambda>_. None), fo_join = (\<lambda>a b. a @ ''/'' @ b),
     fo_parent = Some, fo_absolute = (\<lambda>_. False), fo_components = (\<lambda>p. [Normal p])\<rparr>"

definition demo_superec_codec :: superec_codec where
  "demo_superec_codec = \<lparr>parse_value = (\<lambda>_. None), parse_document = (\<lambda>_. None),
     parse_profile = (\<lambda>_. None)\<rparr>"

lemma demo_hosts: "hosts demo_machine (rp_budget_ms demo_resolved) (sdk_peer wire_deps quiet_codec quiet_plugin ())"
  by (simp add: hosts_def demo_machine_def exchange_deadline_ms_def spawn_grace_ms_def)

lemma wire_deps_laws: "base64_roundtrip wire_deps" "b64_decode wire_deps ''%%%'' = None"
  by (simp_all add: base64_roundtrip_def wire_deps_def)

lemma demo_fixture_valid: "validate_fixture_request demo_resolved demo_fixture = Inr ()"
proof -
  have "is_utf8 ''ok''" by (rule is_utf8_ascii) (simp add: ascii_def)
  then show ?thesis
    by (simp add: validate_fixture_request_def demo_fixture_def demo_resolved_def demo_manifest_def
        input_max_bytes_def known_kinds_def)
qed

lemma demo_attempt: "valid_activation_attempt_id (''tsa1_'' @ hex (replicate 16 CHR ''a''))"
  using valid_prefixed_hex_append [of "replicate 16 CHR ''a''" 32 activation_prefix]
  by (simp add: valid_activation_attempt_id_def activation_prefix_def)

section \<open>Properties\<close>




lemma demo_fixture_sendable:
  "sendable demo_host_codec (rpc_call 1 ''initialize'' (initialize_args (rp_budget_ms demo_resolved)))"
  "sendable demo_host_codec (rpc_call 2 ''optimize'' (optimize_args (xr_kind demo_fixture)
      (program_basename (os_file_name demo_machine) (xr_program demo_fixture))
      (sint (xr_exit_code demo_fixture)) (b64_encode wire_deps (xr_content demo_fixture))
      (rp_budget_ms demo_resolved)))"
  by (rule demo_sendable, simp add: demo_table_def demo_resolved_def demo_fixture_def
      program_basename_def demo_machine_def)+

lemma demo_identity:
  "plugin_id quiet_plugin = mf_id (rp_manifest demo_resolved)"
  "plugin_version quiet_plugin = mf_version (rp_manifest demo_resolved)"
  by (simp_all add: quiet_plugin_def demo_resolved_def)


text \<open>No plugin can make the workbench report an unsafe run. Whatever the process writes, a
  report has the manifest's identity and the resolved release; its output is NUL-free UTF-8 and is
  either the input unchanged or a non-empty text smaller by more than a fifth; the byte counts are
  those of the input and the output.\<close>
lemma fixture_runs_safe:
  assumes "run_fixture d hc os plugin xr w = (Inr r, w')"
  shows "run_safe plugin xr r \<and> valid_activation_attempt_id (rr_attempt_id r)"
proof -
  from assms obtain attempt v where
    "run_fixture_with_activation d hc os plugin xr attempt v = (Inr r, w')"
    by (auto simp: run_fixture_def io_simps)
  from run_fixture_safe [OF this] show ?thesis by simp
qed

lemma fixture_runs_safe_witness:
  "\<exists>r. run_safe demo_resolved demo_fixture r \<and> rr_input_bytes r = 2"
proof -
  from hosts_attempt [OF demo_hosts, of "()"] obtain i w1 where
    i: "new_attempt_id demo_machine () = (Inr i, w1)" "valid_activation_attempt_id i" by blast
  from run_fixture_sdk [OF wire_deps_laws(1) quiet_wire demo_identity demo_hosts
      demo_fixture_valid i(2) demo_fixture_sendable, of w1]
  obtain r w2 where "run_fixture_with_activation wire_deps demo_host_codec demo_machine demo_resolved
      demo_fixture i w1 = (Inr r, w2)"
    by (auto simp: action_verdict_def quiet_plugin_def)
  with i demo_fixture_valid have "run_fixture wire_deps demo_host_codec demo_machine demo_resolved
      demo_fixture () = (Inr r, w2)"
    by (simp add: run_fixture_def bindW_def liftW_def)
  from fixture_runs_safe [OF this] show ?thesis
    by (auto simp: run_safe_def demo_fixture_def intro!: exI [of _ r])
qed

text \<open>The two independently written frame readers agree: on every input, the workbench reads a
  frame exactly when the SDK's reader does, the same frame with the same rest; what the SDK calls an
  error or a clean end, the workbench refuses.\<close>
lemma frame_readers_agree: "host_read_frame s = as_host (read_frame s)"
  by (rule host_read_frame_eq)

end
