(* ===== verification/Golden.thy ===== *)
theory Golden
  imports Fixtures Conformance
begin

text \<open>
  What a passing fixture suite shows: for any plugin, that safe runs reproduced the golden files; for
  a plugin that runs the SDK's server, exactly that its optimizer maps every fixture to its golden
  output.
\<close>

section \<open>One case\<close>

lemma validate_case_expectation_Inr:
  "validate_case_expectation tc expected = Inr () \<Longrightarrow>
     (tc_expected_action tc = ActionPass \<and> expected = None)
     \<or> (tc_expected_action tc = ActionOptimize
        \<and> (\<exists>out. expected = Some out \<and> out \<noteq> [] \<and> CHR 0x00 \<notin> set out \<and> is_utf8 out))"
  by (cases "tc_expected_action tc"; cases expected)
     (auto simp: validate_case_expectation_def res_simps)

lemma case_files_Inr:
  "case_files fo code directory path tc = Inr (input, expected) \<Longrightarrow>
     validate_case_expectation tc expected = Inr ()"
  by (auto simp: case_files_def Let_def res_simps)

text \<open>The optimizer's request for a case, and the golden output as its verdict.\<close>

definition golden_request ::
  "(string \<Rightarrow> string option) \<Rightarrow> resolved_plugin \<Rightarrow> fixture_case \<Rightarrow> bytes \<Rightarrow> request" where
  "golden_request file_name plugin tc input =
     \<lparr>req_kind = tc_kind tc, req_program = program_basename file_name (tc_program tc),
      req_exit_code = tc_exit_code tc, req_text = input, req_budget_ms = rp_budget_ms plugin\<rparr>"

definition reproduces ::
  "'o plugin \<Rightarrow> 'o \<Rightarrow> (string \<Rightarrow> string option) \<Rightarrow> resolved_plugin \<Rightarrow> fixture_case \<Rightarrow> bytes
     \<Rightarrow> bytes option \<Rightarrow> bool" where
  "reproduces pl opt file_name plugin tc input expected \<longleftrightarrow>
     action_verdict input (fst (optimize pl opt (golden_request file_name plugin tc input)))
       = Inr (tc_expected_action tc, expected)"

text \<open>A case that can be read, is allowed for the plugin and fits in a frame.\<close>

definition runnable ::
  "deps \<Rightarrow> host_codec \<Rightarrow> (bytes \<Rightarrow> fixture_case option) \<Rightarrow> file_ops \<Rightarrow> (string \<Rightarrow> string option)
     \<Rightarrow> resolved_plugin \<Rightarrow> string \<Rightarrow> string \<Rightarrow> fixture_case \<Rightarrow> bytes \<Rightarrow> bytes option \<Rightarrow> bool" where
  "runnable d hc parse fo file_name plugin directory path tc input expected \<longleftrightarrow>
     load_case parse fo path = Inr tc
     \<and> case_files fo ''test.expected'' directory path tc = Inr (input, expected)
     \<and> validate_fixture_request plugin (case_request tc input) = Inr ()
     \<and> sendable hc (rpc_call 2 ''optimize'' (optimize_args (tc_kind tc)
          (program_basename file_name (tc_program tc)) (sint (tc_exit_code tc))
          (b64_encode d input) (rp_budget_ms plugin)))"

text \<open>A plugin built with the SDK, on a machine that launches it.\<close>

definition sdk_setup ::
  "deps \<Rightarrow> sdk_codec \<Rightarrow> host_codec \<Rightarrow> ('w, bytes) platform \<Rightarrow> 'o plugin \<Rightarrow> 'o \<Rightarrow> resolved_plugin
     \<Rightarrow> bool" where
  "sdk_setup d c hc os pl opt plugin \<longleftrightarrow>
     base64_roundtrip d \<and> wire_ok d c hc pl
     \<and> plugin_id pl = mf_id (rp_manifest plugin) \<and> plugin_version pl = mf_version (rp_manifest plugin)
     \<and> hosts os (rp_budget_ms plugin) (sdk_peer d c pl opt)
     \<and> sendable hc (rpc_call 1 ''initialize'' (initialize_args (rp_budget_ms plugin)))"

lemma action_verdict_cases:
  "action_verdict raw act = Inr (a, out) \<Longrightarrow>
     (a = ActionPass \<and> out = None) \<or> (a = ActionOptimize \<and> (\<exists>content. out = Some content))"
  by (auto simp: action_verdict_def split: option.splits action.splits if_splits)

lemma action_verdict_no_panic: "action_verdict raw act \<noteq> Inl Panic"
  by (auto simp: action_verdict_def split: option.splits action.splits)

lemma judge_run_ok:
  assumes v: "validate_case_expectation tc expected = Inr ()"
    and verdict: "action_verdict input answer = Inr (rr_action run, out)"
    and same: "rr_output run = (case out of None \<Rightarrow> input | Some content \<Rightarrow> content)"
  shows "cr_ok (judge_run tc path input expected attempt run ms)
    \<longleftrightarrow> action_verdict input answer = Inr (tc_expected_action tc, expected)"
  using validate_case_expectation_Inr [OF v] action_verdict_cases [OF verdict] verdict same
  by (auto simp: judge_run_def Let_def output_matches_def)

lemma test_case_sdk:
  assumes conf: "sdk_setup d c hc os pl opt plugin"
    and run: "runnable d hc parse fo (os_file_name os) plugin directory path tc input expected"
  shows "\<exists>r w'. test_case d hc parse fo os plugin directory path w = (Inr r, w') \<and> cr_path r = path
    \<and> (cr_ok r \<longleftrightarrow> reproduces pl opt (os_file_name os) plugin tc input expected)"
proof -
  let ?xr = "case_request tc input"
  let ?answer = "fst (optimize pl opt (golden_request (os_file_name os) plugin tc input))"
  obtain t0 w0 where t0: "os_clock_us os w = (t0, w0)" by (cases "os_clock_us os w")
  have h: "hosts os (rp_budget_ms plugin) (sdk_peer d c pl opt)"
    and b64: "base64_roundtrip d" and wire: "wire_ok d c hc pl"
    and ident: "plugin_id pl = mf_id (rp_manifest plugin)"
      "plugin_version pl = mf_version (rp_manifest plugin)"
    and s1: "sendable hc (rpc_call 1 ''initialize'' (initialize_args (rp_budget_ms plugin)))"
    using conf by (simp_all add: sdk_setup_def)
  have lc: "load_case parse fo path = Inr tc"
    and cf: "case_files fo ''test.expected'' directory path tc = Inr (input, expected)"
    and vr: "validate_fixture_request plugin ?xr = Inr ()"
    and s2: "sendable hc (rpc_call 2 ''optimize'' (optimize_args (xr_kind ?xr)
        (program_basename (os_file_name os) (xr_program ?xr)) (sint (xr_exit_code ?xr))
        (b64_encode d (xr_content ?xr)) (rp_budget_ms plugin)))"
    using run by (simp_all add: runnable_def case_request_def)
  from hosts_attempt [OF h] obtain i w1 where i: "new_attempt_id os w0 = (Inr i, w1)"
    "valid_activation_attempt_id i" by blast
  have raw: "xr_content ?xr = input" by (simp add: case_request_def)
  note sdk = run_fixture_sdk [OF b64 wire ident h vr i(2) s1 s2, of w1, unfolded raw]
  have rq: "fst (optimize pl opt \<lparr>req_kind = xr_kind ?xr,
      req_program = program_basename (os_file_name os) (xr_program ?xr),
      req_exit_code = xr_exit_code ?xr, req_text = input,
      req_budget_ms = rp_budget_ms plugin\<rparr>) = ?answer"
    by (simp add: golden_request_def case_request_def)
  show ?thesis
  proof (cases "action_verdict input ?answer")
    case (Inl e)
    obtain code where code: "e = VErr code"
      using Inl action_verdict_no_panic [of input ?answer] by (cases e) auto
    from Inl sdk rq obtain w2 where
      "run_fixture_with_activation d hc os plugin ?xr i w1 = (Inl (VErr code), w2)"
      by (cases "run_fixture_with_activation d hc os plugin ?xr i w1")
         (auto simp: raw code)
    moreover obtain t1 w3 where "os_clock_us os w2 = (t1, w3)" by (cases "os_clock_us os w2")
    ultimately show ?thesis
      using Inl lc cf vr i t0
      by (auto simp: test_case_def bindW_def liftW_def readW_def returnW_def attempt_run_def
          elapsed_ms_def elapsed_us_def failed_run_def reproduces_def)
  next
    case (Inr v)
    obtain act out where v: "v = (act, out)" by (cases v)
    from Inr sdk rq v obtain run w2 where
      "run_fixture_with_activation d hc os plugin ?xr i w1 = (Inr run, w2)"
      and r: "rr_action run = act" "rr_output run = (case out of None \<Rightarrow> input | Some content \<Rightarrow> content)"
      by (auto simp: raw)
    moreover obtain t1 w3 where "os_clock_us os w2 = (t1, w3)" by (cases "os_clock_us os w2")
    moreover have "cr_ok (judge_run tc path input expected i run ms)
        \<longleftrightarrow> reproduces pl opt (os_file_name os) plugin tc input expected" for ms
      using judge_run_ok [OF case_files_Inr [OF cf], of input ?answer run out] Inr v r
      by (simp add: reproduces_def)
    ultimately show ?thesis
      using lc cf vr i t0
      by (auto simp: test_case_def bindW_def liftW_def readW_def returnW_def attempt_run_def
          elapsed_ms_def elapsed_us_def judge_run_def Let_def)
  qed
qed

section \<open>All cases\<close>

lemma test_cases_sdk:
  assumes conf: "sdk_setup d c hc os pl opt plugin"
    and run: "\<And>p. p \<in> set paths \<Longrightarrow> runnable d hc parse fo (os_file_name os) plugin directory p
      (case_at p) (input_at p) (golden_at p)"
  shows "\<exists>rs w'. test_cases d hc parse fo os plugin directory paths w = (Inr rs, w')
    \<and> map cr_path rs = paths \<and> map cr_ok rs =
      map (\<lambda>p. reproduces pl opt (os_file_name os) plugin (case_at p) (input_at p) (golden_at p)) paths"
  using run
proof (induction paths arbitrary: w)
  case Nil
  then show ?case by (simp add: returnW_def)
next
  case (Cons p paths)
  from test_case_sdk [OF conf Cons.prems, of p w] obtain r w1 where
    1: "test_case d hc parse fo os plugin directory p w = (Inr r, w1)" "cr_path r = p"
      "cr_ok r = reproduces pl opt (os_file_name os) plugin (case_at p) (input_at p) (golden_at p)"
    by auto
  from Cons.IH [of w1] Cons.prems obtain rs w2 where
    "test_cases d hc parse fo os plugin directory paths w1 = (Inr rs, w2)"
    "map cr_path rs = paths" "map cr_ok rs =
      map (\<lambda>p. reproduces pl opt (os_file_name os) plugin (case_at p) (input_at p) (golden_at p)) paths"
    by auto
  with 1 show ?case by (simp add: bindW_def returnW_def)
qed

lemma none_left_iff: "length xs - length (filter P xs) = 0 \<longleftrightarrow> (\<forall>x\<in>set xs. P x)"
proof (cases "\<forall>x\<in>set xs. P x")
  case False
  then obtain x where "x \<in> set xs" "\<not> P x" by blast
  from length_filter_less [of x xs P, OF this] False show ?thesis by simp
qed simp

lemma test_plugin_sdk:
  assumes conf: "sdk_setup d c hc os pl opt plugin"
    and paths: "fixture_case_paths fo dr directory = Inr paths"
    and run: "\<And>p. p \<in> set paths \<Longrightarrow> runnable d hc parse fo (os_file_name os) plugin directory p
      (case_at p) (input_at p) (golden_at p)"
  shows "\<exists>r w'. test_plugin d hc parse fo dr os plugin directory w = (Inr r, w')
    \<and> map cr_path (tr_cases r) = paths \<and> tr_passed r + tr_failed r = length paths
    \<and> map cr_ok (tr_cases r) = map (\<lambda>p. reproduces pl opt (os_file_name os) plugin (case_at p)
        (input_at p) (golden_at p)) paths
    \<and> (tr_ok r \<longleftrightarrow> (\<forall>p\<in>set paths. reproduces pl opt (os_file_name os) plugin (case_at p)
        (input_at p) (golden_at p)))"
proof -
  let ?rep = "\<lambda>p. reproduces pl opt (os_file_name os) plugin (case_at p) (input_at p) (golden_at p)"
  obtain t0 w0 where t0: "os_clock_us os w = (t0, w0)" by (cases "os_clock_us os w")
  from test_cases_sdk [OF conf run, of paths w0] obtain rs w1 where
    rs: "test_cases d hc parse fo os plugin directory paths w0 = (Inr rs, w1)"
      "map cr_path rs = paths" "map cr_ok rs = map ?rep paths" by auto
  obtain t1 w2 where t1: "os_clock_us os w1 = (t1, w2)" by (cases "os_clock_us os w1")
  have len: "length (filter cr_ok rs) \<le> length rs" "length rs = length paths"
    using rs(2) by (auto dest: arg_cong [of _ _ length])
  have "(\<forall>x\<in>set rs. cr_ok x) \<longleftrightarrow> (\<forall>x\<in>set (map cr_ok rs). x)" by simp
  then have "length rs - length (filter cr_ok rs) = 0 \<longleftrightarrow> (\<forall>p\<in>set paths. ?rep p)"
    unfolding none_left_iff rs(3) by simp
  with rs t0 t1 paths len show ?thesis
    by (simp add: test_plugin_def bindW_def liftW_def readW_def returnW_def elapsed_ms_def
        elapsed_us_def Let_def)
qed

section \<open>A concrete fixture directory\<close>

definition golden_case :: fixture_case where
  "golden_case = \<lparr>tc_schema_version = 1, tc_name = ''short'', tc_kind = ''test'',
     tc_program = ''go'', tc_exit_code = 1, tc_input = ''in.txt'', tc_expected_action = ActionPass,
     tc_expected_output = None\<rparr>"

definition golden_files :: file_ops where
  "golden_files = \<lparr>fo_stat = (\<lambda>_. Found (True, 2)), fo_read = (\<lambda>_. Some ''ok''),
     fo_join = (\<lambda>a b. a @ ''/'' @ b), fo_parent = (\<lambda>_. Some ''f''), fo_absolute = (\<lambda>_. False),
     fo_components = (\<lambda>p. [Normal p])\<rparr>"

definition golden_dir :: dir_ops where
  "golden_dir = \<lparr>do_list = (\<lambda>_. Some [Some ''b.txt'', Some ''b.case.json'', Some ''a.case.json'']),
     do_file_name = Some\<rparr>"

lemma golden_paths:
  "fixture_case_paths golden_files golden_dir ''f'' = Inr [''a.case.json'', ''b.case.json'']"
proof -
  have "Normal ''a.case.json'' < Normal ''b.case.json''"
    by (simp add: less_path_component_def less_eq_path_component_def)
  then have "\<not> Normal ''b.case.json'' \<le> Normal ''a.case.json''" by simp
  then show ?thesis
    by (simp add: fixture_case_paths_def golden_dir_def golden_files_def is_case_path_def
        ends_with_def)
qed

lemma golden_load: "load_case (\<lambda>_. Some golden_case) golden_files path = Inr golden_case"
  by (simp add: load_case_def read_bounded_file_def golden_files_def case_max_bytes_def
      golden_case_def)

lemma golden_inputs:
  "case_files golden_files code directory path golden_case = Inr (''ok'', None)"
  by (simp add: case_files_def resolve_case_path_def read_fixture_input_def read_bounded_file_def
      golden_files_def golden_case_def path_escapes_def fixture_max_bytes_def
      validate_case_expectation_def)

lemma golden_fixture: "case_request golden_case ''ok'' = demo_fixture"
  by (simp add: case_request_def golden_case_def demo_fixture_def)

lemma golden_runnable:
  "runnable wire_deps demo_host_codec (\<lambda>_. Some golden_case) golden_files (os_file_name demo_machine)
     demo_resolved directory path golden_case ''ok'' None"
  using golden_load golden_inputs demo_fixture_valid demo_fixture_sendable(2)
  by (simp add: runnable_def golden_fixture) (simp add: golden_case_def demo_fixture_def)

lemma golden_sdk:
  "sdk_setup wire_deps quiet_codec demo_host_codec demo_machine quiet_plugin () demo_resolved"
  using wire_deps_laws(1) quiet_wire demo_identity demo_hosts demo_fixture_sendable(1)
  by (simp add: sdk_setup_def)

section \<open>Properties\<close>



end
