(* ===== verification/Bench_Runner.thy ===== *)
theory Bench_Runner
  imports Fixtures
begin

text \<open>
  The benchmark runner, tools/tsp/src/bench.rs: every fixture is run a number of times, each sample
  must reproduce the golden output, and the report holds the byte counts, the savings and the order
  statistics of the latencies.
\<close>

section \<open>Latency statistics\<close>

text \<open>\<^verbatim>\<open>ordered[rank.saturating_sub(1)]\<close> with the nearest rank, rounded up\<close>

definition percentile :: "nat list \<Rightarrow> nat \<Rightarrow> nat res" where
  "percentile ordered p =
    (let rank = (p * length ordered + 99) div 100
     in index ordered (rank - 1))"

definition summarize_latency :: "nat list \<Rightarrow> latency res" where
  "summarize_latency samples =
    (let ordered = sort samples; sum = sum_list ordered
     in bindR (index ordered 0) (\<lambda>minimum.
        bindR (percentile ordered 50) (\<lambda>p50.
        bindR (percentile ordered 95) (\<lambda>p95.
        bindR (percentile ordered 99) (\<lambda>p99.
        bindR (index ordered (length ordered - 1)) (\<lambda>maximum.
          Inr \<lparr>lt_minimum = minimum, lt_p50 = p50, lt_p95 = p95, lt_p99 = p99,
            lt_maximum = maximum, lt_mean = sum div length ordered\<rparr>))))))"

text \<open>The savings of a benchmark, as the bits of the double the report holds.\<close>

definition savings_bits :: "nat \<Rightarrow> nat \<Rightarrow> 64 word" where
  "savings_bits saved input =
     f64_bits (if input = 0 then 0
       else f64_round (f64_round (f64_of_nat saved * 100) / f64_of_nat input))"

section \<open>Samples\<close>

text \<open>The variables of the loop over the samples of a case, and those of the loop over the cases.\<close>

record sampling =
  sa_latencies :: "nat list"
  sa_attempts :: "string list"
  sa_action :: "optimize_action option"
  sa_output :: "bytes option"

record bench_sums =
  bs_latencies :: "nat list"
  bs_input :: nat
  bs_output :: nat
  bs_pass :: nat
  bs_optimize :: nat

definition fresh_sampling :: sampling where
  "fresh_sampling = \<lparr>sa_latencies = [], sa_attempts = [], sa_action = None, sa_output = None\<rparr>"

definition fresh_sums :: bench_sums where
  "fresh_sums = \<lparr>bs_latencies = [], bs_input = 0, bs_output = 0, bs_pass = 0, bs_optimize = 0\<rparr>"

definition differs :: "'a option \<Rightarrow> 'a \<Rightarrow> bool" where
  "differs previous x \<longleftrightarrow> (case previous of None \<Rightarrow> False | Some y \<Rightarrow> y \<noteq> x)"

text \<open>\<^verbatim>\<open>usize::saturating_add\<close> on counts\<close>

definition add_bytes :: "nat \<Rightarrow> nat \<Rightarrow> nat" where
  "add_bytes a b = min u64_max (a + b)"

definition record_sample :: "string \<Rightarrow> nat \<Rightarrow> run_report \<Rightarrow> sampling \<times> bench_sums \<Rightarrow> sampling \<times> bench_sums"
where
  "record_sample attempt us run = (\<lambda>(k, g).
     (k\<lparr>sa_latencies := sa_latencies k @ [us], sa_attempts := sa_attempts k @ [attempt],
        sa_action := Some (rr_action run), sa_output := Some (rr_output run)\<rparr>,
      g\<lparr>bs_latencies := bs_latencies g @ [us],
        bs_input := add_bytes (bs_input g) (rr_input_bytes run),
        bs_output := add_bytes (bs_output g) (rr_output_bytes run),
        bs_pass := bs_pass g + (case rr_action run of ActionPass \<Rightarrow> 1 | ActionOptimize \<Rightarrow> 0),
        bs_optimize := bs_optimize g + (case rr_action run of ActionPass \<Rightarrow> 0 | ActionOptimize \<Rightarrow> 1)\<rparr>))"

definition bench_sample ::
  "deps \<Rightarrow> host_codec \<Rightarrow> ('w, 'p) platform \<Rightarrow> resolved_plugin \<Rightarrow> fixture_case \<Rightarrow> bytes \<Rightarrow> bytes option
     \<Rightarrow> sampling \<times> bench_sums \<Rightarrow> ('w, sampling \<times> bench_sums) io" where
  "bench_sample d hc os plugin tc input expected s =
     bindW (liftW (validate_fixture_request plugin (case_request tc input))) (\<lambda>_.
     bindW (new_attempt_id os) (\<lambda>attempt.
     bindW (readW (os_clock_us os)) (\<lambda>sample_started.
     bindW (run_fixture_with_activation d hc os plugin (case_request tc input) attempt) (\<lambda>run.
     bindW (elapsed_us os sample_started) (\<lambda>us.
     let expected_output = (case expected of None \<Rightarrow> input | Some golden \<Rightarrow> golden)
     in bindW (liftW (reject (rr_action run \<noteq> tc_expected_action tc \<or> rr_output run \<noteq> expected_output)
          ''bench.golden'')) (\<lambda>_.
        bindW (liftW (reject (differs (sa_action (fst s)) (rr_action run)
            \<or> differs (sa_output (fst s)) (rr_output run)) ''bench.nondeterministic'')) (\<lambda>_.
          returnW (record_sample attempt us run s))))))))"

fun bench_samples ::
  "deps \<Rightarrow> host_codec \<Rightarrow> ('w, 'p) platform \<Rightarrow> resolved_plugin \<Rightarrow> fixture_case \<Rightarrow> bytes \<Rightarrow> bytes option
     \<Rightarrow> nat \<Rightarrow> sampling \<times> bench_sums \<Rightarrow> ('w, sampling \<times> bench_sums) io" where
  "bench_samples d hc os plugin tc input expected 0 s = returnW s"
| "bench_samples d hc os plugin tc input expected (Suc n) s =
     bindW (bench_sample d hc os plugin tc input expected s)
       (bench_samples d hc os plugin tc input expected n)"

section \<open>Cases and the report\<close>

definition ok_or_panic :: "'a option \<Rightarrow> 'a res" where
  "ok_or_panic x = (case x of None \<Rightarrow> Inl Panic | Some y \<Rightarrow> Inr y)"

definition bench_case_report ::
  "string \<Rightarrow> u32 \<Rightarrow> fixture_case \<Rightarrow> bytes \<Rightarrow> sampling \<Rightarrow> bench_case res" where
  "bench_case_report path iterations tc input k =
     bindR (ok_or_panic (sa_output k)) (\<lambda>out.
     bindR (ok_or_panic (sa_action k)) (\<lambda>act.
     bindR (summarize_latency (sa_latencies k)) (\<lambda>latency.
     let saved = length input - length out
     in Inr \<lparr>bc_name = tc_name tc, bc_path = path, bc_iterations = iterations,
          bc_input_bytes = word_of_nat (length input), bc_output_bytes = word_of_nat (length out),
          bc_saved_bytes = word_of_nat saved, bc_savings_percent = savings_bits saved (length input),
          bc_action = act, bc_activation_attempt_ids = sa_attempts k, bc_latency = latency\<rparr>)))"

definition run_bench_case ::
  "deps \<Rightarrow> host_codec \<Rightarrow> (bytes \<Rightarrow> fixture_case option) \<Rightarrow> file_ops \<Rightarrow> ('w, 'p) platform
     \<Rightarrow> resolved_plugin \<Rightarrow> string \<Rightarrow> u32 \<Rightarrow> string \<Rightarrow> bench_sums \<Rightarrow> ('w, bench_case \<times> bench_sums) io" where
  "run_bench_case d hc parse fo os plugin directory iterations path g =
     bindW (liftW (load_case parse fo path)) (\<lambda>tc.
     bindW (liftW (case_files fo ''bench.expected'' directory path tc)) (\<lambda>(input, expected).
     bindW (bench_samples d hc os plugin tc input expected (unat iterations) (fresh_sampling, g))
       (\<lambda>(k, g').
     bindW (liftW (bench_case_report path iterations tc input k)) (\<lambda>report.
       returnW (report, g')))))"

fun run_bench_cases ::
  "deps \<Rightarrow> host_codec \<Rightarrow> (bytes \<Rightarrow> fixture_case option) \<Rightarrow> file_ops \<Rightarrow> ('w, 'p) platform
     \<Rightarrow> resolved_plugin \<Rightarrow> string \<Rightarrow> u32 \<Rightarrow> string list \<Rightarrow> bench_sums
     \<Rightarrow> ('w, bench_case list \<times> bench_sums) io" where
  "run_bench_cases d hc parse fo os plugin directory iterations [] g = returnW ([], g)"
| "run_bench_cases d hc parse fo os plugin directory iterations (path # paths) g =
     bindW (run_bench_case d hc parse fo os plugin directory iterations path g) (\<lambda>(report, g').
     bindW (run_bench_cases d hc parse fo os plugin directory iterations paths g')
       (\<lambda>(reports, g''). returnW (report # reports, g'')))"

definition bench_totals_of :: "bench_sums \<Rightarrow> bench_totals res" where
  "bench_totals_of g =
     bindR (summarize_latency (bs_latencies g)) (\<lambda>latency.
     let saved = bs_input g - bs_output g
     in Inr \<lparr>bt_samples = word_of_nat (length (bs_latencies g)),
          bt_input_bytes = word_of_nat (bs_input g), bt_output_bytes = word_of_nat (bs_output g),
          bt_saved_bytes = word_of_nat saved,
          bt_savings_percent = savings_bits saved (bs_input g),
          bt_pass_samples = word_of_nat (bs_pass g), bt_optimize_samples = word_of_nat (bs_optimize g),
          bt_latency = latency\<rparr>)"

definition bench_plugin ::
  "deps \<Rightarrow> host_codec \<Rightarrow> (bytes \<Rightarrow> fixture_case option) \<Rightarrow> file_ops \<Rightarrow> dir_ops \<Rightarrow> ('w, 'p) platform
     \<Rightarrow> resolved_plugin \<Rightarrow> string \<Rightarrow> u32 \<Rightarrow> ('w, bench_report) io" where
  "bench_plugin d hc parse fo dr os plugin directory iterations =
     bindW (liftW (reject (\<not> (1 \<le> iterations \<and> iterations \<le> max_iterations)) ''bench.iterations''))
       (\<lambda>_.
     bindW (readW (os_clock_us os)) (\<lambda>started.
     bindW (liftW (fixture_case_paths fo dr directory)) (\<lambda>paths.
     bindW (run_bench_cases d hc parse fo os plugin directory iterations paths fresh_sums)
       (\<lambda>(cases, g).
     bindW (liftW (bench_totals_of g)) (\<lambda>totals.
     bindW (elapsed_ms os started) (\<lambda>ms.
       returnW \<lparr>br_schema_version = 1, br_ok = True, br_plugin_id = mf_id (rp_manifest plugin),
         br_version = mf_version (rp_manifest plugin), br_platform = rp_platform plugin,
         br_release_id = rp_release_id plugin, br_artifact_digest = rp_artifact_digest plugin,
         br_fixture_directory = directory, br_iterations = iterations, br_cases = cases,
         br_totals = totals, br_duration_ms = ms\<rparr>))))))"

end
