(* ===== verification/Bench_Accounting.thy ===== *)
theory Bench_Accounting
  imports Bench_Runner
begin

text \<open>
  What the benchmark runner reports is what the certification pipeline checks: the statistics are
  ordered, the percentages are the doubles the pipeline recomputes, and the totals are the sums over
  the cases.
\<close>

section \<open>Latencies\<close>

lemma index_le: "i < length xs \<Longrightarrow> index xs i = Inr (xs ! i)"
  by (simp add: index_def)

lemma percentile_eq:
  assumes "xs \<noteq> []" and "p \<le> 100"
  shows "percentile xs p = Inr (xs ! ((p * length xs + 99) div 100 - 1))"
    and "(p * length xs + 99) div 100 - 1 < length xs"
proof -
  have "p * length xs \<le> 100 * length xs" using assms(2) by (rule mult_right_mono) simp
  then have "(p * length xs + 99) div 100 \<le> (100 * length xs + 99) div 100"
    by (intro div_le_mono add_right_mono)
  also have "\<dots> = length xs" by simp
  finally show b: "(p * length xs + 99) div 100 - 1 < length xs" using assms(1)
    by (cases xs) auto
  show "percentile xs p = Inr (xs ! ((p * length xs + 99) div 100 - 1))"
    using b by (simp add: percentile_def index_def)
qed

lemma sum_list_between:
  fixes xs :: "nat list"
  assumes "\<And>x. x \<in> set xs \<Longrightarrow> lo \<le> x \<and> x \<le> hi"
  shows "length xs * lo \<le> sum_list xs \<and> sum_list xs \<le> length xs * hi"
  using assms by (induction xs) fastforce+

lemma mean_between:
  fixes n lo hi s :: nat
  assumes "0 < n"
  shows "n * lo \<le> s \<Longrightarrow> lo \<le> s div n" and "s \<le> n * hi \<Longrightarrow> s div n \<le> hi"
  using assms div_le_mono [of s "n * hi" n] by (simp_all add: less_eq_div_iff_mult_less_eq mult.commute)

lemma summarize_latency_valid:
  assumes "samples \<noteq> []"
  shows "\<exists>l. summarize_latency samples = Inr l \<and> valid_latency l"
proof -
  let ?o = "sort samples"
  let ?r = "\<lambda>p. (p * length ?o + 99) div 100 - 1"
  have n: "?o \<noteq> []" using assms by (metis length_0_conv length_sort)
  have mono: "p \<le> q \<Longrightarrow> q \<le> 100 \<Longrightarrow> ?o ! ?r p \<le> ?o ! ?r q" for p q
    using percentile_eq(2) [OF n, of q]
    by (intro sorted_nth_mono) (auto intro!: diff_le_mono div_le_mono mult_right_mono)
  have lo: "?o ! 0 \<le> ?o ! ?r p" and hi: "?o ! ?r p \<le> ?o ! (length ?o - 1)" if "p \<le> 100" for p
    using percentile_eq(2) [OF n that] by (auto intro!: sorted_nth_mono)
  have "?o ! 0 \<le> x \<and> x \<le> ?o ! (length ?o - 1)" if "x \<in> set ?o" for x
  proof -
    from that obtain i where "i < length ?o" "?o ! i = x" by (metis in_set_conv_nth)
    then show ?thesis using sorted_nth_mono [of ?o 0 i] sorted_nth_mono [of ?o i "length ?o - 1"]
      by auto
  qed
  from sum_list_between [of ?o "?o ! 0" "?o ! (length ?o - 1)", OF this]
  have s: "length ?o * (?o ! 0) \<le> sum_list ?o" "sum_list ?o \<le> length ?o * (?o ! (length ?o - 1))"
    by simp_all
  have "0 < length ?o" using assms by simp
  then have mean: "?o ! 0 \<le> sum_list ?o div length ?o"
    "sum_list ?o div length ?o \<le> ?o ! (length ?o - 1)"
    using mean_between(1) [OF _ s(1)] mean_between(2) [OF _ s(2)] by blast+
  have "0 < length ?o" using assms by simp
  then show ?thesis
    using mono [of 50 95] mono [of 95 99] lo [of 50] hi [of 99] mean percentile_eq(1) [OF n]
    by (simp add: summarize_latency_def index_le valid_latency_def Let_def)
qed

section \<open>Percentages\<close>

text \<open>A hundredfold byte count is exact: it is a multiple of four below \<open>2 ^ 55\<close>.\<close>

lemma f64_round_nat: "n < 2 ^ 53 \<Longrightarrow> f64_of_nat n = of_nat n"
  using f64_round_int [of "int n"] by (simp add: f64_of_nat_def)

lemma f64_round_hundredfold:
  assumes "saved * 25 < (2::nat) ^ 53"
  shows "f64_round (of_nat saved * 100) = of_nat saved * 100"
  using f64_round_exact [of "int (saved * 25)" 2] assms by (simp add: pow2_nat mult.commute)

definition savings :: "nat \<Rightarrow> nat \<Rightarrow> rat" where
  "savings saved input = of_nat saved * 100 / of_nat input"

lemma f64_bits_savings:
  assumes "0 < saved" and "saved \<le> input" and "input < 2 ^ 53"
  shows "f64_value (f64_bits (f64_round (savings saved input))) = Some (f64_round (savings saved input))"
proof -
  let ?x = "savings saved input"
  have i: "0 < (of_nat input :: rat)" using assms by simp
  have x: "0 < ?x" "?x \<le> 100" using assms i by (simp_all add: savings_def pos_divide_le_eq)
  have "pow2 (- 53) \<le> ?x"
  proof -
    have "(of_nat input :: rat) < of_nat (2 ^ 53)" using assms(3) by (simp only: of_nat_less_iff)
    also have "\<dots> = pow2 53" by (simp add: pow2_nat)
    finally have "(of_nat input :: rat) \<le> pow2 53" by simp
    then have "pow2 (- 53) * of_nat input \<le> pow2 (- 53) * pow2 53"
      using pow2_pos [of "- 53"] by (simp add: mult_left_mono)
    also have "\<dots> = 1" by (simp add: pow2_def power_int_minus)
    also have "1 \<le> (of_nat saved * 100 :: rat)" using assms(1) by simp
    finally show ?thesis using i by (simp add: savings_def pos_le_divide_eq)
  qed
  moreover have "?x < pow2 (exponent_of ?x + 1)" "pow2 (exponent_of ?x) \<le> ?x"
    using exponent_of_bounds [OF x(1)] by simp_all
  moreover have "100 < pow2 7" by (simp add: pow2_nat)
  ultimately have "pow2 (- 53) < pow2 (exponent_of ?x + 1)" "pow2 (exponent_of ?x) < pow2 7"
    using x(2) by linarith+
  then have e: "- 54 < exponent_of ?x" "exponent_of ?x < 7" by (simp_all add: pow2_less_iff)
  from f64_round_form [OF x(1)] obtain m k where
    "f64_round ?x = of_int m * pow2 (k - 52)" "2 ^ 52 \<le> m" "m < 2 ^ 53"
    "exponent_of ?x \<le> k" "k \<le> exponent_of ?x + 1" by blast
  with f64_value_bits [of m k] e show ?thesis by simp
qed

lemma percentage_reported:
  assumes le: "saved \<le> input" and pos: "0 < input" and b: "input < 3 * 10 ^ 14"
  shows "percentage_matches (savings_bits saved input) (word_of_nat saved) (word_of_nat input)"
proof -
  have small: "saved < 2 ^ 53" "input < 2 ^ 53" "saved * 25 < 2 ^ 53" using le b by simp_all
  let ?y = "f64_round (savings saved input)"
  have words: "unat (word_of_nat saved :: usize) = saved" "unat (word_of_nat input :: usize) = input"
    using small by (simp_all add: unat_of_nat take_bit_nat_eq_self)
  have y: "f64_round (f64_round (f64_of_nat saved * 100) / f64_of_nat input) = ?y"
    using small by (simp add: f64_round_nat f64_round_hundredfold savings_def)
  have "(word_of_nat input :: usize) \<noteq> 0" using words(2) pos by auto
  moreover have "f64_value (savings_bits saved input) = Some ?y \<and> 0 \<le> ?y \<and> ?y \<le> 100"
  proof (cases "saved = 0")
    case True
    then have "?y = 0" by (simp add: savings_def f64_round_def)
    moreover have "f64_value (f64_bits 0) = Some 0" by (simp add: f64_bits_def f64_value_def)
    ultimately show ?thesis using y pos by (simp add: savings_bits_def)
  next
    case False
    have x: "0 < savings saved input" "savings saved input \<le> of_int 100"
      using False pos le by (simp_all add: savings_def pos_divide_le_eq)
    then show ?thesis
      using f64_bits_savings [of saved input] f64_round_le_int [of "savings saved input" 100]
        f64_round_nonneg [of "savings saved input"] False le small y pos
      by (simp add: savings_bits_def)
  qed
  moreover have "0 \<le> f64_round (f64_round (pow2 (- 52) * max \<bar>?y\<bar> 1) * 8)"
    using pow2_pos [of "- 52"] by (intro f64_round_nonneg mult_nonneg_nonneg) simp_all
  ultimately show ?thesis
    by (simp add: percentage_matches_def Let_def words y f64_round_def [of 0])
qed

section \<open>The samples of a case\<close>

text \<open>What a case must look like whose samples reproduced the golden output.\<close>

definition golden_pair :: "bytes \<Rightarrow> optimize_action \<Rightarrow> bytes \<Rightarrow> bool" where
  "golden_pair input act out \<longleftrightarrow>
     length input \<le> input_max_bytes \<and> length out \<le> length input
     \<and> (case act of ActionPass \<Rightarrow> out = input
        | ActionOptimize \<Rightarrow> out \<noteq> [] \<and> 100 * length out < 80 * length input)"

definition golden_output :: "bytes \<Rightarrow> bytes option \<Rightarrow> bytes" where
  "golden_output input expected = (case expected of None \<Rightarrow> input | Some golden \<Rightarrow> golden)"

lemma bench_sample_Inr:
  assumes "bench_sample d hc os plugin tc input expected s w = (Inr s', w')"
  shows "\<exists>attempt us run. s' = record_sample attempt us run s
    \<and> rr_action run = tc_expected_action tc \<and> rr_output run = golden_output input expected
    \<and> rr_input_bytes run = length input \<and> rr_output_bytes run = length (rr_output run)
    \<and> valid_activation_attempt_id attempt
    \<and> golden_pair input (tc_expected_action tc) (golden_output input expected)"
proof -
  from assms obtain attempt us run v v' where
    run: "run_fixture_with_activation d hc os plugin (case_request tc input) attempt v = (Inr run, v')"
    and s: "s' = record_sample attempt us run s"
    and g: "rr_action run = tc_expected_action tc" "rr_output run = golden_output input expected"
    by (auto simp: bench_sample_def io_simps res_simps Let_def golden_output_def)
  from run_fixture_safe [OF run] have "run_safe plugin (case_request tc input) run"
    "valid_activation_attempt_id attempt"
    and v: "validate_fixture_request plugin (case_request tc input) = Inr ()" by auto
  with s g show ?thesis
    by (intro exI [of _ attempt] exI [of _ us] exI [of _ run])
       (auto simp: run_safe_def case_request_def golden_pair_def validate_fixture_request_def Let_def
         res_simps not_less split: optimize_action.splits)
qed

lemma add_bytes_repeat: "add_bytes (add_bytes a b) c = add_bytes a (b + c)"
  by (simp add: add_bytes_def min_def)

definition sums_after :: "nat list \<Rightarrow> nat \<Rightarrow> nat \<Rightarrow> optimize_action \<Rightarrow> bench_sums \<Rightarrow> bench_sums" where
  "sums_after us input out act g =
    (let n = length us
     in \<lparr>bs_latencies = bs_latencies g @ us, bs_input = add_bytes (bs_input g) (n * input),
         bs_output = add_bytes (bs_output g) (n * out),
         bs_pass = bs_pass g + (case act of ActionPass \<Rightarrow> n | ActionOptimize \<Rightarrow> 0),
         bs_optimize = bs_optimize g + (case act of ActionPass \<Rightarrow> 0 | ActionOptimize \<Rightarrow> n)\<rparr>)"

lemma sums_after_Cons:
  assumes "rr_action run = act" and "rr_input_bytes run = input" and "rr_output_bytes run = out"
  shows "sums_after us input out act (snd (record_sample i t run (k, g)))
    = sums_after (t # us) input out act g"
  using assms by (cases act)
    (simp_all add: sums_after_def record_sample_def Let_def add_bytes_repeat)

lemma bench_samples_Inr:
  assumes "bench_samples d hc os plugin tc input expected n (k, g) w = (Inr (k', g'), w')"
    and "0 < n"
  shows "\<exists>us ids. length us = n \<and> length ids = n \<and> list_all valid_activation_attempt_id ids
    \<and> sa_latencies k' = sa_latencies k @ us \<and> sa_attempts k' = sa_attempts k @ ids
    \<and> sa_action k' = Some (tc_expected_action tc) \<and> sa_output k' = Some (golden_output input expected)
    \<and> golden_pair input (tc_expected_action tc) (golden_output input expected)
    \<and> g' = sums_after us (length input) (length (golden_output input expected))
        (tc_expected_action tc) g"
  using assms
proof (induction n arbitrary: k g w)
  case (Suc n)
  from Suc.prems(1) obtain k1 g1 w1 where
    one: "bench_sample d hc os plugin tc input expected (k, g) w = (Inr (k1, g1), w1)"
    and rest: "bench_samples d hc os plugin tc input expected n (k1, g1) w1 = (Inr (k', g'), w')"
    by (auto simp: io_simps)
  from bench_sample_Inr [OF one] obtain i t run where
    r: "(k1, g1) = record_sample i t run (k, g)" "rr_action run = tc_expected_action tc"
    "rr_output run = golden_output input expected" "rr_input_bytes run = length input"
    "rr_output_bytes run = length (rr_output run)" "valid_activation_attempt_id i"
    "golden_pair input (tc_expected_action tc) (golden_output input expected)" by blast
  have k1: "sa_latencies k1 = sa_latencies k @ [t]" "sa_attempts k1 = sa_attempts k @ [i]"
    "sa_action k1 = Some (tc_expected_action tc)" "sa_output k1 = Some (golden_output input expected)"
    using r by (simp_all add: record_sample_def)
  have g1: "sums_after us (length input) (length (golden_output input expected))
      (tc_expected_action tc) g1 = sums_after (t # us) (length input)
      (length (golden_output input expected)) (tc_expected_action tc) g" for us
    using sums_after_Cons [OF r(2) r(4), of "length (golden_output input expected)" us i t k g] r
    by (metis snd_conv)
  show ?case
  proof (cases n)
    case 0
    with rest have "k' = k1" "g' = g1" by (simp_all add: returnW_def)
    moreover have "sums_after [t] (length input) (length (golden_output input expected))
      (tc_expected_action tc) g = g1"
      using r by (cases "tc_expected_action tc")
        (simp_all add: sums_after_def record_sample_def Let_def)
    ultimately show ?thesis using k1 r 0
      by (intro exI [of _ "[t]"] exI [of _ "[i]"]) simp
  next
    case (Suc m)
    from Suc.IH [OF rest] Suc obtain us ids where "length us = n" "length ids = n"
      "list_all valid_activation_attempt_id ids"
      "sa_latencies k' = sa_latencies k1 @ us" "sa_attempts k' = sa_attempts k1 @ ids"
      "sa_action k' = Some (tc_expected_action tc)" "sa_output k' = Some (golden_output input expected)"
      "g' = sums_after us (length input) (length (golden_output input expected))
        (tc_expected_action tc) g1" by auto
    with k1 g1 r show ?thesis
      by (intro exI [of _ "t # us"] exI [of _ "i # ids"]) simp
  qed
qed simp

section \<open>Cases\<close>

text \<open>What the pipeline checks of a case, without its texts and the identity of its attempts.\<close>

definition case_sound :: "u32 \<Rightarrow> bench_case \<Rightarrow> bool" where
  "case_sound iterations c \<longleftrightarrow>
     bc_iterations c = iterations
     \<and> length (bc_activation_attempt_ids c) = unat iterations
     \<and> list_all valid_activation_attempt_id (bc_activation_attempt_ids c)
     \<and> unat (bc_input_bytes c) \<le> input_max_bytes \<and> bc_output_bytes c \<le> bc_input_bytes c
     \<and> bc_saved_bytes c = bc_input_bytes c - bc_output_bytes c
     \<and> (bc_input_bytes c \<noteq> 0 \<longrightarrow>
          percentage_matches (bc_savings_percent c) (bc_saved_bytes c) (bc_input_bytes c))
     \<and> \<not> case_action_bad c \<and> valid_latency (bc_latency c)"

lemma bench_case_report_sound:
  assumes k: "sa_latencies k = us" "length us = unat iterations" "0 < unat iterations"
    "sa_attempts k = ids" "length ids = unat iterations" "list_all valid_activation_attempt_id ids"
    "sa_action k = Some act" "sa_output k = Some out"
    and p: "golden_pair input act out"
    and r: "bench_case_report path iterations tc input k = Inr c"
  shows "case_sound iterations c \<and> bc_path c = path \<and> bc_name c = tc_name tc \<and> bc_action c = act
    \<and> unat (bc_input_bytes c) = length input \<and> unat (bc_output_bytes c) = length out"
proof -
  have "us \<noteq> []" using k by auto
  then obtain l where l: "summarize_latency us = Inr l" "valid_latency l"
    using summarize_latency_valid by blast
  have b: "length input \<le> 16777216" "length out \<le> length input"
    using p by (simp_all add: golden_pair_def input_max_bytes_def)
  have w: "unat (word_of_nat n :: usize) = n" if "n \<le> 16777216" for n
    using that by (simp add: unat_of_nat take_bit_nat_eq_self)
  have zero: "(word_of_nat n :: usize) = 0 \<longleftrightarrow> n = 0" if "n \<le> 16777216" for n
    using w [OF that] by auto
  have sub: "(word_of_nat (length input - length out) :: usize) = word_of_nat (length input) - word_of_nat (length out)"
    using b(2) by (simp add: of_nat_diff)
  have c: "c = \<lparr>bc_name = tc_name tc, bc_path = path, bc_iterations = iterations,
      bc_input_bytes = word_of_nat (length input), bc_output_bytes = word_of_nat (length out),
      bc_saved_bytes = word_of_nat (length input - length out),
      bc_savings_percent = savings_bits (length input - length out) (length input),
      bc_action = act, bc_activation_attempt_ids = ids, bc_latency = l\<rparr>"
    using r k l by (simp add: bench_case_report_def ok_or_panic_def Let_def)
  have "input \<noteq> [] \<Longrightarrow> percentage_matches (savings_bits (length input - length out) (length input))
      (word_of_nat (length input - length out)) (word_of_nat (length input))"
    using b by (intro percentage_reported) simp_all
  moreover have "\<not> case_action_bad c"
    using p b w zero by (cases act) (auto simp: case_action_bad_def c golden_pair_def)
  moreover have "input = [] \<longleftrightarrow> (word_of_nat (length input) :: usize) = 0"
    using zero [OF b(1)] by simp
  ultimately show ?thesis
    using k l b w sub by (auto simp: case_sound_def c input_max_bytes_def word_le_nat_alt)
qed

lemma run_bench_case_Inr:
  assumes run: "run_bench_case d hc parse fo os plugin directory iterations path g w = (Inr (c, g'), w')"
    and it: "0 < unat iterations"
  shows "case_sound iterations c \<and> bc_path c = path \<and> (\<exists>us. length us = unat iterations
    \<and> g' = sums_after us (unat (bc_input_bytes c)) (unat (bc_output_bytes c)) (bc_action c) g)"
proof -
  from run obtain tc input expected k v v' where
    s: "bench_samples d hc os plugin tc input expected (unat iterations) (fresh_sampling, g) v
      = (Inr (k, g'), v')"
    and r: "bench_case_report path iterations tc input k = Inr c"
    by (auto simp: run_bench_case_def io_simps)
  from bench_samples_Inr [OF s it] obtain us ids where u: "length us = unat iterations"
    "length ids = unat iterations" "list_all valid_activation_attempt_id ids"
    "sa_latencies k = us" "sa_attempts k = ids" "sa_action k = Some (tc_expected_action tc)"
    "sa_output k = Some (golden_output input expected)"
    "golden_pair input (tc_expected_action tc) (golden_output input expected)"
    "g' = sums_after us (length input) (length (golden_output input expected)) (tc_expected_action tc) g"
    by (auto simp: fresh_sampling_def)
  from bench_case_report_sound [OF u(4,1) it u(5,2,3,6,7,8) r] u(1,9) show ?thesis by auto
qed

definition action_samples :: "optimize_action \<Rightarrow> u32 \<Rightarrow> bench_case list \<Rightarrow> nat" where
  "action_samples act iterations cs =
     (\<Sum>c\<leftarrow>cs. if bc_action c = act then unat iterations else 0)"

lemma run_bench_cases_Inr:
  assumes "run_bench_cases d hc parse fo os plugin directory iterations paths g w = (Inr (cs, g'), w')"
    and it: "0 < unat iterations" and "bs_input g \<le> u64_max" and "bs_output g \<le> u64_max"
  shows "list_all (case_sound iterations) cs \<and> map bc_path cs = paths
    \<and> length (bs_latencies g') = length (bs_latencies g) + length cs * unat iterations
    \<and> bs_input g' = add_bytes (bs_input g) (\<Sum>c\<leftarrow>cs. unat (bc_input_bytes c) * unat iterations)
    \<and> bs_output g' = add_bytes (bs_output g) (\<Sum>c\<leftarrow>cs. unat (bc_output_bytes c) * unat iterations)
    \<and> bs_pass g' = bs_pass g + action_samples ActionPass iterations cs
    \<and> bs_optimize g' = bs_optimize g + action_samples ActionOptimize iterations cs"
  using assms(1,3,4)
proof (induction paths arbitrary: g w cs)
  case Nil
  then show ?case by (auto simp: returnW_def add_bytes_def action_samples_def)
next
  case (Cons path paths)
  from Cons.prems(1) obtain c g1 w1 cs' where
    1: "run_bench_case d hc parse fo os plugin directory iterations path g w = (Inr (c, g1), w1)"
    and 2: "run_bench_cases d hc parse fo os plugin directory iterations paths g1 w1 = (Inr (cs', g'), w')"
    and cs: "cs = c # cs'"
    by (auto simp: io_simps)
  from run_bench_case_Inr [OF 1 it] obtain us where u: "case_sound iterations c" "bc_path c = path"
    "length us = unat iterations"
    "g1 = sums_after us (unat (bc_input_bytes c)) (unat (bc_output_bytes c)) (bc_action c) g" by blast
  have "bs_input g1 \<le> u64_max" "bs_output g1 \<le> u64_max"
    by (simp_all add: u(4) sums_after_def Let_def add_bytes_def)
  from Cons.IH [OF 2 this] u cs show ?case
    by (cases "bc_action c")
       (simp_all add: sums_after_def Let_def action_samples_def add_bytes_repeat mult.commute)
qed

section \<open>The pipeline's scan\<close>

lemma checked_mul_count:
  fixes n :: usize and iterations :: u32
  assumes "unat n * unat iterations < 2 ^ 64"
  shows "\<exists>x. checked_mul n (ucast iterations) = Some x \<and> unat x = unat n * unat iterations"
  using assms unat_mult_no_wrap [of n "ucast iterations"]
  by (simp add: checked_mul_def unat_ucast_up)

lemma add_repeated_ok:
  assumes "unat acc + unat n * unat iterations < 2 ^ 64"
  shows "\<exists>x. add_repeated acc n iterations = Inr x
    \<and> unat x = unat acc + unat n * unat iterations"
proof -
  from assms obtain x where x: "checked_mul n (ucast iterations) = Some x"
    "unat x = unat n * unat iterations"
    using checked_mul_count [of n iterations] by auto
  then have "checked_add acc x = Some (acc + x)" using assms by (simp add: checked_add_def)
  with x assms show ?thesis by (simp add: add_repeated_def unat_plus_no_wrap)
qed

text \<open>The sums after a scan, as natural numbers.\<close>

definition scan_sums :: "u32 \<Rightarrow> bench_acc \<Rightarrow> bench_case list \<Rightarrow> bench_acc \<Rightarrow> bool" where
  "scan_sums iterations acc cs acc' \<longleftrightarrow>
     unat (ac_input acc') = unat (ac_input acc) + (\<Sum>c\<leftarrow>cs. unat (bc_input_bytes c) * unat iterations)
     \<and> unat (ac_output acc')
         = unat (ac_output acc) + (\<Sum>c\<leftarrow>cs. unat (bc_output_bytes c) * unat iterations)
     \<and> unat (ac_pass acc') = unat (ac_pass acc) + action_samples ActionPass iterations cs
     \<and> unat (ac_optimize acc') = unat (ac_optimize acc) + action_samples ActionOptimize iterations cs"

definition scan_fits :: "u32 \<Rightarrow> bench_acc \<Rightarrow> bench_case list \<Rightarrow> bool" where
  "scan_fits iterations acc cs \<longleftrightarrow>
     unat (ac_input acc) + (\<Sum>c\<leftarrow>cs. unat (bc_input_bytes c) * unat iterations) < 2 ^ 64
     \<and> unat (ac_output acc) + (\<Sum>c\<leftarrow>cs. unat (bc_output_bytes c) * unat iterations) < 2 ^ 64
     \<and> unat (ac_pass acc) + action_samples ActionPass iterations cs < 2 ^ 64
     \<and> unat (ac_optimize acc) + action_samples ActionOptimize iterations cs < 2 ^ 64"

lemma scan_cases_complete:
  assumes "list_all (case_ok iterations) cs" and "distinct (map bc_name cs)"
    and "bc_name ` set cs \<inter> ac_names acc = {}" and "scan_fits iterations acc cs"
  shows "\<exists>acc'. scan_cases iterations acc cs = Inr acc' \<and> scan_sums iterations acc cs acc'"
  using assms
proof (induction cs arbitrary: acc)
  case Nil
  then show ?case by (simp add: scan_sums_def action_samples_def)
next
  case (Cons c cs)
  let ?acc = "count_action iterations c (acc\<lparr>ac_names := insert (bc_name c) (ac_names acc)\<rparr>)"
  have ok: "\<not> case_fields_bad iterations (ac_names acc) c" "\<not> case_action_bad c"
    using Cons.prems(1,3) by (auto simp: case_ok_def case_fields_bad_def distinct_remdups_id)
  have fits: "unat (ac_input ?acc) + unat (bc_input_bytes c) * unat iterations < 2 ^ 64"
    "unat (ac_output ?acc) + unat (bc_output_bytes c) * unat iterations < 2 ^ 64"
    using Cons.prems(4) by (auto simp: scan_fits_def count_action_fields)
  from add_repeated_ok [OF fits(1)] add_repeated_ok [OF fits(2)] obtain i j where
    ij: "add_repeated (ac_input ?acc) (bc_input_bytes c) iterations = Inr i"
      "add_repeated (ac_output ?acc) (bc_output_bytes c) iterations = Inr j"
      "unat i = unat (ac_input acc) + unat (bc_input_bytes c) * unat iterations"
      "unat j = unat (ac_output acc) + unat (bc_output_bytes c) * unat iterations"
    by (auto simp: count_action_fields)
  let ?next = "?acc\<lparr>ac_input := i, ac_output := j\<rparr>"
  have acts: "unat (ac_pass ?next) = unat (ac_pass acc) + action_samples ActionPass iterations [c]"
    "unat (ac_optimize ?next) = unat (ac_optimize acc) + action_samples ActionOptimize iterations [c]"
    using Cons.prems(4)
    by (cases "bc_action c"; simp add: scan_fits_def count_action_def action_samples_def
        unat_saturating_add unat_ucast_up)+
  have "scan_fits iterations ?next cs"
    using Cons.prems(4) ij acts by (simp add: scan_fits_def action_samples_def)
  moreover have "bc_name ` set cs \<inter> ac_names ?next = {}"
    using Cons.prems(2,3) by (auto simp: count_action_fields)
  ultimately obtain acc' where "scan_cases iterations ?next cs = Inr acc'"
    "scan_sums iterations ?next cs acc'"
    using Cons.IH [of ?next] Cons.prems(1,2) by auto
  with ok ij acts show ?case
    by (auto simp: Let_def scan_sums_def action_samples_def)
qed

lemma case_ok_sound:
  assumes "case_sound iterations c"
  shows "case_ok iterations c \<longleftrightarrow>
    valid_text (bc_name c) 1 256 \<and> valid_text (bc_path c) 1 4096 \<and> bc_input_bytes c \<noteq> 0
    \<and> distinct (bc_activation_attempt_ids c)"
  using assms
  by (auto simp: case_ok_def case_fields_bad_def case_sound_def list_ex_iff list_all_iff
      distinct_remdups_id length_remdups_card_conv card_distinct distinct_card)

section \<open>The report\<close>

lemma sum_list_bound:
  fixes f :: "'a \<Rightarrow> nat"
  assumes "\<And>x. x \<in> set xs \<Longrightarrow> f x \<le> b" and "length xs \<le> n"
  shows "(\<Sum>x\<leftarrow>xs. f x) \<le> n * b"
proof -
  have "(\<Sum>x\<leftarrow>xs. f x) \<le> length xs * b"
    using sum_list_between [of "map f xs" 0 b] assms(1) by auto
  also have "\<dots> \<le> n * b" using assms(2) by (rule mult_right_mono) simp
  finally show ?thesis .
qed

lemma action_samples_total:
  "action_samples ActionPass iterations cs + action_samples ActionOptimize iterations cs
    = length cs * unat iterations"
proof (induction cs)
  case (Cons c cs)
  then show ?case by (cases "bc_action c") (simp_all add: action_samples_def)
qed (simp add: action_samples_def)

text \<open>What the runner leaves to the corpus, to chance and to the release it was run on.\<close>

definition corpus_ok :: "bench_report \<Rightarrow> bool" where
  "corpus_ok r \<longleftrightarrow>
     distinct (map bc_name (br_cases r)) \<and> length (br_cases r) \<le> max_benchmark_cases
     \<and> list_all (\<lambda>c. valid_text (bc_name c) 1 256 \<and> valid_text (bc_path c) 1 4096
          \<and> bc_input_bytes c \<noteq> 0 \<and> distinct (bc_activation_attempt_ids c)) (br_cases r)
     \<and> valid_text (br_fixture_directory r) 1 4096
     \<and> br_duration_ms r \<le> unat max_stage_duration_seconds * 1000"

definition report_of_subject :: "bench_report \<Rightarrow> subject \<Rightarrow> bool" where
  "report_of_subject r sj \<longleftrightarrow>
     br_plugin_id r = sj_plugin_id sj \<and> br_version r = sj_version sj
     \<and> br_platform r = sj_platform sj \<and> br_release_id r = sj_release_id sj
     \<and> br_artifact_digest r = sj_artifact_digest sj"

text \<open>The shape of every report the runner returns.\<close>

definition bench_made :: "bench_report \<Rightarrow> bench_sums \<Rightarrow> bool" where
  "bench_made r g \<longleftrightarrow>
     br_schema_version r = 1 \<and> br_ok r \<and> 1 \<le> br_iterations r \<and> br_iterations r \<le> max_iterations
     \<and> br_cases r \<noteq> [] \<and> list_all (case_sound (br_iterations r)) (br_cases r)
     \<and> length (bs_latencies g) = length (br_cases r) * unat (br_iterations r)
     \<and> bs_input g = min u64_max (total_input r) \<and> bs_output g = min u64_max (total_output r)
     \<and> bs_pass g = action_samples ActionPass (br_iterations r) (br_cases r)
     \<and> bs_optimize g = action_samples ActionOptimize (br_iterations r) (br_cases r)
     \<and> bench_totals_of g = Inr (br_totals r)"

lemma bench_plugin_Inr:
  assumes "bench_plugin d hc parse fo dr os plugin directory iterations w = (Inr r, w')"
  shows "\<exists>g. bench_made r g"
    and "br_release_id r = rp_release_id plugin" and "br_iterations r = iterations"
    and "fixture_case_paths fo dr directory = Inr (map bc_path (br_cases r))"
proof -
  from assms obtain paths cs g v v' totals ms where it: "1 \<le> iterations" "iterations \<le> max_iterations"
    and paths: "fixture_case_paths fo dr directory = Inr paths"
    and run: "run_bench_cases d hc parse fo os plugin directory iterations paths fresh_sums v = (Inr (cs, g), v')"
    and t: "bench_totals_of g = Inr totals"
    and r: "r = \<lparr>br_schema_version = 1, br_ok = True, br_plugin_id = mf_id (rp_manifest plugin),
         br_version = mf_version (rp_manifest plugin), br_platform = rp_platform plugin,
         br_release_id = rp_release_id plugin, br_artifact_digest = rp_artifact_digest plugin,
         br_fixture_directory = directory, br_iterations = iterations, br_cases = cs,
         br_totals = totals, br_duration_ms = ms\<rparr>"
    by (auto simp: bench_plugin_def io_simps res_simps)
  have "0 < unat iterations" using it(1) by (auto simp: word_le_nat_alt)
  from run_bench_cases_Inr [OF run this]
  have c: "list_all (case_sound iterations) cs" "map bc_path cs = paths"
    "length (bs_latencies g) = length cs * unat iterations"
    "bs_input g = min u64_max (\<Sum>c\<leftarrow>cs. unat (bc_input_bytes c) * unat iterations)"
    "bs_output g = min u64_max (\<Sum>c\<leftarrow>cs. unat (bc_output_bytes c) * unat iterations)"
    "bs_pass g = action_samples ActionPass iterations cs"
    "bs_optimize g = action_samples ActionOptimize iterations cs"
    by (simp_all add: fresh_sums_def add_bytes_def)
  moreover have "cs \<noteq> []"
    using paths c(2) by (auto simp: fixture_case_paths_def res_simps Let_def)
  ultimately have "bench_made r g"
    using it t by (simp add: bench_made_def r total_input_def total_output_def)
  then show "\<exists>g. bench_made r g" ..
  show "br_release_id r = rp_release_id plugin" "br_iterations r = iterations"
    "fixture_case_paths fo dr directory = Inr (map bc_path (br_cases r))"
    using paths c(2) by (simp_all add: r)
qed

lemma bench_made_bounds:
  assumes made: "bench_made r g" and n: "length (br_cases r) \<le> max_benchmark_cases"
  shows "total_input r < 3 * 10 ^ 14" and "total_output r \<le> total_input r"
    and "length (br_cases r) * unat (br_iterations r) \<le> 10 ^ 7"
proof -
  have it: "unat (br_iterations r) \<le> 100"
    using made by (simp add: bench_made_def max_iterations_def word_le_nat_alt)
  have cs: "case_sound (br_iterations r) c" if "c \<in> set (br_cases r)" for c
    using made that by (simp add: bench_made_def list_all_iff)
  have b: "unat (bc_input_bytes c) * unat (br_iterations r) \<le> 16777216 * 100"
    "unat (bc_output_bytes c) * unat (br_iterations r) \<le> unat (bc_input_bytes c) * unat (br_iterations r)"
    if "c \<in> set (br_cases r)" for c
  proof -
    have "unat (bc_input_bytes c) \<le> 16777216" "unat (bc_output_bytes c) \<le> unat (bc_input_bytes c)"
      using cs [OF that] by (simp_all add: case_sound_def input_max_bytes_def word_le_nat_alt)
    then show "unat (bc_input_bytes c) * unat (br_iterations r) \<le> 16777216 * 100"
      "unat (bc_output_bytes c) * unat (br_iterations r) \<le> unat (bc_input_bytes c) * unat (br_iterations r)"
      using it by (simp_all only: mult_le_mono mult_le_mono1)
  qed
  have "total_input r \<le> 100000 * (16777216 * 100)"
    unfolding total_input_def using b(1) n
    by (intro sum_list_bound) (auto simp: max_benchmark_cases_def)
  then show "total_input r < 3 * 10 ^ 14" by simp
  show "total_output r \<le> total_input r"
    unfolding total_input_def total_output_def using b(2) by (rule sum_list_mono)
  have "length (br_cases r) * unat (br_iterations r) \<le> 100000 * 100"
    using n it by (intro mult_mono) (auto simp: max_benchmark_cases_def)
  then show "length (br_cases r) * unat (br_iterations r) \<le> 10 ^ 7" by simp
qed

lemma total_input_pos:
  assumes made: "bench_made r g" and c: "list_all (\<lambda>c. bc_input_bytes c \<noteq> 0) (br_cases r)"
  shows "0 < total_input r"
proof -
  obtain x xs where x: "br_cases r = x # xs" using made by (cases "br_cases r") (auto simp: bench_made_def)
  have "0 < unat (bc_input_bytes x) * unat (br_iterations r)"
    using made c x by (auto simp: bench_made_def word_le_nat_alt unat_gt_0)
  then show ?thesis by (simp add: total_input_def x)
qed

lemma summarize_latency_Inr: "summarize_latency xs = Inr l \<Longrightarrow> valid_latency l"
  using summarize_latency_valid [of xs] by (cases "xs = []") (auto simp: summarize_latency_def index_def)

lemma saturating_add_count:
  fixes x y :: usize
  assumes "unat x + unat y = n" and "n < 2 ^ 64"
  shows "saturating_add x y = word_of_nat n"
proof -
  have "word_of_nat n = word_of_nat (unat x) + (word_of_nat (unat y) :: usize)"
    unfolding assms(1) [symmetric] by (rule of_nat_add)
  then show ?thesis using assms by (simp add: saturating_add_def)
qed

lemma bench_made_totals:
  assumes made: "bench_made r g" and n: "length (br_cases r) \<le> max_benchmark_cases"
    and pos: "0 < total_input r" and sc: "scan_sums (br_iterations r) bench_start (br_cases r) acc"
  shows "bt_samples (br_totals r) = word_of_nat (length (br_cases r) * unat (br_iterations r))
    \<and> bt_input_bytes (br_totals r) = ac_input acc \<and> bt_output_bytes (br_totals r) = ac_output acc
    \<and> bt_saved_bytes (br_totals r) = saturating_sub (ac_input acc) (ac_output acc)
    \<and> bt_pass_samples (br_totals r) = ac_pass acc \<and> bt_optimize_samples (br_totals r) = ac_optimize acc
    \<and> saturating_add (ac_pass acc) (ac_optimize acc)
        = word_of_nat (length (br_cases r) * unat (br_iterations r))
    \<and> percentage_matches (bt_savings_percent (br_totals r))
        (saturating_sub (ac_input acc) (ac_output acc)) (ac_input acc)
    \<and> valid_latency (bt_latency (br_totals r))"
proof -
  note b = bench_made_bounds [OF made n]
  have io: "bs_input g = total_input r" "bs_output g = total_output r"
    using made b(1,2) by (simp_all add: bench_made_def u64_max_def)
  have acc: "unat (ac_input acc) = total_input r" "unat (ac_output acc) = total_output r"
    "unat (ac_pass acc) = bs_pass g" "unat (ac_optimize acc) = bs_optimize g"
    using made sc by (simp_all add: scan_sums_def bench_start_def total_input_def total_output_def
        bench_made_def)
  then have words: "word_of_nat (total_input r) = ac_input acc" "word_of_nat (total_output r) = ac_output acc"
    "word_of_nat (bs_pass g) = ac_pass acc" "word_of_nat (bs_optimize g) = ac_optimize acc"
    by (simp_all flip: acc)
  have le: "ac_output acc \<le> ac_input acc" using b(2) acc by (simp add: word_le_nat_alt)
  then have saved: "word_of_nat (total_input r - total_output r) = saturating_sub (ac_input acc) (ac_output acc)"
    using b(2) words by (simp add: of_nat_diff saturating_sub_def)
  have "unat (ac_pass acc) + unat (ac_optimize acc) = length (br_cases r) * unat (br_iterations r)"
    using acc made action_samples_total [of "br_iterations r" "br_cases r"] by (simp add: bench_made_def)
  then have "saturating_add (ac_pass acc) (ac_optimize acc)
      = word_of_nat (length (br_cases r) * unat (br_iterations r))"
    using b(3) by (intro saturating_add_count) simp_all
  moreover have "percentage_matches (savings_bits (total_input r - total_output r) (total_input r))
      (word_of_nat (total_input r - total_output r)) (word_of_nat (total_input r))"
    using pos b(1) by (intro percentage_reported) simp_all
  moreover have "length (bs_latencies g) = length (br_cases r) * unat (br_iterations r)"
    using made by (simp add: bench_made_def)
  moreover obtain l where "summarize_latency (bs_latencies g) = Inr l"
    and t: "br_totals r = \<lparr>bt_samples = word_of_nat (length (bs_latencies g)),
          bt_input_bytes = word_of_nat (bs_input g), bt_output_bytes = word_of_nat (bs_output g),
          bt_saved_bytes = word_of_nat (bs_input g - bs_output g),
          bt_savings_percent = savings_bits (bs_input g - bs_output g) (bs_input g),
          bt_pass_samples = word_of_nat (bs_pass g), bt_optimize_samples = word_of_nat (bs_optimize g),
          bt_latency = l\<rparr>"
    using made by (auto simp: bench_made_def bench_totals_of_def res_simps Let_def)
  ultimately show ?thesis
    using words saved summarize_latency_Inr by (simp add: io)
qed

lemma corpus_case_ok:
  assumes "bench_made r g" and "corpus_ok r"
  shows "list_all (case_ok (br_iterations r)) (br_cases r)"
  using assms by (auto simp: bench_made_def corpus_ok_def list_all_iff case_ok_sound)

lemma bench_made_accepted:
  assumes made: "bench_made r g" and corpus: "corpus_ok r" and sj: "report_of_subject r sj"
  shows "validate_benchmark_report r sj = Inr ()"
proof -
  let ?it = "br_iterations r" and ?cs = "br_cases r"
  have n: "length ?cs \<le> max_benchmark_cases" using corpus by (simp add: corpus_ok_def)
  note b = bench_made_bounds [OF made n]
  have pos: "0 < total_input r"
    using total_input_pos [OF made] corpus by (simp add: corpus_ok_def list_all_iff)
  have "action_samples ActionPass ?it ?cs \<le> 10 ^ 7" "action_samples ActionOptimize ?it ?cs \<le> 10 ^ 7"
    using action_samples_total [of ?it ?cs] b(3) by linarith+
  then have "scan_fits ?it bench_start ?cs"
    using b by (simp add: scan_fits_def bench_start_def total_input_def total_output_def)
  from scan_cases_complete [OF corpus_case_ok [OF made corpus] _ _ this] corpus obtain acc where
    acc: "scan_cases ?it bench_start ?cs = Inr acc" "scan_sums ?it bench_start ?cs acc"
    by (auto simp: corpus_ok_def bench_start_def)
  note t = bench_made_totals [OF made n pos acc(2)]
  have len: "unat (word_of_nat (length ?cs) :: usize) = length ?cs"
    using n by (simp add: max_benchmark_cases_def unat_of_nat take_bit_nat_eq_self)
  from b(3) obtain x :: usize where x: "checked_mul (word_of_nat (length ?cs)) (ucast ?it) = Some x"
    "unat x = length ?cs * unat ?it"
    using checked_mul_count [of "word_of_nat (length ?cs)" ?it] by (auto simp: len)
  from x(2) have "x = word_of_nat (length ?cs * unat ?it)" by (simp flip: x(2))
  with t acc x(1) made corpus sj show ?thesis
    by (simp add: validate_benchmark_report_def bench_made_def corpus_ok_def report_of_subject_def
        Let_def)
qed

lemma bench_made_valid_iff:
  assumes made: "bench_made r g"
  shows "validate_benchmark_report r sj = Inr () \<longleftrightarrow> corpus_ok r \<and> report_of_subject r sj"
proof
  assume v: "validate_benchmark_report r sj = Inr ()"
  have "list_all (case_ok (br_iterations r)) (br_cases r)" "distinct (map bc_name (br_cases r))"
    using validate_benchmark_report_Inr [OF v] by simp_all
  moreover have "case_sound (br_iterations r) c" if "c \<in> set (br_cases r)" for c
    using made that by (simp add: bench_made_def list_all_iff)
  ultimately show "corpus_ok r \<and> report_of_subject r sj"
    using v by (auto simp: corpus_ok_def report_of_subject_def validate_benchmark_report_def res_simps
        list_all_iff case_ok_sound)
qed (use bench_made_accepted [OF made] in blast)

end
