(* ===== verification/Corpus.thy ===== *)
theory Corpus
  imports Golden Bench_Accounting
begin

text \<open>
  From a plugin to an accepted benchmark: a plugin that passes its fixture suite can be benchmarked,
  and the certification pipeline accepts the report for every well-formed corpus.
\<close>

section \<open>SDK plugins can be benchmarked\<close>

lemma case_files_code:
  assumes "case_files fo code directory path tc = Inr x"
  shows "case_files fo code' directory path tc = Inr x"
proof -
  have "read_bounded_file fo p n code = Inr y \<Longrightarrow> read_bounded_file fo p n code' = Inr y" for p n y
    by (auto simp: read_bounded_file_def res_simps split: lookup.splits)
  with assms show ?thesis
    by (cases "tc_expected_output tc") (auto simp: case_files_def res_simps Let_def)
qed

definition consistent :: "fixture_case \<Rightarrow> bytes \<Rightarrow> bytes option \<Rightarrow> sampling \<Rightarrow> bool" where
  "consistent tc input expected k \<longleftrightarrow>
     sa_action k \<in> {None, Some (tc_expected_action tc)}
     \<and> sa_output k \<in> {None, Some (golden_output input expected)}"

lemma bench_sample_sdk:
  assumes conf: "sdk_setup d c hc os pl opt plugin"
    and run: "runnable d hc parse fo (os_file_name os) plugin directory path tc input expected"
    and rep: "reproduces pl opt (os_file_name os) plugin tc input expected"
    and k: "consistent tc input expected k"
  shows "\<exists>k' g' w'. bench_sample d hc os plugin tc input expected (k, g) w = (Inr (k', g'), w')
    \<and> consistent tc input expected k'"
proof -
  let ?xr = "case_request tc input"
  have h: "hosts os (rp_budget_ms plugin) (sdk_peer d c pl opt)"
    and b64: "base64_roundtrip d" and wire: "wire_ok d c hc pl"
    and ident: "plugin_id pl = mf_id (rp_manifest plugin)"
      "plugin_version pl = mf_version (rp_manifest plugin)"
    and s1: "sendable hc (rpc_call 1 ''initialize'' (initialize_args (rp_budget_ms plugin)))"
    using conf by (simp_all add: sdk_setup_def)
  have vr: "validate_fixture_request plugin ?xr = Inr ()"
    and s2: "sendable hc (rpc_call 2 ''optimize'' (optimize_args (xr_kind ?xr)
        (program_basename (os_file_name os) (xr_program ?xr)) (sint (xr_exit_code ?xr))
        (b64_encode d (xr_content ?xr)) (rp_budget_ms plugin)))"
    and raw: "xr_content ?xr = input"
    using run by (simp_all add: runnable_def case_request_def)
  from hosts_attempt [OF h] obtain i w1 where i: "new_attempt_id os w = (Inr i, w1)"
    "valid_activation_attempt_id i" by blast
  obtain t0 w2 where t0: "os_clock_us os w1 = (t0, w2)" by (cases "os_clock_us os w1")
  have "action_verdict input (fst (optimize pl opt \<lparr>req_kind = xr_kind ?xr,
      req_program = program_basename (os_file_name os) (xr_program ?xr),
      req_exit_code = xr_exit_code ?xr, req_text = input,
      req_budget_ms = rp_budget_ms plugin\<rparr>)) = Inr (tc_expected_action tc, expected)"
    using rep by (simp add: reproduces_def golden_request_def case_request_def)
  with run_fixture_sdk [OF b64 wire ident h vr i(2) s1 s2, of w2, unfolded raw]
  obtain r w3 where r: "run_fixture_with_activation d hc os plugin ?xr i w2 = (Inr r, w3)"
    "rr_action r = tc_expected_action tc" "rr_output r = golden_output input expected"
    by (auto simp: golden_output_def)
  obtain t1 w4 where t1: "os_clock_us os w3 = (t1, w4)" by (cases "os_clock_us os w3")
  have "\<not> differs (sa_action k) (rr_action r)" "\<not> differs (sa_output k) (rr_output r)"
    using k r by (auto simp: consistent_def differs_def)
  with vr i(1) t0 r t1
  have "bench_sample d hc os plugin tc input expected (k, g) w
      = (Inr (record_sample i (t1 - t0) r (k, g)), w4)"
    by (simp add: bench_sample_def bindW_def liftW_def readW_def returnW_def elapsed_us_def Let_def
        golden_output_def [symmetric] reject_def)
  moreover have "consistent tc input expected (fst (record_sample i (t1 - t0) r (k, g)))"
    using r by (simp add: record_sample_def consistent_def)
  ultimately show ?thesis by (metis prod.collapse)
qed

lemma bench_samples_sdk:
  assumes conf: "sdk_setup d c hc os pl opt plugin"
    and run: "runnable d hc parse fo (os_file_name os) plugin directory path tc input expected"
    and rep: "reproduces pl opt (os_file_name os) plugin tc input expected"
  shows "consistent tc input expected k \<Longrightarrow>
    \<exists>s w'. bench_samples d hc os plugin tc input expected n (k, g) w = (Inr s, w')"
proof (induction n arbitrary: k g w)
  case (Suc n)
  from bench_sample_sdk [OF conf run rep Suc.prems, of g w] obtain k1 g1 w1 where
    "bench_sample d hc os plugin tc input expected (k, g) w = (Inr (k1, g1), w1)"
    "consistent tc input expected k1" by blast
  with Suc.IH [of k1 g1 w1] show ?case by (auto simp: bindW_def)
qed (auto simp: returnW_def)

lemma bench_case_sdk:
  assumes conf: "sdk_setup d c hc os pl opt plugin" and it: "0 < unat iterations"
    and run: "runnable d hc parse fo (os_file_name os) plugin directory path tc input expected"
    and rep: "reproduces pl opt (os_file_name os) plugin tc input expected"
  shows "\<exists>r w'. run_bench_case d hc parse fo os plugin directory iterations path g w = (Inr r, w')"
proof -
  have l: "load_case parse fo path = Inr tc"
    "case_files fo ''bench.expected'' directory path tc = Inr (input, expected)"
    using run case_files_code [of fo "''test.expected''" directory path tc "(input, expected)"]
    by (simp_all add: runnable_def)
  have "consistent tc input expected fresh_sampling" by (simp add: consistent_def fresh_sampling_def)
  from bench_samples_sdk [OF conf run rep this, of "unat iterations" g w] obtain k g' w' where
    s: "bench_samples d hc os plugin tc input expected (unat iterations) (fresh_sampling, g) w
      = (Inr (k, g'), w')" by auto
  from bench_samples_Inr [OF s it] obtain us where u: "length us = unat iterations"
    "sa_latencies k = us" "sa_action k = Some (tc_expected_action tc)"
    "sa_output k = Some (golden_output input expected)"
    by (auto simp: fresh_sampling_def)
  have "us \<noteq> []" using u(1) it by auto
  with summarize_latency_valid [of us] u have "\<exists>c. bench_case_report path iterations tc input k = Inr c"
    by (auto simp: bench_case_report_def ok_or_panic_def Let_def)
  with l s show ?thesis
    by (auto simp: run_bench_case_def bindW_def liftW_def returnW_def)
qed

lemma bench_cases_sdk:
  assumes conf: "sdk_setup d c hc os pl opt plugin" and it: "0 < unat iterations"
    and run: "\<And>p. p \<in> set paths \<Longrightarrow> runnable d hc parse fo (os_file_name os) plugin directory p
      (case_at p) (input_at p) (golden_at p)"
    and rep: "\<And>p. p \<in> set paths \<Longrightarrow> reproduces pl opt (os_file_name os) plugin (case_at p) (input_at p)
      (golden_at p)"
  shows "\<exists>r w'. run_bench_cases d hc parse fo os plugin directory iterations paths g w = (Inr r, w')"
  using run rep
proof (induction paths arbitrary: g w)
  case (Cons p paths)
  from bench_case_sdk [OF conf it Cons.prems, of p g w] obtain c g1 w1 where
    "run_bench_case d hc parse fo os plugin directory iterations p g w = (Inr (c, g1), w1)" by auto
  moreover from Cons.IH [of g1 w1] Cons.prems obtain cs g2 w2 where
    "run_bench_cases d hc parse fo os plugin directory iterations paths g1 w1 = (Inr (cs, g2), w2)"
    by auto
  ultimately show ?case by (simp add: bindW_def returnW_def)
qed (simp add: returnW_def)

lemma bench_plugin_sdk:
  assumes conf: "sdk_setup d c hc os pl opt plugin"
    and it: "1 \<le> iterations" "iterations \<le> max_iterations"
    and paths: "fixture_case_paths fo dr directory = Inr paths"
    and run: "\<And>p. p \<in> set paths \<Longrightarrow> runnable d hc parse fo (os_file_name os) plugin directory p
      (case_at p) (input_at p) (golden_at p)"
    and rep: "\<And>p. p \<in> set paths \<Longrightarrow> reproduces pl opt (os_file_name os) plugin (case_at p) (input_at p)
      (golden_at p)"
  shows "\<exists>r w'. bench_plugin d hc parse fo dr os plugin directory iterations w = (Inr r, w')"
proof -
  have n: "0 < unat iterations" using it(1) by (auto simp: word_le_nat_alt)
  obtain t0 w0 where t0: "os_clock_us os w = (t0, w0)" by (cases "os_clock_us os w")
  from bench_cases_sdk [OF conf n run rep, where g = fresh_sums and w = w0] obtain cs g w1 where
    c: "run_bench_cases d hc parse fo os plugin directory iterations paths fresh_sums w0
      = (Inr (cs, g), w1)" by fastforce
  obtain t1 w2 where t1: "os_clock_us os w1 = (t1, w2)" by (cases "os_clock_us os w1")
  from run_bench_cases_Inr [OF c n] have "length (bs_latencies g) = length paths * unat iterations"
    by (auto simp: fresh_sums_def)
  moreover have "paths \<noteq> []" using paths by (auto simp: fixture_case_paths_def res_simps Let_def)
  ultimately have "bs_latencies g \<noteq> []" using n by auto
  with summarize_latency_valid [of "bs_latencies g"] obtain t where "bench_totals_of g = Inr t"
    by (auto simp: bench_totals_of_def Let_def)
  with it t0 t1 c paths show ?thesis
    by (simp add: bench_plugin_def bindW_def liftW_def readW_def returnW_def elapsed_ms_def
        elapsed_us_def)
qed

section \<open>Properties\<close>


definition golden_single :: dir_ops where
  "golden_single = golden_dir\<lparr>do_list := \<lambda>_. Some [Some ''b.txt'', Some ''a.case.json'']\<rparr>"

lemma golden_single_paths:
  "fixture_case_paths golden_files golden_single ''f'' = Inr [''a.case.json'']"
  by (simp add: fixture_case_paths_def golden_single_def golden_dir_def golden_files_def
      is_case_path_def ends_with_def)

lemma golden_bench:
  "\<exists>r w'. bench_plugin wire_deps demo_host_codec (\<lambda>_. Some golden_case) golden_files golden_single
     demo_machine demo_resolved ''f'' 1 () = (Inr r, w')"
proof -
  have "reproduces quiet_plugin () (os_file_name demo_machine) demo_resolved golden_case ''ok'' None"
    by (simp add: reproduces_def quiet_plugin_def action_verdict_def golden_case_def)
  then show ?thesis
    by (intro bench_plugin_sdk [OF golden_sdk _ _ golden_single_paths golden_runnable])
       (simp_all add: max_iterations_def)
qed

lemma golden_corpus:
  assumes run: "bench_plugin wire_deps demo_host_codec (\<lambda>_. Some golden_case) golden_files golden_single
     demo_machine demo_resolved ''f'' 1 () = (Inr r, w')"
  shows "corpus_ok r"
proof -
  from run obtain c g k s v v' where "br_cases r = [c]"
    and rest: "br_fixture_directory r = ''f''" "br_duration_ms r = 0"
    and b: "bench_samples wire_deps demo_host_codec demo_machine demo_resolved golden_case ''ok'' None 1
        (fresh_sampling, g) v = (Inr (k, s), v')"
    and c: "bench_case_report ''a.case.json'' 1 golden_case ''ok'' k = Inr c"
    by (auto simp: bench_plugin_def golden_single_paths io_simps res_simps run_bench_case_def
        golden_load golden_inputs elapsed_ms_def elapsed_us_def demo_machine_def)
  from bench_samples_Inr [OF b] obtain us i where k: "sa_latencies k = us" "length us = 1"
    "sa_attempts k = [i]" "valid_activation_attempt_id i"
    "sa_action k = Some (tc_expected_action golden_case)"
    "sa_output k = Some (golden_output ''ok'' None)"
    "golden_pair ''ok'' (tc_expected_action golden_case) (golden_output ''ok'' None)"
    by (auto simp: fresh_sampling_def length_Suc_conv)
  from bench_case_report_sound [OF k(1) _ _ k(3) _ _ k(5,6,7) c] k c
  have "bc_name c = ''short''" "bc_path c = ''a.case.json''" "unat (bc_input_bytes c) = 2"
    "bc_activation_attempt_ids c = [i]"
    by (auto simp: golden_case_def bench_case_report_def res_simps Let_def)
  moreover from this(3) have "bc_input_bytes c \<noteq> 0" by auto
  moreover have "valid_text x 1 n" if "x \<in> {''short'', ''a.case.json'', ''f''}" "20 < n" for x n
    using that by (auto intro!: valid_text_printable printable_ascii simp: ascii_defs)
  ultimately show ?thesis
    using rest \<open>br_cases r = [c]\<close> by (simp add: corpus_ok_def max_benchmark_cases_def)
qed


end
