(* ===== verification/Supply.thy ===== *)
theory Supply
  imports Admin
begin

text \<open>
  The supply-chain stages, tools/tsp/src/certification\_supply\_chain.rs: a CycloneDX SBOM is flattened
  by a worklist into its components, which are counted against a policy (SBOM stage) and reviewed
  for SPDX licences and provenance (licence stage). serde's derived readers are the fields of
  \<open>supply_codec\<close>; members of the SBOM the code never looks at are left out.
\<close>

section \<open>Documents\<close>

record sbom_policy =
  sb_schema_version :: u32
  sb_policy_id :: string
  sb_format :: string
  sb_spec_version :: string
  sb_maximum_components :: u32
  sb_require_hashes :: bool
  sb_require_licenses :: bool
  sb_require_purls :: bool

record sbom_report =
  so_schema_version :: u32
  so_subject :: subject
  so_policy_digest :: string
  so_sbom_digest :: string
  so_format :: string
  so_spec_version :: string
  so_component_count :: u32
  so_with_sha256 :: u32
  so_with_licenses :: u32
  so_with_purls :: u32
  so_generated_at :: u64

record sbom_evidence =
  se_package_bytes :: bytes
  se_sbom_bytes :: bytes
  se_report_bytes :: bytes
  se_policy_bytes :: bytes

record license_policy =
  lp_schema_version :: u32
  lp_policy_id :: string
  lp_allowed :: "string list"
  lp_denied :: "string list"
  lp_maximum_components :: u32
  lp_require_licensed :: bool
  lp_require_provenance :: bool

record license_report =
  lr_schema_version :: u32
  lr_subject :: subject
  lr_sbom_digest :: string
  lr_policy_digest :: string
  lr_component_count :: u32
  lr_licensed :: u32
  lr_provenance :: u32
  lr_denied :: u32
  lr_unknown :: u32
  lr_missing_license :: u32
  lr_missing_provenance :: u32
  lr_observed :: "string list"
  lr_reviewed_at :: u64

record license_evidence =
  le_sbom_bytes :: bytes
  le_report_bytes :: bytes
  le_policy_bytes :: bytes

record cdx_hash =
  ch_alg :: string
  ch_content :: string

text \<open>A licence choice: the \<^verbatim>\<open>id\<close> of its licence object, where there is one, and its expression.\<close>

record cdx_license =
  cl_license :: "string option option"
  cl_expression :: "string option"

datatype cdx_component =
  Cdx (cc_bom_ref: string) (cc_type: string) (cc_name: string) (cc_version: string)
    (cc_hashes: "cdx_hash list") (cc_licenses: "cdx_license list") (cc_purl: "string option")
    (cc_components: "cdx_component list")

record cdx_bom =
  cx_bom_format :: string
  cx_spec_version :: string
  cx_version :: u64
  cx_root :: cdx_component
  cx_components :: "cdx_component list"

record supply_codec =
  parse_sbom_policy_doc :: "bytes \<Rightarrow> sbom_policy option"
  parse_sbom_doc :: "bytes \<Rightarrow> cdx_bom option"
  parse_sbom_report_doc :: "bytes \<Rightarrow> sbom_report option"
  parse_license_policy_doc :: "bytes \<Rightarrow> license_policy option"
  parse_license_report_doc :: "bytes \<Rightarrow> license_report option"

definition max_sbom_bytes :: nat where "max_sbom_bytes = 16777216"
definition max_sbom_report_bytes :: nat where "max_sbom_report_bytes = 262144"
definition max_sbom_policy_bytes :: nat where "max_sbom_policy_bytes = 65536"
definition max_license_report_bytes :: nat where "max_license_report_bytes = 262144"
definition max_license_policy_bytes :: nat where "max_license_policy_bytes = 131072"
definition max_components :: nat where "max_components = 100000"
definition max_license_ids :: nat where "max_license_ids = 512"
definition cyclonedx_format :: string where "cyclonedx_format = ''CycloneDX''"
definition cyclonedx_spec_version :: string where "cyclonedx_spec_version = ''1.6''"

definition parse_supply_document ::
  "deps \<Rightarrow> (bytes \<Rightarrow> 'a option) \<Rightarrow> bytes \<Rightarrow> nat \<Rightarrow> string \<Rightarrow> string \<Rightarrow> 'a res" where
  "parse_supply_document d parse data maximum size_code json_code =
     bindR (reject (data = [] \<or> length data > maximum) size_code) (\<lambda>_.
     bindR (reject (\<not> unambiguous d data) json_code) (\<lambda>_.
       ok_or json_code (parse data)))"

definition parse_sbom :: "deps \<Rightarrow> supply_codec \<Rightarrow> bytes \<Rightarrow> cdx_bom res" where
  "parse_sbom d c data =
     parse_supply_document d (parse_sbom_doc c) data max_sbom_bytes ''certification.sbomSize''
       ''certification.sbomJson''"

section \<open>Components\<close>

definition graphic :: "char \<Rightarrow> bool" where
  "graphic c \<longleftrightarrow> 33 \<le> ord c \<and> ord c \<le> 126"

definition valid_component_identity :: "cdx_component \<Rightarrow> bool" where
  "valid_component_identity c \<longleftrightarrow>
     1 \<le> length (cc_bom_ref c) \<and> length (cc_bom_ref c) \<le> 1024
     \<and> list_all graphic (cc_bom_ref c)
     \<and> valid_token (cc_type c) 1 160
     \<and> valid_text (cc_name c) 1 512
     \<and> valid_text (cc_version c) 1 512"

definition component_has_sha256 :: "cdx_component \<Rightarrow> bool" where
  "component_has_sha256 c \<longleftrightarrow>
     list_ex (\<lambda>h. ch_alg h = ''SHA-256'' \<and> length (ch_content h) = 64
       \<and> list_all is_lower_hex (ch_content h)) (cc_hashes c)"

definition has_sha256 :: "cdx_component \<Rightarrow> string \<Rightarrow> bool" where
  "has_sha256 c digest \<longleftrightarrow>
     starts_with digest ''sha256:''
     \<and> list_ex (\<lambda>h. ch_alg h = ''SHA-256'' \<and> ch_content h = drop 7 digest) (cc_hashes c)"

definition valid_spdx_id :: "string \<Rightarrow> bool" where
  "valid_spdx_id value \<longleftrightarrow>
     1 \<le> length value \<and> length value \<le> 128
     \<and> list_all (\<lambda>c. is_alnum c \<or> c \<in> {CHR ''.'', CHR ''-'', CHR ''+'', CHR ''_''}) value"

definition component_spdx_ids :: "cdx_component \<Rightarrow> string list" where
  "component_spdx_ids c =
     filter valid_spdx_id
       (List.map_filter (\<lambda>choice. Option.bind (cl_license choice) (\<lambda>i. i)) (cc_licenses c))"

definition component_has_spdx_license :: "cdx_component \<Rightarrow> bool" where
  "component_has_spdx_license c \<longleftrightarrow> component_spdx_ids c \<noteq> []"

definition valid_purl :: "string option \<Rightarrow> bool" where
  "valid_purl value \<longleftrightarrow>
     (case value of
        None \<Rightarrow> False
      | Some purl \<Rightarrow> 5 \<le> length purl \<and> length purl \<le> 512 \<and> starts_with purl ''pkg:''
          \<and> list_all graphic purl)"

definition sorted_unique_spdx :: "string list \<Rightarrow> bool" where
  "sorted_unique_spdx values \<longleftrightarrow> list_all valid_spdx_id values \<and> ascending values"

text \<open>
  The worklist: \<open>stack\<close> with its top first, the references seen and the components collected. The
  measure is the number of components on the stack, with those inside them.
\<close>

fun nodes :: "cdx_component \<Rightarrow> nat" where
  "nodes (Cdx r t n v hs ls p cs) = Suc (sum_list (map nodes cs))"

lemma nodes_eq: "nodes c = Suc (sum_list (map nodes (cc_components c)))"
  by (cases c) simp

function collect_loop ::
  "cdx_component list \<Rightarrow> string set \<Rightarrow> cdx_component list \<Rightarrow> cdx_component list res" where
  "collect_loop [] bom_refs result = Inr result"
| "collect_loop (c # stack) bom_refs result =
     (if length result \<ge> max_components \<or> \<not> valid_component_identity c \<or> cc_bom_ref c \<in> bom_refs
      then Inl (VErr ''certification.sbomComponents'')
      else collect_loop (cc_components c @ stack) (insert (cc_bom_ref c) bom_refs) (result @ [c]))"
  by pat_completeness auto

termination
  by (relation "measure (\<lambda>(stack, _, _). sum_list (map nodes stack))") (auto simp: nodes_eq)

definition collect_components :: "cdx_bom \<Rightarrow> cdx_component list res" where
  "collect_components b = collect_loop (cx_components b @ [cx_root b]) {} []"

section \<open>Policies and the subject\<close>

definition validate_sbom_policy :: "sbom_policy \<Rightarrow> unit res" where
  "validate_sbom_policy p =
     reject (sb_schema_version p \<noteq> 1
       \<or> \<not> valid_token (sb_policy_id p) 1 160
       \<or> sb_format p \<noteq> cyclonedx_format
       \<or> sb_spec_version p \<noteq> cyclonedx_spec_version
       \<or> sb_maximum_components p = 0
       \<or> unat (sb_maximum_components p) > max_components
       \<or> \<not> sb_require_hashes p
       \<or> \<not> sb_require_licenses p
       \<or> \<not> sb_require_purls p) ''certification.sbomPolicy''"

definition validate_license_policy :: "license_policy \<Rightarrow> unit res" where
  "validate_license_policy p =
     reject (lp_schema_version p \<noteq> 1
       \<or> \<not> valid_token (lp_policy_id p) 1 160
       \<or> lp_allowed p = []
       \<or> length (lp_allowed p) > max_license_ids
       \<or> length (lp_denied p) > max_license_ids
       \<or> lp_maximum_components p = 0
       \<or> unat (lp_maximum_components p) > max_components
       \<or> \<not> lp_require_licensed p
       \<or> \<not> lp_require_provenance p
       \<or> \<not> sorted_unique_spdx (lp_allowed p)
       \<or> \<not> sorted_unique_spdx (lp_denied p)
       \<or> list_ex (binary_search (lp_denied p)) (lp_allowed p)) ''certification.licensePolicy''"

definition validate_sbom_identity :: "cdx_bom \<Rightarrow> subject \<Rightarrow> unit res" where
  "validate_sbom_identity b sj =
    (let root = cx_root b
     in reject (cx_bom_format b \<noteq> cyclonedx_format
          \<or> cx_spec_version b \<noteq> cyclonedx_spec_version
          \<or> cx_version b = 0
          \<or> cc_type root \<noteq> ''application''
          \<or> cc_bom_ref root \<noteq> sj_release_id sj
          \<or> cc_name root \<noteq> sj_plugin_id sj
          \<or> cc_version root \<noteq> sj_version sj
          \<or> \<not> has_sha256 root (sj_package_digest sj)) ''certification.sbomSubject'')"

section \<open>Metrics\<close>

definition supply_count :: "nat \<Rightarrow> string \<Rightarrow> u32 res" where
  "supply_count n code = (if n < 2 ^ 32 then Inr (word_of_nat n) else Inl (VErr code))"

record sbom_metrics =
  sm_component_count :: u32
  sm_with_sha256 :: u32
  sm_with_licenses :: u32
  sm_with_purls :: u32

definition analyze_sbom :: "cdx_bom \<Rightarrow> sbom_metrics res" where
  "analyze_sbom b =
     bindR (collect_components b) (\<lambda>cs.
     bindR (supply_count (length cs) ''certification.sbomComponents'') (\<lambda>n.
     bindR (supply_count (length (filter component_has_sha256 cs)) ''certification.sbomComponents'')
       (\<lambda>hashed.
     bindR (supply_count (length (filter component_has_spdx_license cs))
       ''certification.sbomComponents'') (\<lambda>licensed.
     bindR (supply_count (length (filter (\<lambda>c. valid_purl (cc_purl c)) cs))
       ''certification.sbomComponents'') (\<lambda>purls.
       Inr \<lparr>sm_component_count = n, sm_with_sha256 = hashed, sm_with_licenses = licensed,
         sm_with_purls = purls\<rparr>)))))"

text \<open>The counters of the licence review; \<open>lt_observed\<close> is the \<^verbatim>\<open>BTreeSet\<close>, in order.\<close>

record license_tally =
  li_licensed :: nat
  li_provenance :: nat
  li_denied :: nat
  li_unknown :: nat
  li_missing_license :: nat
  li_missing_provenance :: nat
  li_observed :: "string list"

definition no_licenses :: license_tally where
  "no_licenses = \<lparr>li_licensed = 0, li_provenance = 0, li_denied = 0, li_unknown = 0,
     li_missing_license = 0, li_missing_provenance = 0, li_observed = []\<rparr>"

text \<open>\<^verbatim>\<open>for id in ids\<close>: the denied and unknown flags and the observed ids\<close>

definition review_id ::
  "license_policy \<Rightarrow> string \<Rightarrow> bool \<times> bool \<times> string list \<Rightarrow> bool \<times> bool \<times> string list" where
  "review_id p i = (\<lambda>(denied, unknown, observed).
     let observed' = insort_insert i observed
     in if binary_search (lp_denied p) i then (True, unknown, observed')
        else if \<not> binary_search (lp_allowed p) i then (denied, True, observed')
        else (denied, unknown, observed'))"

definition review_component :: "license_policy \<Rightarrow> cdx_component \<Rightarrow> license_tally \<Rightarrow> license_tally" where
  "review_component p c t =
    (let ids = component_spdx_ids c;
         t1 = (if ids = [] then t\<lparr>li_missing_license := li_missing_license t + 1\<rparr>
               else t\<lparr>li_licensed := li_licensed t + 1\<rparr>);
         (denied, unknown, observed) = fold (review_id p) ids
           (False, list_ex (\<lambda>choice. cl_expression choice \<noteq> None) (cc_licenses c), li_observed t1);
         t2 = t1\<lparr>li_observed := observed, li_denied := li_denied t1 + of_bool denied,
           li_unknown := li_unknown t1 + of_bool unknown\<rparr>
     in if component_has_sha256 c \<and> valid_purl (cc_purl c)
        then t2\<lparr>li_provenance := li_provenance t2 + 1\<rparr>
        else t2\<lparr>li_missing_provenance := li_missing_provenance t2 + 1\<rparr>)"

record license_metrics =
  lm_component_count :: u32
  lm_licensed :: u32
  lm_provenance :: u32
  lm_denied :: u32
  lm_unknown :: u32
  lm_missing_license :: u32
  lm_missing_provenance :: u32
  lm_observed :: "string list"

definition license_count :: "nat \<Rightarrow> u32 res" where
  "license_count n = supply_count n ''certification.licenseComponents''"

definition analyze_licenses :: "cdx_bom \<Rightarrow> license_policy \<Rightarrow> license_metrics res" where
  "analyze_licenses b p =
     bindR (collect_components b) (\<lambda>cs.
     let t = fold (review_component p) cs no_licenses
     in bindR (license_count (length cs)) (\<lambda>n.
        bindR (license_count (li_licensed t)) (\<lambda>licensed.
        bindR (license_count (li_provenance t)) (\<lambda>provenance.
        bindR (license_count (li_denied t)) (\<lambda>denied.
        bindR (license_count (li_unknown t)) (\<lambda>unknown.
        bindR (license_count (li_missing_license t)) (\<lambda>missing_license.
        bindR (license_count (li_missing_provenance t)) (\<lambda>missing_provenance.
          Inr \<lparr>lm_component_count = n, lm_licensed = licensed, lm_provenance = provenance,
            lm_denied = denied, lm_unknown = unknown, lm_missing_license = missing_license,
            lm_missing_provenance = missing_provenance, lm_observed = li_observed t\<rparr>))))))))"

section \<open>Reports\<close>

definition validate_sbom_report ::
  "deps \<Rightarrow> sbom_report \<Rightarrow> sbom_metrics \<Rightarrow> sbom_policy \<Rightarrow> sbom_evidence \<Rightarrow> subject \<Rightarrow> u64 \<Rightarrow> u64
     \<Rightarrow> unit res" where
  "validate_sbom_report d r m p ev sj started completed =
     reject (so_schema_version r \<noteq> 1
       \<or> so_subject r \<noteq> sj
       \<or> so_policy_digest r \<noteq> sha256_digest d (se_policy_bytes ev)
       \<or> so_sbom_digest r \<noteq> sha256_digest d (se_sbom_bytes ev)
       \<or> so_format r \<noteq> sb_format p
       \<or> so_spec_version r \<noteq> sb_spec_version p
       \<or> so_component_count r \<noteq> sm_component_count m
       \<or> so_with_sha256 r \<noteq> sm_with_sha256 m
       \<or> so_with_licenses r \<noteq> sm_with_licenses m
       \<or> so_with_purls r \<noteq> sm_with_purls m
       \<or> \<not> valid_evidence_time (so_generated_at r) started completed)
       ''certification.sbomReport''"

definition validate_license_report ::
  "deps \<Rightarrow> license_report \<Rightarrow> license_metrics \<Rightarrow> license_evidence \<Rightarrow> subject \<Rightarrow> u64 \<Rightarrow> u64 \<Rightarrow> unit res" where
  "validate_license_report d r m ev sj started completed =
     reject (lr_schema_version r \<noteq> 1
       \<or> lr_subject r \<noteq> sj
       \<or> lr_sbom_digest r \<noteq> sha256_digest d (le_sbom_bytes ev)
       \<or> lr_policy_digest r \<noteq> sha256_digest d (le_policy_bytes ev)
       \<or> lr_component_count r \<noteq> lm_component_count m
       \<or> lr_licensed r \<noteq> lm_licensed m
       \<or> lr_provenance r \<noteq> lm_provenance m
       \<or> lr_denied r \<noteq> lm_denied m
       \<or> lr_unknown r \<noteq> lm_unknown m
       \<or> lr_missing_license r \<noteq> lm_missing_license m
       \<or> lr_missing_provenance r \<noteq> lm_missing_provenance m
       \<or> lr_observed r \<noteq> lm_observed m
       \<or> \<not> valid_evidence_time (lr_reviewed_at r) started completed)
       ''certification.licenseReport''"

section \<open>The evaluators\<close>

definition sbom_meets_policy :: "sbom_metrics \<Rightarrow> sbom_policy \<Rightarrow> bool" where
  "sbom_meets_policy m p \<longleftrightarrow>
     sm_component_count m \<le> sb_maximum_components p
     \<and> (\<not> sb_require_hashes p \<or> sm_with_sha256 m = sm_component_count m)
     \<and> (\<not> sb_require_licenses p \<or> sm_with_licenses m = sm_component_count m)
     \<and> (\<not> sb_require_purls p \<or> sm_with_purls m = sm_component_count m)"

definition sbom_detail :: "cdx_bom \<Rightarrow> sbom_metrics \<Rightarrow> string" where
  "sbom_detail b m =
     ''CycloneDX '' @ cx_spec_version b @ '' SBOM: '' @ dec (unat (sm_component_count m))
     @ '' components, '' @ dec (unat (sm_with_sha256 m)) @ '' with SHA-256, ''
     @ dec (unat (sm_with_licenses m)) @ '' with licenses, ''
     @ dec (unat (sm_with_purls m)) @ '' with purls''"

definition sbom_stage ::
  "deps \<Rightarrow> sbom_evidence \<Rightarrow> cdx_bom \<Rightarrow> sbom_metrics \<Rightarrow> sbom_policy \<Rightarrow> subject \<Rightarrow> producer \<Rightarrow> u64 \<Rightarrow> u64
     \<Rightarrow> stage" where
  "sbom_stage d ev b m p sj prd started completed =
     \<lparr>st_schema_version = 1, st_requirement = Sbom, st_subject = sj, st_rule = certification_rule Sbom,
      st_producer = prd, st_started_at = started, st_completed_at = completed,
      st_ok = sbom_meets_policy m p,
      st_inputs = [\<lparr>ref_name = ''plugin-package'', ref_digest = sj_package_digest sj\<rparr>,
        \<lparr>ref_name = ''sbom-policy'', ref_digest = sha256_digest d (se_policy_bytes ev)\<rparr>],
      st_outputs = [\<lparr>ref_name = ''sbom'', ref_digest = sha256_digest d (se_sbom_bytes ev)\<rparr>,
        \<lparr>ref_name = ''sbom-report'', ref_digest = sha256_digest d (se_report_bytes ev)\<rparr>],
      st_detail = sbom_detail b m,
      st_remediation =
        (if sbom_meets_policy m p
         then ''regenerate and review the exact SBOM for every immutable release''
         else ''supply bounded CycloneDX components with SHA-256 hashes, SPDX licenses, and purl provenance required by policy'')\<rparr>"

definition evaluate_sbom ::
  "deps \<Rightarrow> supply_codec \<Rightarrow> sbom_evidence \<Rightarrow> subject \<Rightarrow> producer \<Rightarrow> u64 \<Rightarrow> u64 \<Rightarrow> stage res" where
  "evaluate_sbom d c ev sj prd started completed =
     bindR (reject (se_package_bytes ev = []
         \<or> sha256_digest d (se_package_bytes ev) \<noteq> sj_package_digest sj)
       ''certification.sbomPackage'') (\<lambda>_.
     bindR (parse_supply_document d (parse_sbom_policy_doc c) (se_policy_bytes ev)
       max_sbom_policy_bytes ''certification.sbomPolicySize'' ''certification.sbomPolicyJson'') (\<lambda>p.
     bindR (validate_sbom_policy p) (\<lambda>_.
     bindR (parse_sbom d c (se_sbom_bytes ev)) (\<lambda>b.
     bindR (validate_sbom_identity b sj) (\<lambda>_.
     bindR (analyze_sbom b) (\<lambda>m.
     bindR (parse_supply_document d (parse_sbom_report_doc c) (se_report_bytes ev)
       max_sbom_report_bytes ''certification.sbomReportSize'' ''certification.sbomReportJson'') (\<lambda>r.
     bindR (validate_sbom_report d r m p ev sj started completed) (\<lambda>_.
     let s = sbom_stage d ev b m p sj prd started completed
     in bindR (validate_stage d s sj) (\<lambda>_. Inr s)))))))))"

definition licenses_meet_policy :: "license_metrics \<Rightarrow> license_policy \<Rightarrow> bool" where
  "licenses_meet_policy m p \<longleftrightarrow>
     lm_component_count m \<le> lp_maximum_components p
     \<and> lm_denied m = 0
     \<and> lm_unknown m = 0
     \<and> (\<not> lp_require_licensed p \<or> lm_missing_license m = 0)
     \<and> (\<not> lp_require_provenance p \<or> lm_missing_provenance m = 0)"

definition license_detail :: "license_metrics \<Rightarrow> string" where
  "license_detail m =
     ''license provenance: '' @ dec (unat (lm_component_count m)) @ '' components, ''
     @ dec (unat (lm_licensed m)) @ '' licensed, '' @ dec (unat (lm_provenance m))
     @ '' with provenance, '' @ dec (unat (lm_denied m)) @ '' denied, ''
     @ dec (unat (lm_unknown m)) @ '' unknown''"

definition license_stage ::
  "deps \<Rightarrow> license_evidence \<Rightarrow> license_metrics \<Rightarrow> license_policy \<Rightarrow> subject \<Rightarrow> producer \<Rightarrow> u64 \<Rightarrow> u64
     \<Rightarrow> stage" where
  "license_stage d ev m p sj prd started completed =
     \<lparr>st_schema_version = 1, st_requirement = LicenseProvenance, st_subject = sj,
      st_rule = certification_rule LicenseProvenance,
      st_producer = prd, st_started_at = started, st_completed_at = completed,
      st_ok = licenses_meet_policy m p,
      st_inputs = [\<lparr>ref_name = ''sbom'', ref_digest = sha256_digest d (le_sbom_bytes ev)\<rparr>,
        \<lparr>ref_name = ''license-policy'', ref_digest = sha256_digest d (le_policy_bytes ev)\<rparr>],
      st_outputs = [\<lparr>ref_name = ''license-provenance-report'',
        ref_digest = sha256_digest d (le_report_bytes ev)\<rparr>],
      st_detail = license_detail m,
      st_remediation =
        (if licenses_meet_policy m p
         then ''review the exact SBOM against the current license policy for every release''
         else ''remove denied or unknown licenses and add SPDX license, purl, and SHA-256 provenance for every component'')\<rparr>"

definition evaluate_license_provenance ::
  "deps \<Rightarrow> supply_codec \<Rightarrow> license_evidence \<Rightarrow> subject \<Rightarrow> producer \<Rightarrow> u64 \<Rightarrow> u64 \<Rightarrow> stage res" where
  "evaluate_license_provenance d c ev sj prd started completed =
     bindR (parse_supply_document d (parse_license_policy_doc c) (le_policy_bytes ev)
       max_license_policy_bytes ''certification.licensePolicySize''
       ''certification.licensePolicyJson'') (\<lambda>p.
     bindR (validate_license_policy p) (\<lambda>_.
     bindR (parse_sbom d c (le_sbom_bytes ev)) (\<lambda>b.
     bindR (validate_sbom_identity b sj) (\<lambda>_.
     bindR (analyze_licenses b p) (\<lambda>m.
     bindR (parse_supply_document d (parse_license_report_doc c) (le_report_bytes ev)
       max_license_report_bytes ''certification.licenseReportSize''
       ''certification.licenseReportJson'') (\<lambda>r.
     bindR (validate_license_report d r m ev sj started completed) (\<lambda>_.
     let s = license_stage d ev m p sj prd started completed
     in bindR (validate_stage d s sj) (\<lambda>_. Inr s))))))))"

end
