(* ===== verification/Supply_Review.thy ===== *)
theory Supply_Review
  imports Supply Release
begin

text \<open>
  What the supply-chain stages decide: the worklist visits the components in preorder, and the
  verdicts are statements about every component, however deeply it is nested.
\<close>

section \<open>The worklist visits every component\<close>

fun preorder :: "cdx_component \<Rightarrow> cdx_component list" where
  "preorder (Cdx r t n v hs ls p cs) = Cdx r t n v hs ls p cs # concat (map preorder cs)"

lemma preorder_eq: "preorder c = c # concat (map preorder (cc_components c))"
  by (cases c) simp

definition components_of :: "cdx_bom \<Rightarrow> cdx_component list" where
  "components_of b = concat (map preorder (cx_components b)) @ preorder (cx_root b)"

definition collectable :: "cdx_component list \<Rightarrow> bool" where
  "collectable cs \<longleftrightarrow> length cs \<le> max_components \<and> list_all valid_component_identity cs
     \<and> distinct (map cc_bom_ref cs)"

lemma collect_loop_Inr:
  assumes "length result \<le> max_components"
  shows "collect_loop stack bom_refs result = Inr found \<longleftrightarrow>
    (let cs = concat (map preorder stack)
     in found = result @ cs \<and> length result + length cs \<le> max_components
        \<and> list_all valid_component_identity cs \<and> distinct (map cc_bom_ref cs)
        \<and> cc_bom_ref ` set cs \<inter> bom_refs = {})"
  using assms
proof (induction stack bom_refs result rule: collect_loop.induct)
  case (1 bom_refs result)
  then show ?case by auto
next
  case (2 c stack bom_refs result)
  show ?case
  proof (cases "length result \<ge> max_components \<or> \<not> valid_component_identity c \<or> cc_bom_ref c \<in> bom_refs")
    case True
    then show ?thesis by (auto simp: preorder_eq [of c] Let_def)
  next
    case False
    with 2 have "collect_loop (c # stack) bom_refs result = Inr found \<longleftrightarrow>
      (let cs = concat (map preorder (cc_components c @ stack))
       in found = (result @ [c]) @ cs \<and> length (result @ [c]) + length cs \<le> max_components
        \<and> list_all valid_component_identity cs \<and> distinct (map cc_bom_ref cs)
        \<and> cc_bom_ref ` set cs \<inter> insert (cc_bom_ref c) bom_refs = {})"
      by simp
    with False show ?thesis by (auto simp: preorder_eq [of c] Let_def)
  qed
qed

lemma collect_components_Inr:
  "collect_components b = Inr cs \<longleftrightarrow> cs = components_of b \<and> collectable cs"
proof -
  have "concat (map preorder (cx_components b @ [cx_root b])) = components_of b"
    by (simp add: components_of_def)
  then show ?thesis
    unfolding collect_components_def collectable_def
    by (simp only: collect_loop_Inr [of "[]", simplified] Let_def) auto
qed

lemma collect_loop_no_panic: "\<not> panics (collect_loop stack bom_refs result)"
  by (induction stack bom_refs result rule: collect_loop.induct) auto

section \<open>Counting\<close>

lemma length_filter_all: "length (filter P xs) = length xs \<longleftrightarrow> (\<forall>x\<in>set xs. P x)"
proof
  assume len: "length (filter P xs) = length xs"
  show "\<forall>x\<in>set xs. P x"
  proof (rule ballI, rule ccontr)
    fix x
    assume "x \<in> set xs" "\<not> P x"
    from length_filter_less [of x xs P, OF this] len show False by simp
  qed
qed simp

lemma supply_count_small: "n \<le> max_components \<Longrightarrow> supply_count n code = Inr (word_of_nat n)"
  by (simp add: supply_count_def max_components_def)

lemma supply_count_no_panic: "\<not> panics (supply_count n code)"
  by (simp add: supply_count_def)

lemma unat_count: "n \<le> max_components \<Longrightarrow> unat (word_of_nat n :: u32) = n"
  by (simp add: max_components_def unat_of_nat take_bit_nat_eq_self)

lemma count_eq_iff:
  "m \<le> max_components \<Longrightarrow> n \<le> max_components \<Longrightarrow> (word_of_nat m :: u32) = word_of_nat n \<longleftrightarrow> m = n"
  by (metis unat_count)

definition counted :: "cdx_component list \<Rightarrow> sbom_metrics" where
  "counted cs =
     \<lparr>sm_component_count = word_of_nat (length cs),
      sm_with_sha256 = word_of_nat (length (filter component_has_sha256 cs)),
      sm_with_licenses = word_of_nat (length (filter component_has_spdx_license cs)),
      sm_with_purls = word_of_nat (length (filter (\<lambda>c. valid_purl (cc_purl c)) cs))\<rparr>"

lemma filter_bound: "length cs \<le> n \<Longrightarrow> length (filter P cs) \<le> n"
  using length_filter_le [of P cs] by linarith

lemma analyze_sbom_Inr:
  "analyze_sbom b = Inr m \<longleftrightarrow> collectable (components_of b) \<and> m = counted (components_of b)"
proof -
  have "supply_count (length (filter P (components_of b))) code
      = Inr (word_of_nat (length (filter P (components_of b))))"
    if "collectable (components_of b)" for P code
    using that by (intro supply_count_small filter_bound) (simp add: collectable_def)
  moreover have "supply_count (length (components_of b)) code = Inr (word_of_nat (length (components_of b)))"
    if "collectable (components_of b)" for code
    using that by (intro supply_count_small) (simp add: collectable_def)
  ultimately show ?thesis
    by (auto simp: analyze_sbom_def bindR_Inr_iff collect_components_Inr counted_def)
qed

definition complete_component :: "cdx_component \<Rightarrow> bool" where
  "complete_component c \<longleftrightarrow>
     component_has_sha256 c \<and> component_has_spdx_license c \<and> valid_purl (cc_purl c)"

lemma sbom_meets_policy_iff:
  assumes p: "validate_sbom_policy p = Inr ()" and c: "collectable cs"
  shows "sbom_meets_policy (counted cs) p \<longleftrightarrow>
    length cs \<le> unat (sb_maximum_components p) \<and> (\<forall>c\<in>set cs. complete_component c)"
proof -
  have n: "length cs \<le> max_components" using c by (simp add: collectable_def)
  note f = filter_bound [OF n]
  have "sb_require_hashes p" "sb_require_licenses p" "sb_require_purls p"
    using p by (auto simp: validate_sbom_policy_def res_simps)
  then show ?thesis
    using n f by (auto simp: sbom_meets_policy_def counted_def count_eq_iff length_filter_all
        word_le_nat_alt unat_count complete_component_def)
qed

section \<open>Licences\<close>

lemma fold_review_id:
  assumes "ascending (lp_denied p)" and "ascending (lp_allowed p)"
  shows "fold (review_id p) ids (denied, unknown, observed) =
    (denied \<or> (\<exists>i\<in>set ids. i \<in> set (lp_denied p)),
     unknown \<or> (\<exists>i\<in>set ids. i \<notin> set (lp_denied p) \<and> i \<notin> set (lp_allowed p)),
     fold insort_insert ids observed)"
proof (induction ids arbitrary: denied unknown observed)
  case (Cons i ids)
  then show ?case
    using binary_search_iff [OF assms(1), of i] binary_search_iff [OF assms(2), of i]
    by (cases "i \<in> set (lp_denied p)"; simp add: review_id_def Let_def)
qed simp

definition denied_component :: "license_policy \<Rightarrow> cdx_component \<Rightarrow> bool" where
  "denied_component p c \<longleftrightarrow> set (component_spdx_ids c) \<inter> set (lp_denied p) \<noteq> {}"

definition unknown_component :: "license_policy \<Rightarrow> cdx_component \<Rightarrow> bool" where
  "unknown_component p c \<longleftrightarrow>
     (\<exists>choice\<in>set (cc_licenses c). cl_expression choice \<noteq> None)
     \<or> \<not> set (component_spdx_ids c) \<subseteq> set (lp_denied p) \<union> set (lp_allowed p)"

definition traceable :: "cdx_component \<Rightarrow> bool" where
  "traceable c \<longleftrightarrow> component_has_sha256 c \<and> valid_purl (cc_purl c)"

text \<open>The observed ids in order, without repetition.\<close>

definition observed_ids :: "cdx_component list \<Rightarrow> string list" where
  "observed_ids cs = fold (\<lambda>c. fold insort_insert (component_spdx_ids c)) cs []"

lemma fold_insort_insert:
  "sorted xs \<and> distinct xs \<Longrightarrow>
     sorted (fold insort_insert ys xs) \<and> distinct (fold insort_insert ys xs)
     \<and> set (fold insort_insert ys xs) = set xs \<union> set ys"
  by (induction ys arbitrary: xs)
     (auto simp: sorted_insort_insert distinct_insort_insert set_insort_insert)

lemma observed_ids_sorted:
  "sorted (observed_ids cs) \<and> distinct (observed_ids cs)
    \<and> set (observed_ids cs) = (\<Union>c\<in>set cs. set (component_spdx_ids c))"
proof -
  have "sorted (fold (\<lambda>c. fold insort_insert (component_spdx_ids c)) cs xs)
      \<and> distinct (fold (\<lambda>c. fold insort_insert (component_spdx_ids c)) cs xs)
      \<and> set (fold (\<lambda>c. fold insort_insert (component_spdx_ids c)) cs xs)
          = set xs \<union> (\<Union>c\<in>set cs. set (component_spdx_ids c))"
    if "sorted xs \<and> distinct xs" for xs
    using that
  proof (induction cs arbitrary: xs)
    case (Cons c cs)
    from Cons.IH [of "fold insort_insert (component_spdx_ids c) xs"]
      fold_insort_insert [OF Cons.prems, of "component_spdx_ids c"]
    show ?case by auto
  qed simp
  from this [of "[]"] show ?thesis by (simp add: observed_ids_def)
qed

definition tallied :: "license_policy \<Rightarrow> cdx_component list \<Rightarrow> license_tally \<Rightarrow> license_tally" where
  "tallied p cs t =
     \<lparr>li_licensed = li_licensed t + length (filter component_has_spdx_license cs),
      li_provenance = li_provenance t + length (filter traceable cs),
      li_denied = li_denied t + length (filter (denied_component p) cs),
      li_unknown = li_unknown t + length (filter (unknown_component p) cs),
      li_missing_license = li_missing_license t
        + length (filter (\<lambda>c. \<not> component_has_spdx_license c) cs),
      li_missing_provenance = li_missing_provenance t + length (filter (\<lambda>c. \<not> traceable c) cs),
      li_observed = fold (\<lambda>c. fold insort_insert (component_spdx_ids c)) cs (li_observed t)\<rparr>"

lemma review_component_tallied:
  assumes "ascending (lp_denied p)" and "ascending (lp_allowed p)"
  shows "review_component p c t = tallied p [c] t"
proof -
  have u: "(list_ex (\<lambda>choice. cl_expression choice \<noteq> None) (cc_licenses c)
      \<or> (\<exists>i\<in>set (component_spdx_ids c). i \<notin> set (lp_denied p) \<and> i \<notin> set (lp_allowed p)))
      = unknown_component p c"
    by (auto simp: unknown_component_def list_ex_iff)
  have v: "(\<exists>i\<in>set (component_spdx_ids c). i \<in> set (lp_denied p)) = denied_component p c"
    by (auto simp: denied_component_def)
  show ?thesis
    unfolding review_component_def Let_def fold_review_id [OF assms] u v
    by (auto simp: tallied_def component_has_spdx_license_def traceable_def)
qed

lemma fold_review_component:
  assumes "ascending (lp_denied p)" and "ascending (lp_allowed p)"
  shows "fold (review_component p) cs t = tallied p cs t"
proof (induction cs arbitrary: t)
  case Nil
  then show ?case by (simp add: tallied_def)
next
  case (Cons c cs)
  have "tallied p cs (tallied p [c] t) = tallied p (c # cs) t" by (simp add: tallied_def)
  with Cons show ?case by (simp add: review_component_tallied [OF assms])
qed

definition reviewed :: "license_policy \<Rightarrow> cdx_component list \<Rightarrow> license_metrics" where
  "reviewed p cs =
     \<lparr>lm_component_count = word_of_nat (length cs),
      lm_licensed = word_of_nat (length (filter component_has_spdx_license cs)),
      lm_provenance = word_of_nat (length (filter traceable cs)),
      lm_denied = word_of_nat (length (filter (denied_component p) cs)),
      lm_unknown = word_of_nat (length (filter (unknown_component p) cs)),
      lm_missing_license = word_of_nat (length (filter (\<lambda>c. \<not> component_has_spdx_license c) cs)),
      lm_missing_provenance = word_of_nat (length (filter (\<lambda>c. \<not> traceable c) cs)),
      lm_observed = observed_ids cs\<rparr>"

definition license_lists_ok :: "license_policy \<Rightarrow> bool" where
  "license_lists_ok p \<longleftrightarrow> ascending (lp_allowed p) \<and> ascending (lp_denied p)
     \<and> set (lp_allowed p) \<inter> set (lp_denied p) = {}"

lemma validate_license_policy_lists:
  "validate_license_policy p = Inr () \<Longrightarrow>
     license_lists_ok p \<and> lp_require_licensed p \<and> lp_require_provenance p"
  by (auto simp: validate_license_policy_def res_simps sorted_unique_spdx_def license_lists_ok_def
      list_ex_iff binary_search_iff)

lemma analyze_licenses_Inr:
  assumes "license_lists_ok p"
  shows "analyze_licenses b p = Inr m \<longleftrightarrow>
    collectable (components_of b) \<and> m = reviewed p (components_of b)"
proof -
  have "license_count (length (filter P (components_of b)))
      = Inr (word_of_nat (length (filter P (components_of b))))"
    if "collectable (components_of b)" for P
    unfolding license_count_def using that
    by (intro supply_count_small filter_bound) (simp add: collectable_def)
  moreover have "license_count (length (components_of b)) = Inr (word_of_nat (length (components_of b)))"
    if "collectable (components_of b)"
    unfolding license_count_def using that by (intro supply_count_small) (simp add: collectable_def)
  moreover have "fold (review_component p) cs no_licenses = tallied p cs no_licenses" for cs
    using assms by (intro fold_review_component) (simp_all add: license_lists_ok_def)
  ultimately show ?thesis
    by (auto simp: analyze_licenses_def bindR_Inr_iff collect_components_Inr Let_def tallied_def
        no_licenses_def reviewed_def observed_ids_def)
qed

text \<open>What the licence review asks of a component, licence by licence: \<open>spdx_licence\<close> is
  a licence choice with an id of SPDX syntax, and every other choice is skipped unless it is an
  expression.\<close>

definition spdx_licence :: "cdx_license \<Rightarrow> bool" where
  "spdx_licence choice \<longleftrightarrow>
     (case cl_license choice of Some (Some i) \<Rightarrow> valid_spdx_id i | _ \<Rightarrow> False)"

definition licence_on :: "string list \<Rightarrow> cdx_license \<Rightarrow> bool" where
  "licence_on ids choice \<longleftrightarrow>
     (case cl_license choice of Some (Some i) \<Rightarrow> i \<in> set ids | _ \<Rightarrow> False)"

definition acceptable_component :: "license_policy \<Rightarrow> cdx_component \<Rightarrow> bool" where
  "acceptable_component p c \<longleftrightarrow>
     (\<exists>choice\<in>set (cc_licenses c). spdx_licence choice)
     \<and> (\<forall>choice\<in>set (cc_licenses c). spdx_licence choice \<longrightarrow> licence_on (lp_allowed p) choice)
     \<and> (\<forall>choice\<in>set (cc_licenses c). cl_expression choice = None) \<and> traceable c"

lemma acceptable_component_ids:
  "acceptable_component p c \<longleftrightarrow>
     component_spdx_ids c \<noteq> [] \<and> set (component_spdx_ids c) \<subseteq> set (lp_allowed p)
     \<and> (\<forall>choice\<in>set (cc_licenses c). cl_expression choice = None) \<and> traceable c"
proof -
  have "set (filter valid_spdx_id
        (List.map_filter (\<lambda>choice. Option.bind (cl_license choice) (\<lambda>i. i)) ls))
      = {i. \<exists>choice\<in>set ls. cl_license choice = Some (Some i) \<and> valid_spdx_id i}" for ls
    by (induction ls) (auto simp: bind_eq_Some_conv split: option.splits)
  then have ids: "set (component_spdx_ids c)
      = {i. \<exists>choice\<in>set (cc_licenses c). cl_license choice = Some (Some i) \<and> valid_spdx_id i}"
    unfolding component_spdx_ids_def .
  have spdx: "spdx_licence choice \<longleftrightarrow>
      (\<exists>i. cl_license choice = Some (Some i) \<and> valid_spdx_id i)" for choice
    by (auto simp: spdx_licence_def split: option.splits)
  have on: "licence_on ids choice \<longleftrightarrow> (\<exists>i. cl_license choice = Some (Some i) \<and> i \<in> set ids)"
    for ids choice
    by (auto simp: licence_on_def split: option.splits)
  have "component_spdx_ids c \<noteq> [] \<longleftrightarrow>
      (\<exists>i. \<exists>choice\<in>set (cc_licenses c). cl_license choice = Some (Some i) \<and> valid_spdx_id i)"
    unfolding set_empty [of "component_spdx_ids c", symmetric] ids by blast
  then have some: "component_spdx_ids c \<noteq> [] \<longleftrightarrow> (\<exists>choice\<in>set (cc_licenses c). spdx_licence choice)"
    unfolding spdx by blast
  have "set (component_spdx_ids c) \<subseteq> set (lp_allowed p) \<longleftrightarrow>
      (\<forall>choice\<in>set (cc_licenses c). \<forall>i. cl_license choice = Some (Some i) \<longrightarrow> valid_spdx_id i
        \<longrightarrow> i \<in> set (lp_allowed p))"
    unfolding ids by blast
  also have "\<dots> \<longleftrightarrow>
      (\<forall>choice\<in>set (cc_licenses c). spdx_licence choice \<longrightarrow> licence_on (lp_allowed p) choice)"
    unfolding spdx on by (metis option.inject)
  finally show ?thesis
    unfolding acceptable_component_def some by blast
qed

text \<open>A licence without an id, or with an id that is not of SPDX syntax, does not count against a
  component that also carries an allowed one.\<close>

lemma skipped_licence_passes:
  assumes "acceptable_component p (Cdx r ty n v hs ls u cs)"
    and "cl_expression choice = None" and "\<not> spdx_licence choice"
  shows "acceptable_component p (Cdx r ty n v hs (choice # ls) u cs)"
  using assms by (auto simp: acceptable_component_def traceable_def component_has_sha256_def)

lemma no_filtered: "length cs \<le> max_components \<Longrightarrow>
    (word_of_nat (length (filter P cs)) :: u32) = 0 \<longleftrightarrow> (\<forall>c\<in>set cs. \<not> P c)"
  using unat_count [of "length (filter P cs)"] filter_bound [of cs max_components P]
  by (auto simp: filter_empty_conv unat_eq_0)

lemma licenses_meet_policy_iff:
  assumes p: "validate_license_policy p = Inr ()" and c: "collectable cs"
  shows "licenses_meet_policy (reviewed p cs) p \<longleftrightarrow>
    length cs \<le> unat (lp_maximum_components p) \<and> (\<forall>c\<in>set cs. acceptable_component p c)"
proof -
  have n: "length cs \<le> max_components" using c by (simp add: collectable_def)
  note l = validate_license_policy_lists [OF p]
  have acc: "acceptable_component p c \<longleftrightarrow> \<not> denied_component p c \<and> \<not> unknown_component p c
      \<and> component_has_spdx_license c \<and> traceable c" for c
    using l by (auto simp: acceptable_component_ids denied_component_def unknown_component_def
        component_has_spdx_license_def license_lists_ok_def)
  show ?thesis
    using n l by (auto simp: licenses_meet_policy_def reviewed_def no_filtered word_le_nat_alt
        unat_count acc)
qed

section \<open>The SBOM evaluator as a stage producer\<close>

definition exact_sbom_report ::
  "deps \<Rightarrow> sbom_evidence \<Rightarrow> cdx_bom \<Rightarrow> subject \<Rightarrow> u64 \<Rightarrow> sbom_report" where
  "exact_sbom_report d ev b sj t =
    (let m = counted (components_of b)
     in \<lparr>so_schema_version = 1, so_subject = sj,
         so_policy_digest = sha256_digest d (se_policy_bytes ev),
         so_sbom_digest = sha256_digest d (se_sbom_bytes ev), so_format = cyclonedx_format,
         so_spec_version = cyclonedx_spec_version, so_component_count = sm_component_count m,
         so_with_sha256 = sm_with_sha256 m, so_with_licenses = sm_with_licenses m,
         so_with_purls = sm_with_purls m, so_generated_at = t\<rparr>)"

lemma parse_supply_document_Inr:
  "parse_supply_document d parse data maximum size_code json_code = Inr x \<longleftrightarrow>
     parses d parse maximum data x"
  by (auto simp: parse_supply_document_def parses_def res_simps not_less)

definition sbom_evidence_ok ::
  "deps \<Rightarrow> supply_codec \<Rightarrow> sbom_evidence \<Rightarrow> subject \<Rightarrow> u64 \<Rightarrow> u64 \<Rightarrow> sbom_policy \<Rightarrow> cdx_bom \<Rightarrow> bool" where
  "sbom_evidence_ok d c ev sj started completed p b \<longleftrightarrow>
     se_package_bytes ev \<noteq> [] \<and> sha256_digest d (se_package_bytes ev) = sj_package_digest sj
     \<and> parses d (parse_sbom_policy_doc c) max_sbom_policy_bytes (se_policy_bytes ev) p
     \<and> validate_sbom_policy p = Inr ()
     \<and> parses d (parse_sbom_doc c) max_sbom_bytes (se_sbom_bytes ev) b
     \<and> validate_sbom_identity b sj = Inr ()
     \<and> collectable (components_of b)
     \<and> (\<exists>t. valid_evidence_time t started completed
          \<and> parses d (parse_sbom_report_doc c) max_sbom_report_bytes (se_report_bytes ev)
              (exact_sbom_report d ev b sj t))"

definition sbom_ok :: "sbom_policy \<Rightarrow> cdx_bom \<Rightarrow> bool" where
  "sbom_ok p b \<longleftrightarrow> length (components_of b) \<le> unat (sb_maximum_components p)
     \<and> (\<forall>c\<in>set (components_of b). complete_component c)"

lemma validate_sbom_report_Inr:
  assumes "validate_sbom_policy p = Inr ()"
  shows "validate_sbom_report d r (counted (components_of b)) p ev sj started completed = Inr () \<longleftrightarrow>
    (\<exists>t. valid_evidence_time t started completed \<and> r = exact_sbom_report d ev b sj t)"
proof -
  have "sb_format p = cyclonedx_format" "sb_spec_version p = cyclonedx_spec_version"
    using assms by (auto simp: validate_sbom_policy_def res_simps)
  then show ?thesis
    by (cases r) (auto simp: validate_sbom_report_def res_simps exact_sbom_report_def Let_def)
qed

lemma evaluate_sbom_Inr:
  "evaluate_sbom d c ev sj prd started completed = Inr s \<longleftrightarrow>
    (\<exists>p b. sbom_evidence_ok d c ev sj started completed p b
      \<and> s = sbom_stage d ev b (counted (components_of b)) p sj prd started completed
      \<and> stage_contract d s sj)"
proof -
  note unfold = evaluate_sbom_def bindR_Inr_iff reject_Inr_iff parse_supply_document_Inr
    parse_sbom_def analyze_sbom_Inr Let_def validate_stage_Inr
  show ?thesis (is "?run \<longleftrightarrow> ?ok")
  proof
    assume ?run
    then show ?ok by (auto simp: unfold sbom_evidence_ok_def validate_sbom_report_Inr) blast
  next
    assume ?ok
    then obtain p b where ev: "sbom_evidence_ok d c ev sj started completed p b"
      and s: "s = sbom_stage d ev b (counted (components_of b)) p sj prd started completed"
        "stage_contract d s sj" by blast
    from ev obtain t where "validate_sbom_report d (exact_sbom_report d ev b sj t)
        (counted (components_of b)) p ev sj started completed = Inr ()"
      and "parses d (parse_sbom_report_doc c) max_sbom_report_bytes (se_report_bytes ev)
        (exact_sbom_report d ev b sj t)"
      by (auto simp: sbom_evidence_ok_def validate_sbom_report_Inr)
    with ev s show ?run
      by (simp add: unfold sbom_evidence_ok_def) blast
  qed
qed

lemma sbom_stage_verdict:
  assumes "sbom_evidence_ok d c ev sj started completed p b"
  shows "st_ok (sbom_stage d ev b (counted (components_of b)) p sj prd started completed) = sbom_ok p b"
  using assms by (simp add: sbom_stage_def sbom_evidence_ok_def sbom_meets_policy_iff sbom_ok_def)

lemma supply_names:
  "list_all (\<lambda>x. valid_token x 1 128) [''plugin-package'', ''sbom-policy'', ''sbom'', ''sbom-report'',
     ''license-policy'', ''license-provenance-report'']"
  by (simp add: valid_token_def token_char_def ascii_defs)

lemma sbom_detail_text:
  assumes "cx_spec_version b = cyclonedx_spec_version"
  shows "valid_text (sbom_detail b m) 1 1024"
proof (rule valid_text_printable)
  show "printable (sbom_detail b m)"
    using assms by (simp add: sbom_detail_def cyclonedx_spec_version_def)
  show "length (sbom_detail b m) \<le> 1024"
    using assms length_dec_u32 [of "sm_component_count m"] length_dec_u32 [of "sm_with_sha256 m"]
      length_dec_u32 [of "sm_with_licenses m"] length_dec_u32 [of "sm_with_purls m"]
    by (simp add: sbom_detail_def cyclonedx_spec_version_def)
qed (simp add: sbom_detail_def)

lemma sbom_stage_contract:
  assumes sha: "sha256_length d" and sj: "subject_contract d sj"
    and run: "run_context_ok prd started completed"
    and e: "sbom_evidence_ok d c ev sj started completed p b"
  shows "stage_contract d (sbom_stage d ev b m p sj prd started completed) sj"
proof -
  let ?s = "sbom_stage d ev b m p sj prd started completed"
  have dg: "valid_digest (sj_package_digest sj)"
    using sj by (auto simp: subject_contract_def validate_subject_def res_simps)
  have "validate_references (st_inputs ?s) = Inr ()" "validate_references (st_outputs ?s) = Inr ()"
    using dg sha supply_names by (auto simp: sbom_stage_def intro!: validate_references_map)
  moreover have "valid_text (st_remediation ?s) 1 1024"
    by (auto simp: sbom_stage_def intro!: valid_text_printable)
  moreover have "cx_spec_version b = cyclonedx_spec_version"
    using e by (auto simp: sbom_evidence_ok_def validate_sbom_identity_def Let_def res_simps)
  ultimately show ?thesis
    using sbom_detail_text [of b m] run sj
    by (auto simp: stage_contract_def sbom_stage_def run_context_ok_def subject_bound_def)
qed

lemma collect_components_no_panic: "\<not> panics (collect_components b)"
  by (simp add: collect_components_def collect_loop_no_panic)

lemma parse_supply_no_panic: "\<not> panics (parse_supply_document d parse data n x y)"
  by (simp add: parse_supply_document_def panics_bindR)

lemma evaluate_sbom_no_panic: "\<not> panics (evaluate_sbom d c ev sj prd started completed)"
  by (auto simp: evaluate_sbom_def panics_bindR Let_def parse_supply_no_panic parse_sbom_def
      validate_sbom_policy_def validate_sbom_identity_def analyze_sbom_def supply_count_no_panic
      collect_components_no_panic validate_sbom_report_def validate_stage_no_panic)

definition sbom_producer ::
  "deps \<Rightarrow> supply_codec \<Rightarrow> sbom_evidence \<times> producer \<times> u64 \<times> u64 \<Rightarrow> subject \<Rightarrow> stage res" where
  "sbom_producer d c = (\<lambda>(ev, prd, started, completed) sj. evaluate_sbom d c ev sj prd started completed)"

interpretation sbom: stage_producer d Sbom "sbom_producer d c" for d c
proof unfold_locales
  fix i :: "sbom_evidence \<times> producer \<times> u64 \<times> u64" and sj s
  assume "sbom_producer d c i sj = Inr s"
  then show "st_requirement s = Sbom" and "stage_contract d s sj"
    by (auto simp: sbom_producer_def evaluate_sbom_Inr sbom_stage_def split: prod.splits)
next
  fix i :: "sbom_evidence \<times> producer \<times> u64 \<times> u64" and sj
  show "\<not> panics (sbom_producer d c i sj)"
    by (simp add: sbom_producer_def evaluate_sbom_no_panic split: prod.splits)
qed

section \<open>The licence evaluator as a stage producer\<close>

definition exact_license_report ::
  "deps \<Rightarrow> license_evidence \<Rightarrow> license_metrics \<Rightarrow> subject \<Rightarrow> u64 \<Rightarrow> license_report" where
  "exact_license_report d ev m sj t =
     \<lparr>lr_schema_version = 1, lr_subject = sj, lr_sbom_digest = sha256_digest d (le_sbom_bytes ev),
      lr_policy_digest = sha256_digest d (le_policy_bytes ev),
      lr_component_count = lm_component_count m, lr_licensed = lm_licensed m,
      lr_provenance = lm_provenance m, lr_denied = lm_denied m, lr_unknown = lm_unknown m,
      lr_missing_license = lm_missing_license m, lr_missing_provenance = lm_missing_provenance m,
      lr_observed = lm_observed m, lr_reviewed_at = t\<rparr>"

definition license_evidence_ok ::
  "deps \<Rightarrow> supply_codec \<Rightarrow> license_evidence \<Rightarrow> subject \<Rightarrow> u64 \<Rightarrow> u64 \<Rightarrow> license_policy \<Rightarrow> cdx_bom \<Rightarrow> bool"
where
  "license_evidence_ok d c ev sj started completed p b \<longleftrightarrow>
     parses d (parse_license_policy_doc c) max_license_policy_bytes (le_policy_bytes ev) p
     \<and> validate_license_policy p = Inr ()
     \<and> parses d (parse_sbom_doc c) max_sbom_bytes (le_sbom_bytes ev) b
     \<and> validate_sbom_identity b sj = Inr ()
     \<and> collectable (components_of b)
     \<and> (\<exists>t. valid_evidence_time t started completed
          \<and> parses d (parse_license_report_doc c) max_license_report_bytes (le_report_bytes ev)
              (exact_license_report d ev (reviewed p (components_of b)) sj t))"

definition licenses_ok :: "license_policy \<Rightarrow> cdx_bom \<Rightarrow> bool" where
  "licenses_ok p b \<longleftrightarrow> length (components_of b) \<le> unat (lp_maximum_components p)
     \<and> (\<forall>c\<in>set (components_of b). acceptable_component p c)"

lemma validate_license_report_Inr:
  "validate_license_report d r m ev sj started completed = Inr () \<longleftrightarrow>
    (\<exists>t. valid_evidence_time t started completed \<and> r = exact_license_report d ev m sj t)"
  by (cases r) (auto simp: validate_license_report_def res_simps exact_license_report_def)

lemma evaluate_license_Inr:
  "evaluate_license_provenance d c ev sj prd started completed = Inr s \<longleftrightarrow>
    (\<exists>p b. license_evidence_ok d c ev sj started completed p b
      \<and> s = license_stage d ev (reviewed p (components_of b)) p sj prd started completed
      \<and> stage_contract d s sj)"
proof -
  have an: "validate_license_policy p = Inr () \<Longrightarrow> analyze_licenses b p = Inr m \<longleftrightarrow>
      collectable (components_of b) \<and> m = reviewed p (components_of b)" for p b m
    using validate_license_policy_lists analyze_licenses_Inr by blast
  note unfold = evaluate_license_provenance_def bindR_Inr_iff parse_supply_document_Inr
    parse_sbom_def Let_def validate_stage_Inr validate_license_report_Inr
  show ?thesis (is "?run \<longleftrightarrow> ?ok")
  proof
    assume ?run
    then show ?ok by (auto simp: unfold license_evidence_ok_def an) blast
  next
    assume ?ok
    then obtain p b where ev: "license_evidence_ok d c ev sj started completed p b"
      and s: "s = license_stage d ev (reviewed p (components_of b)) p sj prd started completed"
        "stage_contract d s sj" by blast
    then have "analyze_licenses b p = Inr (reviewed p (components_of b))"
      by (simp add: license_evidence_ok_def an)
    with ev s show ?run
      by (simp add: unfold license_evidence_ok_def) blast
  qed
qed

lemma license_stage_verdict:
  assumes "license_evidence_ok d c ev sj started completed p b"
  shows "st_ok (license_stage d ev (reviewed p (components_of b)) p sj prd started completed)
    = licenses_ok p b"
  using assms
  by (simp add: license_stage_def license_evidence_ok_def licenses_meet_policy_iff licenses_ok_def)

lemma license_detail_text: "valid_text (license_detail m) 1 1024"
proof (rule valid_text_printable)
  show "length (license_detail m) \<le> 1024"
    using length_dec_u32 [of "lm_component_count m"] length_dec_u32 [of "lm_licensed m"]
      length_dec_u32 [of "lm_provenance m"] length_dec_u32 [of "lm_denied m"]
      length_dec_u32 [of "lm_unknown m"]
    by (simp add: license_detail_def)
qed (simp_all add: license_detail_def)

lemma license_stage_contract:
  assumes sha: "sha256_length d" and sj: "subject_contract d sj"
    and run: "run_context_ok prd started completed"
  shows "stage_contract d (license_stage d ev m p sj prd started completed) sj"
proof -
  let ?s = "license_stage d ev m p sj prd started completed"
  have "validate_references (st_inputs ?s) = Inr ()" "validate_references (st_outputs ?s) = Inr ()"
    using sha supply_names by (auto simp: license_stage_def intro!: validate_references_map)
  moreover have "valid_text (st_remediation ?s) 1 1024"
    by (auto simp: license_stage_def intro!: valid_text_printable)
  ultimately show ?thesis
    using license_detail_text [of m] run sj
    by (auto simp: stage_contract_def license_stage_def run_context_ok_def subject_bound_def)
qed

lemma evaluate_license_no_panic: "\<not> panics (evaluate_license_provenance d c ev sj prd started completed)"
  by (auto simp: evaluate_license_provenance_def panics_bindR Let_def parse_supply_no_panic
      parse_sbom_def validate_license_policy_def validate_sbom_identity_def analyze_licenses_def
      license_count_def supply_count_no_panic collect_components_no_panic
      validate_license_report_def validate_stage_no_panic)

definition license_producer ::
  "deps \<Rightarrow> supply_codec \<Rightarrow> license_evidence \<times> producer \<times> u64 \<times> u64 \<Rightarrow> subject \<Rightarrow> stage res" where
  "license_producer d c = (\<lambda>(ev, prd, started, completed) sj.
     evaluate_license_provenance d c ev sj prd started completed)"

interpretation license: stage_producer d LicenseProvenance "license_producer d c" for d c
proof unfold_locales
  fix i :: "license_evidence \<times> producer \<times> u64 \<times> u64" and sj s
  assume "license_producer d c i sj = Inr s"
  then show "st_requirement s = LicenseProvenance" and "stage_contract d s sj"
    by (auto simp: license_producer_def evaluate_license_Inr license_stage_def split: prod.splits)
next
  fix i :: "license_evidence \<times> producer \<times> u64 \<times> u64" and sj
  show "\<not> panics (license_producer d c i sj)"
    by (simp add: license_producer_def evaluate_license_no_panic split: prod.splits)
qed

section \<open>A concrete SBOM\<close>

text \<open>A release with one library inside it; the licence of the library may vary.\<close>

definition demo_component :: "string \<Rightarrow> string \<Rightarrow> string \<Rightarrow> string \<Rightarrow> string \<Rightarrow> cdx_component list \<Rightarrow> cdx_component" where
  "demo_component bom_ref kind name content license inner =
     Cdx bom_ref kind name ''1.0.0'' [\<lparr>ch_alg = ''SHA-256'', ch_content = content\<rparr>]
       [\<lparr>cl_license = Some (Some license), cl_expression = None\<rparr>] (Some ''pkg:a'') inner"

definition demo_bom :: "string \<Rightarrow> cdx_bom" where
  "demo_bom license = \<lparr>cx_bom_format = cyclonedx_format, cx_spec_version = cyclonedx_spec_version,
     cx_version = 1,
     cx_root = demo_component (sj_release_id demo_subject) ''application'' ''com.example.a''
       (drop 7 (sj_package_digest demo_subject)) ''MIT''
       [demo_component ''l'' ''library'' ''l'' (drop 7 (sj_artifact_digest demo_subject)) license []],
     cx_components = []\<rparr>"

definition demo_sbom_policy :: sbom_policy where
  "demo_sbom_policy = \<lparr>sb_schema_version = 1, sb_policy_id = ''p'', sb_format = cyclonedx_format,
     sb_spec_version = cyclonedx_spec_version, sb_maximum_components = 2, sb_require_hashes = True,
     sb_require_licenses = True, sb_require_purls = True\<rparr>"

definition demo_license_policy :: license_policy where
  "demo_license_policy = \<lparr>lp_schema_version = 1, lp_policy_id = ''p'', lp_allowed = [''MIT''],
     lp_denied = [''GPL''], lp_maximum_components = 2, lp_require_licensed = True,
     lp_require_provenance = True\<rparr>"

definition demo_sbom_evidence :: sbom_evidence where
  "demo_sbom_evidence = \<lparr>se_package_bytes = ''package'', se_sbom_bytes = ''S'',
     se_report_bytes = ''R'', se_policy_bytes = ''P''\<rparr>"

definition demo_license_evidence :: license_evidence where
  "demo_license_evidence = \<lparr>le_sbom_bytes = ''S'', le_report_bytes = ''R'', le_policy_bytes = ''P''\<rparr>"

definition demo_supply_codec :: "string \<Rightarrow> supply_codec" where
  "demo_supply_codec license = \<lparr>parse_sbom_policy_doc = (\<lambda>_. Some demo_sbom_policy),
     parse_sbom_doc = (\<lambda>_. Some (demo_bom license)),
     parse_sbom_report_doc = (\<lambda>_. Some (exact_sbom_report demo_deps demo_sbom_evidence
       (demo_bom license) demo_subject 20)),
     parse_license_policy_doc = (\<lambda>_. Some demo_license_policy),
     parse_license_report_doc = (\<lambda>_. Some (exact_license_report demo_deps demo_license_evidence
       (reviewed demo_license_policy (components_of (demo_bom license))) demo_subject 20))\<rparr>"

lemma demo_components: "components_of (demo_bom license) =
  [cx_root (demo_bom license),
   demo_component ''l'' ''library'' ''l'' (drop 7 (sj_artifact_digest demo_subject)) license []]"
  by (simp add: components_of_def demo_bom_def demo_component_def)

lemma demo_collectable: "collectable (components_of (demo_bom license))"
proof -
  have hexes: "list_all is_lower_hex (hex x)" for x by (simp add: hex_lower)
  then have "list_all graphic (hex x)" for x
    by (rule list.pred_mono_strong) (auto simp: graphic_def ascii_defs)
  then have "list_all graphic (sj_release_id demo_subject)"
    by (simp add: demo_subject_def release_id_def release_prefix_def graphic_def)
  moreover have "length (sj_release_id demo_subject) \<le> 1024 \<and> sj_release_id demo_subject \<noteq> []
      \<and> sj_release_id demo_subject \<noteq> ''l''"
    using demo_deps_laws(1)
    by (simp add: demo_subject_def release_id_def release_prefix_def sha256_length_def)
  ultimately show ?thesis
    unfolding demo_components collectable_def
    by (simp add: demo_component_def demo_bom_def valid_component_identity_def max_components_def
        graphic_def valid_token_def token_char_def ascii_defs valid_text_printable Suc_le_eq)
qed

lemma demo_parts:
  "set (components_of (demo_bom license)) \<subseteq> Collect component_has_sha256 \<inter> {c. valid_purl (cc_purl c)}"
  "map component_spdx_ids (components_of (demo_bom license)) =
     [[''MIT''], filter valid_spdx_id [license]]"
  "list_all (\<lambda>c. list_all (\<lambda>l. cl_expression l = None) (cc_licenses c))
     (components_of (demo_bom license))"
  unfolding demo_components using demo_deps_laws(1)
  by (auto simp: sha256_length_def demo_bom_def demo_component_def component_has_sha256_def valid_purl_def
      component_spdx_ids_def List.map_filter_def demo_subject_def sha256_digest_def graphic_def
      starts_with_def hex_lower valid_spdx_id_def ascii_defs)

lemma demo_sbom_identity: "validate_sbom_identity (demo_bom license) demo_subject = Inr ()"
  by (simp add: validate_sbom_identity_def demo_bom_def demo_component_def has_sha256_def
      demo_subject_def sha256_digest_def starts_with_def)

lemma demo_sbom_evidence_ok:
  "sbom_evidence_ok demo_deps (demo_supply_codec l) demo_sbom_evidence demo_subject 10 20
     demo_sbom_policy (demo_bom l)"
  using demo_collectable [of l] demo_sbom_identity [of l]
  by (auto simp: sbom_evidence_ok_def parses_def demo_supply_codec_def demo_sbom_evidence_def
      demo_unambiguous demo_subject_def validate_sbom_policy_def demo_sbom_policy_def
      valid_token_def token_char_def ascii_defs max_sbom_policy_bytes_def max_sbom_bytes_def
      max_sbom_report_bytes_def max_components_def valid_evidence_time_def intro!: exI [of _ 20])

lemma demo_license_evidence_ok:
  "license_evidence_ok demo_deps (demo_supply_codec l) demo_license_evidence demo_subject 10 20
     demo_license_policy (demo_bom l)"
  using demo_collectable [of l] demo_sbom_identity [of l]
  by (auto simp: license_evidence_ok_def parses_def demo_supply_codec_def demo_license_evidence_def
      demo_unambiguous demo_subject_def validate_license_policy_def demo_license_policy_def
      valid_token_def token_char_def ascii_defs max_license_policy_bytes_def max_sbom_bytes_def
      max_license_report_bytes_def max_components_def max_license_ids_def valid_evidence_time_def
      sorted_unique_spdx_def valid_spdx_id_def binary_search_iff intro!: exI [of _ 20])

lemma demo_verdicts:
  "sbom_ok demo_sbom_policy (demo_bom ''MIT'')" "licenses_ok demo_license_policy (demo_bom ''MIT'')"
  "\<not> licenses_ok demo_license_policy (demo_bom ''GPL'')"
  using demo_parts [of "''MIT''"] demo_parts [of "''GPL''"]
  by (auto simp: sbom_ok_def licenses_ok_def demo_components complete_component_def
      acceptable_component_ids demo_sbom_policy_def demo_license_policy_def
      component_has_spdx_license_def traceable_def valid_spdx_id_def ascii_defs list_all_iff)

section \<open>Properties\<close>

text \<open>C31: the SBOM evaluator, exactly: it produces a stage with verdict \<open>b\<close> if and only if the
  package is the subject's, the policy is valid, the SBOM is a CycloneDX document rooted at the
  release whose components, nested ones included, are well formed, bounded and distinctly named, and
  the report states their counts, and \<open>b\<close> says whether there are no more of them than the policy
  allows and every one has a SHA-256 hash, an SPDX licence and a package URL.\<close>
theorem sbom_stage_exact:
  assumes "sha256_length d" and "subject_contract d sj" and "run_context_ok prd started completed"
  shows "(\<exists>s. evaluate_sbom d c ev sj prd started completed = Inr s \<and> st_ok s = b) \<longleftrightarrow>
    (\<exists>p bom. sbom_evidence_ok d c ev sj started completed p bom \<and> b = sbom_ok p bom)"
  by (rule exact_stage [OF evaluate_sbom_Inr sbom_stage_contract [OF assms] sbom_stage_verdict])

theorem sbom_stage_exact_witness:
  "\<exists>s. evaluate_sbom demo_deps (demo_supply_codec ''MIT'') demo_sbom_evidence demo_subject
      demo_producer 10 20 = Inr s \<and> st_ok s"
  using sbom_stage_exact [OF demo_deps_laws(1) demo_subject_contract demo_run_context,
      of "demo_supply_codec ''MIT''" demo_sbom_evidence True]
    demo_sbom_evidence_ok [of "''MIT''"] demo_verdicts(1) by auto



end
