(* ===== verification/Reproducible.thy ===== *)
theory Reproducible
  imports Stage
begin

text \<open>
  The reproducible-build stage, tools/tsp/src/certification\_reproducible.rs: two clean-room builds
  of the same source are compared with the package of the subject. The two readers of serde are the
  fields of \<open>build_codec\<close>.
\<close>

section \<open>Documents\<close>

record build_policy =
  bl_schema_version :: u32
  bl_policy_id :: string
  bl_required_builds :: u32
  bl_distinct_environments :: bool
  bl_max_build_ms :: u64
  bl_max_total_ms :: u64

record build_attempt =
  ba_slot :: string
  ba_attempt_id :: string
  ba_builder_id :: string
  ba_builder_version :: string
  ba_environment_digest :: string
  ba_package_digest :: string
  ba_exit_code :: int
  ba_network_accesses :: u64
  ba_undeclared_inputs :: u64
  ba_duration_ms :: u64

record build_report =
  bo_schema_version :: u32
  bo_subject :: subject
  bo_source_digest :: string
  bo_policy_digest :: string
  bo_started_at :: u64
  bo_completed_at :: u64
  bo_duration_ms :: u64
  bo_builds :: "build_attempt list"

record build_evidence =
  be_report_bytes :: bytes
  be_policy_bytes :: bytes
  be_source_bytes :: bytes
  be_subject_package_bytes :: bytes
  be_rebuilt_a_bytes :: bytes
  be_rebuilt_b_bytes :: bytes

record build_codec =
  parse_build_policy_doc :: "bytes \<Rightarrow> build_policy option"
  parse_build_report_doc :: "bytes \<Rightarrow> build_report option"

definition max_build_report_bytes :: nat where "max_build_report_bytes = 2097152"
definition max_build_policy_bytes :: nat where "max_build_policy_bytes = 65536"
definition max_build_duration_seconds :: u64 where "max_build_duration_seconds = 604800"
definition max_build_duration_ms :: u64 where
  "max_build_duration_ms = max_build_duration_seconds * 1000"
definition required_independent_builds :: u32 where "required_independent_builds = 2"
definition max_observed_violations :: u64 where "max_observed_violations = 1000000000"

definition parse_build_json ::
  "deps \<Rightarrow> (bytes \<Rightarrow> 'a option) \<Rightarrow> bytes \<Rightarrow> nat \<Rightarrow> string \<Rightarrow> string \<Rightarrow> 'a res" where
  "parse_build_json d parse data maximum size_code json_code =
     bindR (reject (data = [] \<or> length data > maximum) size_code) (\<lambda>_.
     bindR (reject (\<not> unambiguous d data) json_code) (\<lambda>_.
       ok_or json_code (parse data)))"

definition parse_build_policy :: "deps \<Rightarrow> build_codec \<Rightarrow> bytes \<Rightarrow> build_policy res" where
  "parse_build_policy d c data =
     parse_build_json d (parse_build_policy_doc c) data max_build_policy_bytes
       ''certification.reproduciblePolicySize'' ''certification.reproduciblePolicyJson''"

definition parse_build_report :: "deps \<Rightarrow> build_codec \<Rightarrow> bytes \<Rightarrow> build_report res" where
  "parse_build_report d c data =
     parse_build_json d (parse_build_report_doc c) data max_build_report_bytes
       ''certification.reproducibleReportSize'' ''certification.reproducibleReportJson''"

section \<open>Validation\<close>

definition validate_build_policy :: "build_policy \<Rightarrow> unit res" where
  "validate_build_policy p =
     reject (bl_schema_version p \<noteq> 1
       \<or> \<not> valid_token (bl_policy_id p) 1 128
       \<or> bl_required_builds p \<noteq> required_independent_builds
       \<or> \<not> bl_distinct_environments p
       \<or> \<not> (1 \<le> bl_max_build_ms p \<and> bl_max_build_ms p \<le> max_build_duration_ms)
       \<or> \<not> (1 \<le> bl_max_total_ms p \<and> bl_max_total_ms p \<le> max_build_duration_ms)
       \<or> bl_max_build_ms p > bl_max_total_ms p) ''certification.reproduciblePolicy''"

text \<open>The context of \<^verbatim>\<open>validate_report\<close>; indexing \<open>bx_output_digests\<close> may panic.\<close>

record build_context =
  bx_subject :: subject
  bx_source_digest :: string
  bx_policy_digest :: string
  bx_output_digests :: "string list"
  bx_started_at :: u64
  bx_completed_at :: u64

text \<open>\<^verbatim>\<open>||\<close> is lazy: the digest is indexed only when the identity of the attempt is well formed.\<close>

definition validate_attempt :: "build_report \<Rightarrow> build_context \<Rightarrow> nat \<Rightarrow> build_attempt \<Rightarrow> unit res" where
  "validate_attempt r x i a =
    (let expected_slot = (if i = 0 then ''a'' else ''b'')
     in bindR (reject (ba_slot a \<noteq> expected_slot
            \<or> \<not> valid_token (ba_attempt_id a) 1 128
            \<or> \<not> valid_token (ba_builder_id a) 1 128
            \<or> \<not> valid_token (ba_builder_version a) 1 128
            \<or> \<not> valid_digest (ba_environment_digest a)) ''certification.reproducibleBuild'') (\<lambda>_.
        bindR (index (bx_output_digests x) i) (\<lambda>expected.
          reject (ba_package_digest a \<noteq> expected
            \<or> ba_network_accesses a > max_observed_violations
            \<or> ba_undeclared_inputs a > max_observed_violations
            \<or> ba_duration_ms a > saturating_add (bo_duration_ms r) 999)
            ''certification.reproducibleBuild'')))"

fun validate_attempts :: "build_report \<Rightarrow> build_context \<Rightarrow> nat \<Rightarrow> build_attempt list \<Rightarrow> unit res" where
  "validate_attempts r x i [] = Inr ()"
| "validate_attempts r x i (a # as) =
     bindR (validate_attempt r x i a) (\<lambda>_. validate_attempts r x (Suc i) as)"

definition validate_build_report :: "build_report \<Rightarrow> build_context \<Rightarrow> unit res" where
  "validate_build_report r x =
     bindR (reject (bo_schema_version r \<noteq> 1
         \<or> bo_subject r \<noteq> bx_subject x
         \<or> bo_source_digest r \<noteq> bx_source_digest x
         \<or> bo_policy_digest r \<noteq> bx_policy_digest x
         \<or> length (bo_builds r) \<noteq> unat required_independent_builds)
       ''certification.reproducibleReport'') (\<lambda>_.
     bindR (reject (bo_started_at r = 0
         \<or> bo_started_at r \<noteq> bx_started_at x
         \<or> bo_completed_at r \<noteq> bx_completed_at x
         \<or> bo_completed_at r < bo_started_at r
         \<or> saturating_sub (bo_completed_at r) (bo_started_at r) > max_build_duration_seconds
         \<or> bo_duration_ms r > max_build_duration_ms
         \<or> bo_duration_ms r > saturating_add
             (saturating_mul (saturating_sub (bo_completed_at r) (bo_started_at r)) 1000) 999)
       ''certification.reproducibleTiming'') (\<lambda>_.
       validate_attempts r x 0 (bo_builds r)))"

section \<open>The evaluator\<close>

definition builds_pass :: "build_report \<Rightarrow> build_policy \<Rightarrow> bool" where
  "builds_pass r p \<longleftrightarrow>
     list_all (\<lambda>a. ba_exit_code a = 0 \<and> ba_network_accesses a = 0 \<and> ba_undeclared_inputs a = 0
       \<and> ba_duration_ms a \<le> bl_max_build_ms p) (bo_builds r)"

text \<open>The size of a \<^verbatim>\<open>BTreeSet\<close> collected from a list\<close>

definition distinct_count :: "string list \<Rightarrow> nat" where
  "distinct_count xs = length (remdups xs)"

definition reproducible :: "build_report \<Rightarrow> build_policy \<Rightarrow> bool \<Rightarrow> bool" where
  "reproducible r p outputs_match \<longleftrightarrow>
     length (bo_builds r) = unat (bl_required_builds p)
     \<and> distinct_count (map ba_attempt_id (bo_builds r)) = length (bo_builds r)
     \<and> (\<not> bl_distinct_environments p
        \<or> distinct_count (map ba_environment_digest (bo_builds r)) = length (bo_builds r))
     \<and> bo_duration_ms r \<le> bl_max_total_ms p
     \<and> builds_pass r p
     \<and> outputs_match"

definition build_detail :: "build_report \<Rightarrow> bool \<Rightarrow> string" where
  "build_detail r outputs_match =
     ''reproducible build: '' @ dec (length (bo_builds r)) @ '' independent attempts, ''
     @ dec (distinct_count (map ba_environment_digest (bo_builds r)))
     @ '' distinct environments, '' @ dec (unat (bo_duration_ms r)) @ '' ms total, outputs ''
     @ (if outputs_match then ''match the subject package'' else ''differ from the subject package'')"

definition outputs_match :: "string list \<Rightarrow> subject \<Rightarrow> bool" where
  "outputs_match digests sj \<longleftrightarrow> list_all (\<lambda>digest. digest = sj_package_digest sj) digests"

definition build_stage ::
  "deps \<Rightarrow> build_evidence \<Rightarrow> build_report \<Rightarrow> build_policy \<Rightarrow> subject \<Rightarrow> producer \<Rightarrow> u64 \<Rightarrow> u64 \<Rightarrow> stage" where
  "build_stage d ev r p sj prd started completed =
    (let a = sha256_digest d (be_rebuilt_a_bytes ev); b = sha256_digest d (be_rebuilt_b_bytes ev);
         ok = reproducible r p (outputs_match [a, b] sj)
     in \<lparr>st_schema_version = 1, st_requirement = ReproducibleBuild, st_subject = sj,
         st_rule = certification_rule ReproducibleBuild, st_producer = prd,
         st_started_at = started, st_completed_at = completed, st_ok = ok,
         st_inputs = [\<lparr>ref_name = ''plugin-package'', ref_digest = sj_package_digest sj\<rparr>,
           \<lparr>ref_name = ''source-tree'', ref_digest = sha256_digest d (be_source_bytes ev)\<rparr>,
           \<lparr>ref_name = ''build-policy'', ref_digest = sha256_digest d (be_policy_bytes ev)\<rparr>],
         st_outputs = [\<lparr>ref_name = ''build-report'', ref_digest = sha256_digest d (be_report_bytes ev)\<rparr>,
           \<lparr>ref_name = ''rebuilt-package-a'', ref_digest = a\<rparr>,
           \<lparr>ref_name = ''rebuilt-package-b'', ref_digest = b\<rparr>],
         st_detail = build_detail r (outputs_match [a, b] sj),
         st_remediation =
           (if ok then ''rerun both independent clean-room builds for every source and package release''
            else ''produce two successful network-isolated builds from declared inputs in distinct environments whose exact package bytes match the subject'')\<rparr>)"

definition evaluate_reproducible_build ::
  "deps \<Rightarrow> build_codec \<Rightarrow> build_evidence \<Rightarrow> subject \<Rightarrow> producer \<Rightarrow> u64 \<Rightarrow> u64 \<Rightarrow> stage res" where
  "evaluate_reproducible_build d c ev sj prd started completed =
     bindR (parse_build_policy d c (be_policy_bytes ev)) (\<lambda>p.
     bindR (validate_build_policy p) (\<lambda>_.
     bindR (parse_build_report d c (be_report_bytes ev)) (\<lambda>r.
     bindR (reject (be_source_bytes ev = []) ''certification.reproducibleSource'') (\<lambda>_.
     bindR (reject (be_subject_package_bytes ev = []
         \<or> sha256_digest d (be_subject_package_bytes ev) \<noteq> sj_package_digest sj)
       ''certification.reproducibleSubjectPackage'') (\<lambda>_.
     bindR (validate_build_report r
       \<lparr>bx_subject = sj, bx_source_digest = sha256_digest d (be_source_bytes ev),
        bx_policy_digest = sha256_digest d (be_policy_bytes ev),
        bx_output_digests = [sha256_digest d (be_rebuilt_a_bytes ev),
          sha256_digest d (be_rebuilt_b_bytes ev)],
        bx_started_at = started, bx_completed_at = completed\<rparr>) (\<lambda>_.
     let s = build_stage d ev r p sj prd started completed
     in bindR (validate_stage d s sj) (\<lambda>_. Inr s)))))))"

end
