(* ===== verification/Reproducible_Review.thy ===== *)
theory Reproducible_Review
  imports Reproducible Release
begin

text \<open>
  What the reproducible-build evaluator accepts: its checks over machine words read as conditions on
  numbers, the verdict read over the two builds, and the evaluator as a stage producer.
\<close>

section \<open>The report\<close>

definition attempt_ok :: "build_report \<Rightarrow> string \<Rightarrow> string \<Rightarrow> build_attempt \<Rightarrow> bool" where
  "attempt_ok r slot digest a \<longleftrightarrow>
     ba_slot a = slot \<and> valid_token (ba_attempt_id a) 1 128 \<and> valid_token (ba_builder_id a) 1 128
     \<and> valid_token (ba_builder_version a) 1 128 \<and> valid_digest (ba_environment_digest a)
     \<and> ba_package_digest a = digest
     \<and> unat (ba_network_accesses a) \<le> 1000000000 \<and> unat (ba_undeclared_inputs a) \<le> 1000000000
     \<and> unat (ba_duration_ms a) \<le> unat (bo_duration_ms r) + 999"

definition window_ok :: "build_report \<Rightarrow> bool" where
  "window_ok r \<longleftrightarrow>
     (let started = unat (bo_started_at r); completed = unat (bo_completed_at r);
          ms = unat (bo_duration_ms r)
      in 0 < started \<and> started \<le> completed \<and> completed \<le> started + 604800 \<and> ms \<le> 604800000
         \<and> ms \<le> (completed - started) * 1000 + 999)"

definition build_report_ok ::
  "deps \<Rightarrow> build_evidence \<Rightarrow> subject \<Rightarrow> u64 \<Rightarrow> u64 \<Rightarrow> build_report \<Rightarrow> bool" where
  "build_report_ok d ev sj started completed r \<longleftrightarrow>
     bo_schema_version r = 1 \<and> bo_subject r = sj
     \<and> bo_source_digest r = sha256_digest d (be_source_bytes ev)
     \<and> bo_policy_digest r = sha256_digest d (be_policy_bytes ev)
     \<and> bo_started_at r = started \<and> bo_completed_at r = completed \<and> window_ok r
     \<and> (\<exists>a b. bo_builds r = [a, b]
          \<and> attempt_ok r ''a'' (sha256_digest d (be_rebuilt_a_bytes ev)) a
          \<and> attempt_ok r ''b'' (sha256_digest d (be_rebuilt_b_bytes ev)) b)"

definition context_of ::
  "deps \<Rightarrow> build_evidence \<Rightarrow> subject \<Rightarrow> u64 \<Rightarrow> u64 \<Rightarrow> build_context" where
  "context_of d ev sj started completed =
     \<lparr>bx_subject = sj, bx_source_digest = sha256_digest d (be_source_bytes ev),
      bx_policy_digest = sha256_digest d (be_policy_bytes ev),
      bx_output_digests = [sha256_digest d (be_rebuilt_a_bytes ev),
        sha256_digest d (be_rebuilt_b_bytes ev)],
      bx_started_at = started, bx_completed_at = completed\<rparr>"

lemma attempt_duration:
  "unat (total_ms :: u64) \<le> 604800000 \<Longrightarrow> unat (saturating_add total_ms 999) = unat total_ms + 999"
  by (simp add: unat_saturating_add)

lemma validate_attempt_Inr:
  assumes "unat (bo_duration_ms r) \<le> 604800000" and "i < length (bx_output_digests x)"
  shows "validate_attempt r x i a = Inr () \<longleftrightarrow>
    attempt_ok r (if i = 0 then ''a'' else ''b'') (bx_output_digests x ! i) a"
  using assms
  by (auto simp: validate_attempt_def attempt_ok_def Let_def res_simps bindR_Inr_iff index_Inr_iff
      attempt_duration not_less max_observed_violations_def word_le_nat_alt)

lemma window_iff:
  "window_ok r \<longleftrightarrow>
    bo_started_at r \<noteq> 0 \<and> \<not> bo_completed_at r < bo_started_at r
    \<and> \<not> saturating_sub (bo_completed_at r) (bo_started_at r) > max_build_duration_seconds
    \<and> \<not> bo_duration_ms r > max_build_duration_ms
    \<and> \<not> bo_duration_ms r > saturating_add
         (saturating_mul (saturating_sub (bo_completed_at r) (bo_started_at r)) 1000) 999"
proof (cases "unat (bo_completed_at r) - unat (bo_started_at r) \<le> 604800")
  case True
  then have "unat (saturating_add (saturating_mul
      (saturating_sub (bo_completed_at r) (bo_started_at r)) 1000) 999) =
      (unat (bo_completed_at r) - unat (bo_started_at r)) * 1000 + 999"
    by (simp add: unat_saturating_add unat_saturating_mul unat_saturating_sub)
  with True show ?thesis
    by (auto simp: window_ok_def Let_def not_less word_le_nat_alt unat_saturating_sub
        max_build_duration_seconds_def max_build_duration_ms_def unat_eq_0 [symmetric])
next
  case False
  then show ?thesis
    by (auto simp: window_ok_def Let_def not_less word_le_nat_alt unat_saturating_sub
        max_build_duration_seconds_def)
qed

lemma validate_build_report_Inr:
  "validate_build_report r (context_of d ev sj started completed) = Inr () \<longleftrightarrow>
    build_report_ok d ev sj started completed r"
proof (cases "length (bo_builds r) = 2 \<and> window_ok r")
  case True
  then obtain a b where ab: "bo_builds r = [a, b]"
    by (auto simp: numeral_2_eq_2 length_Suc_conv)
  have "unat (bo_duration_ms r) \<le> 604800000" using True by (simp add: window_ok_def Let_def)
  note at = validate_attempt_Inr [OF this]
  have "validate_attempts r (context_of d ev sj started completed) 0 (bo_builds r) = Inr () \<longleftrightarrow>
      attempt_ok r ''a'' (sha256_digest d (be_rebuilt_a_bytes ev)) a
      \<and> attempt_ok r ''b'' (sha256_digest d (be_rebuilt_b_bytes ev)) b"
    by (simp add: ab bindR_Inr_iff at context_of_def)
  with True ab show ?thesis
    unfolding validate_build_report_def build_report_ok_def window_iff
    by (auto simp: bindR_Inr_iff res_simps context_of_def required_independent_builds_def)
next
  case False
  then show ?thesis
    unfolding validate_build_report_def build_report_ok_def
    by (auto simp: bindR_Inr_iff res_simps context_of_def required_independent_builds_def window_iff)
qed

section \<open>The verdict\<close>

definition build_evidence_ok ::
  "deps \<Rightarrow> build_codec \<Rightarrow> build_evidence \<Rightarrow> subject \<Rightarrow> u64 \<Rightarrow> u64 \<Rightarrow> build_policy \<Rightarrow> build_report \<Rightarrow> bool" where
  "build_evidence_ok d c ev sj started completed p r \<longleftrightarrow>
     parses d (parse_build_policy_doc c) max_build_policy_bytes (be_policy_bytes ev) p
     \<and> validate_build_policy p = Inr ()
     \<and> parses d (parse_build_report_doc c) max_build_report_bytes (be_report_bytes ev) r
     \<and> be_source_bytes ev \<noteq> []
     \<and> be_subject_package_bytes ev \<noteq> []
     \<and> sha256_digest d (be_subject_package_bytes ev) = sj_package_digest sj
     \<and> build_report_ok d ev sj started completed r"

definition clean_build :: "build_policy \<Rightarrow> build_attempt \<Rightarrow> bool" where
  "clean_build p a \<longleftrightarrow> ba_exit_code a = 0 \<and> ba_network_accesses a = 0 \<and> ba_undeclared_inputs a = 0
     \<and> ba_duration_ms a \<le> bl_max_build_ms p"

definition reproduced :: "deps \<Rightarrow> build_evidence \<Rightarrow> subject \<Rightarrow> build_policy \<Rightarrow> build_report \<Rightarrow> bool" where
  "reproduced d ev sj p r \<longleftrightarrow>
     distinct (map ba_attempt_id (bo_builds r)) \<and> distinct (map ba_environment_digest (bo_builds r))
     \<and> (\<forall>a\<in>set (bo_builds r). clean_build p a)
     \<and> bo_duration_ms r \<le> bl_max_total_ms p
     \<and> sha256_digest d (be_rebuilt_a_bytes ev) = sj_package_digest sj
     \<and> sha256_digest d (be_rebuilt_b_bytes ev) = sj_package_digest sj"

lemma distinct_count_full: "distinct_count xs = length xs \<longleftrightarrow> distinct xs"
  by (metis distinct_count_def distinct_remdups_id length_remdups_card_conv card_distinct
      distinct_card)

lemma build_stage_verdict:
  assumes "build_evidence_ok d c ev sj started completed p r"
  shows "st_ok (build_stage d ev r p sj prd started completed) = reproduced d ev sj p r"
proof -
  have "bl_required_builds p = 2" "bl_distinct_environments p" "length (bo_builds r) = 2"
    using assms by (auto simp: build_evidence_ok_def validate_build_policy_def res_simps
        required_independent_builds_def build_report_ok_def)
  then show ?thesis
    using distinct_count_full [of "map ba_attempt_id (bo_builds r)"]
      distinct_count_full [of "map ba_environment_digest (bo_builds r)"]
    by (auto simp: build_stage_def Let_def reproducible_def reproduced_def builds_pass_def
        clean_build_def outputs_match_def list_all_iff)
qed

lemma parse_build_json_Inr:
  "parse_build_json d parse data maximum size_code json_code = Inr x \<longleftrightarrow>
     parses d parse maximum data x"
  by (auto simp: parse_build_json_def parses_def res_simps not_less)

lemma evaluate_build_Inr:
  "evaluate_reproducible_build d c ev sj prd started completed = Inr s \<longleftrightarrow>
    (\<exists>p r. build_evidence_ok d c ev sj started completed p r
      \<and> s = build_stage d ev r p sj prd started completed \<and> stage_contract d s sj)"
  unfolding evaluate_reproducible_build_def context_of_def [symmetric]
  by (auto simp: bindR_Inr_iff reject_Inr_iff parse_build_policy_def parse_build_report_def
      parse_build_json_Inr validate_build_report_Inr Let_def validate_stage_Inr
      build_evidence_ok_def)

lemma build_names:
  "list_all (\<lambda>x. valid_token x 1 128) [''plugin-package'', ''source-tree'', ''build-policy'',
     ''build-report'', ''rebuilt-package-a'', ''rebuilt-package-b'']"
  by (simp add: valid_token_def token_char_def ascii_defs)

lemma build_detail_text:
  assumes "length (bo_builds r) = 2"
  shows "valid_text (build_detail r m) 1 1024"
proof (rule valid_text_printable)
  have "distinct_count (map ba_environment_digest (bo_builds r)) < 10"
    using assms length_remdups_leq [of "map ba_environment_digest (bo_builds r)"]
    by (simp add: distinct_count_def)
  then show "length (build_detail r m) \<le> 1024"
    using assms length_dec_u64 [of "bo_duration_ms r"] length_dec_le [of 2 1]
      length_dec_le [of "distinct_count (map ba_environment_digest (bo_builds r))" 1]
    by (simp add: build_detail_def)
qed (simp_all add: build_detail_def)

lemma build_stage_contract:
  assumes sha: "sha256_length d" and sj: "subject_contract d sj"
    and run: "run_context_ok prd started completed"
    and e: "build_evidence_ok d c ev sj started completed p r"
  shows "stage_contract d (build_stage d ev r p sj prd started completed) sj"
proof -
  let ?s = "build_stage d ev r p sj prd started completed"
  have dg: "valid_digest (sj_package_digest sj)"
    using sj by (auto simp: subject_contract_def validate_subject_def res_simps)
  have "validate_references (st_inputs ?s) = Inr ()" "validate_references (st_outputs ?s) = Inr ()"
    using dg sha build_names by (auto simp: build_stage_def Let_def intro!: validate_references_map)
  moreover have "valid_text (st_remediation ?s) 1 1024"
    by (auto simp: build_stage_def Let_def intro!: valid_text_printable)
  moreover have "valid_text (st_detail ?s) 1 1024"
    using build_detail_text [of r] e
    by (auto simp: build_evidence_ok_def build_report_ok_def build_stage_def Let_def)
  moreover have "subject_bound ?s sj"
    using build_stage_verdict [OF e, of prd]
    by (auto simp: subject_bound_def reproduced_def) (auto simp: build_stage_def Let_def)
  ultimately show ?thesis
    using run sj by (auto simp: stage_contract_def run_context_ok_def)
      (auto simp: build_stage_def Let_def)
qed

lemma validate_attempt_no_panic:
  "i < length (bx_output_digests x) \<Longrightarrow> \<not> panics (validate_attempt r x i a)"
  by (auto simp: validate_attempt_def Let_def panics_bindR panics_index)

lemma validate_build_report_no_panic:
  "\<not> panics (validate_build_report r (context_of d ev sj started completed))"
proof (cases "length (bo_builds r) = 2")
  case True
  then obtain a b where "bo_builds r = [a, b]" by (auto simp: numeral_2_eq_2 length_Suc_conv)
  then show ?thesis
    by (auto simp: validate_build_report_def panics_bindR context_of_def
        intro!: validate_attempt_no_panic)
qed (simp add: validate_build_report_def panics_bindR reject_Inr_iff required_independent_builds_def)

lemma evaluate_build_no_panic:
  "\<not> panics (evaluate_reproducible_build d c ev sj prd started completed)"
  unfolding evaluate_reproducible_build_def context_of_def [symmetric]
  by (auto simp: panics_bindR parse_build_policy_def parse_build_report_def parse_build_json_def
      validate_build_policy_def validate_build_report_no_panic Let_def validate_stage_no_panic)

definition build_producer ::
  "deps \<Rightarrow> build_codec \<Rightarrow> build_evidence \<times> producer \<times> u64 \<times> u64 \<Rightarrow> subject \<Rightarrow> stage res" where
  "build_producer d c = (\<lambda>(ev, prd, started, completed) sj.
     evaluate_reproducible_build d c ev sj prd started completed)"

interpretation build: stage_producer d ReproducibleBuild "build_producer d c" for d c
proof unfold_locales
  fix i :: "build_evidence \<times> producer \<times> u64 \<times> u64" and sj s
  assume "build_producer d c i sj = Inr s"
  then show "st_requirement s = ReproducibleBuild" and "stage_contract d s sj"
    by (auto simp: build_producer_def evaluate_build_Inr build_stage_def Let_def split: prod.splits)
next
  fix i :: "build_evidence \<times> producer \<times> u64 \<times> u64" and sj
  show "\<not> panics (build_producer d c i sj)"
    by (simp add: build_producer_def evaluate_build_no_panic split: prod.splits)
qed

section \<open>A concrete pair of builds\<close>

definition demo_attempt :: "string \<Rightarrow> string \<Rightarrow> build_attempt" where
  "demo_attempt slot environment = \<lparr>ba_slot = slot, ba_attempt_id = slot, ba_builder_id = ''ci'',
     ba_builder_version = ''1'', ba_environment_digest = sha256_digest demo_deps environment,
     ba_package_digest = sha256_digest demo_deps ''package'', ba_exit_code = 0,
     ba_network_accesses = 0, ba_undeclared_inputs = 0, ba_duration_ms = 5000\<rparr>"

definition demo_build_policy :: build_policy where
  "demo_build_policy = \<lparr>bl_schema_version = 1, bl_policy_id = ''p'', bl_required_builds = 2,
     bl_distinct_environments = True, bl_max_build_ms = 5000, bl_max_total_ms = 10999\<rparr>"

definition demo_build_evidence :: build_evidence where
  "demo_build_evidence = \<lparr>be_report_bytes = ''R'', be_policy_bytes = ''P'', be_source_bytes = ''S'',
     be_subject_package_bytes = ''package'', be_rebuilt_a_bytes = ''package'',
     be_rebuilt_b_bytes = ''package''\<rparr>"

text \<open>The second build runs in environment \<open>e\<close>, the first in environment \<open>x\<close>.\<close>

definition demo_build_report :: "string \<Rightarrow> build_report" where
  "demo_build_report e = \<lparr>bo_schema_version = 1, bo_subject = demo_subject,
     bo_source_digest = sha256_digest demo_deps ''S'', bo_policy_digest = sha256_digest demo_deps ''P'',
     bo_started_at = 10, bo_completed_at = 20, bo_duration_ms = 10999,
     bo_builds = [demo_attempt ''a'' ''x'', demo_attempt ''b'' e]\<rparr>"

definition demo_build_codec :: "string \<Rightarrow> build_codec" where
  "demo_build_codec e = \<lparr>parse_build_policy_doc = (\<lambda>_. Some demo_build_policy),
     parse_build_report_doc = (\<lambda>_. Some (demo_build_report e))\<rparr>"

lemma demo_build_evidence_ok:
  "build_evidence_ok demo_deps (demo_build_codec e) demo_build_evidence demo_subject 10 20
     demo_build_policy (demo_build_report e)"
proof -
  have "build_report_ok demo_deps demo_build_evidence demo_subject 10 20 (demo_build_report e)"
    by (simp add: build_report_ok_def demo_build_report_def demo_build_evidence_def window_ok_def
        Let_def attempt_ok_def demo_attempt_def valid_token_def token_char_def ascii_defs)
  then show ?thesis
    by (simp add: build_evidence_ok_def parses_def demo_build_codec_def demo_build_evidence_def
        demo_unambiguous validate_build_policy_def demo_build_policy_def valid_token_def
        token_char_def ascii_defs required_independent_builds_def max_build_duration_ms_def
        max_build_duration_seconds_def max_build_policy_bytes_def max_build_report_bytes_def
        demo_subject_def)
qed

lemma demo_environments: "sha256_digest demo_deps ''x'' \<noteq> sha256_digest demo_deps ''y''"
  by (auto dest!: sha256_digest_inj simp: demo_deps_def)

lemma demo_reproduced:
  "reproduced demo_deps demo_build_evidence demo_subject demo_build_policy (demo_build_report ''y'')"
  "\<not> reproduced demo_deps demo_build_evidence demo_subject demo_build_policy (demo_build_report ''x'')"
  using demo_environments
  by (simp_all add: reproduced_def demo_build_evidence_def demo_subject_def demo_build_policy_def
      demo_build_report_def demo_attempt_def clean_build_def)

section \<open>Properties\<close>

text \<open>C33: the reproducible-build evaluator, exactly: it produces a stage with verdict \<open>v\<close> if and only
  if policy and report are valid documents about the subject, its source and the two rebuilt
  packages, with a consistent time window, and \<open>v\<close> says whether two distinct attempts in distinct
  environments both ended cleanly (exit code 0, no network access, no undeclared input), within the
  limits of the policy, and both rebuilt packages have the digest of the subject's package.\<close>
theorem reproducible_stage_exact:
  assumes "sha256_length d" and "subject_contract d sj" and "run_context_ok prd started completed"
  shows "(\<exists>s. evaluate_reproducible_build d c ev sj prd started completed = Inr s \<and> st_ok s = v) \<longleftrightarrow>
    (\<exists>p r. build_evidence_ok d c ev sj started completed p r \<and> v = reproduced d ev sj p r)"
  by (rule exact_stage [OF evaluate_build_Inr build_stage_contract [OF assms] build_stage_verdict])

theorem reproducible_stage_exact_witness:
  "(\<exists>s. evaluate_reproducible_build demo_deps (demo_build_codec ''y'') demo_build_evidence
      demo_subject demo_producer 10 20 = Inr s \<and> st_ok s)
   \<and> (\<exists>s. evaluate_reproducible_build demo_deps (demo_build_codec ''x'') demo_build_evidence
      demo_subject demo_producer 10 20 = Inr s \<and> \<not> st_ok s)"
  using reproducible_stage_exact [OF demo_deps_laws(1) demo_subject_contract demo_run_context,
      of "demo_build_codec ''y''" demo_build_evidence True]
    reproducible_stage_exact [OF demo_deps_laws(1) demo_subject_contract demo_run_context,
      of "demo_build_codec ''x''" demo_build_evidence False]
    demo_build_evidence_ok [of "''y''"] demo_build_evidence_ok [of "''x''"]
    demo_reproduced by auto

end
