(* ===== verification/Artifact.thy ===== *)
theory Artifact
  imports Stage Trust
begin

text \<open>
  The signed-artifact stage, tools/tsp/src/certification\_artifact.rs: the signature of the plugin
  executable is checked against a policy and a trust store the caller provides. The readers of
  serde and the weak-key test of ed25519-dalek are the fields of \<open>artifact_codec\<close>.
\<close>

section \<open>Documents\<close>

record artifact_identity =
  ai_plugin_id :: string
  ai_version :: string
  ai_platform :: string
  ai_api_version :: u32
  ai_artifact_digest :: string
  ai_release_id :: string

definition identity_of :: "subject \<Rightarrow> artifact_identity" where
  "identity_of sj = \<lparr>ai_plugin_id = sj_plugin_id sj, ai_version = sj_version sj,
     ai_platform = sj_platform sj, ai_api_version = sj_api_version sj,
     ai_artifact_digest = sj_artifact_digest sj, ai_release_id = sj_release_id sj\<rparr>"

record artifact_signature =
  ag_schema_version :: u32
  ag_artifact :: artifact_identity
  ag_signer_id :: string
  ag_key_id :: string
  ag_issued_at :: u64
  ag_expires_at :: u64
  ag_algorithm :: string
  ag_signature :: string

record artifact_policy =
  ap_schema_version :: u32
  ap_policy_id :: string
  ap_algorithm :: string
  ap_max_lifetime :: u64
  ap_min_remaining :: u64

record artifact_key =
  ak_signer_id :: string
  ak_key_id :: string
  ak_public_key :: string
  ak_not_before :: u64
  ak_not_after :: u64

record artifact_store =
  at_schema_version :: u32
  at_keys :: "artifact_key list"

record artifact_evidence =
  av_executable_bytes :: bytes
  av_signature_bytes :: bytes
  av_policy_bytes :: bytes
  av_store_bytes :: bytes

record artifact_codec =
  parse_artifact_policy :: "bytes \<Rightarrow> artifact_policy option"
  parse_artifact_store :: "bytes \<Rightarrow> artifact_store option"
  parse_artifact_signature :: "bytes \<Rightarrow> artifact_signature option"
  ed_key_weak :: "bytes \<Rightarrow> bool" \<comment> \<open>\<^verbatim>\<open>VerifyingKey::is_weak\<close>\<close>

definition artifact_signature_algorithm :: string where
  "artifact_signature_algorithm = ''ed25519''"
definition max_artifact_lifetime :: u64 where "max_artifact_lifetime = 31622400"
definition max_artifact_signature_bytes :: nat where "max_artifact_signature_bytes = 32768"
definition max_artifact_policy_bytes :: nat where "max_artifact_policy_bytes = 65536"
definition max_artifact_store_bytes :: nat where "max_artifact_store_bytes = 262144"
definition max_artifact_keys :: nat where "max_artifact_keys = 128"
definition artifact_domain :: bytes where
  "artifact_domain = ''TokenSaver plugin artifact signature v1''"

definition artifact_parse ::
  "deps \<Rightarrow> (bytes \<Rightarrow> 'a option) \<Rightarrow> bytes \<Rightarrow> nat \<Rightarrow> string \<Rightarrow> string \<Rightarrow> 'a res" where
  "artifact_parse d parse data maximum size_code json_code =
     bindR (reject (data = [] \<or> length data > maximum) size_code) (\<lambda>_.
     bindR (reject (\<not> unambiguous d data) json_code) (\<lambda>_.
       ok_or json_code (parse data)))"

text \<open>\<^verbatim>\<open>artifact_signature_signing_message\<close>: the bytes an artifact signing key signs.\<close>

definition artifact_signing_message :: "artifact_signature \<Rightarrow> bytes" where
  "artifact_signing_message s =
    (let output = append_field [] artifact_domain;
         output = append_u64 output (ucast (ag_schema_version s));
         output = append_field output (ai_plugin_id (ag_artifact s));
         output = append_field output (ai_version (ag_artifact s));
         output = append_field output (ai_platform (ag_artifact s));
         output = append_u64 output (ucast (ai_api_version (ag_artifact s)));
         output = append_field output (ai_artifact_digest (ag_artifact s));
         output = append_field output (ai_release_id (ag_artifact s));
         output = append_field output (ag_signer_id s);
         output = append_field output (ag_key_id s);
         output = append_u64 output (ag_issued_at s);
         output = append_u64 output (ag_expires_at s)
     in append_field output (ag_algorithm s))"

section \<open>Validation\<close>

definition validate_artifact_policy :: "artifact_policy \<Rightarrow> unit res" where
  "validate_artifact_policy p =
     reject (ap_schema_version p \<noteq> 1
       \<or> \<not> valid_token (ap_policy_id p) 1 128
       \<or> ap_algorithm p \<noteq> artifact_signature_algorithm
       \<or> \<not> (1 \<le> ap_max_lifetime p \<and> ap_max_lifetime p \<le> max_artifact_lifetime)
       \<or> ap_min_remaining p > ap_max_lifetime p) ''certification.artifactPolicy''"

definition valid_public_key :: "deps \<Rightarrow> artifact_codec \<Rightarrow> string \<Rightarrow> bool" where
  "valid_public_key d c value \<longleftrightarrow>
     (case decode_exact d 32 value of
        None \<Rightarrow> False
      | Some key \<Rightarrow> ed_key_ok d key \<and> \<not> ed_key_weak c key)"

fun validate_artifact_keys ::
  "deps \<Rightarrow> artifact_codec \<Rightarrow> (string \<times> string) set \<Rightarrow> artifact_key list \<Rightarrow> unit res" where
  "validate_artifact_keys d c identities [] = Inr ()"
| "validate_artifact_keys d c identities (k # ks) =
     (if \<not> valid_token (ak_signer_id k) 1 128 \<or> \<not> valid_token (ak_key_id k) 1 128
         \<or> ak_not_after k \<le> ak_not_before k
         \<or> \<not> valid_public_key d c (ak_public_key k)
         \<or> (ak_signer_id k, ak_key_id k) \<in> identities
      then Inl (VErr ''certification.artifactTrustKey'')
      else validate_artifact_keys d c (insert (ak_signer_id k, ak_key_id k) identities) ks)"

definition validate_artifact_store :: "deps \<Rightarrow> artifact_codec \<Rightarrow> artifact_store \<Rightarrow> unit res" where
  "validate_artifact_store d c store =
     bindR (reject (at_schema_version store \<noteq> 1 \<or> at_keys store = []
         \<or> length (at_keys store) > max_artifact_keys) ''certification.artifactTrustStore'') (\<lambda>_.
       validate_artifact_keys d c {} (at_keys store))"

definition validate_signature_contract ::
  "deps \<Rightarrow> artifact_signature \<Rightarrow> subject \<Rightarrow> artifact_policy \<Rightarrow> unit res" where
  "validate_signature_contract d s sj p =
     reject (ag_schema_version s \<noteq> 1
       \<or> ag_artifact s \<noteq> identity_of sj
       \<or> \<not> valid_token (ag_signer_id s) 1 128
       \<or> \<not> valid_token (ag_key_id s) 1 128
       \<or> ag_issued_at s = 0
       \<or> ag_algorithm s \<noteq> ap_algorithm p
       \<or> decode_exact d 64 (ag_signature s) = None) ''certification.artifactSignature''"

section \<open>The assessment\<close>

text \<open>\<^verbatim>\<open>expect\<close>\<close>

definition expect :: "'a option \<Rightarrow> 'a res" where
  "expect x = (case x of None \<Rightarrow> Inl Panic | Some y \<Rightarrow> Inr y)"

text \<open>\<open>Some reason\<close> is a signature that is not accepted.\<close>

definition assess_signature ::
  "deps \<Rightarrow> artifact_signature \<Rightarrow> artifact_policy \<Rightarrow> artifact_store \<Rightarrow> u64 \<Rightarrow> string option res" where
  "assess_signature d s p store now =
    (if ag_expires_at s \<le> ag_issued_at s
        \<or> saturating_sub (ag_expires_at s) (ag_issued_at s) > ap_max_lifetime p
     then Inr (Some ''the signature lifetime is invalid or exceeds policy'')
     else if now < ag_issued_at s \<or> now > ag_expires_at s
        \<or> saturating_sub (ag_expires_at s) now < ap_min_remaining p
     then Inr (Some ''the signature is not currently valid for the policy window'')
     else
       (case find (\<lambda>k. ak_signer_id k = ag_signer_id s \<and> ak_key_id k = ag_key_id s) (at_keys store) of
          None \<Rightarrow> Inr (Some ''the signer key is not explicitly trusted by the caller'')
        | Some key \<Rightarrow>
            if ag_issued_at s < ak_not_before key \<or> ag_expires_at s > ak_not_after key
            then Inr (Some ''the trusted key does not cover the complete signature lifetime'')
            else
              bindR (expect (decode_exact d 32 (ak_public_key key))) (\<lambda>public_key.
              bindR (expect (decode_exact d 64 (ag_signature s))) (\<lambda>signature.
              bindR (expect (if ed_key_ok d public_key then Some public_key else None))
                (\<lambda>verifying_key.
                if \<not> ed_verify d verifying_key (artifact_signing_message s) signature
                then Inr (Some ''the cryptographic signature does not verify'')
                else Inr None)))))"

section \<open>The evaluator\<close>

definition artifact_detail :: "artifact_signature \<Rightarrow> string option \<Rightarrow> string" where
  "artifact_detail s failure =
     (case failure of
        Some reason \<Rightarrow> ''artifact signature: signer '' @ ag_signer_id s @ '' key '' @ ag_key_id s
          @ '' was not accepted: '' @ reason
      | None \<Rightarrow> ''artifact signature: verified signer '' @ ag_signer_id s @ '' key '' @ ag_key_id s
          @ '' for the exact executable'')"

definition artifact_stage ::
  "deps \<Rightarrow> artifact_evidence \<Rightarrow> artifact_signature \<Rightarrow> string option \<Rightarrow> subject \<Rightarrow> producer \<Rightarrow> u64 \<Rightarrow> u64
     \<Rightarrow> stage" where
  "artifact_stage d ev s failure sj prd started completed =
     \<lparr>st_schema_version = 1, st_requirement = SignedArtifact, st_subject = sj,
      st_rule = certification_rule SignedArtifact, st_producer = prd,
      st_started_at = started, st_completed_at = completed, st_ok = (failure = None),
      st_inputs = [\<lparr>ref_name = ''plugin-executable'', ref_digest = sj_artifact_digest sj\<rparr>,
        \<lparr>ref_name = ''signature-policy'', ref_digest = sha256_digest d (av_policy_bytes ev)\<rparr>,
        \<lparr>ref_name = ''artifact-trust-store'', ref_digest = sha256_digest d (av_store_bytes ev)\<rparr>],
      st_outputs = [\<lparr>ref_name = ''artifact-signature'',
        ref_digest = sha256_digest d (av_signature_bytes ev)\<rparr>],
      st_detail = artifact_detail s failure,
      st_remediation =
        (if failure = None
         then ''sign every changed executable with a current explicitly trusted artifact key''
         else ''obtain a current valid signature from an explicitly trusted artifact signer for these exact executable bytes'')\<rparr>"

definition evaluate_signed_artifact ::
  "deps \<Rightarrow> artifact_codec \<Rightarrow> artifact_evidence \<Rightarrow> subject \<Rightarrow> producer \<Rightarrow> u64 \<Rightarrow> u64 \<Rightarrow> stage res" where
  "evaluate_signed_artifact d c ev sj prd started completed =
     bindR (reject (av_executable_bytes ev = []
         \<or> sha256_digest d (av_executable_bytes ev) \<noteq> sj_artifact_digest sj)
       ''certification.artifactExecutable'') (\<lambda>_.
     bindR (artifact_parse d (parse_artifact_policy c) (av_policy_bytes ev) max_artifact_policy_bytes
       ''certification.artifactPolicySize'' ''certification.artifactPolicyJson'') (\<lambda>p.
     bindR (validate_artifact_policy p) (\<lambda>_.
     bindR (artifact_parse d (parse_artifact_store c) (av_store_bytes ev) max_artifact_store_bytes
       ''certification.artifactTrustStoreSize'' ''certification.artifactTrustStoreJson'') (\<lambda>store.
     bindR (validate_artifact_store d c store) (\<lambda>_.
     bindR (artifact_parse d (parse_artifact_signature c) (av_signature_bytes ev)
       max_artifact_signature_bytes ''certification.artifactSignatureSize''
       ''certification.artifactSignatureJson'') (\<lambda>s.
     bindR (validate_signature_contract d s sj p) (\<lambda>_.
     bindR (assess_signature d s p store completed) (\<lambda>failure.
     let stage = artifact_stage d ev s failure sj prd started completed
     in bindR (validate_stage d stage sj) (\<lambda>_. Inr stage)))))))))"

end
