(* ===== verification/Artifact_Review.thy ===== *)
theory Artifact_Review
  imports Artifact Release
begin

text \<open>
  What the signed-artifact evaluator accepts, read over numbers and the keys of the store; the
  signed message determines what is signed and is never a message of another document; the
  evaluator as a stage producer.
\<close>

section \<open>The trust store\<close>

definition artifact_key_ok :: "deps \<Rightarrow> artifact_codec \<Rightarrow> artifact_key \<Rightarrow> bool" where
  "artifact_key_ok d c k \<longleftrightarrow>
     valid_token (ak_signer_id k) 1 128 \<and> valid_token (ak_key_id k) 1 128
     \<and> ak_not_before k < ak_not_after k \<and> valid_public_key d c (ak_public_key k)"

lemma validate_artifact_keys_Inr:
  "validate_artifact_keys d c identities ks = Inr () \<longleftrightarrow>
    list_all (artifact_key_ok d c) ks
    \<and> distinct (map (\<lambda>k. (ak_signer_id k, ak_key_id k)) ks)
    \<and> (\<lambda>k. (ak_signer_id k, ak_key_id k)) ` set ks \<inter> identities = {}"
  by (induction ks arbitrary: identities) (auto simp: artifact_key_ok_def not_le)

definition artifact_store_ok :: "deps \<Rightarrow> artifact_codec \<Rightarrow> artifact_store \<Rightarrow> bool" where
  "artifact_store_ok d c store \<longleftrightarrow>
     at_schema_version store = 1 \<and> at_keys store \<noteq> [] \<and> length (at_keys store) \<le> 128
     \<and> (\<forall>k\<in>set (at_keys store). artifact_key_ok d c k)
     \<and> distinct (map (\<lambda>k. (ak_signer_id k, ak_key_id k)) (at_keys store))"

lemma validate_artifact_store_Inr:
  "validate_artifact_store d c store = Inr () \<longleftrightarrow> artifact_store_ok d c store"
  by (auto simp: validate_artifact_store_def artifact_store_ok_def bindR_Inr_iff res_simps
      validate_artifact_keys_Inr max_artifact_keys_def list_all_iff not_less)

lemma find_unique_key:
  assumes "distinct (map f xs)" and "x \<in> set xs"
  shows "find (\<lambda>y. f y = f x) xs = Some x"
  using assms by (induction xs) (auto simp: image_iff dest: sym)

section \<open>The assessment\<close>

definition signature_accepted ::
  "deps \<Rightarrow> artifact_policy \<Rightarrow> artifact_store \<Rightarrow> artifact_signature \<Rightarrow> u64 \<Rightarrow> bool" where
  "signature_accepted d p store s now \<longleftrightarrow>
     (let issued = unat (ag_issued_at s); expires = unat (ag_expires_at s); t = unat now
      in issued < expires \<and> expires \<le> issued + unat (ap_max_lifetime p)
         \<and> issued \<le> t \<and> t + unat (ap_min_remaining p) \<le> expires)
     \<and> (\<exists>k\<in>set (at_keys store). ak_signer_id k = ag_signer_id s \<and> ak_key_id k = ag_key_id s
          \<and> ak_not_before k \<le> ag_issued_at s \<and> ag_expires_at s \<le> ak_not_after k
          \<and> (\<exists>public_key signature. decode_exact d 32 (ak_public_key k) = Some public_key
               \<and> decode_exact d 64 (ag_signature s) = Some signature
               \<and> ed_verify d public_key (artifact_signing_message s) signature))"

definition times_ok :: "artifact_policy \<Rightarrow> artifact_signature \<Rightarrow> u64 \<Rightarrow> bool" where
  "times_ok p s now \<longleftrightarrow>
     \<not> (ag_expires_at s \<le> ag_issued_at s
        \<or> saturating_sub (ag_expires_at s) (ag_issued_at s) > ap_max_lifetime p)
     \<and> \<not> (now < ag_issued_at s \<or> now > ag_expires_at s
        \<or> saturating_sub (ag_expires_at s) now < ap_min_remaining p)"

lemma times_ok_iff:
  "times_ok p s now \<longleftrightarrow>
    (let issued = unat (ag_issued_at s); expires = unat (ag_expires_at s); t = unat now
     in issued < expires \<and> expires \<le> issued + unat (ap_max_lifetime p)
        \<and> issued \<le> t \<and> t + unat (ap_min_remaining p) \<le> expires)"
  by (auto simp: times_ok_def Let_def not_less not_le word_less_nat_alt word_le_nat_alt
      unat_saturating_sub)

lemma assess_untimely:
  "\<not> times_ok p s now \<Longrightarrow> \<exists>reason. assess_signature d s p store now = Inr (Some reason)"
  by (auto simp: times_ok_def assess_signature_def)

lemma assess_timely:
  assumes "times_ok p s now"
  shows "assess_signature d s p store now =
    (case find (\<lambda>k. ak_signer_id k = ag_signer_id s \<and> ak_key_id k = ag_key_id s) (at_keys store) of
       None \<Rightarrow> Inr (Some ''the signer key is not explicitly trusted by the caller'')
     | Some key \<Rightarrow>
         if ag_issued_at s < ak_not_before key \<or> ag_expires_at s > ak_not_after key
         then Inr (Some ''the trusted key does not cover the complete signature lifetime'')
         else
           bindR (expect (decode_exact d 32 (ak_public_key key))) (\<lambda>public_key.
           bindR (expect (decode_exact d 64 (ag_signature s))) (\<lambda>signature.
           bindR (expect (if ed_key_ok d public_key then Some public_key else None))
             (\<lambda>verifying_key.
             if \<not> ed_verify d verifying_key (artifact_signing_message s) signature
             then Inr (Some ''the cryptographic signature does not verify'')
             else Inr None))))"
  using assms by (simp add: times_ok_def assess_signature_def)

lemma assess_signature_cases:
  assumes store: "artifact_store_ok d c store" and sg: "decode_exact d 64 (ag_signature s) \<noteq> None"
  shows "\<exists>failure. assess_signature d s p store now = Inr failure
    \<and> (failure = None \<longleftrightarrow> signature_accepted d p store s now)"
proof (cases "times_ok p s now")
  case False
  moreover have "\<not> signature_accepted d p store s now"
    using False unfolding times_ok_iff signature_accepted_def by blast
  ultimately show ?thesis using assess_untimely [OF False] by blast
next
  case True
  let ?P = "\<lambda>k. ak_signer_id k = ag_signer_id s \<and> ak_key_id k = ag_key_id s"
  show ?thesis
  proof (cases "find ?P (at_keys store)")
    case None
    then have "\<not> signature_accepted d p store s now"
      by (auto simp: signature_accepted_def find_None_iff)
    then show ?thesis using assess_timely [OF True] None by simp
  next
    case (Some k)
    then have k: "k \<in> set (at_keys store)" "?P k" by (auto simp: find_Some_iff)
    obtain public_key where pk: "decode_exact d 32 (ak_public_key k) = Some public_key"
      "ed_key_ok d public_key"
      using store k by (auto simp: artifact_store_ok_def artifact_key_ok_def valid_public_key_def
          split: option.splits)
    have only: "k' = k" if "k' \<in> set (at_keys store)" "?P k'" for k'
      using store k that unfolding artifact_store_ok_def distinct_map inj_on_def by auto
    from sg obtain signature where sig: "decode_exact d 64 (ag_signature s) = Some signature" by blast
    let ?R = "\<lambda>k. (\<not> (ag_issued_at s < ak_not_before k \<or> ag_expires_at s > ak_not_after k))
      \<and> (\<exists>pk. decode_exact d 32 (ak_public_key k) = Some pk
           \<and> ed_verify d pk (artifact_signing_message s) signature)"
    have "signature_accepted d p store s now \<longleftrightarrow> (\<exists>k\<in>set (at_keys store). ?P k \<and> ?R k)"
      using True unfolding times_ok_iff signature_accepted_def
      by (simp add: sig not_less conj_assoc)
    also have "\<dots> \<longleftrightarrow> ?R k" using k only by blast
    finally have "signature_accepted d p store s now \<longleftrightarrow> ?R k" .
    then show ?thesis
      using assess_timely [OF True, of d store] Some pk sig by (simp add: expect_def)
  qed
qed

section \<open>The signed message\<close>

definition identity_bytes :: "artifact_identity \<Rightarrow> bytes" where
  "identity_bytes i = field (ai_plugin_id i) @ field (ai_version i) @ field (ai_platform i)
     @ u64_be (ucast (ai_api_version i)) @ field (ai_artifact_digest i) @ field (ai_release_id i)"

definition identity_fields_ok :: "artifact_identity \<Rightarrow> bool" where
  "identity_fields_ok i \<longleftrightarrow> list_all field_ok [ai_plugin_id i, ai_version i, ai_platform i,
     ai_artifact_digest i, ai_release_id i]"

definition signature_fields_ok :: "artifact_signature \<Rightarrow> bool" where
  "signature_fields_ok s \<longleftrightarrow> identity_fields_ok (ag_artifact s)
     \<and> list_all field_ok [ag_signer_id s, ag_key_id s, ag_algorithm s]"

interpretation identity_code: prefix_code identity_bytes identity_fields_ok
proof unfold_locales
  fix x y :: artifact_identity and r s
  assume ok: "identity_fields_ok x" "identity_fields_ok y"
    and "identity_bytes x @ r = identity_bytes y @ s"
  then have "ai_plugin_id x = ai_plugin_id y \<and> ai_version x = ai_version y
      \<and> ai_platform x = ai_platform y
      \<and> (ucast (ai_api_version x) :: u64) = ucast (ai_api_version y)
      \<and> ai_artifact_digest x = ai_artifact_digest y \<and> ai_release_id x = ai_release_id y \<and> r = s"
    by (simp add: identity_bytes_def identity_fields_ok_def field_code.append_eq_iff
        u64_code.append_eq_iff u64_code.eq_iff)
  then show "x = y \<and> r = s" by (auto dest: ucast_u32_u64_inj)
qed

lemma artifact_signing_message_eq:
  "artifact_signing_message s =
     field artifact_domain @ u64_be (ucast (ag_schema_version s)) @ identity_bytes (ag_artifact s)
     @ field (ag_signer_id s) @ field (ag_key_id s) @ u64_be (ag_issued_at s)
     @ u64_be (ag_expires_at s) @ field (ag_algorithm s) @ []"
  by (simp add: artifact_signing_message_def append_field_eq append_u64_def identity_bytes_def)

lemma artifact_message_unique:
  assumes "signature_fields_ok a" and "signature_fields_ok b"
    and "artifact_signing_message a = artifact_signing_message b"
  shows "a\<lparr>ag_signature := x\<rparr> = b\<lparr>ag_signature := x\<rparr>"
proof -
  have "ag_artifact a = ag_artifact b" "ag_signer_id a = ag_signer_id b" "ag_key_id a = ag_key_id b"
    "ag_issued_at a = ag_issued_at b" "ag_expires_at a = ag_expires_at b"
    "ag_algorithm a = ag_algorithm b"
    "(ucast (ag_schema_version a) :: u64) = ucast (ag_schema_version b)"
    using assms unfolding artifact_signing_message_eq signature_fields_ok_def
    by (simp_all add: field_code.append_eq_iff u64_code.append_eq_iff field_code.eq_iff
        identity_code.append_eq_iff u64_code.eq_iff)
  then show ?thesis by (simp add: ucast_u32_u64_inj)
qed

lemma artifact_domain_separated:
  "artifact_signing_message s \<noteq> envelope_signing_message e"
  "artifact_signing_message s \<noteq> revocation_signing_message l"
proof -
  have dom: "field_ok artifact_domain" "artifact_domain \<noteq> envelope_domain"
    "artifact_domain \<noteq> revocation_domain"
    by (simp_all add: field_ok_def artifact_domain_def envelope_domain_def revocation_domain_def)
  then show "artifact_signing_message s \<noteq> envelope_signing_message e"
    "artifact_signing_message s \<noteq> revocation_signing_message l"
    unfolding artifact_signing_message_eq envelope_signing_message_eq revocation_signing_message_eq
    by (simp_all add: field_code.append_eq_iff)
qed

section \<open>The evaluator as a stage producer\<close>

text \<open>The policy, the store and the signature the evidence holds.\<close>

definition artifact_evidence_ok ::
  "deps \<Rightarrow> artifact_codec \<Rightarrow> artifact_evidence \<Rightarrow> subject \<Rightarrow> artifact_policy \<Rightarrow> artifact_store
     \<Rightarrow> artifact_signature \<Rightarrow> bool" where
  "artifact_evidence_ok d c ev sj p store s \<longleftrightarrow>
     av_executable_bytes ev \<noteq> [] \<and> sha256_digest d (av_executable_bytes ev) = sj_artifact_digest sj
     \<and> parses d (parse_artifact_policy c) max_artifact_policy_bytes (av_policy_bytes ev) p
     \<and> validate_artifact_policy p = Inr ()
     \<and> parses d (parse_artifact_store c) max_artifact_store_bytes (av_store_bytes ev) store
     \<and> artifact_store_ok d c store
     \<and> parses d (parse_artifact_signature c) max_artifact_signature_bytes (av_signature_bytes ev) s
     \<and> validate_signature_contract d s sj p = Inr ()"

lemma artifact_parse_Inr:
  "artifact_parse d parse data maximum size_code json_code = Inr x \<longleftrightarrow> parses d parse maximum data x"
  by (auto simp: artifact_parse_def parses_def res_simps not_less)

lemma evaluate_artifact_Inr:
  "evaluate_signed_artifact d c ev sj prd started completed = Inr stage \<longleftrightarrow>
    (\<exists>p store s failure. artifact_evidence_ok d c ev sj p store s
      \<and> assess_signature d s p store completed = Inr failure
      \<and> stage = artifact_stage d ev s failure sj prd started completed
      \<and> stage_contract d stage sj)"
proof -
  note unfold = evaluate_signed_artifact_def bindR_Inr_iff reject_Inr_iff artifact_parse_Inr
    validate_artifact_store_Inr Let_def validate_stage_Inr artifact_evidence_ok_def
  show ?thesis (is "?run \<longleftrightarrow> ?ok")
  proof
    assume ?run
    then show ?ok by (auto simp: unfold)
  next
    assume ?ok
    then show ?run by (auto simp: unfold)
  qed
qed

lemma evidence_assessed:
  assumes "artifact_evidence_ok d c ev sj p store s"
  shows "\<exists>failure. assess_signature d s p store now = Inr failure
    \<and> (failure = None \<longleftrightarrow> signature_accepted d p store s now)"
proof (rule assess_signature_cases)
  show "artifact_store_ok d c store" "decode_exact d 64 (ag_signature s) \<noteq> None"
    using assms by (auto simp: artifact_evidence_ok_def validate_signature_contract_def res_simps)
qed

lemma artifact_names:
  "list_all (\<lambda>x. valid_token x 1 128) [''plugin-executable'', ''signature-policy'',
     ''artifact-trust-store'', ''artifact-signature'']"
  by (simp add: valid_token_def token_char_def ascii_defs)

lemma assess_reason_text:
  "assess_signature d s p store now = Inr (Some reason) \<Longrightarrow> printable reason \<and> length reason \<le> 128"
  by (auto simp: assess_signature_def bindR_Inr_iff split: if_splits option.splits)

lemma artifact_detail_text:
  assumes "valid_token (ag_signer_id s) 1 128" and "valid_token (ag_key_id s) 1 128"
    and "assess_signature d s p store now = Inr failure"
  shows "valid_text (artifact_detail s failure) 1 1024"
  using assms(1,2) [THEN valid_token_length] assms(1,2) [THEN valid_token_printable]
    assess_reason_text [of d s p store now] assms(3)
  by (cases failure) (auto simp: artifact_detail_def intro!: valid_text_printable)

lemma artifact_stage_contract:
  assumes sha: "sha256_length d" and sj: "subject_contract d sj"
    and run: "run_context_ok prd started completed"
    and e: "artifact_evidence_ok d c ev sj p store s"
    and a: "assess_signature d s p store now = Inr failure"
  shows "stage_contract d (artifact_stage d ev s failure sj prd started completed) sj"
proof -
  let ?s = "artifact_stage d ev s failure sj prd started completed"
  have dg: "valid_digest (sj_artifact_digest sj)"
    using sj by (auto simp: subject_contract_def validate_subject_def res_simps)
  have "validate_references (st_inputs ?s) = Inr ()" "validate_references (st_outputs ?s) = Inr ()"
    using dg sha artifact_names by (auto simp: artifact_stage_def intro!: validate_references_map)
  moreover have "valid_text (st_remediation ?s) 1 1024"
    by (auto simp: artifact_stage_def intro!: valid_text_printable)
  moreover have "valid_text (st_detail ?s) 1 1024"
    using artifact_detail_text [OF _ _ a] e
    by (auto simp: artifact_stage_def artifact_evidence_ok_def validate_signature_contract_def
        res_simps)
  ultimately show ?thesis
    using run sj by (auto simp: stage_contract_def artifact_stage_def run_context_ok_def
        subject_bound_def)
qed

lemma evaluate_artifact_no_panic: "\<not> panics (evaluate_signed_artifact d c ev sj prd started completed)"
proof -
  have keys: "\<not> panics (validate_artifact_keys d c ids ks)" for ids ks
    by (induction ks arbitrary: ids) auto
  have "\<not> panics (assess_signature d s p store completed)"
    if "validate_artifact_store d c store = Inr ()" "validate_signature_contract d s sj p = Inr ()"
    for s p store
    using assess_signature_cases [of d c store s p completed] that
    by (auto simp: validate_artifact_store_Inr validate_signature_contract_def res_simps)
  then show ?thesis
    by (auto simp: evaluate_signed_artifact_def panics_bindR artifact_parse_def keys
        validate_artifact_policy_def validate_artifact_store_def validate_signature_contract_def
        Let_def validate_stage_no_panic)
qed

definition artifact_producer ::
  "deps \<Rightarrow> artifact_codec \<Rightarrow> artifact_evidence \<times> producer \<times> u64 \<times> u64 \<Rightarrow> subject \<Rightarrow> stage res" where
  "artifact_producer d c = (\<lambda>(ev, prd, started, completed) sj.
     evaluate_signed_artifact d c ev sj prd started completed)"

interpretation artifact: stage_producer d SignedArtifact "artifact_producer d c" for d c
proof unfold_locales
  fix i :: "artifact_evidence \<times> producer \<times> u64 \<times> u64" and sj s
  assume "artifact_producer d c i sj = Inr s"
  then show "st_requirement s = SignedArtifact" and "stage_contract d s sj"
    by (auto simp: artifact_producer_def evaluate_artifact_Inr artifact_stage_def split: prod.splits)
next
  fix i :: "artifact_evidence \<times> producer \<times> u64 \<times> u64" and sj
  show "\<not> panics (artifact_producer d c i sj)"
    by (simp add: artifact_producer_def evaluate_artifact_no_panic split: prod.splits)
qed

section \<open>A concrete signature\<close>

definition demo_artifact_key :: artifact_key where
  "demo_artifact_key = \<lparr>ak_signer_id = ''acme'', ak_key_id = ''k1'',
     ak_public_key = ''abc'' @ replicate 29 CHR ''k'', ak_not_before = 5, ak_not_after = 500\<rparr>"

text \<open>The signature starts with the bytes \<open>bits\<close>; the key of the store verifies those that start with
  its own.\<close>

definition demo_artifact_signature :: "string \<Rightarrow> artifact_signature" where
  "demo_artifact_signature bits = \<lparr>ag_schema_version = 1, ag_artifact = identity_of demo_subject,
     ag_signer_id = ''acme'', ag_key_id = ''k1'', ag_issued_at = 5, ag_expires_at = 105,
     ag_algorithm = ''ed25519'', ag_signature = bits @ replicate 61 CHR ''s''\<rparr>"

definition demo_artifact_policy :: artifact_policy where
  "demo_artifact_policy = \<lparr>ap_schema_version = 1, ap_policy_id = ''p'', ap_algorithm = ''ed25519'',
     ap_max_lifetime = 100, ap_min_remaining = 85\<rparr>"

definition demo_artifact_store :: artifact_store where
  "demo_artifact_store = \<lparr>at_schema_version = 1, at_keys = [demo_artifact_key]\<rparr>"

definition demo_artifact_evidence :: artifact_evidence where
  "demo_artifact_evidence = \<lparr>av_executable_bytes = ''artifact'', av_signature_bytes = ''G'',
     av_policy_bytes = ''P'', av_store_bytes = ''T''\<rparr>"

definition demo_artifact_codec :: "string \<Rightarrow> artifact_codec" where
  "demo_artifact_codec bits = \<lparr>parse_artifact_policy = (\<lambda>_. Some demo_artifact_policy),
     parse_artifact_store = (\<lambda>_. Some demo_artifact_store),
     parse_artifact_signature = (\<lambda>_. Some (demo_artifact_signature bits)), ed_key_weak = (\<lambda>_. False)\<rparr>"

lemma demo_artifact_ok:
  assumes "length bits = 3"
  shows "artifact_evidence_ok demo_deps (demo_artifact_codec bits) demo_artifact_evidence demo_subject
    demo_artifact_policy demo_artifact_store (demo_artifact_signature bits)"
proof -
  have "artifact_store_ok demo_deps (demo_artifact_codec bits) demo_artifact_store"
    by (simp add: artifact_store_ok_def demo_artifact_store_def artifact_key_ok_def
        demo_artifact_key_def valid_public_key_def decode_exact_def demo_deps_def
        demo_artifact_codec_def valid_token_def token_char_def ascii_defs)
  moreover have "decode_exact demo_deps 64 (ag_signature (demo_artifact_signature bits)) \<noteq> None"
    using assms by (simp add: decode_exact_def demo_deps_def demo_artifact_signature_def)
  ultimately show ?thesis
    by (simp add: artifact_evidence_ok_def parses_def demo_artifact_codec_def demo_unambiguous
        demo_artifact_evidence_def validate_artifact_policy_def demo_artifact_policy_def
        validate_signature_contract_def valid_token_def token_char_def ascii_defs
        artifact_signature_algorithm_def max_artifact_lifetime_def max_artifact_policy_bytes_def
        max_artifact_store_bytes_def max_artifact_signature_bytes_def)
      (auto simp: demo_artifact_signature_def demo_subject_def valid_token_def token_char_def
        ascii_defs res_simps)
qed

lemma demo_artifact_accepted:
  "signature_accepted demo_deps demo_artifact_policy demo_artifact_store
     (demo_artifact_signature ''abc'') 20"
  "\<not> signature_accepted demo_deps demo_artifact_policy demo_artifact_store
     (demo_artifact_signature ''xyz'') 20"
  by (simp_all add: signature_accepted_def demo_artifact_policy_def demo_artifact_store_def
      demo_artifact_signature_def demo_artifact_key_def decode_exact_def demo_deps_def)

lemma demo_signature_fields: "signature_fields_ok (demo_artifact_signature ''abc'')"
proof -
  have "length (sha256_digest demo_deps x) = 71" for x
    using demo_digest [of x] by (simp add: valid_digest_def)
  moreover have "length (release_id demo_deps x y z w) \<le> 200" for x y z w
    using demo_deps_laws(1) by (simp add: release_id_def release_prefix_def sha256_length_def)
  then have "length (release_id demo_deps x y z w) < 18446744073709551616" for x y z w
    by (rule le_less_trans) simp
  ultimately show ?thesis
    by (simp add: signature_fields_ok_def identity_fields_ok_def field_ok_def
        demo_artifact_signature_def identity_of_def demo_subject_def)
qed

section \<open>Properties\<close>

text \<open>C34: the signed-artifact evaluator, exactly: it produces a stage with verdict \<open>v\<close> if and only if the
  executable is the subject's, policy, trust store and signature are valid documents and the
  signature is about the subject, and \<open>v\<close> says whether the signature is current for the policy and
  verifies under a key of the store that is valid for the whole lifetime of the signature.\<close>
theorem artifact_stage_exact:
  assumes "sha256_length d" and "subject_contract d sj" and "run_context_ok prd started completed"
  shows "(\<exists>stage. evaluate_signed_artifact d c ev sj prd started completed = Inr stage
      \<and> st_ok stage = v) \<longleftrightarrow>
    (\<exists>p store s. artifact_evidence_ok d c ev sj p store s
      \<and> v = signature_accepted d p store s completed)" (is "?run \<longleftrightarrow> ?ok")
proof
  assume ?run
  then obtain p store s failure where e: "artifact_evidence_ok d c ev sj p store s"
    and a: "assess_signature d s p store completed = Inr failure" and v: "v = (failure = None)"
    by (auto simp: evaluate_artifact_Inr artifact_stage_def)
  from evidence_assessed [OF e, of completed] a v e show ?ok by auto
next
  assume ?ok
  then obtain p store s where e: "artifact_evidence_ok d c ev sj p store s"
    and v: "v = signature_accepted d p store s completed" by blast
  from evidence_assessed [OF e, of completed] obtain failure where
    a: "assess_signature d s p store completed = Inr failure"
    and f: "failure = None \<longleftrightarrow> signature_accepted d p store s completed" by blast
  from artifact_stage_contract [OF assms e a] e a
  have "evaluate_signed_artifact d c ev sj prd started completed
      = Inr (artifact_stage d ev s failure sj prd started completed)"
    by (auto simp: evaluate_artifact_Inr)
  then show ?run using f v by (simp add: artifact_stage_def)
qed

theorem artifact_stage_exact_witness:
  "(\<exists>s. evaluate_signed_artifact demo_deps (demo_artifact_codec ''abc'') demo_artifact_evidence
      demo_subject demo_producer 10 20 = Inr s \<and> st_ok s)
   \<and> (\<exists>s. evaluate_signed_artifact demo_deps (demo_artifact_codec ''xyz'') demo_artifact_evidence
      demo_subject demo_producer 10 20 = Inr s \<and> \<not> st_ok s)"
proof -
  have "length ''abc'' = 3" "length ''xyz'' = 3" by simp_all
  note ok = this [THEN demo_artifact_ok]
  show ?thesis
    using artifact_stage_exact [OF demo_deps_laws(1) demo_subject_contract demo_run_context,
        of "demo_artifact_codec ''abc''" demo_artifact_evidence True]
      artifact_stage_exact [OF demo_deps_laws(1) demo_subject_contract demo_run_context,
        of "demo_artifact_codec ''xyz''" demo_artifact_evidence False]
      ok demo_artifact_accepted by auto
qed

text \<open>A signature cannot be moved: the message an artifact key signs determines every field of the
  signature document but the signature itself, and it is never the message of a certification
  envelope or of a revocation list.\<close>
lemma artifact_message_unambiguous:
  assumes "signature_fields_ok a" and "signature_fields_ok b"
  shows "(artifact_signing_message a = artifact_signing_message b \<longrightarrow>
      a\<lparr>ag_signature := x\<rparr> = b\<lparr>ag_signature := x\<rparr>)
    \<and> artifact_signing_message a \<noteq> envelope_signing_message e
    \<and> artifact_signing_message a \<noteq> revocation_signing_message l"
  using artifact_message_unique [OF assms] artifact_domain_separated by blast

lemma artifact_message_unambiguous_witness:
  "artifact_signing_message (demo_artifact_signature ''abc'') \<noteq> envelope_signing_message demo_envelope"
  using artifact_message_unambiguous [OF demo_signature_fields demo_signature_fields] by blast

end
