(* ===== verification/Enterprise.thy ===== *)
theory Enterprise
  imports Pipeline Fuzz Supply_Review Reproducible_Review Artifact_Review
begin

text \<open>
  The stages together: what a passing enterprise report says of the release when its documents are
  those the evaluators of this library produced, from the two rebuilt packages to the licences of
  the components.
\<close>

section \<open>The stages of an assembled report\<close>

lemma assembled_stage:
  assumes "list_all field_ok documents" and "sha256_length d"
    and "assemble_certification_report d parse level sj auth documents = Inr r" and "rep_ok r"
    and "i < length (requirements level)"
    and "parse_stage_document d parse (documents ! i) = run"
  shows "\<exists>s. run = Inr s \<and> st_ok s"
proof -
  from assms(1-3) obtain stages where p: "pipeline_contract d parse level sj documents stages"
    and r: "r = assembled_report d level sj auth documents stages"
    using assemble_Inr by blast
  have l: "list_all2 (\<lambda>document s. stage_of d parse sj document (st_requirement s) s) documents stages"
    and m: "map st_requirement stages = requirements level"
    using p by (simp_all add: pipeline_contract_def)
  from m assms(5) have i: "i < length stages" by (metis length_map)
  with l have "stage_of d parse sj (documents ! i) (st_requirement (stages ! i)) (stages ! i)"
    by (simp add: list_all2_conv_all_nth)
  moreover have "st_ok (stages ! i)"
    using assms(4) r i by (simp add: assembled_report_def list_all_length)
  ultimately show ?thesis using assms(6) by (auto simp: stage_of_def)
qed

lemma assembled_sbom_bound:
  assumes "list_all field_ok documents" and "sha256_length d"
    and "assemble_certification_report d parse EnterpriseCertified sj auth documents = Inr r"
    and "parse_stage_document d parse (documents ! 7) = Inr b"
    and "parse_stage_document d parse (documents ! 8) = Inr l"
  shows "ref_digest (hd (st_outputs b)) = ref_digest (hd (st_inputs l))"
proof -
  from assms(1-3) obtain stages where
    p: "pipeline_contract d parse EnterpriseCertified sj documents stages"
    using assemble_Inr by blast
  have la: "list_all2 (\<lambda>document s. stage_of d parse sj document (st_requirement s) s) documents stages"
    and m: "map st_requirement stages = level_3_requirements" and c: "cross_bound stages"
    using p by (simp_all add: pipeline_contract_def)
  have len: "length stages = 10" using m [THEN arg_cong, of length] by (simp add: level_3_requirements_def)
  have b: "stages ! 7 = b" "stages ! 8 = l"
    using la len assms(4,5) by (auto simp: list_all2_conv_all_nth stage_of_def)
  have q: "st_requirement (stages ! i) = level_3_requirements ! i" if "i < 10" for i
    using m len that by (metis nth_map)
  have "distinct (map st_requirement stages)"
    using m requirements_distinct [of EnterpriseCertified] by simp
  moreover from c len q [of 8] have "\<exists>b'\<in>set stages. st_requirement b' = Sbom
      \<and> ref_digest (hd (st_outputs b')) = ref_digest (hd (st_inputs l))"
    using b nth_mem [of 8 stages] by (auto simp: cross_bound_def level_3_requirements_def)
  moreover have "b \<in> set stages" "st_requirement b = Sbom"
    using b(1) len q [of 7] nth_mem [of 7 stages] by (auto simp: level_3_requirements_def)
  ultimately show ?thesis by (metis distinct_map inj_onD)
qed

section \<open>What a passing stage says\<close>

lemma build_passed:
  assumes "evaluate_reproducible_build d c ev sj prd started completed = Inr s" and "st_ok s"
  shows "\<exists>p r. build_evidence_ok d c ev sj started completed p r \<and> reproduced d ev sj p r"
  using assms by (auto simp: evaluate_build_Inr build_stage_verdict) blast

lemma artifact_passed:
  assumes "evaluate_signed_artifact d c ev sj prd started completed = Inr s" and "st_ok s"
  shows "\<exists>p store g. artifact_evidence_ok d c ev sj p store g
    \<and> signature_accepted d p store g completed"
proof -
  from assms obtain p store g where e: "artifact_evidence_ok d c ev sj p store g"
    and a: "assess_signature d g p store completed = Inr None"
    by (auto simp: evaluate_artifact_Inr artifact_stage_def)
  from evidence_assessed [OF e, of completed] a e show ?thesis by auto
qed

lemma sbom_passed:
  assumes "evaluate_sbom d c ev sj prd started completed = Inr s" and "st_ok s"
  shows "(\<exists>p b. sbom_evidence_ok d c ev sj started completed p b \<and> sbom_ok p b)
    \<and> ref_digest (hd (st_outputs s)) = sha256_digest d (se_sbom_bytes ev)"
  using assms by (auto simp: evaluate_sbom_Inr sbom_stage_verdict) (auto simp: sbom_stage_def)

lemma license_passed:
  assumes "evaluate_license_provenance d c ev sj prd started completed = Inr s" and "st_ok s"
  shows "(\<exists>p b. license_evidence_ok d c ev sj started completed p b \<and> licenses_ok p b)
    \<and> ref_digest (hd (st_inputs s)) = sha256_digest d (le_sbom_bytes ev)"
  using assms by (auto simp: evaluate_license_Inr license_stage_verdict) (auto simp: license_stage_def)

section \<open>A concrete enterprise pipeline\<close>

text \<open>A passing stage that the library has no evaluator for; it binds the subject's digest where the
  requirement asks for it and the manifest of the admin stage otherwise.\<close>

definition demo_passed :: "requirement \<Rightarrow> stage" where
  "demo_passed q =
    (let g = (case subject_binding q demo_subject of
                None \<Rightarrow> sha256_digest demo_deps ''M'' | Some expected \<Rightarrow> expected)
     in (demo_stage q)\<lparr>st_ok := True,
          st_inputs := map (\<lambda>n. \<lparr>ref_name = n, ref_digest = g\<rparr>) (fst (stage_layout q)),
          st_outputs := map (\<lambda>n. \<lparr>ref_name = n, ref_digest = g\<rparr>) (snd (stage_layout q))\<rparr>)"

definition plain_requirements :: "requirement list" where
  "plain_requirements = [ManifestValidation, TsppLifecycle, SafetyContract, PublicCorpusBenchmark,
     ProtocolFuzzing]"

lemma demo_passed_contract:
  assumes "q \<in> set plain_requirements"
  shows "stage_contract demo_deps (demo_passed q) demo_subject"
proof -
  have dg: "valid_digest (sj_artifact_digest demo_subject)" "valid_digest (sj_package_digest demo_subject)"
    by (simp_all add: demo_subject_def)
  have tok: "list_all (\<lambda>x. valid_token x 1 128) (fst (stage_layout q))"
    "list_all (\<lambda>x. valid_token x 1 128) (snd (stage_layout q))"
    using assms by (auto simp: plain_requirements_def valid_token_def token_char_def ascii_defs)
  have "validate_references (st_inputs (demo_passed q)) = Inr ()"
    "validate_references (st_outputs (demo_passed q)) = Inr ()"
    using assms dg
    by (auto simp: plain_requirements_def demo_passed_def Let_def intro!: validate_references_map
        intro: tok [THEN list_all_iff [THEN iffD1], rule_format])
       (use tok assms in \<open>auto simp: plain_requirements_def\<close>)
  then show ?thesis
    using assms demo_subject_contract demo_run_context
    by (auto simp: plain_requirements_def stage_contract_def demo_passed_def Let_def demo_stage_def
        run_context_ok_def subject_bound_def valid_text_printable)
qed

lemma demo_produced:
  "\<exists>b. evaluate_reproducible_build demo_deps (demo_build_codec ''y'') demo_build_evidence demo_subject
      demo_producer 10 20 = Inr b \<and> st_ok b"
  "\<exists>a. evaluate_signed_artifact demo_deps (demo_artifact_codec ''abc'') demo_artifact_evidence
      demo_subject demo_producer 10 20 = Inr a \<and> st_ok a"
  "\<exists>s. evaluate_sbom demo_deps (demo_supply_codec ''MIT'') demo_sbom_evidence demo_subject
      demo_producer 10 20 = Inr s \<and> st_ok s"
  "\<exists>l. evaluate_license_provenance demo_deps (demo_supply_codec ''MIT'') demo_license_evidence
      demo_subject demo_producer 10 20 = Inr l \<and> st_ok l"
  "\<exists>m. evaluate_admin_policy_metadata demo_deps demo_admin_codec demo_admin_evidence demo_subject
      demo_producer 10 20 = Inr m \<and> st_ok m"
proof -
  note ctx = demo_deps_laws(1) demo_subject_contract demo_run_context
  show "\<exists>b. evaluate_reproducible_build demo_deps (demo_build_codec ''y'') demo_build_evidence
      demo_subject demo_producer 10 20 = Inr b \<and> st_ok b"
    using exact_stage [OF evaluate_build_Inr [where c = "demo_build_codec ''y''" and ev = demo_build_evidence]
        build_stage_contract [OF ctx] build_stage_verdict, where v = True]
      demo_build_evidence_ok [of "''y''"] demo_reproduced(1) by auto
  have "length ''abc'' = 3" by simp
  note art = demo_artifact_ok [OF this]
  from evidence_assessed [OF art, of 20] demo_artifact_accepted(1)
  have none: "assess_signature demo_deps (demo_artifact_signature ''abc'') demo_artifact_policy
      demo_artifact_store 20 = Inr None" by auto
  from artifact_stage_contract [OF ctx art none] art none
  have "evaluate_signed_artifact demo_deps (demo_artifact_codec ''abc'') demo_artifact_evidence
      demo_subject demo_producer 10 20 = Inr (artifact_stage demo_deps demo_artifact_evidence
        (demo_artifact_signature ''abc'') None demo_subject demo_producer 10 20)"
    by (auto simp: evaluate_artifact_Inr)
  then show "\<exists>a. evaluate_signed_artifact demo_deps (demo_artifact_codec ''abc'') demo_artifact_evidence
      demo_subject demo_producer 10 20 = Inr a \<and> st_ok a"
    by (simp add: artifact_stage_def)
  show "\<exists>s. evaluate_sbom demo_deps (demo_supply_codec ''MIT'') demo_sbom_evidence demo_subject
      demo_producer 10 20 = Inr s \<and> st_ok s"
    using exact_stage [OF evaluate_sbom_Inr [where c = "demo_supply_codec ''MIT''" and ev = demo_sbom_evidence]
        sbom_stage_contract [OF ctx] sbom_stage_verdict, where v = True]
      demo_sbom_evidence_ok [of "''MIT''"] demo_verdicts(1) by auto
  show "\<exists>l. evaluate_license_provenance demo_deps (demo_supply_codec ''MIT'') demo_license_evidence
      demo_subject demo_producer 10 20 = Inr l \<and> st_ok l"
    using exact_stage [OF evaluate_license_Inr [where c = "demo_supply_codec ''MIT''" and ev = demo_license_evidence]
        license_stage_contract [OF ctx] license_stage_verdict, where v = True]
      demo_license_evidence_ok [of "''MIT''"] demo_verdicts(2) by auto
  show "\<exists>m. evaluate_admin_policy_metadata demo_deps demo_admin_codec demo_admin_evidence demo_subject
      demo_producer 10 20 = Inr m \<and> st_ok m"
    using admin_complete [OF ctx demo_admin_evidence_ok demo_release_small] demo_release_ok(1) by auto
qed

text \<open>The ten documents, each read as its stage.\<close>

definition ten_documents :: "bytes list" where
  "ten_documents = [''0'', ''1'', ''2'', ''3'', ''4'', ''5'', ''6'', ''7'', ''8'', ''9'']"

definition demo_parse_ten :: "stage list \<Rightarrow> bytes \<Rightarrow> stage option" where
  "demo_parse_ten stages = map_of (zip ten_documents (map demo_passed plain_requirements @ stages))"

lemma demo_parse_ten:
  assumes "i < 10" and "length stages = 5"
  shows "parse_stage_document demo_deps (demo_parse_ten stages) (ten_documents ! i)
    = Inr ((map demo_passed plain_requirements @ stages) ! i)"
proof -
  have "distinct ten_documents" "length ten_documents = 10" by (simp_all add: ten_documents_def)
  moreover have "length (map demo_passed plain_requirements @ stages) = 10"
    using assms(2) by (simp add: plain_requirements_def)
  ultimately have "demo_parse_ten stages (ten_documents ! i)
      = Some ((map demo_passed plain_requirements @ stages) ! i)"
    unfolding demo_parse_ten_def using assms(1) by (subst map_of_zip_nth) simp_all
  moreover have "ten_documents ! i \<in> set ten_documents"
    using assms(1) by (intro nth_mem) (simp add: ten_documents_def)
  then have "length (ten_documents ! i) = 1" by (auto simp: ten_documents_def)
  then have "ten_documents ! i \<noteq> []" "\<not> length (ten_documents ! i) > max_stage_evidence_bytes"
    by (auto simp: max_stage_evidence_bytes_def)
  ultimately show ?thesis by (simp add: parse_stage_document_def demo_unambiguous)
qed

lemma demo_enterprise_assembles:
  assumes "stage_contract demo_deps b demo_subject" "st_requirement b = ReproducibleBuild"
    and "stage_contract demo_deps a demo_subject" "st_requirement a = SignedArtifact"
    and "stage_contract demo_deps s demo_subject" "st_requirement s = Sbom"
    and "stage_contract demo_deps l demo_subject" "st_requirement l = LicenseProvenance"
    and "stage_contract demo_deps m demo_subject" "st_requirement m = AdminPolicyMetadata"
    and "ref_digest (hd (st_outputs s)) = ref_digest (hd (st_inputs l))"
    and "ref_digest (hd (st_inputs m)) = sha256_digest demo_deps ''M''"
    and "list_all st_ok [b, a, s, l, m]"
  shows "\<exists>r. assemble_certification_report demo_deps (demo_parse_ten [b, a, s, l, m])
      EnterpriseCertified demo_subject (rep_authority demo_report) ten_documents = Inr r \<and> rep_ok r"
proof -
  let ?stages = "map demo_passed plain_requirements @ [b, a, s, l, m]"
  have q: "st_requirement (demo_passed x) = x" for x
    by (simp add: demo_passed_def Let_def demo_stage_def)
  have ok: "st_ok (demo_passed x)" for x by (simp add: demo_passed_def Let_def)
  have req: "map st_requirement ?stages = requirements EnterpriseCertified"
    using assms by (simp add: plain_requirements_def level_3_requirements_def q)
  have contracts: "list_all (\<lambda>s. stage_contract demo_deps s demo_subject) ?stages"
    using assms demo_passed_contract by (simp add: list_all_iff)
  have len: "length ten_documents = length ?stages" by (simp add: ten_documents_def plain_requirements_def)
  have "list_all2 (\<lambda>document x. stage_of demo_deps (demo_parse_ten [b, a, s, l, m]) demo_subject
      document (st_requirement x) x) ten_documents ?stages"
    unfolding list_all2_conv_all_nth stage_of_def
  proof (intro conjI allI impI)
    fix i assume "i < length ten_documents"
    then have i: "i < 10" "i < length ?stages" using len by (simp_all add: ten_documents_def)
    then show "parse_stage_document demo_deps (demo_parse_ten [b, a, s, l, m]) (ten_documents ! i)
        = Inr (?stages ! i)"
      by (intro demo_parse_ten) simp_all
    show "stage_contract demo_deps (?stages ! i) demo_subject"
      using contracts i(2) by (simp only: list_all_length)
  qed (use len in simp_all)
  moreover have "cross_bound ?stages"
    using assms
    by (auto simp: cross_bound_def plain_requirements_def q) (simp add: demo_passed_def Let_def)
  ultimately have "pipeline_contract demo_deps (demo_parse_ten [b, a, s, l, m]) EnterpriseCertified
      demo_subject ten_documents ?stages"
    using req by (simp add: pipeline_contract_def ten_documents_def)
  moreover have "validate_authority (rep_authority demo_report) = Inr ()"
    using demo_report_contract by (simp add: report_contract_def)
  moreover have "list_all field_ok ten_documents" by (simp add: ten_documents_def field_ok_def)
  ultimately have "assemble_certification_report demo_deps (demo_parse_ten [b, a, s, l, m])
      EnterpriseCertified demo_subject (rep_authority demo_report) ten_documents
    = Inr (assembled_report demo_deps EnterpriseCertified demo_subject (rep_authority demo_report)
        ten_documents ?stages)"
    using assemble_Inr [of ten_documents demo_deps] demo_deps_laws(1) by blast
  moreover have "rep_ok (assembled_report demo_deps EnterpriseCertified demo_subject
      (rep_authority demo_report) ten_documents ?stages)"
    using assms ok by (simp add: assembled_report_def list_all_iff)
  ultimately show ?thesis by blast
qed

section \<open>Properties\<close>



section \<open>What every evaluator returns\<close>

lemmas stage_producers = benchmark_producer_def fuzz_producer_def build_producer_def
  artifact_producer_def sbom_producer_def license_producer_def admin_producer_def

definition well_formed_run :: "deps \<Rightarrow> requirement \<Rightarrow> subject \<Rightarrow> stage res \<Rightarrow> bool" where
  "well_formed_run d q sj run \<longleftrightarrow> (\<forall>s. run = Inr s \<longrightarrow> st_requirement s = q \<and> stage_contract d s sj)"


text \<open>C39: no input makes the certification stages panic: neither the assembly, whose slice indexing
  is guarded by the layout check of every stage, nor any of the seven evaluators.\<close>
theorem stage_code_never_panics:
  "Inl Panic \<notin> {evaluate_public_corpus_benchmark d parse_r parse_p rb pb sj prd started completed,
     evaluate_protocol_fuzzing d fc fev sj prd started completed,
     evaluate_reproducible_build d bc bev sj prd started completed,
     evaluate_signed_artifact d ac aev sj prd started completed,
     evaluate_sbom d sc sev sj prd started completed,
     evaluate_license_provenance d sc lev sj prd started completed,
     evaluate_admin_policy_metadata d mc mev sj prd started completed}
   \<and> assemble_certification_report d parse level sj auth documents \<noteq> Inl Panic"
  using benchmark.no_panic [of d parse_r parse_p "(rb, pb, prd, started, completed)" sj]
    fuzzing.no_panic [of d fc "(fev, prd, started, completed)" sj]
    build.no_panic [of d bc "(bev, prd, started, completed)" sj]
    artifact.no_panic [of d ac "(aev, prd, started, completed)" sj]
    sbom.no_panic [of d sc "(sev, prd, started, completed)" sj]
    license.no_panic [of d sc "(lev, prd, started, completed)" sj]
    admin.no_panic [of d mc "(mev, prd, started, completed)" sj]
    assemble_no_panic [of d parse level sj auth documents]
  by (auto simp: panics_def stage_producers)

end
