(* ===== verification/Zip.thy ===== *)
theory Zip
  imports Deps
begin

text \<open>
  The deterministic ZIP writer of tools/tsp/src/package.rs: \<^verbatim>\<open>write_zip\<close>, \<^verbatim>\<open>crc32\<close>, \<^verbatim>\<open>write_u16\<close> and
  \<^verbatim>\<open>write_u32\<close>. The \<^verbatim>\<open>BTreeMap\<close> of the files is an association list in key order.
\<close>

section \<open>Little-endian numbers\<close>

fun le :: "nat \<Rightarrow> nat \<Rightarrow> bytes" where
  "le 0 n = []"
| "le (Suc k) n = char_of (n mod 256) # le k (n div 256)"

definition write_u16 :: "bytes \<Rightarrow> 16 word \<Rightarrow> bytes" where
  "write_u16 output value = output @ le 2 (unat value)"

definition write_u32 :: "bytes \<Rightarrow> u32 \<Rightarrow> bytes" where
  "write_u32 output value = output @ le 4 (unat value)"

section \<open>The checksum\<close>

definition crc_polynomial :: u32 where "crc_polynomial = 0xedb88320"

definition crc_bit :: "u32 \<Rightarrow> u32" where
  "crc_bit crc = xor (drop_bit 1 crc) (and crc_polynomial (0 - and crc 1))"

definition crc_byte :: "u32 \<Rightarrow> char \<Rightarrow> u32" where
  "crc_byte crc byte = (crc_bit ^^ 8) (xor crc (of_char byte))"

definition crc32 :: "bytes \<Rightarrow> u32" where
  "crc32 data = not (foldl crc_byte (- 1) data)"

section \<open>The archive\<close>

record package_file =
  pf_data :: bytes
  pf_executable :: bool

definition package_max_bytes :: nat where "package_max_bytes = 268435456"
definition package_max_files :: nat where "package_max_files = 4096"

definition zip_u16 :: "nat \<Rightarrow> 16 word res" where
  "zip_u16 n = (if n < 2 ^ 16 then Inr (word_of_nat n) else Inl (VErr ''package.archiveBounds''))"

definition zip_u32 :: "nat \<Rightarrow> u32 res" where
  "zip_u32 n = (if n < 2 ^ 32 then Inr (word_of_nat n) else Inl (VErr ''package.archiveBounds''))"

definition local_header :: "bytes \<Rightarrow> u32 \<Rightarrow> u32 \<Rightarrow> 16 word \<Rightarrow> bytes" where
  "local_header output crc sz name_len =
    (let output = write_u32 output 0x04034b50;
         output = write_u16 output 20;
         output = write_u16 output 0x0800;
         output = write_u16 output 0;
         output = write_u16 output 0;
         output = write_u16 output 0x0021;
         output = write_u32 output crc;
         output = write_u32 output sz;
         output = write_u32 output sz;
         output = write_u16 output name_len
     in write_u16 output 0)"

definition unix_mode :: "bool \<Rightarrow> u32" where
  "unix_mode executable = push_bit 16 (if executable then 33261 else 33188)"

definition central_header :: "bytes \<Rightarrow> u32 \<Rightarrow> u32 \<Rightarrow> 16 word \<Rightarrow> bool \<Rightarrow> u32 \<Rightarrow> bytes" where
  "central_header central crc sz name_len executable offset =
    (let central = write_u32 central 0x02014b50;
         central = write_u16 central (or (push_bit 8 3) 20);
         central = write_u16 central 20;
         central = write_u16 central 0x0800;
         central = write_u16 central 0;
         central = write_u16 central 0;
         central = write_u16 central 0x0021;
         central = write_u32 central crc;
         central = write_u32 central sz;
         central = write_u32 central sz;
         central = write_u16 central name_len;
         central = write_u16 central 0;
         central = write_u16 central 0;
         central = write_u16 central 0;
         central = write_u16 central 0;
         central = write_u32 central (unix_mode executable)
     in write_u32 central offset)"

text \<open>The loop over the files, with the local entries and the central directory written so far.\<close>

fun zip_entries :: "(string \<times> package_file) list \<Rightarrow> bytes \<Rightarrow> bytes \<Rightarrow> (bytes \<times> bytes) res" where
  "zip_entries [] output central = Inr (output, central)"
| "zip_entries ((name, file) # files) output central =
     bindR (zip_u16 (length name)) (\<lambda>name_len.
     bindR (zip_u32 (length (pf_data file))) (\<lambda>sz.
     bindR (zip_u32 (length output)) (\<lambda>offset.
     let crc = crc32 (pf_data file)
     in zip_entries files
          (local_header output crc sz name_len @ name @ pf_data file)
          (central_header central crc sz name_len (pf_executable file) offset @ name))))"

definition end_record :: "bytes \<Rightarrow> 16 word \<Rightarrow> u32 \<Rightarrow> u32 \<Rightarrow> bytes" where
  "end_record output count central_size central_offset =
    (let output = write_u32 output 0x06054b50;
         output = write_u16 output 0;
         output = write_u16 output 0;
         output = write_u16 output count;
         output = write_u16 output count;
         output = write_u32 output central_size;
         output = write_u32 output central_offset
     in write_u16 output 0)"

definition write_zip :: "(string \<times> package_file) list \<Rightarrow> bytes res" where
  "write_zip files =
     bindR (zip_entries files [] []) (\<lambda>(output, central).
     bindR (zip_u32 (length output)) (\<lambda>central_offset.
     bindR (zip_u32 (length central)) (\<lambda>central_size.
     let output = output @ central
     in bindR (zip_u16 (length files)) (\<lambda>count.
        let output = end_record output count central_size central_offset
        in bindR (reject (length output > package_max_bytes) ''package.archiveBounds'') (\<lambda>_.
           Inr output)))))"

end
