(* ===== verification/Package.thy ===== *)
theory Package
  imports Zip Workbench
begin

text \<open>
  Packaging a plugin, tools/tsp/src/package.rs: the plugin is validated, its manifest is rewritten
  for the package, its files are collected into a map of archive paths and written as one ZIP
  archive. Every call of the operating system acts on the world and may find it changed; paths are
  those of a Unix system, and the methods of \<^verbatim>\<open>Path\<close> are the fields \<open>pt_\<dots>\<close>.
\<close>

section \<open>The operating system\<close>

text \<open>What \<^verbatim>\<open>symlink_metadata\<close> tells of a path: its kind and, for a file, its length.\<close>

datatype file_stat = StatSymlink | StatDirectory | StatFile nat | StatOther

record 'w tree_os =
  to_exists :: "string \<Rightarrow> 'w \<Rightarrow> bool \<times> 'w"
  to_is_dir :: "string \<Rightarrow> 'w \<Rightarrow> bool \<times> 'w"
  to_lstat :: "string \<Rightarrow> 'w \<Rightarrow> file_stat option \<times> 'w"
  to_read :: "string \<Rightarrow> 'w \<Rightarrow> bytes option \<times> 'w"
  to_list :: "string \<Rightarrow> 'w \<Rightarrow> bytes list option \<times> 'w" \<comment> \<open>the names in a directory\<close>
  to_create_new :: "string \<Rightarrow> 'w \<Rightarrow> unit option \<times> 'w"
  to_write_sync :: "string \<Rightarrow> bytes \<Rightarrow> 'w \<Rightarrow> unit option \<times> 'w"
  to_rename :: "string \<Rightarrow> string \<Rightarrow> 'w \<Rightarrow> unit option \<times> 'w"
  to_remove :: "string \<Rightarrow> 'w \<Rightarrow> unit option \<times> 'w"
  to_pid :: nat
  pt_join :: "string \<Rightarrow> string \<Rightarrow> string"
  pt_parent :: "string \<Rightarrow> string option"
  pt_file_name :: "string \<Rightarrow> string option"
  pt_extension :: "string \<Rightarrow> string option"
  pt_with_file_name :: "string \<Rightarrow> string \<Rightarrow> string"

text \<open>\<^verbatim>\<open>and_then(|name| name.to_str())\<close>\<close>

definition to_str :: "string option \<Rightarrow> string option" where
  "to_str name = (case name of None \<Rightarrow> None | Some n \<Rightarrow> if is_utf8 n then Some n else None)"

text \<open>A loop whose body acts on the world and carries a value.\<close>

primrec foldW :: "('x \<Rightarrow> 'a \<Rightarrow> ('e, 'w, 'a) eff) \<Rightarrow> 'x list \<Rightarrow> 'a \<Rightarrow> ('e, 'w, 'a) eff" where
  "foldW f [] s = returnW s"
| "foldW f (x # xs) s = bindW (f x s) (foldW f xs)"

section \<open>The report\<close>

record package_file_report =
  pr_path :: string
  pr_size_bytes :: nat
  pr_digest :: string
  pr_executable :: bool

record package_report =
  pk_schema_version :: u32
  pk_ok :: bool
  pk_plugin_id :: string
  pk_version :: string
  pk_platform :: string
  pk_release_id :: string
  pk_level :: certification_level
  pk_archive :: string
  pk_archive_size_bytes :: nat
  pk_archive_digest :: string
  pk_executable_digest :: string
  pk_reproducible :: bool
  pk_files :: "package_file_report list"

type_synonym package_files = "(string \<times> package_file) list"

definition default_package_path :: "resolved_plugin \<Rightarrow> string" where
  "default_package_path plugin =
     mf_id (rp_manifest plugin) @ ''-'' @ mf_version (rp_manifest plugin) @ ''-'' @ rp_platform plugin
     @ ''.tsplug''"

section \<open>Collecting files\<close>

definition read_package_file :: "'w tree_os \<Rightarrow> string \<Rightarrow> ('w, bytes) io" where
  "read_package_file os path =
     bindW (callW ''package.read'' (to_lstat os path)) (\<lambda>st.
       (case st of
          StatFile len \<Rightarrow>
            if len > package_max_bytes then liftW (Inl (VErr ''package.size''))
            else callW ''package.read'' (to_read os path)
        | _ \<Rightarrow> liftW (Inl (VErr ''package.fileType''))))"

definition unsafe_path :: "string \<Rightarrow> bool" where
  "unsafe_path path \<longleftrightarrow>
     path = [] \<or> starts_with path ''/''
     \<or> list_ex (\<lambda>part. part = [] \<or> part = ''.'' \<or> part = ''..'') (split_on CHR ''/'' path)"

definition insert_file :: "package_files \<Rightarrow> string \<Rightarrow> bytes \<Rightarrow> bool \<Rightarrow> package_files res" where
  "insert_file files path data executable =
     bindR (reject (unsafe_path path) ''package.path'') (\<lambda>_.
     bindR (reject (map_of files path \<noteq> None) ''package.duplicate'') (\<lambda>_.
       Inr (map_insert path \<lparr>pf_data = data, pf_executable = executable\<rparr> files)))"

text \<open>
  \<^verbatim>\<open>portable_path\<close> of the path below the root, given by its names; a name that the system lists in a
  directory is one normal component.
\<close>

definition portable_path :: "bytes list \<Rightarrow> string res" where
  "portable_path names =
     bindR (reject (list_ex (\<lambda>n. \<not> is_utf8 n \<or> n = []) names) ''package.path'') (\<lambda>_.
       Inr (join_with CHR ''/'' names))"

text \<open>
  The recursion follows the directories; a tree deeper than \<open>depth\<close>, which stands for the size of the
  stack, ends in the abort of a stack overflow. A path in the tree is its root with the names below.
\<close>

definition tree_path :: "'w tree_os \<Rightarrow> string \<Rightarrow> bytes list \<Rightarrow> string" where
  "tree_path os base names = foldl (pt_join os) base names"

fun collect_tree ::
  "'w tree_os \<Rightarrow> nat \<Rightarrow> string \<Rightarrow> bytes list \<Rightarrow> string \<Rightarrow> package_files \<Rightarrow> ('w, package_files) io" where
  "collect_tree os 0 base names prefix files = liftW (Inl Panic)"
| "collect_tree os (Suc depth) base names prefix files =
     bindW (callW ''package.read'' (to_lstat os (tree_path os base names))) (\<lambda>st.
     bindW (ensure (st = StatDirectory) (VErr ''package.tree'')) (\<lambda>_.
     bindW (callW ''package.read'' (to_list os (tree_path os base names))) (\<lambda>entries.
       foldW (\<lambda>name files.
         let path = names @ [name]
         in bindW (callW ''package.read'' (to_lstat os (tree_path os base path))) (\<lambda>st.
            case st of
              StatSymlink \<Rightarrow> liftW (Inl (VErr ''package.symlink''))
            | StatDirectory \<Rightarrow> collect_tree os depth base path prefix files
            | StatFile _ \<Rightarrow>
                bindW (liftW (portable_path path)) (\<lambda>value.
                bindW (read_package_file os (tree_path os base path)) (\<lambda>data.
                  liftW (insert_file files (prefix @ ''/'' @ value) data False)))
            | StatOther \<Rightarrow> liftW (Inl (VErr ''package.fileType''))))
         (sort entries) files)))"

definition collect_named :: "'w tree_os \<Rightarrow> string \<Rightarrow> string \<Rightarrow> package_files \<Rightarrow> ('w, package_files) io" where
  "collect_named os base name files =
    (let path = pt_join os base name
     in bindW (readW (to_exists os path)) (\<lambda>exists.
        if exists
        then bindW (read_package_file os path) (\<lambda>data. liftW (insert_file files name data False))
        else returnW files))"

definition collect_wiki :: "'w tree_os \<Rightarrow> nat \<Rightarrow> string \<Rightarrow> package_files \<Rightarrow> ('w, package_files) io" where
  "collect_wiki os depth base files =
    (let wiki = pt_join os base ''wiki''
     in bindW (readW (to_exists os wiki)) (\<lambda>exists.
        if exists then collect_tree os depth wiki [] ''wiki'' files else returnW files))"

text \<open>\<^verbatim>\<open>try_fold(0usize, |total, file| total.checked_add(..))\<close>, \<^verbatim>\<open>usize::MAX\<close> when it overflows\<close>

definition inventory_bytes :: "package_files \<Rightarrow> nat" where
  "inventory_bytes files =
    (let n = (\<Sum>(_, file)\<leftarrow>files. length (pf_data file)) in if n < 2 ^ 64 then n else 2 ^ 64 - 1)"

definition ensure_package_bounds :: "package_files \<Rightarrow> unit res" where
  "ensure_package_bounds files =
     reject (length files > package_max_files \<or> inventory_bytes files > package_max_bytes)
       ''package.bounds''"

section \<open>The manifest of the package\<close>

text \<open>
  serde\_json: \<^verbatim>\<open>from_slice::<Value>\<close> and \<^verbatim>\<open>to_vec_pretty\<close>. The two insertions replace the entries of
  the runtime by the path in the archive and the integrity by the digest of the executable.
\<close>

record package_codec =
  parse_manifest_value :: "bytes \<Rightarrow> json option"
  print_pretty :: "json \<Rightarrow> bytes option"

fun json_object :: "json option \<Rightarrow> (string \<times> json) list option" where
  "json_object (Some (JObj members)) = Some members"
| "json_object _ = None"

definition rewrite_manifest :: "json \<Rightarrow> string \<Rightarrow> string \<Rightarrow> string \<Rightarrow> json res" where
  "rewrite_manifest value platform archive_path exe_digest =
     bindR (ok_or ''package.manifest'' (json_object (json_get value ''runtime''))) (\<lambda>runtime.
     let runtime = map_insert ''entry'' (JObj [(platform, JStr archive_path)]) runtime
     in (case json_object (Some value) of
           None \<Rightarrow> Inl Panic
         | Some members \<Rightarrow>
             Inr (JObj (map_insert ''integrity''
               (JObj [(''algorithm'', JStr ''sha256''),
                      (''digests'', JObj [(platform, JStr exe_digest)])])
               (map_insert ''runtime'' (JObj runtime) members)))))"

section \<open>The archive file\<close>

text \<open>
  \<^verbatim>\<open>write_atomic\<close>: the data goes to a temporary file that is renamed; a temporary file that could not
  be written or renamed is removed, whatever that removal answers.
\<close>

definition write_steps :: "'w tree_os \<Rightarrow> string \<Rightarrow> string \<Rightarrow> string \<Rightarrow> string \<Rightarrow> bytes \<Rightarrow> ('w, unit) io" where
  "write_steps os write_code commit_code temporary path data =
     bindW (callW write_code (to_create_new os temporary)) (\<lambda>_.
     bindW (callW write_code (to_write_sync os temporary data)) (\<lambda>_.
       callW commit_code (to_rename os temporary path)))"

definition temporary_path :: "'w tree_os \<Rightarrow> string \<Rightarrow> string \<Rightarrow> string" where
  "temporary_path os fallback path =
     pt_with_file_name os path
       (''.'' @ (case to_str (pt_file_name os path) of None \<Rightarrow> fallback | Some n \<Rightarrow> n)
        @ ''.tmp-'' @ dec (to_pid os))"

definition write_atomic ::
  "'w tree_os \<Rightarrow> string \<Rightarrow> string \<Rightarrow> string \<Rightarrow> string \<Rightarrow> bytes \<Rightarrow> ('w, unit) io" where
  "write_atomic os write_code commit_code fallback path data w =
    (let temporary = temporary_path os fallback path
     in case write_steps os write_code commit_code temporary path data w of
          (Inr u, w') \<Rightarrow> (Inr u, w')
        | (Inl e, w') \<Rightarrow> (Inl e, snd (to_remove os temporary w')))"

definition write_package :: "'w tree_os \<Rightarrow> string \<Rightarrow> bytes \<Rightarrow> ('w, unit) io" where
  "write_package os = write_atomic os ''package.write'' ''package.commit'' ''package.tsplug''"

section \<open>Packaging\<close>

definition check_output :: "'w tree_os \<Rightarrow> string \<Rightarrow> ('w, unit) io" where
  "check_output os out =
     bindW (readW (to_exists os out)) (\<lambda>exists.
     bindW (ensure (\<not> exists) (VErr ''package.exists'')) (\<lambda>_.
     bindW (ensure (to_str (pt_extension os out) = Some ''tsplug'') (VErr ''package.extension'')) (\<lambda>_.
     bindW (readW (to_is_dir os (case pt_parent os out of None \<Rightarrow> ''.'' | Some p \<Rightarrow> p))) (\<lambda>dir.
       ensure dir (VErr ''package.outputDirectory'')))))"

text \<open>The executable before and after validation, and the report of the validation.\<close>

definition stable_executable ::
  "deps \<Rightarrow> host_codec \<Rightarrow> file_ops \<Rightarrow> superec_codec \<Rightarrow> ('w, 'p) platform \<Rightarrow> 'w tree_os \<Rightarrow> resolved_plugin
     \<Rightarrow> ('w, validation_report \<times> bytes) io" where
  "stable_executable d hc fo sc pf os plugin =
     bindW (read_package_file os (rp_executable plugin)) (\<lambda>first.
     bindW (ensure (sha256_digest d first = rp_artifact_digest plugin)
       (VErr ''package.executableChanged'')) (\<lambda>_.
     bindW (validate_plugin d hc fo sc pf plugin) (\<lambda>validation.
     bindW (read_package_file os (rp_executable plugin)) (\<lambda>data.
     bindW (ensure (data = first) (VErr ''package.executableChanged'')) (\<lambda>_.
       returnW (validation, data))))))"

definition executable_archive_path :: "'w tree_os \<Rightarrow> resolved_plugin \<Rightarrow> string res" where
  "executable_archive_path os plugin =
     bindR (ok_or ''package.executableName'' (to_str (pt_file_name os (rp_executable plugin)))) (\<lambda>name.
     bindR (reject (name = []) ''package.executableName'') (\<lambda>_.
       Inr (''bin/'' @ rp_platform plugin @ ''/'' @ name)))"

definition package_manifest ::
  "'w tree_os \<Rightarrow> package_codec \<Rightarrow> resolved_plugin \<Rightarrow> string \<Rightarrow> string \<Rightarrow> ('w, bytes) io" where
  "package_manifest os pc plugin archive_path exe_digest =
     bindW (callW ''package.manifest'' (to_read os (rp_manifest_path plugin))) (\<lambda>data.
     bindW (liftW (ok_or ''package.manifest'' (parse_manifest_value pc data))) (\<lambda>value.
     bindW (liftW (rewrite_manifest value (rp_platform plugin) archive_path exe_digest))
       (\<lambda>value.
     bindW (liftW (ok_or ''package.manifest'' (print_pretty pc value))) (\<lambda>text.
       returnW (text @ [CHR 0x0A])))))"

definition package_names :: "string list" where
  "package_names = [''plugin.superec'', ''README.md'', ''LICENSE'', ''LICENSE.md'', ''LICENSE.txt'']"

definition collect_files ::
  "'w tree_os \<Rightarrow> nat \<Rightarrow> resolved_plugin \<Rightarrow> bytes \<Rightarrow> string \<Rightarrow> bytes \<Rightarrow> ('w, package_files) io" where
  "collect_files os depth plugin manifest_data archive_path executable_data =
    (let base = (case pt_parent os (rp_manifest_path plugin) of None \<Rightarrow> ''.'' | Some p \<Rightarrow> p)
     in bindW (liftW (insert_file [] ''plugin.json'' manifest_data False)) (\<lambda>files.
        bindW (liftW (insert_file files archive_path executable_data True)) (\<lambda>files.
        bindW (foldW (collect_named os base) package_names files) (\<lambda>files.
        bindW (collect_wiki os depth base files) (\<lambda>files.
        bindW (liftW (ensure_package_bounds files)) (\<lambda>_.
          returnW files))))))"

definition file_report :: "deps \<Rightarrow> string \<times> package_file \<Rightarrow> package_file_report" where
  "file_report d = (\<lambda>(path, file). \<lparr>pr_path = path, pr_size_bytes = length (pf_data file),
     pr_digest = sha256_digest d (pf_data file), pr_executable = pf_executable file\<rparr>)"

definition package_plugin ::
  "deps \<Rightarrow> host_codec \<Rightarrow> file_ops \<Rightarrow> superec_codec \<Rightarrow> ('w, 'p) platform \<Rightarrow> 'w tree_os \<Rightarrow> package_codec
     \<Rightarrow> nat \<Rightarrow> resolved_plugin \<Rightarrow> string \<Rightarrow> ('w, package_report) io" where
  "package_plugin d hc fo sc pf os pc depth plugin out =
     bindW (check_output os out) (\<lambda>_.
     bindW (stable_executable d hc fo sc pf os plugin) (\<lambda>(validation, executable_data).
     let exe_digest = sha256_digest d executable_data
     in bindW (liftW (executable_archive_path os plugin)) (\<lambda>archive_path.
        bindW (package_manifest os pc plugin archive_path exe_digest) (\<lambda>manifest_data.
        bindW (collect_files os depth plugin manifest_data archive_path executable_data) (\<lambda>files.
        bindW (liftW (write_zip files)) (\<lambda>archive_data.
        let archive_digest = sha256_digest d archive_data
        in bindW (write_package os out archive_data) (\<lambda>_.
           returnW \<lparr>pk_schema_version = 1, pk_ok = True,
             pk_plugin_id = mf_id (rp_manifest plugin), pk_version = mf_version (rp_manifest plugin),
             pk_platform = rp_platform plugin, pk_release_id = vr_release_id validation,
             pk_level = vr_level validation, pk_archive = out,
             pk_archive_size_bytes = length archive_data, pk_archive_digest = archive_digest,
             pk_executable_digest = exe_digest, pk_reproducible = True,
             pk_files = map (file_report d) files\<rparr>)))))))"

end
