(* ===== verification/Zip_Reader.thy ===== *)
theory Zip_Reader
  imports Zip
begin

text \<open>
  A reader for the archives \<open>write_zip\<close> makes, and the round trip. The reader does what any ZIP
  reader does: it finds the end record, walks the central directory, follows each offset to the
  local header, and checks the stored data against its size and checksum.
\<close>

section \<open>Reading numbers\<close>

fun le_value :: "bytes \<Rightarrow> nat" where
  "le_value [] = 0"
| "le_value (c # cs) = of_char c + 256 * le_value cs"

definition take_number :: "nat \<Rightarrow> bytes \<Rightarrow> (nat \<times> bytes) option" where
  "take_number k b = (if length b < k then None else Some (le_value (take k b), drop k b))"

definition take_bytes :: "nat \<Rightarrow> bytes \<Rightarrow> (bytes \<times> bytes) option" where
  "take_bytes k b = (if length b < k then None else Some (take k b, drop k b))"

fun take_numbers :: "nat list \<Rightarrow> bytes \<Rightarrow> (nat list \<times> bytes) option" where
  "take_numbers [] b = Some ([], b)"
| "take_numbers (k # ks) b =
     (case take_number k b of
        None \<Rightarrow> None
      | Some (n, b') \<Rightarrow> map_option (\<lambda>(ns, r). (n # ns, r)) (take_numbers ks b'))"

lemma length_le [simp]: "length (le k n) = k"
  by (induction k arbitrary: n) simp_all

lemma le_value_le: "n < 256 ^ k \<Longrightarrow> le_value (le k n) = n"
  by (induction k arbitrary: n) (auto simp: less_mult_imp_div_less mult.commute)

lemma take_number_le [simp]: "n < 256 ^ k \<Longrightarrow> take_number k (le k n @ r) = Some (n, r)"
  by (simp add: take_number_def le_value_le)

lemma take_bytes_append [simp]: "k = length b \<Longrightarrow> take_bytes k (b @ r) = Some (b, r)"
  by (simp add: take_bytes_def)

lemma take_bytes_0 [simp]: "take_bytes 0 b = Some ([], b)"
  by (simp add: take_bytes_def)

lemma take_number_end [simp]: "n < 256 ^ k \<Longrightarrow> take_number k (le k n) = Some (n, [])"
  using take_number_le [of n k "[]"] by simp

lemma unat_u16_less: "unat (w :: 16 word) < 2 ^ 16"
proof -
  have "unat w < 2 ^ LENGTH(16)" by (rule unsigned_less)
  then show ?thesis by simp
qed

lemma take_number_u16 [simp]: "take_number 2 (le 2 (unat (w :: 16 word)) @ r) = Some (unat w, r)"
  using unat_u16_less [of w] by simp

lemma take_number_u32 [simp]: "take_number 4 (le 4 (unat (w :: u32)) @ r) = Some (unat w, r)"
  using unat_u32_less [of w] by simp

section \<open>The reader\<close>

text \<open>The numbers of a local header, of a central header and of the end record.\<close>

definition local_layout :: "nat list" where
  "local_layout = [4, 2, 2, 2, 2, 2, 4, 4, 4, 2, 2]"

definition central_layout :: "nat list" where
  "central_layout = [4, 2, 2, 2, 2, 2, 2, 4, 4, 4, 2, 2, 2, 2, 2, 4, 4]"

definition end_layout :: "nat list" where
  "end_layout = [4, 2, 2, 2, 2, 4, 4, 2]"

definition read_local :: "bytes \<Rightarrow> nat \<Rightarrow> bytes \<Rightarrow> nat \<Rightarrow> nat \<Rightarrow> bytes option" where
  "read_local z offset name crc sz =
     Option.bind (take_numbers local_layout (drop offset z)) (\<lambda>(ns, r).
     Option.bind (take_bytes (ns ! 9) r) (\<lambda>(name', r).
     Option.bind (take_bytes (ns ! 10) r) (\<lambda>(_, r).
     Option.bind (take_bytes sz r) (\<lambda>(data, _).
       if ns ! 0 = 0x04034b50 \<and> ns ! 3 = 0 \<and> ns ! 6 = crc \<and> ns ! 7 = sz \<and> ns ! 8 = sz
          \<and> name' = name \<and> unat (crc32 data) = crc
       then Some data else None))))"

text \<open>The owner's execute bit of the Unix mode in the external attributes.\<close>

definition mode_executable :: "nat \<Rightarrow> bool" where
  "mode_executable attributes \<longleftrightarrow> odd (attributes div 2 ^ 22)"

fun read_central :: "nat \<Rightarrow> bytes \<Rightarrow> bytes \<Rightarrow> ((string \<times> package_file) list \<times> bytes) option" where
  "read_central 0 z cd = Some ([], cd)"
| "read_central (Suc n) z cd =
     Option.bind (take_numbers central_layout cd) (\<lambda>(ns, r).
     Option.bind (take_bytes (ns ! 10) r) (\<lambda>(name, r).
     Option.bind (take_bytes (ns ! 11 + ns ! 12) r) (\<lambda>(_, r).
     Option.bind (read_local z (ns ! 16) name (ns ! 7) (ns ! 8)) (\<lambda>data.
     if ns ! 0 = 0x02014b50 \<and> ns ! 4 = 0 \<and> ns ! 8 = ns ! 9
     then map_option (\<lambda>(files, r).
            ((name, \<lparr>pf_data = data, pf_executable = mode_executable (ns ! 15)\<rparr>) # files, r))
          (read_central n z r)
     else None))))"

definition read_zip :: "bytes \<Rightarrow> (string \<times> package_file) list option" where
  "read_zip z =
    (if length z < 22 then None
     else
       Option.bind (take_numbers end_layout (drop (length z - 22) z)) (\<lambda>(ns, _).
       if ns ! 0 = 0x06054b50 \<and> ns ! 3 = ns ! 4 \<and> ns ! 7 = 0
          \<and> ns ! 6 + ns ! 5 = length z - 22
       then Option.bind (read_central (ns ! 3) z (take (ns ! 5) (drop (ns ! 6) z))) (\<lambda>(files, r).
         if r = [] then Some files else None)
       else None))"

section \<open>The round trip\<close>

lemma zip_u16_Inr: "zip_u16 n = Inr w \<longleftrightarrow> n < 2 ^ 16 \<and> w = word_of_nat n"
  by (auto simp: zip_u16_def)

lemma zip_u32_Inr: "zip_u32 n = Inr w \<longleftrightarrow> n < 2 ^ 32 \<and> w = word_of_nat n"
  by (auto simp: zip_u32_def)

lemma unat_u16_of_nat: "n < 2 ^ 16 \<Longrightarrow> unat (word_of_nat n :: 16 word) = n"
  by (simp add: unat_of_nat take_bit_nat_eq_self)

lemma unat_u32_of_nat: "n < 2 ^ 32 \<Longrightarrow> unat (word_of_nat n :: u32) = n"
  by (simp add: unat_of_nat take_bit_nat_eq_self)

definition local_bytes :: "u32 \<Rightarrow> u32 \<Rightarrow> 16 word \<Rightarrow> bytes" where
  "local_bytes crc sz name_len = local_header [] crc sz name_len"

definition central_bytes :: "u32 \<Rightarrow> u32 \<Rightarrow> 16 word \<Rightarrow> bool \<Rightarrow> u32 \<Rightarrow> bytes" where
  "central_bytes crc sz name_len executable offset = central_header [] crc sz name_len executable offset"

lemma local_header_eq: "local_header written crc sz name_len = written @ local_bytes crc sz name_len"
  by (simp add: local_bytes_def local_header_def write_u16_def write_u32_def Let_def)

lemma central_header_eq:
  "central_header central crc sz name_len x offset = central @ central_bytes crc sz name_len x offset"
  by (simp add: central_bytes_def central_header_def write_u16_def write_u32_def Let_def)

lemma take_numbers_local:
  "take_numbers local_layout (local_bytes crc sz name_len @ r) =
    Some ([0x04034b50, 20, 0x0800, 0, 0, 0x0021, unat crc, unat sz, unat sz, unat name_len, 0], r)"
  by (simp add: local_bytes_def local_header_def write_u16_def write_u32_def Let_def local_layout_def)

lemma take_numbers_central:
  "take_numbers central_layout (central_bytes crc sz name_len x offset @ r) =
    Some ([0x02014b50, 788, 20, 0x0800, 0, 0, 0x0021, unat crc, unat sz, unat sz, unat name_len,
      0, 0, 0, 0, unat (unix_mode x), unat offset], r)"
  by (simp add: central_bytes_def central_header_def write_u16_def write_u32_def Let_def
      central_layout_def)

lemma mode_executable: "mode_executable (unat (unix_mode x)) = x"
  by (simp add: mode_executable_def unix_mode_def)

lemma read_local_entry:
  assumes "drop offset z = local_bytes (crc32 data) sz name_len @ name @ data @ rest"
    and "unat name_len = length name" and "unat sz = length data"
  shows "read_local z offset name (unat (crc32 data)) (unat sz) = Some data"
  unfolding read_local_def assms(1) take_numbers_local using assms(2,3) by simp

text \<open>What the loop has written before a file stays where it is.\<close>

lemma zip_entries_extend:
  "zip_entries files written central = Inr (written', central') \<Longrightarrow>
    \<exists>o' c'. written' = written @ o' \<and> central' = central @ c'"
proof (induction files written central rule: zip_entries.induct)
  case (2 name f files written central)
  then show ?case
    by (auto simp: bindR_Inr_iff Let_def local_header_eq central_header_eq) (metis append.assoc)+
qed simp

lemma read_central_entries:
  assumes "zip_entries files written central = Inr (written', central')"
    and "take (length written') z = written'"
  shows "\<exists>c'. central' = central @ c' \<and>
    (\<forall>tail. read_central (length files) z (c' @ tail) = Some (files, tail))"
  using assms
proof (induction files written central arbitrary: written' central' rule: zip_entries.induct)
  case (1 written central)
  then show ?case by simp
next
  case (2 name f files written central)
  let ?crc = "crc32 (pf_data f)"
  from "2.prems"(1) obtain name_len sz offset where
    nl: "zip_u16 (length name) = Inr name_len" and sz: "zip_u32 (length (pf_data f)) = Inr sz"
    and off: "zip_u32 (length written) = Inr offset"
    and rest: "zip_entries files (local_header written ?crc sz name_len @ name @ pf_data f)
      (central_header central ?crc sz name_len (pf_executable f) offset @ name)
      = Inr (written', central')"
    by (auto simp: bindR_Inr_iff Let_def)
  have n: "unat name_len = length name" "unat sz = length (pf_data f)" "unat offset = length written"
    using nl sz off by (auto simp: zip_u16_Inr zip_u32_Inr unat_u16_of_nat unat_u32_of_nat)
  from "2.IH" [OF refl rest "2.prems"(2)] obtain c'' where
    c: "central' = (central_header central ?crc sz name_len (pf_executable f) offset @ name) @ c''"
    and r: "\<And>tail. read_central (length files) z (c'' @ tail) = Some (files, tail)" by blast
  from zip_entries_extend [OF rest] obtain o' where
    o': "written' = written @ local_bytes ?crc sz name_len @ name @ pf_data f @ o'"
    by (auto simp: local_header_eq)
  have "z = written' @ drop (length written') z" using "2.prems"(2) by (metis append_take_drop_id)
  then have "drop (unat offset) z = local_bytes ?crc sz name_len @ name @ pf_data f
      @ (o' @ drop (length written') z)"
    using o' n(3) by (metis append.assoc append_eq_conv_conj)
  note data = read_local_entry [OF this n(1,2)]
  have "read_central (Suc (length files)) z
      ((central_bytes ?crc sz name_len (pf_executable f) offset @ name @ c'') @ tail)
    = Some ((name, f) # files, tail)" for tail
    using n data r [of tail] by (simp add: take_numbers_central mode_executable)
  then show ?case using c by (auto simp: central_header_eq)
qed

lemma take_numbers_end:
  "take_numbers end_layout (drop (length written) (end_record written count central_size central_offset))
    = Some ([0x06054b50, 0, 0, unat count, unat count, unat central_size, unat central_offset, 0], [])"
proof -
  have "drop (length written) (end_record written count central_size central_offset)
    = end_record [] count central_size central_offset @ []"
    by (simp add: end_record_def write_u16_def write_u32_def Let_def)
  also have "take_numbers end_layout \<dots>
    = Some ([0x06054b50, 0, 0, unat count, unat count, unat central_size, unat central_offset, 0], [])"
    by (simp add: end_record_def write_u16_def write_u32_def Let_def end_layout_def)
  finally show ?thesis .
qed

lemma length_end_record: "length (end_record written count a b) = length written + 22"
  by (simp add: end_record_def write_u16_def write_u32_def Let_def)

lemma end_record_prefix: "\<exists>e. end_record written count a b = written @ e"
  by (simp add: end_record_def write_u16_def write_u32_def Let_def)

lemma read_write_zip:
  assumes "write_zip files = Inr z"
  shows "read_zip z = Some files"
proof -
  from assms obtain written central central_offset central_size count where
    e: "zip_entries files [] [] = Inr (written, central)"
    and off: "zip_u32 (length written) = Inr central_offset"
    and sz: "zip_u32 (length central) = Inr central_size"
    and cnt: "zip_u16 (length files) = Inr count"
    and z: "z = end_record (written @ central) count central_size central_offset"
    by (auto simp: write_zip_def bindR_Inr_iff Let_def)
  have n: "unat central_offset = length written" "unat central_size = length central"
    "unat count = length files"
    using off sz cnt by (auto simp: zip_u16_Inr zip_u32_Inr unat_u16_of_nat unat_u32_of_nat)
  obtain tail where tail: "z = (written @ central) @ tail"
    using end_record_prefix z by metis
  then have "take (length written) z = written" by simp
  from read_central_entries [OF e this]
  have "read_central (length files) z (central @ []) = Some (files, [])"
    by (metis append_Nil)
  then have "read_central (length files) z central = Some (files, [])" by simp
  moreover have "take (length central) (drop (length written) z) = central" using tail by simp
  moreover have "length z - 22 = length (written @ central)" "\<not> length z < 22"
    by (simp_all add: z length_end_record)
  moreover have "take_numbers end_layout (drop (length (written @ central)) z)
      = Some ([0x06054b50, 0, 0, unat count, unat count, unat central_size, unat central_offset, 0], [])"
    unfolding z by (rule take_numbers_end)
  ultimately show ?thesis by (simp add: read_zip_def n)
qed

section \<open>How long an archive is\<close>

definition entry_size :: "string \<times> package_file \<Rightarrow> nat" where
  "entry_size = (\<lambda>(name, f). 76 + 2 * length name + length (pf_data f))"

definition archive_size :: "(string \<times> package_file) list \<Rightarrow> nat" where
  "archive_size files = 22 + (\<Sum>x\<leftarrow>files. entry_size x)"

lemma length_headers:
  "length (local_bytes crc sz name_len) = 30" "length (central_bytes crc sz name_len x offset) = 46"
  by (simp_all add: local_bytes_def local_header_def central_bytes_def central_header_def
      write_u16_def write_u32_def Let_def)

lemma zip_entries_length:
  "zip_entries files written central = Inr (written', central') \<Longrightarrow>
    length written' + length central' = length written + length central + (\<Sum>x\<leftarrow>files. entry_size x)"
proof (induction files written central rule: zip_entries.induct)
  case (2 name f files written central)
  then show ?case
    by (auto simp: bindR_Inr_iff Let_def local_header_eq central_header_eq length_headers entry_size_def)
qed simp

lemma zip_entries_complete:
  assumes "list_all (\<lambda>(name, _). length name < 2 ^ 16) files"
    and "length written + (\<Sum>x\<leftarrow>files. entry_size x) < 2 ^ 32"
  shows "\<exists>written' central'. zip_entries files written central = Inr (written', central')"
  using assms
proof (induction files written central rule: zip_entries.induct)
  case (2 name f files written central)
  then show ?case
    by (auto simp: bindR_def zip_u16_def zip_u32_def Let_def local_header_eq length_headers
        entry_size_def)
qed simp

text \<open>The writer succeeds exactly when names, number of files and the archive are within bounds.\<close>

lemma write_zip_iff:
  "(\<exists>z. write_zip files = Inr z) \<longleftrightarrow>
    list_all (\<lambda>(name, _). length name < 2 ^ 16) files \<and> length files < 2 ^ 16
    \<and> archive_size files \<le> 256 * 2 ^ 20" (is "?run \<longleftrightarrow> ?ok")
proof
  assume ?ok
  then obtain written central where e: "zip_entries files [] [] = Inr (written, central)"
    using zip_entries_complete [of files "[]" "[]"] by (auto simp: archive_size_def)
  from zip_entries_length [OF e] \<open>?ok\<close> show ?run
    by (auto simp: write_zip_def e bindR_def zip_u16_def zip_u32_def Let_def reject_def
        length_end_record archive_size_def package_max_bytes_def)
next
  assume ?run
  then obtain z written central where e: "zip_entries files [] [] = Inr (written, central)"
    and rest: "length files < 2 ^ 16" "length written + length central + 22 \<le> 256 * 2 ^ 20"
    by (auto simp: write_zip_def bindR_Inr_iff Let_def zip_u16_Inr reject_Inr_iff length_end_record
        package_max_bytes_def)
  have "zip_entries files a b = Inr r \<Longrightarrow> list_all (\<lambda>(name, _). length name < 2 ^ 16) files" for a b r
    by (induction files a b rule: zip_entries.induct) (auto simp: bindR_Inr_iff zip_u16_Inr Let_def)
  from this [OF e] rest zip_entries_length [OF e] show ?ok by (simp add: archive_size_def)
qed

lemma length_write_zip: "write_zip files = Inr z \<Longrightarrow> length z = archive_size files"
  by (auto simp: write_zip_def bindR_Inr_iff Let_def length_end_record archive_size_def
      dest!: zip_entries_length)

section \<open>What the checksum detects\<close>

lemma crc_bit_eq: "crc_bit x = (if odd x then xor (drop_bit 1 x) crc_polynomial else drop_bit 1 x)"
  by (simp add: crc_bit_def and_one_eq odd_iff_mod_2_eq_one)

lemma bit_drop_top: "\<not> bit (drop_bit (Suc 0) (x :: u32)) 31"
  by (auto simp: bit_drop_bit_eq dest: bit_imp_le_length)

lemma bit_polynomial_top: "bit crc_polynomial 31"
  by (simp add: crc_polynomial_def)

lemma bit_crc_bit_top: "bit (crc_bit x) 31 \<longleftrightarrow> odd x"
  by (simp add: crc_bit_eq bit_xor_iff bit_drop_top bit_polynomial_top)

lemma xor_cancel: "xor a c = xor b c \<longleftrightarrow> a = b" for a :: "'a::len word"
proof
  assume "xor a c = xor b c"
  then have "xor (xor a c) c = xor (xor b c) c" by simp
  then show "a = b" by (simp add: xor.assoc)
qed simp

lemma crc_bit_inj: "crc_bit x = crc_bit y \<longleftrightarrow> x = y"
proof
  assume eq: "crc_bit x = crc_bit y"
  then have parity: "odd x \<longleftrightarrow> odd y" using bit_crc_bit_top by metis
  with eq have d: "drop_bit (Suc 0) x = drop_bit (Suc 0) y"
    by (cases "odd x") (simp_all add: crc_bit_eq xor_cancel)
  show "x = y"
  proof (rule bit_eqI)
    fix n
    show "bit x n = bit y n"
    proof (cases n)
      case 0
      then show ?thesis using parity by (simp add: bit_0)
    next
      case (Suc m)
      from d have "bit (drop_bit (Suc 0) x) m = bit (drop_bit (Suc 0) y) m" by simp
      then show ?thesis using Suc by (simp add: bit_drop_bit_eq)
    qed
  qed
qed simp

lemma crc_bits_inj: "(crc_bit ^^ n) x = (crc_bit ^^ n) y \<longleftrightarrow> x = y"
  by (induction n) (simp_all add: crc_bit_inj)

lemma unat_of_char_u32: "unat (of_char c :: u32) = of_char c"
proof -
  have "(of_char c :: u32) = word_of_nat (of_char c)" by (simp only: of_nat_of_char)
  moreover have "(of_char c :: nat) < 2 ^ 32"
    by (rule less_trans [OF nat_of_char_less_256]) simp
  ultimately show ?thesis using unat_u32_of_nat by metis
qed

lemma of_char_inj: "(of_char a :: u32) = of_char b \<longleftrightarrow> a = b"
  by (metis unat_of_char_u32 of_char_eq_iff)

lemma crc_byte_inj: "crc_byte x a = crc_byte y a \<longleftrightarrow> x = y" "crc_byte x a = crc_byte x b \<longleftrightarrow> a = b"
proof -
  show "crc_byte x a = crc_byte y a \<longleftrightarrow> x = y"
    by (simp add: crc_byte_def crc_bits_inj xor_cancel)
  have "xor x (of_char a) = xor x (of_char b) \<longleftrightarrow> a = b"
    using xor_cancel [of "of_char a" x "of_char b"] of_char_inj by (simp add: xor.commute)
  then show "crc_byte x a = crc_byte x b \<longleftrightarrow> a = b"
    by (simp add: crc_byte_def crc_bits_inj)
qed

lemma foldl_crc_inj: "foldl crc_byte x data = foldl crc_byte y data \<longleftrightarrow> x = y"
  by (induction data arbitrary: x y) (simp_all add: crc_byte_inj)

lemma crc32_one_byte: "crc32 (before @ a # after) = crc32 (before @ b # after) \<longleftrightarrow> a = b"
  by (simp add: crc32_def foldl_crc_inj crc_byte_inj)

end
