(* ===== verification/Package_Review.thy ===== *)
theory Package_Review
  imports Package Zip_Reader
begin

text \<open>
  What a package holds: the invariant of the inventory and that every way of adding a file keeps it;
  the executable that was validated is the one in the archive; the archive can be read back.
\<close>

section \<open>The inventory\<close>

text \<open>
  Archive paths in strict order, all of them relative and normal, and no executable file but
  \<open>exe\<close>.
\<close>

definition inventory_ok :: "string \<Rightarrow> package_files \<Rightarrow> bool" where
  "inventory_ok exe files \<longleftrightarrow>
     sorted_wrt (<) (map fst files)
     \<and> (\<forall>(path, f)\<in>set files. \<not> unsafe_path path \<and> (pf_executable f \<longrightarrow> path = exe))"

definition grows :: "string \<Rightarrow> package_files \<Rightarrow> package_files \<Rightarrow> bool" where
  "grows exe files files' \<longleftrightarrow>
     (inventory_ok exe files \<longrightarrow> inventory_ok exe files') \<and> map_of files \<subseteq>\<^sub>m map_of files'"

lemma grows_refl: "grows exe files files"
  by (simp add: grows_def)

lemma grows_trans: "grows exe a b \<Longrightarrow> grows exe b c \<Longrightarrow> grows exe a c"
  by (auto simp: grows_def intro: map_le_trans)

lemma map_insert_sorted:
  "sorted_wrt (<) (map fst kvs) \<Longrightarrow> sorted_wrt (<) (map fst (map_insert k v kvs))"
  by (induction k v kvs rule: map_insert.induct) (auto simp: map_insert_keys [unfolded set_map])

lemma set_map_insert: "set (map_insert k v kvs) \<subseteq> insert (k, v) (set kvs)"
  by (induction k v kvs rule: map_insert.induct) auto

lemma insert_file_Inr:
  "insert_file files path data x = Inr files' \<longleftrightarrow> \<not> unsafe_path path \<and> map_of files path = None
     \<and> files' = map_insert path \<lparr>pf_data = data, pf_executable = x\<rparr> files"
  by (auto simp: insert_file_def bindR_Inr_iff reject_Inr_iff)

lemma insert_file_grows:
  assumes "insert_file files path data x = Inr files'" and "x \<longrightarrow> path = exe"
  shows "grows exe files files'"
proof -
  have f: "\<not> unsafe_path path" "map_of files path = None"
    "files' = map_insert path \<lparr>pf_data = data, pf_executable = x\<rparr> files"
    using assms(1) by (simp_all add: insert_file_Inr)
  have "inventory_ok exe files'" if "inventory_ok exe files"
    using that f(1,3) assms(2) set_map_insert [of path _ files] map_insert_sorted
    by (fastforce simp: inventory_ok_def)
  moreover have "map_of files \<subseteq>\<^sub>m map_of files'"
    using f(2,3) by (auto simp: map_le_def map_of_map_insert)
  ultimately show ?thesis by (simp add: grows_def)
qed

lemma insert_file_lookup:
  "insert_file files path data x = Inr files' \<Longrightarrow>
     map_of files' path = Some \<lparr>pf_data = data, pf_executable = x\<rparr>"
  by (simp add: insert_file_Inr map_of_map_insert)

section \<open>Loops and trees\<close>

lemma foldW_related:
  assumes "foldW f xs s w = (Inr s', w')"
    and "\<And>x s w s' w'. f x s w = (Inr s', w') \<Longrightarrow> R s s'"
    and "\<And>s. R s s" and "\<And>a b c. R a b \<Longrightarrow> R b c \<Longrightarrow> R a c"
  shows "R s s'"
  using assms(1)
proof (induction xs arbitrary: s w)
  case Nil
  then show ?case using assms(3) by (simp add: io_simps)
next
  case (Cons x xs)
  then show ?case using assms(2,4) by (auto simp: io_simps) blast
qed

lemma collect_tree_grows:
  "collect_tree os depth base names prefix files w = (Inr files', w') \<Longrightarrow> grows exe files files'"
proof (induction depth arbitrary: names files w files' w')
  case 0
  then show ?case by (simp add: io_simps)
next
  case (Suc depth)
  let ?body = "\<lambda>name files. let path = names @ [name]
     in bindW (callW ''package.read'' (to_lstat os (tree_path os base path))) (\<lambda>st.
        case st of
          StatSymlink \<Rightarrow> liftW (Inl (VErr ''package.symlink''))
        | StatDirectory \<Rightarrow> collect_tree os depth base path prefix files
        | StatFile _ \<Rightarrow>
            bindW (liftW (portable_path path)) (\<lambda>old.
            bindW (read_package_file os (tree_path os base path)) (\<lambda>data.
              liftW (insert_file files (prefix @ ''/'' @ old) data False)))
        | StatOther \<Rightarrow> liftW (Inl (VErr ''package.fileType'')))"
  from Suc.prems obtain entries v where "foldW ?body (sort entries) files v = (Inr files', w')"
    by (auto simp: io_simps)
  moreover have "grows exe a b" if "?body name a u = (Inr b, u')" for name a u b u'
  proof -
    let ?next = "\<lambda>st. case st of
          StatSymlink \<Rightarrow> liftW (Inl (VErr ''package.symlink''))
        | StatDirectory \<Rightarrow> collect_tree os depth base (names @ [name]) prefix a
        | StatFile _ \<Rightarrow>
            bindW (liftW (portable_path (names @ [name]))) (\<lambda>old.
            bindW (read_package_file os (tree_path os base (names @ [name]))) (\<lambda>data.
              liftW (insert_file a (prefix @ ''/'' @ old) data False)))
        | StatOther \<Rightarrow> liftW (Inl (VErr ''package.fileType''))"
    from that obtain st v where "?next st v = (Inr b, u')"
      by (simp only: bindW_Inr callE_Inr Let_def) blast
    then show ?thesis
      using Suc.IH by (cases st) (auto simp: io_simps intro: insert_file_grows)
  qed
  ultimately show ?case
    by (rule foldW_related [where R = "grows exe"]) (auto intro: grows_refl grows_trans)
qed

lemma collect_named_grows:
  "collect_named os base name files w = (Inr files', w') \<Longrightarrow> grows exe files files'"
  by (auto simp: collect_named_def Let_def io_simps split: if_splits
      intro: insert_file_grows grows_refl)

lemma collect_wiki_grows:
  "collect_wiki os depth base files w = (Inr files', w') \<Longrightarrow> grows exe files files'"
  by (auto simp: collect_wiki_def Let_def io_simps split: if_splits
      intro: collect_tree_grows grows_refl)

lemma collect_files_ok:
  assumes "collect_files os depth plugin manifest_data exe data w = (Inr files, w')"
  shows "inventory_ok exe files \<and> map_of files exe = Some \<lparr>pf_data = data, pf_executable = True\<rparr>
    \<and> map_of files ''plugin.json'' = Some \<lparr>pf_data = manifest_data, pf_executable = False\<rparr>
    \<and> length files \<le> 4096 \<and> (\<Sum>(_, f)\<leftarrow>files. length (pf_data f)) \<le> 256 * 2 ^ 20"
proof -
  from assms obtain root a b c v v' where a: "insert_file [] ''plugin.json'' manifest_data False = Inr a"
    and b: "insert_file a exe data True = Inr b"
    and c: "foldW (collect_named os root) package_names b v = (Inr c, v')"
    and w: "collect_wiki os depth root c v' = (Inr files, w')"
    and bounds: "ensure_package_bounds files = Inr ()"
    by (auto simp: collect_files_def Let_def io_simps)
  note wiki = collect_wiki_grows [OF w, of exe]
  have "grows exe b c"
    by (rule foldW_related [OF c]) (auto intro: collect_named_grows grows_refl grows_trans)
  then have e: "grows exe b files" using wiki grows_trans by blast
  have "inventory_ok exe []" by (simp add: inventory_ok_def)
  then have "inventory_ok exe b"
    using insert_file_grows [OF a, of exe] insert_file_grows [OF b, of exe] by (simp add: grows_def)
  moreover have "map_of b exe = Some \<lparr>pf_data = data, pf_executable = True\<rparr>"
    using insert_file_lookup [OF b] .
  moreover have "map_of b ''plugin.json'' = Some \<lparr>pf_data = manifest_data, pf_executable = False\<rparr>"
    using insert_file_lookup [OF a] insert_file_grows [OF b, of exe]
    by (auto simp: grows_def map_le_def dom_def)
  ultimately show ?thesis
    using e bounds
    by (auto simp: grows_def map_le_def dom_def ensure_package_bounds_def reject_Inr_iff
        inventory_bytes_def Let_def package_max_files_def package_max_bytes_def split: if_splits)
qed

section \<open>The manifest of the package\<close>

text \<open>
  The rewritten manifest: the runtime has one entry, the integrity one digest, and the members of the
  original that are neither runtime nor integrity are unchanged.
\<close>

definition repackaged :: "json \<Rightarrow> json \<Rightarrow> string \<Rightarrow> string \<Rightarrow> string \<Rightarrow> bool" where
  "repackaged old new platform path digest \<longleftrightarrow>
     (\<exists>runtime integrity. json_get new ''runtime'' = Some runtime
        \<and> json_get new ''integrity'' = Some integrity
        \<and> json_get runtime ''entry'' = Some (JObj [(platform, JStr path)])
        \<and> json_get integrity ''algorithm'' = Some (JStr ''sha256'')
        \<and> json_get integrity ''digests'' = Some (JObj [(platform, JStr digest)]))
     \<and> (\<forall>k. k \<notin> {''runtime'', ''integrity''} \<longrightarrow> json_get new k = json_get old k)"

lemma json_object_Some: "json_object x = Some members \<longleftrightarrow> x = Some (JObj members)"
  by (cases x rule: json_object.cases) auto

lemma rewrite_manifest_Inr:
  assumes "rewrite_manifest old platform path digest = Inr new"
  shows "repackaged old new platform path digest"
proof -
  from assms obtain runtime where r: "json_get old ''runtime'' = Some (JObj runtime)"
    by (auto simp: rewrite_manifest_def bindR_Inr_iff ok_or_Inr_iff json_object_Some)
  then obtain members where v: "old = JObj members" by (cases old) auto
  with assms r have "new = JObj (map_insert ''integrity''
      (JObj [(''algorithm'', JStr ''sha256''), (''digests'', JObj [(platform, JStr digest)])])
      (map_insert ''runtime'' (JObj (map_insert ''entry'' (JObj [(platform, JStr path)]) runtime))
        members))"
    by (simp add: rewrite_manifest_def bindR_def Let_def)
  with v show ?thesis by (simp add: repackaged_def map_of_map_insert)
qed

lemma rewrite_manifest_no_panic: "\<not> panics (rewrite_manifest old platform path digest)"
proof (cases old)
  case (JObj members)
  then show ?thesis by (simp add: rewrite_manifest_def panics_bindR Let_def)
qed (simp_all add: rewrite_manifest_def bindR_def ok_or_def panics_def)

section \<open>The package\<close>

text \<open>What a package report promises: the archive, the files in it and where they come from.\<close>

definition package_contract ::
  "deps \<Rightarrow> 'w tree_os \<Rightarrow> package_codec \<Rightarrow> resolved_plugin \<Rightarrow> string \<Rightarrow> package_report \<Rightarrow> package_files \<Rightarrow> bytes
     \<Rightarrow> bool" where
  "package_contract d os pc plugin out r files archive \<longleftrightarrow>
     write_zip files = Inr archive
     \<and> pk_ok r \<and> pk_level r = Conformant \<and> pk_archive r = out
     \<and> pk_plugin_id r = mf_id (rp_manifest plugin) \<and> pk_version r = mf_version (rp_manifest plugin)
     \<and> pk_platform r = rp_platform plugin \<and> pk_release_id r = rp_release_id plugin
     \<and> pk_archive_digest r = sha256_digest d archive \<and> pk_archive_size_bytes r = length archive
     \<and> pk_executable_digest r = rp_artifact_digest plugin
     \<and> pk_files r = map (file_report d) files
     \<and> (\<exists>exe data manifest. executable_archive_path os plugin = Inr exe
          \<and> inventory_ok exe files
          \<and> map_of files exe = Some \<lparr>pf_data = data, pf_executable = True\<rparr>
          \<and> sha256_digest d data = rp_artifact_digest plugin
          \<and> map_of files ''plugin.json'' = Some \<lparr>pf_data = manifest, pf_executable = False\<rparr>
          \<and> (\<exists>source old new text. parse_manifest_value pc source = Some old
               \<and> repackaged old new (rp_platform plugin) exe (rp_artifact_digest plugin)
               \<and> print_pretty pc new = Some text \<and> manifest = text @ [CHR 0x0A]))"

lemma validate_plugin_report:
  "validate_plugin d hc fo sc pf plugin w = (Inr v, w') \<Longrightarrow>
     vr_level v = Conformant \<and> vr_release_id v = rp_release_id plugin"
  by (auto simp: validate_plugin_def io_simps)

lemma stable_executable_ok:
  assumes "stable_executable d hc fo sc pf os plugin w = (Inr (v, data), w')"
  shows "sha256_digest d data = rp_artifact_digest plugin \<and> vr_level v = Conformant
    \<and> vr_release_id v = rp_release_id plugin
    \<and> (\<exists>u u'. validate_plugin d hc fo sc pf plugin u = (Inr v, u'))"
  using assms by (auto simp: stable_executable_def io_simps dest: validate_plugin_report)

lemma package_manifest_ok:
  assumes "package_manifest os pc plugin path digest w = (Inr manifest, w')"
  shows "\<exists>source old new text. parse_manifest_value pc source = Some old
    \<and> repackaged old new (rp_platform plugin) path digest
    \<and> print_pretty pc new = Some text \<and> manifest = text @ [CHR 0x0A]"
  using assms
  by (auto simp: package_manifest_def io_simps ok_or_Inr_iff dest!: rewrite_manifest_Inr)

lemma package_plugin_sound:
  assumes "package_plugin d hc fo sc pf os pc depth plugin out w = (Inr r, w')"
  shows "\<exists>files archive v. package_contract d os pc plugin out r files archive
    \<and> write_package os out archive v = (Inr (), w')
    \<and> (\<exists>report u u'. validate_plugin d hc fo sc pf plugin u = (Inr report, u'))"
proof -
  from assms obtain v data exe manifest files archive w1 w2 w3 w4 where
    st: "stable_executable d hc fo sc pf os plugin w1 = (Inr (v, data), w2)"
    and exe: "executable_archive_path os plugin = Inr exe"
    and man: "package_manifest os pc plugin exe (sha256_digest d data) w2 = (Inr manifest, w3)"
    and col: "collect_files os depth plugin manifest exe data w3 = (Inr files, w4)"
    and zip: "write_zip files = Inr archive"
    and wr: "write_package os out archive w4 = (Inr (), w')"
    and r: "r = \<lparr>pk_schema_version = 1, pk_ok = True,
        pk_plugin_id = mf_id (rp_manifest plugin), pk_version = mf_version (rp_manifest plugin),
        pk_platform = rp_platform plugin, pk_release_id = vr_release_id v,
        pk_level = vr_level v, pk_archive = out,
        pk_archive_size_bytes = length archive, pk_archive_digest = sha256_digest d archive,
        pk_executable_digest = sha256_digest d data, pk_reproducible = True,
        pk_files = map (file_report d) files\<rparr>"
    by (auto simp: package_plugin_def io_simps Let_def split: prod.splits)
  note dg = stable_executable_ok [OF st]
  have "package_contract d os pc plugin out r files archive"
    using package_manifest_ok [OF man] collect_files_ok [OF col] dg exe zip
    by (simp add: package_contract_def r)
  then show ?thesis using wr dg by blast
qed

end
