(* ===== verification/Packages.thy ===== *)
theory Packages
  imports Package_Review Conformance
begin

text \<open>
  The properties of packaging, with a machine on which the conformance demo plugin is packaged.
\<close>

section \<open>A concrete package\<close>

definition packed_plugin :: resolved_plugin where
  "packed_plugin = demo_resolved\<lparr>rp_artifact_digest := sha256_digest wire_deps ''exe'',
     rp_release_id := release_id wire_deps (mf_id demo_manifest) (mf_version demo_manifest) ''linux-x64''
       (sha256_digest wire_deps ''exe'')\<rparr>"

text \<open>A system with an executable, a manifest, a README and a wiki of one page.\<close>

definition demo_tree :: "unit tree_os" where
  "demo_tree = \<lparr>to_exists = (\<lambda>p. Pair (p \<in> {''/p/README.md'', ''/p/wiki''})), to_is_dir = (\<lambda>_. Pair True),
     to_lstat = (\<lambda>p. Pair (Some (if p = ''/p/wiki'' then StatDirectory else StatFile 3))),
     to_read = (\<lambda>p. Pair (Some (if p = ''/p/bin/demo'' then ''exe'' else ''text''))),
     to_list = (\<lambda>_. Pair (Some [''a'']))
     , to_create_new = (\<lambda>_. Pair (Some ())), to_write_sync = (\<lambda>_ _. Pair (Some ())),
     to_rename = (\<lambda>_ _. Pair (Some ())), to_remove = (\<lambda>_. Pair (Some ())), to_pid = 7,
     pt_join = (\<lambda>a b. a @ ''/'' @ b), pt_parent = (\<lambda>_. Some ''/p''),
     pt_file_name = (\<lambda>p. Some (if p = ''/p/bin/demo'' then ''demo'' else ''d.tsplug'')),
     pt_extension = (\<lambda>_. Some ''tsplug''), pt_with_file_name = (\<lambda>_ n. n)\<rparr>"

definition demo_package_codec :: package_codec where
  "demo_package_codec = \<lparr>parse_manifest_value = (\<lambda>_. Some (JObj [(''runtime'', JObj [])])),
     print_pretty = (\<lambda>_. Some ''{}'')\<rparr>"

definition packed_files :: package_files where
  "packed_files =
     [(''README.md'', \<lparr>pf_data = ''text'', pf_executable = False\<rparr>),
      (''bin/linux-x64/demo'', \<lparr>pf_data = ''exe'', pf_executable = True\<rparr>),
      (''plugin.json'', \<lparr>pf_data = ''{}'' @ [CHR 0x0A], pf_executable = False\<rparr>),
      (''wiki/a'', \<lparr>pf_data = ''text'', pf_executable = False\<rparr>)]"

lemma demo_utf8: "is_utf8 ''tsplug''" "is_utf8 ''demo''" "is_utf8 ''a''"
  by (rule is_utf8_ascii; simp add: ascii_def)+

lemma packed_validates:
  "\<exists>report. validate_plugin wire_deps demo_host_codec demo_files demo_superec_codec demo_machine
      packed_plugin () = (Inr report, ())"
proof -
  have build: "faithful_build wire_deps quiet_codec demo_host_codec quiet_plugin packed_plugin"
    using demo_build by (simp add: faithful_build_def contract_of_def packed_plugin_def)
  have hosts: "hosts demo_machine (rp_budget_ms packed_plugin) (sdk_peer wire_deps quiet_codec quiet_plugin ())"
    using demo_hosts by (simp add: packed_plugin_def)
  have su: "validate_superec wire_deps demo_files demo_superec_codec packed_plugin = Inr None"
    by (simp add: validate_superec_def demo_files_def)
  have "conformance_action quiet_plugin () packed_plugin = Some Pass"
    by (simp add: conformance_action_def quiet_plugin_def Let_def)
  with validate_plugin_sdk [OF wire_deps_laws build hosts su, of "()"] show ?thesis
    by (auto simp: action_verdict_def)
qed

lemma packed_collected:
  "collect_files demo_tree 2 packed_plugin (''{}'' @ [CHR 0x0A]) ''bin/linux-x64/demo'' ''exe'' ()
    = (Inr packed_files, ())"
proof -
  have read: "read_package_file demo_tree p () =
      (Inr (if p = ''/p/bin/demo'' then ''exe'' else ''text''), ())" if "p \<noteq> ''/p/wiki''" for p
    using that by (simp add: read_package_file_def demo_tree_def bindW_def callE_def package_max_bytes_def)
  note steps = bindW_def liftW_def returnW_def readW_def callE_def ensure_def
  have tree: "collect_tree demo_tree 2 ''/p/wiki'' [] ''wiki'' files () =
      liftW (insert_file files ''wiki/a'' ''text'' False) ()" for files
    using read [of "''/p/wiki/a''"] demo_utf8(3)
    by (simp add: numeral_2_eq_2 tree_path_def steps demo_tree_def portable_path_def split: sum.splits)
  have named: "collect_named demo_tree ''/p'' name files () =
      (if name = ''README.md'' then liftW (insert_file files name ''text'' False) () else (Inr files, ()))"
    if "name \<in> set package_names" for name files
    using that read [of "''/p/README.md''"]
    by (auto simp: collect_named_def package_names_def steps demo_tree_def split: sum.splits)
  have wiki: "collect_wiki demo_tree 2 ''/p'' files () =
      liftW (insert_file files ''wiki/a'' ''text'' False) ()" for files
  proof -
    have "pt_join demo_tree ''/p'' ''wiki'' = ''/p/wiki''" "to_exists demo_tree ''/p/wiki'' () = (True, ())"
      by (simp_all add: demo_tree_def)
    then show ?thesis using tree [of files] by (simp add: collect_wiki_def steps Let_def)
  qed
  let ?f = "\<lambda>data x. \<lparr>pf_data = data, pf_executable = x\<rparr>"
  have safe: "\<not> unsafe_path ''plugin.json''" "\<not> unsafe_path ''bin/linux-x64/demo''"
    "\<not> unsafe_path ''README.md''" "\<not> unsafe_path ''wiki/a''"
    by (simp_all add: unsafe_path_def starts_with_def)
  have "insert_file [] ''plugin.json'' (''{}'' @ [CHR 0x0A]) False
      = Inr [(''plugin.json'', ?f (''{}'' @ [CHR 0x0A]) False)]"
    using safe by (simp add: insert_file_Inr)
  moreover have "insert_file [(''plugin.json'', ?f (''{}'' @ [CHR 0x0A]) False)] ''bin/linux-x64/demo'' ''exe'' True
      = Inr [(''bin/linux-x64/demo'', ?f ''exe'' True), (''plugin.json'', ?f (''{}'' @ [CHR 0x0A]) False)]"
    using safe by (simp add: insert_file_Inr)
  moreover have "foldW (collect_named demo_tree ''/p'') package_names
      [(''bin/linux-x64/demo'', ?f ''exe'' True), (''plugin.json'', ?f (''{}'' @ [CHR 0x0A]) False)] ()
    = (Inr [(''README.md'', ?f ''text'' False), (''bin/linux-x64/demo'', ?f ''exe'' True),
        (''plugin.json'', ?f (''{}'' @ [CHR 0x0A]) False)], ())"
  proof -
    have "insert_file [(''bin/linux-x64/demo'', ?f ''exe'' True), (''plugin.json'', ?f (''{}'' @ [CHR 0x0A]) False)]
        ''README.md'' ''text'' False = Inr [(''README.md'', ?f ''text'' False),
        (''bin/linux-x64/demo'', ?f ''exe'' True), (''plugin.json'', ?f (''{}'' @ [CHR 0x0A]) False)]"
      using safe by (simp add: insert_file_Inr)
    then show ?thesis
      using named [unfolded package_names_def] by (simp add: package_names_def steps)
  qed
  moreover have "insert_file [(''README.md'', ?f ''text'' False), (''bin/linux-x64/demo'', ?f ''exe'' True),
        (''plugin.json'', ?f (''{}'' @ [CHR 0x0A]) False)] ''wiki/a'' ''text'' False = Inr packed_files"
    using safe by (simp add: insert_file_Inr packed_files_def)
  moreover have "ensure_package_bounds packed_files = Inr ()"
    by (simp add: ensure_package_bounds_def packed_files_def inventory_bytes_def Let_def
        package_max_files_def package_max_bytes_def)
  moreover have "pt_parent demo_tree p = Some ''/p''" for p by (simp add: demo_tree_def)
  ultimately show ?thesis
    by (simp add: collect_files_def Let_def packed_plugin_def demo_resolved_def steps wiki)
qed

lemma packed_archive: "\<exists>archive. write_zip packed_files = Inr archive"
  unfolding write_zip_iff
  by (simp add: packed_files_def archive_size_def entry_size_def)

lemma packed_plugin_runs:
  "\<exists>r. package_plugin wire_deps demo_host_codec demo_files demo_superec_codec demo_machine demo_tree
      demo_package_codec 2 packed_plugin ''/p/d.tsplug'' () = (Inr r, ())"
proof -
  note steps = bindW_def liftW_def returnW_def readW_def callE_def ensure_def
  obtain report where v: "validate_plugin wire_deps demo_host_codec demo_files demo_superec_codec
      demo_machine packed_plugin () = (Inr report, ())" using packed_validates by blast
  have out: "check_output demo_tree ''/p/d.tsplug'' () = (Inr (), ())"
    using demo_utf8(1) by (simp add: check_output_def steps demo_tree_def to_str_def)
  have exe: "rp_executable packed_plugin = ''/p/bin/demo''"
    "rp_artifact_digest packed_plugin = sha256_digest wire_deps ''exe''"
    by (simp_all add: packed_plugin_def demo_resolved_def)
  then have st: "stable_executable wire_deps demo_host_codec demo_files demo_superec_codec demo_machine
      demo_tree packed_plugin () = (Inr (report, ''exe''), ())"
    using v by (simp add: stable_executable_def steps read_package_file_def demo_tree_def
        package_max_bytes_def)
  have path: "executable_archive_path demo_tree packed_plugin = Inr ''bin/linux-x64/demo''"
    using demo_utf8(2) by (simp add: executable_archive_path_def to_str_def demo_tree_def
        packed_plugin_def demo_resolved_def)
  have man: "package_manifest demo_tree demo_package_codec packed_plugin ''bin/linux-x64/demo'' g ()
      = (Inr (''{}'' @ [CHR 0x0A]), ())" for g
    by (simp add: package_manifest_def steps demo_tree_def demo_package_codec_def
        rewrite_manifest_def Let_def packed_plugin_def demo_resolved_def)
  obtain archive where z: "write_zip packed_files = Inr archive" using packed_archive by blast
  have w: "write_package demo_tree ''/p/d.tsplug'' archive () = (Inr (), ())"
    by (simp add: write_package_def write_atomic_def write_steps_def steps demo_tree_def Let_def)
  show ?thesis
    by (simp add: package_plugin_def steps out st path man packed_collected [simplified] z w Let_def)
qed

section \<open>Properties\<close>

text \<open>C9: a package is what was certified: when packaging succeeds, the plugin passed its conformance
  run, the archive that was written at the output path holds exactly the files of the report, under
  relative paths that cannot leave the directory of extraction, in strict order, and its only
  executable file is the validated executable, whose digest the manifest in the package declares
  for the one platform it keeps.\<close>
theorem package_sound:
  assumes "package_plugin d hc fo sc pf os pc depth plugin out w = (Inr r, w')"
  shows "\<exists>files archive v. package_contract d os pc plugin out r files archive
    \<and> write_package os out archive v = (Inr (), w')
    \<and> (\<exists>report u u'. validate_plugin d hc fo sc pf plugin u = (Inr report, u'))"
  using assms by (rule package_plugin_sound)

theorem package_sound_witness:
  "\<exists>r files archive. package_contract wire_deps demo_tree demo_package_codec packed_plugin
      ''/p/d.tsplug'' r files archive"
proof -
  obtain r where "package_plugin wire_deps demo_host_codec demo_files demo_superec_codec demo_machine
      demo_tree demo_package_codec 2 packed_plugin ''/p/d.tsplug'' () = (Inr r, ())"
    using packed_plugin_runs by blast
  from package_sound [OF this] show ?thesis by blast
qed

text \<open>C10: the archives of the workbench are ZIP files: a reader that finds the end record, walks the
  central directory and checks every local header, size and checksum gets back exactly the files
  that were written, with their execute bits; the writer succeeds exactly within the ZIP32 bounds and
  the limit of 256 MiB; and the checksum tells any two contents apart that differ in one byte.\<close>
theorem package_archive_roundtrip:
  "(write_zip files = Inr z \<longrightarrow> read_zip z = Some files \<and> length z = archive_size files)
   \<and> ((\<exists>z. write_zip files = Inr z) \<longleftrightarrow>
       list_all (\<lambda>(name, _). length name < 2 ^ 16) files \<and> length files < 2 ^ 16
       \<and> archive_size files \<le> 256 * 2 ^ 20)
   \<and> (crc32 (before @ a # after) = crc32 (before @ b # after) \<longleftrightarrow> a = b)"
  using read_write_zip length_write_zip write_zip_iff crc32_one_byte by blast

theorem package_archive_roundtrip_witness:
  "\<exists>z. write_zip packed_files = Inr z \<and> read_zip z = Some packed_files"
  using package_archive_roundtrip [of packed_files] packed_archive by blast

end
