(* ===== verification/Catalog.thy ===== *)
theory Catalog
  imports Package_Review Distribution Fixtures
begin

text \<open>
  The catalog of a plugin release, tools/tsp/src/catalog.rs: the packages of every platform with
  their reports are read from one directory, each is checked against its report, and the catalog is
  written. The file system is the one of packaging; \<^verbatim>\<open>BTreeMap\<close> is an association list in key order.
\<close>

section \<open>The documents\<close>

record catalog_entry =
  ce_file :: string
  ce_size_bytes :: nat
  ce_digest :: string
  ce_release_id :: string
  ce_level :: certification_level

record package_catalog =
  ct_schema_version :: u32
  ct_plugin_id :: string
  ct_version :: string
  ct_packages :: "(string \<times> catalog_entry) list"

record catalog_report =
  cg_schema_version :: u32
  cg_ok :: bool
  cg_plugin_id :: string
  cg_version :: string
  cg_catalog :: string
  cg_catalog_size_bytes :: nat
  cg_catalog_digest :: string
  cg_package_count :: nat
  cg_platforms :: "string list"

text \<open>serde\_json: the package reports and the catalog\<close>

record catalog_codec =
  parse_package_report :: "bytes \<Rightarrow> package_report option"
  print_catalog :: "package_catalog \<Rightarrow> bytes option"

definition report_suffix :: string where "report_suffix = ''.tsplug.package-report.json''"
definition report_max_bytes :: nat where "report_max_bytes = 1048576"
definition catalog_package_max_bytes :: nat where "catalog_package_max_bytes = 268435456"
definition catalog_max_packages :: nat where "catalog_max_packages = 32"

section \<open>Reading\<close>

definition read_catalog_file :: "'w tree_os \<Rightarrow> string \<Rightarrow> nat \<Rightarrow> ('w, bytes) io" where
  "read_catalog_file os path maximum =
     bindW (callW ''catalog.read'' (to_lstat os path)) (\<lambda>st.
       (case st of
          StatFile len \<Rightarrow>
            if len > maximum then liftW (Inl (VErr ''catalog.fileSize''))
            else callW ''catalog.read'' (to_read os path)
        | _ \<Rightarrow> liftW (Inl (VErr ''catalog.fileType''))))"

text \<open>\<^verbatim>\<open>value.contains("--")\<close>\<close>

fun double_hyphen :: "string \<Rightarrow> bool" where
  "double_hyphen (a # b # cs) \<longleftrightarrow> a = CHR ''-'' \<and> b = CHR ''-'' \<or> double_hyphen (b # cs)"
| "double_hyphen _ \<longleftrightarrow> False"

definition valid_platform :: "string \<Rightarrow> bool" where
  "valid_platform value \<longleftrightarrow>
     value \<noteq> [] \<and> length value \<le> 64 \<and> 2 \<le> length (split_on CHR ''-'' value)
     \<and> list_all (\<lambda>c. is_lower c \<or> is_digit c \<or> c = CHR ''-'') value
     \<and> \<not> starts_with value ''-'' \<and> \<not> ends_with value ''-'' \<and> \<not> double_hyphen value"

text \<open>The checks of \<^verbatim>\<open>read_report\<close> on a parsed report; an empty release id stands for the expected one.\<close>

definition complete_report :: "deps \<Rightarrow> package_report \<Rightarrow> package_report res" where
  "complete_report d report =
    (let expected = release_id d (pk_plugin_id report) (pk_version report) (pk_platform report)
           (pk_executable_digest report);
         report = (if pk_release_id report = [] then report\<lparr>pk_release_id := expected\<rparr> else report)
     in bindR (reject
          (pk_schema_version report \<noteq> 1 \<or> \<not> pk_ok report \<or> \<not> pk_reproducible report
           \<or> pk_level report \<noteq> Conformant \<or> pk_archive_size_bytes report = 0
           \<or> \<not> valid_digest (pk_archive_digest report) \<or> \<not> valid_digest (pk_executable_digest report)
           \<or> pk_release_id report \<noteq> expected) ''catalog.reportContract'') (\<lambda>_.
        Inr report))"

definition read_report :: "deps \<Rightarrow> 'w tree_os \<Rightarrow> catalog_codec \<Rightarrow> string \<Rightarrow> ('w, package_report) io" where
  "read_report d os cc path =
     bindW (read_catalog_file os path report_max_bytes) (\<lambda>data.
     bindW (liftW (ok_or ''catalog.report'' (parse_package_report cc data))) (\<lambda>report.
       liftW (complete_report d report)))"

definition validate_report_identity :: "'w tree_os \<Rightarrow> package_report \<Rightarrow> string \<Rightarrow> unit res" where
  "validate_report_identity os report package_name =
    (let archive_name = to_str (pt_file_name os (pk_archive report));
         expected_name = pk_plugin_id report @ ''-'' @ pk_version report @ ''-'' @ pk_platform report
           @ ''.tsplug''
     in reject (archive_name \<noteq> Some package_name \<or> package_name \<noteq> expected_name) ''catalog.filename'')"

section \<open>The input directory\<close>

type_synonym artifact_paths = "(string \<times> string) list" \<comment> \<open>package names and where the files are\<close>

definition insert_artifact :: "artifact_paths \<Rightarrow> string \<Rightarrow> string \<Rightarrow> artifact_paths res" where
  "insert_artifact paths name path =
     bindR (reject (map_of paths name \<noteq> None) ''catalog.duplicate'') (\<lambda>_. Inr (map_insert name path paths))"

text \<open>One entry of the directory, with the packages and the reports found before it.\<close>

definition sort_artifact ::
  "'w tree_os \<Rightarrow> string \<Rightarrow> bytes \<Rightarrow> artifact_paths \<times> artifact_paths \<Rightarrow> ('w, artifact_paths \<times> artifact_paths) io"
where
  "sort_artifact os input name = (\<lambda>(packages, reports).
    (let path = pt_join os input name
     in bindW (callW ''catalog.read'' (to_lstat os path)) (\<lambda>st.
        case st of
          StatFile _ \<Rightarrow>
            if \<not> is_utf8 name then liftW (Inl (VErr ''catalog.filename''))
            else if ends_with name report_suffix then
              (case strip_suffix ''.package-report.json'' name of
                 None \<Rightarrow> liftW (Inl Panic)
               | Some package_name \<Rightarrow>
                   bindW (liftW (insert_artifact reports package_name path)) (\<lambda>reports.
                     returnW (packages, reports)))
            else if ends_with name ''.tsplug'' then
              bindW (liftW (insert_artifact packages name path)) (\<lambda>packages.
                returnW (packages, reports))
            else liftW (Inl (VErr ''catalog.unexpectedFile''))
        | _ \<Rightarrow> liftW (Inl (VErr ''catalog.fileType'')))))"

definition list_artifacts ::
  "'w tree_os \<Rightarrow> string \<Rightarrow> ('w, artifact_paths \<times> artifact_paths) io" where
  "list_artifacts os input =
     bindW (callW ''catalog.read'' (to_lstat os input)) (\<lambda>st.
     bindW (ensure (st = StatDirectory) (VErr ''catalog.inputDirectory'')) (\<lambda>_.
     bindW (callW ''catalog.read'' (to_list os input)) (\<lambda>entries.
     bindW (foldW (sort_artifact os input) (sort entries) ([], [])) (\<lambda>(packages, reports).
     bindW (ensure (packages \<noteq> []) (VErr ''catalog.empty'')) (\<lambda>_.
     bindW (ensure (length packages \<le> catalog_max_packages) (VErr ''catalog.bounds'')) (\<lambda>_.
     bindW (ensure (set (map fst packages) = set (map fst reports)) (VErr ''catalog.reportSet'')) (\<lambda>_.
       returnW (packages, reports))))))))"

section \<open>The packages\<close>

text \<open>The identity of the release, set by the first package, and the entries by platform.\<close>

record catalog_state =
  cs_plugin_id :: "string option"
  cs_version :: "string option"
  cs_packages :: "(string \<times> catalog_entry) list"

definition release_identity :: "catalog_state \<Rightarrow> package_report \<Rightarrow> catalog_state res" where
  "release_identity cs report =
     (case (cs_plugin_id cs, cs_version cs) of
        (None, None) \<Rightarrow>
          Inr (cs\<lparr>cs_plugin_id := Some (pk_plugin_id report), cs_version := Some (pk_version report)\<rparr>)
      | (Some expected_id, Some expected_version) \<Rightarrow>
          if expected_id = pk_plugin_id report \<and> expected_version = pk_version report then Inr cs
          else Inl (VErr ''catalog.identity'')
      | _ \<Rightarrow> Inl (VErr ''catalog.identity''))"

definition entry_of :: "deps \<Rightarrow> string \<Rightarrow> package_report \<Rightarrow> bytes \<Rightarrow> catalog_entry res" where
  "entry_of d name report package_data =
    (let actual_digest = sha256_digest d package_data
     in bindR (reject (pk_archive_size_bytes report \<noteq> length package_data
            \<or> pk_archive_digest report \<noteq> actual_digest) ''catalog.packageIntegrity'') (\<lambda>_.
        Inr \<lparr>ce_file = name, ce_size_bytes = length package_data, ce_digest = actual_digest,
             ce_release_id = pk_release_id report, ce_level = pk_level report\<rparr>))"

definition catalog_package ::
  "deps \<Rightarrow> 'w tree_os \<Rightarrow> catalog_codec \<Rightarrow> artifact_paths \<Rightarrow> string \<times> string \<Rightarrow> catalog_state
     \<Rightarrow> ('w, catalog_state) io" where
  "catalog_package d os cc reports = (\<lambda>(name, package_path) cs.
     case map_of reports name of
       None \<Rightarrow> liftW (Inl Panic)
     | Some report_path \<Rightarrow>
         bindW (read_report d os cc report_path) (\<lambda>report.
         bindW (liftW (validate_report_identity os report name)) (\<lambda>_.
         bindW (liftW (release_identity cs report)) (\<lambda>cs.
         bindW (ensure (valid_platform (pk_platform report)) (VErr ''catalog.platform'')) (\<lambda>_.
         bindW (read_catalog_file os package_path catalog_package_max_bytes) (\<lambda>package_data.
         bindW (liftW (entry_of d name report package_data)) (\<lambda>entry.
         bindW (ensure (map_of (cs_packages cs) (pk_platform report) = None)
           (VErr ''catalog.duplicatePlatform'')) (\<lambda>_.
           returnW (cs\<lparr>cs_packages := map_insert (pk_platform report) entry (cs_packages cs)\<rparr>)))))))))"

definition check_catalog_output :: "'w tree_os \<Rightarrow> string \<Rightarrow> ('w, unit) io" where
  "check_catalog_output os out =
     bindW (readW (to_exists os out)) (\<lambda>exists.
     bindW (ensure (\<not> exists) (VErr ''catalog.exists'')) (\<lambda>_.
     bindW (ensure (to_str (pt_extension os out) = Some ''json'') (VErr ''catalog.extension'')) (\<lambda>_.
     bindW (readW (to_is_dir os (case pt_parent os out of None \<Rightarrow> ''.'' | Some p \<Rightarrow> p))) (\<lambda>dir.
       ensure dir (VErr ''catalog.outputDirectory'')))))"

definition write_catalog :: "'w tree_os \<Rightarrow> string \<Rightarrow> bytes \<Rightarrow> ('w, unit) io" where
  "write_catalog os = write_atomic os ''catalog.write'' ''catalog.commit'' ''catalog.json''"

text \<open>The catalog is printed and written once every package is in.\<close>

definition finish_catalog ::
  "deps \<Rightarrow> 'w tree_os \<Rightarrow> catalog_codec \<Rightarrow> string \<Rightarrow> catalog_state \<Rightarrow> ('w, catalog_report) io" where
  "finish_catalog d os cc out cs =
    (case (cs_plugin_id cs, cs_version cs) of
       (Some pid, Some version) \<Rightarrow>
         let catalog = \<lparr>ct_schema_version = 1, ct_plugin_id = pid, ct_version = version,
                        ct_packages = cs_packages cs\<rparr>
         in bindW (liftW (ok_or ''catalog.serialize'' (print_catalog cc catalog))) (\<lambda>text.
            let catalog_data = text @ [CHR 0x0A]
            in bindW (write_catalog os out catalog_data) (\<lambda>_.
               returnW \<lparr>cg_schema_version = 1, cg_ok = True, cg_plugin_id = pid,
                 cg_version = version, cg_catalog = out,
                 cg_catalog_size_bytes = length catalog_data,
                 cg_catalog_digest = sha256_digest d catalog_data,
                 cg_package_count = length (ct_packages catalog),
                 cg_platforms = map fst (ct_packages catalog)\<rparr>))
     | _ \<Rightarrow> liftW (Inl Panic))"

definition assemble_package_catalog ::
  "deps \<Rightarrow> 'w tree_os \<Rightarrow> catalog_codec \<Rightarrow> string \<Rightarrow> string \<Rightarrow> ('w, catalog_report) io" where
  "assemble_package_catalog d os cc input out =
     bindW (check_catalog_output os out) (\<lambda>_.
     bindW (list_artifacts os input) (\<lambda>(packages, reports).
     bindW (foldW (catalog_package d os cc reports) packages
        \<lparr>cs_plugin_id = None, cs_version = None, cs_packages = []\<rparr>)
       (finish_catalog d os cc out)))"

end
