(* ===== verification/Catalog_Review.thy ===== *)
theory Catalog_Review
  imports Catalog "HOL-Library.Multiset"
begin

text \<open>
  What a catalog promises: the invariant of the loop over the packages, the contract of every entry,
  that no \<^verbatim>\<open>expect\<close> of the code can fail, and that a plugin packaged under its default name is
  accepted.
\<close>

section \<open>Reports and entries\<close>

lemma complete_report_Inr:
  "complete_report d report = Inr r \<longleftrightarrow>
     r = report\<lparr>pk_release_id := release_id d (pk_plugin_id report) (pk_version report)
           (pk_platform report) (pk_executable_digest report)\<rparr>
     \<and> pk_release_id report \<in> {[], pk_release_id r}
     \<and> pk_schema_version r = 1 \<and> pk_ok r \<and> pk_reproducible r \<and> pk_level r = Conformant
     \<and> pk_archive_size_bytes r \<noteq> 0 \<and> valid_digest (pk_archive_digest r)
     \<and> valid_digest (pk_executable_digest r)"
  by (cases report) (auto simp: complete_report_def Let_def bindR_Inr_iff reject_Inr_iff)

lemma entry_of_Inr:
  "entry_of d name report data = Inr e \<longleftrightarrow>
     pk_archive_size_bytes report = length data \<and> pk_archive_digest report = sha256_digest d data
     \<and> e = \<lparr>ce_file = name, ce_size_bytes = length data, ce_digest = sha256_digest d data,
            ce_release_id = pk_release_id report, ce_level = pk_level report\<rparr>"
  by (auto simp: entry_of_def Let_def bindR_Inr_iff reject_Inr_iff)

lemma release_identity_Inr:
  "release_identity cs report = Inr cs' \<longleftrightarrow>
     (cs_plugin_id cs, cs_version cs) \<in> {(None, None), (Some (pk_plugin_id report), Some (pk_version report))}
     \<and> cs' = cs\<lparr>cs_plugin_id := Some (pk_plugin_id report), cs_version := Some (pk_version report)\<rparr>"
  by (cases cs) (auto simp: release_identity_def split: option.splits)

lemma stat_file_Inr:
  "(case st of StatFile len \<Rightarrow> f len | _ \<Rightarrow> liftW (Inl e)) w = (Inr x, w') \<longleftrightarrow>
     (\<exists>len. st = StatFile len \<and> f len w = (Inr x, w'))"
  by (cases st) (auto simp: io_simps)

lemma read_catalog_file_Inr:
  "read_catalog_file os path maximum w = (Inr data, w') \<longleftrightarrow>
     (\<exists>len v. to_lstat os path w = (Some (StatFile len), v) \<and> len \<le> maximum
        \<and> to_read os path v = (Some data, w'))"
proof -
  have f: "(if maximum < len then liftW (Inl e) else m) v = (Inr x, w') \<longleftrightarrow> len \<le> maximum \<and> m v = (Inr x, w')"
    for len e m v x by (simp add: liftW_Inr not_less)
  show ?thesis unfolding read_catalog_file_def bindW_Inr stat_file_Inr callE_Inr f by blast
qed

lemma read_report_Inr:
  "read_report d os cc path w = (Inr report, w') \<longleftrightarrow>
     (\<exists>data parsed. read_catalog_file os path report_max_bytes w = (Inr data, w')
        \<and> parse_package_report cc data = Some parsed \<and> complete_report d parsed = Inr report)"
  by (auto simp: read_report_def bindW_Inr liftW_Inr ok_or_Inr_iff)

section \<open>The reads of a run\<close>

text \<open>
  The directory that is listed and the files that are read, in order, kept beside the world; the
  other calls leave no event.
\<close>

datatype tree_event = Listed string "bytes list" | Fetched string bytes

definition watched_tree :: "'w tree_os \<Rightarrow> ('w \<times> tree_event list) tree_os" where
  "watched_tree os = \<lparr>
     to_exists = (\<lambda>p. noting (\<lambda>_. []) (to_exists os p)),
     to_is_dir = (\<lambda>p. noting (\<lambda>_. []) (to_is_dir os p)),
     to_lstat = (\<lambda>p. noting (\<lambda>_. []) (to_lstat os p)),
     to_read = (\<lambda>p. noting (answered (Fetched p)) (to_read os p)),
     to_list = (\<lambda>p. noting (answered (Listed p)) (to_list os p)),
     to_create_new = (\<lambda>p. noting (\<lambda>_. []) (to_create_new os p)),
     to_write_sync = (\<lambda>p x. noting (\<lambda>_. []) (to_write_sync os p x)),
     to_rename = (\<lambda>p q. noting (\<lambda>_. []) (to_rename os p q)),
     to_remove = (\<lambda>p. noting (\<lambda>_. []) (to_remove os p)),
     to_pid = to_pid os, pt_join = pt_join os, pt_parent = pt_parent os,
     pt_file_name = pt_file_name os, pt_extension = pt_extension os,
     pt_with_file_name = pt_with_file_name os\<rparr>"

lemma watched_tree_simps [simp]:
  "to_exists (watched_tree os) = (\<lambda>p. noting (\<lambda>_. []) (to_exists os p))"
  "to_is_dir (watched_tree os) = (\<lambda>p. noting (\<lambda>_. []) (to_is_dir os p))"
  "to_lstat (watched_tree os) = (\<lambda>p. noting (\<lambda>_. []) (to_lstat os p))"
  "to_read (watched_tree os) = (\<lambda>p. noting (answered (Fetched p)) (to_read os p))"
  "to_list (watched_tree os) = (\<lambda>p. noting (answered (Listed p)) (to_list os p))"
  "to_create_new (watched_tree os) = (\<lambda>p. noting (\<lambda>_. []) (to_create_new os p))"
  "to_write_sync (watched_tree os) = (\<lambda>p x. noting (\<lambda>_. []) (to_write_sync os p x))"
  "to_rename (watched_tree os) = (\<lambda>p q. noting (\<lambda>_. []) (to_rename os p q))"
  "to_remove (watched_tree os) = (\<lambda>p. noting (\<lambda>_. []) (to_remove os p))"
  "to_pid (watched_tree os) = to_pid os" "pt_join (watched_tree os) = pt_join os"
  "pt_parent (watched_tree os) = pt_parent os" "pt_file_name (watched_tree os) = pt_file_name os"
  "pt_extension (watched_tree os) = pt_extension os"
  "pt_with_file_name (watched_tree os) = pt_with_file_name os"
  by (simp_all add: watched_tree_def)

lemma shadows_foldW:
  "(\<And>x s. shadows (f' x s) (f x s)) \<Longrightarrow> shadows (foldW f' xs s) (foldW f xs s)"
  by (induction xs arbitrary: s) (auto intro!: shadow_rules)

lemma shadows_write_catalog [shadow_rules]:
  "shadows (write_catalog (watched_tree os) path data) (write_catalog os path data)"
proof -
  have temp: "temporary_path (watched_tree os) = temporary_path os"
    by (simp add: fun_eq_iff temporary_path_def)
  have steps: "shadows (write_steps (watched_tree os) wc cc t path data) (write_steps os wc cc t path data)"
    for wc cc t
    unfolding write_steps_def watched_tree_simps by (intro shadow_rules)
  show ?thesis
    unfolding shadows_def
  proof (intro allI)
    fix w l
    let ?m = "write_steps os ''catalog.write'' ''catalog.commit'' (temporary_path os ''catalog.json'' path) path data"
    from shadows_run [OF steps prod.collapse [symmetric]] obtain l' where
      "write_steps (watched_tree os) ''catalog.write'' ''catalog.commit''
         (temporary_path os ''catalog.json'' path) path data (w, l) = (fst (?m w), (snd (?m w), l'))"
      by blast
    then show "\<exists>l'. write_catalog (watched_tree os) path data (w, l)
        = (fst (write_catalog os path data w), (snd (write_catalog os path data w), l'))"
      by (cases "?m w"; cases "fst (?m w)")
        (simp_all add: write_catalog_def write_atomic_def Let_def temp noting_app)
  qed
qed

lemma shadows_catalog:
  "shadows (assemble_package_catalog d (watched_tree os) cc input out)
     (assemble_package_catalog d os cc input out)"
proof -
  have read: "shadows (read_catalog_file (watched_tree os) path n) (read_catalog_file os path n)" for path n
    unfolding read_catalog_file_def watched_tree_simps
    by (auto intro!: shadow_rules split: file_stat.splits)
  have sort: "shadows (sort_artifact (watched_tree os) input name ps) (sort_artifact os input name ps)"
    for name ps
    unfolding sort_artifact_def watched_tree_simps Let_def
    by (auto intro!: shadow_rules split: prod.splits file_stat.splits option.splits)
  have pk: "shadows (catalog_package d (watched_tree os) cc reports np cs)
      (catalog_package d os cc reports np cs)" for reports np cs
    unfolding catalog_package_def read_report_def validate_report_identity_def watched_tree_simps ensure_def
    by (auto intro!: shadow_rules read split: prod.splits option.splits)
  have fin: "shadows (finish_catalog d (watched_tree os) cc out cs) (finish_catalog d os cc out cs)" for cs
    unfolding finish_catalog_def Let_def by (auto intro!: shadow_rules split: prod.splits option.splits)
  show ?thesis
    unfolding assemble_package_catalog_def check_catalog_output_def list_artifacts_def
      watched_tree_simps ensure_def
    by (auto intro!: shadow_rules shadows_foldW sort pk fin split: prod.splits)
qed

section \<open>The input directory\<close>

definition report_of :: "string \<Rightarrow> string" where
  "report_of name = name @ ''.package-report.json''"

text \<open>
  What sorting has made of the names seen so far: each is a package or the report of one, under its
  path, and both lists are in strict order.
\<close>

definition sorted_out :: "'w tree_os \<Rightarrow> string \<Rightarrow> string list \<Rightarrow> artifact_paths \<times> artifact_paths \<Rightarrow> bool" where
  "sorted_out os input seen = (\<lambda>(packages, reports).
     mset seen = mset (map fst packages) + mset (map (report_of \<circ> fst) reports)
     \<and> sorted_wrt (<) (map fst packages) \<and> sorted_wrt (<) (map fst reports)
     \<and> (\<forall>(name, path)\<in>set packages. path = pt_join os input name)
     \<and> (\<forall>(name, path)\<in>set reports. path = pt_join os input (report_of name)))"

lemma mset_map_insert:
  "map_of kvs k = None \<Longrightarrow> mset (map_insert k v kvs) = add_mset (k, v) (mset kvs)"
  by (induction k v kvs rule: map_insert.induct) (auto split: if_splits)

lemma insert_artifact_Inr:
  "insert_artifact ps name path = Inr ps' \<longleftrightarrow> map_of ps name = None \<and> ps' = map_insert name path ps"
  by (auto simp: insert_artifact_def bindR_Inr_iff reject_Inr_iff)

lemma strip_suffix_SomeD: "strip_suffix p s = Some b \<Longrightarrow> s = b @ p"
proof -
  assume "strip_suffix p s = Some b"
  then have "strip_prefix (rev p) (rev s) = Some (rev b)" by (auto simp: strip_suffix_def)
  then have "rev s = rev p @ rev b"
    by (metis append_take_drop_id option.distinct(1) option.inject starts_with_def strip_prefix_def)
  then show "s = b @ p" by (metis rev_append rev_rev_ident)
qed

lemma strip_report: "strip_suffix ''.package-report.json'' name = Some base \<Longrightarrow> name = report_of base"
  unfolding report_of_def by (rule strip_suffix_SomeD)

lemma sorted_out_package:
  assumes "sorted_out os input seen (packages, reports)" and "map_of packages name = None"
  shows "sorted_out os input (seen @ [name])
    (map_insert name (pt_join os input name) packages, reports)"
  using assms map_insert_sorted [of packages name "pt_join os input name"]
    set_map_insert [of name "pt_join os input name" packages]
  by (auto simp: sorted_out_def mset_map_insert)

lemma sorted_out_report:
  assumes "sorted_out os input seen (packages, reports)" and "map_of reports base = None"
  shows "sorted_out os input (seen @ [report_of base])
    (packages, map_insert base (pt_join os input (report_of base)) reports)"
  using assms map_insert_sorted [of reports base "pt_join os input (report_of base)"]
    set_map_insert [of base "pt_join os input (report_of base)" reports]
  by (auto simp: sorted_out_def mset_map_insert)

lemma sort_artifact_step:
  assumes "sort_artifact (watched_tree os) input name ps (w, l) = (Inr ps', (w', l'))"
    and "sorted_out os input seen ps"
  shows "sorted_out os input (seen @ [name]) ps' \<and> l' = l"
proof -
  obtain packages reports where ps: "ps = (packages, reports)" by (cases ps)
  let ?path = "pt_join os input name"
  from assms(1) obtain u l1 u2 where st: "to_lstat os ?path w = (Some (StatFile u), u2)" and
    run: "(if \<not> is_utf8 name then liftW (Inl (VErr ''catalog.filename''))
      else if ends_with name report_suffix then
        (case strip_suffix ''.package-report.json'' name of
           None \<Rightarrow> liftW (Inl Panic)
         | Some package_name \<Rightarrow>
             bindW (liftW (insert_artifact reports package_name ?path)) (\<lambda>reports.
               returnW (packages, reports)))
      else if ends_with name ''.tsplug'' then
        bindW (liftW (insert_artifact packages name ?path)) (\<lambda>packages. returnW (packages, reports))
      else liftW (Inl (VErr ''catalog.unexpectedFile''))) (u2, l) = (Inr ps', (w', l'))"
    by (auto simp: sort_artifact_def ps Let_def bindW_Inr stat_file_Inr callE_Inr noting_eq)
  have l: "l' = l"
    and c: "(\<exists>base rs. name = report_of base \<and> insert_artifact reports base ?path = Inr rs
        \<and> ps' = (packages, rs))
      \<or> (\<exists>qs. insert_artifact packages name ?path = Inr qs \<and> ps' = (qs, reports))"
    using run strip_report [of name] by (auto simp: io_simps split: option.splits if_splits)
  from c assms(2) sorted_out_package [of os input seen packages reports name] sorted_out_report
  show ?thesis unfolding ps insert_artifact_Inr using l by blast
qed

lemma sort_artifacts_fold:
  assumes "foldW (sort_artifact (watched_tree os) input) names ps (w, l) = (Inr ps', (w', l'))"
    and "sorted_out os input seen ps"
  shows "sorted_out os input (seen @ names) ps' \<and> l' = l"
  using assms
proof (induction names arbitrary: ps w l seen)
  case Nil
  then show ?case by (simp add: io_simps)
next
  case (Cons name names)
  from Cons.prems(1) obtain ps1 w1 l1 where
    one: "sort_artifact (watched_tree os) input name ps (w, l) = (Inr ps1, (w1, l1))"
    and rest: "foldW (sort_artifact (watched_tree os) input) names ps1 (w1, l1) = (Inr ps', (w', l'))"
    by (auto simp: io_simps)
  from sort_artifact_step [OF one Cons.prems(2)] Cons.IH [OF rest] show ?case by fastforce
qed

lemma keyed_map: "\<forall>(k, v)\<in>set kvs. v = f k \<Longrightarrow> kvs = map (\<lambda>k. (k, f k)) (map fst kvs)"
  by (induction kvs) auto

lemma list_artifacts_events:
  assumes "list_artifacts (watched_tree os) input (w, l) = (Inr (packages, reports), (w', l'))"
  shows "\<exists>listed names. l' = l @ [Listed input listed]
    \<and> packages = map (\<lambda>n. (n, pt_join os input n)) names
    \<and> names \<noteq> [] \<and> length names \<le> 32 \<and> sorted_wrt (<) names
    \<and> mset listed = mset names + mset (map report_of names)
    \<and> (\<forall>n\<in>set names. map_of reports n = Some (pt_join os input (report_of n)))"
proof -
  from assms obtain listed v where
    fold: "foldW (sort_artifact (watched_tree os) input) (sort listed) ([], []) (v, l @ [Listed input listed])
        = (Inr (packages, reports), (w', l'))"
    and b: "packages \<noteq> []" "length packages \<le> 32" "set (map fst packages) = set (map fst reports)"
    by (auto simp: list_artifacts_def io_simps noting_eq catalog_max_packages_def)
  have "sorted_out os input [] ([], [])" by (simp add: sorted_out_def)
  from sort_artifacts_fold [OF fold this] have l: "l' = l @ [Listed input listed]"
    and out: "sorted_out os input (sort listed) (packages, reports)" by simp_all
  define names where "names = map fst packages"
  have same: "map fst reports = names"
    using out b(3) unfolding names_def sorted_out_def prod.case by (metis strict_sorted_equal)
  have pk: "packages = map (\<lambda>n. (n, pt_join os input n)) names"
    using out unfolding names_def sorted_out_def by (intro keyed_map) simp
  have "reports = map (\<lambda>n. (n, pt_join os input (report_of n))) names"
    using out unfolding same [symmetric] sorted_out_def by (intro keyed_map) simp
  then have "\<forall>n\<in>set names. map_of reports n = Some (pt_join os input (report_of n))"
    by (simp add: map_of_map_restrict)
  moreover have "mset listed = mset names + mset (map report_of names)"
    using out same by (simp add: sorted_out_def names_def) (metis image_mset.compositionality mset_map)
  moreover have "sorted_wrt (<) names" using out by (simp add: sorted_out_def names_def)
  moreover have "names \<noteq> []" "length names \<le> 32" using b by (simp_all add: names_def)
  ultimately show ?thesis using l pk by blast
qed

section \<open>Packages and entries\<close>

text \<open>
  A package as it was read: its name, its report and its archive. Its entry has the canonical name of
  its platform, the length and the digest of the archive, which are those of the report, and the
  release id of the plugin, the version, the platform and the executable that the report names.
\<close>

type_synonym read_package = "string \<times> bytes \<times> bytes"

definition package_events :: "'w tree_os \<Rightarrow> string \<Rightarrow> read_package \<Rightarrow> tree_event list" where
  "package_events os input = (\<lambda>(name, data, archive).
     [Fetched (pt_join os input (report_of name)) data, Fetched (pt_join os input name) archive])"

definition package_entry ::
  "deps \<Rightarrow> 'w tree_os \<Rightarrow> catalog_codec \<Rightarrow> string \<Rightarrow> string \<Rightarrow> read_package \<Rightarrow> string \<times> catalog_entry
     \<Rightarrow> bool" where
  "package_entry d os cc pid ver = (\<lambda>(name, data, archive) (platform, e).
     valid_platform platform \<and> name = pid @ ''-'' @ ver @ ''-'' @ platform @ ''.tsplug''
     \<and> archive \<noteq> []
     \<and> (\<exists>report. parse_package_report cc data = Some report
          \<and> pk_ok report \<and> pk_reproducible report \<and> pk_level report = Conformant
          \<and> pk_plugin_id report = pid \<and> pk_version report = ver \<and> pk_platform report = platform
          \<and> to_str (pt_file_name os (pk_archive report)) = Some name
          \<and> pk_archive_size_bytes report = length archive
          \<and> pk_archive_digest report = sha256_digest d archive
          \<and> pk_release_id report \<in> {[], ce_release_id e}
          \<and> e = \<lparr>ce_file = name, ce_size_bytes = length archive, ce_digest = sha256_digest d archive,
              ce_release_id = release_id d pid ver platform (pk_executable_digest report),
              ce_level = Conformant\<rparr>))"

lemma read_catalog_file_events:
  "read_catalog_file (watched_tree os) path maximum (w, l) = (Inr data, (w', l')) \<Longrightarrow>
     l' = l @ [Fetched path data]"
  by (auto simp: read_catalog_file_Inr noting_eq)

lemma catalog_package_events:
  assumes "catalog_package d (watched_tree os) cc reports (name, pt_join os input name) cs (w, l)
      = (Inr cs', (w', l'))"
    and "map_of reports name = Some (pt_join os input (report_of name))"
  shows "\<exists>data archive platform e pid ver.
      l' = l @ package_events os input (name, data, archive)
    \<and> package_entry d os cc pid ver (name, data, archive) (platform, e)
    \<and> map_of (cs_packages cs) platform = None
    \<and> (cs_plugin_id cs, cs_version cs) \<in> {(None, None), (Some pid, Some ver)}
    \<and> cs' = \<lparr>cs_plugin_id = Some pid, cs_version = Some ver,
        cs_packages = map_insert platform e (cs_packages cs)\<rparr>"
proof -
  from assms obtain report cs1 archive entry w1 l1 w2 l2 where
    rr: "read_report d (watched_tree os) cc (pt_join os input (report_of name)) (w, l) = (Inr report, (w1, l1))"
    and id: "validate_report_identity (watched_tree os) report name = Inr ()"
    and ri: "release_identity cs report = Inr cs1" and pl: "valid_platform (pk_platform report)"
    and rb: "read_catalog_file (watched_tree os) (pt_join os input name) catalog_package_max_bytes (w1, l1)
        = (Inr archive, (w2, l2))"
    and e: "entry_of d name report archive = Inr entry"
    and fresh: "map_of (cs_packages cs1) (pk_platform report) = None"
    and cs': "cs' = cs1\<lparr>cs_packages := map_insert (pk_platform report) entry (cs_packages cs1)\<rparr>"
    and l': "l' = l2"
    by (auto simp: catalog_package_def io_simps)
  from rr obtain data parsed where
    rd: "read_catalog_file (watched_tree os) (pt_join os input (report_of name)) report_max_bytes (w, l)
        = (Inr data, (w1, l1))"
    and pa: "parse_package_report cc data = Some parsed" and rep: "complete_report d parsed = Inr report"
    by (auto simp: read_report_Inr)
  have ev: "l' = l @ package_events os input (name, data, archive)"
    using read_catalog_file_events [OF rd] read_catalog_file_events [OF rb] l'
    by (simp add: package_events_def)
  have "package_entry d os cc (pk_plugin_id report) (pk_version report) (name, data, archive)
      (pk_platform report, entry)"
    using pl id pa rep e
    by (auto simp: package_entry_def complete_report_Inr entry_of_Inr validate_report_identity_def
        Let_def reject_Inr_iff)
  moreover have "cs_packages cs1 = cs_packages cs"
    "(cs_plugin_id cs, cs_version cs) \<in> {(None, None), (Some (pk_plugin_id report), Some (pk_version report))}"
    "cs' = \<lparr>cs_plugin_id = Some (pk_plugin_id report), cs_version = Some (pk_version report),
        cs_packages = map_insert (pk_platform report) entry (cs_packages cs)\<rparr>"
    using ri cs' by (cases cs, auto simp: release_identity_Inr)+
  ultimately show ?thesis using ev fresh by (metis (no_types, lifting))
qed

text \<open>The state of the loop holds the entries of the packages read so far.\<close>

definition collected ::
  "deps \<Rightarrow> 'w tree_os \<Rightarrow> catalog_codec \<Rightarrow> read_package list \<Rightarrow> catalog_state \<Rightarrow> bool" where
  "collected d os cc packed cs \<longleftrightarrow>
     sorted_wrt (<) (map fst (cs_packages cs))
     \<and> (case (cs_plugin_id cs, cs_version cs) of
          (None, None) \<Rightarrow> packed = [] \<and> cs_packages cs = []
        | (Some pid, Some ver) \<Rightarrow> \<exists>entries. list_all2 (package_entry d os cc pid ver) packed entries
            \<and> mset entries = mset (cs_packages cs)
        | _ \<Rightarrow> False)"

lemma collected_step:
  assumes "collected d os cc packed cs" and "package_entry d os cc pid ver pk (platform, e)"
    and "map_of (cs_packages cs) platform = None"
    and "(cs_plugin_id cs, cs_version cs) \<in> {(None, None), (Some pid, Some ver)}"
  shows "collected d os cc (packed @ [pk]) \<lparr>cs_plugin_id = Some pid, cs_version = Some ver,
      cs_packages = map_insert platform e (cs_packages cs)\<rparr>"
proof -
  obtain entries where "list_all2 (package_entry d os cc pid ver) packed entries"
    "mset entries = mset (cs_packages cs)"
    using assms(1,4) by (auto simp: collected_def)
  then have "list_all2 (package_entry d os cc pid ver) (packed @ [pk]) (entries @ [(platform, e)])"
    "mset (entries @ [(platform, e)]) = mset (map_insert platform e (cs_packages cs))"
    using assms(2,3) by (simp_all add: list_all2_appendI mset_map_insert)
  with assms(1) show ?thesis by (auto simp: collected_def map_insert_sorted)
qed

lemma catalog_fold:
  assumes "foldW (catalog_package d (watched_tree os) cc reports) (map (\<lambda>n. (n, pt_join os input n)) names)
      cs (w, l) = (Inr cs', (w', l'))"
    and "\<forall>n\<in>set names. map_of reports n = Some (pt_join os input (report_of n))"
    and "collected d os cc packed cs"
  shows "\<exists>more. map fst more = names \<and> l' = l @ concat (map (package_events os input) more)
    \<and> collected d os cc (packed @ more) cs' \<and> (names \<noteq> [] \<longrightarrow> cs_plugin_id cs' \<noteq> None)"
  using assms
proof (induction names arbitrary: cs w l packed)
  case Nil
  then show ?case by (intro exI [of _ "[]"]) (simp add: io_simps)
next
  case (Cons n names)
  from Cons.prems(1) obtain cs1 w1 l1 where
    one: "catalog_package d (watched_tree os) cc reports (n, pt_join os input n) cs (w, l) = (Inr cs1, (w1, l1))"
    and rest: "foldW (catalog_package d (watched_tree os) cc reports) (map (\<lambda>n. (n, pt_join os input n)) names)
      cs1 (w1, l1) = (Inr cs', (w', l'))"
    by (auto simp: io_simps)
  have "map_of reports n = Some (pt_join os input (report_of n))" using Cons.prems(2) by simp
  from catalog_package_events [OF one this] obtain data archive platform e pid ver where
    p: "l1 = l @ package_events os input (n, data, archive)"
      "package_entry d os cc pid ver (n, data, archive) (platform, e)"
      "map_of (cs_packages cs) platform = None"
      "(cs_plugin_id cs, cs_version cs) \<in> {(None, None), (Some pid, Some ver)}"
    and cs1: "cs1 = \<lparr>cs_plugin_id = Some pid, cs_version = Some ver,
        cs_packages = map_insert platform e (cs_packages cs)\<rparr>" by blast
  have "collected d os cc (packed @ [(n, data, archive)]) cs1"
    using collected_step [OF Cons.prems(3) p(2-4)] by (simp add: cs1)
  from Cons.IH [OF rest _ this] Cons.prems(2) obtain more where
    m: "map fst more = names" "l' = l1 @ concat (map (package_events os input) more)"
      "collected d os cc ((packed @ [(n, data, archive)]) @ more) cs'"
      "names \<noteq> [] \<longrightarrow> cs_plugin_id cs' \<noteq> None" by auto
  have "names = [] \<Longrightarrow> cs' = cs1" using rest by (simp add: io_simps)
  then have "cs_plugin_id cs' \<noteq> None" using m(4) cs1 by auto
  with m p(1) show ?case by (intro exI [of _ "(n, data, archive) # more"]) simp
qed

section \<open>The catalog\<close>

text \<open>
  The document of a catalog for the packages read, and the report about it.
\<close>

definition catalog_contract ::
  "deps \<Rightarrow> 'w tree_os \<Rightarrow> catalog_codec \<Rightarrow> string \<Rightarrow> read_package list \<Rightarrow> package_catalog \<Rightarrow> bytes
     \<Rightarrow> catalog_report \<Rightarrow> bool" where
  "catalog_contract d os cc out packed c data r \<longleftrightarrow>
     print_catalog cc c = Some data
     \<and> ct_schema_version c = 1
     \<and> sorted_wrt (<) (map fst (ct_packages c))
     \<and> (\<exists>entries. list_all2 (package_entry d os cc (ct_plugin_id c) (ct_version c)) packed entries
          \<and> mset entries = mset (ct_packages c))
     \<and> r = \<lparr>cg_schema_version = 1, cg_ok = True, cg_plugin_id = ct_plugin_id c,
         cg_version = ct_version c, cg_catalog = out,
         cg_catalog_size_bytes = Suc (length data),
         cg_catalog_digest = sha256_digest d (data @ [CHR 0x0A]),
         cg_package_count = length (ct_packages c), cg_platforms = map fst (ct_packages c)\<rparr>"

text \<open>The directory lists the packages, one to 32, each with its report and nothing else.\<close>

definition catalog_reads :: "'w tree_os \<Rightarrow> string \<Rightarrow> read_package list \<Rightarrow> tree_event list \<Rightarrow> bool" where
  "catalog_reads os input packed es \<longleftrightarrow>
     (\<exists>listed. es = Listed input listed # concat (map (package_events os input) packed)
        \<and> mset listed = mset (map fst packed) + mset (map report_of (map fst packed)))
     \<and> sorted_wrt (<) (map fst packed) \<and> 1 \<le> length packed \<and> length packed \<le> 32"

lemma assemble_catalog_events:
  assumes "assemble_package_catalog d (watched_tree os) cc input out (w, []) = (Inr r, (w', es))"
  shows "\<exists>packed c data v. catalog_reads os input packed es
    \<and> catalog_contract d os cc out packed c data r
    \<and> write_catalog (watched_tree os) out (data @ [CHR 0x0A]) (v, es) = (Inr (), (w', es))"
proof -
  let ?start = "\<lparr>cs_plugin_id = None, cs_version = None, cs_packages = []\<rparr>"
  from assms obtain packages reports cs w1 w2 l2 w3 l3 where
    l: "list_artifacts (watched_tree os) input (w1, []) = (Inr (packages, reports), (w2, l2))"
    and f: "foldW (catalog_package d (watched_tree os) cc reports) packages ?start (w2, l2)
        = (Inr cs, (w3, l3))"
    and fin: "finish_catalog d (watched_tree os) cc out cs (w3, l3) = (Inr r, (w', es))"
    by (auto simp: assemble_package_catalog_def check_catalog_output_def io_simps noting_eq)
  from list_artifacts_events [OF l] obtain listed names where
    n: "l2 = [Listed input listed]" "packages = map (\<lambda>n. (n, pt_join os input n)) names"
      "names \<noteq> []" "length names \<le> 32" "sorted_wrt (<) names"
      "mset listed = mset names + mset (map report_of names)"
      "\<forall>n\<in>set names. map_of reports n = Some (pt_join os input (report_of n))" by auto
  have "collected d os cc [] ?start" by (simp add: collected_def)
  from catalog_fold [OF f [unfolded n(2)] n(7) this] n(3) obtain packed where
    p: "map fst packed = names" "l3 = l2 @ concat (map (package_events os input) packed)"
      "collected d os cc packed cs" "cs_plugin_id cs \<noteq> None" by auto
  then obtain pid ver where id: "cs_plugin_id cs = Some pid" "cs_version cs = Some ver"
    by (auto simp: collected_def split: option.splits)
  define c where "c = \<lparr>ct_schema_version = 1, ct_plugin_id = pid, ct_version = ver,
     ct_packages = cs_packages cs\<rparr>"
  from fin obtain data where pr: "print_catalog cc c = Some data"
    and wr: "write_catalog (watched_tree os) out (data @ [CHR 0x0A]) (w3, l3) = (Inr (), (w', es))"
    and r: "r = \<lparr>cg_schema_version = 1, cg_ok = True, cg_plugin_id = pid,
                   cg_version = ver, cg_catalog = out,
                   cg_catalog_size_bytes = length (data @ [CHR 0x0A]),
                   cg_catalog_digest = sha256_digest d (data @ [CHR 0x0A]),
                   cg_package_count = length (ct_packages c),
                   cg_platforms = map fst (ct_packages c)\<rparr>"
    unfolding finish_catalog_def id option.case prod.case c_def [symmetric] Let_def bindW_Inr liftW_Inr ok_or_Inr_iff
      returnW_Inr
    by auto
  have es: "es = l3"
    using wr by (auto simp: write_catalog_def write_atomic_def write_steps_def Let_def io_simps noting_eq
        split: prod.splits sum.splits)
  have "length packed = length names" using arg_cong [OF p(1), of length] by simp
  then have "catalog_reads os input packed es"
    using n(1,3-6) p(2) es unfolding catalog_reads_def p(1) by (auto simp: Suc_le_eq)
  moreover have "catalog_contract d os cc out packed c data r"
    using p(3) pr r id by (simp add: catalog_contract_def collected_def c_def)
  ultimately show ?thesis using wr es by blast
qed

text \<open>The state without the entries: the identity is set with the first package.\<close>

lemma catalog_identity_set:
  assumes "foldW (catalog_package d os cc reports) nps cs w = (Inr cs', w')"
    and "cs_plugin_id cs = None \<longleftrightarrow> cs_version cs = None"
  shows "(cs_plugin_id cs' = None \<longleftrightarrow> cs_version cs' = None) \<and> (nps \<noteq> [] \<longrightarrow> cs_plugin_id cs' \<noteq> None)"
  using assms
proof (induction nps arbitrary: cs w)
  case Nil
  then show ?case by (simp add: io_simps)
next
  case (Cons np nps)
  from Cons.prems(1) obtain cs1 v where one: "catalog_package d os cc reports np cs w = (Inr cs1, v)"
    and rest: "foldW (catalog_package d os cc reports) nps cs1 v = (Inr cs', w')"
    by (auto simp: io_simps)
  have set: "cs_plugin_id cs1 \<noteq> None \<and> cs_version cs1 \<noteq> None"
    using one by (cases np) (auto simp: catalog_package_def io_simps release_identity_Inr split: option.splits)
  then have "cs_plugin_id cs1 = None \<longleftrightarrow> cs_version cs1 = None" by blast
  then have ih: "(cs_plugin_id cs' = None \<longleftrightarrow> cs_version cs' = None)
      \<and> (nps \<noteq> [] \<longrightarrow> cs_plugin_id cs' \<noteq> None)"
    by (rule Cons.IH [OF rest])
  have "nps = [] \<Longrightarrow> cs' = cs1" using rest by (simp add: io_simps)
  with ih set show ?case by auto
qed

lemma list_artifacts_Inr:
  "list_artifacts os input w = (Inr (packages, reports), w') \<Longrightarrow>
     packages \<noteq> [] \<and> length packages \<le> 32 \<and> set (map fst packages) = set (map fst reports)"
  by (auto simp: list_artifacts_def io_simps catalog_max_packages_def)

section \<open>No panic\<close>

text \<open>A computation that never aborts, whatever the world.\<close>

definition panic_free :: "('w, 'a) io \<Rightarrow> bool" where
  "panic_free m \<longleftrightarrow> (\<forall>w w'. m w \<noteq> (Inl Panic, w'))"

named_theorems panic_free_rules \<open>computations without panic\<close>

lemma panic_free_returnW [panic_free_rules]: "panic_free (returnW x)"
  by (simp add: panic_free_def)

lemma panic_free_readW [panic_free_rules]: "panic_free (readW op)"
  by (simp add: panic_free_def)

lemma panic_free_callW [panic_free_rules]: "panic_free (callW code op)"
  by (simp add: panic_free_def callE_Inl)

lemma panic_free_ensure [panic_free_rules]: "panic_free (ensure b (VErr code))"
  by (simp add: panic_free_def ensure_def liftW_def)

lemma panic_free_liftW: "panic_free (liftW r) \<longleftrightarrow> \<not> panics r"
  by (auto simp: panic_free_def liftW_def panics_def)

lemma panic_free_lift [panic_free_rules]: "\<not> panics r \<Longrightarrow> panic_free (liftW r)"
  by (simp add: panic_free_liftW)

lemma panic_free_bindW:
  assumes "panic_free m" and "\<And>x w w'. m w = (Inr x, w') \<Longrightarrow> panic_free (f x)"
  shows "panic_free (bindW m f)"
  using assms by (fastforce simp: panic_free_def bindW_Inl)

lemma panic_free_then [panic_free_rules]: "panic_free m \<Longrightarrow> (\<And>x. panic_free (f x)) \<Longrightarrow> panic_free (bindW m f)"
  by (rule panic_free_bindW)

lemma panic_free_foldW: "(\<And>x s. x \<in> set xs \<Longrightarrow> panic_free (f x s)) \<Longrightarrow> panic_free (foldW f xs s)"
  by (induction xs arbitrary: s) (auto intro!: panic_free_rules)

lemma panic_free_if [panic_free_rules]: "(b \<Longrightarrow> panic_free m) \<Longrightarrow> (\<not> b \<Longrightarrow> panic_free m') \<Longrightarrow> panic_free (if b then m else m')"
  by simp

lemma panic_free_stat [panic_free_rules]:
  "(\<And>len. panic_free (f len)) \<Longrightarrow> panic_free (case st of StatFile len \<Rightarrow> f len | _ \<Rightarrow> liftW (Inl (VErr code)))"
  by (cases st) (auto simp: panic_free_liftW panics_def)

lemma not_panics_VErr [panic_free_rules]: "\<not> panics (Inl (VErr code))"
  by (simp add: panics_def)

lemma panic_free_read_catalog_file [panic_free_rules]: "panic_free (read_catalog_file os path maximum)"
  unfolding read_catalog_file_def by (intro panic_free_rules)

lemma catalog_checks_panic_free [panic_free_rules]:
  "\<not> panics (ok_or code x)" "\<not> panics (complete_report d report)"
  "\<not> panics (validate_report_identity os report name)" "\<not> panics (release_identity cs report)"
  "\<not> panics (entry_of d name report data)" "\<not> panics (insert_artifact paths name path)"
  by (auto simp: panics_def ok_or_def complete_report_def validate_report_identity_def
      release_identity_def entry_of_def insert_artifact_def bindR_def reject_def Let_def
      split: option.splits)

lemma ends_with_append: "ends_with s (a @ b) \<Longrightarrow> ends_with s b"
proof -
  assume "ends_with s (a @ b)"
  then obtain pre where "s = pre @ a @ b"
    by (metis append_take_drop_id ends_with_def)
  then show "ends_with s b" by (simp add: ends_with_def)
qed

lemma strip_suffix_Some: "ends_with s p \<Longrightarrow> strip_suffix p s \<noteq> None"
proof -
  assume "ends_with s p"
  then obtain pre where "s = pre @ p" by (metis append_take_drop_id ends_with_def)
  then show ?thesis by (simp add: strip_suffix_def strip_prefix_def starts_with_def)
qed

lemma panic_free_sort_artifact: "panic_free (sort_artifact os input name ps)"
proof -
  have "strip_suffix ''.package-report.json'' name \<noteq> None" if "ends_with name report_suffix"
    using that ends_with_append [of name "''.tsplug''" "''.package-report.json''"]
    by (intro strip_suffix_Some) (simp add: report_suffix_def)
  then show ?thesis
    by (cases ps) (auto simp: sort_artifact_def Let_def intro!: panic_free_rules split: option.split)
qed

lemma panic_free_list_artifacts: "panic_free (list_artifacts os input)"
  unfolding list_artifacts_def
  by (auto intro!: panic_free_rules panic_free_foldW panic_free_sort_artifact)

lemma panic_free_catalog_package:
  "fst np \<in> set (map fst reports) \<Longrightarrow> panic_free (catalog_package d os cc reports np cs)"
  by (cases np) (auto simp: catalog_package_def read_report_def map_of_eq_None_iff intro!: panic_free_rules
      split: option.split)

lemma panic_free_write: "panic_free (write_atomic os write_code commit_code fallback path data)"
proof -
  have "panic_free (write_steps os write_code commit_code temporary path data)" for temporary
    unfolding write_steps_def by (intro panic_free_rules)
  from this [of "temporary_path os fallback path"] show ?thesis
    by (auto simp: panic_free_def write_atomic_def Let_def split: prod.split sum.split)
qed

lemma catalog_never_panics: "panic_free (assemble_package_catalog d os cc input out)"
proof -
  have fin: "panic_free (finish_catalog d os cc out cs)"
    if "cs_plugin_id cs \<noteq> None" "cs_version cs \<noteq> None" for cs
    using that
    by (auto simp: finish_catalog_def Let_def write_catalog_def
        intro!: panic_free_rules panic_free_write split: option.splits)
  have "panic_free (foldW (catalog_package d os cc reports) packages
        \<lparr>cs_plugin_id = None, cs_version = None, cs_packages = []\<rparr>)"
    and "foldW (catalog_package d os cc reports) packages
        \<lparr>cs_plugin_id = None, cs_version = None, cs_packages = []\<rparr> v = (Inr cs, v') \<Longrightarrow>
      panic_free (finish_catalog d os cc out cs)"
    if "list_artifacts os input w = (Inr (packages, reports), w')" for packages reports w w' v v' cs
  proof -
    note found = list_artifacts_Inr [OF that]
    then show "panic_free (foldW (catalog_package d os cc reports) packages
        \<lparr>cs_plugin_id = None, cs_version = None, cs_packages = []\<rparr>)"
      by (intro panic_free_foldW panic_free_catalog_package) (metis image_eqI set_map)
    assume folded: "foldW (catalog_package d os cc reports) packages
        \<lparr>cs_plugin_id = None, cs_version = None, cs_packages = []\<rparr> v = (Inr cs, v')"
    have "(cs_plugin_id cs = None \<longleftrightarrow> cs_version cs = None) \<and> (packages \<noteq> [] \<longrightarrow> cs_plugin_id cs \<noteq> None)"
      by (rule catalog_identity_set [OF folded]) simp
    then have "cs_plugin_id cs \<noteq> None" "cs_version cs \<noteq> None" using found by blast+
    then show "panic_free (finish_catalog d os cc out cs)" by (rule fin)
  qed
  then show ?thesis
    unfolding assemble_package_catalog_def check_catalog_output_def
    by (auto intro!: panic_free_rules panic_free_bindW [OF panic_free_list_artifacts] panic_free_bindW split: prod.split)
qed

section \<open>From the package to the catalog\<close>

text \<open>A regular file that is read whole, without changing the world.\<close>

definition holds_file :: "'w tree_os \<Rightarrow> 'w \<Rightarrow> string \<Rightarrow> bytes \<Rightarrow> bool" where
  "holds_file os v path data \<longleftrightarrow>
     to_lstat os path v = (Some (StatFile (length data)), v) \<and> to_read os path v = (Some data, v)"

lemma holds_file_read:
  "holds_file os v path data \<Longrightarrow> length data \<le> maximum \<Longrightarrow>
     read_catalog_file os path maximum v = (Inr data, v)"
  by (auto simp: holds_file_def read_catalog_file_Inr)

lemma packaged_plugin_accepted:
  assumes run: "package_plugin d hc fo sc pf os pc depth plugin out w = (Inr r, w')"
    and sha: "sha256_length d" and res: "resolved_ok d h plugin"
    and platform: "valid_platform (rp_platform plugin)"
  shows "\<exists>archive u. write_package os out archive u = (Inr (), w')
    \<and> (\<forall>(os' :: 'v tree_os) cc v path rpath data reports.
        to_str (pt_file_name os' out) = Some (default_package_path plugin)
        \<and> holds_file os' v path archive \<and> holds_file os' v rpath data
        \<and> length data \<le> report_max_bytes \<and> parse_package_report cc data = Some r
        \<and> map_of reports (default_package_path plugin) = Some rpath
        \<longrightarrow> catalog_package d os' cc reports (default_package_path plugin, path)
              \<lparr>cs_plugin_id = None, cs_version = None, cs_packages = []\<rparr> v
            = (Inr \<lparr>cs_plugin_id = Some (mf_id (rp_manifest plugin)),
                    cs_version = Some (mf_version (rp_manifest plugin)),
                    cs_packages = [(rp_platform plugin,
                      \<lparr>ce_file = default_package_path plugin, ce_size_bytes = length archive,
                       ce_digest = sha256_digest d archive, ce_release_id = rp_release_id plugin,
                       ce_level = Conformant\<rparr>)]\<rparr>, v))"
proof -
  from package_plugin_sound [OF run] obtain files archive u where
    c: "package_contract d os pc plugin out r files archive"
    and wr: "write_package os out archive u = (Inr (), w')" by blast
  from c have z: "write_zip files = Inr archive" by (simp add: package_contract_def)
  from c have rv: "pk_ok r" "pk_level r = Conformant" "pk_archive r = out"
    "pk_plugin_id r = mf_id (rp_manifest plugin)" "pk_version r = mf_version (rp_manifest plugin)"
    "pk_platform r = rp_platform plugin" "pk_release_id r = rp_release_id plugin"
    "pk_archive_digest r = sha256_digest d archive" "pk_archive_size_bytes r = length archive"
    "pk_executable_digest r = rp_artifact_digest plugin"
    by (simp_all add: package_contract_def)
  from run have "pk_schema_version r = 1" "pk_reproducible r"
    by (auto simp: package_plugin_def Let_def io_simps)
  moreover have size: "length archive \<noteq> 0" "length archive \<le> catalog_package_max_bytes"
    using z write_zip_iff [of files] length_write_zip [OF z]
    by (auto simp: catalog_package_max_bytes_def archive_size_def)
  moreover have "rp_release_id plugin = release_id d (mf_id (rp_manifest plugin))
      (mf_version (rp_manifest plugin)) (rp_platform plugin) (rp_artifact_digest plugin)"
    "valid_digest (rp_artifact_digest plugin)"
    using res sha by (auto simp: resolved_ok_def)
  ultimately have rep: "complete_report d r = Inr r"
    using rv sha by (simp add: complete_report_Inr)
  have id: "validate_report_identity os' r (default_package_path plugin) = Inr ()"
    if "to_str (pt_file_name os' out) = Some (default_package_path plugin)" for os' :: "'v tree_os"
    using that rv by (simp add: validate_report_identity_def default_package_path_def reject_Inr_iff)
  have "catalog_package d os' cc reports (default_package_path plugin, path)
              \<lparr>cs_plugin_id = None, cs_version = None, cs_packages = []\<rparr> v
            = (Inr \<lparr>cs_plugin_id = Some (mf_id (rp_manifest plugin)),
                    cs_version = Some (mf_version (rp_manifest plugin)),
                    cs_packages = [(rp_platform plugin,
                      \<lparr>ce_file = default_package_path plugin, ce_size_bytes = length archive,
                       ce_digest = sha256_digest d archive, ce_release_id = rp_release_id plugin,
                       ce_level = Conformant\<rparr>)]\<rparr>, v)"
    if name: "to_str (pt_file_name os' out) = Some (default_package_path plugin)"
      and that: "holds_file os' v path archive" "holds_file os' v rpath data" "length data \<le> report_max_bytes"
      "parse_package_report cc data = Some r" "map_of reports (default_package_path plugin) = Some rpath"
    for os' :: "'v tree_os" and cc v path rpath data reports
  proof -
    have "read_report d os' cc rpath v = (Inr r, v)"
      using holds_file_read [OF that(2,3)] that(4) rep by (simp add: read_report_Inr)
    moreover have "read_catalog_file os' path catalog_package_max_bytes v = (Inr archive, v)"
      using holds_file_read [OF that(1) size(2)] .
    ultimately show ?thesis
      using that(5) id [OF name] rv platform
      by (simp add: catalog_package_def bindW_eq(1) liftW_def ensure_def returnW_def
          release_identity_def entry_of_def bindR_def reject_def Let_def bindW_def)
  qed
  with wr show ?thesis by metis
qed

end
