(* ===== verification/Catalogs.thy ===== *)
theory Catalogs
  imports Packages Catalog_Review
begin

text \<open>
  The properties of the catalog, with a machine on which the package of the conformance demo plugin
  lies beside its report.
\<close>

section \<open>A concrete catalog\<close>

definition packed_name :: string where
  "packed_name = ''com.example.a-1-1.0.0-rc.1-linux-x64.tsplug''"

definition shelf :: "bytes \<Rightarrow> unit tree_os" where
  "shelf archive = demo_tree\<lparr>to_exists := (\<lambda>_. Pair False),
     to_lstat := (\<lambda>p. Pair (Some (if p = ''/in'' then StatDirectory
       else StatFile (length (if p = ''/in/'' @ packed_name then archive else ''report''))))),
     to_read := (\<lambda>p. Pair (Some (if p = ''/in/'' @ packed_name then archive else ''report''))),
     to_list := (\<lambda>_. Pair (Some [packed_name, packed_name @ ''.package-report.json''])),
     pt_file_name := (\<lambda>_. Some packed_name), pt_extension := (\<lambda>_. Some ''json'')\<rparr>"

definition shelf_codec :: "package_report \<Rightarrow> catalog_codec" where
  "shelf_codec r = \<lparr>parse_package_report = (\<lambda>_. Some r), print_catalog = (\<lambda>_. Some ''{}'')\<rparr>"

lemma packed_name_utf8: "is_utf8 packed_name" "is_utf8 (packed_name @ ''.package-report.json'')" "is_utf8 ''json''"
  by (rule is_utf8_ascii; simp add: ascii_def packed_name_def)+

lemma packed_default_path: "default_package_path packed_plugin = packed_name"
  by (simp add: default_package_path_def packed_plugin_def demo_resolved_def demo_manifest_def packed_name_def)

lemma packed_resolved:
  "resolved_ok wire_deps (demo_host\<lparr>fs_read := (\<lambda>_. Some ''exe'')\<rparr>) packed_plugin"
  using demo_manifest_valid
  by (simp add: resolved_ok_def packed_plugin_def demo_resolved_def validate_manifest_contract)
     (simp add: demo_manifest_def)

lemma shelf_listed:
  "list_artifacts (shelf archive) ''/in'' () =
     (Inr ([(packed_name, ''/in/'' @ packed_name)],
           [(packed_name, ''/in/'' @ packed_name @ ''.package-report.json'')]), ())"
proof -
  have sorted: "packed_name \<le> packed_name @ ''.package-report.json''"
    by (simp add: packed_name_def)
  have e: "\<not> ends_with packed_name report_suffix" "ends_with packed_name ''.tsplug''"
    "ends_with (packed_name @ ''.package-report.json'') report_suffix"
    by (simp_all add: ends_with_def packed_name_def report_suffix_def)
  have s: "strip_suffix ''.package-report.json'' (packed_name @ ''.package-report.json'') = Some packed_name"
    by (simp add: strip_suffix_def strip_prefix_def starts_with_def)
  have "sort_artifact (shelf archive) ''/in'' packed_name ([], []) ()
      = (Inr ([(packed_name, ''/in/'' @ packed_name)], []), ())"
    using e(1,2) packed_name_utf8(1)
    by (simp add: sort_artifact_def bindW_def liftW_def callE_def returnW_def shelf_def demo_tree_def
        insert_artifact_def bindR_def reject_def)
  moreover have "sort_artifact (shelf archive) ''/in'' (packed_name @ ''.package-report.json'')
        ([(packed_name, ''/in/'' @ packed_name)], []) ()
      = (Inr ([(packed_name, ''/in/'' @ packed_name)],
           [(packed_name, ''/in/'' @ packed_name @ ''.package-report.json'')]), ())"
    using e(3) s packed_name_utf8(2)
    by (simp add: sort_artifact_def bindW_def liftW_def callE_def returnW_def shelf_def demo_tree_def
        insert_artifact_def bindR_def reject_def)
  moreover have "to_list (shelf archive) ''/in'' () = (Some [packed_name, packed_name @ ''.package-report.json''], ())"
    "to_lstat (shelf archive) ''/in'' () = (Some StatDirectory, ())"
    by (simp_all add: shelf_def)
  ultimately show ?thesis
    unfolding list_artifacts_def
    by (simp add: bindW_def callE_def ensure_def liftW_def returnW_def sorted catalog_max_packages_def)
qed

lemma shelf_holds:
  "holds_file (shelf archive) () (''/in/'' @ packed_name) archive"
  "holds_file (shelf archive) () (''/in/'' @ packed_name @ ''.package-report.json'') ''report''"
  by (simp_all add: holds_file_def shelf_def packed_name_def)

lemma shelf_output: "check_catalog_output (shelf archive) ''/out'' () = (Inr (), ())"
  using packed_name_utf8(3)
  by (simp add: check_catalog_output_def bindW_def readW_def ensure_def liftW_def shelf_def demo_tree_def
      to_str_def)

lemma shelf_written: "write_catalog (shelf archive) ''/out'' data () = (Inr (), ())"
  by (simp add: write_catalog_def write_atomic_def write_steps_def Let_def bindW_def callE_def shelf_def
      demo_tree_def)

lemma packed_platform: "valid_platform (rp_platform packed_plugin)"
  by (simp add: packed_plugin_def demo_resolved_def) code_simp

lemma shelf_named: "to_str (pt_file_name (shelf archive) path) = Some packed_name"
  using packed_name_utf8(1) by (simp add: to_str_def shelf_def)

lemma small_report: "length ''report'' \<le> report_max_bytes"
  by (simp add: report_max_bytes_def)

lemma shelf_parsed: "parse_package_report (shelf_codec r) data = Some r"
  "map_of [(packed_name, ''/in/'' @ packed_name @ ''.package-report.json'')] packed_name
     = Some (''/in/'' @ packed_name @ ''.package-report.json'')"
  by (simp_all add: shelf_codec_def)

lemma shelf_accepts:
  "\<exists>r archive c. catalog_package wire_deps (shelf archive) (shelf_codec r)
      [(packed_name, ''/in/'' @ packed_name @ ''.package-report.json'')]
      (packed_name, ''/in/'' @ packed_name)
      \<lparr>cs_plugin_id = None, cs_version = None, cs_packages = []\<rparr> () = (Inr c, ())
    \<and> cs_plugin_id c \<noteq> None \<and> cs_version c \<noteq> None"
proof -
  obtain r where "package_plugin wire_deps demo_host_codec demo_files demo_superec_codec demo_machine
      demo_tree demo_package_codec 2 packed_plugin ''/p/d.tsplug'' () = (Inr r, ())"
    using packed_plugin_runs by blast
  note run = this
  have sha: "sha256_length wire_deps" using demo_deps_laws(1) by (simp add: sha256_length_def wire_deps_def)
  from packaged_plugin_accepted [OF run sha packed_resolved packed_platform, where 'v = unit]
  obtain archive where "to_str (pt_file_name os' ''/p/d.tsplug'') = Some packed_name \<Longrightarrow>
      holds_file os' () path archive \<Longrightarrow> holds_file os' () rpath data \<Longrightarrow>
      length data \<le> report_max_bytes \<Longrightarrow> parse_package_report cc data = Some r \<Longrightarrow>
      map_of reports packed_name = Some rpath \<Longrightarrow>
      \<exists>x y z. catalog_package wire_deps os' cc reports (packed_name, path)
        \<lparr>cs_plugin_id = None, cs_version = None, cs_packages = []\<rparr> ()
        = (Inr \<lparr>cs_plugin_id = Some x, cs_version = Some y, cs_packages = z\<rparr>, ())"
    for os' :: "unit tree_os" and cc path rpath data reports
    unfolding packed_default_path by blast
  from this [OF shelf_named shelf_holds small_report shelf_parsed(1) shelf_parsed(2)]
  obtain x y z where "catalog_package wire_deps (shelf archive) (shelf_codec r)
      [(packed_name, ''/in/'' @ packed_name @ ''.package-report.json'')]
      (packed_name, ''/in/'' @ packed_name)
      \<lparr>cs_plugin_id = None, cs_version = None, cs_packages = []\<rparr> ()
        = (Inr \<lparr>cs_plugin_id = Some x, cs_version = Some y, cs_packages = z\<rparr>, ())" by blast
  then show ?thesis by (intro exI conjI, assumption) simp_all
qed

lemma shelf_assembles:
  "\<exists>r archive report. assemble_package_catalog wire_deps (shelf archive) (shelf_codec r) ''/in'' ''/out'' ()
     = (Inr report, ())"
proof -
  obtain r archive c where step: "catalog_package wire_deps (shelf archive) (shelf_codec r)
      [(packed_name, ''/in/'' @ packed_name @ ''.package-report.json'')]
      (packed_name, ''/in/'' @ packed_name)
      \<lparr>cs_plugin_id = None, cs_version = None, cs_packages = []\<rparr> () = (Inr c, ())"
    and c: "cs_plugin_id c \<noteq> None" "cs_version c \<noteq> None" using shelf_accepts by blast
  have "\<exists>report. finish_catalog wire_deps (shelf archive) (shelf_codec r) ''/out'' c () = (Inr report, ())"
    using c shelf_written
    by (auto simp: finish_catalog_def Let_def bindW_def liftW_def returnW_def shelf_codec_def)
  then obtain report where fin:
    "finish_catalog wire_deps (shelf archive) (shelf_codec r) ''/out'' c () = (Inr report, ())" by blast
  have "assemble_package_catalog wire_deps (shelf archive) (shelf_codec r) ''/in'' ''/out'' ()
      = (Inr report, ())"
    unfolding assemble_package_catalog_def bindW_Inr
    using shelf_output shelf_listed step fin by (fastforce simp: io_simps)
  then show ?thesis by blast
qed

section \<open>Properties\<close>

text \<open>C11: a catalog is what its packages are: when assembling one succeeds, the run listed
  the input directory and read, for each package in the order of the names, its report and its
  archive, each from its own path in that directory, and nothing else; the directory held exactly
  these files, the packages, one to 32, each with its report. The document printed and written lists
  one entry for each package, all of one plugin and version, one per platform in strict order: the
  entry has the canonical file name, the length and the digest of the archive that was read, which
  are those of its report, and the release id of the executable the report names. The file written
  is that document, after the last read, and whatever the file system does, no \<open>expect\<close>
  of the code ever fails.\<close>
theorem catalog_sound:
  "(assemble_package_catalog d os cc input out w = (Inr r, w') \<longrightarrow>
      (\<exists>es packed c data v.
         assemble_package_catalog d (watched_tree os) cc input out (w, []) = (Inr r, (w', es))
         \<and> catalog_reads os input packed es
         \<and> catalog_contract d os cc out packed c data r
         \<and> write_catalog (watched_tree os) out (data @ [CHR 0x0A]) (v, es) = (Inr (), (w', es))))
   \<and> assemble_package_catalog d os cc input out w \<noteq> (Inl Panic, w')"
proof (intro conjI impI)
  assume "assemble_package_catalog d os cc input out w = (Inr r, w')"
  from shadows_run [OF shadows_catalog this, of "[]"] obtain es where
    "assemble_package_catalog d (watched_tree os) cc input out (w, []) = (Inr r, (w', es))" by blast
  with assemble_catalog_events [OF this] show "\<exists>es packed c data v.
      assemble_package_catalog d (watched_tree os) cc input out (w, []) = (Inr r, (w', es))
      \<and> catalog_reads os input packed es
      \<and> catalog_contract d os cc out packed c data r
      \<and> write_catalog (watched_tree os) out (data @ [CHR 0x0A]) (v, es) = (Inr (), (w', es))" by blast
qed (use catalog_never_panics [of d os cc input out] in \<open>simp add: panic_free_def\<close>)

theorem catalog_sound_witness:
  "\<exists>r archive c data report packed es. catalog_reads (shelf archive) ''/in'' packed es
     \<and> catalog_contract wire_deps (shelf archive) (shelf_codec r) ''/out'' packed c data report"
proof -
  obtain r archive report where "assemble_package_catalog wire_deps (shelf archive) (shelf_codec r)
      ''/in'' ''/out'' () = (Inr report, ())" using shelf_assembles by blast
  with catalog_sound [of wire_deps "shelf archive" "shelf_codec r" "''/in''" "''/out''" "()" report "()"]
  show ?thesis by blast
qed

text \<open>C29: packaging and cataloguing fit together: a resolved plugin that was packaged under its default
  name is accepted into an empty catalog on any machine that holds the archive as written and its
  report (of at most 1 MiB), and the entry carries the release id the plugin was resolved with.\<close>
theorem packaged_plugin_catalogued:
  assumes "package_plugin d hc fo sc pf os pc depth plugin out w = (Inr r, w')"
    and "sha256_length d" and "resolved_ok d h plugin" and "valid_platform (rp_platform plugin)"
  shows "\<exists>archive u. write_package os out archive u = (Inr (), w')
    \<and> (\<forall>(os' :: 'v tree_os) cc v path rpath data reports.
        to_str (pt_file_name os' out) = Some (default_package_path plugin)
        \<and> holds_file os' v path archive \<and> holds_file os' v rpath data
        \<and> length data \<le> report_max_bytes \<and> parse_package_report cc data = Some r
        \<and> map_of reports (default_package_path plugin) = Some rpath
        \<longrightarrow> catalog_package d os' cc reports (default_package_path plugin, path)
              \<lparr>cs_plugin_id = None, cs_version = None, cs_packages = []\<rparr> v
            = (Inr \<lparr>cs_plugin_id = Some (mf_id (rp_manifest plugin)),
                    cs_version = Some (mf_version (rp_manifest plugin)),
                    cs_packages = [(rp_platform plugin,
                      \<lparr>ce_file = default_package_path plugin, ce_size_bytes = length archive,
                       ce_digest = sha256_digest d archive, ce_release_id = rp_release_id plugin,
                       ce_level = Conformant\<rparr>)]\<rparr>, v))"
  using assms by (rule packaged_plugin_accepted)

theorem packaged_plugin_catalogued_witness:
  "\<exists>r archive c. catalog_package wire_deps (shelf archive) (shelf_codec r)
      [(packed_name, ''/in/'' @ packed_name @ ''.package-report.json'')]
      (packed_name, ''/in/'' @ packed_name)
      \<lparr>cs_plugin_id = None, cs_version = None, cs_packages = []\<rparr> () = (Inr c, ())"
proof -
  obtain r where run: "package_plugin wire_deps demo_host_codec demo_files demo_superec_codec demo_machine
      demo_tree demo_package_codec 2 packed_plugin ''/p/d.tsplug'' () = (Inr r, ())"
    using packed_plugin_runs by blast
  have sha: "sha256_length wire_deps" using demo_deps_laws(1) by (simp add: sha256_length_def wire_deps_def)
  from packaged_plugin_catalogued [OF run sha packed_resolved packed_platform, where 'v = unit]
  obtain archive where "to_str (pt_file_name os' ''/p/d.tsplug'') = Some packed_name \<Longrightarrow>
      holds_file os' () path archive \<Longrightarrow> holds_file os' () rpath data \<Longrightarrow>
      length data \<le> report_max_bytes \<Longrightarrow> parse_package_report cc data = Some r \<Longrightarrow>
      map_of reports packed_name = Some rpath \<Longrightarrow>
      \<exists>c. catalog_package wire_deps os' cc reports (packed_name, path)
        \<lparr>cs_plugin_id = None, cs_version = None, cs_packages = []\<rparr> () = (Inr c, ())"
    for os' :: "unit tree_os" and cc path rpath data reports
    unfolding packed_default_path by blast
  from this [OF shelf_named shelf_holds small_report shelf_parsed] show ?thesis by blast
qed

end
