(* ===== verification/Linux_Driver.thy ===== *)
theory Linux_Driver
  imports Confinement "HOL-Library.Product_Lexorder"
begin

text \<open>
  tools/tsp-certification-confinement-linux/src/linux_driver.rs: the configuration of the Linux
  confinement driver, the digest of its policy, and the driver over a kernel. The kernel (namespaces,
  cgroups, seccomp), the coverage reader and the file system are operations on a world. The records
  of the host calls and of what a kernel observes are those of the macOS and the Windows driver too.
\<close>

section \<open>The host\<close>

text \<open>
  \<^verbatim>\<open>std::fs\<close> and \<^verbatim>\<open>Path\<close>: \<open>ho_kind\<close> is \<^verbatim>\<open>metadata\<close>, \<open>ho_read\<close> an open file read to its end, and
  \<open>ho_within p q\<close> is \<^verbatim>\<open>p.starts_with(q)\<close>.
\<close>

datatype path_kind = RegularFile | Directory | OtherKind

record 'w host_os =
  ho_canonicalize :: "string \<Rightarrow> 'w \<Rightarrow> string option \<times> 'w"
  ho_kind :: "string \<Rightarrow> 'w \<Rightarrow> path_kind option \<times> 'w"
  ho_read :: "string \<Rightarrow> 'w \<Rightarrow> bytes option \<times> 'w"
  ho_absolute :: "string \<Rightarrow> bool"
  ho_within :: "string \<Rightarrow> string \<Rightarrow> bool"
  ho_parent :: "string \<Rightarrow> string option"
  ho_wide :: "string \<Rightarrow> 16 word list" \<comment> \<open>\<^verbatim>\<open>encode_wide\<close>, on Windows\<close>

datatype driver_error =
    InvalidConfiguration
  | PreflightFailure
  | ArtifactFailure
  | ArtifactDrift
  | InvalidDriverExecution
  | LaunchFailure
  | CoverageFailure

record kernel_observation =
  ko_termination :: native_termination
  ko_stdout :: bytes
  ko_stderr :: bytes
  ko_duration_ms :: u64
  ko_peak_memory_bytes :: u64
  ko_stdout_limit_exceeded :: bool
  ko_stderr_limit_exceeded :: bool
  ko_process_reaped :: bool

section \<open>Configuration\<close>

type_synonym environment = "(string \<times> string) list" \<comment> \<open>a \<^verbatim>\<open>BTreeMap\<close>: in key order\<close>

definition linux_backend_id :: string where "linux_backend_id = ''tokensaver.linux-native''"
definition linux_backend_version :: string where "linux_backend_version = ''1.0.0''"

definition linux_policy :: bytes where
  "linux_policy = ''tokensaver-linux-confinement-policy-v1'' @ [CHR 0x00]
     @ ''user+mount+network+pid-namespaces'' @ [CHR 0x00] @ ''private-root'' @ [CHR 0x00]
     @ ''landlock-deny-default'' @ [CHR 0x00] @ ''seccomp-filter'' @ [CHR 0x00]
     @ ''cgroup-v2-memory+pids'' @ [CHR 0x00] @ ''pidfd-kill+reap'' @ [CHR 0x00]
     @ ''bounded-stdio'' @ [CHR 0x00] @ ''minimal-environment''"

definition linux_env_allowlist :: "string list" where
  "linux_env_allowlist = [''ASAN_OPTIONS'', ''GCOV_PREFIX'', ''GCOV_PREFIX_STRIP'', ''HOME'',
     ''LLVM_PROFILE_FILE'', ''LSAN_OPTIONS'', ''MSAN_OPTIONS'', ''PATH'', ''TEMP'', ''TMP'',
     ''TMPDIR'', ''TSAN_OPTIONS'', ''UBSAN_OPTIONS'']"

record linux_config =
  lc_executable :: string
  lc_sandbox_root :: string
  lc_writable_directory :: string
  lc_cgroup_parent :: string
  lc_environment :: environment
  lc_engine :: fuzz_engine
  lc_policy_digest :: string

definition linux_canonical :: "'w host_os \<Rightarrow> string \<Rightarrow> bool \<Rightarrow> (driver_error, 'w, string) eff" where
  "linux_canonical os path is_file =
     bindW (callE InvalidConfiguration (ho_canonicalize os path)) (\<lambda>path.
     bindW (callE InvalidConfiguration (ho_kind os path)) (\<lambda>kind.
     bindW (ensure (ho_absolute os path \<and> (kind = RegularFile) = is_file) InvalidConfiguration) (\<lambda>_.
       returnW path)))"

definition driver_token :: "string \<Rightarrow> bool" where
  "driver_token value \<longleftrightarrow> value \<noteq> [] \<and> length value \<le> 128
     \<and> list_all (\<lambda>c. is_alnum c \<or> c \<in> {CHR ''.'', CHR ''_'', CHR '':'', CHR ''/'', CHR ''-''}) value"

definition version_part :: "string \<Rightarrow> bool" where
  "version_part p \<longleftrightarrow> p \<noteq> [] \<and> list_all is_digit p \<and> (p = ''0'' \<or> \<not> starts_with p ''0'')
     \<and> (case parse_digits 0 p of None \<Rightarrow> False | Some n \<Rightarrow> n < 2 ^ 64)"

definition driver_version :: "string \<Rightarrow> bool" where
  "driver_version value \<longleftrightarrow>
    (let parts = split_on CHR ''.'' value in length parts = 3 \<and> list_all version_part parts)"

definition supported_sanitizer :: "string \<Rightarrow> bool" where
  "supported_sanitizer value \<longleftrightarrow>
     value \<in> {''address'', ''leak'', ''memory'', ''thread'', ''undefined''}"

definition linux_validate_engine :: "fuzz_engine \<Rightarrow> driver_error + unit" where
  "linux_validate_engine e =
    (if \<not> driver_token (fe_id e) \<or> \<not> driver_version (fe_version e)
        \<or> fe_active_sanitizers e = []
        \<or> list_ex (\<lambda>v. \<not> supported_sanitizer v) (fe_active_sanitizers e)
        \<or> \<not> ascending (fe_active_sanitizers e)
     then Inl InvalidConfiguration else Inr ())"

text \<open>The entries that may pass, in order; the loop stops at the first that may not.\<close>

fun linux_entries :: "environment \<Rightarrow> environment \<Rightarrow> driver_error + environment" where
  "linux_entries [] result = Inr result"
| "linux_entries ((name, value) # rest) result =
    (if name \<notin> set linux_env_allowlist \<or> value = [] \<or> CHR ''='' \<in> set name \<or> CHR 0x00 \<in> set name
        \<or> CHR 0x00 \<in> set value
     then Inl InvalidConfiguration else linux_entries rest (result @ [(name, value)]))"

definition environment_bytes :: "environment \<Rightarrow> nat" where
  "environment_bytes env = (\<Sum>(a, b)\<leftarrow>env. length a + length b + 2)"

definition linux_validate_environment :: "environment \<Rightarrow> driver_error + environment" where
  "linux_validate_environment env =
     bindR (linux_entries env []) (\<lambda>result.
     let result = sort result
     in if length result > length linux_env_allowlist \<or> environment_bytes result > 32768
        then Inl InvalidConfiguration else Inr result)"

definition linux_policy_preimage ::
  "string \<Rightarrow> string \<Rightarrow> string \<Rightarrow> string \<Rightarrow> environment \<Rightarrow> fuzz_engine \<Rightarrow> bytes" where
  "linux_policy_preimage executable base writable cgroup env engine =
     concat (map field
       ([linux_policy, executable, base, writable, cgroup, fe_id engine, fe_version engine]
        @ concat (map (\<lambda>(name, value). [name, value]) env) @ fe_active_sanitizers engine))"

definition make_linux_policy_digest ::
  "deps \<Rightarrow> string \<Rightarrow> string \<Rightarrow> string \<Rightarrow> string \<Rightarrow> environment \<Rightarrow> fuzz_engine \<Rightarrow> string" where
  "make_linux_policy_digest d executable base writable cgroup env engine =
     sha256_digest d (linux_policy_preimage executable base writable cgroup env engine)"

definition linux_config_new ::
  "deps \<Rightarrow> 'w host_os \<Rightarrow> string \<Rightarrow> string \<Rightarrow> string \<Rightarrow> string \<Rightarrow> environment \<Rightarrow> fuzz_engine
     \<Rightarrow> (driver_error, 'w, linux_config) eff" where
  "linux_config_new d os executable base writable cgroup env engine =
     bindW (linux_canonical os executable True) (\<lambda>executable.
     bindW (linux_canonical os base False) (\<lambda>base.
     bindW (linux_canonical os writable False) (\<lambda>writable.
     bindW (linux_canonical os cgroup False) (\<lambda>cgroup.
     bindW (ensure (\<not> (base = writable \<or> ho_within os executable writable)) InvalidConfiguration) (\<lambda>_.
     bindW (liftW (linux_validate_engine engine)) (\<lambda>_.
     bindW (liftW (linux_validate_environment env)) (\<lambda>env.
       returnW \<lparr>lc_executable = executable, lc_sandbox_root = base, lc_writable_directory = writable,
         lc_cgroup_parent = cgroup, lc_environment = env, lc_engine = engine,
         lc_policy_digest = make_linux_policy_digest d executable base writable cgroup env engine\<rparr>)))))))"

section \<open>The driver\<close>

record linux_execution =
  lx_attempt_id :: string
  lx_executable :: string
  lx_sandbox_root :: string
  lx_writable_directory :: string
  lx_cgroup_parent :: string
  lx_environment :: environment
  lx_arguments :: "string list"
  lx_input :: bytes
  lx_memory_bytes :: u64
  lx_stdout_bytes :: nat
  lx_stderr_bytes :: nat
  lx_deadline_ms :: u64

record 'w linux_kernel =
  lk_preflight :: "linux_config \<Rightarrow> 'w \<Rightarrow> unit option \<times> 'w"
  lk_execute :: "linux_execution \<Rightarrow> 'w \<Rightarrow> kernel_observation option \<times> 'w"
  lk_coverage :: "'w \<Rightarrow> u32 option \<times> 'w" \<comment> \<open>the coverage reader\<close>

definition linux_preflight :: "'w linux_kernel \<Rightarrow> linux_config \<Rightarrow> (driver_error, 'w, unit) eff" where
  "linux_preflight k c = callE PreflightFailure (lk_preflight k c)"

definition linux_profile :: "linux_config \<Rightarrow> native_profile" where
  "linux_profile c = \<lparr>np_schema_version = 1, np_backend_id = linux_backend_id,
     np_backend_version = linux_backend_version, np_platform = Linux,
     np_policy_digest = lc_policy_digest c, np_controls = required_controls Linux,
     np_engine = lc_engine c\<rparr>"

definition linux_read_profile ::
  "'w linux_kernel \<Rightarrow> linux_config \<Rightarrow> (driver_error, 'w, native_profile) eff" where
  "linux_read_profile k c = bindW (linux_preflight k c) (\<lambda>_. returnW (linux_profile c))"

definition lower_hex :: "string \<Rightarrow> bool" where
  "lower_hex suffix \<longleftrightarrow> list_all (\<lambda>c. is_hexdigit c \<and> \<not> is_upper c) suffix"

definition linux_attempt_id :: "string \<Rightarrow> bool" where
  "linux_attempt_id value =
    (if length value = 70 \<and> starts_with value ''tsfa1_'' then lower_hex (drop 6 value)
     else if length value = 37 \<and> starts_with value ''tsa1_'' then lower_hex (drop 5 value)
     else False)"

text \<open>\<^verbatim>\<open>lower.windows(m.len()).any(|v| v == *m)\<close>\<close>

fun contains_bytes :: "bytes \<Rightarrow> bytes \<Rightarrow> bool" where
  "contains_bytes [] m \<longleftrightarrow> m = []"
| "contains_bytes (c # cs) m \<longleftrightarrow> starts_with (c # cs) m \<or> contains_bytes cs m"

definition linux_markers :: "string \<Rightarrow> bytes list" where
  "linux_markers value =
    (if value = ''address'' then [''addresssanitizer'', ''asan:'']
     else if value = ''leak'' then [''leaksanitizer'', ''lsan:'']
     else if value = ''memory'' then [''memorysanitizer'', ''msan:'']
     else if value = ''thread'' then [''threadsanitizer'', ''tsan:'']
     else if value = ''undefined'' then [''undefinedbehaviorsanitizer'', ''ubsan:'', ''runtime error:'']
     else [])"

definition linux_sanitizer_failure :: "bytes \<Rightarrow> string list \<Rightarrow> bool" where
  "linux_sanitizer_failure stderr active =
    (let lower = map to_lower stderr
     in list_ex (\<lambda>value. list_ex (contains_bytes lower) (linux_markers value)) active)"

definition linux_verify_artifact ::
  "deps \<Rightarrow> 'w host_os \<Rightarrow> string \<Rightarrow> string \<Rightarrow> (driver_error, 'w, unit) eff" where
  "linux_verify_artifact d os path expected =
     bindW (callE ArtifactFailure (ho_read os path)) (\<lambda>data.
       ensure (sha256_digest d data = expected) ArtifactDrift)"

definition linux_execution_ok :: "string \<Rightarrow> execution \<Rightarrow> bool" where
  "linux_execution_ok attempt q \<longleftrightarrow>
     \<not> (attempt = [] \<or> \<not> linux_attempt_id attempt
        \<or> \<not> starts_with (sj_platform (xq_subject q)) ''linux-''
        \<or> xq_deadline_ms q = 0 \<or> xq_deadline_ms q > xq_remaining_ms q
        \<or> fl_memory_bytes (xq_limits q) = 0 \<or> fl_stdout_bytes (xq_limits q) = 0
        \<or> fl_stderr_bytes (xq_limits q) = 0)"

text \<open>What the driver refuses to pass on, and what it passes on.\<close>

definition kernel_observation_ok :: "kernel_observation \<Rightarrow> nat \<Rightarrow> nat \<Rightarrow> bool" where
  "kernel_observation_ok ob stdout_limit stderr_limit \<longleftrightarrow>
     \<not> (\<not> ko_process_reaped ob
        \<or> length (ko_stdout ob) > stdout_limit \<or> length (ko_stderr ob) > stderr_limit
        \<or> ko_stdout_limit_exceeded ob \<and> length (ko_stdout ob) \<noteq> stdout_limit
        \<or> ko_stderr_limit_exceeded ob \<and> length (ko_stderr ob) \<noteq> stderr_limit)"

definition observation_of ::
  "string \<Rightarrow> native_profile \<Rightarrow> bool \<Rightarrow> kernel_observation \<Rightarrow> native_observation" where
  "observation_of attempt p failing ob = \<lparr>ob_attempt_id = attempt,
     ob_policy_digest = np_policy_digest p, ob_applied_controls = np_controls p,
     ob_active_sanitizers = fe_active_sanitizers (np_engine p), ob_termination = ko_termination ob,
     ob_stdout = ko_stdout ob, ob_stderr = ko_stderr ob, ob_duration_ms = ko_duration_ms ob,
     ob_peak_memory_bytes = ko_peak_memory_bytes ob,
     ob_stdout_limit_exceeded = ko_stdout_limit_exceeded ob, ob_stdout_violation = False,
     ob_stderr_limit_exceeded = ko_stderr_limit_exceeded ob, ob_sanitizer_failure = failing,
     ob_process_reaped = True\<rparr>"

text \<open>\<^verbatim>\<open>usize::try_from\<close> of a \<^verbatim>\<open>u64\<close> succeeds where both have 64 bits.\<close>

definition linux_execute ::
  "deps \<Rightarrow> 'w host_os \<Rightarrow> 'w linux_kernel \<Rightarrow> linux_config \<Rightarrow> string \<times> execution
     \<Rightarrow> (driver_error, 'w, native_observation) eff" where
  "linux_execute d os k c = (\<lambda>(attempt, q).
     bindW (linux_preflight k c) (\<lambda>_.
     bindW (ensure (linux_execution_ok attempt q) InvalidDriverExecution) (\<lambda>_.
     bindW (linux_verify_artifact d os (lc_executable c) (sj_artifact_digest (xq_subject q))) (\<lambda>_.
     let stdout_limit = unat (fl_stdout_bytes (xq_limits q));
         stderr_limit = unat (fl_stderr_bytes (xq_limits q))
     in bindW (callE LaunchFailure (lk_execute k
           \<lparr>lx_attempt_id = attempt, lx_executable = lc_executable c,
            lx_sandbox_root = lc_sandbox_root c, lx_writable_directory = lc_writable_directory c,
            lx_cgroup_parent = lc_cgroup_parent c, lx_environment = lc_environment c,
            lx_arguments = [], lx_input = xq_input q,
            lx_memory_bytes = fl_memory_bytes (xq_limits q),
            lx_stdout_bytes = stdout_limit, lx_stderr_bytes = stderr_limit,
            lx_deadline_ms = xq_deadline_ms q\<rparr>)) (\<lambda>ob.
        bindW (ensure (kernel_observation_ok ob stdout_limit stderr_limit) LaunchFailure) (\<lambda>_.
          returnW (observation_of attempt (linux_profile c)
            (linux_sanitizer_failure (ko_stderr ob) (fe_active_sanitizers (lc_engine c))) ob)))))))"

definition linux_coverage :: "'w linux_kernel \<Rightarrow> linux_config \<Rightarrow> (driver_error, 'w, u32) eff" where
  "linux_coverage k c =
     bindW (linux_preflight k c) (\<lambda>_.
     bindW (callE CoverageFailure (lk_coverage k)) (\<lambda>value.
     bindW (ensure (value \<le> 10000) CoverageFailure) (\<lambda>_. returnW value)))"

text \<open>The driver as the adapter sees it: any error is a failed call.\<close>

definition linux_driver ::
  "deps \<Rightarrow> 'w host_os \<Rightarrow> 'w linux_kernel \<Rightarrow> linux_config \<Rightarrow> 'w native_driver" where
  "linux_driver d os k c =
     \<lparr>nd_profile = without_error (linux_read_profile k c),
      nd_execute = (\<lambda>rq. without_error (linux_execute d os k c rq)),
      nd_coverage = without_error (linux_coverage k c)\<rparr>"

end
