(* ===== verification/Macos_Driver.thy ===== *)
theory Macos_Driver
  imports Linux_Driver
begin

text \<open>
  tools/tsp-certification-confinement-macos/src/macos\_driver.rs: the configuration of the macOS
  confinement driver with the sandbox profile it writes, the digest of its policy, and the driver
  over a kernel.
\<close>

section \<open>Configuration\<close>

definition macos_backend_id :: string where "macos_backend_id = ''tokensaver.macos-native''"
definition macos_backend_version :: string where "macos_backend_version = ''1.0.0''"

definition macos_policy :: bytes where
  "macos_policy = ''tokensaver-macos-confinement-policy-v1'' @ [CHR 0x00]
     @ ''apple-system-base+file-read-reset+executable-directory-denial'' @ [CHR 0x00]
     @ ''trusted-launcher'' @ [CHR 0x00] @ ''process-group'' @ [CHR 0x00]
     @ ''proc-rusage-memory-watchdog+rlimit-nproc+files'' @ [CHR 0x00]
     @ ''kill+wait4+group-proof'' @ [CHR 0x00] @ ''bounded-stdio'' @ [CHR 0x00]
     @ ''minimal-environment''"

definition macos_env_allowlist :: "string list" where
  "macos_env_allowlist = [''ASAN_OPTIONS'', ''GCOV_PREFIX'', ''GCOV_PREFIX_STRIP'', ''HOME'', ''LANG'',
     ''LC_ALL'', ''LLVM_PROFILE_FILE'', ''LSAN_OPTIONS'', ''MSAN_OPTIONS'', ''PATH'', ''TEMP'', ''TMP'',
     ''TMPDIR'', ''TOKENSAVER_PLUGIN'', ''TSAN_OPTIONS'', ''UBSAN_OPTIONS'']"

record macos_config =
  mc_executable :: string
  mc_launcher :: string
  mc_writable_directory :: string
  mc_environment :: environment
  mc_engine :: fuzz_engine
  mc_executable_digest :: string
  mc_launcher_digest :: string
  mc_sandbox_profile :: string
  mc_policy_digest :: string

definition macos_canonical :: "'w host_os \<Rightarrow> string \<Rightarrow> bool \<Rightarrow> (driver_error, 'w, string) eff" where
  "macos_canonical os path is_file =
     bindW (callE InvalidConfiguration (ho_canonicalize os path)) (\<lambda>path.
     bindW (callE InvalidConfiguration (ho_kind os path)) (\<lambda>kind.
     bindW (ensure (ho_absolute os path \<and> (kind = RegularFile) = is_file) InvalidConfiguration) (\<lambda>_.
       returnW path)))"

definition macos_validate_engine :: "fuzz_engine \<Rightarrow> driver_error + unit" where
  "macos_validate_engine e =
    (if \<not> driver_token (fe_id e) \<or> \<not> driver_version (fe_version e)
        \<or> fe_active_sanitizers e = []
        \<or> list_ex (\<lambda>v. \<not> supported_sanitizer v) (fe_active_sanitizers e)
        \<or> \<not> ascending (fe_active_sanitizers e)
     then Inl InvalidConfiguration else Inr ())"

fun macos_entries :: "environment \<Rightarrow> environment \<Rightarrow> driver_error + environment" where
  "macos_entries [] result = Inr result"
| "macos_entries ((name, value) # rest) result =
    (if name \<notin> set macos_env_allowlist \<or> starts_with name ''DYLD_''
        \<or> list_ex (\<lambda>c. c \<in> {CHR ''='', CHR 0x00}) name \<or> value = [] \<or> CHR 0x00 \<in> set value
     then Inl InvalidConfiguration else macos_entries rest (result @ [(name, value)]))"

definition macos_validate_environment :: "environment \<Rightarrow> driver_error + environment" where
  "macos_validate_environment env =
     bindR (macos_entries env []) (\<lambda>result.
     let result = sort result
     in if length result > length macos_env_allowlist \<or> environment_bytes result > 32768
        then Inl InvalidConfiguration else Inr result)"

section \<open>The sandbox profile\<close>

definition replace_char :: "char \<Rightarrow> string \<Rightarrow> string \<Rightarrow> string" where
  "replace_char c by s = concat (map (\<lambda>x. if x = c then by else [x]) s)"

definition sandbox_literal :: "string \<Rightarrow> driver_error + string" where
  "sandbox_literal path =
    (if \<not> is_utf8 path then Inl InvalidConfiguration
     else if list_ex (\<lambda>byte. (of_char byte :: nat) < 32 \<or> byte = CHR 0x7F) path
       then Inl InvalidConfiguration
     else Inr (replace_char CHR 0x22 [CHR 0x5C, CHR 0x22]
                (replace_char CHR 0x5C [CHR 0x5C, CHR 0x5C] path)))"

definition quoted :: "string \<Rightarrow> string" where
  "quoted literal = [CHR 0x22] @ literal @ [CHR 0x22]"

definition clause :: "string \<Rightarrow> string" where
  "clause line = line @ [CHR 0x0A]"

definition profile_text :: "string \<Rightarrow> string \<Rightarrow> string \<Rightarrow> string \<Rightarrow> string \<Rightarrow> string" where
  "profile_text launcher executable launcher_parent executable_parent writable =
     clause ''(version 1)''
     @ clause ''(deny default)''
     @ clause (''(import '' @ quoted ''system.sb'' @ '')'')
     @ clause (''(allow process-exec (literal '' @ quoted launcher @ '') (literal '' @ quoted executable
          @ ''))'')
     @ clause ''(deny process-fork)''
     @ clause ''(deny network*)''
     @ clause ''(deny file-read*)''
     @ clause (''(deny file-read* (subpath '' @ quoted launcher_parent @ '') (subpath ''
          @ quoted executable_parent @ ''))'')
     @ clause ''(allow file-read-metadata)''
     @ clause (''(allow file-read* (literal '' @ quoted launcher @ '') (literal '' @ quoted executable
          @ '') (subpath '' @ quoted ''/System'' @ '') (subpath '' @ quoted ''/usr/lib''
          @ '') (subpath '' @ quoted ''/Library/Apple/System'' @ ''))'')
     @ clause (''(allow file-write* (subpath '' @ quoted writable @ ''))'')
     @ clause ''(allow sysctl-read)''
     @ clause (''(allow mach-lookup (global-name ''
          @ quoted ''com.apple.system.opendirectoryd.libinfo'' @ ''))'')"

definition parent_literal :: "'w host_os \<Rightarrow> string \<Rightarrow> driver_error + string" where
  "parent_literal os path =
    (case ho_parent os path of None \<Rightarrow> Inl InvalidConfiguration | Some p \<Rightarrow> sandbox_literal p)"

definition make_sandbox_profile ::
  "'w host_os \<Rightarrow> string \<Rightarrow> string \<Rightarrow> string \<Rightarrow> driver_error + string" where
  "make_sandbox_profile os executable launcher writable =
     bindR (parent_literal os executable) (\<lambda>executable_parent.
     bindR (parent_literal os launcher) (\<lambda>launcher_parent.
     bindR (sandbox_literal executable) (\<lambda>executable.
     bindR (sandbox_literal launcher) (\<lambda>launcher.
     bindR (sandbox_literal writable) (\<lambda>writable.
     let profile = profile_text launcher executable launcher_parent executable_parent writable
     in if length profile > 65536 \<or> CHR 0x00 \<in> set profile then Inl InvalidConfiguration
        else Inr profile)))))"

section \<open>Digests\<close>

definition macos_policy_preimage ::
  "string \<Rightarrow> string \<Rightarrow> string \<Rightarrow> environment \<Rightarrow> fuzz_engine \<Rightarrow> string \<Rightarrow> string \<Rightarrow> string \<Rightarrow> bytes" where
  "macos_policy_preimage executable launcher writable env engine executable_dg launcher_dg profile =
     concat (map field
       ([macos_policy, executable, launcher, writable, fe_id engine, fe_version engine, executable_dg,
         launcher_dg, profile]
        @ concat (map (\<lambda>(name, value). [name, value]) env) @ fe_active_sanitizers engine))"

definition make_macos_policy_digest ::
  "deps \<Rightarrow> string \<Rightarrow> string \<Rightarrow> string \<Rightarrow> environment \<Rightarrow> fuzz_engine \<Rightarrow> string \<Rightarrow> string \<Rightarrow> string \<Rightarrow> string"
where
  "make_macos_policy_digest d executable launcher writable env engine executable_dg launcher_dg profile =
     sha256_digest d
       (macos_policy_preimage executable launcher writable env engine executable_dg launcher_dg profile)"

definition macos_digest_file ::
  "deps \<Rightarrow> 'w host_os \<Rightarrow> string \<Rightarrow> (driver_error, 'w, string) eff" where
  "macos_digest_file d os path =
     bindW (callE ArtifactFailure (ho_read os path)) (\<lambda>data. returnW (sha256_digest d data))"

definition macos_verify_artifact ::
  "deps \<Rightarrow> 'w host_os \<Rightarrow> string \<Rightarrow> string \<Rightarrow> (driver_error, 'w, unit) eff" where
  "macos_verify_artifact d os path expected =
     bindW (macos_digest_file d os path) (\<lambda>actual. ensure (actual = expected) ArtifactDrift)"

definition macos_config_new ::
  "deps \<Rightarrow> 'w host_os \<Rightarrow> string \<Rightarrow> string \<Rightarrow> string \<Rightarrow> environment \<Rightarrow> fuzz_engine
     \<Rightarrow> (driver_error, 'w, macos_config) eff" where
  "macos_config_new d os executable launcher writable env engine =
     bindW (macos_canonical os executable True) (\<lambda>executable.
     bindW (macos_canonical os launcher True) (\<lambda>launcher.
     bindW (macos_canonical os writable False) (\<lambda>writable.
     bindW (ensure (\<not> (executable = launcher \<or> ho_within os executable writable
         \<or> ho_within os launcher writable)) InvalidConfiguration) (\<lambda>_.
     bindW (liftW (macos_validate_engine engine)) (\<lambda>_.
     bindW (liftW (macos_validate_environment env)) (\<lambda>env.
     bindW (macos_digest_file d os executable) (\<lambda>executable_dg.
     bindW (macos_digest_file d os launcher) (\<lambda>launcher_dg.
     bindW (liftW (make_sandbox_profile os executable launcher writable)) (\<lambda>profile.
       returnW \<lparr>mc_executable = executable, mc_launcher = launcher, mc_writable_directory = writable,
         mc_environment = env, mc_engine = engine, mc_executable_digest = executable_dg,
         mc_launcher_digest = launcher_dg, mc_sandbox_profile = profile,
         mc_policy_digest = make_macos_policy_digest d executable launcher writable env engine
           executable_dg launcher_dg profile\<rparr>)))))))))"

section \<open>The driver\<close>

record macos_execution =
  mx_attempt_id :: string
  mx_executable :: string
  mx_launcher :: string
  mx_writable_directory :: string
  mx_sandbox_profile :: string
  mx_environment :: environment
  mx_arguments :: "string list"
  mx_input :: bytes
  mx_memory_bytes :: u64
  mx_stdout_bytes :: nat
  mx_stderr_bytes :: nat
  mx_deadline_ms :: u64

record 'w macos_kernel =
  mk_preflight :: "macos_config \<Rightarrow> 'w \<Rightarrow> unit option \<times> 'w"
  mk_execute :: "macos_execution \<Rightarrow> 'w \<Rightarrow> kernel_observation option \<times> 'w"
  mk_coverage :: "'w \<Rightarrow> u32 option \<times> 'w"

definition macos_preflight ::
  "deps \<Rightarrow> 'w host_os \<Rightarrow> 'w macos_kernel \<Rightarrow> macos_config \<Rightarrow> (driver_error, 'w, unit) eff" where
  "macos_preflight d os k c =
     bindW (macos_verify_artifact d os (mc_executable c) (mc_executable_digest c)) (\<lambda>_.
     bindW (macos_verify_artifact d os (mc_launcher c) (mc_launcher_digest c)) (\<lambda>_.
       callE PreflightFailure (mk_preflight k c)))"

definition macos_profile :: "macos_config \<Rightarrow> native_profile" where
  "macos_profile c = \<lparr>np_schema_version = 1, np_backend_id = macos_backend_id,
     np_backend_version = macos_backend_version, np_platform = Macos,
     np_policy_digest = mc_policy_digest c, np_controls = required_controls Macos,
     np_engine = mc_engine c\<rparr>"

definition macos_read_profile ::
  "deps \<Rightarrow> 'w host_os \<Rightarrow> 'w macos_kernel \<Rightarrow> macos_config \<Rightarrow> (driver_error, 'w, native_profile) eff" where
  "macos_read_profile d os k c = bindW (macos_preflight d os k c) (\<lambda>_. returnW (macos_profile c))"

definition macos_attempt_id :: "string \<Rightarrow> bool" where
  "macos_attempt_id value =
    (if length value = 70 \<and> starts_with value ''tsfa1_'' then lower_hex (drop 6 value)
     else if length value = 37 \<and> starts_with value ''tsa1_'' then lower_hex (drop 5 value)
     else False)"

text \<open>
  \<^verbatim>\<open>String::from_utf8_lossy\<close>: the longest prefix of a character that is not continued becomes one
  replacement character.
\<close>

definition replacement :: bytes where "replacement = [CHR 0xEF, CHR 0xBF, CHR 0xBD]"

fun from_utf8_lossy :: "bytes \<Rightarrow> bytes" where
  "from_utf8_lossy [] = []"
| "from_utf8_lossy [a] = (if (of_char a :: nat) < 128 then [a] else replacement)"
| "from_utf8_lossy (a # b # r) =
    (if (of_char a :: nat) < 128 then a # from_utf8_lossy (b # r)
     else if lead2 a \<and> cont b then a # b # from_utf8_lossy r
     else if lead3 a b then
       (case r of
          [] \<Rightarrow> replacement
        | c # r' \<Rightarrow> if cont c then a # b # c # from_utf8_lossy r'
                   else replacement @ from_utf8_lossy (c # r'))
     else if lead4 a b then
       (case r of
          [] \<Rightarrow> replacement
        | [c] \<Rightarrow> if cont c then replacement else replacement @ from_utf8_lossy [c]
        | c # e # r' \<Rightarrow>
            if \<not> cont c then replacement @ from_utf8_lossy (c # e # r')
            else if cont e then a # b # c # e # from_utf8_lossy r'
            else replacement @ from_utf8_lossy (e # r'))
     else replacement @ from_utf8_lossy (b # r))"

definition macos_sanitizer_failure :: "bytes \<Rightarrow> string list \<Rightarrow> bool" where
  "macos_sanitizer_failure stderr active =
    (let text = map to_lower (from_utf8_lossy stderr)
     in list_ex (\<lambda>sanitizer.
          if sanitizer = ''address'' then contains_bytes text ''addresssanitizer''
          else if sanitizer = ''leak'' then contains_bytes text ''leaksanitizer''
          else if sanitizer = ''memory'' then contains_bytes text ''memorysanitizer''
          else if sanitizer = ''thread'' then contains_bytes text ''threadsanitizer''
          else if sanitizer = ''undefined'' then
            contains_bytes text ''undefinedbehaviorsanitizer'' \<or> contains_bytes text ''runtime error:''
          else True) active)"

definition macos_execution_ok :: "string \<Rightarrow> execution \<Rightarrow> bool" where
  "macos_execution_ok attempt q \<longleftrightarrow>
     \<not> (\<not> macos_attempt_id attempt
        \<or> \<not> starts_with (sj_platform (xq_subject q)) ''darwin-''
        \<or> xq_deadline_ms q = 0 \<or> xq_deadline_ms q > xq_remaining_ms q
        \<or> fl_memory_bytes (xq_limits q) = 0 \<or> fl_stdout_bytes (xq_limits q) = 0
        \<or> fl_stderr_bytes (xq_limits q) = 0)"

definition macos_execute ::
  "deps \<Rightarrow> 'w host_os \<Rightarrow> 'w macos_kernel \<Rightarrow> macos_config \<Rightarrow> string \<times> execution
     \<Rightarrow> (driver_error, 'w, native_observation) eff" where
  "macos_execute d os k c = (\<lambda>(attempt, q).
     bindW (macos_preflight d os k c) (\<lambda>_.
     bindW (ensure (macos_execution_ok attempt q) InvalidDriverExecution) (\<lambda>_.
     bindW (macos_verify_artifact d os (mc_executable c) (sj_artifact_digest (xq_subject q))) (\<lambda>_.
     let stdout_limit = unat (fl_stdout_bytes (xq_limits q));
         stderr_limit = unat (fl_stderr_bytes (xq_limits q))
     in bindW (callE LaunchFailure (mk_execute k
           \<lparr>mx_attempt_id = attempt, mx_executable = mc_executable c, mx_launcher = mc_launcher c,
            mx_writable_directory = mc_writable_directory c,
            mx_sandbox_profile = mc_sandbox_profile c, mx_environment = mc_environment c,
            mx_arguments = [], mx_input = xq_input q,
            mx_memory_bytes = fl_memory_bytes (xq_limits q),
            mx_stdout_bytes = stdout_limit, mx_stderr_bytes = stderr_limit,
            mx_deadline_ms = xq_deadline_ms q\<rparr>)) (\<lambda>ob.
        bindW (ensure (kernel_observation_ok ob stdout_limit stderr_limit) LaunchFailure) (\<lambda>_.
          returnW (observation_of attempt (macos_profile c)
            (macos_sanitizer_failure (ko_stderr ob) (fe_active_sanitizers (mc_engine c))) ob)))))))"

definition macos_coverage ::
  "deps \<Rightarrow> 'w host_os \<Rightarrow> 'w macos_kernel \<Rightarrow> macos_config \<Rightarrow> (driver_error, 'w, u32) eff" where
  "macos_coverage d os k c =
     bindW (macos_preflight d os k c) (\<lambda>_.
     bindW (callE CoverageFailure (mk_coverage k)) (\<lambda>value.
     bindW (ensure (value \<le> 10000) CoverageFailure) (\<lambda>_. returnW value)))"

definition macos_driver ::
  "deps \<Rightarrow> 'w host_os \<Rightarrow> 'w macos_kernel \<Rightarrow> macos_config \<Rightarrow> 'w native_driver" where
  "macos_driver d os k c =
     \<lparr>nd_profile = without_error (macos_read_profile d os k c),
      nd_execute = (\<lambda>rq. without_error (macos_execute d os k c rq)),
      nd_coverage = without_error (macos_coverage d os k c)\<rparr>"

end
