(* ===== verification/Windows_Driver.thy ===== *)
theory Windows_Driver
  imports Linux_Driver Canonical Zip
begin

text \<open>
  tools/tsp-certification-confinement-windows/src/windows\_driver.rs: the configuration of the Windows
  confinement driver (an AppContainer in a job object), the digest of its policy, and the driver over
  a kernel. Paths are strings; their UTF-16 units are the field \<open>ho_wide\<close> of the host.
\<close>

section \<open>Configuration\<close>

definition windows_profile_schema_version :: u32 where "windows_profile_schema_version = 1"
definition windows_backend_id :: string where
  "windows_backend_id = ''tokensaver.windows-appcontainer-job''"
definition windows_backend_version :: string where "windows_backend_version = ''1.0.0''"
definition max_environment_units :: nat where "max_environment_units = 32767"
definition max_container_name_units :: nat where "max_container_name_units = 256"
definition fixed_environment_units :: nat where "fixed_environment_units = 20"

definition policy_line :: "string \<Rightarrow> string" where
  "policy_line line = line @ [CHR 0x0A]"

definition windows_policy :: bytes where
  "windows_policy =
     policy_line ''tokensaver-windows-confinement-policy-v1''
     @ policy_line ''create=suspended,no-window,unicode-environment,extended-startup-info''
     @ policy_line ''appcontainer=derived-profile,zero-capabilities,no-loopback-exemption''
     @ policy_line ''handles=explicit-stdin-stdout-stderr-only''
     @ policy_line (''job=created-before-process,assigned-before-resume,active-process:1,''
         @ ''process-memory-hard-limit,die-on-unhandled-exception,kill-on-close,no-breakaway'')
     @ policy_line ''ui=stable-cross-version-restrictions:0xff''
     @ policy_line ''io=exact-stdin,bounded-stdout,bounded-stderr''
     @ policy_line ''deadline=terminate-complete-job,bounded-reap,active-processes-zero''
     @ policy_line ''memory-evidence=job-completion-port,limit-violation-query''
     @ policy_line (''environment=systemroot,systemdrive,sandbox-localappdata,temp,sanitizer,''
         @ ''coverage-allowlist,tokensaver-plugin-marker'')"

definition windows_env_names :: "string list" where
  "windows_env_names = [''ASAN_OPTIONS'', ''GCOV_PREFIX'', ''GCOV_PREFIX_STRIP'', ''LLVM_PROFILE_FILE'',
     ''LOCALAPPDATA'', ''LSAN_OPTIONS'', ''MSAN_OPTIONS'', ''SYSTEMDRIVE'', ''SYSTEMROOT'', ''TEMP'',
     ''TMP'', ''TSAN_OPTIONS'', ''UBSAN_OPTIONS'']"

record windows_config =
  wc_executable_path :: string
  wc_working_directory :: string
  wc_app_container_name :: string
  wc_environment :: environment
  wc_engine :: fuzz_engine
  wc_policy_digest :: string

definition windows_canonical_file :: "'w host_os \<Rightarrow> string \<Rightarrow> (driver_error, 'w, string) eff" where
  "windows_canonical_file os path =
     bindW (callE InvalidConfiguration (ho_canonicalize os path)) (\<lambda>canonical.
     bindW (ensure (ho_absolute os canonical) InvalidConfiguration) (\<lambda>_.
     bindW (readW (ho_kind os canonical)) (\<lambda>kind.
     bindW (ensure (kind = Some RegularFile) InvalidConfiguration) (\<lambda>_. returnW canonical))))"

definition windows_canonical_directory ::
  "'w host_os \<Rightarrow> string \<Rightarrow> (driver_error, 'w, string) eff" where
  "windows_canonical_directory os path =
     bindW (callE InvalidConfiguration (ho_canonicalize os path)) (\<lambda>canonical.
     bindW (ensure (ho_absolute os canonical) InvalidConfiguration) (\<lambda>_.
     bindW (readW (ho_kind os canonical)) (\<lambda>kind.
     bindW (ensure (kind = Some Directory) InvalidConfiguration) (\<lambda>_. returnW canonical))))"

definition validate_app_container_name :: "string \<Rightarrow> driver_error + unit" where
  "validate_app_container_name value =
    (let units = length (utf16 value)
     in if units = 0 \<or> units > max_container_name_units \<or> \<not> no_control value \<or> CHR 0x00 \<in> set value
        then Inl InvalidConfiguration else Inr ())"

text \<open>The version is read part by part: three parts and no fourth.\<close>

definition windows_version :: "string \<Rightarrow> bool" where
  "windows_version value =
    (case split_on CHR ''.'' value of
       [a, b, c] \<Rightarrow> version_part a \<and> version_part b \<and> version_part c
     | _ \<Rightarrow> False)"

definition windows_validate_engine :: "fuzz_engine \<Rightarrow> driver_error + unit" where
  "windows_validate_engine e =
    (if \<not> driver_token (fe_id e) \<or> \<not> windows_version (fe_version e)
        \<or> fe_active_sanitizers e = []
        \<or> list_ex (\<lambda>v. \<not> supported_sanitizer v) (fe_active_sanitizers e)
        \<or> \<not> ascending (fe_active_sanitizers e)
     then Inl InvalidConfiguration else Inr ())"

definition to_upper :: "char \<Rightarrow> char" where
  "to_upper c = (if is_lower c then char_of (of_char c - 32 :: nat) else c)"

text \<open>The names in upper case, none twice.\<close>

fun windows_entries ::
  "environment \<Rightarrow> string set \<Rightarrow> environment \<Rightarrow> driver_error + environment" where
  "windows_entries [] seen canonical = Inr canonical"
| "windows_entries ((name, value) # rest) seen canonical =
    (let name = map to_upper name
     in if name \<notin> set windows_env_names \<or> name \<in> seen \<or> value = [] \<or> CHR 0x00 \<in> set value
           \<or> CHR ''='' \<in> set name
        then Inl InvalidConfiguration
        else windows_entries rest (insert name seen) (canonical @ [(name, value)]))"

definition sat_add :: "nat \<Rightarrow> nat \<Rightarrow> nat" where
  "sat_add a b = min u64_max (a + b)"

definition environment_utf16_units :: "environment \<Rightarrow> nat" where
  "environment_utf16_units env =
     foldl (\<lambda>n (name, value).
       sat_add (sat_add (sat_add (sat_add n (length (utf16 name))) 1) (length (utf16 value))) 1) 2 env"

definition canonical_environment :: "environment \<Rightarrow> driver_error + environment" where
  "canonical_environment env =
     bindR (windows_entries env {} []) (\<lambda>canonical.
     let canonical = sort_key fst canonical
     in if list_ex (\<lambda>required. \<not> binary_search (map fst canonical) required)
             [''LOCALAPPDATA'', ''SYSTEMDRIVE'', ''SYSTEMROOT'']
           \<or> sat_add (environment_utf16_units canonical) fixed_environment_units > max_environment_units
        then Inl InvalidConfiguration else Inr canonical)"

text \<open>The value of a name, found by binary search in the sorted environment.\<close>

definition environment_value :: "environment \<Rightarrow> string \<Rightarrow> string option" where
  "environment_value env name =
    (if binary_search (map fst env) name then map_of env name else None)"

text \<open>
  \<^verbatim>\<open>system_root.get(..3)\<close>: three bytes that end between characters. When its third byte is a
  separator, its first two end between characters too, so the slice that follows cannot panic.
\<close>

definition first_three :: "string \<Rightarrow> string" where
  "first_three s =
    (if 3 \<le> length s \<and> (length s = 3 \<or> \<not> cont (s ! 3)) then take 3 s else [])"

definition loader_drive_ok :: "string \<Rightarrow> string \<Rightarrow> bool" where
  "loader_drive_ok system_drive system_root \<longleftrightarrow>
    (let valid_drive = length system_drive = 2
           \<and> (is_lower (system_drive ! 0) \<or> is_upper (system_drive ! 0)) \<and> system_drive ! 1 = CHR '':'';
         root_prefix = first_three system_root
     in \<not> (\<not> valid_drive
           \<or> \<not> (3 \<le> length root_prefix \<and> root_prefix ! 2 \<in> {CHR 0x5C, CHR ''/''})
           \<or> \<not> eq_ignore_case (take 2 root_prefix) system_drive))"

definition validate_loader_environment ::
  "'w host_os \<Rightarrow> environment \<Rightarrow> string \<Rightarrow> (driver_error, 'w, unit) eff" where
  "validate_loader_environment os env working_directory =
     bindW (liftW (case environment_value env ''LOCALAPPDATA'' of
        None \<Rightarrow> Inl InvalidConfiguration | Some v \<Rightarrow> Inr v)) (\<lambda>local_app_data.
     bindW (windows_canonical_directory os local_app_data) (\<lambda>directory.
     bindW (ensure (directory = working_directory) InvalidConfiguration) (\<lambda>_.
     let system_drive = (case environment_value env ''SYSTEMDRIVE'' of None \<Rightarrow> [] | Some v \<Rightarrow> v);
         system_root = (case environment_value env ''SYSTEMROOT'' of None \<Rightarrow> [] | Some v \<Rightarrow> v)
     in ensure (loader_drive_ok system_drive system_root) InvalidConfiguration)))"

section \<open>The policy digest\<close>

definition wide_path_bytes :: "'w host_os \<Rightarrow> string \<Rightarrow> bytes" where
  "wide_path_bytes os path = concat (map (\<lambda>u. le 2 (unat u)) (ho_wide os path))"

definition windows_policy_preimage ::
  "'w host_os \<Rightarrow> string \<Rightarrow> string \<Rightarrow> string \<Rightarrow> environment \<Rightarrow> fuzz_engine \<Rightarrow> bytes" where
  "windows_policy_preimage os executable working_directory container env engine =
     concat (map field
       ([windows_policy, wide_path_bytes os executable, wide_path_bytes os working_directory, container]
        @ concat (map (\<lambda>(name, value). [name, value]) env)
        @ [fe_id engine, fe_version engine] @ fe_active_sanitizers engine))"

definition windows_policy_digest ::
  "deps \<Rightarrow> 'w host_os \<Rightarrow> string \<Rightarrow> string \<Rightarrow> string \<Rightarrow> environment \<Rightarrow> fuzz_engine \<Rightarrow> string" where
  "windows_policy_digest d os executable working_directory container env engine =
     sha256_digest d (windows_policy_preimage os executable working_directory container env engine)"

definition windows_config_new ::
  "deps \<Rightarrow> 'w host_os \<Rightarrow> string \<Rightarrow> string \<Rightarrow> string \<Rightarrow> environment \<Rightarrow> fuzz_engine
     \<Rightarrow> (driver_error, 'w, windows_config) eff" where
  "windows_config_new d os executable working_directory container env engine =
     bindW (windows_canonical_file os executable) (\<lambda>executable.
     bindW (windows_canonical_directory os working_directory) (\<lambda>working_directory.
     bindW (liftW (validate_app_container_name container)) (\<lambda>_.
     bindW (liftW (windows_validate_engine engine)) (\<lambda>_.
     bindW (liftW (canonical_environment env)) (\<lambda>env.
     bindW (validate_loader_environment os env working_directory) (\<lambda>_.
       returnW \<lparr>wc_executable_path = executable, wc_working_directory = working_directory,
         wc_app_container_name = container, wc_environment = env, wc_engine = engine,
         wc_policy_digest = windows_policy_digest d os executable working_directory container env
           engine\<rparr>))))))"

section \<open>The driver\<close>

record windows_execution =
  wx_executable_path :: string
  wx_working_directory :: string
  wx_app_container_name :: string
  wx_environment :: environment
  wx_arguments :: "string list"
  wx_input :: bytes
  wx_memory_bytes :: u64
  wx_stdout_bytes :: nat
  wx_stderr_bytes :: nat
  wx_deadline_ms :: u64

record 'w windows_kernel =
  wk_preflight :: "string \<Rightarrow> 'w \<Rightarrow> unit option \<times> 'w"
  wk_execute :: "windows_execution \<Rightarrow> 'w \<Rightarrow> kernel_observation option \<times> 'w"
  wk_coverage :: "'w \<Rightarrow> u32 option \<times> 'w"

definition windows_preflight ::
  "'w windows_kernel \<Rightarrow> windows_config \<Rightarrow> (driver_error, 'w, unit) eff" where
  "windows_preflight k c = callE PreflightFailure (wk_preflight k (wc_app_container_name c))"

definition windows_profile :: "windows_config \<Rightarrow> native_profile" where
  "windows_profile c = \<lparr>np_schema_version = windows_profile_schema_version,
     np_backend_id = windows_backend_id, np_backend_version = windows_backend_version,
     np_platform = Windows, np_policy_digest = wc_policy_digest c,
     np_controls = required_controls Windows, np_engine = wc_engine c\<rparr>"

definition windows_read_profile ::
  "'w windows_kernel \<Rightarrow> windows_config \<Rightarrow> (driver_error, 'w, native_profile) eff" where
  "windows_read_profile k c = bindW (windows_preflight k c) (\<lambda>_. returnW (windows_profile c))"

definition windows_validate_execution :: "string \<Rightarrow> execution \<Rightarrow> driver_error + unit" where
  "windows_validate_execution attempt q =
    (if attempt = [] \<or> length attempt > 128
        \<or> \<not> starts_with (sj_platform (xq_subject q)) ''windows-''
        \<or> fl_memory_bytes (xq_limits q) = 0 \<or> fl_stdout_bytes (xq_limits q) = 0
        \<or> fl_stderr_bytes (xq_limits q) = 0
        \<or> xq_deadline_ms q = 0 \<or> xq_deadline_ms q > xq_remaining_ms q
     then Inl InvalidDriverExecution else Inr ())"

text \<open>The metadata of the open file comes before its contents.\<close>

definition windows_verify_artifact ::
  "deps \<Rightarrow> 'w host_os \<Rightarrow> string \<Rightarrow> string \<Rightarrow> (driver_error, 'w, unit) eff" where
  "windows_verify_artifact d os path expected =
     bindW (callE ArtifactFailure (ho_kind os path)) (\<lambda>kind.
     bindW (ensure (kind = RegularFile) ArtifactFailure) (\<lambda>_.
     bindW (callE ArtifactFailure (ho_read os path)) (\<lambda>data.
       ensure (sha256_digest d data = expected) ArtifactDrift)))"

definition windows_markers :: "string \<Rightarrow> bytes list" where
  "windows_markers value =
    (if value = ''address'' then [''addresssanitizer'', ''asan:'']
     else if value = ''leak'' then [''leaksanitizer'', ''lsan:'']
     else if value = ''memory'' then [''memorysanitizer'', ''msan:'']
     else if value = ''thread'' then [''threadsanitizer'', ''tsan:'']
     else if value = ''undefined'' then [''undefinedbehaviorsanitizer'', ''ubsan:'', ''runtime error:'']
     else [])"

definition windows_sanitizer_failure :: "bytes \<Rightarrow> string list \<Rightarrow> bool" where
  "windows_sanitizer_failure stderr active =
    (let lower = map to_lower stderr
     in list_ex (\<lambda>value. list_ex (contains_bytes lower) (windows_markers value)) active)"

definition windows_execute ::
  "deps \<Rightarrow> 'w host_os \<Rightarrow> 'w windows_kernel \<Rightarrow> windows_config \<Rightarrow> string \<times> execution
     \<Rightarrow> (driver_error, 'w, native_observation) eff" where
  "windows_execute d os k c = (\<lambda>(attempt, q).
     bindW (windows_preflight k c) (\<lambda>_.
     bindW (liftW (windows_validate_execution attempt q)) (\<lambda>_.
     bindW (windows_verify_artifact d os (wc_executable_path c) (sj_artifact_digest (xq_subject q))) (\<lambda>_.
     let stdout_limit = unat (fl_stdout_bytes (xq_limits q));
         stderr_limit = unat (fl_stderr_bytes (xq_limits q))
     in bindW (callE LaunchFailure (wk_execute k
           \<lparr>wx_executable_path = wc_executable_path c, wx_working_directory = wc_working_directory c,
            wx_app_container_name = wc_app_container_name c, wx_environment = wc_environment c,
            wx_arguments = [], wx_input = xq_input q,
            wx_memory_bytes = fl_memory_bytes (xq_limits q),
            wx_stdout_bytes = stdout_limit, wx_stderr_bytes = stderr_limit,
            wx_deadline_ms = xq_deadline_ms q\<rparr>)) (\<lambda>ob.
        bindW (ensure (kernel_observation_ok ob stdout_limit stderr_limit) LaunchFailure) (\<lambda>_.
          returnW (observation_of attempt (windows_profile c)
            (windows_sanitizer_failure (ko_stderr ob) (fe_active_sanitizers (wc_engine c))) ob)))))))"

definition windows_coverage :: "'w windows_kernel \<Rightarrow> windows_config \<Rightarrow> (driver_error, 'w, u32) eff" where
  "windows_coverage k c =
     bindW (windows_preflight k c) (\<lambda>_.
     bindW (callE CoverageFailure (wk_coverage k)) (\<lambda>value.
     bindW (ensure (value \<le> 10000) CoverageFailure) (\<lambda>_. returnW value)))"

definition windows_driver ::
  "deps \<Rightarrow> 'w host_os \<Rightarrow> 'w windows_kernel \<Rightarrow> windows_config \<Rightarrow> 'w native_driver" where
  "windows_driver d os k c =
     \<lparr>nd_profile = without_error (windows_read_profile k c),
      nd_execute = (\<lambda>rq. without_error (windows_execute d os k c rq)),
      nd_coverage = without_error (windows_coverage k c)\<rparr>"

end
