(* ===== verification/Drivers.thy ===== *)
theory Drivers
  imports Macos_Driver Windows_Driver Zip_Reader
begin

text \<open>
  What the three native drivers have in common: the contract the confinement adapter relies on, as a
  locale with one interpretation for each platform, the binding of a configuration by the digest of
  its policy, and the quoting of paths in the macOS sandbox profile.
\<close>

section \<open>The contract of a driver\<close>

text \<open>
  A driver for configurations that are \<open>ok\<close>: its profile is valid and never changes, its engine is
  one the workbench accepts, and an observation it passes on is one of the attempt it was asked for,
  under that profile, within the limits and of a process that was reaped.
\<close>

locale confined_driver =
  fixes platform :: native_platform
    and ok :: "'c \<Rightarrow> bool"
    and profile :: "'c \<Rightarrow> native_profile"
    and driver :: "'c \<Rightarrow> 'w native_driver"
  assumes valid: "ok c \<Longrightarrow> validate_profile (profile c) platform = Inr ()"
    and plain: "ok c \<Longrightarrow> CHR ''+'' \<notin> set (fe_version (np_engine (profile c)))"
    and reads: "nd_profile (driver c) w = (Some p, w') \<Longrightarrow> p = profile c"
    and observes: "nd_execute (driver c) (attempt, q) w = (Some ob, w') \<Longrightarrow>
      validate_observation (profile c) q attempt ob = Inr () \<and> ob_process_reaped ob"
    and covers: "nd_coverage (driver c) w = (Some n, w') \<Longrightarrow> n \<le> 10000"
begin

lemma adapter_created:
  assumes "ok c"
  shows "native_new (Some platform) (driver c) w =
    (case nd_profile (driver c) w of
       (None, w') \<Rightarrow> (Inl DriverFailure, w') | (Some _, w') \<Rightarrow> (Inr (profile c), w'))"
proof (cases "nd_profile (driver c) w")
  case (Pair x w')
  then show ?thesis
    using valid [OF assms] reads [of c w]
    by (cases x) (auto simp: native_new_def bindW_def callE_def liftW_def returnW_def)
qed

lemma adapter_errors:
  assumes "native_execute d (driver c) orc (profile c) q w = (Inl e, w')"
  shows "e \<in> {DriverFailure, OracleFailure}
    \<or> e = InvalidExecution \<and> \<not> subject_matches_platform (sj_platform (xq_subject q)) (np_platform (profile c))"
proof -
  let ?attempt = "confinement_attempt_id d q"
  have drift: "e' = DriverFailure"
    if "current_profile (driver c) (profile c) u = (Inl e', u')" for e' u u'
    using that reads
    by (auto simp: current_profile_def bindW_Inl callE_Inl callE_Inr ensure_def liftW_def split: if_splits)
  have decision: "e' = OracleFailure" if "native_decision orc q ob u = (Inl e', u')" for e' ob u u'
    using that by (auto simp: native_decision_def bindW_Inl callE_Inl split: if_splits)
  have same: "p = profile c" if "current_profile (driver c) (profile c) u = (Inr p, u')" for p u u'
    using that by (auto simp: current_profile_def io_simps)
  from assms consider
      u' where "current_profile (driver c) (profile c) w = (Inl e, u')"
    | p u where "current_profile (driver c) (profile c) w = (Inr p, u)"
        "\<not> subject_matches_platform (sj_platform (xq_subject q)) (np_platform p)" "e = InvalidExecution"
    | "e = DriverFailure"
    | p u ob v where "current_profile (driver c) (profile c) w = (Inr p, u)"
        "nd_execute (driver c) (?attempt, q) u = (Some ob, v)"
        "validate_observation p q ?attempt ob = Inl e"
    | ob v v' where "native_decision orc q ob v = (Inl e, v')"
    by (auto simp: native_execute_def Let_def bindW_Inl io_simps callE_Inl liftW_Inl ensure_def
        split: if_splits)
  then show ?thesis
  proof cases
    case 1
    then show ?thesis using drift by blast
  next
    case 2
    then show ?thesis using same by blast
  next
    case 3
    then show ?thesis by simp
  next
    case 4
    with same [OF 4(1)] observes [OF 4(2)] show ?thesis by simp
  next
    case 5
    then show ?thesis using decision by blast
  qed
qed

lemma outcome_reaped:
  assumes "native_execute d (driver c) orc (profile c) q w = (Inr oc, w')"
  shows "\<not> sf_unreaped (oc_safety oc)"
  using assms observes
  by (auto simp: native_execute_Inr native_decision_def observed_safety_def io_simps split: if_splits)

lemma engine_accepted:
  assumes "ok c"
  shows "validate_fuzz_engine (np_engine (profile c)) corpus = Inr () \<longleftrightarrow>
    set (fl_required_sanitizers (fz_limits corpus)) \<subseteq> set (fe_active_sanitizers (np_engine (profile c)))"
proof -
  have "native_engine_ok (np_engine (profile c))"
    using valid [OF assms] by (auto simp: validate_profile_def split: if_splits)
  from native_engine_workbench [OF this] plain [OF assms] show ?thesis by simp
qed

end

text \<open>The same as one statement about a driver, a platform and a profile.\<close>

definition honours_adapter ::
  "deps \<Rightarrow> native_platform \<Rightarrow> native_profile \<Rightarrow> 'w native_driver \<Rightarrow> bool" where
  "honours_adapter d platform p dr \<longleftrightarrow>
     (\<forall>w. native_new (Some platform) dr w =
        (case nd_profile dr w of (None, w') \<Rightarrow> (Inl DriverFailure, w') | (Some _, w') \<Rightarrow> (Inr p, w')))
     \<and> (\<forall>orc q w e w'. native_execute d dr orc p q w = (Inl e, w') \<longrightarrow>
          e \<in> {DriverFailure, OracleFailure, InvalidExecution}
          \<and> (e = InvalidExecution \<longrightarrow> \<not> subject_matches_platform (sj_platform (xq_subject q)) platform))
     \<and> (\<forall>orc q w oc w'. native_execute d dr orc p q w = (Inr oc, w') \<longrightarrow> \<not> sf_unreaped (oc_safety oc))
     \<and> (\<forall>w n w'. nd_coverage dr w = (Some n, w') \<longrightarrow> n \<le> 10000)
     \<and> (\<forall>corpus. validate_fuzz_engine (np_engine p) corpus = Inr () \<longleftrightarrow>
          set (fl_required_sanitizers (fz_limits corpus)) \<subseteq> set (fe_active_sanitizers (np_engine p)))"

context confined_driver begin

lemma honours: "ok c \<Longrightarrow> honours_adapter d platform (profile c) (driver c)"
proof -
  assume c: "ok c"
  have "np_platform (profile c) = platform"
    using valid [OF c] by (auto simp: validate_profile_def split: if_splits)
  then show ?thesis
    unfolding honours_adapter_def
    using adapter_created [OF c] adapter_errors [of d c] outcome_reaped covers engine_accepted [OF c]
    by blast
qed

end

section \<open>Versions, digests, environments\<close>

lemma driver_version_native:
  assumes "driver_version v"
  shows "CHR ''+'' \<notin> set v" and "length v \<le> 64 \<Longrightarrow> native_version v"
proof -
  have parts: "length (split_on CHR ''.'' v) = 3" "list_all version_part (split_on CHR ''.'' v)"
    using assms by (simp_all add: driver_version_def Let_def)
  have chars: "is_digit c \<or> c = CHR ''.''" if "c \<in> set v" for c
    using split_on_chars [OF that, of "CHR ''.''"] parts(2)
    by (auto simp: list_all_iff version_part_def)
  have no: "CHR ''+'' \<notin> set v" "CHR ''-'' \<notin> set v"
    using chars [of "CHR ''+''"] chars [of "CHR ''-''"] by (auto simp: is_digit_def)
  then show "CHR ''+'' \<notin> set v" by simp
  have one: "split_on x v = [v]" if "x \<notin> set v" for x
    using that by (induction v) (auto split: list.splits)
  have "version_core v"
    using parts by (auto simp: version_core_def list_all_iff version_part_def numeric_identifier_def)
  moreover have "v \<noteq> []" using parts(1) by auto
  ultimately show "native_version v" if "length v \<le> 64"
    using that one [OF no(1)] one [OF no(2)] by (simp add: native_version_def version_and_pre_def)
qed

lemma parse_digits_ge: "parse_digits acc s = Some n \<Longrightarrow> acc * 10 ^ length s \<le> n"
proof (induction acc s rule: parse_digits.induct)
  case (2 acc c cs)
  then have ih: "(acc * 10 + (ord c - 48)) * 10 ^ length cs \<le> n" by (auto split: if_splits)
  have "acc * 10 ^ length (c # cs) \<le> (acc * 10 + (ord c - 48)) * 10 ^ length cs"
    by (simp add: algebra_simps)
  with ih show ?case by (rule le_trans [rotated])
qed simp

lemma version_part_length: "version_part p \<Longrightarrow> length p \<le> 20"
proof -
  assume p: "version_part p"
  then obtain c cs where cs: "p = c # cs" by (cases p) (auto simp: version_part_def)
  show ?thesis
  proof (cases "p = ''0''")
    case False
    with p cs have d: "is_digit c" "c \<noteq> CHR ''0''"
      by (auto simp: version_part_def starts_with_def)
    have "1 \<le> ord c - 48"
    proof -
      have "ord c \<noteq> ord CHR ''0''" using d(2) by (metis char_of_char)
      then show ?thesis using d(1) by (simp add: is_digit_def) arith
    qed
    moreover obtain n where n: "parse_digits (ord c - 48) cs = Some n" "n < 2 ^ 64"
      using p d(1) by (auto simp: version_part_def cs split: option.splits)
    ultimately have "(10::nat) ^ length cs < 2 ^ 64"
      using parse_digits_ge [OF n(1)] by (metis le_less_trans mult.commute mult_le_mono1 nat_mult_1_right)
    also have "\<dots> < 10 ^ 20" by simp
    finally have "length cs < 20" by (rule power_less_imp_less_exp [rotated]) simp
    then show ?thesis using cs by simp
  qed simp
qed

lemma driver_version_length: "driver_version v \<Longrightarrow> length v \<le> 64"
proof -
  assume v: "driver_version v"
  then obtain a b c where s: "split_on CHR ''.'' v = [a, b, c]"
    by (auto simp: driver_version_def Let_def length_Suc_conv numeral_3_eq_3)
  have "length v = length a + length b + length c + 2"
    using arg_cong [OF join_split_on [of "CHR ''.''" v], of length] s by simp
  moreover have "length a \<le> 20" "length b \<le> 20" "length c \<le> 20"
    using v s by (auto simp: driver_version_def Let_def dest: version_part_length)
  ultimately show ?thesis by simp
qed

section \<open>The configurations\<close>

definition engine_ok :: "fuzz_engine \<Rightarrow> bool" where
  "engine_ok e \<longleftrightarrow> driver_token (fe_id e) \<and> driver_version (fe_version e)
     \<and> fe_active_sanitizers e \<noteq> [] \<and> list_all supported_sanitizer (fe_active_sanitizers e)
     \<and> ascending (fe_active_sanitizers e)"

lemma windows_version_eq: "windows_version v \<longleftrightarrow> driver_version v"
  by (auto simp: windows_version_def driver_version_def Let_def length_Suc_conv numeral_3_eq_3
      split: list.splits)

lemma validate_engines:
  "linux_validate_engine e = Inr () \<longleftrightarrow> engine_ok e"
  "macos_validate_engine e = Inr () \<longleftrightarrow> engine_ok e"
  "windows_validate_engine e = Inr () \<longleftrightarrow> engine_ok e"
  by (auto simp: linux_validate_engine_def macos_validate_engine_def windows_validate_engine_def
      engine_ok_def windows_version_eq list_all_iff list_ex_iff)

lemma engine_ok_native: "engine_ok e \<Longrightarrow> native_engine_ok e \<and> CHR ''+'' \<notin> set (fe_version e)"
  using driver_version_native [of "fe_version e"] driver_version_length [of "fe_version e"]
  by (auto simp: engine_ok_def native_engine_ok_def driver_token_def native_token_def
      supported_sanitizer_def list_all_iff)

lemma native_digest_sha256: "sha256_length d \<Longrightarrow> native_digest (sha256_digest d x)"
  using valid_digest_sha256 [of d x]
  by (fastforce simp: valid_digest_def native_digest_def list_all_iff is_lower_hex_def is_hexdigit_def
      is_upper_def is_digit_def)

lemma profile_valid:
  assumes "engine_ok e" and "sha256_length d"
    and "backend \<in> {linux_backend_id, macos_backend_id, windows_backend_id}"
  shows "validate_profile \<lparr>np_schema_version = 1, np_backend_id = backend,
     np_backend_version = ''1.0.0'', np_platform = pf, np_policy_digest = sha256_digest d x,
     np_controls = required_controls pf, np_engine = e\<rparr> pf = Inr ()"
proof -
  have "native_version ''1.0.0''" by code_simp
  moreover have "native_token backend"
    using assms(3) by (auto simp: linux_backend_id_def macos_backend_id_def windows_backend_id_def
        native_token_def is_alnum_def ascii_defs)
  ultimately show ?thesis
    using engine_ok_native [OF assms(1)] native_digest_sha256 [OF assms(2)]
    by (simp add: validate_profile_def profile_schema_version_def)
qed

lemma kernel_observation_valid:
  assumes "kernel_observation_ok ob (unat (fl_stdout_bytes (xq_limits q))) (unat (fl_stderr_bytes (xq_limits q)))"
  shows "validate_observation p q attempt (observation_of attempt p failing ob) = Inr ()
    \<and> ob_process_reaped (observation_of attempt p failing ob)"
  using assms
  by (auto simp: validate_observation_def Let_def observation_of_def kernel_observation_ok_def)

text \<open>Only listed names, each with a value that is not empty and holds no NUL.\<close>

definition environment_ok :: "string list \<Rightarrow> environment \<Rightarrow> bool" where
  "environment_ok allowed env \<longleftrightarrow>
     (\<forall>(name, value)\<in>set env. name \<in> set allowed \<and> value \<noteq> [] \<and> CHR 0x00 \<notin> set value)"

definition linux_config_ok :: "deps \<Rightarrow> linux_config \<Rightarrow> bool" where
  "linux_config_ok d c \<longleftrightarrow> engine_ok (lc_engine c)
     \<and> environment_ok linux_env_allowlist (lc_environment c)
     \<and> environment_bytes (lc_environment c) \<le> 32768
     \<and> lc_policy_digest c = make_linux_policy_digest d (lc_executable c) (lc_sandbox_root c)
         (lc_writable_directory c) (lc_cgroup_parent c) (lc_environment c) (lc_engine c)"

definition macos_config_ok :: "deps \<Rightarrow> macos_config \<Rightarrow> bool" where
  "macos_config_ok d c \<longleftrightarrow> engine_ok (mc_engine c)
     \<and> environment_ok macos_env_allowlist (mc_environment c)
     \<and> environment_bytes (mc_environment c) \<le> 32768
     \<and> mc_policy_digest c = make_macos_policy_digest d (mc_executable c) (mc_launcher c)
         (mc_writable_directory c) (mc_environment c) (mc_engine c) (mc_executable_digest c)
         (mc_launcher_digest c) (mc_sandbox_profile c)"

definition windows_config_ok :: "deps \<Rightarrow> 'w host_os \<Rightarrow> windows_config \<Rightarrow> bool" where
  "windows_config_ok d os c \<longleftrightarrow> engine_ok (wc_engine c)
     \<and> environment_ok windows_env_names (wc_environment c)
     \<and> wc_policy_digest c = windows_policy_digest d os (wc_executable_path c)
         (wc_working_directory c) (wc_app_container_name c) (wc_environment c) (wc_engine c)"

lemma linux_execute_Inr:
  assumes "linux_execute d os k c (attempt, q) w = (Inr ob, w')"
  shows "\<exists>kob failing. ob = observation_of attempt (linux_profile c) failing kob
    \<and> kernel_observation_ok kob (unat (fl_stdout_bytes (xq_limits q))) (unat (fl_stderr_bytes (xq_limits q)))"
  using assms by (auto simp: linux_execute_def Let_def io_simps)

lemma macos_execute_Inr:
  assumes "macos_execute d os k c (attempt, q) w = (Inr ob, w')"
  shows "\<exists>kob failing. ob = observation_of attempt (macos_profile c) failing kob
    \<and> kernel_observation_ok kob (unat (fl_stdout_bytes (xq_limits q))) (unat (fl_stderr_bytes (xq_limits q)))"
  using assms by (auto simp: macos_execute_def Let_def io_simps)

lemma windows_execute_Inr:
  assumes "windows_execute d os k c (attempt, q) w = (Inr ob, w')"
  shows "\<exists>kob failing. ob = observation_of attempt (windows_profile c) failing kob
    \<and> kernel_observation_ok kob (unat (fl_stdout_bytes (xq_limits q))) (unat (fl_stderr_bytes (xq_limits q)))"
  using assms by (auto simp: windows_execute_def Let_def io_simps)

interpretation linux: confined_driver Linux "\<lambda>c. sha256_length d \<and> linux_config_ok d c" linux_profile
  "linux_driver d os k" for d os k
proof unfold_locales
  fix c
  assume "sha256_length d \<and> linux_config_ok d c"
  then show "validate_profile (linux_profile c) Linux = Inr ()"
    and "CHR ''+'' \<notin> set (fe_version (np_engine (linux_profile c)))"
    using profile_valid [of "lc_engine c" d linux_backend_id Linux] engine_ok_native
    by (auto simp: linux_config_ok_def linux_profile_def linux_backend_version_def
        make_linux_policy_digest_def simp del: required_controls.simps)
next
  fix c w p w'
  assume "nd_profile (linux_driver d os k c) w = (Some p, w')"
  then show "p = linux_profile c"
    by (auto simp: linux_driver_def without_error_Some linux_read_profile_def io_simps)
next
  fix c attempt q w ob w'
  assume "nd_execute (linux_driver d os k c) (attempt, q) w = (Some ob, w')"
  then show "validate_observation (linux_profile c) q attempt ob = Inr () \<and> ob_process_reaped ob"
    using kernel_observation_valid
    by (fastforce simp: linux_driver_def without_error_Some dest!: linux_execute_Inr)
next
  fix c w n w'
  assume "nd_coverage (linux_driver d os k c) w = (Some n, w')"
  then show "n \<le> 10000"
    by (auto simp: linux_driver_def without_error_Some linux_coverage_def io_simps)
qed

interpretation macos: confined_driver Macos "\<lambda>c. sha256_length d \<and> macos_config_ok d c" macos_profile
  "macos_driver d os k" for d os k
proof unfold_locales
  fix c
  assume "sha256_length d \<and> macos_config_ok d c"
  then show "validate_profile (macos_profile c) Macos = Inr ()"
    and "CHR ''+'' \<notin> set (fe_version (np_engine (macos_profile c)))"
    using profile_valid [of "mc_engine c" d macos_backend_id Macos] engine_ok_native
    by (auto simp: macos_config_ok_def macos_profile_def macos_backend_version_def
        make_macos_policy_digest_def simp del: required_controls.simps)
next
  fix c w p w'
  assume "nd_profile (macos_driver d os k c) w = (Some p, w')"
  then show "p = macos_profile c"
    by (auto simp: macos_driver_def without_error_Some macos_read_profile_def io_simps)
next
  fix c attempt q w ob w'
  assume "nd_execute (macos_driver d os k c) (attempt, q) w = (Some ob, w')"
  then show "validate_observation (macos_profile c) q attempt ob = Inr () \<and> ob_process_reaped ob"
    using kernel_observation_valid
    by (fastforce simp: macos_driver_def without_error_Some dest!: macos_execute_Inr)
next
  fix c w n w'
  assume "nd_coverage (macos_driver d os k c) w = (Some n, w')"
  then show "n \<le> 10000"
    by (auto simp: macos_driver_def without_error_Some macos_coverage_def io_simps)
qed

interpretation windows: confined_driver Windows "\<lambda>c. sha256_length d \<and> windows_config_ok d os c"
  windows_profile "windows_driver d os k" for d os k
proof unfold_locales
  fix c
  assume "sha256_length d \<and> windows_config_ok d os c"
  then show "validate_profile (windows_profile c) Windows = Inr ()"
    and "CHR ''+'' \<notin> set (fe_version (np_engine (windows_profile c)))"
    using profile_valid [of "wc_engine c" d windows_backend_id Windows] engine_ok_native
    by (auto simp: windows_config_ok_def windows_profile_def windows_backend_version_def
        windows_profile_schema_version_def windows_policy_digest_def simp del: required_controls.simps)
next
  fix c w p w'
  assume "nd_profile (windows_driver d os k c) w = (Some p, w')"
  then show "p = windows_profile c"
    by (auto simp: windows_driver_def without_error_Some windows_read_profile_def io_simps)
next
  fix c attempt q w ob w'
  assume "nd_execute (windows_driver d os k c) (attempt, q) w = (Some ob, w')"
  then show "validate_observation (windows_profile c) q attempt ob = Inr () \<and> ob_process_reaped ob"
    using kernel_observation_valid
    by (fastforce simp: windows_driver_def without_error_Some dest!: windows_execute_Inr)
next
  fix c w n w'
  assume "nd_coverage (windows_driver d os k c) w = (Some n, w')"
  then show "n \<le> 10000"
    by (auto simp: windows_driver_def without_error_Some windows_coverage_def io_simps)
qed

section \<open>Construction establishes the invariant\<close>

lemma linux_entries_Inr:
  "linux_entries env acc = Inr r \<Longrightarrow> r = acc @ env \<and> environment_ok linux_env_allowlist env"
  by (induction env acc rule: linux_entries.induct) (auto simp: environment_ok_def split: if_splits)

lemma macos_entries_Inr:
  "macos_entries env acc = Inr r \<Longrightarrow> r = acc @ env \<and> environment_ok macos_env_allowlist env"
  by (induction env acc rule: macos_entries.induct) (auto simp: environment_ok_def split: if_splits)

lemma windows_entries_Inr:
  "windows_entries env seen acc = Inr r \<Longrightarrow> environment_ok windows_env_names acc \<Longrightarrow>
     environment_ok windows_env_names r"
  by (induction env seen acc rule: windows_entries.induct)
    (auto simp: environment_ok_def Let_def split: if_splits)

lemma environment_ok_sort [simp]: "environment_ok allowed (sort env) = environment_ok allowed env"
  "environment_ok allowed (sort_key fst env) = environment_ok allowed env"
  by (simp_all add: environment_ok_def)

lemma linux_config_new_ok:
  "linux_config_new d os executable base writable cgroup env engine w = (Inr c, w') \<Longrightarrow>
     linux_config_ok d c \<and> \<not> ho_within os (lc_executable c) (lc_writable_directory c)"
  by (auto simp: linux_config_new_def io_simps linux_config_ok_def validate_engines
      linux_validate_environment_def bindR_Inr_iff Let_def dest!: linux_entries_Inr split: if_splits)

lemma macos_config_new_ok:
  "macos_config_new d os executable launcher writable env engine w = (Inr c, w') \<Longrightarrow>
     macos_config_ok d c \<and> \<not> ho_within os (mc_executable c) (mc_writable_directory c)
     \<and> \<not> ho_within os (mc_launcher c) (mc_writable_directory c) \<and> mc_executable c \<noteq> mc_launcher c"
  by (auto simp: macos_config_new_def io_simps macos_config_ok_def validate_engines
      macos_validate_environment_def bindR_Inr_iff Let_def dest!: macos_entries_Inr split: if_splits)

lemma windows_config_new_ok:
  assumes "windows_config_new d os executable directory container env engine w = (Inr c, w')"
  shows "windows_config_ok d os c"
proof -
  have "environment_ok windows_env_names []" by (simp add: environment_ok_def)
  with assms show ?thesis
    by (auto simp: windows_config_new_def io_simps windows_config_ok_def validate_engines
        canonical_environment_def bindR_Inr_iff Let_def dest!: windows_entries_Inr split: if_splits)
qed

section \<open>The digest binds the configuration\<close>

definition env_fields :: "environment \<Rightarrow> bytes list" where
  "env_fields env = concat (map (\<lambda>(name, value). [name, value]) env)"

lemma field_not_Nil: "field x \<noteq> []"
  using length_u64_be [of "word_of_nat (length x)"] by (auto simp: field_def simp del: length_u64_be)

lemma concat_fields_inj:
  assumes "concat (map field xs) = concat (map field ys)"
    and "list_all field_ok xs" and "list_all field_ok ys"
  shows "xs = ys"
  using assms
proof (induction xs arbitrary: ys)
  case Nil
  then show ?case using field_not_Nil by (cases ys) auto
next
  case (Cons x xs)
  then obtain y ys' where ys: "ys = y # ys'" using field_not_Nil by (cases ys) auto
  with Cons.prems have "field x @ concat (map field xs) = field y @ concat (map field ys')"
    "field_ok x" "field_ok y" by simp_all
  then have "x = y" "concat (map field xs) = concat (map field ys')"
    using field_code.unique by blast+
  with Cons ys show ?case by simp
qed

text \<open>Names and values up to the first field that is no name.\<close>

lemma env_fields_unique:
  assumes "env_fields e @ xs = env_fields e' @ ys"
    and "\<forall>n\<in>fst ` set e \<union> fst ` set e'. P n" and "\<not> P (hd xs)" and "\<not> P (hd ys)"
    and "xs \<noteq> []" and "ys \<noteq> []"
  shows "e = e' \<and> xs = ys"
  using assms
proof (induction e arbitrary: e')
  case Nil
  then show ?case by (cases e') (auto simp: env_fields_def)
next
  case (Cons nv e)
  obtain n v where nv: "nv = (n, v)" by (cases nv)
  from Cons.prems nv obtain n' v' e1 where e': "e' = (n', v') # e1"
    by (cases e') (auto simp: env_fields_def)
  with Cons.prems nv have "n = n'" "v = v'" "env_fields e @ xs = env_fields e1 @ ys"
    by (simp_all add: env_fields_def)
  with Cons.IH [of e1] Cons.prems nv e' show ?case by auto
qed

lemma supported_not_listed:
  "supported_sanitizer s \<Longrightarrow> s \<notin> set linux_env_allowlist \<and> s \<notin> set macos_env_allowlist"
  by (auto simp: supported_sanitizer_def linux_env_allowlist_def macos_env_allowlist_def)

lemma engine_hd: "engine_ok e \<Longrightarrow> fe_active_sanitizers e \<noteq> [] \<and> supported_sanitizer (hd (fe_active_sanitizers e))"
  by (cases "fe_active_sanitizers e") (auto simp: engine_ok_def)

definition linux_fields :: "linux_config \<Rightarrow> bytes list" where
  "linux_fields c = [linux_policy, lc_executable c, lc_sandbox_root c, lc_writable_directory c,
     lc_cgroup_parent c, fe_id (lc_engine c), fe_version (lc_engine c)]
     @ env_fields (lc_environment c) @ fe_active_sanitizers (lc_engine c)"

definition macos_fields :: "macos_config \<Rightarrow> bytes list" where
  "macos_fields c = [macos_policy, mc_executable c, mc_launcher c, mc_writable_directory c,
     fe_id (mc_engine c), fe_version (mc_engine c), mc_executable_digest c, mc_launcher_digest c,
     mc_sandbox_profile c] @ env_fields (mc_environment c) @ fe_active_sanitizers (mc_engine c)"

definition windows_fields :: "'w host_os \<Rightarrow> windows_config \<Rightarrow> bytes list" where
  "windows_fields os c = [windows_policy, wide_path_bytes os (wc_executable_path c),
     wide_path_bytes os (wc_working_directory c), wc_app_container_name c]
     @ env_fields (wc_environment c) @ [fe_id (wc_engine c), fe_version (wc_engine c)]
     @ fe_active_sanitizers (wc_engine c)"

lemma linux_fields_inj:
  assumes "linux_fields c = linux_fields c'" and "linux_config_ok d c" and "linux_config_ok d c'"
  shows "c = c'"
proof -
  have "env_fields (lc_environment c) @ fe_active_sanitizers (lc_engine c)
      = env_fields (lc_environment c') @ fe_active_sanitizers (lc_engine c')"
    using assms(1) by (simp add: linux_fields_def)
  then have "lc_environment c = lc_environment c'
      \<and> fe_active_sanitizers (lc_engine c) = fe_active_sanitizers (lc_engine c')"
    using assms(2,3) engine_hd [of "lc_engine c"] engine_hd [of "lc_engine c'"]
    by (intro env_fields_unique [where P = "\<lambda>n. n \<in> set linux_env_allowlist"])
      (auto simp: linux_config_ok_def environment_ok_def dest: supported_not_listed)
  with assms show ?thesis
    by (cases c; cases c'; cases "lc_engine c"; cases "lc_engine c'")
      (auto simp: linux_fields_def linux_config_ok_def)
qed

lemma macos_fields_inj:
  assumes "macos_fields c = macos_fields c'" and "macos_config_ok d c" and "macos_config_ok d c'"
  shows "c = c'"
proof -
  have "env_fields (mc_environment c) @ fe_active_sanitizers (mc_engine c)
      = env_fields (mc_environment c') @ fe_active_sanitizers (mc_engine c')"
    using assms(1) by (simp add: macos_fields_def)
  then have "mc_environment c = mc_environment c'
      \<and> fe_active_sanitizers (mc_engine c) = fe_active_sanitizers (mc_engine c')"
    using assms(2,3) engine_hd [of "mc_engine c"] engine_hd [of "mc_engine c'"]
    by (intro env_fields_unique [where P = "\<lambda>n. n \<in> set macos_env_allowlist"])
      (auto simp: macos_config_ok_def environment_ok_def dest: supported_not_listed)
  with assms show ?thesis
    by (cases c; cases c'; cases "mc_engine c"; cases "mc_engine c'")
      (auto simp: macos_fields_def macos_config_ok_def)
qed

lemma version_no_sanitizer: "driver_version v \<Longrightarrow> \<not> supported_sanitizer v"
  by (auto simp: supported_sanitizer_def driver_version_def Let_def)

lemma env_engine_unique:
  assumes "env_fields e @ i # v # s = env_fields e' @ i' # v' # s'"
    and "driver_version v" and "driver_version v'"
    and "list_all supported_sanitizer s" and "list_all supported_sanitizer s'"
  shows "e = e' \<and> i = i' \<and> v = v' \<and> s = s'"
  using assms
proof (induction e arbitrary: e')
  case Nil
  show ?case
  proof (cases e')
    case Nil
    with Nil.prems show ?thesis by (simp add: env_fields_def)
  next
    case (Cons nv r)
    obtain a b where nv: "nv = (a, b)" by (cases nv)
    have "s = env_fields r @ i' # v' # s'"
      using Nil.prems(1) Cons nv by (simp add: env_fields_def)
    then have "supported_sanitizer v'" using Nil.prems(4) by simp
    with Nil.prems(3) show ?thesis using version_no_sanitizer by blast
  qed
next
  case (Cons nv e)
  obtain a b where nv: "nv = (a, b)" by (cases nv)
  show ?case
  proof (cases e')
    case Nil
    have "s' = env_fields e @ i # v # s"
      using Cons.prems(1) Nil nv by (simp add: env_fields_def)
    then have "supported_sanitizer v" using Cons.prems(5) by simp
    with Cons.prems(2) show ?thesis using version_no_sanitizer by blast
  next
    case (Cons nv' r)
    obtain a' b' where nv': "nv' = (a', b')" by (cases nv')
    have "a = a' \<and> b = b'" "env_fields e @ i # v # s = env_fields r @ i' # v' # s'"
      using Cons.prems(1) Cons nv nv' by (simp_all add: env_fields_def)
    with Cons.IH [of r] Cons.prems nv nv' Cons show ?thesis by simp
  qed
qed

lemma wide_bytes_inj:
  "concat (map (\<lambda>u :: 16 word. le 2 (unat u)) xs) = concat (map (\<lambda>u. le 2 (unat u)) ys) \<Longrightarrow> xs = ys"
proof (induction xs arbitrary: ys)
  case Nil
  then show ?case by (cases ys) (simp_all add: numeral_2_eq_2)
next
  case (Cons x xs)
  then obtain y ys' where ys: "ys = y # ys'" by (cases ys) (auto simp: numeral_2_eq_2)
  have "le 2 (unat x) = le 2 (unat y)" "concat (map (\<lambda>u. le 2 (unat u)) xs) = concat (map (\<lambda>u. le 2 (unat u)) ys')"
    using Cons.prems by (auto simp: ys numeral_2_eq_2)
  moreover have "unat x = unat y" if "le 2 (unat x) = le 2 (unat y)"
    using that take_number_u16 [of x "[]"] take_number_u16 [of y "[]"] by simp
  ultimately show ?case using Cons.IH [of ys'] ys by (simp add: word_unat_eq_iff)
qed

lemma windows_fields_inj:
  assumes "windows_fields os c = windows_fields os c'" and "windows_config_ok d os c"
    and "windows_config_ok d os c'" and "inj (ho_wide os)"
  shows "c = c'"
proof -
  have "env_fields (wc_environment c) @ fe_id (wc_engine c) # fe_version (wc_engine c)
        # fe_active_sanitizers (wc_engine c)
      = env_fields (wc_environment c') @ fe_id (wc_engine c') # fe_version (wc_engine c')
        # fe_active_sanitizers (wc_engine c')"
    using assms(1) by (simp add: windows_fields_def)
  then have "wc_environment c = wc_environment c' \<and> fe_id (wc_engine c) = fe_id (wc_engine c')
      \<and> fe_version (wc_engine c) = fe_version (wc_engine c')
      \<and> fe_active_sanitizers (wc_engine c) = fe_active_sanitizers (wc_engine c')"
    by (rule env_engine_unique) (use assms(2,3) in \<open>simp_all add: windows_config_ok_def engine_ok_def\<close>)
  moreover have "wc_executable_path c = wc_executable_path c'"
    "wc_working_directory c = wc_working_directory c'"
    using assms(1) inj_eq [OF assms(4)]
    by (auto simp: windows_fields_def wide_path_bytes_def dest!: wide_bytes_inj)
  ultimately show ?thesis
    using assms(1-3)
    by (cases c; cases c'; cases "wc_engine c"; cases "wc_engine c'")
      (auto simp: windows_fields_def windows_config_ok_def)
qed

section \<open>The sandbox profile of macOS\<close>

text \<open>A reader of string literals: up to the closing quotation mark, a backslash quotes one character.\<close>

fun read_literal :: "string \<Rightarrow> (string \<times> string) option" where
  "read_literal [] = None"
| "read_literal (c # cs) =
    (if c = CHR 0x22 then Some ([], cs)
     else if c = CHR 0x5C then
       (case cs of [] \<Rightarrow> None | x # r \<Rightarrow> map_option (\<lambda>(s, t). (x # s, t)) (read_literal r))
     else map_option (\<lambda>(s, t). (c # s, t)) (read_literal cs))"

definition escape_char :: "char \<Rightarrow> string" where
  "escape_char c = (if c = CHR 0x5C then [CHR 0x5C, CHR 0x5C]
     else if c = CHR 0x22 then [CHR 0x5C, CHR 0x22] else [c])"

lemma sandbox_literal_Inr:
  "sandbox_literal path = Inr l \<longleftrightarrow> l = concat (map escape_char path) \<and> is_utf8 path
     \<and> (\<forall>c\<in>set path. 32 \<le> ord c \<and> c \<noteq> CHR 0x7F)"
proof -
  have e: "replace_char CHR 0x22 [CHR 0x5C, CHR 0x22] (replace_char CHR 0x5C [CHR 0x5C, CHR 0x5C] path)
      = concat (map escape_char path)"
    by (induction path) (simp_all add: replace_char_def escape_char_def)
  have c: "list_ex (\<lambda>byte. ord byte < 32 \<or> byte = CHR 0x7F) path \<longleftrightarrow>
      \<not> (\<forall>c\<in>set path. 32 \<le> ord c \<and> c \<noteq> CHR 0x7F)"
    by (simp only: list_ex_iff not_less [symmetric]) blast
  have f: "(if \<not> a then Inl err else if \<not> b then Inl err else Inr x) = Inr l \<longleftrightarrow> l = x \<and> a \<and> b"
    for a b :: bool and err :: driver_error and x by auto
  show ?thesis unfolding sandbox_literal_def e c by (rule f)
qed

lemma read_sandbox_literal:
  "read_literal (concat (map escape_char path) @ CHR 0x22 # rest) = Some (path, rest)"
  by (induction path) (simp_all add: escape_char_def)

definition profile_lines :: "string \<Rightarrow> string \<Rightarrow> string \<Rightarrow> string \<Rightarrow> string \<Rightarrow> string list" where
  "profile_lines launcher executable launcher_parent executable_parent writable =
    [''(version 1)'', ''(deny default)'', ''(import '' @ quoted ''system.sb'' @ '')'',
     ''(allow process-exec (literal '' @ quoted launcher @ '') (literal '' @ quoted executable @ ''))'',
     ''(deny process-fork)'', ''(deny network*)'', ''(deny file-read*)'',
     ''(deny file-read* (subpath '' @ quoted launcher_parent @ '') (subpath ''
       @ quoted executable_parent @ ''))'',
     ''(allow file-read-metadata)'',
     ''(allow file-read* (literal '' @ quoted launcher @ '') (literal '' @ quoted executable
       @ '') (subpath '' @ quoted ''/System'' @ '') (subpath '' @ quoted ''/usr/lib''
       @ '') (subpath '' @ quoted ''/Library/Apple/System'' @ ''))'',
     ''(allow file-write* (subpath '' @ quoted writable @ ''))'', ''(allow sysctl-read)'',
     ''(allow mach-lookup (global-name '' @ quoted ''com.apple.system.opendirectoryd.libinfo'' @ ''))'']"

lemma profile_text_lines:
  "profile_text launcher executable launcher_parent executable_parent writable =
     concat (map clause (profile_lines launcher executable launcher_parent executable_parent writable))"
  by (simp only: profile_text_def profile_lines_def list.map concat.simps append_Nil2 append_assoc)

lemma split_lines:
  "list_all (\<lambda>line. CHR 0x0A \<notin> set line) ls \<Longrightarrow>
     split_on CHR 0x0A (concat (map clause ls)) = ls @ [[]]"
proof (induction ls)
  case (Cons l ls)
  have "split_on CHR 0x0A (l @ CHR 0x0A # r) = l # split_on CHR 0x0A r" if "CHR 0x0A \<notin> set l" for l r
    using that by (induction l) auto
  with Cons show ?case by (simp add: clause_def)
qed simp

lemma escaped_no_newline:
  assumes "\<forall>c\<in>set path. 32 \<le> ord c \<and> c \<noteq> CHR 0x7F"
  shows "CHR 0x0A \<notin> set (concat (map escape_char path))"
proof
  assume "CHR 0x0A \<in> set (concat (map escape_char path))"
  then obtain c where c: "c \<in> set path" "CHR 0x0A \<in> set (escape_char c)" by auto
  then have "c = CHR 0x0A" by (simp add: escape_char_def split: if_splits)
  with c(1) assms have "32 \<le> ord CHR 0x0A" by blast
  then show False by simp
qed

end
