(* ===== verification/Runtime.thy ===== *)
theory Runtime
  imports Windows_Driver Macos_Driver
begin

text \<open>
  tools/tsp-runtime-host/src/main.rs: the sidecar that runs a plugin in the product. It reads one
  request, checks it against the files it names, invokes one native confinement kernel and answers.
  The selected platform (Runtime_Platform) is a record of its three functions; an error is its stable
  text.
\<close>

section \<open>Requests and answers\<close>

definition rt_schema_version :: u32 where "rt_schema_version = 1"
definition rt_max_request_bytes :: nat where "rt_max_request_bytes = 41943040"
definition rt_max_input_bytes :: nat where "rt_max_input_bytes = 25165824"
definition rt_max_stdout_bytes :: u64 where "rt_max_stdout_bytes = 25165824"
definition rt_max_stderr_bytes :: u64 where "rt_max_stderr_bytes = 65536"
definition rt_max_memory_bytes :: u64 where "rt_max_memory_bytes = 268435456"
definition rt_max_deadline_ms :: u64 where "rt_max_deadline_ms = 1250"
definition rt_max_arguments :: nat where "rt_max_arguments = 32"
definition rt_max_argument_bytes :: nat where "rt_max_argument_bytes = 4096"
definition rt_max_identity_bytes :: nat where "rt_max_identity_bytes = 268435456"

record runtime_request =
  rq_schema_version :: u32
  rq_operation :: string
  rq_attempt_id :: string
  rq_plugin_id :: string
  rq_release_id :: string
  rq_platform :: string
  rq_package_digest :: string
  rq_artifact_digest :: string
  rq_executable_path :: string
  rq_release_path :: string
  rq_work_path :: string
  rq_arguments :: "string list"
  rq_input :: string
  rq_deadline_ms :: u64
  rq_memory_bytes :: u64
  rq_stdout_bytes :: u64
  rq_stderr_bytes :: u64

record runtime_observation =
  ro_platform :: string
  ro_attempt_id :: string
  ro_artifact_digest :: string
  ro_backend_id :: string
  ro_policy_digest :: string
  ro_stdout :: string
  ro_stderr :: string
  ro_exit_code :: u32 \<comment> \<open>an \<^verbatim>\<open>i32\<close>, as are the codes of \<^typ>\<open>native_termination\<close>\<close>
  ro_duration_ms :: u64
  ro_peak_memory_bytes :: u64
  ro_process_reaped :: bool
  ro_deadline_exceeded :: bool
  ro_memory_limit_exceeded :: bool
  ro_stdout_limit_exceeded :: bool
  ro_stderr_limit_exceeded :: bool

record runtime_response =
  rr_schema_version :: u32
  rr_ok :: bool
  rr_error :: "string option"
  rr_observation :: "runtime_observation option"

record validated_request =
  vr_request :: runtime_request
  vr_executable :: string
  vr_release :: string
  vr_work :: string
  vr_input :: bytes

record native_result =
  nr_backend_id :: string
  nr_policy_digest :: string
  nr_termination :: native_termination
  nr_stdout :: bytes
  nr_stderr :: bytes
  nr_duration_ms :: u64
  nr_peak_memory_bytes :: u64
  nr_stdout_limit_exceeded :: bool
  nr_stderr_limit_exceeded :: bool
  nr_process_reaped :: bool

section \<open>The process around it\<close>

text \<open>
  \<open>rt_read\<close> is one read of an open file into the buffer: nothing at the end of the file. \<open>rt_env\<close> is
  \<^verbatim>\<open>var_os\<close>, \<open>rt_stdin n\<close> standard input read to its end or to \<open>n\<close> bytes, \<open>rt_answer\<close> the response
  written to standard output.
\<close>

record 'w runtime_os =
  rt_host :: "'w host_os"
  rt_join :: "string \<Rightarrow> string \<Rightarrow> string"
  rt_lossy :: "string \<Rightarrow> string" \<comment> \<open>\<^verbatim>\<open>to_string_lossy\<close> of a path\<close>
  rt_open :: "string \<Rightarrow> 'w \<Rightarrow> nat option \<times> 'w"
  rt_metadata :: "nat \<Rightarrow> 'w \<Rightarrow> (path_kind \<times> u64) option \<times> 'w"
  rt_read :: "nat \<Rightarrow> 'w \<Rightarrow> bytes option \<times> 'w"
  rt_env :: "string \<Rightarrow> 'w \<Rightarrow> string option \<times> 'w"
  rt_stdin :: "nat \<Rightarrow> 'w \<Rightarrow> bytes option \<times> 'w"
  rt_answer :: "runtime_response \<Rightarrow> 'w \<Rightarrow> bool \<times> 'w"

text \<open>The module \<^verbatim>\<open>platform\<close> that was compiled in.\<close>

record 'w runtime_platform =
  rp_key :: string
  rp_execute :: "validated_request \<Rightarrow> (string, 'w, native_result) eff"
  rp_deprovision :: "validated_request \<Rightarrow> (string, 'w, unit) eff"

section \<open>Identifiers\<close>

definition rt_attempt_id :: "string \<Rightarrow> bool" where
  "rt_attempt_id value \<longleftrightarrow> length value = 37 \<and> starts_with value ''tsa1_'' \<and> lower_hex (drop 5 value)"

definition rt_label :: "string \<Rightarrow> bool" where
  "rt_label part \<longleftrightarrow> part \<noteq> [] \<and> length part \<le> 63
     \<and> list_all (\<lambda>c. is_lower c \<or> is_digit c \<or> c = CHR ''-'') part
     \<and> hd part \<noteq> CHR ''-'' \<and> last part \<noteq> CHR ''-''"

definition rt_plugin_id :: "string \<Rightarrow> bool" where
  "rt_plugin_id value \<longleftrightarrow> 3 \<le> length value \<and> length value \<le> 128
     \<and> length (split_on CHR ''.'' value) \<ge> 3 \<and> list_all rt_label (split_on CHR ''.'' value)"

definition rt_release_id :: "string \<Rightarrow> bool" where
  "rt_release_id value \<longleftrightarrow> length value = 69 \<and> starts_with value ''tsr1_'' \<and> lower_hex (drop 5 value)"

definition rt_digest :: "string \<Rightarrow> bool" where
  "rt_digest value \<longleftrightarrow> length value = 71 \<and> starts_with value ''sha256:'' \<and> lower_hex (drop 7 value)"

definition runtime_engine :: fuzz_engine where
  "runtime_engine = \<lparr>fe_id = ''com.tokensaver.plugin-runtime'', fe_version = ''1.0.0'',
     fe_active_sanitizers = [''undefined'']\<rparr>"

section \<open>Checks against the files\<close>

definition rt_canonical_file :: "'w runtime_os \<Rightarrow> string \<Rightarrow> (string, 'w, string) eff" where
  "rt_canonical_file ro path =
     bindW (callE ''path'' (ho_canonicalize (rt_host ro) path)) (\<lambda>canonical.
     bindW (ensure (ho_absolute (rt_host ro) canonical) ''path'') (\<lambda>_.
     bindW (readW (ho_kind (rt_host ro) canonical)) (\<lambda>kind.
     bindW (ensure (kind = Some RegularFile) ''path'') (\<lambda>_. returnW canonical))))"

definition rt_canonical_directory :: "'w runtime_os \<Rightarrow> string \<Rightarrow> (string, 'w, string) eff" where
  "rt_canonical_directory ro path =
     bindW (callE ''path'' (ho_canonicalize (rt_host ro) path)) (\<lambda>canonical.
     bindW (ensure (ho_absolute (rt_host ro) canonical) ''path'') (\<lambda>_.
     bindW (readW (ho_kind (rt_host ro) canonical)) (\<lambda>kind.
     bindW (ensure (kind = Some Directory) ''path'') (\<lambda>_. returnW canonical))))"

text \<open>
  The loop of \<^verbatim>\<open>digest_file\<close>, with the bytes read so far; the hash of the chunks one after the other
  is the hash of their concatenation. It ends because each chunk brings the total nearer its bound.
\<close>

function digest_loop :: "'w runtime_os \<Rightarrow> nat \<Rightarrow> bytes \<Rightarrow> 'w \<Rightarrow> (string + bytes) \<times> 'w" where
  "digest_loop ro fd acc w =
    (case rt_read ro fd w of
       (None, w') \<Rightarrow> (Inl ''identity'', w')
     | (Some chunk, w') \<Rightarrow>
         if chunk = [] then (Inr acc, w')
         else if length acc + length chunk > rt_max_identity_bytes then (Inl ''identity'', w')
         else digest_loop ro fd (acc @ chunk) w')"
  by auto
termination
  by (relation "measure (\<lambda>(ro, fd, acc, w). rt_max_identity_bytes - length acc)")
     (auto simp: length_greater_0_conv [symmetric] simp del: length_greater_0_conv)

declare digest_loop.simps [simp del]

definition digest_file :: "deps \<Rightarrow> 'w runtime_os \<Rightarrow> string \<Rightarrow> (string, 'w, string) eff" where
  "digest_file d ro path =
     bindW (callE ''identity'' (rt_open ro path)) (\<lambda>fd.
     bindW (callE ''identity'' (rt_metadata ro fd)) (\<lambda>(kind, len).
     bindW (ensure (\<not> (kind \<noteq> RegularFile \<or> len = 0 \<or> unat len > rt_max_identity_bytes)) ''identity'') (\<lambda>_.
     bindW (digest_loop ro fd []) (\<lambda>data.
     bindW (ensure (length data = unat len) ''identity'') (\<lambda>_.
       returnW (sha256_digest d data))))))"

definition rt_request_ok :: "string \<Rightarrow> runtime_request \<Rightarrow> bool" where
  "rt_request_ok key q \<longleftrightarrow>
     \<not> (rq_schema_version q \<noteq> rt_schema_version
        \<or> (rq_operation q \<noteq> ''execute'' \<and> rq_operation q \<noteq> ''deprovision'')
        \<or> \<not> rt_attempt_id (rq_attempt_id q) \<or> \<not> rt_plugin_id (rq_plugin_id q)
        \<or> \<not> rt_release_id (rq_release_id q) \<or> rq_platform q \<noteq> key
        \<or> \<not> rt_digest (rq_package_digest q) \<or> \<not> rt_digest (rq_artifact_digest q)
        \<or> rq_deadline_ms q = 0 \<or> rq_deadline_ms q > rt_max_deadline_ms
        \<or> rq_memory_bytes q = 0 \<or> rq_memory_bytes q > rt_max_memory_bytes
        \<or> rq_stdout_bytes q = 0 \<or> rq_stdout_bytes q > rt_max_stdout_bytes
        \<or> rq_stderr_bytes q = 0 \<or> rq_stderr_bytes q > rt_max_stderr_bytes
        \<or> length (rq_arguments q) > rt_max_arguments
        \<or> list_ex (\<lambda>v. length v > rt_max_argument_bytes \<or> CHR 0x00 \<in> set v) (rq_arguments q))"

definition rt_validate ::
  "deps \<Rightarrow> 'w runtime_os \<Rightarrow> string \<Rightarrow> runtime_request \<Rightarrow> (string, 'w, validated_request) eff" where
  "rt_validate d ro key q =
    (let within = ho_within (rt_host ro)
     in bindW (ensure (rt_request_ok key q) ''request_invalid'') (\<lambda>_.
        bindW (liftW (case b64_decode d (rq_input q) of None \<Rightarrow> Inl ''input_base64'' | Some x \<Rightarrow> Inr x)) (\<lambda>data.
        bindW (ensure (\<not> (data = [] \<or> length data > rt_max_input_bytes)) ''input_size'') (\<lambda>_.
        bindW (rt_canonical_file ro (rq_executable_path q)) (\<lambda>exe.
        bindW (rt_canonical_directory ro (rq_release_path q)) (\<lambda>release.
        bindW (rt_canonical_directory ro (rq_work_path q)) (\<lambda>work.
        bindW (ensure (within exe release \<and> \<not> within work release \<and> \<not> within release work)
          ''identity'') (\<lambda>_.
        bindW (digest_file d ro exe) (\<lambda>artifact.
        bindW (ensure (artifact = rq_artifact_digest q) ''identity'') (\<lambda>_.
        bindW (digest_file d ro (rt_join ro release ''package.tsplug'')) (\<lambda>package.
        bindW (ensure (package = rq_package_digest q) ''identity'') (\<lambda>_.
          returnW \<lparr>vr_request = q, vr_executable = exe, vr_release = release, vr_work = work,
            vr_input = data\<rparr>))))))))))))"

section \<open>The run\<close>

definition exit_of :: "native_termination \<Rightarrow> u32 \<times> bool \<times> bool" where
  "exit_of t = (case t of
     Exited code \<Rightarrow> (code, False, False)
   | DeadlineKilled \<Rightarrow> (-1, True, False)
   | MemoryLimitKilled \<Rightarrow> (-1, False, True)
   | Signaled _ \<Rightarrow> (-1, False, False)
   | Exception _ \<Rightarrow> (-1, False, False))"

definition runtime_observation_of :: "deps \<Rightarrow> runtime_request \<Rightarrow> native_result \<Rightarrow> runtime_observation" where
  "runtime_observation_of d q nr =
    (case exit_of (nr_termination nr) of (code, late, oom) \<Rightarrow>
       \<lparr>ro_platform = rq_platform q, ro_attempt_id = rq_attempt_id q,
        ro_artifact_digest = rq_artifact_digest q, ro_backend_id = nr_backend_id nr,
        ro_policy_digest = nr_policy_digest nr, ro_stdout = b64_encode d (nr_stdout nr),
        ro_stderr = b64_encode d (nr_stderr nr), ro_exit_code = code,
        ro_duration_ms = nr_duration_ms nr, ro_peak_memory_bytes = nr_peak_memory_bytes nr,
        ro_process_reaped = nr_process_reaped nr, ro_deadline_exceeded = late,
        ro_memory_limit_exceeded = oom, ro_stdout_limit_exceeded = nr_stdout_limit_exceeded nr,
        ro_stderr_limit_exceeded = nr_stderr_limit_exceeded nr\<rparr>)"

definition ok_response :: "runtime_observation option \<Rightarrow> runtime_response" where
  "ok_response ob = \<lparr>rr_schema_version = rt_schema_version, rr_ok = True, rr_error = None,
     rr_observation = ob\<rparr>"

text \<open>\<open>parse\<close> is \<^verbatim>\<open>serde_json::from_slice\<close> of the request.\<close>

definition runtime_run ::
  "deps \<Rightarrow> (bytes \<Rightarrow> runtime_request option) \<Rightarrow> 'w runtime_os \<Rightarrow> 'w runtime_platform
     \<Rightarrow> (string, 'w, runtime_response) eff" where
  "runtime_run d parse ro p =
     bindW (callE ''request_read'' (rt_stdin ro (rt_max_request_bytes + 1))) (\<lambda>bytes.
     bindW (ensure (\<not> (bytes = [] \<or> length bytes > rt_max_request_bytes)) ''request_size'') (\<lambda>_.
     bindW (liftW (case parse bytes of None \<Rightarrow> Inl ''request_json'' | Some q \<Rightarrow> Inr q)) (\<lambda>q.
     bindW (rt_validate d ro (rp_key p) q) (\<lambda>v.
       if rq_operation (vr_request v) = ''deprovision''
       then bindW (rp_deprovision p v) (\<lambda>_. returnW (ok_response None))
       else bindW (rp_execute p v) (\<lambda>nr.
         returnW (ok_response (Some (runtime_observation_of d (vr_request v) nr))))))))"

text \<open>\<^verbatim>\<open>main\<close>: every failure is answered; the exit code is 2 when the answer cannot be written.\<close>

definition runtime_main ::
  "deps \<Rightarrow> (bytes \<Rightarrow> runtime_request option) \<Rightarrow> 'w runtime_os \<Rightarrow> 'w runtime_platform
     \<Rightarrow> 'w \<Rightarrow> nat \<times> 'w" where
  "runtime_main d parse ro p w =
    (case runtime_run d parse ro p w of
       (r, w') \<Rightarrow>
         (let response = (case r of
              Inr x \<Rightarrow> x
            | Inl code \<Rightarrow> \<lparr>rr_schema_version = rt_schema_version, rr_ok = False,
                rr_error = Some code, rr_observation = None\<rparr>)
          in case rt_answer ro response w' of (written, w'') \<Rightarrow> (if written then 0 else 2, w'')))"

end
