(* ===== verification/Runtime_Platform.thy ===== *)
theory Runtime_Platform
  imports Runtime
begin

text \<open>
  tools/tsp-runtime-host/src/platform.rs: the runtime host's use of the three confinement kernels.
  Calls into the operating system (environment, kernels, AppContainer profiles, \<^verbatim>\<open>icacls\<close>) act on the
  world; the release of memory that Windows allocated is left out.
\<close>

section \<open>All platforms\<close>

datatype target_arch = X86_64 | Aarch64 | OtherArch

definition runtime_platform_key :: "native_platform \<Rightarrow> target_arch \<Rightarrow> string" where
  "runtime_platform_key p a =
    (let os = (case p of Linux \<Rightarrow> ''linux'' | Macos \<Rightarrow> ''darwin'' | Windows \<Rightarrow> ''windows'')
     in case a of X86_64 \<Rightarrow> os @ ''-x64'' | Aarch64 \<Rightarrow> os @ ''-arm64'' | OtherArch \<Rightarrow> ''unsupported'')"

text \<open>\<^verbatim>\<open>map_err\<close> of a step.\<close>

definition map_errW :: "'e \<Rightarrow> ('f, 'w, 'a) eff \<Rightarrow> ('e, 'w, 'a) eff" where
  "map_errW e m w = (case m w of (Inl _, w') \<Rightarrow> (Inl e, w') | (Inr x, w') \<Rightarrow> (Inr x, w'))"

lemma map_errW_Inr [io_simps]: "map_errW e m w = (Inr x, w') \<longleftrightarrow> m w = (Inr x, w')"
  by (auto simp: map_errW_def split: prod.splits sum.splits)

definition native_result_of :: "string \<Rightarrow> string \<Rightarrow> kernel_observation \<Rightarrow> native_result" where
  "native_result_of backend policy ob = \<lparr>nr_backend_id = backend, nr_policy_digest = policy,
     nr_termination = ko_termination ob, nr_stdout = ko_stdout ob, nr_stderr = ko_stderr ob,
     nr_duration_ms = ko_duration_ms ob, nr_peak_memory_bytes = ko_peak_memory_bytes ob,
     nr_stdout_limit_exceeded = ko_stdout_limit_exceeded ob,
     nr_stderr_limit_exceeded = ko_stderr_limit_exceeded ob, nr_process_reaped = ko_process_reaped ob\<rparr>"

text \<open>\<^verbatim>\<open>required_path\<close> and \<^verbatim>\<open>required_file\<close>: a path named by the environment.\<close>

definition required_resource ::
  "'w runtime_os \<Rightarrow> path_kind \<Rightarrow> string \<Rightarrow> (string, 'w, string) eff" where
  "required_resource ro kind name =
     bindW (callE ''confinement_resource'' (rt_env ro name)) (\<lambda>v.
     bindW (callE ''confinement_resource'' (ho_canonicalize (rt_host ro) v)) (\<lambda>path.
     bindW (ensure (ho_absolute (rt_host ro) path) ''confinement_resource'') (\<lambda>_.
     bindW (readW (ho_kind (rt_host ro) path)) (\<lambda>actual.
     bindW (ensure (actual = Some kind) ''confinement_resource'') (\<lambda>_. returnW path)))))"

section \<open>Linux\<close>

definition linux_runtime_environment :: environment where
  "linux_runtime_environment = [(''HOME'', ''/nonexistent''), (''TMPDIR'', ''/work'')]"

definition linux_runtime_execution :: "linux_config \<Rightarrow> validated_request \<Rightarrow> linux_execution" where
  "linux_runtime_execution c v =
    (let q = vr_request v
     in \<lparr>lx_attempt_id = rq_attempt_id q, lx_executable = lc_executable c,
         lx_sandbox_root = lc_sandbox_root c, lx_writable_directory = lc_writable_directory c,
         lx_cgroup_parent = lc_cgroup_parent c, lx_environment = lc_environment c,
         lx_arguments = rq_arguments q, lx_input = vr_input v, lx_memory_bytes = rq_memory_bytes q,
         lx_stdout_bytes = unat (rq_stdout_bytes q), lx_stderr_bytes = unat (rq_stderr_bytes q),
         lx_deadline_ms = rq_deadline_ms q\<rparr>)"

definition linux_runtime_execute ::
  "deps \<Rightarrow> 'w runtime_os \<Rightarrow> 'w linux_kernel \<Rightarrow> validated_request \<Rightarrow> (string, 'w, native_result) eff"
where
  "linux_runtime_execute d ro k v =
     bindW (ensure (ho_within (rt_host ro) (vr_executable v) (vr_release v)) ''confinement_identity'') (\<lambda>_.
     bindW (required_resource ro Directory ''TOKENSAVER_PLUGIN_SANDBOX_ROOT'') (\<lambda>sandbox_root.
     bindW (required_resource ro Directory ''TOKENSAVER_PLUGIN_CGROUP_PARENT'') (\<lambda>cgroup_parent.
     bindW (map_errW ''confinement_config'' (linux_config_new d (rt_host ro) (vr_executable v)
         sandbox_root (vr_work v) cgroup_parent linux_runtime_environment runtime_engine)) (\<lambda>c.
     bindW (callE ''confinement_preflight'' (lk_preflight k c)) (\<lambda>_.
     bindW (callE ''confinement_execute'' (lk_execute k (linux_runtime_execution c v))) (\<lambda>ob.
       returnW (native_result_of ''com.tokensaver.native-runtime.linux'' (lc_policy_digest c) ob)))))))"

definition linux_runtime ::
  "deps \<Rightarrow> 'w runtime_os \<Rightarrow> 'w linux_kernel \<Rightarrow> target_arch \<Rightarrow> 'w runtime_platform" where
  "linux_runtime d ro k a = \<lparr>rp_key = runtime_platform_key Linux a,
     rp_execute = linux_runtime_execute d ro k, rp_deprovision = (\<lambda>_. returnW ())\<rparr>"

section \<open>macOS\<close>

definition macos_runtime_environment :: "'w runtime_os \<Rightarrow> validated_request \<Rightarrow> environment" where
  "macos_runtime_environment ro v = [(''HOME'', ''/nonexistent''), (''LC_ALL'', ''C''),
     (''PATH'', ''/usr/bin:/bin''), (''TMPDIR'', rt_lossy ro (vr_work v)), (''TOKENSAVER_PLUGIN'', ''1'')]"

definition macos_runtime_execution :: "macos_config \<Rightarrow> validated_request \<Rightarrow> macos_execution" where
  "macos_runtime_execution c v =
    (let q = vr_request v
     in \<lparr>mx_attempt_id = rq_attempt_id q, mx_executable = mc_executable c, mx_launcher = mc_launcher c,
         mx_writable_directory = mc_writable_directory c, mx_sandbox_profile = mc_sandbox_profile c,
         mx_environment = mc_environment c, mx_arguments = rq_arguments q, mx_input = vr_input v,
         mx_memory_bytes = rq_memory_bytes q, mx_stdout_bytes = unat (rq_stdout_bytes q),
         mx_stderr_bytes = unat (rq_stderr_bytes q), mx_deadline_ms = rq_deadline_ms q\<rparr>)"

definition macos_runtime_execute ::
  "deps \<Rightarrow> 'w runtime_os \<Rightarrow> 'w macos_kernel \<Rightarrow> validated_request \<Rightarrow> (string, 'w, native_result) eff"
where
  "macos_runtime_execute d ro k v =
     bindW (ensure (ho_within (rt_host ro) (vr_executable v) (vr_release v)) ''confinement_identity'') (\<lambda>_.
     bindW (required_resource ro RegularFile ''TOKENSAVER_PLUGIN_LIMIT_LAUNCHER'') (\<lambda>launcher.
     bindW (map_errW ''confinement_config'' (macos_config_new d (rt_host ro) (vr_executable v)
         launcher (vr_work v) (macos_runtime_environment ro v) runtime_engine)) (\<lambda>c.
     bindW (callE ''confinement_preflight'' (mk_preflight k c)) (\<lambda>_.
     bindW (callE ''confinement_execute'' (mk_execute k (macos_runtime_execution c v))) (\<lambda>ob.
       returnW (native_result_of ''com.tokensaver.native-runtime.macos'' (mc_policy_digest c) ob))))))"

definition macos_runtime ::
  "deps \<Rightarrow> 'w runtime_os \<Rightarrow> 'w macos_kernel \<Rightarrow> target_arch \<Rightarrow> 'w runtime_platform" where
  "macos_runtime d ro k a = \<lparr>rp_key = runtime_platform_key Macos a,
     rp_execute = macos_runtime_execute d ro k, rp_deprovision = (\<lambda>_. returnW ())\<rparr>"

section \<open>Windows\<close>

text \<open>
  A security identifier is a handle; \<open>wa_sid_text\<close> is \<^verbatim>\<open>ConvertSidToStringSidW\<close>, with the memory its
  answer points to. The command runs with the environment it was given and without standard streams.
\<close>

record icacls_command =
  cm_program :: string
  cm_arguments :: "string list"
  cm_environment :: environment

record 'w windows_api =
  wa_create_profile :: "16 word list \<Rightarrow> 16 word list \<Rightarrow> 16 word list \<Rightarrow> 'w \<Rightarrow> (u32 \<times> nat) \<times> 'w"
  wa_derive_sid :: "16 word list \<Rightarrow> 'w \<Rightarrow> (u32 \<times> nat option) \<times> 'w"
  wa_delete_profile :: "16 word list \<Rightarrow> 'w \<Rightarrow> u32 \<times> 'w"
  wa_sid_text :: "nat \<Rightarrow> 'w \<Rightarrow> 16 word list option \<times> 'w"
  wa_status :: "icacls_command \<Rightarrow> 'w \<Rightarrow> bool option \<times> 'w" \<comment> \<open>whether the command succeeded\<close>

text \<open>\<^verbatim>\<open>String::from_utf16\<close>: pairs of surrogates, none alone, then the UTF-8 of each character.\<close>

definition encode_scalar :: "nat \<Rightarrow> bytes" where
  "encode_scalar v =
    (if v < 128 then [char_of v]
     else if v < 2048 then [char_of (192 + v div 64), char_of (128 + v mod 64)]
     else if v < 65536 then [char_of (224 + v div 4096), char_of (128 + v div 64 mod 64), char_of (128 + v mod 64)]
     else [char_of (240 + v div 262144), char_of (128 + v div 4096 mod 64),
           char_of (128 + v div 64 mod 64), char_of (128 + v mod 64)])"

fun from_utf16 :: "nat list \<Rightarrow> bytes option" where
  "from_utf16 [] = Some []"
| "from_utf16 [u] = (if 55296 \<le> u \<and> u < 57344 then None else Some (encode_scalar u))"
| "from_utf16 (u # v # us) =
    (if u < 55296 \<or> 57344 \<le> u then map_option ((@) (encode_scalar u)) (from_utf16 (v # us))
     else if u < 56320 \<and> 56320 \<le> v \<and> v < 57344
       then map_option ((@) (encode_scalar (65536 + (u - 55296) * 1024 + (v - 56320)))) (from_utf16 us)
     else None)"

definition wide :: "'w runtime_os \<Rightarrow> string \<Rightarrow> 16 word list" where
  "wide ro value = ho_wide (rt_host ro) value @ [0]"

text \<open>The units up to the one that ends the text.\<close>

definition sid_string :: "'w windows_api \<Rightarrow> nat \<Rightarrow> (unit, 'w, string) eff" where
  "sid_string api sid =
     bindW (callE () (wa_sid_text api sid)) (\<lambda>units.
       liftW (case from_utf16 (map unat (takeWhile (\<lambda>u. u \<noteq> 0) units)) of
         None \<Rightarrow> Inl () | Some s \<Rightarrow> Inr s))"

definition derive_sid :: "'w windows_api \<Rightarrow> 'w runtime_os \<Rightarrow> string \<Rightarrow> (unit, 'w, string) eff" where
  "derive_sid api ro name =
     bindW (readW (wa_derive_sid api (wide ro name))) (\<lambda>(result, sid).
       case sid of
         None \<Rightarrow> liftW (Inl ())
       | Some s \<Rightarrow> if sint result < 0 then liftW (Inl ()) else sid_string api s)"

definition ensure_profile :: "'w windows_api \<Rightarrow> 'w runtime_os \<Rightarrow> string \<Rightarrow> (unit, 'w, string) eff" where
  "ensure_profile api ro name =
     bindW (readW (wa_create_profile api (wide ro name) (wide ro ''TokenSaver plugin'')
         (wide ro ''Capability-free TokenSaver plugin runtime''))) (\<lambda>(result, sid).
       if result = 0 then sid_string api sid
       else if result \<noteq> 0x800700b7 then liftW (Inl ())
       else derive_sid api ro name)"

definition profile_name :: "deps \<Rightarrow> string \<Rightarrow> string \<Rightarrow> string" where
  "profile_name d plugin release = ''com.tokensaver.plugin.''
     @ take 32 (hex (sha256 d (field ''tokensaver-windows-appcontainer-v1'' @ field plugin
         @ field release)))"

definition grant ::
  "'w windows_api \<Rightarrow> 'w runtime_os \<Rightarrow> string \<Rightarrow> string \<Rightarrow> string \<Rightarrow> (unit, 'w, unit) eff" where
  "grant api ro path sid rights =
     bindW (callE () (rt_env ro ''SYSTEMROOT'')) (\<lambda>system_root.
     let icacls = rt_join ro (rt_join ro system_root ''System32'') ''icacls.exe''
     in bindW (readW (ho_kind (rt_host ro) icacls)) (\<lambda>kind.
        bindW (ensure (kind = Some RegularFile) ()) (\<lambda>_.
        bindW (callE () (wa_status api \<lparr>cm_program = icacls,
            cm_arguments = [path, ''/grant:r'', ''*'' @ sid @ '':'' @ rights],
            cm_environment = [(''SYSTEMROOT'', system_root)]\<rparr>)) (\<lambda>success.
          ensure success ()))))"

text \<open>\<^verbatim>\<open>std::env::var\<close>: set, and text.\<close>

definition env_text :: "'w runtime_os \<Rightarrow> string \<Rightarrow> (string, 'w, string) eff" where
  "env_text ro name =
     bindW (callE ''confinement_environment'' (rt_env ro name)) (\<lambda>v.
     bindW (ensure (is_utf8 v) ''confinement_environment'') (\<lambda>_. returnW v))"

definition windows_runtime_environment ::
  "'w runtime_os \<Rightarrow> validated_request \<Rightarrow> string \<Rightarrow> string \<Rightarrow> environment" where
  "windows_runtime_environment ro v system_drive system_root =
    (let work = rt_lossy ro (vr_work v)
     in [(''LOCALAPPDATA'', work), (''SYSTEMDRIVE'', system_drive), (''SYSTEMROOT'', system_root),
         (''TEMP'', work), (''TMP'', work)])"

definition windows_runtime_execution :: "windows_config \<Rightarrow> validated_request \<Rightarrow> windows_execution" where
  "windows_runtime_execution c v =
    (let q = vr_request v
     in \<lparr>wx_executable_path = wc_executable_path c, wx_working_directory = wc_working_directory c,
         wx_app_container_name = wc_app_container_name c, wx_environment = wc_environment c,
         wx_arguments = rq_arguments q, wx_input = vr_input v, wx_memory_bytes = rq_memory_bytes q,
         wx_stdout_bytes = unat (rq_stdout_bytes q), wx_stderr_bytes = unat (rq_stderr_bytes q),
         wx_deadline_ms = rq_deadline_ms q\<rparr>)"

definition windows_runtime_execute ::
  "deps \<Rightarrow> 'w runtime_os \<Rightarrow> 'w windows_api \<Rightarrow> 'w windows_kernel \<Rightarrow> validated_request
     \<Rightarrow> (string, 'w, native_result) eff" where
  "windows_runtime_execute d ro api k v =
    (let name = profile_name d (rq_plugin_id (vr_request v)) (rq_release_id (vr_request v))
     in bindW (map_errW ''confinement_profile'' (ensure_profile api ro name)) (\<lambda>sid.
        bindW (map_errW ''confinement_acl'' (grant api ro (vr_release v) sid ''(OI)(CI)RX'')) (\<lambda>_.
        bindW (map_errW ''confinement_acl'' (grant api ro (vr_work v) sid ''(OI)(CI)M'')) (\<lambda>_.
        bindW (env_text ro ''SYSTEMROOT'') (\<lambda>system_root.
        bindW (env_text ro ''SYSTEMDRIVE'') (\<lambda>system_drive.
        bindW (map_errW ''confinement_config'' (windows_config_new d (rt_host ro) (vr_executable v)
            (vr_work v) name (windows_runtime_environment ro v system_drive system_root)
            runtime_engine)) (\<lambda>c.
        bindW (callE ''confinement_preflight'' (wk_preflight k (wc_app_container_name c))) (\<lambda>_.
        bindW (callE ''confinement_execute'' (wk_execute k (windows_runtime_execution c v))) (\<lambda>ob.
          returnW (native_result_of ''com.tokensaver.native-runtime.windows'' (wc_policy_digest c)
            ob))))))))))"

definition windows_deprovision ::
  "deps \<Rightarrow> 'w runtime_os \<Rightarrow> 'w windows_api \<Rightarrow> validated_request \<Rightarrow> (string, 'w, unit) eff" where
  "windows_deprovision d ro api v =
     bindW (readW (wa_delete_profile api (wide ro
         (profile_name d (rq_plugin_id (vr_request v)) (rq_release_id (vr_request v)))))) (\<lambda>result.
       ensure (result = 0 \<or> result = 0x80070002) ''confinement_deprovision'')"

definition windows_runtime ::
  "deps \<Rightarrow> 'w runtime_os \<Rightarrow> 'w windows_api \<Rightarrow> 'w windows_kernel \<Rightarrow> target_arch \<Rightarrow> 'w runtime_platform"
where
  "windows_runtime d ro api k a = \<lparr>rp_key = runtime_platform_key Windows a,
     rp_execute = windows_runtime_execute d ro api k, rp_deprovision = windows_deprovision d ro api\<rparr>"

text \<open>Any other system.\<close>

definition unsupported_runtime :: "'w runtime_platform" where
  "unsupported_runtime = \<lparr>rp_key = ''unsupported'',
     rp_execute = (\<lambda>_. liftW (Inl ''confinement_unsupported'')),
     rp_deprovision = (\<lambda>_. liftW (Inl ''confinement_unsupported''))\<rparr>"

end
