(* ===== verification/Process_Log.thy ===== *)
theory Process_Log
  imports Drivers Runtime_Platform
begin

text \<open>
  What a driver and the runtime host do to the system, as a list of events in the order they happen:
  the files they resolve and read, and the processes their kernels run. A log beside the world records
  them; everything else is as without the log. Looking at the metadata of a path and the calls that
  make or find a Windows AppContainer profile leave no event.
\<close>

section \<open>Events\<close>

datatype process =
    LinuxProcess linux_execution
  | MacosProcess macos_execution
  | WindowsProcess windows_execution

datatype system_event =
    Requested bytes
  | Variable string string
  | Resolved string string
  | ReadFile string bytes
  | Opened string nat
  | Measured nat path_kind u64
  | Chunk nat bytes
  | Commanded icacls_command bool
  | Preflighted
  | Ran process kernel_observation

definition watched_host :: "'w host_os \<Rightarrow> ('w \<times> system_event list) host_os" where
  "watched_host os = \<lparr>
     ho_canonicalize = (\<lambda>p. noting (answered (Resolved p)) (ho_canonicalize os p)),
     ho_kind = (\<lambda>p. noting (\<lambda>_. []) (ho_kind os p)),
     ho_read = (\<lambda>p. noting (answered (ReadFile p)) (ho_read os p)),
     ho_absolute = ho_absolute os, ho_within = ho_within os, ho_parent = ho_parent os,
     ho_wide = ho_wide os\<rparr>"

definition watched_linux :: "'w linux_kernel \<Rightarrow> ('w \<times> system_event list) linux_kernel" where
  "watched_linux k = \<lparr>
     lk_preflight = (\<lambda>c. noting (answered (\<lambda>_. Preflighted)) (lk_preflight k c)),
     lk_execute = (\<lambda>x. noting (answered (Ran (LinuxProcess x))) (lk_execute k x)),
     lk_coverage = noting (\<lambda>_. []) (lk_coverage k)\<rparr>"

definition watched_macos :: "'w macos_kernel \<Rightarrow> ('w \<times> system_event list) macos_kernel" where
  "watched_macos k = \<lparr>
     mk_preflight = (\<lambda>c. noting (answered (\<lambda>_. Preflighted)) (mk_preflight k c)),
     mk_execute = (\<lambda>x. noting (answered (Ran (MacosProcess x))) (mk_execute k x)),
     mk_coverage = noting (\<lambda>_. []) (mk_coverage k)\<rparr>"

definition watched_windows :: "'w windows_kernel \<Rightarrow> ('w \<times> system_event list) windows_kernel" where
  "watched_windows k = \<lparr>
     wk_preflight = (\<lambda>c. noting (answered (\<lambda>_. Preflighted)) (wk_preflight k c)),
     wk_execute = (\<lambda>x. noting (answered (Ran (WindowsProcess x))) (wk_execute k x)),
     wk_coverage = noting (\<lambda>_. []) (wk_coverage k)\<rparr>"

definition watched_api :: "'w windows_api \<Rightarrow> ('w \<times> system_event list) windows_api" where
  "watched_api api = \<lparr>
     wa_create_profile = (\<lambda>a b c. noting (\<lambda>_. []) (wa_create_profile api a b c)),
     wa_derive_sid = (\<lambda>a. noting (\<lambda>_. []) (wa_derive_sid api a)),
     wa_delete_profile = (\<lambda>a. noting (\<lambda>_. []) (wa_delete_profile api a)),
     wa_sid_text = (\<lambda>a. noting (\<lambda>_. []) (wa_sid_text api a)),
     wa_status = (\<lambda>c. noting (answered (Commanded c)) (wa_status api c))\<rparr>"

definition watched_os :: "'w runtime_os \<Rightarrow> ('w \<times> system_event list) runtime_os" where
  "watched_os ro = \<lparr>rt_host = watched_host (rt_host ro), rt_join = rt_join ro, rt_lossy = rt_lossy ro,
     rt_open = (\<lambda>p. noting (answered (Opened p)) (rt_open ro p)),
     rt_metadata = (\<lambda>fd. noting (answered (\<lambda>(kind, len). Measured fd kind len)) (rt_metadata ro fd)),
     rt_read = (\<lambda>fd. noting (answered (Chunk fd)) (rt_read ro fd)),
     rt_env = (\<lambda>name. noting (answered (Variable name)) (rt_env ro name)),
     rt_stdin = (\<lambda>n. noting (answered Requested) (rt_stdin ro n)),
     rt_answer = (\<lambda>r. noting (\<lambda>_. []) (rt_answer ro r))\<rparr>"

lemma watched_host_simps [simp]:
  "ho_canonicalize (watched_host os) = (\<lambda>p. noting (answered (Resolved p)) (ho_canonicalize os p))"
  "ho_kind (watched_host os) = (\<lambda>p. noting (\<lambda>_. []) (ho_kind os p))"
  "ho_read (watched_host os) = (\<lambda>p. noting (answered (ReadFile p)) (ho_read os p))"
  "ho_absolute (watched_host os) = ho_absolute os" "ho_within (watched_host os) = ho_within os"
  "ho_parent (watched_host os) = ho_parent os" "ho_wide (watched_host os) = ho_wide os"
  by (simp_all add: watched_host_def)

lemma watched_kernel_simps [simp]:
  "lk_preflight (watched_linux lk) = (\<lambda>c. noting (answered (\<lambda>_. Preflighted)) (lk_preflight lk c))"
  "lk_execute (watched_linux lk) = (\<lambda>x. noting (answered (Ran (LinuxProcess x))) (lk_execute lk x))"
  "mk_preflight (watched_macos mk) = (\<lambda>c. noting (answered (\<lambda>_. Preflighted)) (mk_preflight mk c))"
  "mk_execute (watched_macos mk) = (\<lambda>x. noting (answered (Ran (MacosProcess x))) (mk_execute mk x))"
  "wk_preflight (watched_windows wk) = (\<lambda>c. noting (answered (\<lambda>_. Preflighted)) (wk_preflight wk c))"
  "wk_execute (watched_windows wk) = (\<lambda>x. noting (answered (Ran (WindowsProcess x))) (wk_execute wk x))"
  by (simp_all add: watched_linux_def watched_macos_def watched_windows_def)

lemma watched_api_simps [simp]:
  "wa_create_profile (watched_api api) = (\<lambda>a b c. noting (\<lambda>_. []) (wa_create_profile api a b c))"
  "wa_derive_sid (watched_api api) = (\<lambda>a. noting (\<lambda>_. []) (wa_derive_sid api a))"
  "wa_delete_profile (watched_api api) = (\<lambda>a. noting (\<lambda>_. []) (wa_delete_profile api a))"
  "wa_sid_text (watched_api api) = (\<lambda>a. noting (\<lambda>_. []) (wa_sid_text api a))"
  "wa_status (watched_api api) = (\<lambda>c. noting (answered (Commanded c)) (wa_status api c))"
  by (simp_all add: watched_api_def)

lemma watched_os_simps [simp]:
  "rt_host (watched_os ro) = watched_host (rt_host ro)" "rt_join (watched_os ro) = rt_join ro"
  "rt_lossy (watched_os ro) = rt_lossy ro"
  "rt_open (watched_os ro) = (\<lambda>p. noting (answered (Opened p)) (rt_open ro p))"
  "rt_metadata (watched_os ro)
     = (\<lambda>fd. noting (answered (\<lambda>(kind, len). Measured fd kind len)) (rt_metadata ro fd))"
  "rt_read (watched_os ro) = (\<lambda>fd. noting (answered (Chunk fd)) (rt_read ro fd))"
  "rt_env (watched_os ro) = (\<lambda>name. noting (answered (Variable name)) (rt_env ro name))"
  "rt_stdin (watched_os ro) = (\<lambda>n. noting (answered Requested) (rt_stdin ro n))"
  by (simp_all add: watched_os_def)

section \<open>The watched drivers are the drivers\<close>

lemma shadows_driver_runs:
  "shadows (linux_execute d (watched_host os) (watched_linux lk) lc x) (linux_execute d os lk lc x)"
  "shadows (macos_execute d (watched_host os) (watched_macos mk) mc x) (macos_execute d os mk mc x)"
  "shadows (windows_execute d (watched_host os) (watched_windows wk) wc x) (windows_execute d os wk wc x)"
  unfolding linux_execute_def macos_execute_def windows_execute_def linux_preflight_def
    macos_preflight_def windows_preflight_def linux_verify_artifact_def macos_verify_artifact_def
    macos_digest_file_def windows_verify_artifact_def ensure_def Let_def watched_host_simps
    watched_kernel_simps
  by (auto intro!: shadow_rules split: prod.splits)

text \<open>The process a driver asks its kernel for.\<close>

definition linux_process :: "linux_config \<Rightarrow> string \<Rightarrow> execution \<Rightarrow> process" where
  "linux_process c attempt q = LinuxProcess
     \<lparr>lx_attempt_id = attempt, lx_executable = lc_executable c,
      lx_sandbox_root = lc_sandbox_root c, lx_writable_directory = lc_writable_directory c,
      lx_cgroup_parent = lc_cgroup_parent c, lx_environment = lc_environment c,
      lx_arguments = [], lx_input = xq_input q, lx_memory_bytes = fl_memory_bytes (xq_limits q),
      lx_stdout_bytes = unat (fl_stdout_bytes (xq_limits q)),
      lx_stderr_bytes = unat (fl_stderr_bytes (xq_limits q)), lx_deadline_ms = xq_deadline_ms q\<rparr>"

definition macos_process :: "macos_config \<Rightarrow> string \<Rightarrow> execution \<Rightarrow> process" where
  "macos_process c attempt q = MacosProcess
     \<lparr>mx_attempt_id = attempt, mx_executable = mc_executable c, mx_launcher = mc_launcher c,
      mx_writable_directory = mc_writable_directory c, mx_sandbox_profile = mc_sandbox_profile c,
      mx_environment = mc_environment c, mx_arguments = [], mx_input = xq_input q,
      mx_memory_bytes = fl_memory_bytes (xq_limits q),
      mx_stdout_bytes = unat (fl_stdout_bytes (xq_limits q)),
      mx_stderr_bytes = unat (fl_stderr_bytes (xq_limits q)), mx_deadline_ms = xq_deadline_ms q\<rparr>"

definition windows_process :: "windows_config \<Rightarrow> execution \<Rightarrow> process" where
  "windows_process c q = WindowsProcess
     \<lparr>wx_executable_path = wc_executable_path c, wx_working_directory = wc_working_directory c,
      wx_app_container_name = wc_app_container_name c, wx_environment = wc_environment c,
      wx_arguments = [], wx_input = xq_input q, wx_memory_bytes = fl_memory_bytes (xq_limits q),
      wx_stdout_bytes = unat (fl_stdout_bytes (xq_limits q)),
      wx_stderr_bytes = unat (fl_stderr_bytes (xq_limits q)), wx_deadline_ms = xq_deadline_ms q\<rparr>"

text \<open>What is passed on about a process: the kernel's observation of it, which says it was reaped.\<close>

definition observed_run :: "string \<Rightarrow> native_profile \<Rightarrow> kernel_observation \<Rightarrow> native_observation \<Rightarrow> bool" where
  "observed_run attempt p kob ob \<longleftrightarrow>
     ko_process_reaped kob \<and> (\<exists>failing. ob = observation_of attempt p failing kob)"

lemma linux_events:
  assumes "linux_execute d (watched_host os) (watched_linux k) c (attempt, q) (w, []) = (Inr ob, (w', es))"
  shows "\<exists>data kob. es = [Preflighted, ReadFile (lc_executable c) data, Ran (linux_process c attempt q) kob]
    \<and> sha256_digest d data = sj_artifact_digest (xq_subject q)
    \<and> observed_run attempt (linux_profile c) kob ob"
  using assms
  by (auto simp: linux_execute_def linux_preflight_def linux_verify_artifact_def Let_def io_simps
      noting_eq observed_run_def kernel_observation_ok_def linux_process_def)

lemma macos_events:
  assumes "macos_execute d (watched_host os) (watched_macos k) c (attempt, q) (w, []) = (Inr ob, (w', es))"
  shows "\<exists>first launcher data kob. es = [ReadFile (mc_executable c) first,
        ReadFile (mc_launcher c) launcher, Preflighted, ReadFile (mc_executable c) data,
        Ran (macos_process c attempt q) kob]
    \<and> sha256_digest d first = mc_executable_digest c \<and> sha256_digest d launcher = mc_launcher_digest c
    \<and> sha256_digest d data = sj_artifact_digest (xq_subject q)
    \<and> observed_run attempt (macos_profile c) kob ob"
  using assms
  by (auto simp: macos_execute_def macos_preflight_def macos_verify_artifact_def macos_digest_file_def
      Let_def io_simps noting_eq observed_run_def kernel_observation_ok_def macos_process_def)

lemma windows_events:
  assumes "windows_execute d (watched_host os) (watched_windows k) c (attempt, q) (w, []) = (Inr ob, (w', es))"
  shows "\<exists>data kob. es = [Preflighted, ReadFile (wc_executable_path c) data, Ran (windows_process c q) kob]
    \<and> sha256_digest d data = sj_artifact_digest (xq_subject q)
    \<and> observed_run attempt (windows_profile c) kob ob"
  using assms
  by (auto simp: windows_execute_def windows_preflight_def windows_verify_artifact_def Let_def io_simps
      noting_eq observed_run_def kernel_observation_ok_def windows_process_def)

end
