(* ===== verification/Native.thy ===== *)
theory Native
  imports Process_Log
begin

text \<open>
  The properties of the native confinement drivers, with a host, a kernel and a configuration for
  each platform on which they run.
\<close>

section \<open>Concrete configurations\<close>

definition demo_native_engine :: fuzz_engine where
  "demo_native_engine = \<lparr>fe_id = ''clang.libfuzzer'', fe_version = ''1.2.3'',
     fe_active_sanitizers = [''address'', ''undefined'']\<rparr>"

text \<open>\<open>/r\<close> holds the plugin and the launcher; the directories are \<open>/w\<close> and \<open>/c\<close>.\<close>

definition demo_host_os :: "unit host_os" where
  "demo_host_os = \<lparr>ho_canonicalize = (\<lambda>p. Pair (Some p)),
     ho_kind = (\<lambda>p. Pair (Some (if p \<in> {''/r'', ''/w'', ''/c''} then Directory else RegularFile))),
     ho_read = (\<lambda>_. Pair (Some ''exe'')), ho_absolute = (\<lambda>_. True),
     ho_within = (\<lambda>p q. starts_with p q), ho_parent = (\<lambda>_. Some ''/r''),
     ho_wide = map (\<lambda>c. word_of_nat (ord c))\<rparr>"

definition demo_kernel_observation :: kernel_observation where
  "demo_kernel_observation = \<lparr>ko_termination = Exited 0, ko_stdout = ''ok'', ko_stderr = [],
     ko_duration_ms = 4, ko_peak_memory_bytes = 4096, ko_stdout_limit_exceeded = False,
     ko_stderr_limit_exceeded = False, ko_process_reaped = True\<rparr>"

definition demo_linux_kernel :: "unit linux_kernel" where
  "demo_linux_kernel = \<lparr>lk_preflight = (\<lambda>_. Pair (Some ())),
     lk_execute = (\<lambda>_. Pair (Some demo_kernel_observation)), lk_coverage = Pair (Some 7500)\<rparr>"

lemma demo_host_calls:
  "ho_canonicalize demo_host_os p () = (Some p, ())"
  "ho_kind demo_host_os p () = (Some (if p \<in> {''/r'', ''/w'', ''/c''} then Directory else RegularFile), ())"
  "ho_read demo_host_os p () = (Some ''exe'', ())" "ho_absolute demo_host_os p"
  "ho_within demo_host_os p q = starts_with p q"
  by (simp_all add: demo_host_os_def)

lemma demo_native_engine_ok: "engine_ok demo_native_engine"
  by (simp add: engine_ok_def demo_native_engine_def driver_token_def driver_version_def Let_def
      version_part_def supported_sanitizer_def is_alnum_def is_digit_def is_lower_def is_upper_def
      starts_with_def)

lemma demo_linux_config:
  "\<exists>c. linux_config_new demo_deps demo_host_os ''/r/p'' ''/r'' ''/w'' ''/c'' [(''HOME'', ''/none'')]
     demo_native_engine () = (Inr c, ())"
proof -
  have "linux_validate_environment [(''HOME'', ''/none'')] = Inr [(''HOME'', ''/none'')]" by code_simp
  then show ?thesis
    using demo_native_engine_ok validate_engines(1) [of demo_native_engine]
    by (simp add: linux_config_new_def linux_canonical_def bindW_def callE_def ensure_def liftW_def
        returnW_def demo_host_calls starts_with_def)
qed

lemma demo_sandbox_profile:
  "\<exists>profile. make_sandbox_profile demo_host_os ''/r/p'' ''/r/l'' ''/w'' = Inr profile"
  "\<exists>profile. make_sandbox_profile demo_host_os (''/r/p'' @ [CHR 0x22, CHR 0x29]) ''/r/l'' ''/w'' = Inr profile"
proof -
  have utf8: "is_utf8 ''/r''" "is_utf8 ''/r/p''" "is_utf8 ''/r/l''" "is_utf8 ''/w''"
    "is_utf8 (''/r/p'' @ [CHR 0x22, CHR 0x29])"
    by (rule is_utf8_ascii; simp add: ascii_def)+
  then have "make_sandbox_profile demo_host_os ''/r/p'' ''/r/l'' ''/w'' \<noteq> Inl e"
    "make_sandbox_profile demo_host_os (''/r/p'' @ [CHR 0x22, CHR 0x29]) ''/r/l'' ''/w'' \<noteq> Inl e" for e
    by (simp_all add: make_sandbox_profile_def parent_literal_def sandbox_literal_def demo_host_os_def
        replace_char_def bindR_def Let_def profile_text_def clause_def quoted_def)
  then show "\<exists>profile. make_sandbox_profile demo_host_os ''/r/p'' ''/r/l'' ''/w'' = Inr profile"
    "\<exists>profile. make_sandbox_profile demo_host_os (''/r/p'' @ [CHR 0x22, CHR 0x29]) ''/r/l'' ''/w'' = Inr profile"
    by (metis sum.exhaust)+
qed

definition demo_lc :: "string \<Rightarrow> linux_config" where
  "demo_lc writable = \<lparr>lc_executable = ''/r/p'', lc_sandbox_root = ''/r'', lc_writable_directory = writable,
     lc_cgroup_parent = ''/c'', lc_environment = [(''HOME'', ''/none'')], lc_engine = demo_native_engine,
     lc_policy_digest = make_linux_policy_digest demo_deps ''/r/p'' ''/r'' writable ''/c''
       [(''HOME'', ''/none'')] demo_native_engine\<rparr>"

definition demo_mc :: macos_config where
  "demo_mc = \<lparr>mc_executable = ''/r/p'', mc_launcher = ''/r/l'', mc_writable_directory = ''/w'',
     mc_environment = [], mc_engine = demo_native_engine, mc_executable_digest = ''d'',
     mc_launcher_digest = ''e'', mc_sandbox_profile = ''p'',
     mc_policy_digest = make_macos_policy_digest demo_deps ''/r/p'' ''/r/l'' ''/w'' [] demo_native_engine
       ''d'' ''e'' ''p''\<rparr>"

definition demo_wc :: windows_config where
  "demo_wc = \<lparr>wc_executable_path = ''/r/p'', wc_working_directory = ''/w'',
     wc_app_container_name = ''plugin'', wc_environment = [], wc_engine = demo_native_engine,
     wc_policy_digest = windows_policy_digest demo_deps demo_host_os ''/r/p'' ''/w'' ''plugin'' []
       demo_native_engine\<rparr>"

lemma field_ok_wide: "length p \<le> 10 \<Longrightarrow> field_ok (wide_path_bytes demo_host_os p)"
proof -
  assume p: "length p \<le> 10"
  have "length (concat (map (\<lambda>u :: 16 word. le 2 (unat u)) us)) = 2 * length us" for us
    by (induction us) simp_all
  from this [of "ho_wide demo_host_os p"] have "length (wide_path_bytes demo_host_os p) = 2 * length p"
    by (simp add: wide_path_bytes_def) (simp add: demo_host_os_def)
  with p show ?thesis by (simp add: field_ok_def)
qed

lemma demo_configs_ok:
  "length x \<le> 9 \<Longrightarrow> linux_config_ok demo_deps (demo_lc x) \<and> list_all field_ok (linux_fields (demo_lc x))"
  "macos_config_ok demo_deps demo_mc \<and> list_all field_ok (macos_fields demo_mc)"
  "windows_config_ok demo_deps demo_host_os demo_wc \<and> list_all field_ok (windows_fields demo_host_os demo_wc)"
  using demo_native_engine_ok field_ok_wide [of "''/r/p''"] field_ok_wide [of "''/w''"]
  by (simp_all add: linux_config_ok_def demo_lc_def environment_ok_def linux_env_allowlist_def
      environment_bytes_def linux_fields_def env_fields_def field_ok_def linux_policy_def
      demo_native_engine_def macos_config_ok_def demo_mc_def macos_fields_def macos_policy_def
      windows_config_ok_def demo_wc_def windows_fields_def windows_policy_def policy_line_def)

definition demo_native_execution :: execution where
  "demo_native_execution = \<lparr>xq_ordinal = 1, xq_repetition = 1, xq_case_id = ''case'',
     xq_class = ValidCase, xq_input = ''in'',
     xq_subject = \<lparr>sj_plugin_id = ''com.example.a'', sj_version = ''1.0.0'', sj_platform = ''linux-x64'',
       sj_api_version = 1, sj_artifact_digest = sha256_digest demo_deps ''exe'',
       sj_package_digest = sha256_digest demo_deps ''package'', sj_release_id = ''release''\<rparr>,
     xq_limits = \<lparr>fl_execution_ms = 10, fl_memory_bytes = 4096, fl_stdout_bytes = 64,
       fl_stderr_bytes = 64, fl_required_sanitizers = [''address'']\<rparr>,
     xq_deadline_ms = 10, xq_remaining_ms = 10\<rparr>"

definition demo_attempt :: string where "demo_attempt = ''tsa1_'' @ replicate 32 CHR ''a''"

lemma demo_linux_run:
  "\<exists>ob. linux_execute demo_deps demo_host_os demo_linux_kernel (demo_lc ''/w'')
     (demo_attempt, demo_native_execution) () = (Inr ob, ())"
proof -
  have "linux_attempt_id demo_attempt"
    by (simp add: demo_attempt_def linux_attempt_id_def starts_with_def lower_hex_def is_hexdigit_def
        is_upper_def list_all_iff)
  then have "linux_execution_ok demo_attempt demo_native_execution"
    by (simp add: linux_execution_ok_def demo_native_execution_def starts_with_def
        demo_attempt_def)
  moreover have "kernel_observation_ok demo_kernel_observation 64 64"
    by (simp add: kernel_observation_ok_def demo_kernel_observation_def)
  ultimately show ?thesis
    by (simp add: linux_execute_def linux_preflight_def linux_verify_artifact_def Let_def bindW_def
        callE_def ensure_def liftW_def returnW_def demo_host_calls demo_linux_kernel_def)
       (simp add: demo_native_execution_def)
qed

lemma demo_wide_inj: "inj (ho_wide demo_host_os)"
proof -
  have u: "unat (word_of_nat (ord c) :: 16 word) = ord c" for c
  proof -
    have "ord c < 2 ^ 16" using nat_of_char_less_256 [of c] by (rule less_trans) simp
    then show ?thesis by (simp add: unsigned_of_nat take_bit_nat_eq_self)
  qed
  have "inj (\<lambda>c. word_of_nat (ord c) :: 16 word)"
    by (rule injI) (metis u char_of_char)
  then show ?thesis by (simp add: demo_host_os_def)
qed

lemma demo_macos_config:
  "\<exists>c. macos_config_new demo_deps demo_host_os ''/r/p'' ''/r/l'' ''/w'' [] demo_native_engine () = (Inr c, ())"
proof -
  have "macos_validate_environment [] = Inr []" by code_simp
  moreover obtain profile where "make_sandbox_profile demo_host_os ''/r/p'' ''/r/l'' ''/w'' = Inr profile"
    using demo_sandbox_profile by blast
  ultimately show ?thesis
    using demo_native_engine_ok validate_engines(2) [of demo_native_engine]
    by (simp add: macos_config_new_def macos_canonical_def macos_digest_file_def bindW_def callE_def
        ensure_def liftW_def returnW_def demo_host_calls starts_with_def)
qed

lemma demo_windows_config:
  "\<exists>c. windows_config_new demo_deps demo_host_os ''/r/p'' ''/w'' ''plugin''
     [(''LOCALAPPDATA'', ''/w''), (''SYSTEMDRIVE'', ''C:''), (''SYSTEMROOT'', ''C:/Windows'')]
     demo_native_engine () = (Inr c, ())"
proof -
  let ?env = "[(''LOCALAPPDATA'', ''/w''), (''SYSTEMDRIVE'', ''C:''), (''SYSTEMROOT'', ''C:/Windows'')]"
  have "validate_app_container_name ''plugin'' = Inr ()"
    by (simp add: validate_app_container_name_def Let_def utf16_def utf16_units_def no_control_def
        is_control_def max_container_name_units_def)
  moreover have asc: "ascending (map fst ?env)" by simp
  moreover have units: "length (utf16 ''LOCALAPPDATA'') = 12" "length (utf16 ''/w'') = 2"
    "length (utf16 ''SYSTEMDRIVE'') = 11" "length (utf16 ''C:'') = 2"
    "length (utf16 ''SYSTEMROOT'') = 10" "length (utf16 ''C:/Windows'') = 10"
    by (simp_all add: utf16_def utf16_units_def)
  have upper: "to_upper c = c" if "\<not> is_lower c" for c
    using that by (simp add: to_upper_def)
  have "windows_entries ?env {} [] = Inr ?env"
    by (simp add: upper is_lower_def windows_env_names_def Let_def)
  then have "canonical_environment ?env = Inr ?env"
    using asc units
    by (simp add: canonical_environment_def bindR_def binary_search_iff environment_utf16_units_def
        sat_add_def u64_max_def fixed_environment_units_def max_environment_units_def del: map_map)
  moreover have "environment_value ?env ''LOCALAPPDATA'' = Some ''/w''"
    "environment_value ?env ''SYSTEMDRIVE'' = Some ''C:''"
    "environment_value ?env ''SYSTEMROOT'' = Some ''C:/Windows''"
    using binary_search_iff [OF asc] by (simp_all add: environment_value_def)
  moreover have "loader_drive_ok ''C:'' ''C:/Windows''" by code_simp
  ultimately show ?thesis
    using demo_native_engine_ok validate_engines(3) [of demo_native_engine]
    by (simp add: windows_config_new_def windows_canonical_file_def windows_canonical_directory_def
        validate_loader_environment_def Let_def bindW_def callE_def readW_def ensure_def liftW_def
        returnW_def demo_host_calls)
qed

lemma made_sandbox_profile:
  assumes "make_sandbox_profile os executable launcher writable = Inr profile"
  shows "\<exists>le ll lep llp lw executable_parent launcher_parent.
    split_on CHR 0x0A profile = profile_lines ll le llp lep lw @ [[]]
    \<and> ho_parent os executable = Some executable_parent \<and> ho_parent os launcher = Some launcher_parent
    \<and> (\<forall>(literal, path)\<in>{(le, executable), (ll, launcher), (lep, executable_parent),
          (llp, launcher_parent), (lw, writable)}.
         \<forall>rest. read_literal (literal @ [CHR 0x22] @ rest) = Some (path, rest))"
proof -
  from assms obtain ep lp le ll lep llp lw where parents: "ho_parent os executable = Some ep"
    "ho_parent os launcher = Some lp"
    and lits: "sandbox_literal ep = Inr lep" "sandbox_literal lp = Inr llp"
      "sandbox_literal executable = Inr le" "sandbox_literal launcher = Inr ll"
      "sandbox_literal writable = Inr lw"
    and profile: "profile = profile_text ll le llp lep lw"
    by (auto simp: make_sandbox_profile_def parent_literal_def bindR_Inr_iff Let_def
        split: option.splits if_splits)
  have no: "CHR 0x0A \<notin> set l" if "sandbox_literal path = Inr l" for path l
    using that escaped_no_newline [of path] unfolding sandbox_literal_Inr by blast
  have "list_all (\<lambda>line. CHR 0x0A \<notin> set line) (profile_lines ll le llp lep lw)"
    using lits [THEN no] by (simp add: profile_lines_def quoted_def)
  then have "split_on CHR 0x0A profile = profile_lines ll le llp lep lw @ [[]]"
    unfolding profile profile_text_lines by (rule split_lines)
  moreover have "read_literal (l @ [CHR 0x22] @ rest) = Some (path, rest)"
    if "sandbox_literal path = Inr l" for path l rest
    using that read_sandbox_literal [of path rest] unfolding sandbox_literal_Inr by simp
  ultimately show ?thesis using parents lits by blast
qed

section \<open>Properties\<close>

text \<open>C12: the three native drivers keep the promises the confinement adapter checks: a configuration
  that its constructor accepted yields a profile the adapter always pins, an engine the workbench
  accepts whenever it has the required sanitizers, and executions that fail only with a driver or an
  oracle failure or for a subject of another platform, never with a drifted profile or an invalid
  observation; a reported outcome never leaves a process unreaped, and coverage is a ratio.\<close>
theorem native_drivers_conform:
  assumes "sha256_length d"
  shows "(linux_config_new d os exe base wr cgroup env e w = (Inr lc, w') \<longrightarrow>
      honours_adapter d Linux (linux_profile lc) (linux_driver d os lk lc))
    \<and> (macos_config_new d os exe launcher wr env e w = (Inr mc, w') \<longrightarrow>
      honours_adapter d Macos (macos_profile mc) (macos_driver d os mk mc))
    \<and> (windows_config_new d os exe wr container env e w = (Inr wc, w') \<longrightarrow>
      honours_adapter d Windows (windows_profile wc) (windows_driver d os wk wc))"
  using assms
  by (intro conjI impI)
    (rule linux.honours macos.honours windows.honours,
     simp add: linux_config_new_ok macos_config_new_ok windows_config_new_ok)+

theorem native_drivers_conform_witness:
  "(\<exists>c. honours_adapter demo_deps Linux (linux_profile c) (linux_driver demo_deps demo_host_os demo_linux_kernel c))
   \<and> (\<exists>c. honours_adapter demo_deps Macos (macos_profile c) (macos_driver demo_deps demo_host_os
        \<lparr>mk_preflight = \<lambda>_. Pair (Some ()), mk_execute = \<lambda>_. Pair (Some demo_kernel_observation),
         mk_coverage = Pair (Some 1)\<rparr> c))
   \<and> (\<exists>c. honours_adapter demo_deps Windows (windows_profile c) (windows_driver demo_deps demo_host_os
        \<lparr>wk_preflight = \<lambda>_. Pair (Some ()), wk_execute = \<lambda>_. Pair (Some demo_kernel_observation),
         wk_coverage = Pair (Some 1)\<rparr> c))"
proof -
  note conform = native_drivers_conform [OF demo_deps_laws(1), where os = demo_host_os]
  obtain lc mc wc where
    "linux_config_new demo_deps demo_host_os ''/r/p'' ''/r'' ''/w'' ''/c'' [(''HOME'', ''/none'')]
     demo_native_engine () = (Inr lc, ())"
    "macos_config_new demo_deps demo_host_os ''/r/p'' ''/r/l'' ''/w'' [] demo_native_engine () = (Inr mc, ())"
    "windows_config_new demo_deps demo_host_os ''/r/p'' ''/w'' ''plugin''
     [(''LOCALAPPDATA'', ''/w''), (''SYSTEMDRIVE'', ''C:''), (''SYSTEMROOT'', ''C:/Windows'')]
     demo_native_engine () = (Inr wc, ())"
    using demo_linux_config demo_macos_config demo_windows_config by blast
  then show ?thesis
    using conform [THEN conjunct1, rule_format] conform [THEN conjunct2, THEN conjunct1, rule_format]
      conform [THEN conjunct2, THEN conjunct2, rule_format]
    by (intro conjI exI)
qed

text \<open>C30: the policy digest of a driver is the hash of a text that determines the configuration: two
  configurations that their constructors accepted have the same text only if they are equal, so two
  different policies with one digest are a SHA-256 collision.\<close>
theorem policy_digests_bind:
  assumes "\<forall>c\<in>{lc, lc'}. linux_config_ok d c \<and> list_all field_ok (linux_fields c)"
    and "\<forall>c\<in>{mc, mc'}. macos_config_ok d c \<and> list_all field_ok (macos_fields c)"
    and "\<forall>c\<in>{wc, wc'}. windows_config_ok d os c \<and> list_all field_ok (windows_fields os c)"
    and "inj (ho_wide os)"
  shows "lc_policy_digest lc = sha256_digest d (concat (map field (linux_fields lc)))
    \<and> (concat (map field (linux_fields lc)) = concat (map field (linux_fields lc')) \<longleftrightarrow> lc = lc')
    \<and> mc_policy_digest mc = sha256_digest d (concat (map field (macos_fields mc)))
    \<and> (concat (map field (macos_fields mc)) = concat (map field (macos_fields mc')) \<longleftrightarrow> mc = mc')
    \<and> wc_policy_digest wc = sha256_digest d (concat (map field (windows_fields os wc)))
    \<and> (concat (map field (windows_fields os wc)) = concat (map field (windows_fields os wc')) \<longleftrightarrow> wc = wc')"
proof (intro conjI)
  show "concat (map field (linux_fields lc)) = concat (map field (linux_fields lc')) \<longleftrightarrow> lc = lc'"
    using assms(1) concat_fields_inj linux_fields_inj by blast
  show "concat (map field (macos_fields mc)) = concat (map field (macos_fields mc')) \<longleftrightarrow> mc = mc'"
    using assms(2) concat_fields_inj macos_fields_inj by blast
  show "concat (map field (windows_fields os wc)) = concat (map field (windows_fields os wc')) \<longleftrightarrow> wc = wc'"
    using assms(3,4) concat_fields_inj windows_fields_inj by blast
qed (use assms in \<open>simp_all add: linux_config_ok_def macos_config_ok_def windows_config_ok_def
    make_linux_policy_digest_def linux_policy_preimage_def linux_fields_def
    make_macos_policy_digest_def macos_policy_preimage_def macos_fields_def
    windows_policy_digest_def windows_policy_preimage_def windows_fields_def env_fields_def\<close>)

theorem policy_digests_bind_witness:
  "concat (map field (linux_fields (demo_lc ''/w''))) \<noteq> concat (map field (linux_fields (demo_lc ''/x'')))
   \<and> mc_policy_digest demo_mc = sha256_digest demo_deps (concat (map field (macos_fields demo_mc)))
   \<and> wc_policy_digest demo_wc
       = sha256_digest demo_deps (concat (map field (windows_fields demo_host_os demo_wc)))"
proof -
  have "demo_lc ''/w'' \<noteq> demo_lc ''/x''" by (simp add: demo_lc_def)
  then show ?thesis
    using policy_digests_bind [of "demo_lc ''/w''" "demo_lc ''/x''" demo_deps demo_mc demo_mc demo_wc
        demo_wc demo_host_os] demo_configs_ok demo_wide_inj
    by simp
qed

text \<open>C13: a native driver runs what was certified, and runs it once: the reads,
  the preflight and the process executions of a successful execution, in order, are exactly these:
  on Linux and Windows the preflight, one read of the configured executable, whose bytes have the
  digest of the certified artifact, and one process; on macOS first the reads of the executable and
  the launcher with the digests of the configuration, then the preflight, the read of the executable
  with the certified digest, and one process. The process has the input, the limits and the deadline
  of the execution, no arguments, and the directories and environment of the configuration; the
  kernel reaped it, and the observation is of that run.\<close>
theorem drivers_run_certified_artifact:
  "(linux_execute d os lk lc (attempt, q) w = (Inr ob, w') \<longrightarrow>
      (\<exists>data kob. linux_execute d (watched_host os) (watched_linux lk) lc (attempt, q) (w, [])
          = (Inr ob, (w', [Preflighted, ReadFile (lc_executable lc) data,
              Ran (linux_process lc attempt q) kob]))
        \<and> sha256_digest d data = sj_artifact_digest (xq_subject q)
        \<and> observed_run attempt (linux_profile lc) kob ob))
   \<and> (macos_execute d os mk mc (attempt, q) w = (Inr ob, w') \<longrightarrow>
      (\<exists>first launcher data kob. macos_execute d (watched_host os) (watched_macos mk) mc (attempt, q) (w, [])
          = (Inr ob, (w', [ReadFile (mc_executable mc) first, ReadFile (mc_launcher mc) launcher,
              Preflighted, ReadFile (mc_executable mc) data, Ran (macos_process mc attempt q) kob]))
        \<and> sha256_digest d first = mc_executable_digest mc
        \<and> sha256_digest d launcher = mc_launcher_digest mc
        \<and> sha256_digest d data = sj_artifact_digest (xq_subject q)
        \<and> observed_run attempt (macos_profile mc) kob ob))
   \<and> (windows_execute d os wk wc (attempt, q) w = (Inr ob, w') \<longrightarrow>
      (\<exists>data kob. windows_execute d (watched_host os) (watched_windows wk) wc (attempt, q) (w, [])
          = (Inr ob, (w', [Preflighted, ReadFile (wc_executable_path wc) data,
              Ran (windows_process wc q) kob]))
        \<and> sha256_digest d data = sj_artifact_digest (xq_subject q)
        \<and> observed_run attempt (windows_profile wc) kob ob))"
proof (intro conjI impI)
  assume "linux_execute d os lk lc (attempt, q) w = (Inr ob, w')"
  from shadows_run [OF shadows_driver_runs(1) this, of "[]"] linux_events
  show "\<exists>data kob. linux_execute d (watched_host os) (watched_linux lk) lc (attempt, q) (w, [])
          = (Inr ob, (w', [Preflighted, ReadFile (lc_executable lc) data,
              Ran (linux_process lc attempt q) kob]))
        \<and> sha256_digest d data = sj_artifact_digest (xq_subject q)
        \<and> observed_run attempt (linux_profile lc) kob ob" by metis
next
  assume "macos_execute d os mk mc (attempt, q) w = (Inr ob, w')"
  from shadows_run [OF shadows_driver_runs(2) this, of "[]"] macos_events
  show "\<exists>first launcher data kob. macos_execute d (watched_host os) (watched_macos mk) mc (attempt, q) (w, [])
          = (Inr ob, (w', [ReadFile (mc_executable mc) first, ReadFile (mc_launcher mc) launcher,
              Preflighted, ReadFile (mc_executable mc) data, Ran (macos_process mc attempt q) kob]))
        \<and> sha256_digest d first = mc_executable_digest mc
        \<and> sha256_digest d launcher = mc_launcher_digest mc
        \<and> sha256_digest d data = sj_artifact_digest (xq_subject q)
        \<and> observed_run attempt (macos_profile mc) kob ob" by metis
next
  assume "windows_execute d os wk wc (attempt, q) w = (Inr ob, w')"
  from shadows_run [OF shadows_driver_runs(3) this, of "[]"] windows_events
  show "\<exists>data kob. windows_execute d (watched_host os) (watched_windows wk) wc (attempt, q) (w, [])
          = (Inr ob, (w', [Preflighted, ReadFile (wc_executable_path wc) data,
              Ran (windows_process wc q) kob]))
        \<and> sha256_digest d data = sj_artifact_digest (xq_subject q)
        \<and> observed_run attempt (windows_profile wc) kob ob" by metis
qed

theorem drivers_run_certified_artifact_witness:
  "\<exists>ob data kob. linux_execute demo_deps (watched_host demo_host_os) (watched_linux demo_linux_kernel)
       (demo_lc ''/w'') (demo_attempt, demo_native_execution) ((), [])
       = (Inr ob, ((), [Preflighted, ReadFile ''/r/p'' data,
           Ran (linux_process (demo_lc ''/w'') demo_attempt demo_native_execution) kob]))
     \<and> observed_run demo_attempt (linux_profile (demo_lc ''/w'')) kob ob"
proof -
  obtain ob where run: "linux_execute demo_deps demo_host_os demo_linux_kernel (demo_lc ''/w'')
      (demo_attempt, demo_native_execution) () = (Inr ob, ())"
    using demo_linux_run by blast
  have "lc_executable (demo_lc ''/w'') = ''/r/p''" by (simp add: demo_lc_def)
  with drivers_run_certified_artifact [THEN conjunct1, rule_format, OF run] show ?thesis by auto
qed

text \<open>C14: no path can change the macOS sandbox profile: a profile that was made has exactly the
  thirteen rules of the template, one per line, and in each of them the quoted text is read back as the
  path it stands for, whatever quotation marks and backslashes the path has.\<close>
theorem sandbox_profile_exact:
  assumes "make_sandbox_profile os executable launcher writable = Inr profile"
  shows "\<exists>le ll lep llp lw executable_parent launcher_parent.
    split_on CHR 0x0A profile = profile_lines ll le llp lep lw @ [[]]
    \<and> ho_parent os executable = Some executable_parent \<and> ho_parent os launcher = Some launcher_parent
    \<and> (\<forall>(literal, path)\<in>{(le, executable), (ll, launcher), (lep, executable_parent),
          (llp, launcher_parent), (lw, writable)}.
         \<forall>rest. read_literal (literal @ [CHR 0x22] @ rest) = Some (path, rest))"
  using assms by (rule made_sandbox_profile)

theorem sandbox_profile_exact_witness:
  "\<exists>profile rules. make_sandbox_profile demo_host_os (''/r/p'' @ [CHR 0x22, CHR 0x29]) ''/r/l'' ''/w''
      = Inr profile \<and> split_on CHR 0x0A profile = rules @ [[]] \<and> length rules = 13"
proof -
  obtain profile where p: "make_sandbox_profile demo_host_os (''/r/p'' @ [CHR 0x22, CHR 0x29]) ''/r/l'' ''/w''
      = Inr profile" using demo_sandbox_profile(2) by blast
  from sandbox_profile_exact [OF this] obtain le ll lep llp lw where
    "split_on CHR 0x0A profile = profile_lines ll le llp lep lw @ [[]]" by blast
  moreover have "length (profile_lines ll le llp lep lw) = 13" by (simp add: profile_lines_def)
  ultimately show ?thesis using p by blast
qed

end
