(* ===== verification/Https.thy ===== *)
theory Https
  imports Distribution
begin

text \<open>
  tools/tsp-certification-host/src/lib.rs: the source that retrieves certification evidence over
  HTTPS. The url crate and the HTTP client are parameters: a URL is of a type of the url crate's own,
  and a request is an operation on the world. The crate that holds this source sits outside the
  workbench; the decision that consumes it is \<open>fetch_verify_and_record\<close>.
\<close>

section \<open>Configuration\<close>

text \<open>Durations in nanoseconds.\<close>

definition default_connect_timeout :: nat where "default_connect_timeout = 5 * 1000000000"
definition default_total_timeout :: nat where "default_total_timeout = 15 * 1000000000"
definition max_connect_timeout :: nat where "max_connect_timeout = 30 * 1000000000"
definition max_total_timeout :: nat where "max_total_timeout = 60 * 1000000000"
definition user_agent :: string where "user_agent = ''TokenSaver-Certification-Host/1''"

record https_config =
  hc_base_url :: string
  hc_issuer_id :: string
  hc_connect_timeout :: nat
  hc_total_timeout :: nat

definition https_config_new :: "string \<Rightarrow> string \<Rightarrow> https_config" where
  "https_config_new base_url issuer_id =
     \<lparr>hc_base_url = base_url, hc_issuer_id = issuer_id,
      hc_connect_timeout = default_connect_timeout, hc_total_timeout = default_total_timeout\<rparr>"

text \<open>
  The url crate: the parts of a URL, and the two steps of its path-segment writer. The writer is
  refused exactly for a URL that cannot be a base.
\<close>

record 'u url_ops =
  ur_parse :: "string \<Rightarrow> 'u option"
  ur_scheme :: "'u \<Rightarrow> string"
  ur_cannot_be_a_base :: "'u \<Rightarrow> bool"
  ur_host :: "'u \<Rightarrow> string option"
  ur_username :: "'u \<Rightarrow> string"
  ur_password :: "'u \<Rightarrow> string option"
  ur_query :: "'u \<Rightarrow> string option"
  ur_fragment :: "'u \<Rightarrow> string option"
  ur_pop_if_empty :: "'u \<Rightarrow> 'u"
  ur_push :: "'u \<Rightarrow> string \<Rightarrow> 'u"

abbreviation configuration_error :: string where
  "configuration_error \<equiv> ''certification.httpsConfiguration''"

definition valid_issuer_id :: "string \<Rightarrow> bool" where
  "valid_issuer_id value \<longleftrightarrow> 1 \<le> length value \<and> length value \<le> 128
     \<and> list_all (\<lambda>c. is_alnum c \<or> c \<in> {CHR ''.'', CHR ''-'', CHR ''_'', CHR '':'', CHR ''/''}) value"

definition validate_config :: "'u url_ops \<Rightarrow> https_config \<Rightarrow> 'u res" where
  "validate_config u c =
     bindR (ok_or configuration_error (ur_parse u (hc_base_url c))) (\<lambda>base_url.
     bindR (reject (ur_scheme u base_url \<noteq> ''https'' \<or> ur_cannot_be_a_base u base_url
         \<or> ur_host u base_url = None \<or> ur_username u base_url \<noteq> []
         \<or> ur_password u base_url \<noteq> None \<or> ur_query u base_url \<noteq> None
         \<or> ur_fragment u base_url \<noteq> None) configuration_error) (\<lambda>_.
     bindR (reject (\<not> valid_issuer_id (hc_issuer_id c)) configuration_error) (\<lambda>_.
     bindR (reject (hc_connect_timeout c = 0 \<or> hc_connect_timeout c > max_connect_timeout
         \<or> hc_total_timeout c = 0 \<or> hc_total_timeout c > max_total_timeout
         \<or> hc_connect_timeout c > hc_total_timeout c) configuration_error) (\<lambda>_.
       Inr base_url))))"

section \<open>The transport\<close>

record 'u transport_request =
  tq_url :: 'u
  tq_timeout :: nat

text \<open>
  A body is what the connection delivers: its bytes, and whether an error ends it. A reader limited
  to \<open>n\<close> bytes that has got them all never meets the error.
\<close>

record http_body =
  hb_bytes :: bytes
  hb_fails :: bool

definition take_to_end :: "nat \<Rightarrow> http_body \<Rightarrow> bytes option" where
  "take_to_end n b =
    (if n \<le> length (hb_bytes b) then Some (take n (hb_bytes b))
     else if hb_fails b then None else Some (hb_bytes b))"

record 'u transport_response =
  tr_effective_url :: 'u
  tr_status :: "16 word"
  tr_content_type :: "string option"
  tr_content_encoding :: "string option"
  tr_content_length :: "u64 option"
  tr_body :: http_body

text \<open>\<^verbatim>\<open>HttpsTransport\<close>, with the clock \<^verbatim>\<open>Instant\<close> reads: monotone nanoseconds.\<close>

record ('u, 'w) https_transport =
  ht_now :: "'w \<Rightarrow> nat \<times> 'w"
  ht_get :: "'u transport_request \<Rightarrow> 'w \<Rightarrow> 'u transport_response option \<times> 'w"

text \<open>The client library: its builder's options, a request it sends and the answer it gives.\<close>

record client_options =
  co_https_only :: bool
  co_no_proxy :: bool
  co_follow_redirects :: bool
  co_connect_timeout :: nat
  co_timeout :: nat
  co_user_agent :: string

record 'u client_request =
  cq_url :: 'u
  cq_headers :: "(string \<times> string) list"
  cq_timeout :: nat

record 'u client_response =
  cs_url :: 'u
  cs_status :: "16 word"
  cs_headers :: "string \<Rightarrow> bytes list"
  cs_content_length :: "u64 option"
  cs_body :: http_body

record ('u, 'c, 'w) client_ops =
  cl_now :: "'w \<Rightarrow> nat \<times> 'w"
  cl_build :: "client_options \<Rightarrow> 'w \<Rightarrow> 'c option \<times> 'w"
  cl_send :: "'c \<Rightarrow> 'u client_request \<Rightarrow> 'w \<Rightarrow> 'u client_response option \<times> 'w"
  cl_to_str :: "bytes \<Rightarrow> string option" \<comment> \<open>\<^verbatim>\<open>HeaderValue::to_str\<close>\<close>

definition header_value :: "(bytes \<Rightarrow> string option) \<Rightarrow> 'u client_response \<Rightarrow> string \<Rightarrow> string option" where
  "header_value to_str response name =
    (case cs_headers response name of
       [] \<Rightarrow> None
     | [v] \<Rightarrow> Some (case to_str v of None \<Rightarrow> ''<invalid>'' | Some s \<Rightarrow> s)
     | _ \<Rightarrow> Some ''<multiple>'')"

definition evidence_headers :: "(string \<times> string) list" where
  "evidence_headers = [(''accept'', ''application/json''), (''accept-encoding'', ''identity''),
     (''cache-control'', ''no-cache, no-store''), (''pragma'', ''no-cache'')]"

definition reqwest_get ::
  "('u, 'c, 'w) client_ops \<Rightarrow> 'c \<Rightarrow> 'u transport_request \<Rightarrow> 'w \<Rightarrow> 'u transport_response option \<times> 'w"
where
  "reqwest_get cl client q w =
    (case cl_send cl client \<lparr>cq_url = tq_url q, cq_headers = evidence_headers, cq_timeout = tq_timeout q\<rparr> w of
       (None, w') \<Rightarrow> (None, w')
     | (Some r, w') \<Rightarrow> (Some
         \<lparr>tr_effective_url = cs_url r, tr_status = cs_status r,
          tr_content_type = header_value (cl_to_str cl) r ''content-type'',
          tr_content_encoding = header_value (cl_to_str cl) r ''content-encoding'',
          tr_content_length = cs_content_length r, tr_body = cs_body r\<rparr>, w'))"

definition reqwest_transport :: "('u, 'c, 'w) client_ops \<Rightarrow> 'c \<Rightarrow> ('u, 'w) https_transport" where
  "reqwest_transport cl client = \<lparr>ht_now = cl_now cl, ht_get = reqwest_get cl client\<rparr>"

section \<open>The source\<close>

record 'u source_core =
  so_base_url :: 'u
  so_issuer_id :: string
  so_total_timeout :: nat

text \<open>\<^verbatim>\<open>url\<close> and \<^verbatim>\<open>append_segment\<close>.\<close>

definition source_url :: "'u url_ops \<Rightarrow> 'u source_core \<Rightarrow> string list \<Rightarrow> 'u res" where
  "source_url u s segments =
     bindR (reject (ur_cannot_be_a_base u (so_base_url s)) configuration_error) (\<lambda>_.
       Inr (foldl (ur_push u) (ur_pop_if_empty u (so_base_url s)) segments))"

definition append_segment :: "'u url_ops \<Rightarrow> 'u \<Rightarrow> string \<Rightarrow> 'u res" where
  "append_segment u base segment =
     bindR (reject (ur_cannot_be_a_base u base) configuration_error) (\<lambda>_. Inr (ur_push u base segment))"

definition is_json_content_type :: "string \<Rightarrow> bool" where
  "is_json_content_type value =
    (case split_on CHR '';'' value of
       [] \<Rightarrow> False
     | media_type # _ \<Rightarrow> eq_ignore_case (str_trim media_type) ''application/json'')"

text \<open>\<^verbatim>\<open>checked_sub\<close> of the elapsed time, and no request without time left.\<close>

definition remaining_time :: "nat \<Rightarrow> nat \<Rightarrow> nat \<Rightarrow> nat option" where
  "remaining_time limit started now =
    (let elapsed = now - started
     in if elapsed < limit then Some (limit - elapsed) else None)"

text \<open>What is checked of a response, up to its body.\<close>

definition check_response :: "'u transport_response \<Rightarrow> 'u \<Rightarrow> nat \<Rightarrow> bytes res" where
  "check_response r url maximum_bytes =
     bindR (reject (tr_effective_url r \<noteq> url) ''certification.httpsRedirect'') (\<lambda>_.
     bindR (reject (tr_status r \<noteq> 200) ''certification.httpsStatus'') (\<lambda>_.
     bindR (reject (\<not> (case tr_content_type r of None \<Rightarrow> False | Some t \<Rightarrow> is_json_content_type t))
       ''certification.httpsContentType'') (\<lambda>_.
     bindR (reject (case tr_content_encoding r of
         None \<Rightarrow> False | Some e \<Rightarrow> \<not> eq_ignore_case e ''identity'') ''certification.httpsContentEncoding'') (\<lambda>_.
     bindR (reject (case tr_content_length r of
         None \<Rightarrow> False | Some n \<Rightarrow> unat n > maximum_bytes) ''certification.httpsDocumentSize'') (\<lambda>_.
     bindR (ok_or ''certification.httpsBody'' (take_to_end (maximum_bytes + 1) (tr_body r))) (\<lambda>bytes.
     bindR (reject (bytes = [] \<or> length bytes > maximum_bytes) ''certification.httpsDocumentSize'') (\<lambda>_.
       Inr bytes)))))))"

definition fetch_document ::
  "('u, 'w) https_transport \<Rightarrow> 'u source_core \<Rightarrow> 'u \<Rightarrow> nat \<Rightarrow> nat \<Rightarrow> ('w, bytes) io" where
  "fetch_document t s url maximum_bytes started =
     bindW (readW (ht_now t)) (\<lambda>now.
     bindW (liftW (ok_or ''certification.httpsDeadline''
         (remaining_time (so_total_timeout s) started now))) (\<lambda>timeout.
     bindW (callW ''certification.httpsTransport''
         (ht_get t \<lparr>tq_url = url, tq_timeout = timeout\<rparr>)) (\<lambda>response.
       liftW (check_response response url maximum_bytes))))"

definition https_fetch ::
  "deps \<Rightarrow> 'u url_ops \<Rightarrow> ('u, 'w) https_transport \<Rightarrow> 'u source_core \<Rightarrow> subject
     \<Rightarrow> ('w, evidence_documents) io" where
  "https_fetch d u t s expected =
     bindW (liftW (validate_subject d expected)) (\<lambda>_.
     bindW (readW (ht_now t)) (\<lambda>started.
     bindW (liftW (case strip_prefix ''sha256:'' (sj_package_digest expected) of
         None \<Rightarrow> Inl Panic | Some package \<Rightarrow> Inr package)) (\<lambda>package.
     bindW (liftW (source_url u s
         [''v1'', ''releases'', sj_release_id expected, ''sha256-'' @ package])) (\<lambda>release_root.
     bindW (liftW (append_segment u release_root ''certification-report.json'')) (\<lambda>report_url.
     bindW (fetch_document t s report_url max_report_bytes started) (\<lambda>report.
     bindW (liftW (append_segment u release_root ''certification-envelope.json'')) (\<lambda>envelope_url.
     bindW (fetch_document t s envelope_url max_envelope_bytes started) (\<lambda>envelope.
     bindW (liftW (source_url u s
         [''v1'', ''issuers'', so_issuer_id s, ''certification-revocations.json''])) (\<lambda>revocations_url.
     bindW (fetch_document t s revocations_url max_revocation_bytes started) (\<lambda>revocations.
       returnW \<lparr>ed_report = report, ed_envelope = envelope, ed_revocations = revocations\<rparr>))))))))))"

text \<open>\<^verbatim>\<open>HttpsCertificationSource::new\<close>: a client with no redirects, no proxy and no plain HTTP.\<close>

definition https_client_options :: "https_config \<Rightarrow> client_options" where
  "https_client_options c = \<lparr>co_https_only = True, co_no_proxy = True, co_follow_redirects = False,
     co_connect_timeout = hc_connect_timeout c, co_timeout = hc_total_timeout c,
     co_user_agent = user_agent\<rparr>"

definition https_source_new ::
  "'u url_ops \<Rightarrow> ('u, 'c, 'w) client_ops \<Rightarrow> https_config
     \<Rightarrow> ('w, 'u source_core \<times> ('u, 'w) https_transport) io" where
  "https_source_new u cl c =
     bindW (liftW (validate_config u c)) (\<lambda>base_url.
     bindW (callW ''certification.httpsClient'' (cl_build cl (https_client_options c))) (\<lambda>client.
       returnW (\<lparr>so_base_url = base_url, so_issuer_id = hc_issuer_id c,
                 so_total_timeout = hc_total_timeout c\<rparr>, reqwest_transport cl client)))"

section \<open>What an accepted response establishes\<close>

lemma take_to_end_Suc:
  "take_to_end (Suc n) b = Some x \<and> length x \<le> n \<longleftrightarrow>
     x = hb_bytes b \<and> \<not> hb_fails b \<and> length x \<le> n"
  by (auto simp: take_to_end_def)

lemma check_response_Inr:
  "check_response r url m = Inr b \<longleftrightarrow>
     tr_effective_url r = url \<and> tr_status r = 200
     \<and> (\<exists>t. tr_content_type r = Some t \<and> is_json_content_type t)
     \<and> (\<forall>e. tr_content_encoding r = Some e \<longrightarrow> eq_ignore_case e ''identity'')
     \<and> (\<forall>n. tr_content_length r = Some n \<longrightarrow> unat n \<le> m)
     \<and> b = hb_bytes (tr_body r) \<and> \<not> hb_fails (tr_body r) \<and> b \<noteq> [] \<and> length b \<le> m"
  using take_to_end_Suc [of m "tr_body r" b]
  by (auto simp: check_response_def bindR_Inr_iff reject_Inr_iff ok_or_Inr_iff not_less split: option.splits)

lemma check_response_Inl: "check_response r url m = Inl e \<Longrightarrow> e \<noteq> Panic"
  by (auto simp: check_response_def bindR_def reject_def ok_or_def
      split: sum.splits option.splits if_splits)

lemma remaining_time_Some:
  "remaining_time limit started now = Some t \<Longrightarrow> 0 < t \<and> t \<le> limit"
  by (auto simp: remaining_time_def Let_def split: if_splits)

lemma fetch_document_Inr:
  "fetch_document t s url m started w = (Inr b, w') \<longleftrightarrow>
     (\<exists>now v timeout r. ht_now t w = (now, v)
        \<and> remaining_time (so_total_timeout s) started now = Some timeout
        \<and> ht_get t \<lparr>tq_url = url, tq_timeout = timeout\<rparr> v = (Some r, w')
        \<and> check_response r url m = Inr b)"
  by (auto simp: fetch_document_def io_simps ok_or_Inr_iff)

section \<open>Places and endpoints\<close>

text \<open>
  Writing path segments changes nothing of a URL but its path: the documented behaviour of the url
  crate's \<^verbatim>\<open>path_segments_mut\<close>.
\<close>

definition same_place :: "'u url_ops \<Rightarrow> 'u \<Rightarrow> 'u \<Rightarrow> bool" where
  "same_place u x y \<longleftrightarrow> ur_scheme u y = ur_scheme u x
     \<and> ur_cannot_be_a_base u y = ur_cannot_be_a_base u x \<and> ur_host u y = ur_host u x
     \<and> ur_username u y = ur_username u x \<and> ur_password u y = ur_password u x
     \<and> ur_query u y = ur_query u x \<and> ur_fragment u y = ur_fragment u x"

definition path_writer_law :: "'u url_ops \<Rightarrow> bool" where
  "path_writer_law u \<longleftrightarrow> (\<forall>x. \<not> ur_cannot_be_a_base u x \<longrightarrow>
     same_place u x (ur_pop_if_empty u x) \<and> (\<forall>segment. same_place u x (ur_push u x segment)))"

definition written :: "'u url_ops \<Rightarrow> 'u \<Rightarrow> string list \<Rightarrow> 'u" where
  "written u base segments = foldl (ur_push u) (ur_pop_if_empty u base) segments"

definition release_segments :: "subject \<Rightarrow> string list" where
  "release_segments sj =
     [''v1'', ''releases'', sj_release_id sj, ''sha256-'' @ drop 7 (sj_package_digest sj)]"

text \<open>The three endpoints of a subject's evidence, in the order they are asked.\<close>

definition evidence_urls :: "'u url_ops \<Rightarrow> 'u \<Rightarrow> string \<Rightarrow> subject \<Rightarrow> 'u list" where
  "evidence_urls u base issuer sj =
     [written u base (release_segments sj @ [''certification-report.json'']),
      written u base (release_segments sj @ [''certification-envelope.json'']),
      written u base [''v1'', ''issuers'', issuer, ''certification-revocations.json'']]"

lemma written_place:
  assumes "path_writer_law u" and "\<not> ur_cannot_be_a_base u base"
  shows "same_place u base (written u base segments)"
proof -
  have "same_place u base (foldl (ur_push u) y segments)" if "same_place u base y" for y
    using that
  proof (induction segments arbitrary: y)
    case (Cons a segments)
    then have "\<not> ur_cannot_be_a_base u y" using assms(2) by (simp add: same_place_def)
    with assms(1) have "same_place u y (ur_push u y a)" by (simp add: path_writer_law_def)
    with Cons.prems have "same_place u base (ur_push u y a)" by (simp add: same_place_def)
    with Cons.IH show ?case by simp
  qed simp
  then show ?thesis using assms by (simp add: written_def path_writer_law_def)
qed

lemma written_append: "written u base (a @ [x]) = ur_push u (written u base a) x"
  by (simp add: written_def)

lemma source_url_base:
  "\<not> ur_cannot_be_a_base u (so_base_url s) \<Longrightarrow> source_url u s segs = Inr (written u (so_base_url s) segs)"
  by (simp add: source_url_def written_def bindR_def reject_def)

lemma append_segment_base:
  "\<not> ur_cannot_be_a_base u x \<Longrightarrow> append_segment u x seg = Inr (ur_push u x seg)"
  by (simp add: append_segment_def bindR_def reject_def)

text \<open>The fetch of a source that may be written to, its endpoints spelled out.\<close>

lemma bind_lift_Inr [simp]: "bindW (liftW (Inr x)) f = f x"
  by (rule ext) (simp add: bindW_def liftW_def)

lemma bind_lift_Inl [simp]: "bindW (liftW (Inl e)) f = liftW (Inl e)"
  by (rule ext) (simp add: bindW_def liftW_def)

lemma https_fetch_endpoints:
  assumes law: "path_writer_law u" and base: "\<not> ur_cannot_be_a_base u (so_base_url s)"
    and ok: "validate_subject d sj = Inr ()"
    and urls: "evidence_urls u (so_base_url s) (so_issuer_id s) sj = [a, b, c]"
  shows "https_fetch d u t s sj =
    bindW (readW (ht_now t)) (\<lambda>started.
    bindW (fetch_document t s a max_report_bytes started) (\<lambda>report.
    bindW (fetch_document t s b max_envelope_bytes started) (\<lambda>envelope.
    bindW (fetch_document t s c max_revocation_bytes started) (\<lambda>revocations.
      returnW \<lparr>ed_report = report, ed_envelope = envelope, ed_revocations = revocations\<rparr>))))"
proof -
  have "valid_digest (sj_package_digest sj)"
    using ok by (simp add: validate_subject_def reject_def split: if_splits)
  then have strip: "strip_prefix ''sha256:'' (sj_package_digest sj) = Some (drop 7 (sj_package_digest sj))"
    by (simp add: valid_digest_def strip_prefix_def eval_nat_numeral)
  have "\<not> ur_cannot_be_a_base u (written u (so_base_url s) (release_segments sj))"
    using written_place [OF law base] base by (simp add: same_place_def)
  note segment = append_segment_base [OF this, unfolded release_segments_def]
  have "a = ur_push u (written u (so_base_url s) (release_segments sj)) ''certification-report.json''"
    "b = ur_push u (written u (so_base_url s) (release_segments sj)) ''certification-envelope.json''"
    "c = written u (so_base_url s) [''v1'', ''issuers'', so_issuer_id s, ''certification-revocations.json'']"
    using urls unfolding evidence_urls_def written_append list.inject by blast+
  then show ?thesis
    by (simp only: https_fetch_def ok strip option.case bind_lift_Inr segment release_segments_def
        source_url_base [OF base])
qed

section \<open>The requests a fetch makes\<close>

text \<open>A transport that also writes down every request, answered or not.\<close>

definition traced :: "('u, 'w) https_transport \<Rightarrow> ('u, 'w \<times> 'u transport_request list) https_transport" where
  "traced t = \<lparr>ht_now = beside (ht_now t),
     ht_get = \<lambda>q (w, l). case ht_get t q w of (r, w') \<Rightarrow> (r, (w', l @ [q]))\<rparr>"

lemma traced_now: "ht_now (traced t) = beside (ht_now t)"
  by (simp add: traced_def)

text \<open>
  A step asks for some URLs in order: all of them when it succeeds, the first ones otherwise. No
  request has more time than the source's deadline, and no step panics.
\<close>

definition asks ::
  "nat \<Rightarrow> 'u list \<Rightarrow> ('w \<times> 'u transport_request list, 'a) io \<Rightarrow> bool" where
  "asks limit urls m \<longleftrightarrow> (\<forall>w l r w' l'. m (w, l) = (r, (w', l')) \<longrightarrow>
     (\<exists>qs rest. l' = l @ qs \<and> urls = map tq_url qs @ rest \<and> (isl r \<or> rest = [])
        \<and> (\<forall>q\<in>set qs. 0 < tq_timeout q \<and> tq_timeout q \<le> limit) \<and> r \<noteq> Inl Panic))"

lemma asks_bindW:
  assumes m: "asks limit us m" and f: "\<And>x. asks limit vs (f x)"
  shows "asks limit (us @ vs) (bindW m f)"
  unfolding asks_def
proof (intro allI impI)
  fix w l r w' l'
  assume run: "bindW m f (w, l) = (r, w', l')"
  obtain r1 w1 l1 where one: "m (w, l) = (r1, w1, l1)" by (metis prod_cases3)
  with m obtain qs rest where q: "l1 = l @ qs" "us = map tq_url qs @ rest" "isl r1 \<or> rest = []"
    "\<forall>q\<in>set qs. 0 < tq_timeout q \<and> tq_timeout q \<le> limit" "r1 \<noteq> Inl Panic"
    unfolding asks_def by blast
  show "\<exists>qs rest. l' = l @ qs \<and> us @ vs = map tq_url qs @ rest \<and> (isl r \<or> rest = [])
      \<and> (\<forall>q\<in>set qs. 0 < tq_timeout q \<and> tq_timeout q \<le> limit) \<and> r \<noteq> Inl Panic"
  proof (cases r1)
    case (Inl e)
    with run one have "r = Inl e" "l' = l1" by (simp_all add: bindW_def)
    with q Inl show ?thesis by (intro exI [of _ qs] exI [of _ "rest @ vs"]) simp
  next
    case (Inr x)
    with run one have "f x (w1, l1) = (r, w', l')" by (simp add: bindW_def)
    with f [of x] obtain qs' rest' where q': "l' = l1 @ qs'" "vs = map tq_url qs' @ rest'"
      "isl r \<or> rest' = []" "\<forall>q\<in>set qs'. 0 < tq_timeout q \<and> tq_timeout q \<le> limit" "r \<noteq> Inl Panic"
      unfolding asks_def by blast
    with q Inr show ?thesis by (intro exI [of _ "qs @ qs'"] exI [of _ rest']) auto
  qed
qed

lemma asks_readW: "asks limit [] (readW (beside op))"
  by (auto simp: asks_def readW_def)

lemma asks_returnW: "asks limit [] (returnW x)"
  by (auto simp: asks_def returnW_def)

lemma asks_liftW: "r \<noteq> Inl Panic \<Longrightarrow> asks limit [] (liftW r)"
  by (auto simp: asks_def liftW_def)

lemma asks_get:
  assumes "0 < timeout" and "timeout \<le> limit" and "\<And>x. check x \<noteq> Inl Panic"
  shows "asks limit [url] (bindW (callW ''certification.httpsTransport''
      (ht_get (traced t) \<lparr>tq_url = url, tq_timeout = timeout\<rparr>)) (\<lambda>x. liftW (check x)))"
  unfolding asks_def
proof (intro allI impI, goal_cases)
  case (1 w l r w' l')
  obtain a v where g: "ht_get t \<lparr>tq_url = url, tq_timeout = timeout\<rparr> w = (a, v)" by fastforce
  with 1 assms show ?case
    by (intro exI [of _ "[\<lparr>tq_url = url, tq_timeout = timeout\<rparr>]"] exI [of _ "[]"])
       (auto simp: bindW_def callE_def liftW_def traced_def split: option.splits)
qed

text \<open>A step that never asks more than one list of URLs, whatever happens before its request.\<close>

lemma asks_ends: "r \<noteq> Inl Panic \<Longrightarrow> isl r \<Longrightarrow> asks limit urls (liftW r)"
  by (auto simp: asks_def liftW_def)

lemma asks_fetch_document:
  "asks (so_total_timeout s) [url] (fetch_document (traced t) s url m started)"
proof -
  have "asks (so_total_timeout s) ([] @ [url]) (fetch_document (traced t) s url m started)"
    unfolding fetch_document_def
  proof (rule asks_bindW)
    show "asks (so_total_timeout s) [] (readW (ht_now (traced t)))"
      by (simp add: traced_def asks_readW)
    fix now
    show "asks (so_total_timeout s) [url] (bindW (liftW (ok_or ''certification.httpsDeadline''
         (remaining_time (so_total_timeout s) started now))) (\<lambda>timeout.
       bindW (callW ''certification.httpsTransport''
         (ht_get (traced t) \<lparr>tq_url = url, tq_timeout = timeout\<rparr>)) (\<lambda>response.
       liftW (check_response response url m))))"
    proof (cases "remaining_time (so_total_timeout s) started now")
      case None
      then show ?thesis by (simp add: ok_or_def asks_ends)
    next
      case (Some timeout)
      with remaining_time_Some [OF Some] show ?thesis
        by (simp add: ok_or_def) (rule asks_get, auto dest: check_response_Inl)
    qed
  qed
  then show ?thesis by simp
qed

lemma asks_https_fetch:
  assumes law: "path_writer_law u" and base: "\<not> ur_cannot_be_a_base u (so_base_url s)"
  shows "asks (so_total_timeout s) (evidence_urls u (so_base_url s) (so_issuer_id s) sj)
    (https_fetch d u (traced t) s sj)"
proof (cases "validate_subject d sj")
  case (Inl e)
  then have "e \<noteq> Panic" by (auto simp: validate_subject_def reject_def split: if_splits)
  with Inl show ?thesis by (simp add: https_fetch_def asks_ends)
next
  case (Inr x)
  then have ok: "validate_subject d sj = Inr ()" by simp
  obtain a b c where urls: "evidence_urls u (so_base_url s) (so_issuer_id s) sj = [a, b, c]"
    by (simp add: evidence_urls_def)
  have "asks (so_total_timeout s) ([] @ [a] @ [b] @ [c] @ []) (https_fetch d u (traced t) s sj)"
    unfolding https_fetch_endpoints [OF law base ok urls] traced_now
    by (intro asks_bindW asks_readW asks_fetch_document asks_returnW)
  then show ?thesis by (simp add: urls)
qed

end
