(* ===== verification/Retrieval.thy ===== *)
theory Retrieval
  imports Https Rollback Pipeline
begin

text \<open>
  The properties of evidence retrieval: what leaves the machine, and what a decision that used this
  source rests on.
\<close>

section \<open>A source that was made\<close>

lemma validate_config_Inr:
  "validate_config u c = Inr b \<longleftrightarrow>
     ur_parse u (hc_base_url c) = Some b \<and> ur_scheme u b = ''https'' \<and> \<not> ur_cannot_be_a_base u b
     \<and> ur_host u b \<noteq> None \<and> ur_username u b = [] \<and> ur_password u b = None \<and> ur_query u b = None
     \<and> ur_fragment u b = None \<and> valid_issuer_id (hc_issuer_id c)
     \<and> 0 < hc_connect_timeout c \<and> hc_connect_timeout c \<le> max_connect_timeout
     \<and> 0 < hc_total_timeout c \<and> hc_total_timeout c \<le> max_total_timeout
     \<and> hc_connect_timeout c \<le> hc_total_timeout c"
  by (auto simp: validate_config_def bindR_Inr_iff reject_Inr_iff ok_or_Inr_iff)

lemma https_source_new_Inr:
  assumes "https_source_new u cl c w = (Inr (s, t), w')"
  shows "validate_config u c = Inr (so_base_url s) \<and> so_issuer_id s = hc_issuer_id c
    \<and> so_total_timeout s = hc_total_timeout c
    \<and> (\<exists>client. cl_build cl (https_client_options c) w = (Some client, w')
         \<and> t = reqwest_transport cl client)"
  using assms by (auto simp: https_source_new_def io_simps)

text \<open>A confined URL: HTTPS at the configured host, without credentials, query or fragment.\<close>

definition on_origin :: "'u url_ops \<Rightarrow> string \<Rightarrow> 'u \<Rightarrow> bool" where
  "on_origin u host x \<longleftrightarrow> ur_scheme u x = ''https'' \<and> ur_host u x = Some host
     \<and> ur_username u x = [] \<and> ur_password u x = None \<and> ur_query u x = None \<and> ur_fragment u x = None"

lemma evidence_urls_on_origin:
  assumes "path_writer_law u" and "validate_config u c = Inr base"
  shows "\<exists>host. ur_host u base = Some host
    \<and> list_all (on_origin u host) (evidence_urls u base issuer sj)"
proof -
  from assms(2) obtain host where h: "ur_host u base = Some host" and b: "\<not> ur_cannot_be_a_base u base"
    by (auto simp: validate_config_Inr)
  have "on_origin u host (written u base segments)" for segments
    using written_place [OF assms(1) b, of segments] assms(2) h
    by (simp add: same_place_def on_origin_def validate_config_Inr)
  with h show ?thesis by (simp add: evidence_urls_def)
qed

text \<open>The traced run of a fetch is the run itself, with the requests beside it.\<close>

lemma traced_fetch_document:
  "shadows (fetch_document (traced t) s url m started) (fetch_document t s url m started)"
  unfolding fetch_document_def traced_now
  by (intro shadow_rules) (auto simp: shadows_def callE_def traced_def split: prod.splits option.splits)

lemma traced_fetch: "shadows (https_fetch d u (traced t) s sj) (https_fetch d u t s sj)"
  unfolding https_fetch_def traced_now
  by (intro shadow_rules traced_fetch_document)

section \<open>A document that was served\<close>

text \<open>
  A client answered a request for exactly this URL, with the headers that ask for uncompressed,
  uncached JSON, by status 200 at the same URL, with one JSON content type and no encoding, and a
  body that ended properly: the document, within the verifier's limit.
\<close>

definition served ::
  "('u, 'c, 'w) client_ops \<Rightarrow> 'c \<Rightarrow> nat \<Rightarrow> 'u \<Rightarrow> nat \<Rightarrow> bytes \<Rightarrow> bool" where
  "served cl client limit url maximum doc \<longleftrightarrow>
    (\<exists>timeout v v' r t. 0 < timeout \<and> timeout \<le> limit
      \<and> cl_send cl client \<lparr>cq_url = url, cq_headers = evidence_headers, cq_timeout = timeout\<rparr> v
          = (Some r, v')
      \<and> cs_url r = url \<and> cs_status r = 200
      \<and> header_value (cl_to_str cl) r ''content-type'' = Some t \<and> is_json_content_type t
      \<and> (\<forall>e. header_value (cl_to_str cl) r ''content-encoding'' = Some e \<longrightarrow> eq_ignore_case e ''identity'')
      \<and> hb_bytes (cs_body r) = doc \<and> \<not> hb_fails (cs_body r) \<and> doc \<noteq> [] \<and> length doc \<le> maximum)"

lemma fetch_document_served:
  assumes "fetch_document (reqwest_transport cl client) s url m started w = (Inr doc, w')"
  shows "served cl client (so_total_timeout s) url m doc"
proof -
  from assms obtain now v timeout r where
    time: "remaining_time (so_total_timeout s) started now = Some timeout"
    and get: "reqwest_get cl client \<lparr>tq_url = url, tq_timeout = timeout\<rparr> v = (Some r, w')"
    and check: "check_response r url m = Inr doc"
    by (auto simp: fetch_document_Inr reqwest_transport_def)
  from get obtain a where
    send: "cl_send cl client \<lparr>cq_url = url, cq_headers = evidence_headers, cq_timeout = timeout\<rparr> v
      = (Some a, w')"
    and r: "r = \<lparr>tr_effective_url = cs_url a, tr_status = cs_status a,
      tr_content_type = header_value (cl_to_str cl) a ''content-type'',
      tr_content_encoding = header_value (cl_to_str cl) a ''content-encoding'',
      tr_content_length = cs_content_length a, tr_body = cs_body a\<rparr>"
    by (auto simp: reqwest_get_def split: prod.splits option.splits)
  from check [unfolded check_response_Inr r] obtain t where
    "header_value (cl_to_str cl) a ''content-type'' = Some t" "is_json_content_type t"
    "cs_url a = url" "cs_status a = 200" "hb_bytes (cs_body a) = doc" "\<not> hb_fails (cs_body a)"
    "doc \<noteq> []" "length doc \<le> m"
    "\<forall>e. header_value (cl_to_str cl) a ''content-encoding'' = Some e \<longrightarrow> eq_ignore_case e ''identity''"
    by auto
  with send remaining_time_Some [OF time] show ?thesis unfolding served_def by blast
qed

lemma https_fetch_served:
  assumes law: "path_writer_law u" and base: "\<not> ur_cannot_be_a_base u (so_base_url s)"
    and run: "https_fetch d u (reqwest_transport cl client) s sj w = (Inr ev, w')"
    and urls: "evidence_urls u (so_base_url s) (so_issuer_id s) sj = [a, b, c]"
  shows "served cl client (so_total_timeout s) a max_report_bytes (ed_report ev)
    \<and> served cl client (so_total_timeout s) b max_envelope_bytes (ed_envelope ev)
    \<and> served cl client (so_total_timeout s) c max_revocation_bytes (ed_revocations ev)"
proof -
  from run have "validate_subject d sj = Inr ()" by (auto simp: https_fetch_def io_simps)
  from run [unfolded https_fetch_endpoints [OF law base this urls]] show ?thesis
    by (auto simp: io_simps dest!: fetch_document_served)
qed

section \<open>A concrete endpoint\<close>

text \<open>A URL as its origin and its path, and an endpoint that answers each of them with a document.\<close>

type_synonym demo_url = "string \<times> string list"

definition demo_url_ops :: "demo_url url_ops" where
  "demo_url_ops = \<lparr>ur_parse = (\<lambda>s. Some (s, [])), ur_scheme = (\<lambda>_. ''https''),
     ur_cannot_be_a_base = (\<lambda>_. False), ur_host = (\<lambda>x. Some (fst x)), ur_username = (\<lambda>_. []),
     ur_password = (\<lambda>_. None), ur_query = (\<lambda>_. None), ur_fragment = (\<lambda>_. None),
     ur_pop_if_empty = id, ur_push = (\<lambda>(h, p) segment. (h, p @ [segment]))\<rparr>"

definition demo_document :: "string \<Rightarrow> bytes" where
  "demo_document name = (if name = ''certification-report.json'' then ''R''
     else if name = ''certification-envelope.json'' then ''E'' else ''L'')"

definition demo_client :: "(demo_url, unit, nat) client_ops" where
  "demo_client = \<lparr>cl_now = (\<lambda>n. (n, Suc n)), cl_build = (\<lambda>_ n. (Some (), n)),
     cl_send = (\<lambda>_ q n. (Some \<lparr>cs_url = cq_url q, cs_status = 200,
       cs_headers = (\<lambda>name. if name = ''content-type'' then [''application/json; charset=utf-8''] else []),
       cs_content_length = None,
       cs_body = \<lparr>hb_bytes = demo_document (last (snd (cq_url q))), hb_fails = False\<rparr>\<rparr>, n)),
     cl_to_str = Some\<rparr>"

definition demo_https_config :: https_config where
  "demo_https_config = https_config_new ''evidence.example'' ''tokensaver''"

definition demo_source_core :: "demo_url source_core" where
  "demo_source_core = \<lparr>so_base_url = (''evidence.example'', []), so_issuer_id = ''tokensaver'',
     so_total_timeout = default_total_timeout\<rparr>"

lemma demo_path_writer: "path_writer_law demo_url_ops"
  by (auto simp: path_writer_law_def same_place_def demo_url_ops_def)

lemma demo_host: "ur_host demo_url_ops x = Some (fst x)"
  by (simp add: demo_url_ops_def)

lemma demo_core: "so_base_url demo_source_core = (''evidence.example'', [])"
  "so_issuer_id demo_source_core = ''tokensaver''"
  by (simp_all add: demo_source_core_def)

lemma demo_https_source:
  "https_source_new demo_url_ops demo_client demo_https_config n
     = (Inr (demo_source_core, reqwest_transport demo_client ()), n)"
proof -
  have "valid_issuer_id ''tokensaver''" by code_simp
  then have "validate_config demo_url_ops demo_https_config = Inr (''evidence.example'', [])"
    by (simp add: validate_config_Inr demo_url_ops_def demo_https_config_def https_config_new_def
        default_connect_timeout_def default_total_timeout_def max_connect_timeout_def
        max_total_timeout_def)
  then show ?thesis
    by (simp add: https_source_new_def bindW_def callE_def returnW_def liftW_def demo_client_def
        demo_source_core_def demo_https_config_def https_config_new_def)
qed

lemma demo_fetch_document:
  assumes "n \<le> 10" and "last (snd url) = name" and "m \<ge> 1"
  shows "fetch_document (reqwest_transport demo_client ()) demo_source_core url m 0 n
    = (Inr (demo_document name), Suc n)"
proof -
  have json: "is_json_content_type ''application/json; charset=utf-8''" by code_simp
  have "remaining_time default_total_timeout 0 n = Some (default_total_timeout - n)"
    using assms(1) by (simp add: remaining_time_def default_total_timeout_def)
  moreover have "demo_document name \<noteq> []" "length (demo_document name) \<le> m"
    using assms(3) by (simp_all add: demo_document_def)
  ultimately show ?thesis
    using json assms(2)
    by (simp add: fetch_document_Inr reqwest_transport_def demo_client_def reqwest_get_def
        demo_source_core_def check_response_Inr header_value_def)
qed

lemma demo_https_fetch:
  "https_fetch demo_deps demo_url_ops (reqwest_transport demo_client ()) demo_source_core demo_subject 0
     = (Inr \<lparr>ed_report = ''R'', ed_envelope = ''E'', ed_revocations = ''L''\<rparr>, 4)"
proof -
  let ?t = "reqwest_transport demo_client ()" and ?b = "(''evidence.example'', [])"
  have base: "\<not> ur_cannot_be_a_base demo_url_ops (so_base_url demo_source_core)"
    by (simp add: demo_url_ops_def)
  have ok: "validate_subject demo_deps demo_subject = Inr ()"
    using demo_subject_contract by (simp add: subject_contract_def)
  obtain a b c where urls: "evidence_urls demo_url_ops (so_base_url demo_source_core)
      (so_issuer_id demo_source_core) demo_subject = [a, b, c]"
    by (simp add: evidence_urls_def)
  have push: "written demo_url_ops ?b segs = (''evidence.example'', segs)" for segs
    by (induction segs rule: rev_induct) (simp_all add: written_def demo_url_ops_def)
  have last: "last (snd a) = ''certification-report.json''" "last (snd b) = ''certification-envelope.json''"
    "last (snd c) = ''certification-revocations.json''"
    using urls by (auto simp: evidence_urls_def demo_source_core_def push)
  have now: "ht_now ?t n = (n, Suc n)" for n
    by (simp add: reqwest_transport_def demo_client_def)
  show ?thesis
    unfolding https_fetch_endpoints [OF demo_path_writer base ok urls]
    by (simp add: bindW_def readW_def now returnW_def demo_fetch_document last max_report_bytes_def
        max_envelope_bytes_def max_revocation_bytes_def demo_document_def)
qed

section \<open>Properties\<close>

text \<open>C26: whatever the network answers and however a fetch ends, all it sends are requests for the
  three evidence endpoints of the subject, in their order, the first ones if it stops early; each has
  a positive time within the configured deadline, of at most a minute, and every endpoint is on the
  configured HTTPS host, without credentials, query or fragment. The fetch never panics. (The traced
  transport only writes requests down: the outcome is that of the plain one.)\<close>
theorem requests_stay_on_origin:
  assumes "path_writer_law u" and "https_source_new u cl c w0 = (Inr (s, t), w1)"
    and "https_fetch d u (traced t) s sj (w, []) = (r, (w', sent))"
  shows "https_fetch d u t s sj w = (r, w') \<and> r \<noteq> Inl Panic
    \<and> (\<exists>host rest. ur_host u (so_base_url s) = Some host
        \<and> evidence_urls u (so_base_url s) (so_issuer_id s) sj = map tq_url sent @ rest
        \<and> (isl r \<or> rest = []) \<and> list_all (on_origin u host) (map tq_url sent @ rest))
    \<and> (\<forall>q\<in>set sent. 0 < tq_timeout q \<and> tq_timeout q \<le> hc_total_timeout c)
    \<and> hc_total_timeout c \<le> 60 * 1000000000"
proof -
  note new = https_source_new_Inr [OF assms(2)]
  then have valid: "validate_config u c = Inr (so_base_url s)" by blast
  then have base: "\<not> ur_cannot_be_a_base u (so_base_url s)" and limit: "hc_total_timeout c \<le> max_total_timeout"
    by (auto simp: validate_config_Inr)
  obtain qs rest where q: "sent = [] @ qs"
    "evidence_urls u (so_base_url s) (so_issuer_id s) sj = map tq_url qs @ rest" "isl r \<or> rest = []"
    "\<forall>q\<in>set qs. 0 < tq_timeout q \<and> tq_timeout q \<le> so_total_timeout s" "r \<noteq> Inl Panic"
    using asks_https_fetch [OF assms(1) base, of sj d t] assms(3) unfolding asks_def by blast
  moreover have "https_fetch d u t s sj w = (r, w')"
    using traced_fetch [of d u t s sj] assms(3) unfolding shadows_def
    by (metis Pair_inject prod.collapse)
  ultimately show ?thesis
    using evidence_urls_on_origin [OF assms(1) valid, of "so_issuer_id s" sj] new limit
    by (auto simp: max_total_timeout_def)
qed

theorem requests_stay_on_origin_witness:
  "\<exists>sent :: demo_url transport_request list. map tq_url sent = evidence_urls demo_url_ops (''evidence.example'', []) ''tokensaver'' demo_subject
     \<and> list_all (on_origin demo_url_ops ''evidence.example'') (map tq_url sent)"
proof -
  obtain sent where "https_fetch demo_deps demo_url_ops (traced (reqwest_transport demo_client ()))
      demo_source_core demo_subject (0, [])
      = (Inr \<lparr>ed_report = ''R'', ed_envelope = ''E'', ed_revocations = ''L''\<rparr>, (4, sent))"
    using shadows_run [OF traced_fetch demo_https_fetch] by blast
  from requests_stay_on_origin [OF demo_path_writer demo_https_source this]
  have "evidence_urls demo_url_ops (''evidence.example'', []) ''tokensaver'' demo_subject = map tq_url sent"
    and "list_all (on_origin demo_url_ops ''evidence.example'') (map tq_url sent)"
    by (simp_all add: demo_core demo_host)
  then show ?thesis by (intro exI [of _ sent]) simp
qed

text \<open>C25: a decision that fetched its evidence over HTTPS rests on documents that were each served
  complete, at their exact endpoint on the configured host, by a client that follows no redirect and
  uses no proxy and no plain HTTP, within the verifier's size limits; on exactly those documents the
  evidence was verified, and its revocation sequence is on disk.\<close>
theorem https_decision_grounded:
  assumes "path_writer_law u" and "https_source_new u cl c w0 = (Inr (s, t), w1)"
    and "fetch_verify_and_record d tc mc k (\<lambda>sj. fst (https_fetch d u t s sj w)) sb sj now fs
      = (Inr v, fs')"
  shows "\<exists>client (ev :: evidence_documents) a b e. cl_build cl (https_client_options c) w0 = (Some client, w1)
    \<and> co_https_only (https_client_options c) \<and> co_no_proxy (https_client_options c)
    \<and> \<not> co_follow_redirects (https_client_options c)
    \<and> evidence_urls u (so_base_url s) (hc_issuer_id c) sj = [a, b, e]
    \<and> served cl client (hc_total_timeout c) a max_report_bytes (ed_report ev)
    \<and> served cl client (hc_total_timeout c) b max_envelope_bytes (ed_envelope ev)
    \<and> served cl client (hc_total_timeout c) e max_revocation_bytes (ed_revocations ev)
    \<and> verify_certification_evidence d tc (ed_report ev) (ed_envelope ev) sb (ed_revocations ev) sj
        \<lparr>dc_now = now, dc_minimum_sequence = 0\<rparr> = Inr v
    \<and> vc_revocation_sequence v \<in> recorded d fs' (vc_issuer_id v)"
proof -
  from https_source_new_Inr [OF assms(2)] obtain client where
    build: "cl_build cl (https_client_options c) w0 = (Some client, w1)"
    and t: "t = reqwest_transport cl client" and valid: "validate_config u c = Inr (so_base_url s)"
    and s: "so_issuer_id s = hc_issuer_id c" "so_total_timeout s = hc_total_timeout c" by blast
  from assms(3) obtain ev where fetch: "fst (https_fetch d u t s sj w) = Inr ev"
    and verify: "verify_certification_evidence d tc (ed_report ev) (ed_envelope ev) sb
      (ed_revocations ev) sj \<lparr>dc_now = now, dc_minimum_sequence = 0\<rparr> = Inr v"
    by (auto simp: fetch_verify_and_record_def io_simps)
  from fetch obtain w' where run: "https_fetch d u (reqwest_transport cl client) s sj w = (Inr ev, w')"
    unfolding t by (metis prod.collapse)
  obtain a b e where urls: "evidence_urls u (so_base_url s) (so_issuer_id s) sj = [a, b, e]"
    by (simp add: evidence_urls_def)
  from valid have "\<not> ur_cannot_be_a_base u (so_base_url s)" by (simp add: validate_config_Inr)
  note served = https_fetch_served [OF assms(1) this run urls]
  from fetch_cases [OF assms(3)] have
    "record_effect d mc (vc_issuer_id v) (vc_revocation_sequence v) fs (Inr ()) fs'" by auto
  from record_effect_recorded [OF this]
  have "vc_revocation_sequence v \<in> recorded d fs' (vc_issuer_id v)" by (simp add: recorded_def)
  moreover have "co_https_only (https_client_options c)" "co_no_proxy (https_client_options c)"
    "\<not> co_follow_redirects (https_client_options c)"
    by (simp_all add: https_client_options_def)
  ultimately show ?thesis using build served verify urls unfolding s by blast
qed

theorem https_decision_grounded_witness:
  "\<exists>(ev :: evidence_documents) a. served demo_client () default_total_timeout a max_report_bytes (ed_report ev)
     \<and> verify_certification_evidence demo_deps demo_trust_codec (ed_report ev) (ed_envelope ev) ''S''
         (ed_revocations ev) demo_subject \<lparr>dc_now = 500, dc_minimum_sequence = 0\<rparr> = Inr demo_verified"
proof -
  have src: "fst (https_fetch demo_deps demo_url_ops (reqwest_transport demo_client ()) demo_source_core
      demo_subject 0) = demo_source demo_subject"
    by (simp add: demo_https_fetch demo_source_def)
  obtain fs where "fetch_verify_and_record demo_deps demo_trust_codec demo_marker_codec demo_call
      demo_source ''S'' demo_subject 500 empty_store = (Inr demo_verified, fs)"
    using demo_accepts by blast
  then have "fetch_verify_and_record demo_deps demo_trust_codec demo_marker_codec demo_call
      (\<lambda>sj. fst (https_fetch demo_deps demo_url_ops (reqwest_transport demo_client ()) demo_source_core
        sj 0)) ''S'' demo_subject 500 empty_store = (Inr demo_verified, fs)"
    by (simp add: fetch_verify_and_record_def src)
  from https_decision_grounded [OF demo_path_writer demo_https_source [of 0] this] show ?thesis
    by (auto simp: demo_https_config_def https_config_new_def)
qed

end
