(* ===== verification/Runtime_Review.thy ===== *)
theory Runtime_Review
  imports Runtime_Platform Native Manifest Identity
begin

text \<open>
  The properties of the runtime host: what ran when it answers with an observation.
\<close>

section \<open>Identifiers\<close>

text \<open>The host's grammars are those of the workbench.\<close>

lemma lower_hex_eq: "lower_hex s \<longleftrightarrow> list_all is_lower_hex s"
proof -
  have "is_hexdigit c \<and> \<not> is_upper c \<longleftrightarrow> is_lower_hex c" for c
    by (auto simp: is_hexdigit_def is_upper_def is_lower_hex_def is_digit_def)
  then show ?thesis by (simp add: lower_hex_def)
qed

lemma rt_digest_eq: "rt_digest = valid_digest"
  by (rule ext) (simp add: rt_digest_def valid_digest_def lower_hex_eq)

lemma rt_release_id_eq: "rt_release_id = valid_release_id"
  by (rule ext)
    (simp add: rt_release_id_def valid_release_id_def valid_prefixed_hex_def release_prefix_def lower_hex_eq
      eval_nat_numeral)

lemma rt_attempt_id_eq: "rt_attempt_id = valid_activation_attempt_id"
  by (rule ext) (simp add: rt_attempt_id_def valid_activation_attempt_id_def valid_prefixed_hex_def
      activation_prefix_def lower_hex_eq eval_nat_numeral)

lemma rt_label_eq: "rt_label = valid_label"
proof (rule ext)
  fix s :: string
  have edge: "is_alnum c \<longleftrightarrow> c \<noteq> CHR ''-''" if "is_lower c \<or> is_digit c \<or> c = CHR ''-''" for c
    using that by (auto simp: is_alnum_def is_lower_def is_digit_def is_upper_def)
  show "rt_label s = valid_label s"
  proof (cases "s \<noteq> [] \<and> list_all (\<lambda>c. is_lower c \<or> is_digit c \<or> c = CHR ''-'') s")
    case True
    then have "hd s \<in> set s" "last s \<in> set s" by simp_all
    with True edge [of "hd s"] edge [of "last s"] show ?thesis
      unfolding rt_label_def valid_label_def list_all_iff by blast
  qed (auto simp: rt_label_def valid_label_def)
qed

lemma three_labels_length:
  assumes "3 \<le> length (split_on CHR ''.'' s)" and "list_all valid_label (split_on CHR ''.'' s)"
  shows "3 \<le> length s"
proof -
  obtain a ps where one: "split_on CHR ''.'' s = a # ps" by (cases "split_on CHR ''.'' s") simp_all
  with assms(1) obtain b qs where two: "ps = b # qs" "qs \<noteq> []" by (cases ps) fastforce+
  have "s = a @ CHR ''.'' # b @ CHR ''.'' # join_with CHR ''.'' qs"
    using join_split_on [of "CHR ''.''" s] one two by (simp add: join_with_Cons)
  moreover have "a \<noteq> []" using assms(2) one by (simp add: valid_label_def)
  moreover have "length s = length a + length b + length (join_with CHR ''.'' qs) + 2"
    using calculation(1) by (metis (no_types, lifting) add.commute add.left_commute add_2_eq_Suc'
        add_Suc_right length_Cons length_append)
  ultimately show ?thesis by (cases a) simp_all
qed

lemma rt_plugin_id_eq: "rt_plugin_id s \<longleftrightarrow> length s \<le> 128 \<and> valid_plugin_id s"
  using three_labels_length [of s] by (auto simp: rt_plugin_id_def valid_plugin_id_def rt_label_eq Let_def)

section \<open>Reading a file to its end\<close>

text \<open>
  The events of a file that is opened, measured and read chunk by chunk to its end, as those of a
  regular file with this digest.
\<close>

definition file_hashed :: "deps \<Rightarrow> string \<Rightarrow> string \<Rightarrow> system_event list \<Rightarrow> bool" where
  "file_hashed d path digest es \<longleftrightarrow>
    (\<exists>fd len chunks. es = [Opened path fd, Measured fd RegularFile len]
        @ map (Chunk fd) (chunks @ [[]])
      \<and> [] \<notin> set chunks \<and> chunks \<noteq> [] \<and> length (concat chunks) = unat len
      \<and> length (concat chunks) \<le> 268435456
      \<and> sha256_digest d (concat chunks) = digest)"

lemma digest_loop_events:
  "digest_loop (watched_os ro) fd acc (w, l) = (Inr data, (w', l')) \<Longrightarrow>
     \<exists>chunks. data = acc @ concat chunks \<and> l' = l @ map (Chunk fd) (chunks @ [[]])
       \<and> [] \<notin> set chunks"
proof (induction ro fd acc w arbitrary: l rule: digest_loop.induct)
  case (1 ro fd acc w)
  obtain r v where r: "rt_read ro fd w = (r, v)" by fastforce
  show ?case
  proof (cases r)
    case None
    with r "1.prems" show ?thesis by (subst (asm) digest_loop.simps) (simp add: noting_app)
  next
    case (Some chunk)
    show ?thesis
    proof (cases "chunk = []")
      case True
      with r Some "1.prems" have "data = acc" "l' = l @ [Chunk fd []]"
        by (subst (asm) digest_loop.simps, simp add: noting_app)+
      then show ?thesis by (intro exI [of _ "[]"]) simp
    next
      case False
      with r Some "1.prems" have le: "\<not> length acc + length chunk > rt_max_identity_bytes"
        and rest: "digest_loop (watched_os ro) fd (acc @ chunk) (v, l @ [Chunk fd chunk])
          = (Inr data, (w', l'))"
        by (subst (asm) digest_loop.simps, simp add: noting_app split: if_splits)+
      from "1.IH" [OF r [symmetric] Some False le rest] obtain chunks where
        "data = (acc @ chunk) @ concat chunks" "[] \<notin> set chunks"
        "l' = (l @ [Chunk fd chunk]) @ map (Chunk fd) (chunks @ [[]])" by blast
      with False show ?thesis by (intro exI [of _ "chunk # chunks"]) simp
    qed
  qed
qed

lemma digest_file_events:
  assumes "digest_file d (watched_os ro) path (w, l) = (Inr digest, (w', l'))"
  shows "\<exists>es. l' = l @ es \<and> file_hashed d path digest es"
proof -
  from assms obtain fd len v data where
    len: "len \<noteq> 0" "unat len \<le> rt_max_identity_bytes"
    and loop: "digest_loop (watched_os ro) fd []
        (v, l @ [Opened path fd, Measured fd RegularFile len]) = (Inr data, (w', l'))"
    and data: "length data = unat len" "digest = sha256_digest d data"
    by (auto simp: digest_file_def io_simps noting_eq not_less)
  from digest_loop_events [OF loop] obtain chunks where
    c: "data = concat chunks" "[] \<notin> set chunks"
    "l' = (l @ [Opened path fd, Measured fd RegularFile len]) @ map (Chunk fd) (chunks @ [[]])"
    by auto
  have "chunks \<noteq> []" using data len c by (auto simp: unat_eq_0)
  with c len data show ?thesis
    by (intro exI [of _ "[Opened path fd, Measured fd RegularFile len] @ map (Chunk fd) (chunks @ [[]])"]
        conjI) (auto simp: file_hashed_def rt_max_identity_bytes_def intro!: exI [of _ chunks])
qed

lemma shadows_digest_file [shadow_rules]:
  "shadows (digest_file d (watched_os ro) path) (digest_file d ro path)"
proof -
  have "\<exists>l'. digest_loop (watched_os ro) fd acc (w, l)
      = (fst (digest_loop ro fd acc w), (snd (digest_loop ro fd acc w), l'))" for fd acc w l
  proof (induction ro fd acc w arbitrary: l rule: digest_loop.induct)
    case (1 ro fd acc w)
    obtain r v where r: "rt_read ro fd w = (r, v)" by fastforce
    show ?case
    proof (cases "\<exists>chunk. r = Some chunk \<and> chunk \<noteq> []
        \<and> \<not> length acc + length chunk > rt_max_identity_bytes")
      case True
      then obtain chunk where c: "r = Some chunk" "chunk \<noteq> []"
        "\<not> length acc + length chunk > rt_max_identity_bytes" by blast
      from "1.IH" [OF r [symmetric] c, of "l @ [Chunk fd chunk]"] r c show ?thesis
        by (subst digest_loop.simps, subst (2) digest_loop.simps, subst (3) digest_loop.simps)
          (simp add: noting_app)
    next
      case False
      with r show ?thesis
        by (subst digest_loop.simps, subst (2) digest_loop.simps, subst (3) digest_loop.simps)
          (auto simp: noting_app split: option.splits)
    qed
  qed
  then have "shadows (digest_loop (watched_os ro) fd acc) (digest_loop ro fd acc)" for fd acc
    by (simp add: shadows_def)
  then show ?thesis
    unfolding digest_file_def watched_os_simps ensure_def
    by (auto intro!: shadow_rules split: prod.splits)
qed

section \<open>A request that was checked\<close>

text \<open>
  The identifiers are those of the workbench, the limits within their bounds, the input decoded and
  the paths apart.
\<close>

definition request_bounded :: "runtime_request \<Rightarrow> bool" where
  "request_bounded q \<longleftrightarrow>
     0 < rq_deadline_ms q \<and> rq_deadline_ms q \<le> 1250
     \<and> 0 < rq_memory_bytes q \<and> rq_memory_bytes q \<le> 268435456
     \<and> 0 < rq_stdout_bytes q \<and> rq_stdout_bytes q \<le> 25165824
     \<and> 0 < rq_stderr_bytes q \<and> rq_stderr_bytes q \<le> 65536
     \<and> length (rq_arguments q) \<le> 32
     \<and> list_all (\<lambda>v. length v \<le> 4096 \<and> CHR 0x00 \<notin> set v) (rq_arguments q)"

definition checked_request :: "deps \<Rightarrow> 'w runtime_os \<Rightarrow> string \<Rightarrow> runtime_request \<Rightarrow> validated_request \<Rightarrow> bool" where
  "checked_request d ro key q v \<longleftrightarrow> vr_request v = q \<and> rq_platform q = key \<and> request_bounded q
     \<and> rq_operation q \<in> {''execute'', ''deprovision''}
     \<and> valid_activation_attempt_id (rq_attempt_id q) \<and> valid_release_id (rq_release_id q)
     \<and> length (rq_plugin_id q) \<le> 128 \<and> valid_plugin_id (rq_plugin_id q)
     \<and> b64_decode d (rq_input q) = Some (vr_input v)
     \<and> vr_input v \<noteq> [] \<and> length (vr_input v) \<le> 25165824
     \<and> ho_within (rt_host ro) (vr_executable v) (vr_release v)
     \<and> \<not> ho_within (rt_host ro) (vr_work v) (vr_release v)
     \<and> \<not> ho_within (rt_host ro) (vr_release v) (vr_work v)"

text \<open>The paths of the request are resolved, and the two files read with the digests of the request.\<close>

definition identifying :: "deps \<Rightarrow> 'w runtime_os \<Rightarrow> validated_request \<Rightarrow> system_event list \<Rightarrow> bool" where
  "identifying d ro v es \<longleftrightarrow>
    (let q = vr_request v
     in \<exists>artifact package. file_hashed d (vr_executable v) (rq_artifact_digest q) artifact
        \<and> file_hashed d (rt_join ro (vr_release v) ''package.tsplug'') (rq_package_digest q) package
        \<and> es = [Resolved (rq_executable_path q) (vr_executable v),
            Resolved (rq_release_path q) (vr_release v), Resolved (rq_work_path q) (vr_work v)]
            @ artifact @ package)"

lemma request_ok_bounded:
  "rt_request_ok key q \<Longrightarrow> request_bounded q \<and> rq_platform q = key
     \<and> valid_activation_attempt_id (rq_attempt_id q) \<and> valid_release_id (rq_release_id q)
     \<and> length (rq_plugin_id q) \<le> 128 \<and> valid_plugin_id (rq_plugin_id q)
     \<and> rq_operation q \<in> {''execute'', ''deprovision''}"
  by (auto simp: rt_request_ok_def request_bounded_def rt_plugin_id_eq rt_attempt_id_eq
      rt_release_id_eq not_less list_all_iff list_ex_iff word_gt_0 rt_max_deadline_ms_def
      rt_max_memory_bytes_def rt_max_stdout_bytes_def rt_max_stderr_bytes_def rt_max_arguments_def
      rt_max_argument_bytes_def)

lemma rt_validate_events:
  assumes "rt_validate d (watched_os ro) key q (w, l) = (Inr v, (w', l'))"
  shows "checked_request d ro key q v \<and> (\<exists>es. l' = l @ es \<and> identifying d ro v es)"
proof -
  from assms have ok: "rt_request_ok key q" by (auto simp: rt_validate_def Let_def io_simps)
  from assms obtain exe release work data u1 u2 l2 where
    v: "v = \<lparr>vr_request = q, vr_executable = exe, vr_release = release, vr_work = work,
          vr_input = data\<rparr>"
    and b: "b64_decode d (rq_input q) = Some data" "data \<noteq> []" "length data \<le> rt_max_input_bytes"
    and p: "ho_within (rt_host ro) exe release" "\<not> ho_within (rt_host ro) work release"
      "\<not> ho_within (rt_host ro) release work"
    and one: "digest_file d (watched_os ro) exe (u1, l @ [Resolved (rq_executable_path q) exe,
          Resolved (rq_release_path q) release, Resolved (rq_work_path q) work])
        = (Inr (rq_artifact_digest q), (u2, l2))"
    and two: "digest_file d (watched_os ro) (rt_join ro release ''package.tsplug'') (u2, l2)
        = (Inr (rq_package_digest q), (w', l'))"
    by (auto simp: rt_validate_def rt_canonical_file_def rt_canonical_directory_def Let_def io_simps
        noting_eq not_less split: option.splits)
  from digest_file_events [OF one] digest_file_events [OF two] obtain artifact package where
    "l2 = (l @ [Resolved (rq_executable_path q) exe, Resolved (rq_release_path q) release,
       Resolved (rq_work_path q) work]) @ artifact" "l' = l2 @ package"
    "file_hashed d exe (rq_artifact_digest q) artifact"
    "file_hashed d (rt_join ro release ''package.tsplug'') (rq_package_digest q) package" by blast
  then have "\<exists>es. l' = l @ es \<and> identifying d ro v es"
    by (simp add: identifying_def v) blast
  moreover have "checked_request d ro key q v"
    using request_ok_bounded [OF ok] b p by (simp add: checked_request_def v rt_max_input_bytes_def)
  ultimately show ?thesis by blast
qed

section \<open>What a kernel ran\<close>

text \<open>The platform a host was built for, with the functions of the system it calls.\<close>

datatype 'w target_system =
    LinuxSystem "'w linux_kernel"
  | MacosSystem "'w macos_kernel"
  | WindowsSystem "'w windows_api" "'w windows_kernel"

fun platform_of :: "deps \<Rightarrow> 'w runtime_os \<Rightarrow> target_arch \<Rightarrow> 'w target_system \<Rightarrow> 'w runtime_platform" where
  "platform_of d ro a (LinuxSystem k) = linux_runtime d ro k a"
| "platform_of d ro a (MacosSystem k) = macos_runtime d ro k a"
| "platform_of d ro a (WindowsSystem api k) = windows_runtime d ro api k a"

fun watched_system :: "'w target_system \<Rightarrow> ('w \<times> system_event list) target_system" where
  "watched_system (LinuxSystem k) = LinuxSystem (watched_linux k)"
| "watched_system (MacosSystem k) = MacosSystem (watched_macos k)"
| "watched_system (WindowsSystem api k) = WindowsSystem (watched_api api) (watched_windows k)"

text \<open>
  The events of an execution, exactly: the resources the environment names, the paths the constructor
  of the configuration resolves, the preflight and one process. The configuration is the one the
  constructor returned in this run.
\<close>

definition linux_ran ::
  "deps \<Rightarrow> 'w runtime_os \<Rightarrow> validated_request \<Rightarrow> native_result \<Rightarrow> system_event list \<Rightarrow> bool" where
  "linux_ran d ro v nr es \<longleftrightarrow>
    (\<exists>b base g cgroup c kob u l u' built.
      built = [Resolved (vr_executable v) (lc_executable c), Resolved base (lc_sandbox_root c),
          Resolved (vr_work v) (lc_writable_directory c), Resolved cgroup (lc_cgroup_parent c)]
      \<and> linux_config_new d (watched_host (rt_host ro)) (vr_executable v) base (vr_work v) cgroup
          linux_runtime_environment runtime_engine (u, l) = (Inr c, (u', l @ built))
      \<and> es = [Variable ''TOKENSAVER_PLUGIN_SANDBOX_ROOT'' b, Resolved b base,
            Variable ''TOKENSAVER_PLUGIN_CGROUP_PARENT'' g, Resolved g cgroup]
          @ built @ [Preflighted, Ran (LinuxProcess (linux_runtime_execution c v)) kob]
      \<and> nr = native_result_of ''com.tokensaver.native-runtime.linux'' (lc_policy_digest c) kob)"

definition macos_ran ::
  "deps \<Rightarrow> 'w runtime_os \<Rightarrow> validated_request \<Rightarrow> native_result \<Rightarrow> system_event list \<Rightarrow> bool" where
  "macos_ran d ro v nr es \<longleftrightarrow>
    (\<exists>b launcher c kob u l u' exe lch built.
      built = [Resolved (vr_executable v) (mc_executable c), Resolved launcher (mc_launcher c),
          Resolved (vr_work v) (mc_writable_directory c), ReadFile (mc_executable c) exe,
          ReadFile (mc_launcher c) lch]
      \<and> sha256_digest d exe = mc_executable_digest c \<and> sha256_digest d lch = mc_launcher_digest c
      \<and> macos_config_new d (watched_host (rt_host ro)) (vr_executable v) launcher (vr_work v)
          (macos_runtime_environment ro v) runtime_engine (u, l) = (Inr c, (u', l @ built))
      \<and> es = [Variable ''TOKENSAVER_PLUGIN_LIMIT_LAUNCHER'' b, Resolved b launcher]
          @ built @ [Preflighted, Ran (MacosProcess (macos_runtime_execution c v)) kob]
      \<and> nr = native_result_of ''com.tokensaver.native-runtime.macos'' (mc_policy_digest c) kob)"

definition grant_command :: "'w runtime_os \<Rightarrow> string \<Rightarrow> string \<Rightarrow> string \<Rightarrow> string \<Rightarrow> icacls_command" where
  "grant_command ro base path sid rights =
     \<lparr>cm_program = rt_join ro (rt_join ro base ''System32'') ''icacls.exe'',
      cm_arguments = [path, ''/grant:r'', ''*'' @ sid @ '':'' @ rights],
      cm_environment = [(''SYSTEMROOT'', base)]\<rparr>"

definition windows_ran ::
  "deps \<Rightarrow> 'w runtime_os \<Rightarrow> validated_request \<Rightarrow> native_result \<Rightarrow> system_event list \<Rightarrow> bool" where
  "windows_ran d ro v nr es \<longleftrightarrow>
    (\<exists>sid r1 r2 base drive lad c kob u l u' built.
      built = [Resolved (vr_executable v) (wc_executable_path c),
          Resolved (vr_work v) (wc_working_directory c), Resolved lad (wc_working_directory c)]
      \<and> windows_config_new d (watched_host (rt_host ro)) (vr_executable v) (vr_work v)
          (profile_name d (rq_plugin_id (vr_request v)) (rq_release_id (vr_request v)))
          (windows_runtime_environment ro v drive base) runtime_engine (u, l) = (Inr c, (u', l @ built))
      \<and> es = [Variable ''SYSTEMROOT'' r1,
            Commanded (grant_command ro r1 (vr_release v) sid ''(OI)(CI)RX'') True,
            Variable ''SYSTEMROOT'' r2,
            Commanded (grant_command ro r2 (vr_work v) sid ''(OI)(CI)M'') True,
            Variable ''SYSTEMROOT'' base, Variable ''SYSTEMDRIVE'' drive]
          @ built @ [Preflighted, Ran (WindowsProcess (windows_runtime_execution c v)) kob]
      \<and> nr = native_result_of ''com.tokensaver.native-runtime.windows'' (wc_policy_digest c) kob)"

fun kernel_ran ::
  "deps \<Rightarrow> 'w runtime_os \<Rightarrow> 'w target_system \<Rightarrow> validated_request \<Rightarrow> native_result
     \<Rightarrow> system_event list \<Rightarrow> bool" where
  "kernel_ran d ro (LinuxSystem k) v nr es = linux_ran d ro v nr es"
| "kernel_ran d ro (MacosSystem k) v nr es = macos_ran d ro v nr es"
| "kernel_ran d ro (WindowsSystem api k) v nr es = windows_ran d ro v nr es"

lemma required_resource_events:
  "required_resource (watched_os ro) kind name (w, l) = (Inr path, (w', l')) \<Longrightarrow>
     \<exists>v. l' = l @ [Variable name v, Resolved v path]"
  by (auto simp: required_resource_def io_simps noting_eq)

lemma linux_config_events:
  "linux_config_new d (watched_host os) exe base work cgroup env engine (w, l) = (Inr c, (w', l')) \<Longrightarrow>
     l' = l @ [Resolved exe (lc_executable c), Resolved base (lc_sandbox_root c),
       Resolved work (lc_writable_directory c), Resolved cgroup (lc_cgroup_parent c)]"
  by (auto simp: linux_config_new_def linux_canonical_def io_simps noting_eq)

lemma macos_config_events:
  "macos_config_new d (watched_host os) exe launcher work env engine (w, l) = (Inr c, (w', l')) \<Longrightarrow>
     \<exists>e la. l' = l @ [Resolved exe (mc_executable c), Resolved launcher (mc_launcher c),
         Resolved work (mc_writable_directory c), ReadFile (mc_executable c) e,
         ReadFile (mc_launcher c) la]
       \<and> sha256_digest d e = mc_executable_digest c \<and> sha256_digest d la = mc_launcher_digest c"
  by (auto simp: macos_config_new_def macos_canonical_def macos_digest_file_def io_simps noting_eq)

lemma windows_config_events:
  "windows_config_new d (watched_host os) exe work container env engine (w, l) = (Inr c, (w', l')) \<Longrightarrow>
     \<exists>lad. l' = l @ [Resolved exe (wc_executable_path c), Resolved work (wc_working_directory c),
       Resolved lad (wc_working_directory c)]"
  by (auto simp: windows_config_new_def windows_canonical_file_def windows_canonical_directory_def
      validate_loader_environment_def Let_def io_simps noting_eq)

lemma watched_environments [simp]:
  "macos_runtime_environment (watched_os ro) = macos_runtime_environment ro"
  "windows_runtime_environment (watched_os ro) = windows_runtime_environment ro"
  "wide (watched_os ro) = wide ro"
  by (simp_all add: fun_eq_iff macos_runtime_environment_def windows_runtime_environment_def wide_def
      Let_def)

lemma linux_runtime_events:
  assumes "linux_runtime_execute d (watched_os ro) (watched_linux k) v (w, l) = (Inr nr, (w', l'))"
  shows "\<exists>es. l' = l @ es \<and> linux_ran d ro v nr es"
proof -
  from assms obtain base cgroup c kob u1 l1 u2 l2 u3 l3 where
    r: "required_resource (watched_os ro) Directory ''TOKENSAVER_PLUGIN_SANDBOX_ROOT'' (w, l)
        = (Inr base, (u1, l1))"
      "required_resource (watched_os ro) Directory ''TOKENSAVER_PLUGIN_CGROUP_PARENT'' (u1, l1)
        = (Inr cgroup, (u2, l2))"
    and c: "linux_config_new d (watched_host (rt_host ro)) (vr_executable v) base (vr_work v) cgroup
        linux_runtime_environment runtime_engine (u2, l2) = (Inr c, (u3, l3))"
    and e: "l' = l3 @ [Preflighted, Ran (LinuxProcess (linux_runtime_execution c v)) kob]"
      "nr = native_result_of ''com.tokensaver.native-runtime.linux'' (lc_policy_digest c) kob"
    by (clarsimp simp: linux_runtime_execute_def io_simps noting_eq)
  from required_resource_events [OF r(1)] required_resource_events [OF r(2)] obtain b g where
    l2: "l2 = l @ [Variable ''TOKENSAVER_PLUGIN_SANDBOX_ROOT'' b, Resolved b base,
      Variable ''TOKENSAVER_PLUGIN_CGROUP_PARENT'' g, Resolved g cgroup]" by auto
  note l3 = linux_config_events [OF c]
  show ?thesis
    unfolding e(1) l3 l2 append.assoc linux_ran_def
    by (intro exI conjI) (rule refl, rule refl, rule c [unfolded l3], simp, rule e(2))
qed

lemma macos_runtime_events:
  assumes "macos_runtime_execute d (watched_os ro) (watched_macos k) v (w, l) = (Inr nr, (w', l'))"
  shows "\<exists>es. l' = l @ es \<and> macos_ran d ro v nr es"
proof -
  from assms obtain launcher c kob u1 l1 u2 l2 where
    r: "required_resource (watched_os ro) RegularFile ''TOKENSAVER_PLUGIN_LIMIT_LAUNCHER'' (w, l)
        = (Inr launcher, (u1, l1))"
    and c: "macos_config_new d (watched_host (rt_host ro)) (vr_executable v) launcher (vr_work v)
        (macos_runtime_environment ro v) runtime_engine (u1, l1) = (Inr c, (u2, l2))"
    and e: "l' = l2 @ [Preflighted, Ran (MacosProcess (macos_runtime_execution c v)) kob]"
      "nr = native_result_of ''com.tokensaver.native-runtime.macos'' (mc_policy_digest c) kob"
    by (clarsimp simp: macos_runtime_execute_def io_simps noting_eq)
  from required_resource_events [OF r] obtain b where
    l1: "l1 = l @ [Variable ''TOKENSAVER_PLUGIN_LIMIT_LAUNCHER'' b, Resolved b launcher]" by auto
  from macos_config_events [OF c] obtain exe lch where
    l2: "l2 = l1 @ [Resolved (vr_executable v) (mc_executable c), Resolved launcher (mc_launcher c),
         Resolved (vr_work v) (mc_writable_directory c), ReadFile (mc_executable c) exe,
         ReadFile (mc_launcher c) lch]"
    and dg: "sha256_digest d exe = mc_executable_digest c" "sha256_digest d lch = mc_launcher_digest c"
    by blast
  show ?thesis
    unfolding e(1) l2 l1 append.assoc macos_ran_def
    by (intro exI conjI)
      (rule refl, rule refl, rule dg, rule dg, rule c [unfolded l2], simp, rule e(2))
qed

lemma ensure_profile_events:
  "ensure_profile (watched_api api) (watched_os ro) name (w, l) = (Inr sid, (w', l')) \<Longrightarrow> l' = l"
  by (auto simp: ensure_profile_def derive_sid_def sid_string_def io_simps noting_eq
      split: if_splits option.splits)

lemma grant_events:
  "grant (watched_api api) (watched_os ro) path sid rights (w, l) = (Inr x, (w', l')) \<Longrightarrow>
     \<exists>r. l' = l @ [Variable ''SYSTEMROOT'' r, Commanded (grant_command ro r path sid rights) True]"
  by (auto simp: grant_def grant_command_def Let_def io_simps noting_eq)

lemma env_text_events:
  "env_text (watched_os ro) name (w, l) = (Inr x, (w', l')) \<Longrightarrow> l' = l @ [Variable name x]"
  by (auto simp: env_text_def io_simps noting_eq)

lemma windows_runtime_events:
  assumes "windows_runtime_execute d (watched_os ro) (watched_api api) (watched_windows k) v (w, l)
      = (Inr nr, (w', l'))"
  shows "\<exists>es. l' = l @ es \<and> windows_ran d ro v nr es"
proof -
  let ?name = "profile_name d (rq_plugin_id (vr_request v)) (rq_release_id (vr_request v))"
  from assms obtain sid base drive c kob u1 l1 u2 l2 u3 l3 u4 l4 u5 l5 u6 l6 where
    p: "ensure_profile (watched_api api) (watched_os ro) ?name (w, l) = (Inr sid, (u1, l1))"
    and g: "grant (watched_api api) (watched_os ro) (vr_release v) sid ''(OI)(CI)RX'' (u1, l1)
        = (Inr (), (u2, l2))"
      "grant (watched_api api) (watched_os ro) (vr_work v) sid ''(OI)(CI)M'' (u2, l2)
        = (Inr (), (u3, l3))"
    and n: "env_text (watched_os ro) ''SYSTEMROOT'' (u3, l3) = (Inr base, (u4, l4))"
      "env_text (watched_os ro) ''SYSTEMDRIVE'' (u4, l4) = (Inr drive, (u5, l5))"
    and c: "windows_config_new d (watched_host (rt_host ro)) (vr_executable v) (vr_work v) ?name
        (windows_runtime_environment ro v drive base) runtime_engine (u5, l5) = (Inr c, (u6, l6))"
    and e: "l' = l6 @ [Preflighted, Ran (WindowsProcess (windows_runtime_execution c v)) kob]"
      "nr = native_result_of ''com.tokensaver.native-runtime.windows'' (wc_policy_digest c) kob"
    by (clarsimp simp: windows_runtime_execute_def Let_def io_simps noting_eq)
  from ensure_profile_events [OF p] grant_events [OF g(1)] grant_events [OF g(2)]
    env_text_events [OF n(1)] env_text_events [OF n(2)] obtain r1 r2 where
    l5: "l5 = l @ [Variable ''SYSTEMROOT'' r1,
      Commanded (grant_command ro r1 (vr_release v) sid ''(OI)(CI)RX'') True,
      Variable ''SYSTEMROOT'' r2,
      Commanded (grant_command ro r2 (vr_work v) sid ''(OI)(CI)M'') True,
      Variable ''SYSTEMROOT'' base, Variable ''SYSTEMDRIVE'' drive]" by auto
  from windows_config_events [OF c] obtain lad where
    l6: "l6 = l5 @ [Resolved (vr_executable v) (wc_executable_path c),
      Resolved (vr_work v) (wc_working_directory c), Resolved lad (wc_working_directory c)]" by blast
  show ?thesis
    unfolding e(1) l6 l5 append.assoc windows_ran_def
    by (intro exI conjI) (rule refl, rule refl, rule c [unfolded l6], simp, rule e(2))
qed

section \<open>The run of the host\<close>

lemma shadows_map_errW [shadow_rules]: "shadows m' m \<Longrightarrow> shadows (map_errW e m') (map_errW e m)"
  unfolding shadows_def
proof (intro allI)
  fix w l
  assume "\<forall>w l. \<exists>l'. m' (w, l) = (fst (m w), snd (m w), l')"
  then obtain l' where "m' (w, l) = (fst (m w), (snd (m w), l'))" by blast
  then show "\<exists>l'. map_errW e m' (w, l) = (fst (map_errW e m w), snd (map_errW e m w), l')"
    by (cases "m w"; cases "fst (m w)") (auto simp: map_errW_def)
qed

lemma shadows_config_new [shadow_rules]:
  "shadows (linux_config_new d (watched_host os) p1 p2 p3 p4 env engine)
     (linux_config_new d os p1 p2 p3 p4 env engine)"
  "shadows (macos_config_new d (watched_host os) p1 p2 p3 env engine)
     (macos_config_new d os p1 p2 p3 env engine)"
  "shadows (windows_config_new d (watched_host os) p1 p2 name env engine)
     (windows_config_new d os p1 p2 name env engine)"
proof -
  have "make_sandbox_profile (watched_host os) = make_sandbox_profile os"
    "windows_policy_digest d (watched_host os) = windows_policy_digest d os"
    by (simp_all add: fun_eq_iff make_sandbox_profile_def parent_literal_def windows_policy_digest_def
        windows_policy_preimage_def wide_path_bytes_def)
  then show "shadows (linux_config_new d (watched_host os) p1 p2 p3 p4 env engine)
     (linux_config_new d os p1 p2 p3 p4 env engine)"
  "shadows (macos_config_new d (watched_host os) p1 p2 p3 env engine)
     (macos_config_new d os p1 p2 p3 env engine)"
  "shadows (windows_config_new d (watched_host os) p1 p2 name env engine)
     (windows_config_new d os p1 p2 name env engine)"
    unfolding linux_config_new_def linux_canonical_def macos_config_new_def macos_canonical_def
      macos_digest_file_def windows_config_new_def windows_canonical_file_def
      windows_canonical_directory_def validate_loader_environment_def ensure_def Let_def
      watched_host_simps
    by (auto intro!: shadow_rules)
qed

lemma shadows_resource [shadow_rules]:
  "shadows (required_resource (watched_os ro) kind name) (required_resource ro kind name)"
  unfolding required_resource_def ensure_def watched_os_simps watched_host_simps
  by (auto intro!: shadow_rules)

lemma shadows_windows_setup [shadow_rules]:
  "shadows (ensure_profile (watched_api api) (watched_os ro) name) (ensure_profile api ro name)"
  "shadows (grant (watched_api api) (watched_os ro) path sid rights) (grant api ro path sid rights)"
  "shadows (env_text (watched_os ro) name) (env_text ro name)"
  "shadows (windows_deprovision d (watched_os ro) (watched_api api) v) (windows_deprovision d ro api v)"
  unfolding ensure_profile_def derive_sid_def sid_string_def grant_def env_text_def
    windows_deprovision_def ensure_def Let_def watched_os_simps watched_host_simps watched_api_simps
    watched_environments
  by (auto intro!: shadow_rules split: prod.splits option.splits)

lemma shadows_platform:
  "shadows (rp_execute (platform_of d (watched_os ro) a (watched_system k)) v)
     (rp_execute (platform_of d ro a k) v)"
  "shadows (rp_deprovision (platform_of d (watched_os ro) a (watched_system k)) v)
     (rp_deprovision (platform_of d ro a k) v)"
  "rp_key (platform_of d (watched_os ro) a (watched_system k)) = rp_key (platform_of d ro a k)"
  by (cases k; auto simp: linux_runtime_def macos_runtime_def windows_runtime_def
      linux_runtime_execute_def macos_runtime_execute_def windows_runtime_execute_def ensure_def Let_def
      intro!: shadow_rules)+

lemma shadows_runtime_run:
  "shadows (runtime_run d parse (watched_os ro) (platform_of d (watched_os ro) a (watched_system k)))
     (runtime_run d parse ro (platform_of d ro a k))"
  unfolding runtime_run_def rt_validate_def rt_canonical_file_def rt_canonical_directory_def
    ensure_def Let_def watched_os_simps watched_host_simps shadows_platform(3)
  by (auto intro!: shadow_rules shadows_platform)

lemma kernel_ran_events:
  assumes "rp_execute (platform_of d (watched_os ro) a (watched_system k)) v (w, l) = (Inr nr, (w', l'))"
  shows "\<exists>es. l' = l @ es \<and> kernel_ran d ro k v nr es"
  using assms linux_runtime_events macos_runtime_events windows_runtime_events
  by (cases k) (auto simp: linux_runtime_def macos_runtime_def windows_runtime_def)

text \<open>A run that answers with an observation, as its events.\<close>

lemma runtime_run_events:
  assumes "runtime_run d parse (watched_os ro) (platform_of d (watched_os ro) a (watched_system k)) (w, [])
      = (Inr resp, (w', es))" and "rr_observation resp = Some ob"
  shows "\<exists>raw q v nr files ran. es = [Requested raw] @ files @ ran
    \<and> parse raw = Some q \<and> length raw \<le> 41943040 \<and> rq_operation q = ''execute''
    \<and> checked_request d ro (rp_key (platform_of d ro a k)) q v
    \<and> identifying d ro v files \<and> kernel_ran d ro k v nr ran
    \<and> ob = runtime_observation_of d q nr"
proof -
  let ?p = "platform_of d (watched_os ro) a (watched_system k)"
  from assms(1) obtain raw q v u l where
    raw: "parse raw = Some q" "length raw \<le> rt_max_request_bytes"
    and v: "\<exists>u'. rt_validate d (watched_os ro) (rp_key ?p) q (u', [Requested raw]) = (Inr v, (u, l))"
    and rest: "(if rq_operation (vr_request v) = ''deprovision''
       then bindW (rp_deprovision ?p v) (\<lambda>_. returnW (ok_response None))
       else bindW (rp_execute ?p v) (\<lambda>nr.
         returnW (ok_response (Some (runtime_observation_of d (vr_request v) nr))))) (u, l) = (Inr resp, (w', es))"
    by (clarsimp simp: runtime_run_def io_simps noting_eq not_less split: option.splits) blast
  from v obtain u' where "rt_validate d (watched_os ro) (rp_key (platform_of d ro a k)) q
      (u', [Requested raw]) = (Inr v, (u, l))"
    unfolding shadows_platform(3) by blast
  from rt_validate_events [OF this] obtain files where
    id: "checked_request d ro (rp_key (platform_of d ro a k)) q v" "identifying d ro v files"
      "l = [Requested raw] @ files"
    by blast
  then have q: "vr_request v = q" "rq_operation q \<in> {''execute'', ''deprovision''}"
    by (simp_all add: checked_request_def)
  have "rq_operation q \<noteq> ''deprovision''"
    using rest assms(2) unfolding q by (auto simp: io_simps ok_response_def)
  with rest q assms(2) obtain nr where
    "rp_execute ?p v (u, l) = (Inr nr, (w', es))" "ob = runtime_observation_of d q nr"
    by (auto simp: io_simps ok_response_def)
  moreover from kernel_ran_events [OF this(1)] obtain ran where
    "es = l @ ran" "kernel_ran d ro k v nr ran" by blast
  moreover have "rq_operation q = ''execute''" using q(2) \<open>rq_operation q \<noteq> ''deprovision''\<close> by blast
  ultimately show ?thesis
    using raw id
    by (intro exI [of _ raw] exI [of _ q] exI [of _ v] exI [of _ nr] exI [of _ files] exI [of _ ran])
      (simp add: rt_max_request_bytes_def)
qed

section \<open>The fixed configuration\<close>

lemma runtime_engine_ok: "engine_ok runtime_engine"
  by (simp add: engine_ok_def runtime_engine_def driver_token_def driver_version_def Let_def
      version_part_def supported_sanitizer_def is_alnum_def is_digit_def is_lower_def is_upper_def
      starts_with_def)

lemma linux_runtime_environment_ok:
  "linux_validate_environment linux_runtime_environment = Inr linux_runtime_environment"
  by code_simp

section \<open>A concrete host\<close>

text \<open>The world is the position in the one file that is open.\<close>

definition demo_rt_host :: "nat host_os" where
  "demo_rt_host = \<lparr>ho_canonicalize = (\<lambda>p. Pair (Some p)),
     ho_kind = (\<lambda>p. Pair (Some (if p \<in> {''/r'', ''/w'', ''/c''} then Directory else RegularFile))),
     ho_read = (\<lambda>_. Pair (Some ''exe'')), ho_absolute = (\<lambda>_. True),
     ho_within = (\<lambda>p q. starts_with p q), ho_parent = (\<lambda>_. Some ''/r''),
     ho_wide = map (\<lambda>c. word_of_nat (ord c))\<rparr>"

definition demo_runtime_os :: "nat runtime_os" where
  "demo_runtime_os = \<lparr>rt_host = demo_rt_host, rt_join = (\<lambda>p q. p @ ''/'' @ q), rt_lossy = id,
     rt_open = (\<lambda>_ w. (Some 3, 0)), rt_metadata = (\<lambda>_. Pair (Some (RegularFile, 3))),
     rt_read = (\<lambda>_ w. (Some (if w = 0 then ''exe'' else []), 1)),
     rt_env = (\<lambda>_. Pair (Some ''/c'')), rt_stdin = (\<lambda>_. Pair (Some ''{}'')),
     rt_answer = (\<lambda>_. Pair True)\<rparr>"

definition demo_rt_kernel :: "nat linux_kernel" where
  "demo_rt_kernel = \<lparr>lk_preflight = (\<lambda>_. Pair (Some ())),
     lk_execute = (\<lambda>_. Pair (Some demo_kernel_observation)), lk_coverage = Pair (Some 7500)\<rparr>"

definition demo_runtime_request :: runtime_request where
  "demo_runtime_request = \<lparr>rq_schema_version = 1, rq_operation = ''execute'',
     rq_attempt_id = demo_attempt, rq_plugin_id = ''com.example.a'',
     rq_release_id = release_id demo_deps ''com.example.a'' ''1.0.0'' ''linux-x64'' ''artifact'',
     rq_platform = ''linux-x64'', rq_package_digest = sha256_digest demo_deps ''exe'',
     rq_artifact_digest = sha256_digest demo_deps ''exe'', rq_executable_path = ''/r/p'',
     rq_release_path = ''/r'', rq_work_path = ''/w'', rq_arguments = [''--tspp''],
     rq_input = b64_encode demo_deps ''in'', rq_deadline_ms = 500, rq_memory_bytes = 4096,
     rq_stdout_bytes = 64, rq_stderr_bytes = 64\<rparr>"

lemma demo_rt_calls:
  "ho_canonicalize demo_rt_host p w = (Some p, w)"
  "ho_kind demo_rt_host p w = (Some (if p \<in> {''/r'', ''/w'', ''/c''} then Directory else RegularFile), w)"
  "ho_absolute demo_rt_host p" "ho_within demo_rt_host p q = starts_with p q"
  by (simp_all add: demo_rt_host_def)

lemma demo_rt_file: "rt_open demo_runtime_os p w = (Some 3, 0)"
  "rt_metadata demo_runtime_os fd w = (Some (RegularFile, 3), w)"
  by (simp_all add: demo_runtime_os_def)

lemma demo_digest_file: "digest_file demo_deps demo_runtime_os p w = (Inr (sha256_digest demo_deps ''exe''), 1)"
proof -
  have "digest_loop demo_runtime_os 3 ''exe'' 1 = (Inr ''exe'', 1)"
    by (subst digest_loop.simps) (simp add: demo_runtime_os_def)
  then have "digest_loop demo_runtime_os 3 [] 0 = (Inr ''exe'', 1)"
    by (subst digest_loop.simps) (simp add: demo_runtime_os_def rt_max_identity_bytes_def)
  then show ?thesis
    using demo_rt_file
    by (simp add: digest_file_def bindW_def callE_def ensure_def liftW_def returnW_def
        rt_max_identity_bytes_def)
qed

lemma demo_runtime_request_ok: "rt_request_ok ''linux-x64'' demo_runtime_request"
proof -
  have "rt_plugin_id ''com.example.a''" by code_simp
  moreover have "rt_attempt_id demo_attempt"
    by (simp add: demo_attempt_def rt_attempt_id_def starts_with_def lower_hex_def is_hexdigit_def
        is_upper_def list_all_iff)
  moreover have "rt_digest (sha256_digest demo_deps x)" for x
    using demo_deps_laws(1) by (simp add: rt_digest_eq)
  moreover have "rt_release_id (release_id demo_deps a b c e)" for a b c e
    using demo_deps_laws(1) by (simp add: rt_release_id_eq)
  ultimately show ?thesis
    by (simp add: rt_request_ok_def demo_runtime_request_def rt_schema_version_def
        rt_max_deadline_ms_def rt_max_memory_bytes_def rt_max_stdout_bytes_def
        rt_max_stderr_bytes_def rt_max_arguments_def rt_max_argument_bytes_def)
qed

lemma demo_runtime_run:
  "\<exists>resp ob w'. runtime_run demo_deps (\<lambda>_. Some demo_runtime_request) demo_runtime_os
     (linux_runtime demo_deps demo_runtime_os demo_rt_kernel X86_64) 0 = (Inr resp, w')
     \<and> rr_observation resp = Some ob"
proof -
  let ?v = "\<lparr>vr_request = demo_runtime_request, vr_executable = ''/r/p'', vr_release = ''/r'',
    vr_work = ''/w'', vr_input = ''in''\<rparr>"
  have host: "rt_host demo_runtime_os = demo_rt_host" "rt_env demo_runtime_os n w = (Some ''/c'', w)"
    "rt_stdin demo_runtime_os m w = (Some ''{}'', w)" for n m w
    by (simp_all add: demo_runtime_os_def)
  have "b64_decode demo_deps (rq_input demo_runtime_request) = Some ''in''"
    using demo_deps_laws(2) by (simp add: demo_runtime_request_def base64_roundtrip_def)
  moreover have fields: "rq_executable_path demo_runtime_request = ''/r/p''"
    "rq_release_path demo_runtime_request = ''/r''" "rq_work_path demo_runtime_request = ''/w''"
    "rq_artifact_digest demo_runtime_request = sha256_digest demo_deps ''exe''"
    "rq_package_digest demo_runtime_request = sha256_digest demo_deps ''exe''"
    by (simp_all add: demo_runtime_request_def)
  moreover have "rt_canonical_file demo_runtime_os ''/r/p'' w = (Inr ''/r/p'', w)"
    "rt_canonical_directory demo_runtime_os ''/r'' w = (Inr ''/r'', w)"
    "rt_canonical_directory demo_runtime_os ''/w'' w = (Inr ''/w'', w)" for w
    by (simp_all add: rt_canonical_file_def rt_canonical_directory_def bindW_def callE_def readW_def
        ensure_def liftW_def returnW_def host demo_rt_calls)
  ultimately have v: "rt_validate demo_deps demo_runtime_os ''linux-x64'' demo_runtime_request 0 = (Inr ?v, 1)"
    using demo_runtime_request_ok
    by (simp add: rt_validate_def Let_def bindW_def ensure_def liftW_def returnW_def host
        demo_rt_calls demo_digest_file rt_max_input_bytes_def starts_with_def)
  have "\<exists>c. linux_config_new demo_deps demo_rt_host ''/r/p'' ''/c'' ''/w'' ''/c'' linux_runtime_environment
      runtime_engine 1 = (Inr c, 1)"
    using runtime_engine_ok validate_engines(1) [of runtime_engine] linux_runtime_environment_ok
    by (simp add: linux_config_new_def linux_canonical_def bindW_def callE_def ensure_def liftW_def
        returnW_def demo_rt_calls starts_with_def)
  then obtain c where c: "linux_config_new demo_deps demo_rt_host ''/r/p'' ''/c'' ''/w'' ''/c''
      linux_runtime_environment runtime_engine 1 = (Inr c, 1)" by blast
  have "linux_runtime_execute demo_deps demo_runtime_os demo_rt_kernel ?v 1
      = (Inr (native_result_of ''com.tokensaver.native-runtime.linux'' (lc_policy_digest c)
          demo_kernel_observation), 1)"
    by (simp add: linux_runtime_execute_def required_resource_def bindW_def callE_def readW_def
        ensure_def liftW_def returnW_def map_errW_def host demo_rt_calls c [simplified] demo_rt_kernel_def
        starts_with_def)
  moreover have "rp_key (linux_runtime demo_deps demo_runtime_os demo_rt_kernel X86_64) = ''linux-x64''"
    "rp_execute (linux_runtime demo_deps demo_runtime_os demo_rt_kernel X86_64)
      = linux_runtime_execute demo_deps demo_runtime_os demo_rt_kernel"
    by (simp_all add: linux_runtime_def runtime_platform_key_def Let_def)
  moreover have "rq_operation demo_runtime_request \<noteq> ''deprovision''"
    by (simp add: demo_runtime_request_def)
  ultimately show ?thesis
    using v by (simp add: runtime_run_def bindW_def callE_def ensure_def liftW_def returnW_def host
        rt_max_request_bytes_def ok_response_def)
qed

section \<open>Properties\<close>

text \<open>C24: the runtime host runs what was asked and identified, once: when it answers with an
  observation, the resolutions, reads, commands and process executions of its run, in order, are
  exactly these. It reads the request, complete within its bound; resolves the executable, the
  release and the work path of the request, in this order; opens the executable and reads it to its
  end, with the digest of the request, and then the package of the release, likewise; then come the
  resources of the platform, the paths its configuration resolves, the preflight, and one process,
  with the executable, the directories and the environment of the configuration the constructor
  returned in this run and the arguments, the input, the limits and the deadline of the request.
  Nothing follows, and the observation is of that process, with the policy digest of that
  configuration. The identifiers of the request are ones the workbench accepts, its limits are
  bounded, and the executable lies in the release and apart from the working directory.\<close>
theorem runtime_runs_what_was_identified:
  assumes "runtime_run d parse ro (platform_of d ro a k) w = (Inr resp, w')"
    and "rr_observation resp = Some ob"
  shows "\<exists>raw q v nr files ran.
      runtime_run d parse (watched_os ro) (platform_of d (watched_os ro) a (watched_system k)) (w, [])
        = (Inr resp, (w', [Requested raw] @ files @ ran))
    \<and> parse raw = Some q \<and> length raw \<le> 41943040 \<and> rq_operation q = ''execute''
    \<and> checked_request d ro (rp_key (platform_of d ro a k)) q v
    \<and> identifying d ro v files \<and> kernel_ran d ro k v nr ran
    \<and> ob = runtime_observation_of d q nr"
proof -
  from shadows_run [OF shadows_runtime_run assms(1), of "[]"] obtain es where
    es: "runtime_run d parse (watched_os ro) (platform_of d (watched_os ro) a (watched_system k)) (w, [])
      = (Inr resp, (w', es))" by blast
  from runtime_run_events [OF es assms(2)] es show ?thesis by metis
qed

theorem runtime_runs_what_was_identified_witness:
  "\<exists>v nr files ran. vr_request v = demo_runtime_request
     \<and> identifying demo_deps demo_runtime_os v files \<and> linux_ran demo_deps demo_runtime_os v nr ran"
proof -
  obtain resp ob w' where run: "runtime_run demo_deps (\<lambda>_. Some demo_runtime_request) demo_runtime_os
     (platform_of demo_deps demo_runtime_os X86_64 (LinuxSystem demo_rt_kernel)) 0 = (Inr resp, w')"
    "rr_observation resp = Some ob"
    using demo_runtime_run by auto
  from runtime_runs_what_was_identified [OF run] show ?thesis
    by (auto simp: checked_request_def)
qed

end
