(* ===== verification/Spec2Isabelle.thy ===== *)
theory Spec2Isabelle
  imports Manifest Evidence Sdk_Serve Sdk_Context_Serve Pipeline Campaign Rollback Release Corpus
    Enterprise Packages Catalogs Native Retrieval Runtime_Review
begin

text \<open>
  A model of the TokenSaver plugin SDK: the TSPP protocol servers of the Rust SDK
  (sdk/rust/tokensaver-plugin), the workbench (tools/tsp) with its packaging, testing, benchmarking and
  certification code, the fuzz worker (tools/tsp-certification-worker), the confined executor
  (tools/tsp-certification-confinement) with its three native drivers
  (tools/tsp-certification-confinement-linux, -macos and -windows), the HTTPS evidence source
  (tools/tsp-certification-host), and the sidecar that runs plugins in the product
  (tools/tsp-runtime-host).

  How the parts interact. A plugin is a process that speaks framed JSON-RPC; the SDK's
  \<open>serve\<close> runs an optimizer behind that protocol (Sdk_Serve), and a second server runs a
  context service (Sdk_Context_Serve). The workbench resolves a plugin's manifest and executable
  (Manifest) and talks to the process through its own writer and reader (Host, Session): it validates
  the protocol behaviour (Workbench), compares golden cases (Fixtures, Golden) and measures savings and
  latency (Bench_Runner). A plugin's knowledge records are sealed and checked (Superec), it is packed
  into an archive with a report (Zip, Package), and packages are listed in a catalog (Catalog). The
  release id (Identity) ties manifest and executable together and is the subject of a certification.
  Seven evaluators turn evidence into stage documents: benchmark (Benchmark), protocol fuzzing (Fuzz),
  bill of materials and licences (Supply), reproducible builds (Reproducible), the signed artifact
  (Artifact) and the policy metadata (Admin). The fuzz report is the worker's (Worker), whose executor
  runs each input in a confined process (Confinement) through a native driver (Linux_Driver,
  Macos_Driver, Windows_Driver). The pipeline checks the stage documents and assembles the report
  (Stage); an issuer signs the digest of a report in an envelope and publishes revocation lists
  (Issuer); a verifier fetches the evidence (Https), decides with its trust store whether it is accepted
  (Trust), and records the revocation sequence so that no older list is accepted later (Distribution).
  In the product, a sidecar checks a request against the files of the release and runs it by the kernel
  of the same drivers (Runtime, Runtime_Platform).

  Conventions. A byte string is a \<^typ>\<open>char list\<close>, an unsigned integer of the source a
  word of its width, a length a natural number; \<^verbatim>\<open>u128\<close> arithmetic is over
  naturals. A \<^verbatim>\<open>Result<T, ValidationError>\<close> is \<^typ>\<open>'a res\<close>: an
  error carries the stable code of the source (its messages are never inspected by the code), and
  \<open>Panic\<close> is a Rust panic. A struct is a record, an enum a datatype, both with the source's
  fields and constructors under a prefix of their own. A \<^verbatim>\<open>BTreeMap\<close> is a list
  of pairs in key order. Operations on files, processes, clocks and networks are calls that thread a
  world (Effects), in the order the code makes them.

  Parameters. Code that is not in the repository is an argument of the definitions that use it: sha2,
  base64, ed25519-dalek and serde_json are the fields of the record \<open>deps\<close> and the typed
  parse and print functions of the codecs; the file system is a record of calls (\<open>host\<close>,
  \<open>file_ops\<close>, \<open>dir_ops\<close>, \<open>tree_os\<close>, \<open>host_os\<close>) or,
  for the rollback store, a concrete state with fault points; optimizer, context service, peer process,
  fuzz executor, confinement kernel, oracle, clock, url parser and HTTP client are functions on a state.
  What a theorem needs of them is a named hypothesis (\<open>sha256_length\<close>,
  \<open>base64_roundtrip\<close>, \<open>transported\<close>, \<open>clocks_agree\<close>,
  \<open>marker_law\<close>, \<open>path_writer_law\<close>), and each theorem with hypotheses has a
  witness at concrete values. Nothing depends on SHA-256 being injective: where binding is stated, it is
  equality of hashes or of the hashed texts.

  Theories. Prelude (integers, results, ASCII, ordered lists), Text (UTF-8, printing), Encoding (prefix
  codes: big-endian integers and length-prefixed fields), Effects (computations on a world, logs of
  calls), Json and Deps hold what the components share. Components, with the file of tools/tsp/src they
  model unless another is named: Framing, Sdk_Protocol, Sdk_Serve (the SDK's protocol.rs, model.rs);
  Sdk_Context, Sdk_Context_Serve (the SDK's context.rs, context_json.rs); Identity (identity.rs);
  Manifest (manifest.rs); Host, Session, Workbench (protocol.rs); Fixtures (fixtures.rs); Bench_Runner
  (bench.rs), with Bench_Accounting for the exactness of its sums; Canonical, Superec (superec.rs); Zip,
  Package (package.rs), with Zip_Reader as a reader of archives for the round trip; Catalog
  (catalog.rs); Certification (certification.rs); Stage, Benchmark (certification_pipeline.rs, with the
  exact rationals of Float64 for its floating-point comparison); Fuzz (certification_fuzz.rs); Supply
  (certification_supply_chain.rs); Reproducible (certification_reproducible.rs); Artifact
  (certification_artifact.rs); Admin (certification_admin.rs); Trust (certification_trust.rs); Issuer
  (certification_issuer.rs); Distribution (certification_distribution.rs); Worker, Confinement,
  Linux_Driver, Macos_Driver, Windows_Driver and Https (the lib.rs, or the driver's file, of their
  crates); Runtime (main.rs of the sidecar) and Runtime_Platform (its platform.rs). Conformance, Golden,
  Corpus, Packages, Catalogs, Supply_Review, Reproducible_Review, Artifact_Review, Package_Review,
  Catalog_Review, Evidence, Pipeline, Campaign, Release, Enterprise, Rollback, Drivers, Native,
  Retrieval and Runtime_Review hold the lemmas and properties of these groups with their concrete data.

  What the lemmas show. Of the protocol: the servers over bytes refine the runs over messages, always
  return, gate every method and never let unsafe content out; a plugin built on the SDK passes the
  workbench's validation, and test and fixture runs decide exactly what they should. Of archives and
  catalogs: a packed plugin reads back as its files, and reports, packages and catalog entries agree. Of
  the stages: each evaluator is equal to, or sound for, a reference statement of what it certifies,
  produces well-formed documents and never panics, and an assembled report is exactly what the stage
  documents imply. Of trust: what is accepted was signed by a pinned key for the same subject and is not
  revoked, what is issued verifies, accepted sequences never fall, and every fetched document came
  complete from its endpoint. Of confinement: the drivers run the certified executable under the policy
  that the digest names, and the executor fails closed; the sidecar runs exactly the execution that was
  requested and identified.

  Interfaces. \<open>framing\<close> (a writer and a reader of frames; a server loop over bytes refines
  the run over messages, and returns) is interpreted for the v1 and the v2 reader;
  \<open>prefix_code\<close> (encodings whose concatenations are unambiguous) for integers, fields,
  revocation entries, canonical JSON strings and artifact identities; \<open>stage_producer\<close> (a
  stage evaluator meets the contract the assembly relies on) for all seven evaluators;
  \<open>fail_closed_executor\<close> and its extension \<open>pinned_executor\<close> for the confined
  executor, on whose contract the worker's accounting rests; \<open>confined_driver\<close> (a driver
  keeps the promises the confinement adapter checks) for the Linux, the macOS and the Windows driver.

  Bounds and loops. The server loops are \<open>partial_function (option)\<close>, since they end with
  their input; \<open>sdk_serve_returns\<close> and the refinement theorems show that they always
  return. The binary search, the readers, the worklists and the sidecar's hashing loop terminate by
  measures; the campaign loop is structural in the number of repetitions left. One model is bounded by
  fuel: \<open>collect_tree\<close> follows directories to a depth that stands for the size of the
  stack, and running out of it is the abort of a stack overflow; its theorems hold for every depth.

  Not modelled. The kernels behind the confinement drivers (namespaces, seccomp, sandbox and Win32
  calls) and the supervision of the plugin process are operating-system effects, parameters of the
  models; serde's parsing of typed documents is a parameter, with its strictness about duplicate keys
  modelled in Json. The command line (lib.rs, main.rs) dispatches and prints; the scaffolding writes
  fixed template texts; the examples and the SDKs in other languages repeat the protocol modelled here
  for the Rust SDK.
\<close>

end
